(* ===== verification/Setad_Prelude.thy ===== *)
theory Setad_Prelude
  imports Main
begin

text \<open>
  Shared prelude of the development: the service monad in which every service function of the
  platform is written, the exceptions those functions raise, the model of a Django model table
  with soft deletion (\<^verbatim>\<open>src/apps/core/models.py\<close>, \<^verbatim>\<open>src/apps/core/managers.py\<close>), and the string
  helpers of the Python runtime that the services use.

  A service is a function from the database state to an outcome and a new state. An exception is
  the outcome \<^term>\<open>Inl e\<close>; it carries the state reached so far, so that only the code inside
  a \<^verbatim>\<open>transaction.atomic\<close> block is rolled back and the blocks committed before it stay.
\<close>

section \<open>Exceptions\<close>

text \<open>
  One constructor per exception class that the modelled services raise or let through; the subclasses of
  \<open>LMSServiceError\<close> have a type of their own. The user-visible message of an exception is not modelled.
\<close>

datatype (plugins only: code) lms_exn =
    LMSProfileIncomplete | CourseNotEnrollabe | CourseInvalidState | EnrollmentNotActive | LessonNotInEnrollmentCourse
  | LessonMediaAccess | LessonMediaUnavailable | LessonCompletionMode | LessonMediaEngagementRequired
  | VideoProcessingJob | LMSDiscussionAccess | LMSDiscussionModeration | LMSDiscussionReply | LessonSequenceLocked
  | QuizNotAvailable | QuizValidation | QuizAttemptLocked | QuizNotReady | QuizAttemptSubmission | CertificateIssue

datatype (plugins only: code) exn =
    DoesNotExist | MultipleObjectsReturned | IntegrityError | ValidationError | PermissionError | ValueError | KeyError
  | MadadkarServiceError
  | SponsorInUseError | SponsorInvalidDataError
  | CampaignInvalidStateError | CampaignFieldLockedError | CampaignInvalidDataError
  | CampaignNotAcceptingSharesError | InsufficientSharesError | InvalidShareCountError
  | PaymentGatewayError | PaymentNotFoundError | PaymentAmountMismatchError
  | RefundWorkflowError | FinancialAdjustmentWorkflowError | DisbursementWorkflowError
  | UnknownPaymentProviderError | ZarinpalNotConfiguredError | ProviderException
  | NotificationServiceError
  | AuditLogImmutableError | AuditLogChainContentionError | AuditChainVerificationError
  | OTPCooldownActive int | OTPNotFound | OTPExpired | OTPInvalidCode | OTPTooManyAttempts | OTPDeliveryError
  | OTPProviderException
  | AuthServiceError | IdentifierAlreadyExists | IdentifierNotFound | InvalidCredentials | AccountNotVerified
  | AccountInactive | OTPServiceError | IdentifierAlreadyVerified | IdentifierChannelAlreadyOccupied
  | IdentifierNotAttached | IdentifierNotVerified
  | SupportDeskServiceError | SupportPermissionError | SupportTicketStateError | SupportTaxonomyTreeError
  | OverflowError | RecursionError | ZoneInfoNotFoundError | TypeError
  | LMSServiceError lms_exn

section \<open>The service monad\<close>

type_synonym ('s, 'a) svc = "'s \<Rightarrow> (exn + 'a) \<times> 's"

definition ret :: "'a \<Rightarrow> ('s, 'a) svc" where
  "ret x = (\<lambda>s. (Inr x, s))"

definition raise :: "exn \<Rightarrow> ('s, 'a) svc" where
  "raise e = (\<lambda>s. (Inl e, s))"

definition bnd :: "('s, 'a) svc \<Rightarrow> ('a \<Rightarrow> ('s, 'b) svc) \<Rightarrow> ('s, 'b) svc" where
  "bnd m f = (\<lambda>s. case m s of (Inl e, t) \<Rightarrow> (Inl e, t) | (Inr x, t) \<Rightarrow> f x t)"

definition seqn :: "('s, 'a) svc \<Rightarrow> ('s, 'b) svc \<Rightarrow> ('s, 'b) svc" where
  "seqn m k = bnd m (\<lambda>_. k)"

definition gets :: "('s \<Rightarrow> 'a) \<Rightarrow> ('s, 'a) svc" where
  "gets f = (\<lambda>s. (Inr (f s), s))"

definition modify :: "('s \<Rightarrow> 's) \<Rightarrow> ('s, unit) svc" where
  "modify f = (\<lambda>s. (Inr (), f s))"

text \<open>\<^verbatim>\<open>if not p: raise e\<close>\<close>

definition check :: "bool \<Rightarrow> exn \<Rightarrow> ('s, unit) svc" where
  "check p e = (if p then ret () else raise e)"

text \<open>\<^verbatim>\<open>transaction.atomic\<close>: an exception that leaves the block restores the state at its start.\<close>

definition atomic :: "('s, 'a) svc \<Rightarrow> ('s, 'a) svc" where
  "atomic m = (\<lambda>s. case m s of (Inl e, _) \<Rightarrow> (Inl e, s) | (Inr x, t) \<Rightarrow> (Inr x, t))"

text \<open>\<^verbatim>\<open>try: m except: h\<close> (the state reached by \<open>m\<close> is kept) and a \<open>for\<close> loop over a list.\<close>

definition try_svc :: "('s, 'a) svc \<Rightarrow> (exn \<Rightarrow> ('s, 'a) svc) \<Rightarrow> ('s, 'a) svc" where
  "try_svc m h = (\<lambda>s. case m s of (Inl e, t) \<Rightarrow> h e t | (Inr x, t) \<Rightarrow> (Inr x, t))"

fun for_each :: "'b list \<Rightarrow> ('b \<Rightarrow> ('s, 'a) svc) \<Rightarrow> ('s, 'a list) svc" where
  "for_each [] f = ret []"
| "for_each (x # xs) f = bnd (f x) (\<lambda>y. bnd (for_each xs f) (\<lambda>ys. ret (y # ys)))"

text \<open>The state left behind by a call, whatever its outcome.\<close>

definition state_after :: "('s, 'a) svc \<Rightarrow> 's \<Rightarrow> 's" where
  "state_after m s = snd (m s)"

section \<open>Django model tables\<close>

text \<open>
  \<open>BaseModel\<close>: every row carries its primary key, two timestamps and the soft-delete flag. A
  table is the list of its rows in insertion order. Times are integers (seconds since the epoch).
\<close>

record 'v row =
  row_pk :: nat
  created_at :: int
  updated_at :: int
  is_active :: bool
  vals :: 'v

type_synonym 'v table = "'v row list"

text \<open>\<open>objects\<close> is the \<open>ActiveManager\<close>; the bare table is \<open>all_objects\<close>.\<close>

definition objects :: "'v table \<Rightarrow> 'v table" where
  "objects t = filter is_active t"

definition tbl_all :: "nat \<Rightarrow> 'v table \<Rightarrow> 'v row option" where
  "tbl_all k t = find (\<lambda>r. row_pk r = k) t"

definition tbl_get :: "nat \<Rightarrow> 'v table \<Rightarrow> 'v row option" where
  "tbl_get k t = tbl_all k (objects t)"

text \<open>The key sequence: a key greater than every key in the table.\<close>

definition next_pk :: "'v table \<Rightarrow> nat" where
  "next_pk t = Suc (fold max (map row_pk t) 0)"

definition new_row :: "int \<Rightarrow> 'v \<Rightarrow> 'v table \<Rightarrow> 'v row" where
  "new_row now v t = \<lparr>row_pk = next_pk t, created_at = now, updated_at = now, is_active = True, vals = v\<rparr>"

definition tbl_insert :: "int \<Rightarrow> 'v \<Rightarrow> 'v table \<Rightarrow> 'v table" where
  "tbl_insert now v t = t @ [new_row now v t]"

text \<open>\<open>save(update_fields=[..., "updated_at"])\<close> on one row: the listed fields are written, the
  others are left as the database has them.\<close>

definition tbl_upd :: "nat \<Rightarrow> int \<Rightarrow> ('v \<Rightarrow> 'v) \<Rightarrow> 'v table \<Rightarrow> 'v table" where
  "tbl_upd k now f t =
     map (\<lambda>r. if row_pk r = k then r\<lparr>updated_at := now, vals := f (vals r)\<rparr> else r) t"

definition tbl_set_active :: "nat \<Rightarrow> int \<Rightarrow> bool \<Rightarrow> 'v table \<Rightarrow> 'v table" where
  "tbl_set_active k now b t =
     map (\<lambda>r. if row_pk r = k then r\<lparr>updated_at := now, is_active := b\<rparr> else r) t"

text \<open>Aggregates over a queryset; \<open>Sum\<close> over no row is \<open>None\<close> and every caller reads it as 0.\<close>

definition agg_sum :: "('v row \<Rightarrow> int) \<Rightarrow> ('v row \<Rightarrow> bool) \<Rightarrow> 'v table \<Rightarrow> int" where
  "agg_sum f p t = sum_list (map f (filter p t))"

definition agg_count :: "('v row \<Rightarrow> bool) \<Rightarrow> 'v table \<Rightarrow> nat" where
  "agg_count p t = length (filter p t)"

definition agg_count_distinct :: "('v row \<Rightarrow> 'k) \<Rightarrow> ('v row \<Rightarrow> bool) \<Rightarrow> 'v table \<Rightarrow> nat" where
  "agg_count_distinct f p t = length (remdups (map f (filter p t)))"

text \<open>\<open>first()\<close> of a queryset ordered by \<open>-created_at\<close>: the newest match, the later row on a tie.\<close>

fun newest :: "'v row option \<Rightarrow> 'v table \<Rightarrow> 'v row option" where
  "newest best [] = best"
| "newest best (r # rs) =
     (case best of
        None \<Rightarrow> newest (Some r) rs
      | Some b \<Rightarrow> newest (if created_at b \<le> created_at r then Some r else Some b) rs)"

definition first_newest :: "('v row \<Rightarrow> bool) \<Rightarrow> 'v table \<Rightarrow> 'v row option" where
  "first_newest p t = newest None (filter p t)"

text \<open>\<open>Model.objects.get(pk=k)\<close> and the access of a foreign key, which ignores \<open>is_active\<close>.\<close>

definition fetch :: "('s \<Rightarrow> 'v table) \<Rightarrow> nat \<Rightarrow> ('s, 'v row) svc" where
  "fetch tab k = (\<lambda>s. case tbl_get k (tab s) of None \<Rightarrow> (Inl DoesNotExist, s) | Some r \<Rightarrow> (Inr r, s))"

definition follow :: "('s \<Rightarrow> 'v table) \<Rightarrow> nat \<Rightarrow> ('s, 'v row) svc" where
  "follow tab k = (\<lambda>s. case tbl_all k (tab s) of None \<Rightarrow> (Inl DoesNotExist, s) | Some r \<Rightarrow> (Inr r, s))"

section \<open>Python strings\<close>

definition is_space :: "char \<Rightarrow> bool" where
  "is_space c = (c \<in> {CHR '' '', CHR 0x09, CHR 0x0A, CHR 0x0B, CHR 0x0C, CHR 0x0D})"

definition strip :: "string \<Rightarrow> string" where
  "strip s = rev (dropWhile is_space (rev (dropWhile is_space s)))"

definition lower_char :: "char \<Rightarrow> char" where
  "lower_char c = (if (65 :: nat) \<le> of_char c \<and> of_char c \<le> (90 :: nat) then char_of (of_char c + 32 :: nat) else c)"

definition lower :: "string \<Rightarrow> string" where
  "lower s = map lower_char s"

text \<open>\<open>str(n)\<close> of a natural number and the padded format \<open>f"{n:010d}"\<close>.\<close>

definition digit_char :: "nat \<Rightarrow> char" where
  "digit_char d = char_of (48 + d)"

fun nat_str :: "nat \<Rightarrow> string" where
  "nat_str n = (if n < 10 then [digit_char n] else nat_str (n div 10) @ [digit_char (n mod 10)])"

declare nat_str.simps [simp del]

definition pad_left :: "nat \<Rightarrow> string \<Rightarrow> string" where
  "pad_left w s = replicate (w - length s) (CHR ''0'') @ s"

text \<open>JSON values, for the metadata columns (\<open>JRatio a b\<close> is a float computed as \<open>a / b\<close>), with
  Python's truth value and \<open>str()\<close> of the ones that are read back.\<close>

datatype json = JNull | JBool bool | JInt int | JStr string | JRatio int int

type_synonym json_obj = "(string \<times> json) list"

fun json_truthy :: "json \<Rightarrow> bool" where
  "json_truthy JNull = False"
| "json_truthy (JBool b) = b"
| "json_truthy (JInt i) = (i \<noteq> 0)"
| "json_truthy (JStr s) = (s \<noteq> [])"
| "json_truthy (JRatio a b) = (a \<noteq> 0)"

definition int_str :: "int \<Rightarrow> string" where
  "int_str i = (if i < 0 then CHR ''-'' # nat_str (nat (- i)) else nat_str (nat i))"

fun json_str :: "json \<Rightarrow> string" where
  "json_str JNull = ''None''"
| "json_str (JBool b) = (if b then ''True'' else ''False'')"
| "json_str (JInt i) = int_str i"
| "json_str (JStr s) = s"
| "json_str (JRatio a b) = int_str a @ ''/'' @ int_str b"

text \<open>\<open>str(payload.get(key) or default)\<close>\<close>

definition payload_str :: "json_obj \<Rightarrow> string \<Rightarrow> string \<Rightarrow> string" where
  "payload_str p key dflt =
     (case map_of p key of None \<Rightarrow> dflt | Some v \<Rightarrow> if json_truthy v then json_str v else dflt)"

section \<open>Lemma collections\<close>

named_theorems svc_inv \<open>inversion of a service call that returned a value\<close>
named_theorems svc_defs \<open>definitions of the monad, for evaluating a call\<close>

declare ret_def [svc_defs] raise_def [svc_defs] bnd_def [svc_defs] seqn_def [svc_defs]
  gets_def [svc_defs] modify_def [svc_defs] check_def [svc_defs] atomic_def [svc_defs]
  try_svc_def [svc_defs] fetch_def [svc_defs] follow_def [svc_defs]

section \<open>Monad lemmas\<close>

lemma ret_Inr [svc_inv]: "ret x s = (Inr y, t) \<longleftrightarrow> y = x \<and> t = s"
  by (auto simp: ret_def)

lemma raise_Inr [svc_inv]: "raise e s = (Inr y, t) \<longleftrightarrow> False"
  by (simp add: raise_def)

lemma bnd_Inr [svc_inv]: "bnd m f s = (Inr y, t) \<longleftrightarrow> (\<exists>x u. m s = (Inr x, u) \<and> f x u = (Inr y, t))"
  by (auto simp: bnd_def split: prod.splits sum.splits)

lemma seqn_Inr [svc_inv]: "seqn m k s = (Inr y, t) \<longleftrightarrow> (\<exists>x u. m s = (Inr x, u) \<and> k u = (Inr y, t))"
  by (auto simp: seqn_def bnd_Inr)

lemma gets_Inr [svc_inv]: "gets f s = (Inr y, t) \<longleftrightarrow> y = f s \<and> t = s"
  by (auto simp: gets_def)

lemma modify_Inr [svc_inv]: "modify f s = (Inr y, t) \<longleftrightarrow> t = f s"
  by (auto simp: modify_def)

lemma check_Inr [svc_inv]: "check p e s = (Inr y, t) \<longleftrightarrow> p \<and> t = s"
  by (auto simp: check_def ret_def raise_def)

lemma atomic_Inr [svc_inv]: "atomic m s = (Inr y, t) \<longleftrightarrow> m s = (Inr y, t)"
  by (auto simp: atomic_def split: prod.splits sum.splits)

lemma fetch_Inr [svc_inv]: "fetch tab k s = (Inr r, t) \<longleftrightarrow> tbl_get k (tab s) = Some r \<and> t = s"
  by (auto simp: fetch_def split: option.splits)

lemma follow_Inr [svc_inv]: "follow tab k s = (Inr r, t) \<longleftrightarrow> tbl_all k (tab s) = Some r \<and> t = s"
  by (auto simp: follow_def split: option.splits)

lemma atomic_Inl: "atomic m s = (Inl e, t) \<Longrightarrow> t = s"
  by (auto simp: atomic_def split: prod.splits sum.splits)

lemma atomic_atomic: "atomic (atomic m) = atomic m"
  by (auto simp: atomic_def fun_eq_iff split: prod.split sum.split)

text \<open>The rule for a transaction: what its successful runs keep, the transaction keeps.\<close>

lemma atomic_keeps:
  assumes "P s" and "\<And>y t. m s = (Inr y, t) \<Longrightarrow> P t"
  shows "P (state_after (atomic m) s)"
  using assms by (auto simp: state_after_def atomic_def split: prod.splits sum.splits)

lemma state_after_Inr: "m s = (Inr y, t) \<Longrightarrow> state_after m s = t"
  by (simp add: state_after_def)

text \<open>A transactional call: an error leaves no trace in the database.\<close>

definition transactional :: "('s, 'a) svc \<Rightarrow> bool" where
  "transactional m = (\<forall>s e t. m s = (Inl e, t) \<longrightarrow> t = s)"

lemma transactional_atomic [simp]: "transactional (atomic m)"
  by (simp add: transactional_def atomic_Inl)

lemma transactional_run:
  assumes "transactional m" and "P s" and "\<And>y t. m s = (Inr y, t) \<Longrightarrow> P t"
  shows "P (state_after m s)"
  using assms by (cases "m s"; cases "fst (m s)") (auto simp: transactional_def state_after_def)

text \<open>A call keeps \<open>g\<close> when every outcome leaves \<open>g\<close> of the state as it was: the frame of a
  call, built up along its text.\<close>

definition keeps :: "('s \<Rightarrow> 'g) \<Rightarrow> ('s, 'a) svc \<Rightarrow> bool" where
  "keeps g m = (\<forall>s. g (snd (m s)) = g s)"

named_theorems keeps_rules \<open>frame rules of the service monad\<close>

lemma keeps_ret [keeps_rules]: "keeps g (ret x)"
  by (simp add: keeps_def ret_def)

lemma keeps_raise [keeps_rules]: "keeps g (raise e)"
  by (simp add: keeps_def raise_def)

lemma keeps_gets [keeps_rules]: "keeps g (gets f)"
  by (simp add: keeps_def gets_def)

lemma keeps_check [keeps_rules]: "keeps g (check p e)"
  by (simp add: keeps_def check_def ret_def raise_def)

lemma keeps_fetch [keeps_rules]: "keeps g (fetch tab k)"
  by (simp add: keeps_def fetch_def split: option.split)

lemma keeps_follow [keeps_rules]: "keeps g (follow tab k)"
  by (simp add: keeps_def follow_def split: option.split)

lemma keeps_modify: "(\<And>s. g (f s) = g s) \<Longrightarrow> keeps g (modify f)"
  by (simp add: keeps_def modify_def)

lemma keeps_bnd [keeps_rules]: "keeps g m \<Longrightarrow> (\<And>x. keeps g (f x)) \<Longrightarrow> keeps g (bnd m f)"
  unfolding keeps_def bnd_def by (auto split: prod.splits sum.splits) (metis snd_conv)+

lemma keeps_seqn [keeps_rules]: "keeps g m \<Longrightarrow> keeps g k \<Longrightarrow> keeps g (seqn m k)"
  by (simp add: seqn_def keeps_bnd)

lemma keeps_atomic [keeps_rules]: "keeps g m \<Longrightarrow> keeps g (atomic m)"
  unfolding keeps_def atomic_def by (auto split: prod.splits sum.splits) (metis snd_conv)

lemma keeps_try_svc [keeps_rules]: "keeps g m \<Longrightarrow> (\<And>e. keeps g (h e)) \<Longrightarrow> keeps g (try_svc m h)"
  unfolding keeps_def try_svc_def by (auto split: prod.splits sum.splits) (metis snd_conv)+

lemma keeps_if [keeps_rules]: "keeps g m \<Longrightarrow> keeps g k \<Longrightarrow> keeps g (if b then m else k)"
  by simp

lemma keeps_case_option [keeps_rules]:
  "keeps g m \<Longrightarrow> (\<And>x. keeps g (f x)) \<Longrightarrow> keeps g (case v of None \<Rightarrow> m | Some x \<Rightarrow> f x)"
  by (simp split: option.split)

lemma keeps_for_each [keeps_rules]: "(\<And>x. keeps g (f x)) \<Longrightarrow> keeps g (for_each xs f)"
  by (induction xs) (auto intro!: keeps_rules)

lemma keepsD: "keeps g m \<Longrightarrow> m s = (r, t) \<Longrightarrow> g t = g s"
  by (metis keeps_def snd_conv)

text \<open>A call preserves \<open>P\<close> when every outcome leads from a state with \<open>P\<close> to one with \<open>P\<close>.\<close>

definition preserves :: "('s \<Rightarrow> bool) \<Rightarrow> ('s, 'a) svc \<Rightarrow> bool" where
  "preserves P m = (\<forall>s. P s \<longrightarrow> P (state_after m s))"

named_theorems preserves_rules \<open>preservation rules of the service monad\<close>

lemma preserves_atomic:
  "(\<And>s y t. P s \<Longrightarrow> m s = (Inr y, t) \<Longrightarrow> P t) \<Longrightarrow> preserves P (atomic m)"
  by (simp add: preserves_def atomic_keeps)

lemma preserves_transactional:
  "transactional m \<Longrightarrow> (\<And>s y t. P s \<Longrightarrow> m s = (Inr y, t) \<Longrightarrow> P t) \<Longrightarrow> preserves P m"
  unfolding preserves_def by (intro allI impI transactional_run [where P = P])

lemma preserves_Inr: "preserves P m \<Longrightarrow> m s = (Inr y, t) \<Longrightarrow> P s \<Longrightarrow> P t"
  by (auto simp: preserves_def state_after_def)

lemma preserves_ret [preserves_rules]: "preserves P (ret x)"
  by (simp add: preserves_def state_after_def ret_def)

lemma preserves_raise [preserves_rules]: "preserves P (raise e)"
  by (simp add: preserves_def state_after_def raise_def)

lemma preserves_gets [preserves_rules]: "preserves P (gets f)"
  by (simp add: preserves_def state_after_def gets_def)

lemma preserves_check [preserves_rules]: "preserves P (check b e)"
  by (simp add: preserves_def state_after_def check_def ret_def raise_def)

lemma preserves_bnd [preserves_rules]:
  "preserves P m \<Longrightarrow> (\<And>x. preserves P (f x)) \<Longrightarrow> preserves P (bnd m f)"
  by (auto simp: preserves_def state_after_def bnd_def split: prod.split sum.split)

lemma preserves_seqn [preserves_rules]: "preserves P m \<Longrightarrow> preserves P k \<Longrightarrow> preserves P (seqn m k)"
  by (simp add: seqn_def preserves_bnd)

lemma preserves_follow [preserves_rules]: "preserves P (follow tab k)"
  by (simp add: preserves_def state_after_def follow_def split: option.split)

lemma preserves_if [preserves_rules]: "preserves P m \<Longrightarrow> preserves P k \<Longrightarrow> preserves P (if b then m else k)"
  by simp

lemma preserves_case_option [preserves_rules]:
  "preserves P m \<Longrightarrow> (\<And>x. preserves P (f x)) \<Longrightarrow> preserves P (case v of None \<Rightarrow> m | Some x \<Rightarrow> f x)"
  by (simp split: option.split)

lemma preserves_case_sum [preserves_rules]:
  "(\<And>e. preserves P (g e)) \<Longrightarrow> (\<And>x. preserves P (f x)) \<Longrightarrow> preserves P (case v of Inl e \<Rightarrow> g e | Inr x \<Rightarrow> f x)"
  by (simp split: sum.split)

lemma preserves_try_svc [preserves_rules]:
  "preserves P m \<Longrightarrow> (\<And>e. preserves P (h e)) \<Longrightarrow> preserves P (try_svc m h)"
  by (auto simp: preserves_def state_after_def try_svc_def split: prod.split sum.split)

lemma preserves_for_each [preserves_rules]:
  "(\<And>x. x \<in> set xs \<Longrightarrow> preserves P (f x)) \<Longrightarrow> preserves P (for_each xs f)"
  by (induction xs) (auto intro!: preserves_rules)

lemma state_after_bnd:
  "state_after (bnd m f) s = (case m s of (Inl e, t) \<Rightarrow> t | (Inr x, t) \<Rightarrow> state_after (f x) t)"
  by (simp add: state_after_def bnd_def split: prod.split sum.split)

lemma state_after_seqn:
  "state_after (seqn m k) s = (case m s of (Inl e, t) \<Rightarrow> t | (Inr x, t) \<Rightarrow> state_after k t)"
  by (simp add: seqn_def state_after_bnd)

lemma state_after_seqn_raise: "state_after (seqn m (raise e)) s = state_after m s"
  by (auto simp: state_after_def seqn_def bnd_def raise_def split: prod.split sum.split)

lemma state_after_simps [simp]:
  "state_after (ret x) s = s" "state_after (raise e) s = s" "state_after (gets f) s = s"
  "state_after (check b e) s = s" "state_after (modify h) s = h s"
  by (simp_all add: state_after_def ret_def raise_def gets_def check_def modify_def)

lemma keeps_preserves: "keeps g m \<Longrightarrow> (\<And>s t. g t = g s \<Longrightarrow> P t = P s) \<Longrightarrow> preserves P m"
  unfolding keeps_def preserves_def state_after_def by blast

section \<open>Transition systems\<close>

text \<open>The states reachable from an initial state, and the rule for invariants as an interface: a
  component that shows the two laws gets its invariant at every reachable state.\<close>

inductive reach :: "('s \<Rightarrow> bool) \<Rightarrow> ('s \<Rightarrow> 's \<Rightarrow> bool) \<Rightarrow> 's \<Rightarrow> bool" for init step where
  reach_init: "init s \<Longrightarrow> reach init step s"
| reach_step: "reach init step s \<Longrightarrow> step s t \<Longrightarrow> reach init step t"

locale invariant_system =
  fixes init :: "'s \<Rightarrow> bool" and step :: "'s \<Rightarrow> 's \<Rightarrow> bool" and inv :: "'s \<Rightarrow> bool"
  assumes init_inv: "init s \<Longrightarrow> inv s"
    and step_inv: "inv s \<Longrightarrow> step s t \<Longrightarrow> inv t"
begin

lemma reach_inv: "reach init step s \<Longrightarrow> inv s"
  by (induction rule: reach.induct) (auto intro: init_inv step_inv)

end

text \<open>A relation between the states before and after a call, for any preorder on states.\<close>

definition evolves :: "('s \<Rightarrow> 's \<Rightarrow> bool) \<Rightarrow> ('s, 'a) svc \<Rightarrow> bool" where
  "evolves R m = (\<forall>s. R s (snd (m s)))"

locale evolution =
  fixes R :: "'s \<Rightarrow> 's \<Rightarrow> bool"
  assumes refl: "R s s" and trans: "R s t \<Longrightarrow> R t u \<Longrightarrow> R s u"
begin

lemma e_ret: "evolves R (ret x)"
  by (simp add: evolves_def ret_def refl)

lemma e_raise: "evolves R (raise e)"
  by (simp add: evolves_def raise_def refl)

lemma e_gets: "evolves R (gets f)"
  by (simp add: evolves_def gets_def refl)

lemma e_check: "evolves R (check b e)"
  by (simp add: evolves_def check_def ret_def raise_def refl)

lemma e_fetch: "evolves R (fetch tab k)"
  by (simp add: evolves_def fetch_def refl split: option.split)

lemma e_follow: "evolves R (follow tab k)"
  by (simp add: evolves_def follow_def refl split: option.split)

lemma e_bnd: "evolves R m \<Longrightarrow> (\<And>x. evolves R (f x)) \<Longrightarrow> evolves R (bnd m f)"
  unfolding evolves_def bnd_def by (auto split: prod.split sum.split) (metis snd_conv trans)+

lemma e_seqn: "evolves R m \<Longrightarrow> evolves R k \<Longrightarrow> evolves R (seqn m k)"
  by (simp add: seqn_def e_bnd)

lemma e_atomic: "evolves R m \<Longrightarrow> evolves R (atomic m)"
  unfolding evolves_def atomic_def by (auto split: prod.split sum.split intro: refl) (metis snd_conv)

lemma e_try: "evolves R m \<Longrightarrow> (\<And>e. evolves R (h e)) \<Longrightarrow> evolves R (try_svc m h)"
  unfolding evolves_def try_svc_def by (auto split: prod.split sum.split) (metis snd_conv trans)+

lemma e_if: "evolves R m \<Longrightarrow> evolves R k \<Longrightarrow> evolves R (if b then m else k)"
  by simp

lemma e_option: "evolves R m \<Longrightarrow> (\<And>x. evolves R (f x)) \<Longrightarrow> evolves R (case v of None \<Rightarrow> m | Some x \<Rightarrow> f x)"
  by (simp split: option.split)

lemma e_sum: "(\<And>e. evolves R (g e)) \<Longrightarrow> (\<And>x. evolves R (f x)) \<Longrightarrow> evolves R (case v of Inl e \<Rightarrow> g e | Inr x \<Rightarrow> f x)"
  by (simp split: sum.split)

lemma e_for_each: "(\<And>x. evolves R (f x)) \<Longrightarrow> evolves R (for_each xs f)"
  by (induction xs) (auto intro!: e_ret e_bnd)

lemma e_keeps: "keeps g m \<Longrightarrow> (\<And>s t. g t = g s \<Longrightarrow> R s t) \<Longrightarrow> evolves R m"
  by (simp add: keeps_def evolves_def)

lemmas e_rules = e_ret e_raise e_gets e_check e_fetch e_follow e_bnd e_seqn e_atomic e_try e_if e_option e_sum e_for_each

end

section \<open>Table lemmas\<close>

lemma objects_append [simp]: "objects (t @ u) = objects t @ objects u"
  by (simp add: objects_def)

lemma objects_new_row [simp]: "objects [new_row now v t] = [new_row now v t]"
  by (simp add: objects_def new_row_def)

lemma tbl_all_Some: "tbl_all k t = Some r \<Longrightarrow> r \<in> set t \<and> row_pk r = k"
  by (auto simp: tbl_all_def find_Some_iff)

lemma tbl_get_Some: "tbl_get k t = Some r \<Longrightarrow> r \<in> set t \<and> row_pk r = k \<and> is_active r"
  by (auto simp: tbl_get_def objects_def dest!: tbl_all_Some)

lemma distinct_pk_eq:
  "distinct (map row_pk t) \<Longrightarrow> r \<in> set t \<Longrightarrow> q \<in> set t \<Longrightarrow> row_pk r = row_pk q \<Longrightarrow> r = q"
  by (meson distinct_map inj_onD)

lemma tbl_all_eq:
  "distinct (map row_pk t) \<Longrightarrow> r \<in> set t \<Longrightarrow> tbl_all (row_pk r) t = Some r"
  by (induction t) (auto simp: tbl_all_def)

lemma tbl_get_eq:
  "distinct (map row_pk t) \<Longrightarrow> r \<in> set t \<Longrightarrow> is_active r \<Longrightarrow> tbl_get (row_pk r) t = Some r"
  by (induction t) (auto simp: tbl_get_def tbl_all_def objects_def)

lemma tbl_get_tbl_all:
  "distinct (map row_pk t) \<Longrightarrow> tbl_get k t = Some r \<Longrightarrow> tbl_all k t = Some r"
  by (metis tbl_all_eq tbl_get_Some)

lemma fold_max_ge: "(x \<in> set xs \<longrightarrow> x \<le> fold max xs a) \<and> a \<le> fold max xs (a :: nat)"
  by (induction xs arbitrary: a) (auto intro: order_trans max.cobounded1 max.cobounded2)

lemma next_pk_fresh: "next_pk t \<notin> row_pk ` set t"
proof
  assume "next_pk t \<in> row_pk ` set t"
  then have "next_pk t \<in> set (map row_pk t)" by simp
  then have "next_pk t \<le> fold max (map row_pk t) 0" using fold_max_ge by blast
  then show False by (simp add: next_pk_def)
qed

lemma row_pk_new_row [simp]: "row_pk (new_row now v t) = next_pk t"
  by (simp add: new_row_def)

lemma vals_new_row [simp]: "vals (new_row now v t) = v"
  by (simp add: new_row_def)

lemma is_active_new_row [simp]: "is_active (new_row now v t)"
  by (simp add: new_row_def)

lemma created_at_new_row [simp]: "created_at (new_row now v t) = now"
  by (simp add: new_row_def)

lemma map_row_pk_tbl_upd [simp]: "map row_pk (tbl_upd k now f t) = map row_pk t"
  by (simp add: tbl_upd_def)

lemma map_row_pk_tbl_set_active [simp]: "map row_pk (tbl_set_active k now b t) = map row_pk t"
  by (simp add: tbl_set_active_def)

lemma row_pk_image_tbl_upd [simp]: "row_pk ` set (tbl_upd k now f t) = row_pk ` set t"
  by (metis list.set_map map_row_pk_tbl_upd)

lemma distinct_tbl_insert [simp]:
  "distinct (map row_pk (tbl_insert now v t)) \<longleftrightarrow> distinct (map row_pk t)"
  using next_pk_fresh [of t] by (auto simp: tbl_insert_def)

lemma set_tbl_insert: "set (tbl_insert now v t) = insert (new_row now v t) (set t)"
  by (simp add: tbl_insert_def)

lemma tbl_all_None_iff: "tbl_all k t = None \<longleftrightarrow> k \<notin> row_pk ` set t"
  by (auto simp: tbl_all_def find_None_iff)

lemma tbl_all_snoc:
  "tbl_all k (t @ [x]) = (case tbl_all k t of None \<Rightarrow> (if row_pk x = k then Some x else None) | Some r \<Rightarrow> Some r)"
  by (induction t) (auto simp: tbl_all_def)

lemma tbl_all_insert:
  "tbl_all k (tbl_insert now v t) =
     (if k = next_pk t then Some (new_row now v t) else tbl_all k t)"
proof (cases "k = next_pk t")
  case True
  then have "tbl_all k t = None" by (simp add: tbl_all_None_iff next_pk_fresh)
  with True show ?thesis by (simp add: tbl_insert_def tbl_all_snoc)
next
  case False
  then show ?thesis by (simp add: tbl_insert_def tbl_all_snoc split: option.split)
qed

lemma tbl_all_map: "(\<And>r. row_pk (g r) = row_pk r) \<Longrightarrow> tbl_all k (map g t) = map_option g (tbl_all k t)"
  by (induction t) (auto simp: tbl_all_def)

lemma objects_tbl_upd: "objects (tbl_upd k now f t) = tbl_upd k now f (objects t)"
  by (induction t) (auto simp: objects_def tbl_upd_def)

lemma objects_tbl_insert: "objects (tbl_insert now v t) = objects t @ [new_row now v t]"
  by (simp add: tbl_insert_def)

lemma tbl_all_upd:
  "tbl_all j (tbl_upd k now f t) =
     map_option (\<lambda>r. if j = k then r\<lparr>updated_at := now, vals := f (vals r)\<rparr> else r) (tbl_all j t)"
  by (induction t) (auto simp: tbl_all_def tbl_upd_def)

lemma tbl_get_upd:
  "tbl_get j (tbl_upd k now f t) =
     map_option (\<lambda>r. if j = k then r\<lparr>updated_at := now, vals := f (vals r)\<rparr> else r) (tbl_get j t)"
  by (simp add: tbl_get_def objects_tbl_upd tbl_all_upd)

lemma set_tbl_upd:
  "set (tbl_upd k now f t) =
     (\<lambda>r. if row_pk r = k then r\<lparr>updated_at := now, vals := f (vals r)\<rparr> else r) ` set t"
  by (simp add: tbl_upd_def)

text \<open>Aggregates: as sums over the whole table, after an insert and after an update.\<close>

lemma agg_sum_alt: "agg_sum f p t = sum_list (map (\<lambda>r. if p r then f r else 0) t)"
  by (induction t) (auto simp: agg_sum_def)

lemma agg_sum_append [simp]: "agg_sum f p (t @ u) = agg_sum f p t + agg_sum f p u"
  by (simp add: agg_sum_def)

lemma agg_sum_single [simp]: "agg_sum f p [r] = (if p r then f r else 0)"
  by (simp add: agg_sum_def)

lemma agg_sum_Nil [simp]: "agg_sum f p [] = 0"
  by (simp add: agg_sum_def)

lemma agg_sum_cong:
  "(\<And>r. r \<in> set t \<Longrightarrow> (if p r then f r else 0) = (if q r then g r else 0)) \<Longrightarrow> agg_sum f p t = agg_sum g q t"
  unfolding agg_sum_alt by (rule arg_cong [where f = sum_list]) (rule map_cong, auto)

lemma agg_sum_nonneg: "(\<And>r. r \<in> set t \<Longrightarrow> p r \<Longrightarrow> 0 \<le> f r) \<Longrightarrow> 0 \<le> agg_sum f p t"
  unfolding agg_sum_def by (rule sum_list_nonneg) auto

lemma agg_sum_tbl_upd:
  assumes "distinct (map row_pk t)"
  shows "agg_sum f p (tbl_upd k now h t) = agg_sum f p t +
     (case tbl_all k t of None \<Rightarrow> 0
      | Some r \<Rightarrow> (let r' = r\<lparr>updated_at := now, vals := h (vals r)\<rparr>
                  in (if p r' then f r' else 0) - (if p r then f r else 0)))"
  using assms
proof (induction t)
  case Nil
  then show ?case by (simp add: tbl_upd_def tbl_all_def)
next
  case (Cons a t)
  show ?case
  proof (cases "row_pk a = k")
    case True
    with Cons.prems have "\<forall>r \<in> set t. row_pk r \<noteq> k" by (auto simp: image_iff)
    then have "tbl_upd k now h t = t" by (auto simp: tbl_upd_def intro: map_idI)
    with True show ?thesis by (simp add: tbl_upd_def tbl_all_def agg_sum_def)
  next
    case False
    with Cons show ?thesis by (simp add: tbl_upd_def tbl_all_def agg_sum_def)
  qed
qed

lemma agg_sum_tbl_upd_same:
  assumes "\<And>r. r \<in> set t \<Longrightarrow> row_pk r = k \<Longrightarrow>
     (if p (r\<lparr>updated_at := now, vals := h (vals r)\<rparr>) then f (r\<lparr>updated_at := now, vals := h (vals r)\<rparr>) else 0) =
     (if p r then f r else 0)"
  shows "agg_sum f p (tbl_upd k now h t) = agg_sum f p t"
proof -
  let ?w = "\<lambda>r. if p r then f r else 0"
  have "?w (if row_pk r = k then r\<lparr>updated_at := now, vals := h (vals r)\<rparr> else r) = ?w r"
    if "r \<in> set t" for r
    using assms [OF that] by (cases "row_pk r = k") (simp_all split: if_split_asm)
  then show ?thesis
    unfolding agg_sum_alt tbl_upd_def map_map comp_def by (simp only: cong: map_cong)
qed

lemma filter_tbl_upd_same:
  assumes "\<And>r. r \<in> set t \<Longrightarrow> row_pk r = k \<Longrightarrow> \<not> p r \<and> \<not> p (r\<lparr>updated_at := now, vals := h (vals r)\<rparr>)"
  shows "filter p (tbl_upd k now h t) = filter p t"
  using assms by (induction t) (auto simp: tbl_upd_def)

lemma distinct_objects: "distinct (map row_pk t) \<Longrightarrow> distinct (map row_pk (objects t))"
  unfolding objects_def by (rule distinct_map_filter)

text \<open>The newest row of a queryset.\<close>

lemma newest_Some: "newest b t = Some r \<Longrightarrow> b = Some r \<or> r \<in> set t"
  by (induction b t rule: newest.induct) (auto split: option.splits if_splits)

lemma newest_None: "newest b t = None \<longleftrightarrow> b = None \<and> t = []"
  by (induction b t rule: newest.induct) (auto split: option.splits)

lemma first_newest_Some: "first_newest q t = Some r \<Longrightarrow> r \<in> set t \<and> q r"
  using newest_Some [of None "filter q t" r] by (auto simp: first_newest_def)

lemma first_newest_None: "first_newest q t = None \<longleftrightarrow> (\<forall>r \<in> set t. \<not> q r)"
  by (auto simp: first_newest_def newest_None filter_empty_conv)

section \<open>Decimal strings\<close>

text \<open>Reading the decimal digits back: \<open>str_nat\<close> inverts \<open>nat_str\<close>, padded or not.\<close>

definition str_nat :: "string \<Rightarrow> nat" where
  "str_nat s = foldl (\<lambda>a c. 10 * a + (of_char c - 48)) 0 s"

lemma of_char_digit_char [simp]: "d < 10 \<Longrightarrow> of_char (digit_char d) = 48 + d"
  by (simp add: digit_char_def)

lemma str_nat_snoc [simp]: "str_nat (s @ [c]) = 10 * str_nat s + (of_char c - 48)"
  by (simp add: str_nat_def)

lemma str_nat_nat_str [simp]: "str_nat (nat_str n) = n"
proof (induction n rule: nat_str.induct)
  case (1 n)
  show ?case
  proof (cases "n < 10")
    case True
    then show ?thesis by (simp add: nat_str.simps [of n] str_nat_def)
  next
    case False
    with 1 show ?thesis by (simp add: nat_str.simps [of n])
  qed
qed

lemma str_nat_pad_left [simp]: "str_nat (pad_left w s) = str_nat s"
proof -
  have "foldl (\<lambda>a c. 10 * a + (of_char c - 48)) (0 :: nat) (replicate m (CHR ''0'')) = 0" for m
    by (induction m) simp_all
  then show ?thesis by (simp add: str_nat_def pad_left_def)
qed

lemma nat_str_digits: "list_all (\<lambda>c. c \<noteq> CHR ''-'') (nat_str n)"
proof (induction n rule: nat_str.induct)
  case (1 n)
  have "digit_char d \<noteq> CHR ''-''" if "d < 10" for d
  proof
    assume "digit_char d = CHR ''-''"
    then have "of_char (digit_char d) = (of_char (CHR ''-'') :: nat)" by simp
    with that show False by simp
  qed
  with 1 show ?case by (cases "n < 10") (auto simp: nat_str.simps [of n])
qed

lemma after_last_dash:
  assumes "list_all (\<lambda>c. c \<noteq> CHR ''-'') ys"
  shows "takeWhile (\<lambda>c. c \<noteq> CHR ''-'') (rev (xs @ CHR ''-'' # ys)) = rev ys"
proof -
  have "takeWhile (\<lambda>c. c \<noteq> CHR ''-'') (rev ys @ zs) = rev ys @ takeWhile (\<lambda>c. c \<noteq> CHR ''-'') zs" for zs
    using assms by (intro takeWhile_append2) (simp add: list_all_iff)
  then show ?thesis by simp
qed

lemma pad_left_digits: "list_all (\<lambda>c. c \<noteq> CHR ''-'') (pad_left w (nat_str n))"
proof -
  have "list_all (\<lambda>c. c \<noteq> CHR ''-'') (replicate m (CHR ''0''))" for m
    by (induction m) simp_all
  then show ?thesis using nat_str_digits [of n] by (simp add: pad_left_def)
qed

lemma length_nat_str: "n < 10 ^ k \<Longrightarrow> 0 < k \<Longrightarrow> length (nat_str n) \<le> k"
proof (induction n arbitrary: k rule: nat_str.induct)
  case (1 n)
  show ?case
  proof (cases "n < 10")
    case True
    with 1(3) show ?thesis by (simp add: nat_str.simps [of n])
  next
    case False
    then obtain m where k: "k = Suc m" "0 < m" using 1(2,3) by (cases k; cases "k - 1") auto
    then have "n div 10 < 10 ^ m" using 1(2) by (simp add: less_mult_imp_div_less mult.commute)
    with 1(1) [OF False, of m] k False show ?thesis by (simp add: nat_str.simps [of n])
  qed
qed

end
