(* ===== verification/Notifications.thy ===== *)
theory Notifications
  imports Setad_Prelude
begin

text \<open>
  The notification engine and the activity timeline (\<^verbatim>\<open>src/apps/notifications\<close>,
  \<^verbatim>\<open>src/apps/activity\<close>): an event fans out to one delivery row per recipient and channel that the
  recipient has not muted, with one activity row per delivery; after commit the pending
  deliveries are sent through the channel providers. Users are their primary keys. The template
  formatter and the mail and SMS transports are parameters.
\<close>

section \<open>Data\<close>

datatype channel = NC_IN_APP | NC_EMAIL | NC_SMS | NC_WEBHOOK

datatype ntf_event_status = NE_PENDING | NE_PROCESSING | NE_SENT | NE_PARTIAL | NE_FAILED | NE_CANCELLED

datatype ntf_delivery_status = ND_PENDING | ND_SENT | ND_FAILED | ND_SKIPPED | ND_READ

datatype ntf_priority = NP_LOW | NP_NORMAL | NP_HIGH | NP_URGENT

datatype activity_verb =
    AV_CREATED | AV_SUBMITTED | AV_UPDATED | AV_APPROVED | AV_REJECTED | AV_REPLIED | AV_RESOLVED
  | AV_PAID | AV_ISSUED | AV_REVEALED | AV_MATCHED | AV_NOTIFIED

record ntf_template =
  nt_code :: string
  nt_channel :: channel
  nt_subject_template :: string
  nt_body_template :: string

record ntf_event =
  ne_event_type :: string
  ne_aggregate_type :: string
  ne_aggregate_id :: string
  ne_actor :: "nat option"
  ne_payload :: json_obj
  ne_priority :: ntf_priority
  ne_status :: ntf_event_status
  ne_processed_at :: "int option"
  ne_attempt_count :: nat

record ntf_delivery =
  nd_event :: nat
  nd_recipient :: nat
  nd_channel :: channel
  nd_status :: ntf_delivery_status
  nd_subject :: string
  nd_body :: string
  nd_provider :: string
  nd_external_id :: string
  nd_error_message :: string
  nd_sent_at :: "int option"
  nd_read_at :: "int option"

record ntf_preference =
  npf_user :: nat
  npf_event_type :: string
  npf_channel :: channel
  npf_enabled :: bool

record user_activity =
  ua_user :: nat
  ua_actor :: "nat option"
  ua_event_type :: string
  ua_app_label :: string
  ua_verb :: activity_verb
  ua_title :: string
  ua_summary :: string
  ua_aggregate_type :: string
  ua_aggregate_id :: string
  ua_metadata :: json_obj

text \<open>The tables of the two apps and the callbacks registered with \<open>transaction.on_commit\<close> (the
  keys of the events to dispatch). A rollback drops the callbacks its block registered.\<close>

record ntf_db =
  ntf_templates :: "ntf_template table"
  ntf_events :: "ntf_event table"
  ntf_deliveries :: "ntf_delivery table"
  ntf_preferences :: "ntf_preference table"
  activities :: "user_activity table"
  on_commit_dispatch :: "nat list"

record ntf_settings =
  NOTIFICATIONS_EMAIL_ENABLED :: bool
  NOTIFICATIONS_SMS_ENABLED :: bool

section \<open>Activity timeline\<close>

definition has_prefix :: "string \<Rightarrow> string \<Rightarrow> bool" where
  "has_prefix p s = (take (length p) s = p)"

definition infer_app_label :: "string \<Rightarrow> string \<Rightarrow> string" where
  "infer_app_label event_type aggregate_type =
     (if has_prefix ''support.'' event_type then ''support_desk''
      else if has_prefix ''tabyin.'' event_type then ''tabyin''
      else if has_prefix ''madadkar.'' event_type then ''madadkar''
      else if has_prefix ''lms.'' event_type then ''lms''
      else if has_prefix ''kindness.'' event_type then ''kindness_wall''
      else if has_prefix ''public_report.'' event_type then ''public_reports''
      else if has_prefix ''r4j.'' event_type then ''r4j''
      else if aggregate_type \<noteq> [] then takeWhile (\<lambda>c. c \<noteq> CHR ''_'') aggregate_type
      else ''platform'')"

definition event_verb_map :: "(string \<times> activity_verb) list" where
  "event_verb_map =
     [(''support.reply'', AV_REPLIED), (''support.resolved'', AV_RESOLVED),
      (''public_report.status_changed'', AV_UPDATED), (''tabyin.submission_approved'', AV_APPROVED),
      (''tabyin.submission_rejected'', AV_REJECTED), (''madadkar.payment_success'', AV_PAID),
      (''lms.certificate_issued'', AV_ISSUED)]"

definition build_activity_from_notification_event :: "ntf_event row \<Rightarrow> nat \<Rightarrow> user_activity" where
  "build_activity_from_notification_event ev recipient =
     (let e = vals ev in
      \<lparr>ua_user = recipient,
       ua_actor = ne_actor e,
       ua_event_type = ne_event_type e,
       ua_app_label = infer_app_label (ne_event_type e) (ne_aggregate_type e),
       ua_verb = (case map_of event_verb_map (ne_event_type e) of None \<Rightarrow> AV_NOTIFIED | Some v \<Rightarrow> v),
       ua_title = take 260 (payload_str (ne_payload e) ''title'' (ne_event_type e)),
       ua_summary = payload_str (ne_payload e) ''message'' (payload_str (ne_payload e) ''subject'' []),
       ua_aggregate_type = ne_aggregate_type e,
       ua_aggregate_id = ne_aggregate_id e,
       ua_metadata = ne_payload e @ [(''notification_event_id'', JInt (int (row_pk ev)))]\<rparr>)"

definition record_activities_from_notification_event ::
  "int \<Rightarrow> ntf_event row \<Rightarrow> nat list \<Rightarrow> ('a ntf_db_scheme, unit) svc" where
  "record_activities_from_notification_event now ev recipients =
     modify (\<lambda>s. s\<lparr>activities :=
       fold (tbl_insert now) (map (build_activity_from_notification_event ev) recipients) (activities s)\<rparr>)"

section \<open>Creating an event and its deliveries\<close>

text \<open>Recipients are stored users, so every one has a key and duplicates are dropped.\<close>

fun dedupe_recipients :: "nat list \<Rightarrow> nat list \<Rightarrow> nat list" where
  "dedupe_recipients seen [] = []"
| "dedupe_recipients seen (r # rs) =
     (if r \<in> set seen then dedupe_recipients seen rs else r # dedupe_recipients (r # seen) rs)"

fun dedupe_channels :: "channel list \<Rightarrow> channel list \<Rightarrow> channel list" where
  "dedupe_channels seen [] = []"
| "dedupe_channels seen (c # cs) =
     (if c \<in> set seen then dedupe_channels seen cs else c # dedupe_channels (c # seen) cs)"

definition template_for :: "string \<Rightarrow> channel \<Rightarrow> ntf_template table \<Rightarrow> ntf_template row option" where
  "template_for event_type ch t =
     find (\<lambda>r. nt_code (vals r) = event_type \<and> nt_channel (vals r) = ch) (objects t)"

definition render_notification ::
  "(string \<Rightarrow> json_obj \<Rightarrow> string) \<Rightarrow> string \<Rightarrow> json_obj \<Rightarrow> ntf_template row option \<Rightarrow> string \<times> string" where
  "render_notification fmt event_type payload tmpl =
     (case tmpl of
        Some t \<Rightarrow> (fmt (nt_subject_template (vals t)) payload, fmt (nt_body_template (vals t)) payload)
      | None \<Rightarrow> (let title = payload_str payload ''title'' event_type
                in (title, payload_str payload ''message'' title)))"

definition muted :: "ntf_preference table \<Rightarrow> string \<Rightarrow> nat \<Rightarrow> channel \<Rightarrow> bool" where
  "muted prefs event_type u ch =
     list_ex (\<lambda>r. npf_user (vals r) = u \<and> npf_event_type (vals r) = event_type \<and>
       npf_channel (vals r) = ch \<and> \<not> npf_enabled (vals r)) (objects prefs)"

definition wanted_pairs ::
  "ntf_preference table \<Rightarrow> string \<Rightarrow> nat list \<Rightarrow> channel list \<Rightarrow> (nat \<times> channel) list" where
  "wanted_pairs prefs event_type rs cs =
     concat (map (\<lambda>r. map (\<lambda>c. (r, c)) (filter (\<lambda>c. \<not> muted prefs event_type r c) cs)) rs)"

definition build_delivery ::
  "(string \<Rightarrow> json_obj \<Rightarrow> string) \<Rightarrow> ntf_template table \<Rightarrow> ntf_event row \<Rightarrow> nat \<times> channel \<Rightarrow> ntf_delivery" where
  "build_delivery fmt tmpls ev = (\<lambda>(r, c).
     let txt = render_notification fmt (ne_event_type (vals ev)) (ne_payload (vals ev))
                 (template_for (ne_event_type (vals ev)) c tmpls)
     in \<lparr>nd_event = row_pk ev, nd_recipient = r, nd_channel = c, nd_status = ND_PENDING,
         nd_subject = fst txt, nd_body = snd txt, nd_provider = [], nd_external_id = [],
         nd_error_message = [], nd_sent_at = None, nd_read_at = None\<rparr>)"

definition delivery_key :: "ntf_delivery \<Rightarrow> nat \<times> nat \<times> channel" where
  "delivery_key d = (nd_event d, nd_recipient d, nd_channel d)"

text \<open>\<open>bulk_create\<close> under the unique constraint on (event, recipient, channel).\<close>

definition bulk_create_deliveries :: "int \<Rightarrow> ntf_delivery list \<Rightarrow> ('a ntf_db_scheme, unit) svc" where
  "bulk_create_deliveries now ds =
     bnd (gets ntf_deliveries) (\<lambda>t.
     seqn (check (distinct (map (delivery_key \<circ> vals) t @ map delivery_key ds)) IntegrityError)
     (modify (\<lambda>s. s\<lparr>ntf_deliveries := fold (tbl_insert now) ds (ntf_deliveries s)\<rparr>)))"

definition create_notification_event ::
  "(string \<Rightarrow> json_obj \<Rightarrow> string) \<Rightarrow> int \<Rightarrow> string \<Rightarrow> nat list \<Rightarrow> channel list \<Rightarrow> json_obj \<Rightarrow> nat option \<Rightarrow>
   string \<Rightarrow> string \<Rightarrow> ntf_priority \<Rightarrow> ('a ntf_db_scheme, ntf_event row) svc" where
  "create_notification_event fmt now event_type recipients channels payload actor aggregate_type aggregate_id priority =
     atomic (
     bnd (gets (\<lambda>s. new_row now
       \<lparr>ne_event_type = event_type, ne_aggregate_type = aggregate_type, ne_aggregate_id = aggregate_id,
        ne_actor = actor, ne_payload = payload, ne_priority = priority, ne_status = NE_PENDING,
        ne_processed_at = None, ne_attempt_count = 0\<rparr> (ntf_events s))) (\<lambda>ev.
     seqn (modify (\<lambda>s. s\<lparr>ntf_events := ntf_events s @ [ev]\<rparr>))
     (bnd (gets (\<lambda>s. wanted_pairs (ntf_preferences s) event_type
                       (dedupe_recipients [] recipients) (dedupe_channels [] channels))) (\<lambda>pairs.
      if pairs = [] then ret ev
      else
       bnd (gets ntf_templates) (\<lambda>tmpls.
       seqn (bulk_create_deliveries now (map (build_delivery fmt tmpls ev) pairs))
       (seqn (record_activities_from_notification_event now ev (map fst pairs))
       (ret ev)))))))"

definition default_channels :: "'c ntf_settings_scheme \<Rightarrow> ntf_priority \<Rightarrow> channel list" where
  "default_channels cfg priority =
     [NC_IN_APP] @ (if NOTIFICATIONS_EMAIL_ENABLED cfg then [NC_EMAIL] else []) @
     (if priority = NP_URGENT \<and> NOTIFICATIONS_SMS_ENABLED cfg then [NC_SMS] else [])"

definition emit_domain_notification ::
  "'c ntf_settings_scheme \<Rightarrow> (string \<Rightarrow> json_obj \<Rightarrow> string) \<Rightarrow> int \<Rightarrow> string \<Rightarrow> nat \<Rightarrow> json_obj \<Rightarrow> nat option \<Rightarrow>
   string \<Rightarrow> string \<Rightarrow> ntf_priority \<Rightarrow> ('a ntf_db_scheme, ntf_event row) svc" where
  "emit_domain_notification cfg fmt now event_type recipient payload actor aggregate_type aggregate_id priority =
     bnd (create_notification_event fmt now event_type [recipient] (default_channels cfg priority) payload
            actor aggregate_type aggregate_id priority) (\<lambda>ev.
     seqn (modify (\<lambda>s. s\<lparr>on_commit_dispatch := on_commit_dispatch s @ [row_pk ev]\<rparr>))
     (ret ev))"

section \<open>Dispatch\<close>

text \<open>Result of a channel provider. The mail and SMS transports report the name of the exception
  they raised, if any; contact data of a user is looked up by the caller.\<close>

record delivery_result =
  dr_success :: bool
  dr_provider :: string
  dr_external_id :: string
  dr_error_message :: string

record transports =
  tr_email :: "nat \<Rightarrow> string"
  tr_phone :: "nat \<Rightarrow> string"
  tr_send_mail :: "string \<Rightarrow> string \<Rightarrow> string \<Rightarrow> string option"
  tr_send_sms :: "string \<Rightarrow> string \<Rightarrow> string option"

definition recipient_address :: "transports \<Rightarrow> json_obj \<Rightarrow> ntf_delivery \<Rightarrow> string" where
  "recipient_address tr payload d =
     (case nd_channel d of
        NC_EMAIL \<Rightarrow> tr_email tr (nd_recipient d)
      | NC_SMS \<Rightarrow> tr_phone tr (nd_recipient d)
      | NC_WEBHOOK \<Rightarrow> (case map_of payload ''webhook_url'' of None \<Rightarrow> [] | Some v \<Rightarrow> json_str v)
      | NC_IN_APP \<Rightarrow> nat_str (nd_recipient d))"

definition transport_result :: "string \<Rightarrow> string option \<Rightarrow> delivery_result" where
  "transport_result provider err =
     (case err of
        None \<Rightarrow> \<lparr>dr_success = True, dr_provider = provider, dr_external_id = [], dr_error_message = []\<rparr>
      | Some name \<Rightarrow> \<lparr>dr_success = False, dr_provider = provider, dr_external_id = [], dr_error_message = name\<rparr>)"

definition send_delivery :: "transports \<Rightarrow> json_obj \<Rightarrow> ntf_delivery \<Rightarrow> delivery_result" where
  "send_delivery tr payload d =
     (let addr = recipient_address tr payload d in
      case nd_channel d of
        NC_IN_APP \<Rightarrow> transport_result ''in_app'' None
      | NC_EMAIL \<Rightarrow> transport_result ''django_email'' (tr_send_mail tr addr (nd_subject d) (nd_body d))
      | NC_SMS \<Rightarrow> transport_result ''sms'' (tr_send_sms tr addr (take 120 (nd_body d)))
      | NC_WEBHOOK \<Rightarrow> transport_result ''webhook_noop'' (Some ''webhook_provider_not_configured''))"

definition apply_result :: "int \<Rightarrow> delivery_result \<Rightarrow> ntf_delivery \<Rightarrow> ntf_delivery" where
  "apply_result now res d =
     (let d' = d\<lparr>nd_provider := dr_provider res, nd_external_id := dr_external_id res\<rparr> in
      if dr_success res then d'\<lparr>nd_status := ND_SENT, nd_sent_at := Some now\<rparr>
      else d'\<lparr>nd_status := ND_FAILED, nd_error_message := dr_error_message res\<rparr>)"

definition pending_deliveries :: "nat \<Rightarrow> ntf_delivery table \<Rightarrow> ntf_delivery table" where
  "pending_deliveries ev t = filter (\<lambda>r. nd_event (vals r) = ev \<and> nd_status (vals r) = ND_PENDING) t"

definition dispatch_status :: "nat \<Rightarrow> nat \<Rightarrow> ntf_event_status" where
  "dispatch_status sent failed =
     (if failed = 0 then NE_SENT else if sent \<noteq> 0 then NE_PARTIAL else NE_FAILED)"

text \<open>The in-memory rows read in the first phase are written back by \<open>bulk_update\<close> in the last.\<close>

definition write_back :: "ntf_delivery row \<Rightarrow> ntf_delivery table \<Rightarrow> ntf_delivery table" where
  "write_back r t =
     tbl_upd (row_pk r) (updated_at r) (\<lambda>d. d\<lparr>nd_provider := nd_provider (vals r), nd_external_id := nd_external_id (vals r),
       nd_status := nd_status (vals r), nd_sent_at := nd_sent_at (vals r),
       nd_error_message := nd_error_message (vals r)\<rparr>) t"

definition dispatch_event :: "transports \<Rightarrow> int \<Rightarrow> ntf_event row \<Rightarrow> ('a ntf_db_scheme, unit) svc" where
  "dispatch_event tr now ev =
     seqn (modify (\<lambda>s. s\<lparr>ntf_events := tbl_upd (row_pk ev) now
             (\<lambda>e. e\<lparr>ne_status := NE_PROCESSING, ne_attempt_count := ne_attempt_count (vals ev) + 1\<rparr>) (ntf_events s)\<rparr>))
     (bnd (gets (\<lambda>s. pending_deliveries (row_pk ev) (ntf_deliveries s))) (\<lambda>pending.
      let done = map (\<lambda>r. r\<lparr>vals := apply_result now (send_delivery tr (ne_payload (vals ev)) (vals r)) (vals r)\<rparr>) pending;
          sent = length (filter (\<lambda>r. nd_status (vals r) = ND_SENT) done);
          failed = length (filter (\<lambda>r. nd_status (vals r) = ND_FAILED) done)
      in modify (\<lambda>s. s\<lparr>ntf_deliveries := fold write_back done (ntf_deliveries s),
           ntf_events := tbl_upd (row_pk ev) now
             (\<lambda>e. e\<lparr>ne_status := dispatch_status sent failed, ne_processed_at := Some now\<rparr>) (ntf_events s)\<rparr>)))"

section \<open>Reading and preferences\<close>

definition mark_delivery_read :: "int \<Rightarrow> ntf_delivery row \<Rightarrow> nat \<Rightarrow> ('a ntf_db_scheme, unit) svc" where
  "mark_delivery_read now d user =
     atomic (seqn (check (nd_recipient (vals d) = user) NotificationServiceError)
       (modify (\<lambda>s. s\<lparr>ntf_deliveries := tbl_upd (row_pk d) now
          (\<lambda>x. x\<lparr>nd_status := ND_READ, nd_read_at := Some now\<rparr>) (ntf_deliveries s)\<rparr>)))"

definition mark_all_read :: "int \<Rightarrow> nat \<Rightarrow> ('a ntf_db_scheme, nat) svc" where
  "mark_all_read now user =
     atomic (bnd (gets (\<lambda>s. filter (\<lambda>r. nd_recipient (vals r) = user \<and> nd_status (vals r) \<noteq> ND_READ) (ntf_deliveries s))) (\<lambda>rs.
       seqn (modify (\<lambda>s. s\<lparr>ntf_deliveries := map (\<lambda>r. if nd_recipient (vals r) = user \<and> nd_status (vals r) \<noteq> ND_READ
            then r\<lparr>updated_at := now, vals := (vals r)\<lparr>nd_status := ND_READ, nd_read_at := Some now\<rparr>\<rparr> else r) (ntf_deliveries s)\<rparr>))
       (ret (length rs))))"

definition set_preference :: "int \<Rightarrow> nat \<Rightarrow> string \<Rightarrow> channel \<Rightarrow> bool \<Rightarrow> ('a ntf_db_scheme, unit) svc" where
  "set_preference now user event_type ch enabled =
     atomic (bnd (gets (\<lambda>s. find (\<lambda>r. npf_user (vals r) = user \<and> npf_event_type (vals r) = event_type \<and>
            npf_channel (vals r) = ch) (objects (ntf_preferences s)))) (\<lambda>found.
       case found of
         Some r \<Rightarrow> modify (\<lambda>s. s\<lparr>ntf_preferences := tbl_upd (row_pk r) now (\<lambda>p. p\<lparr>npf_enabled := enabled\<rparr>) (ntf_preferences s)\<rparr>)
       | None \<Rightarrow>
           bnd (gets (\<lambda>s. list_ex (\<lambda>r. npf_user (vals r) = user \<and> npf_event_type (vals r) = event_type \<and>
                  npf_channel (vals r) = ch) (ntf_preferences s))) (\<lambda>dup.
           seqn (check (\<not> dup) IntegrityError)
           (modify (\<lambda>s. s\<lparr>ntf_preferences := tbl_insert now
              \<lparr>npf_user = user, npf_event_type = event_type, npf_channel = ch, npf_enabled = enabled\<rparr> (ntf_preferences s)\<rparr>)))))"

definition preference_enabled :: "ntf_preference table \<Rightarrow> nat \<Rightarrow> string \<Rightarrow> channel \<Rightarrow> bool" where
  "preference_enabled prefs user event_type ch =
     (case find (\<lambda>r. npf_user (vals r) = user \<and> npf_event_type (vals r) = event_type \<and>
            npf_channel (vals r) = ch) (objects prefs) of
        None \<Rightarrow> True | Some r \<Rightarrow> npf_enabled (vals r))"

section \<open>Frame\<close>

text \<open>Emitting a notification writes its own tables only.\<close>

lemma keeps_create_event:
  assumes "\<And>s x. g (s\<lparr>ntf_events := x\<rparr>) = g s" and "\<And>s x. g (s\<lparr>ntf_deliveries := x\<rparr>) = g s"
    and "\<And>s x. g (s\<lparr>activities := x\<rparr>) = g s"
  shows "keeps g (create_notification_event fmt now et rs cs pl act aty aid pri)"
  unfolding create_notification_event_def bulk_create_deliveries_def record_activities_from_notification_event_def
  by (intro keeps_rules keeps_modify) (simp_all add: assms)

lemma keeps_emit:
  assumes "\<And>s x. g (s\<lparr>ntf_events := x\<rparr>) = g s" and "\<And>s x. g (s\<lparr>ntf_deliveries := x\<rparr>) = g s"
    and "\<And>s x. g (s\<lparr>activities := x\<rparr>) = g s" and "\<And>s x. g (s\<lparr>on_commit_dispatch := x\<rparr>) = g s"
  shows "keeps g (emit_domain_notification cfg fmt now et r pl act aty aid pri)"
  unfolding emit_domain_notification_def
  by (intro keeps_rules keeps_modify keeps_create_event) (simp_all add: assms)

section \<open>Who is notified\<close>

lemma dedupe_recipients_spec:
  "set (dedupe_recipients seen rs) = set rs - set seen \<and> distinct (dedupe_recipients seen rs)"
  by (induction seen rs rule: dedupe_recipients.induct) auto

lemma dedupe_channels_spec: "set (dedupe_channels seen cs) = set cs - set seen \<and> distinct (dedupe_channels seen cs)"
  by (induction seen cs rule: dedupe_channels.induct) auto

lemma set_wanted_pairs: "set (wanted_pairs prefs et rs cs) = {(r, c). r \<in> set rs \<and> c \<in> set cs \<and> \<not> muted prefs et r c}"
  by (auto simp: wanted_pairs_def)

lemma distinct_wanted_pairs: "distinct rs \<Longrightarrow> distinct cs \<Longrightarrow> distinct (wanted_pairs prefs et rs cs)"
proof (induction rs)
  case (Cons r rs)
  have "distinct (map (\<lambda>c. (r, c)) (filter (\<lambda>c. \<not> muted prefs et r c) cs))"
    using Cons.prems(2) by (simp add: distinct_map inj_on_def)
  moreover have "r \<notin> fst ` set (wanted_pairs prefs et rs cs)" using Cons.prems(1) by (auto simp: set_wanted_pairs)
  ultimately show ?case using Cons by (auto simp: wanted_pairs_def)
qed (simp add: wanted_pairs_def)

lemma fold_insert_rows: "\<exists>rows. fold (tbl_insert now) vs t = t @ rows \<and> map vals rows = vs"
proof (induction vs arbitrary: t)
  case (Cons v vs)
  obtain rows where "fold (tbl_insert now) vs (tbl_insert now v t) = tbl_insert now v t @ rows" "map vals rows = vs"
    using Cons by blast
  then show ?case by (intro exI [of _ "new_row now v t # rows"]) (simp add: tbl_insert_def [of now v t])
qed simp

lemma build_delivery_fields:
  "nd_event (build_delivery fmt tm ev rc) = row_pk ev" "nd_recipient (build_delivery fmt tm ev rc) = fst rc"
  "nd_channel (build_delivery fmt tm ev rc) = snd rc" "nd_status (build_delivery fmt tm ev rc) = ND_PENDING"
  by (simp_all add: build_delivery_def Let_def split: prod.split)

definition delivery_pair :: "ntf_delivery row \<Rightarrow> nat \<times> channel" where
  "delivery_pair d = (nd_recipient (vals d), nd_channel (vals d))"

lemma deliveries_unique:
  fixes s :: "'a ntf_db_scheme"
  assumes "\<forall>d \<in> set (ntf_deliveries s). nd_event (vals d) \<in> row_pk ` set (ntf_events s)"
    and "distinct (map (delivery_key \<circ> vals) (ntf_deliveries s))" and "row_pk ev = next_pk (ntf_events s)"
    and "distinct pairs"
  shows "distinct (map (delivery_key \<circ> vals) (ntf_deliveries s) @ map delivery_key (map (build_delivery fmt tm ev) pairs))"
proof -
  have eq: "map delivery_key (map (build_delivery fmt tm ev) pairs) = map (\<lambda>rc. (row_pk ev, fst rc, snd rc)) pairs"
    by (simp add: delivery_key_def build_delivery_fields)
  have "distinct (map (\<lambda>rc. (row_pk ev, fst rc, snd rc)) pairs)"
    using assms(4) by (simp add: distinct_map inj_on_def prod_eq_iff)
  moreover have "nd_event (vals d) \<noteq> row_pk ev" if "d \<in> set (ntf_deliveries s)" for d
    using assms(1,3) that next_pk_fresh [of "ntf_events s"] by metis
  ultimately show ?thesis using assms(2) unfolding eq by (auto simp: delivery_key_def)
qed

lemma built_rows:
  assumes "map vals rows = map (build_delivery fmt ts ev) pairs"
  shows "map delivery_pair rows = pairs"
    and "\<forall>d \<in> set rows. nd_event (vals d) = row_pk ev \<and> nd_status (vals d) = ND_PENDING"
proof -
  have "map delivery_pair rows = map (\<lambda>d. (nd_recipient d, nd_channel d)) (map vals rows)" by (simp add: delivery_pair_def)
  then show "map delivery_pair rows = pairs" by (simp add: assms build_delivery_fields comp_def)
  have "vals d \<in> set (map (build_delivery fmt ts ev) pairs)" if "d \<in> set rows" for d
    using that assms by (metis image_eqI list.set_map)
  then show "\<forall>d \<in> set rows. nd_event (vals d) = row_pk ev \<and> nd_status (vals d) = ND_PENDING"
    by (fastforce simp: build_delivery_fields)
qed


definition sample_ntf :: ntf_db where
  "sample_ntf = \<lparr>ntf_templates = [], ntf_events = [], ntf_deliveries = [],
     ntf_preferences = [\<lparr>row_pk = 1, created_at = 0, updated_at = 0, is_active = True,
       vals = \<lparr>npf_user = 8, npf_event_type = ''x'', npf_channel = NC_IN_APP, npf_enabled = False\<rparr>\<rparr>],
     activities = [], on_commit_dispatch = []\<rparr>"


section \<open>Dispatch\<close>

text \<open>The results written back replace exactly the pending rows of the event.\<close>

definition written :: "ntf_delivery row \<Rightarrow> ntf_delivery row \<Rightarrow> ntf_delivery row" where
  "written q r = r\<lparr>updated_at := updated_at q, vals := (vals r)\<lparr>nd_provider := nd_provider (vals q), nd_external_id := nd_external_id (vals q),
     nd_status := nd_status (vals q), nd_sent_at := nd_sent_at (vals q), nd_error_message := nd_error_message (vals q)\<rparr>\<rparr>"

lemma write_back_map: "write_back q t = map (\<lambda>r. if row_pk r = row_pk q then written q r else r) t"
  by (simp add: write_back_def tbl_upd_def written_def)

lemma fold_write_back:
  "distinct (map row_pk qs) \<Longrightarrow>
   fold write_back qs t = map (\<lambda>r. case find (\<lambda>q. row_pk q = row_pk r) qs of None \<Rightarrow> r | Some q \<Rightarrow> written q r) t"
proof (induction qs arbitrary: t)
  case (Cons q qs)
  have none: "find (\<lambda>p. row_pk p = row_pk q) qs = None" using Cons.prems by (force simp: find_None_iff image_iff)
  have pk: "row_pk (written q r) = row_pk r" for r by (simp add: written_def)
  have eq: "fold write_back (q # qs) t = map (\<lambda>r. case find (\<lambda>p. row_pk p = row_pk r) qs of None \<Rightarrow> r | Some p \<Rightarrow> written p r) (write_back q t)"
    using Cons by simp
  have "(case find (\<lambda>p. row_pk p = row_pk r') qs of None \<Rightarrow> r' | Some p \<Rightarrow> written p r') =
      (case find (\<lambda>p. row_pk p = row_pk r) (q # qs) of None \<Rightarrow> r | Some p \<Rightarrow> written p r)"
    if "r' = (if row_pk r = row_pk q then written q r else r)" for r r'
    unfolding that using none by (cases "row_pk r = row_pk q") (simp_all add: pk)
  then show ?case unfolding eq unfolding write_back_map map_map comp_def by simp
qed (simp add: write_back_def)

definition attempt :: "transports \<Rightarrow> int \<Rightarrow> json_obj \<Rightarrow> ntf_delivery row \<Rightarrow> ntf_delivery row" where
  "attempt tr now pl r = r\<lparr>vals := apply_result now (send_delivery tr pl (vals r)) (vals r)\<rparr>"

lemma written_attempt: "written (attempt tr now pl r) r = attempt tr now pl r"
  by (simp add: written_def attempt_def apply_result_def Let_def)

lemma find_pending:
  assumes "distinct (map row_pk t)" and "r \<in> set t"
  shows "find (\<lambda>q. row_pk q = row_pk r) (map (attempt tr now pl) (filter P t)) = (if P r then Some (attempt tr now pl r) else None)"
  using assms
proof (induction t)
  case (Cons a t)
  have pk: "row_pk (attempt tr now pl x) = row_pk x" for x by (simp add: attempt_def)
  have fresh: "find (\<lambda>q. row_pk q = row_pk a) (map (attempt tr now pl) (filter P t)) = None"
    using Cons.prems(1) by (force simp: find_None_iff pk image_iff)
  show ?case
  proof (cases "r = a")
    case True
    then show ?thesis using fresh by (simp add: pk)
  next
    case False
    then have "row_pk a \<noteq> row_pk r" using Cons.prems by auto
    with Cons False show ?thesis by (simp add: pk)
  qed
qed simp

lemma dispatch_writes:
  assumes "distinct (map row_pk t)"
  shows "fold write_back (map (attempt tr now pl) (filter P t)) t = map (\<lambda>r. if P r then attempt tr now pl r else r) t"
proof -
  have pk: "row_pk (attempt tr now pl x) = row_pk x" for x by (simp add: attempt_def)
  have "distinct (map row_pk (map (attempt tr now pl) (filter P t)))"
    using assms by (simp add: pk comp_def distinct_map_filter)
  from fold_write_back [OF this] show ?thesis
    using find_pending [OF assms] by (auto simp: written_attempt intro!: map_cong)
qed

lemma attempt_status:
  "nd_status (vals (attempt tr now pl r)) = (if dr_success (send_delivery tr pl (vals r)) then ND_SENT else ND_FAILED)"
  "nd_event (vals (attempt tr now pl r)) = nd_event (vals r)"
  by (simp_all add: attempt_def apply_result_def Let_def)

text \<open>Dispatching an event attempts each of its pending deliveries exactly once: every pending row becomes
  SENT or FAILED after the answer of its channel, no delivery of the event stays pending, the rows of
  other events and the rows already settled are untouched, and the event is SENT, PARTIAL or FAILED after
  the counts.\<close>

theorem dispatch_settles_deliveries:
  fixes s :: "'a ntf_db_scheme"
  assumes "distinct (map row_pk (ntf_deliveries s))" and "dispatch_event tr now ev s = (Inr (), t)"
  shows "ntf_deliveries t = map (\<lambda>r. if nd_event (vals r) = row_pk ev \<and> nd_status (vals r) = ND_PENDING
      then attempt tr now (ne_payload (vals ev)) r else r) (ntf_deliveries s) \<and>
    pending_deliveries (row_pk ev) (ntf_deliveries t) = [] \<and>
    (\<forall>e \<in> set (ntf_events t). row_pk e = row_pk ev \<longrightarrow> ne_status (vals e) = dispatch_status
       (length (filter (\<lambda>r. dr_success (send_delivery tr (ne_payload (vals ev)) (vals r))) (pending_deliveries (row_pk ev) (ntf_deliveries s))))
       (length (filter (\<lambda>r. \<not> dr_success (send_delivery tr (ne_payload (vals ev)) (vals r))) (pending_deliveries (row_pk ev) (ntf_deliveries s)))))"
proof -
  let ?P = "\<lambda>r. nd_event (vals r) = row_pk ev \<and> nd_status (vals r) = ND_PENDING"
  let ?a = "attempt tr now (ne_payload (vals ev))"
  have t: "ntf_deliveries t = fold write_back (map ?a (filter ?P (ntf_deliveries s))) (ntf_deliveries s)"
    and e: "ntf_events t = tbl_upd (row_pk ev) now (\<lambda>e. e\<lparr>ne_status := dispatch_status
        (length (filter (\<lambda>r. nd_status (vals r) = ND_SENT) (map ?a (pending_deliveries (row_pk ev) (ntf_deliveries s)))))
        (length (filter (\<lambda>r. nd_status (vals r) = ND_FAILED) (map ?a (pending_deliveries (row_pk ev) (ntf_deliveries s))))),
        ne_processed_at := Some now\<rparr>) (tbl_upd (row_pk ev) now (\<lambda>e. e\<lparr>ne_status := NE_PROCESSING,
          ne_attempt_count := ne_attempt_count (vals ev) + 1\<rparr>) (ntf_events s))"
    using assms(2) by (auto simp: dispatch_event_def attempt_def [abs_def] pending_deliveries_def Let_def svc_inv)
  have rows: "ntf_deliveries t = map (\<lambda>r. if ?P r then ?a r else r) (ntf_deliveries s)"
    unfolding t by (rule dispatch_writes [OF assms(1)])
  moreover have "pending_deliveries (row_pk ev) (ntf_deliveries t) = []"
    by (auto simp: rows pending_deliveries_def filter_empty_conv attempt_status split: if_splits)
  moreover have "length (filter (\<lambda>r. nd_status (vals r) = ND_SENT) (map ?a ps)) =
      length (filter (\<lambda>r. dr_success (send_delivery tr (ne_payload (vals ev)) (vals r))) ps)"
    "length (filter (\<lambda>r. nd_status (vals r) = ND_FAILED) (map ?a ps)) =
      length (filter (\<lambda>r. \<not> dr_success (send_delivery tr (ne_payload (vals ev)) (vals r))) ps)" for ps
    by (induction ps) (simp_all add: attempt_status)
  ultimately show ?thesis by (auto simp: e set_tbl_upd)
qed

text \<open>One event with two pending deliveries, the second on the webhook channel, which is never configured.\<close>

definition sample_event :: "ntf_event row" where
  "sample_event = \<lparr>row_pk = 1, created_at = 0, updated_at = 0, is_active = True,
     vals = \<lparr>ne_event_type = ''x'', ne_aggregate_type = [], ne_aggregate_id = [], ne_actor = None, ne_payload = [],
        ne_priority = NP_NORMAL, ne_status = NE_PENDING, ne_processed_at = None, ne_attempt_count = 0\<rparr>\<rparr>"

definition sample_delivery :: "nat \<Rightarrow> channel \<Rightarrow> ntf_delivery row" where
  "sample_delivery k c = \<lparr>row_pk = k, created_at = 0, updated_at = 0, is_active = True,
     vals = build_delivery (\<lambda>x _. x) [] sample_event (7, c)\<rparr>"

definition sample_outbox :: ntf_db where
  "sample_outbox = \<lparr>ntf_templates = [], ntf_events = [sample_event],
     ntf_deliveries = [sample_delivery 1 NC_IN_APP, sample_delivery 2 NC_WEBHOOK],
     ntf_preferences = [], activities = [], on_commit_dispatch = []\<rparr>"

definition sample_transports :: transports where
  "sample_transports = \<lparr>tr_email = (\<lambda>_. []), tr_phone = (\<lambda>_. []), tr_send_mail = (\<lambda>_ _ _. None), tr_send_sms = (\<lambda>_ _. None)\<rparr>"

theorem dispatch_settles_deliveries_witness:
  "\<exists>t. dispatch_event sample_transports 9 sample_event sample_outbox = (Inr (), t) \<and>
     map (nd_status \<circ> vals) (ntf_deliveries t) = [ND_SENT, ND_FAILED] \<and>
     pending_deliveries 1 (ntf_deliveries t) = [] \<and> (\<forall>e \<in> set (ntf_events t). row_pk e = 1 \<longrightarrow> ne_status (vals e) = NE_PARTIAL)"
proof -
  let ?pl = "ne_payload (vals sample_event)"
  let ?ok = "\<lambda>r. dr_success (send_delivery sample_transports ?pl (vals r))"
  let ?p = "pending_deliveries (row_pk sample_event) (ntf_deliveries sample_outbox)"
  obtain t where run: "dispatch_event sample_transports 9 sample_event sample_outbox = (Inr (), t)"
    by (auto simp: dispatch_event_def svc_defs Let_def)
  have "distinct (map row_pk (ntf_deliveries sample_outbox))" by code_simp
  note facts = dispatch_settles_deliveries [OF this run]
  have "map (nd_status \<circ> vals) (map (\<lambda>r. if nd_event (vals r) = row_pk sample_event \<and> nd_status (vals r) = ND_PENDING
      then attempt sample_transports 9 ?pl r else r) (ntf_deliveries sample_outbox)) = [ND_SENT, ND_FAILED]" by code_simp
  then have "map (nd_status \<circ> vals) (ntf_deliveries t) = [ND_SENT, ND_FAILED]" using facts by simp
  moreover have "dispatch_status (length (filter ?ok ?p)) (length (filter (\<lambda>r. \<not> ?ok r) ?p)) = NE_PARTIAL" by code_simp
  then have "\<forall>e \<in> set (ntf_events t). row_pk e = row_pk sample_event \<longrightarrow> ne_status (vals e) = NE_PARTIAL" using facts by (elim conjE) (simp only:)
  moreover from facts have "pending_deliveries (row_pk sample_event) (ntf_deliveries t) = []" by blast
  moreover have "row_pk sample_event = 1" by (simp add: sample_event_def)
  ultimately show ?thesis using run by (intro exI [of _ t]) metis
qed

end
