(* ===== verification/Mdk_Types.thy ===== *)
theory Mdk_Types
  imports Notifications
begin

text \<open>
  The data model of Madadkar, the share-based charity app (\<^verbatim>\<open>src/apps/madadkar/choices.py\<close>,
  \<^verbatim>\<open>src/apps/madadkar/models.py\<close>): the enumerations, one record per model, the database as one
  table per model on top of the notification tables, the computed properties of the models, the
  database constraints, and the settings the services read. Amounts are integers in toman.
\<close>

section \<open>Enumerations\<close>

datatype campaign_status = C_DRAFT | C_PUBLISHED | C_COMPLETED | C_CLOSED

datatype participation_status = PENDING_PAYMENT | PAID | P_FAILED | EXPIRED | REFUNDED

datatype payment_status = PAY_PENDING | PAY_SUCCESS | PAY_FAILED

datatype reconciliation_status = RC_DRAFT | RC_COMPLETED | RC_FAILED

datatype reconciliation_item_status =
  MATCHED | MISSING_INTERNAL | RI_AMOUNT_MISMATCH | STATUS_MISMATCH | DUPLICATE_PROVIDER_REF

datatype external_funding_status = RECORDED | VOIDED

datatype external_funding_method = M_CASH | M_CARD_TRANSFER | M_CHEQUE | M_INTERNAL | M_OTHER

datatype payment_event_kind =
    EV_CREATED | EV_VERIFY_SUCCESS | EV_VERIFY_FAILED | EV_AMOUNT_MISMATCH | EV_EXPIRED
  | EV_REFUND_REQUESTED | EV_REFUND_APPROVED | EV_REFUND_REJECTED | EV_REFUND_COMPLETED
  | EV_REFUND_FAILED | EV_ADJUSTMENT_APPLIED

datatype refund_status = R_PENDING_REVIEW | R_APPROVED | R_REJECTED | R_COMPLETED | R_FAILED

datatype refund_reason =
  DUPLICATE_PAYMENT | USER_REQUEST | CAMPAIGN_CANCELED | PROVIDER_REVERSAL | ADMIN_CORRECTION | RR_OTHER

datatype adjustment_type = CREDIT | DEBIT

datatype adjustment_status = A_PENDING_REVIEW | A_APPROVED | A_REJECTED | A_APPLIED

datatype risk_signal_type =
    HIGH_AMOUNT_NEW_USER | PAYMENT_FAILURE_SPIKE | SUSPICIOUS_IP_VELOCITY | REFUND_VELOCITY
  | CAMPAIGN_REFUND_SPIKE | ADJUSTMENT_ANOMALY

datatype risk_severity = RS_LOW | RS_MEDIUM | RS_HIGH | RS_CRITICAL

datatype risk_status = RK_OPEN | RK_REVIEWED | RK_DISMISSED | RK_ESCALATED

datatype disbursement_status = D_REQUESTED | D_APPROVED | D_REJECTED | D_PAID | D_CANCELED

datatype control_severity = FC_HEALTHY | FC_WATCH | FC_WARNING | FC_CRITICAL

section \<open>Models\<close>

text \<open>An uploaded file, as the image validators see it.\<close>

record upload =
  up_name :: string
  up_size :: nat

record sponsor =
  sp_name :: string
  sp_slug :: string
  sp_logo :: "upload option"

record campaign =
  c_sponsor :: nat
  c_title :: string
  c_slug :: string
  c_description :: string
  c_cover_image :: string
  c_total_amount :: int
  c_total_shares :: int
  c_share_price :: int
  c_purchased_shares :: int
  c_purchased_amount :: int
  c_participant_count :: int
  c_external_funded_shares :: int
  c_external_funded_amount :: int
  c_status :: campaign_status
  c_is_visible :: bool
  c_has_deadline :: bool
  c_deadline :: "int option"
  c_published_at :: "int option"
  c_completed_at :: "int option"
  c_closed_at :: "int option"

record external_funding =
  xf_campaign :: nat
  xf_status :: external_funding_status
  xf_shares :: int
  xf_amount :: int
  xf_share_price_snapshot :: int
  xf_method :: external_funding_method
  xf_reference :: string
  xf_note :: string
  xf_funded_at :: int
  xf_recorded_by :: "nat option"
  xf_void_reason :: string
  xf_voided_at :: "int option"

record campaign_image =
  ci_campaign :: nat
  ci_image :: string
  ci_alt_text :: string
  ci_display_order :: nat

record participation =
  p_campaign :: nat
  p_user :: nat
  p_share_count :: int
  p_share_price_snapshot :: int
  p_total_amount :: int
  p_status :: participation_status
  p_paid_at :: "int option"

record payment =
  pay_participation :: nat
  pay_user :: nat
  pay_amount :: int
  pay_gateway_name :: string
  pay_authority :: string
  pay_ref_id :: string
  pay_gateway_status :: string
  pay_status :: payment_status
  pay_paid_at :: "int option"
  pay_verified_at :: "int option"
  pay_ip_address :: "string option"
  pay_user_agent :: string

text \<open>The status columns of an event are text: empty for "no previous status".\<close>

record payment_event =
  ev_payment :: nat
  ev_kind :: payment_event_kind
  ev_previous_status :: "payment_status option"
  ev_new_status :: "payment_status option"
  ev_amount :: int
  ev_gateway_status :: string
  ev_ref_id :: string
  ev_metadata :: json_obj

record payment_refund =
  rf_payment :: nat
  rf_requested_by :: "nat option"
  rf_reviewed_by :: "nat option"
  rf_amount :: int
  rf_reason :: refund_reason
  rf_status :: refund_status
  rf_idempotency_key :: "string option"
  rf_provider_ref_id :: string
  rf_note :: string
  rf_rejection_reason :: string
  rf_reviewed_at :: "int option"
  rf_completed_at :: "int option"

record adjustment =
  ad_campaign :: nat
  ad_payment :: "nat option"
  ad_requested_by :: "nat option"
  ad_reviewed_by :: "nat option"
  ad_type :: adjustment_type
  ad_status :: adjustment_status
  ad_amount :: int
  ad_reason :: string
  ad_note :: string
  ad_rejection_reason :: string
  ad_reviewed_at :: "int option"
  ad_applied_at :: "int option"

record control_flag =
  fl_key :: string
  fl_severity :: control_severity
  fl_count :: int

record control_snapshot =
  cs_generated_for_date :: int
  cs_severity :: control_severity
  cs_open_flags :: nat
  cs_critical_flags :: nat
  cs_warning_flags :: nat
  cs_controls :: "(string \<times> int) list"
  cs_flags :: "control_flag list"
  cs_generated_by_task_id :: string

record disbursement =
  db_campaign :: nat
  db_requested_by :: "nat option"
  db_reviewed_by :: "nat option"
  db_paid_by :: "nat option"
  db_status :: disbursement_status
  db_amount :: int
  db_recipient_name :: string
  db_recipient_identifier :: string
  db_recipient_bank_account :: string
  db_purpose :: string
  db_note :: string
  db_rejection_reason :: string
  db_bank_tracking_reference :: string
  db_supporting_document :: json_obj
  db_approved_at :: "int option"
  db_rejected_at :: "int option"
  db_paid_at :: "int option"

text \<open>The snapshots of a receipt are the JSON objects the service builds.\<close>

record donation_receipt =
  dr_payment :: nat
  dr_user :: nat
  dr_campaign :: nat
  dr_receipt_number :: string
  dr_receipt_hash :: string
  dr_hash_version :: nat
  dr_amount :: int
  dr_issued_at :: int
  dr_payment_snapshot :: json_obj
  dr_campaign_snapshot :: json_obj
  dr_donor_snapshot :: json_obj
  dr_resend_count :: nat
  dr_last_resent_at :: "int option"

record risk_signal =
  rk_signal_type :: risk_signal_type
  rk_severity :: risk_severity
  rk_status :: risk_status
  rk_user :: "nat option"
  rk_campaign :: "nat option"
  rk_payment :: "nat option"
  rk_refund :: "nat option"
  rk_adjustment :: "nat option"
  rk_ip_address :: "string option"
  rk_metadata :: json_obj
  rk_reviewed_by :: "nat option"
  rk_reviewed_at :: "int option"
  rk_review_note :: string

record reconciliation_batch =
  rb_provider_name :: string
  rb_source_name :: string
  rb_status :: reconciliation_status
  rb_total_rows :: nat
  rb_matched_count :: nat
  rb_mismatch_count :: nat
  rb_missing_internal_count :: nat
  rb_duplicate_provider_ref_count :: nat
  rb_completed_at :: "int option"

record reconciliation_item =
  ri_batch :: nat
  ri_payment :: "nat option"
  ri_authority :: string
  ri_provider_ref_id :: string
  ri_provider_amount :: int
  ri_provider_status :: string
  ri_internal_amount :: "int option"
  ri_internal_status :: "payment_status option"
  ri_status :: reconciliation_item_status

text \<open>The database: the notification tables and one table per Madadkar model. The first six
  tables hold the money; the invariants of the app speak of them only.\<close>

record mdk_db = ntf_db +
  campaigns :: "campaign table"
  participations :: "participation table"
  payments :: "payment table"
  refunds :: "payment_refund table"
  adjustments :: "adjustment table"
  external_fundings :: "external_funding table"
  payment_events :: "payment_event table"
  sponsors :: "sponsor table"
  campaign_images :: "campaign_image table"
  disbursements :: "disbursement table"
  receipts :: "donation_receipt table"
  risk_signals :: "risk_signal table"
  recon_batches :: "reconciliation_batch table"
  recon_items :: "reconciliation_item table"
  control_snapshots :: "control_snapshot table"

text \<open>A database with no row, to build examples on.\<close>

definition empty_db :: mdk_db where
  "empty_db = \<lparr>ntf_templates = [], ntf_events = [], ntf_deliveries = [], ntf_preferences = [], activities = [],
     on_commit_dispatch = [], campaigns = [], participations = [], payments = [], refunds = [], adjustments = [],
     external_fundings = [], payment_events = [], sponsors = [], campaign_images = [], disbursements = [], receipts = [],
     risk_signals = [], recon_batches = [], recon_items = [], control_snapshots = []\<rparr>"

text \<open>The risk ratio threshold is a float setting, given as numerator and denominator.\<close>

record mdk_settings = ntf_settings +
  MADADKAR_PAYMENT_PROVIDER :: string
  MADADKAR_PAYMENT_CALLBACK_BASE_URL :: string
  MADADKAR_PAYMENT_TIMEOUT_MINUTES :: int
  MADADKAR_ZARINPAL_MERCHANT_ID :: string
  MADADKAR_RISK_HIGH_AMOUNT_NEW_USER_THRESHOLD :: int
  MADADKAR_RISK_PAYMENT_FAILURE_SPIKE_THRESHOLD :: nat
  MADADKAR_RISK_IP_DISTINCT_USERS_THRESHOLD :: nat
  MADADKAR_RISK_REFUND_VELOCITY_THRESHOLD :: nat
  MADADKAR_RISK_CAMPAIGN_REFUND_SPIKE_THRESHOLD :: nat
  MADADKAR_RISK_ADJUSTMENT_RATIO_THRESHOLD :: "int \<times> int"

section \<open>Computed properties\<close>

definition funded_shares :: "campaign \<Rightarrow> int" where
  "funded_shares c = c_purchased_shares c + c_external_funded_shares c"

definition remaining_shares :: "campaign \<Rightarrow> int" where
  "remaining_shares c = max (c_total_shares c - funded_shares c) 0"

definition is_fully_funded :: "campaign \<Rightarrow> bool" where
  "is_fully_funded c = (c_total_shares c \<le> funded_shares c)"

text \<open>The percentage before it is rounded to one decimal, as numerator and denominator.\<close>

definition progress_percent :: "campaign \<Rightarrow> int \<times> int" where
  "progress_percent c = (if c_total_shares c \<le> 0 then (0, 1) else (funded_shares c * 100, c_total_shares c))"

definition signed_amount :: "adjustment \<Rightarrow> int" where
  "signed_amount a = (if ad_type a = CREDIT then ad_amount a else - ad_amount a)"

definition is_full_refund :: "payment_refund \<Rightarrow> payment \<Rightarrow> bool" where
  "is_full_refund r p = (pay_amount p \<le> rf_amount r)"

section \<open>Database constraints\<close>

text \<open>The check constraints of \<open>Campaign.Meta\<close>, with the non-negativity that a positive integer
  column carries.\<close>

definition campaign_constraints :: "campaign \<Rightarrow> bool" where
  "campaign_constraints c \<longleftrightarrow>
     1000 \<le> c_total_amount c \<and> 1 \<le> c_total_shares c \<and> 1 \<le> c_share_price c \<and>
     c_purchased_shares c \<le> c_total_shares c \<and>
     (c_has_deadline c \<longleftrightarrow> c_deadline c \<noteq> None) \<and>
     0 \<le> c_purchased_shares c \<and> 0 \<le> c_purchased_amount c \<and> 0 \<le> c_participant_count c \<and>
     0 \<le> c_external_funded_shares c \<and> 0 \<le> c_external_funded_amount c"

definition participation_constraints :: "participation \<Rightarrow> bool" where
  "participation_constraints p \<longleftrightarrow>
     1 \<le> p_share_count p \<and> 1 \<le> p_share_price_snapshot p \<and> 1 \<le> p_total_amount p"

text \<open>\<open>Campaign.save(update_fields=...)\<close>: the listed columns are written under the constraints.\<close>

definition save_campaign :: "int \<Rightarrow> nat \<Rightarrow> (campaign \<Rightarrow> campaign) \<Rightarrow> (mdk_db, unit) svc" where
  "save_campaign now k f =
     bnd (follow campaigns k) (\<lambda>r.
     seqn (check (campaign_constraints (f (vals r))) IntegrityError)
     (modify (\<lambda>s. s\<lparr>campaigns := tbl_upd k now f (campaigns s)\<rparr>)))"

definition save_participation :: "int \<Rightarrow> nat \<Rightarrow> (participation \<Rightarrow> participation) \<Rightarrow> (mdk_db, unit) svc" where
  "save_participation now k f = modify (\<lambda>s. s\<lparr>participations := tbl_upd k now f (participations s)\<rparr>)"

definition save_payment :: "int \<Rightarrow> nat \<Rightarrow> (payment \<Rightarrow> payment) \<Rightarrow> (mdk_db, unit) svc" where
  "save_payment now k f = modify (\<lambda>s. s\<lparr>payments := tbl_upd k now f (payments s)\<rparr>)"

definition save_refund :: "int \<Rightarrow> nat \<Rightarrow> (payment_refund \<Rightarrow> payment_refund) \<Rightarrow> (mdk_db, unit) svc" where
  "save_refund now k f = modify (\<lambda>s. s\<lparr>refunds := tbl_upd k now f (refunds s)\<rparr>)"

definition save_adjustment :: "int \<Rightarrow> nat \<Rightarrow> (adjustment \<Rightarrow> adjustment) \<Rightarrow> (mdk_db, unit) svc" where
  "save_adjustment now k f = modify (\<lambda>s. s\<lparr>adjustments := tbl_upd k now f (adjustments s)\<rparr>)"

definition save_disbursement :: "int \<Rightarrow> nat \<Rightarrow> (disbursement \<Rightarrow> disbursement) \<Rightarrow> (mdk_db, unit) svc" where
  "save_disbursement now k f = modify (\<lambda>s. s\<lparr>disbursements := tbl_upd k now f (disbursements s)\<rparr>)"

declare save_campaign_def [svc_defs] save_participation_def [svc_defs] save_payment_def [svc_defs]
  save_refund_def [svc_defs] save_adjustment_def [svc_defs] save_disbursement_def [svc_defs]

text \<open>The money tables of a state.\<close>

definition money :: "mdk_db \<Rightarrow> campaign table \<times> participation table \<times> payment table \<times>
    payment_refund table \<times> adjustment table \<times> external_funding table" where
  "money s = (campaigns s, participations s, payments s, refunds s, adjustments s, external_fundings s)"

lemma save_campaign_Inr [svc_inv]:
  "save_campaign now k f s = (Inr u, t) \<longleftrightarrow>
     (\<exists>r. tbl_all k (campaigns s) = Some r \<and> campaign_constraints (f (vals r)) \<and>
          t = s\<lparr>campaigns := tbl_upd k now f (campaigns s)\<rparr>)"
  by (auto simp: save_campaign_def svc_inv)

lemma save_row_Inr [svc_inv]:
  "save_participation now k fp s = (Inr u, t) \<longleftrightarrow> t = s\<lparr>participations := tbl_upd k now fp (participations s)\<rparr>"
  "save_payment now k fy s = (Inr u, t) \<longleftrightarrow> t = s\<lparr>payments := tbl_upd k now fy (payments s)\<rparr>"
  "save_refund now k fr s = (Inr u, t) \<longleftrightarrow> t = s\<lparr>refunds := tbl_upd k now fr (refunds s)\<rparr>"
  "save_adjustment now k fa s = (Inr u, t) \<longleftrightarrow> t = s\<lparr>adjustments := tbl_upd k now fa (adjustments s)\<rparr>"
  "save_disbursement now k fd s = (Inr u, t) \<longleftrightarrow> t = s\<lparr>disbursements := tbl_upd k now fd (disbursements s)\<rparr>"
  by (auto simp: save_participation_def save_payment_def save_refund_def save_adjustment_def
      save_disbursement_def svc_inv)

end
