(* ===== verification/Mdk_Counters.thy ===== *)
theory Mdk_Counters
  imports Mdk_Types
begin

text \<open>
  The helpers shared by the Madadkar services (\<^verbatim>\<open>src/apps/madadkar/services.py\<close>, section
  "Helpers"): recomputing the denormalised counters of a campaign from its source rows, the test
  whether a campaign accepts shares, and the append-only payment event ledger.
\<close>

section \<open>Definitions\<close>

text \<open>The queries of \<open>_sync_campaign_counters\<close>.\<close>

definition reserved_shares :: "mdk_db \<Rightarrow> nat \<Rightarrow> int" where
  "reserved_shares s k = agg_sum (\<lambda>r. p_share_count (vals r))
     (\<lambda>r. p_campaign (vals r) = k \<and> p_status (vals r) \<in> {PAID, PENDING_PAYMENT}) (objects (participations s))"

definition paid_amount :: "mdk_db \<Rightarrow> nat \<Rightarrow> int" where
  "paid_amount s k = agg_sum (\<lambda>r. p_total_amount (vals r))
     (\<lambda>r. p_campaign (vals r) = k \<and> p_status (vals r) = PAID) (objects (participations s))"

definition unique_users :: "mdk_db \<Rightarrow> nat \<Rightarrow> int" where
  "unique_users s k = int (agg_count_distinct (\<lambda>r. p_user (vals r))
     (\<lambda>r. p_campaign (vals r) = k \<and> p_status (vals r) = PAID) (objects (participations s)))"

text \<open>The join \<open>payment__participation\<close>: foreign keys are followed whatever \<open>is_active\<close> says.\<close>

definition participation_of_payment :: "mdk_db \<Rightarrow> nat \<Rightarrow> participation option" where
  "participation_of_payment s k =
     (case tbl_all k (payments s) of
        None \<Rightarrow> None
      | Some y \<Rightarrow> map_option vals (tbl_all (pay_participation (vals y)) (participations s)))"

definition completed_refunds :: "mdk_db \<Rightarrow> nat \<Rightarrow> int" where
  "completed_refunds s k = agg_sum (\<lambda>r. rf_amount (vals r))
     (\<lambda>r. rf_status (vals r) = R_COMPLETED \<and>
        (case participation_of_payment s (rf_payment (vals r)) of
           None \<Rightarrow> False | Some p \<Rightarrow> p_campaign p = k \<and> p_status p = PAID)) (objects (refunds s))"

definition adjustment_delta :: "mdk_db \<Rightarrow> nat \<Rightarrow> int" where
  "adjustment_delta s k = agg_sum (\<lambda>r. signed_amount (vals r))
     (\<lambda>r. ad_campaign (vals r) = k \<and> ad_status (vals r) = A_APPLIED) (objects (adjustments s))"

definition external_shares :: "mdk_db \<Rightarrow> nat \<Rightarrow> int" where
  "external_shares s k = agg_sum (\<lambda>r. xf_shares (vals r))
     (\<lambda>r. xf_campaign (vals r) = k \<and> xf_status (vals r) = RECORDED) (objects (external_fundings s))"

definition external_amount :: "mdk_db \<Rightarrow> nat \<Rightarrow> int" where
  "external_amount s k = agg_sum (\<lambda>r. xf_amount (vals r))
     (\<lambda>r. xf_campaign (vals r) = k \<and> xf_status (vals r) = RECORDED) (objects (external_fundings s))"

definition synced :: "mdk_db \<Rightarrow> nat \<Rightarrow> campaign \<Rightarrow> campaign" where
  "synced s k c = c\<lparr>c_purchased_shares := reserved_shares s k,
     c_purchased_amount := max (paid_amount s k - completed_refunds s k + adjustment_delta s k) 0,
     c_participant_count := unique_users s k,
     c_external_funded_shares := external_shares s k,
     c_external_funded_amount := external_amount s k\<rparr>"

definition sync_campaign_counters :: "int \<Rightarrow> campaign row \<Rightarrow> (mdk_db, campaign row) svc" where
  "sync_campaign_counters now c =
     bnd (gets (\<lambda>s. synced s (row_pk c))) (\<lambda>f.
     seqn (save_campaign now (row_pk c) f)
     (ret (c\<lparr>updated_at := now, vals := f (vals c)\<rparr>)))"

definition has_paid_participations :: "mdk_db \<Rightarrow> nat \<Rightarrow> bool" where
  "has_paid_participations s k =
     list_ex (\<lambda>r. p_campaign (vals r) = k \<and> p_status (vals r) = PAID) (objects (participations s))"

datatype closed_reason =
  CR_INACTIVE | CR_HIDDEN | CR_DRAFT | CR_COMPLETED | CR_CLOSED | CR_DEADLINE | CR_FULL

definition is_campaign_open_for_participation :: "int \<Rightarrow> campaign row \<Rightarrow> closed_reason option" where
  "is_campaign_open_for_participation now r =
     (let c = vals r in
      if \<not> is_active r then Some CR_INACTIVE
      else if \<not> c_is_visible c then Some CR_HIDDEN
      else if c_status c = C_DRAFT then Some CR_DRAFT
      else if c_status c = C_COMPLETED then Some CR_COMPLETED
      else if c_status c = C_CLOSED then Some CR_CLOSED
      else if c_has_deadline c \<and> (case c_deadline c of None \<Rightarrow> False | Some d \<Rightarrow> d \<le> now) then Some CR_DEADLINE
      else if is_fully_funded c then Some CR_FULL
      else None)"

text \<open>The ledger entry copies amount, gateway status and reference of the payment object.\<close>

definition record_payment_event ::
  "int \<Rightarrow> payment row \<Rightarrow> payment_event_kind \<Rightarrow> payment_status option \<Rightarrow> payment_status option \<Rightarrow> json_obj \<Rightarrow>
   (mdk_db, payment_event row) svc" where
  "record_payment_event now pay kind previous_status new_status metadata =
     bnd (gets (\<lambda>s. new_row now
       \<lparr>ev_payment = row_pk pay, ev_kind = kind, ev_previous_status = previous_status,
        ev_new_status = new_status, ev_amount = pay_amount (vals pay),
        ev_gateway_status = pay_gateway_status (vals pay), ev_ref_id = pay_ref_id (vals pay),
        ev_metadata = metadata\<rparr> (payment_events s))) (\<lambda>e.
     seqn (modify (\<lambda>s. s\<lparr>payment_events := payment_events s @ [e]\<rparr>))
     (ret e))"

text \<open>\<open>PaymentEvent.save\<close> on a stored row, and its three delete paths, all refuse.\<close>

definition resave_payment_event :: "payment_event row \<Rightarrow> (mdk_db, unit) svc" where
  "resave_payment_event e = raise PermissionError"

definition delete_payment_event :: "payment_event row \<Rightarrow> (mdk_db, unit) svc" where
  "delete_payment_event e = raise PermissionError"

text \<open>The counters of every campaign agree with the rows they summarise.\<close>

definition counters_ok :: "mdk_db \<Rightarrow> bool" where
  "counters_ok s = list_all (\<lambda>r. synced s (row_pk r) (vals r) = vals r) (campaigns s)"

text \<open>What the services rely on of the tables: keys are unique.\<close>

definition keys_ok :: "mdk_db \<Rightarrow> bool" where
  "keys_ok s \<longleftrightarrow> distinct (map row_pk (campaigns s)) \<and> distinct (map row_pk (participations s)) \<and>
     distinct (map row_pk (payments s)) \<and> distinct (map row_pk (refunds s)) \<and>
     distinct (map row_pk (adjustments s)) \<and> distinct (map row_pk (external_fundings s))"

section \<open>Inversion and frame\<close>

lemma sync_Inr [svc_inv]:
  "sync_campaign_counters now c s = (Inr c', t) \<longleftrightarrow>
     (\<exists>r. tbl_all (row_pk c) (campaigns s) = Some r \<and> campaign_constraints (synced s (row_pk c) (vals r)) \<and>
        t = s\<lparr>campaigns := tbl_upd (row_pk c) now (synced s (row_pk c)) (campaigns s)\<rparr> \<and>
        c' = c\<lparr>updated_at := now, vals := synced s (row_pk c) (vals c)\<rparr>)"
  by (auto simp: sync_campaign_counters_def svc_inv)

lemma record_payment_event_Inr [svc_inv]:
  "record_payment_event now pay kind pst nst md s = (Inr e, t) \<longleftrightarrow>
     e = new_row now \<lparr>ev_payment = row_pk pay, ev_kind = kind, ev_previous_status = pst,
        ev_new_status = nst, ev_amount = pay_amount (vals pay),
        ev_gateway_status = pay_gateway_status (vals pay), ev_ref_id = pay_ref_id (vals pay),
        ev_metadata = md\<rparr> (payment_events s) \<and>
     t = s\<lparr>payment_events := payment_events s @ [e]\<rparr>"
  by (auto simp: record_payment_event_def svc_inv)

lemma keeps_money_event [keeps_rules]: "keeps money (record_payment_event now pay kind pst nst md)"
  unfolding record_payment_event_def
  by (intro keeps_rules keeps_modify) (simp add: money_def)

text \<open>The source sums read the money tables but not the campaigns.\<close>

lemmas source_sums = reserved_shares_def paid_amount_def unique_users_def participation_of_payment_def
  completed_refunds_def adjustment_delta_def external_shares_def external_amount_def

lemma synced_money:
  "participations t = participations s \<Longrightarrow> payments t = payments s \<Longrightarrow> refunds t = refunds s \<Longrightarrow>
   adjustments t = adjustments s \<Longrightarrow> external_fundings t = external_fundings s \<Longrightarrow> synced t = synced s"
  by (intro ext) (simp add: synced_def source_sums cong: option.case_cong)

lemma synced_campaigns_update [simp]: "synced (s\<lparr>campaigns := x\<rparr>) = synced s"
  by (rule synced_money) simp_all

lemma synced_synced [simp]: "synced s k (synced s k c) = synced s k c"
  by (simp add: synced_def)

lemma synced_fields [simp]:
  "c_sponsor (synced s k c) = c_sponsor c" "c_total_amount (synced s k c) = c_total_amount c"
  "c_total_shares (synced s k c) = c_total_shares c" "c_share_price (synced s k c) = c_share_price c"
  "c_status (synced s k c) = c_status c" "c_is_visible (synced s k c) = c_is_visible c"
  "c_has_deadline (synced s k c) = c_has_deadline c" "c_deadline (synced s k c) = c_deadline c"
  "c_slug (synced s k c) = c_slug c" "c_published_at (synced s k c) = c_published_at c"
  "c_purchased_shares (synced s k c) = reserved_shares s k"
  "c_external_funded_shares (synced s k c) = external_shares s k"
  "c_participant_count (synced s k c) = unique_users s k"
  "c_external_funded_amount (synced s k c) = external_amount s k"
  "c_purchased_amount (synced s k c) =
     max (paid_amount s k - completed_refunds s k + adjustment_delta s k) 0"
  by (simp_all add: synced_def)

lemma counters_okD:
  "counters_ok s \<Longrightarrow> r \<in> set (campaigns s) \<Longrightarrow>
   c_purchased_shares (vals r) = reserved_shares s (row_pk r) \<and>
   c_external_funded_shares (vals r) = external_shares s (row_pk r) \<and>
   c_purchased_amount (vals r) =
     max (paid_amount s (row_pk r) - completed_refunds s (row_pk r) + adjustment_delta s (row_pk r)) 0"
  unfolding counters_ok_def list_all_iff by (metis synced_fields)

text \<open>A resync repairs the counters: it is enough that the other campaigns were in order.\<close>

lemma counters_ok_resync:
  assumes "\<And>r. r \<in> set (campaigns s) \<Longrightarrow> row_pk r \<noteq> k \<Longrightarrow> synced s (row_pk r) (vals r) = vals r"
  shows "counters_ok (s\<lparr>campaigns := tbl_upd k now (synced s k) (campaigns s)\<rparr>)"
  using assms by (auto simp: counters_ok_def list_all_iff set_tbl_upd)

text \<open>A write to a campaign row that leaves the counters alone keeps them in order.\<close>

lemma counters_ok_campaign_write:
  assumes "counters_ok s"
    and "\<And>c. synced s k c = c \<Longrightarrow> synced s k (f c) = f c"
  shows "counters_ok (s\<lparr>campaigns := tbl_upd k now f (campaigns s)\<rparr>)"
  using assms by (auto simp: counters_ok_def list_all_iff set_tbl_upd)

lemma counters_ok_other:
  assumes "counters_ok s" and "r \<in> set (campaigns s)"
  shows "synced s (row_pk r) (vals r) = vals r"
  using assms by (simp add: counters_ok_def list_all_iff)

end
