(* ===== verification/Mdk_Ledger.thy ===== *)
theory Mdk_Ledger
  imports Mdk_Counters
begin

text \<open>
  The ledger invariant of Madadkar and the locality lemmas behind it: which campaigns a change of
  one participation, payment, refund, adjustment or offline funding row can affect. The services
  recompute the counters of exactly one campaign after such a change; these lemmas show that this
  is enough.
\<close>

section \<open>The invariant\<close>

definition keys_of :: "'v table \<Rightarrow> nat set" where
  "keys_of t = row_pk ` set t"

text \<open>Foreign keys of the money tables.\<close>

definition refs_ok :: "mdk_db \<Rightarrow> bool" where
  "refs_ok s \<longleftrightarrow>
     (\<forall>r \<in> set (participations s). p_campaign (vals r) \<in> keys_of (campaigns s)) \<and>
     (\<forall>r \<in> set (payments s). pay_participation (vals r) \<in> keys_of (participations s)) \<and>
     (\<forall>r \<in> set (refunds s). rf_payment (vals r) \<in> keys_of (payments s)) \<and>
     (\<forall>r \<in> set (adjustments s). ad_campaign (vals r) \<in> keys_of (campaigns s)) \<and>
     (\<forall>r \<in> set (external_fundings s). xf_campaign (vals r) \<in> keys_of (campaigns s))"

text \<open>Refunds of a payment that are pending, approved or completed never exceed what was paid.\<close>

definition live_refunds :: "mdk_db \<Rightarrow> nat \<Rightarrow> int" where
  "live_refunds s k = agg_sum (\<lambda>r. rf_amount (vals r))
     (\<lambda>r. rf_payment (vals r) = k \<and> rf_status (vals r) \<in> {R_PENDING_REVIEW, R_APPROVED, R_COMPLETED})
     (objects (refunds s))"

definition refunds_capped :: "mdk_db \<Rightarrow> bool" where
  "refunds_capped s \<longleftrightarrow>
     (\<forall>y \<in> set (payments s). live_refunds s (row_pk y) \<le> pay_amount (vals y) \<and> 1 \<le> pay_amount (vals y)) \<and>
     (\<forall>r \<in> set (refunds s). 1 \<le> rf_amount (vals r))"

definition ledger_ok :: "mdk_db \<Rightarrow> bool" where
  "ledger_ok s \<longleftrightarrow> keys_ok s \<and> refs_ok s \<and> counters_ok s \<and> refunds_capped s"

section \<open>The invariant reads the money tables only\<close>

lemma keys_of_upd [simp]: "keys_of (tbl_upd k now f t) = keys_of t"
  by (simp add: keys_of_def)

lemma keys_of_set_active [simp]: "keys_of (tbl_set_active k now b t) = keys_of t"
  unfolding keys_of_def by (metis list.set_map map_row_pk_tbl_set_active)

lemma keys_of_insert [simp]: "keys_of (t @ [r]) = insert (row_pk r) (keys_of t)"
  by (simp add: keys_of_def)

lemma next_pk_notin [simp]: "next_pk t \<notin> keys_of t"
  using next_pk_fresh by (simp add: keys_of_def)

lemma keys_ofI: "r \<in> set t \<Longrightarrow> row_pk r \<in> keys_of t"
  by (simp add: keys_of_def)

lemma tbl_all_keys: "k \<in> keys_of t \<longleftrightarrow> (\<exists>r. tbl_all k t = Some r)"
  using tbl_all_None_iff [of k t] by (auto simp: keys_of_def)

lemma tbl_get_keys: "tbl_get k t = Some r \<Longrightarrow> k \<in> keys_of t"
  using tbl_get_Some [of k t r] keys_ofI [of r t] by blast

lemma moneyD:
  assumes "money t = money s"
  shows "campaigns t = campaigns s" "participations t = participations s" "payments t = payments s"
    "refunds t = refunds s" "adjustments t = adjustments s" "external_fundings t = external_fundings s"
  using assms by (auto simp: money_def)

lemma ledger_ok_money:
  assumes "money t = money s"
  shows "ledger_ok t = ledger_ok s"
proof -
  note eqs = moneyD [OF assms]
  have "synced t = synced s" by (rule synced_money) (simp_all add: eqs)
  then show ?thesis
    by (simp add: ledger_ok_def keys_ok_def refs_ok_def counters_ok_def refunds_capped_def live_refunds_def eqs)
qed

section \<open>Locality of the source sums\<close>

text \<open>\<open>synced\<close> depends on the seven sums alone.\<close>

lemma synced_cong:
  assumes "reserved_shares t j = reserved_shares s j" "paid_amount t j = paid_amount s j"
    "unique_users t j = unique_users s j" "completed_refunds t j = completed_refunds s j"
    "adjustment_delta t j = adjustment_delta s j" "external_shares t j = external_shares s j"
    "external_amount t j = external_amount s j"
  shows "synced t j = synced s j"
  using assms by (intro ext) (simp add: synced_def)

lemma filter_objects_upd_same:
  assumes "\<And>r. r \<in> set t \<Longrightarrow> row_pk r = k \<Longrightarrow> \<not> p r \<and> \<not> p (r\<lparr>updated_at := now, vals := h (vals r)\<rparr>)"
  shows "filter p (objects (tbl_upd k now h t)) = filter p (objects t)"
  unfolding objects_tbl_upd by (rule filter_tbl_upd_same) (use assms in \<open>auto simp: objects_def\<close>)

lemma synced_participation_upd:
  assumes own: "\<And>r. r \<in> set (participations s) \<Longrightarrow> row_pk r = i \<Longrightarrow> p_campaign (vals r) = k"
    and h: "\<And>x. p_campaign (h x) = p_campaign x" and j: "j \<noteq> k"
  shows "synced (s\<lparr>participations := tbl_upd i now h (participations s)\<rparr>) j = synced s j"
proof -
  let ?t = "s\<lparr>participations := tbl_upd i now h (participations s)\<rparr>"
  have rows: "filter (\<lambda>r. p_campaign (vals r) = j \<and> Q r) (objects (participations ?t)) =
      filter (\<lambda>r. p_campaign (vals r) = j \<and> Q r) (objects (participations s))" for Q
    using own h j by (auto intro!: filter_objects_upd_same)
  have own': "p_campaign (vals r) = k" if "tbl_all i (participations s) = Some r" for r
    using own tbl_all_Some [OF that] by blast
  have pop: "(case participation_of_payment ?t y of None \<Rightarrow> False | Some p \<Rightarrow> p_campaign p = j \<and> p_status p = PAID) =
      (case participation_of_payment s y of None \<Rightarrow> False | Some p \<Rightarrow> p_campaign p = j \<and> p_status p = PAID)" for y
    using h j own' by (auto simp: participation_of_payment_def tbl_all_upd split: option.split)
  show ?thesis
    by (rule synced_cong)
      (simp_all add: reserved_shares_def paid_amount_def unique_users_def agg_sum_def agg_count_distinct_def
        completed_refunds_def adjustment_delta_def external_shares_def external_amount_def
        rows [simplified] pop)
qed

text \<open>A new participation is seen by its own campaign only, as no payment refers to its key.\<close>

lemma synced_participation_insert:
  assumes refs: "refs_ok s" and j: "j \<noteq> p_campaign v"
  shows "synced (s\<lparr>participations := participations s @ [new_row now v (participations s)]\<rparr>) j = synced s j"
proof -
  let ?t = "s\<lparr>participations := participations s @ [new_row now v (participations s)]\<rparr>"
  have "tbl_all (pay_participation (vals y)) (participations ?t) =
      tbl_all (pay_participation (vals y)) (participations s)" if "tbl_all k (payments s) = Some y" for k y
  proof -
    have "pay_participation (vals y) \<noteq> next_pk (participations s)"
      using refs tbl_all_Some [OF that] next_pk_notin [of "participations s"] by (auto simp: refs_ok_def)
    then show ?thesis by (simp add: tbl_all_insert [unfolded tbl_insert_def])
  qed
  then have pop: "participation_of_payment ?t k = participation_of_payment s k" for k
    by (auto simp: participation_of_payment_def split: option.split)
  show ?thesis
    using j by (intro synced_cong)
      (simp_all add: reserved_shares_def paid_amount_def unique_users_def agg_sum_def agg_count_distinct_def
        completed_refunds_def adjustment_delta_def external_shares_def external_amount_def pop)
qed

text \<open>The sums of a payment change: the participation a payment belongs to never changes.\<close>

lemma synced_payment_upd:
  assumes h: "\<And>x. pay_participation (h x) = pay_participation x"
  shows "synced (s\<lparr>payments := tbl_upd i now h (payments s)\<rparr>) = synced s"
proof -
  have "participation_of_payment (s\<lparr>payments := tbl_upd i now h (payments s)\<rparr>) k = participation_of_payment s k" for k
    using h by (auto simp: participation_of_payment_def tbl_all_upd split: option.split)
  then show ?thesis
    by (intro ext fun_cong [OF synced_cong])
      (simp_all add: reserved_shares_def paid_amount_def unique_users_def
        completed_refunds_def adjustment_delta_def external_shares_def external_amount_def)
qed

lemma synced_payment_insert:
  assumes refs: "refs_ok s"
  shows "synced (s\<lparr>payments := payments s @ [new_row now v (payments s)]\<rparr>) = synced s"
proof -
  let ?t = "s\<lparr>payments := payments s @ [new_row now v (payments s)]\<rparr>"
  have pop: "participation_of_payment ?t (rf_payment (vals r)) = participation_of_payment s (rf_payment (vals r))"
    if "r \<in> set (refunds s)" for r
  proof -
    have "rf_payment (vals r) \<noteq> next_pk (payments s)"
      using refs that next_pk_notin [of "payments s"] by (auto simp: refs_ok_def)
    then show ?thesis by (simp add: participation_of_payment_def tbl_all_insert [unfolded tbl_insert_def] cong: option.case_cong)
  qed
  have "completed_refunds ?t j = completed_refunds s j" for j
    by (simp add: completed_refunds_def, rule agg_sum_cong) (auto simp: pop objects_def)
  then show ?thesis
    by (intro ext fun_cong [OF synced_cong])
      (simp_all add: reserved_shares_def paid_amount_def unique_users_def
        adjustment_delta_def external_shares_def external_amount_def)
qed

text \<open>Refunds: only a completed refund counts, for the campaign of its payment.\<close>

definition refund_counts_for :: "mdk_db \<Rightarrow> nat \<Rightarrow> payment_refund \<Rightarrow> bool" where
  "refund_counts_for s j v =
     (case participation_of_payment s (rf_payment v) of None \<Rightarrow> False | Some p \<Rightarrow> p_campaign p = j \<and> p_status p = PAID)"

lemma pop_refunds [simp]: "participation_of_payment (s\<lparr>refunds := x\<rparr>) = participation_of_payment s"
  by (simp add: participation_of_payment_def fun_eq_iff cong: option.case_cong)

lemma synced_refund_upd:
  assumes "\<And>r. r \<in> set (refunds s) \<Longrightarrow> row_pk r = i \<Longrightarrow>
      \<not> (rf_status (vals r) = R_COMPLETED \<and> refund_counts_for s j (vals r)) \<and>
      \<not> (rf_status (h (vals r)) = R_COMPLETED \<and> refund_counts_for s j (h (vals r)))"
  shows "synced (s\<lparr>refunds := tbl_upd i now h (refunds s)\<rparr>) j = synced s j"
proof -
  have "filter (\<lambda>r. rf_status (vals r) = R_COMPLETED \<and> refund_counts_for s j (vals r)) (objects (tbl_upd i now h (refunds s))) =
      filter (\<lambda>r. rf_status (vals r) = R_COMPLETED \<and> refund_counts_for s j (vals r)) (objects (refunds s))"
    using assms by (intro filter_objects_upd_same) auto
  then show ?thesis
    by (intro synced_cong)
      (simp_all add: reserved_shares_def paid_amount_def unique_users_def adjustment_delta_def
        external_shares_def external_amount_def completed_refunds_def agg_sum_def refund_counts_for_def)
qed

lemma synced_refund_insert:
  "rf_status v \<noteq> R_COMPLETED \<Longrightarrow> synced (s\<lparr>refunds := refunds s @ [new_row now v t]\<rparr>) = synced s"
  by (intro ext fun_cong [OF synced_cong])
    (simp_all add: reserved_shares_def paid_amount_def unique_users_def adjustment_delta_def
      external_shares_def external_amount_def completed_refunds_def)

lemma synced_adjustment_upd:
  assumes "\<And>r. r \<in> set (adjustments s) \<Longrightarrow> row_pk r = i \<Longrightarrow>
      \<not> (ad_campaign (vals r) = j \<and> ad_status (vals r) = A_APPLIED) \<and>
      \<not> (ad_campaign (h (vals r)) = j \<and> ad_status (h (vals r)) = A_APPLIED)"
  shows "synced (s\<lparr>adjustments := tbl_upd i now h (adjustments s)\<rparr>) j = synced s j"
proof -
  have "filter (\<lambda>r. ad_campaign (vals r) = j \<and> ad_status (vals r) = A_APPLIED) (objects (tbl_upd i now h (adjustments s))) =
      filter (\<lambda>r. ad_campaign (vals r) = j \<and> ad_status (vals r) = A_APPLIED) (objects (adjustments s))"
    using assms by (intro filter_objects_upd_same) auto
  then show ?thesis
    by (intro synced_cong)
      (simp_all add: source_sums agg_sum_def agg_count_distinct_def cong: option.case_cong)
qed

lemma synced_adjustment_insert:
  "ad_status v \<noteq> A_APPLIED \<Longrightarrow> synced (s\<lparr>adjustments := adjustments s @ [new_row now v t]\<rparr>) = synced s"
  by (intro ext fun_cong [OF synced_cong]) (simp_all add: source_sums cong: option.case_cong)

lemma synced_external_upd:
  assumes own: "\<And>r. r \<in> set (external_fundings s) \<Longrightarrow> row_pk r = i \<Longrightarrow> xf_campaign (vals r) = k"
    and h: "\<And>x. xf_campaign (h x) = xf_campaign x" and j: "j \<noteq> k"
  shows "synced (s\<lparr>external_fundings := tbl_upd i now h (external_fundings s)\<rparr>) j = synced s j"
proof -
  have "filter (\<lambda>r. xf_campaign (vals r) = j \<and> xf_status (vals r) = RECORDED) (objects (tbl_upd i now h (external_fundings s))) =
      filter (\<lambda>r. xf_campaign (vals r) = j \<and> xf_status (vals r) = RECORDED) (objects (external_fundings s))"
    using own h j by (intro filter_objects_upd_same) auto
  then show ?thesis
    by (intro synced_cong)
      (simp_all add: source_sums agg_sum_def agg_count_distinct_def cong: option.case_cong)
qed

lemma synced_external_insert:
  "j \<noteq> xf_campaign v \<Longrightarrow> synced (s\<lparr>external_fundings := external_fundings s @ [new_row now v t]\<rparr>) j = synced s j"
  by (intro synced_cong) (simp_all add: source_sums cong: option.case_cong)

section \<open>Restoring the counters\<close>

text \<open>A change that only the campaign \<open>k\<close> sees, followed by a resync of \<open>k\<close>.\<close>

lemma counters_ok_local:
  assumes "counters_ok s" and "campaigns t = campaigns s"
    and "\<And>j. j \<noteq> k \<Longrightarrow> synced t j = synced s j"
  shows "counters_ok (t\<lparr>campaigns := tbl_upd k now (synced t k) (campaigns s)\<rparr>)"
  using counters_ok_resync [of t k now] assms by (auto simp: counters_ok_other)

lemma counters_ok_same:
  assumes "counters_ok s" and "campaigns t = campaigns s" and "\<And>j. synced t j = synced s j"
  shows "counters_ok t"
  using assms by (simp add: counters_ok_def)

text \<open>A new campaign: nothing refers to its key yet.\<close>

lemma synced_fresh:
  assumes "refs_ok s" and "k \<notin> keys_of (campaigns s)"
    and "c_purchased_shares c = 0" "c_purchased_amount c = 0" "c_participant_count c = 0"
      "c_external_funded_shares c = 0" "c_external_funded_amount c = 0"
  shows "synced s k c = c"
proof -
  have no_p: "p_campaign (vals r) \<noteq> k" if "r \<in> set (objects (participations s))" for r
    using assms(1,2) that by (auto simp: refs_ok_def objects_def)
  have pop: "p_campaign p \<noteq> k" if "participation_of_payment s y = Some p" for y p
    using assms(1,2) that
    by (auto simp: refs_ok_def participation_of_payment_def split: option.splits dest!: tbl_all_Some)
  have "filter (\<lambda>r. p_campaign (vals r) = k \<and> p_status (vals r) = PAID) (objects (participations s)) = []"
    using no_p by (auto simp: filter_empty_conv)
  then have "paid_amount s k = 0" "unique_users s k = 0"
    by (simp_all add: paid_amount_def unique_users_def agg_sum_def agg_count_distinct_def)
  moreover have "reserved_shares s k = agg_sum (\<lambda>_. 0) (\<lambda>_. False) (objects (participations s))"
    unfolding reserved_shares_def by (rule agg_sum_cong) (auto dest: no_p)
  moreover
  have "completed_refunds s k = agg_sum (\<lambda>_. 0) (\<lambda>_. False) (objects (refunds s))"
    unfolding completed_refunds_def by (rule agg_sum_cong) (auto split: option.split dest: pop)
  moreover have "adjustment_delta s k = agg_sum (\<lambda>_. 0) (\<lambda>_. False) (objects (adjustments s))"
    unfolding adjustment_delta_def by (rule agg_sum_cong) (use assms(1,2) in \<open>auto simp: refs_ok_def objects_def\<close>)
  moreover have "external_shares s k = agg_sum (\<lambda>_. 0) (\<lambda>_. False) (objects (external_fundings s))"
    "external_amount s k = agg_sum (\<lambda>_. 0) (\<lambda>_. False) (objects (external_fundings s))"
    unfolding external_shares_def external_amount_def
    by (rule agg_sum_cong; use assms(1,2) in \<open>auto simp: refs_ok_def objects_def\<close>)+
  ultimately show ?thesis using assms(3-) by (simp add: synced_def agg_sum_def)
qed

section \<open>The ledger up to one campaign\<close>

text \<open>
  Between a change and the resync that follows it, the counters of one campaign \<open>k\<close> may be stale
  and the rest is in order. The lemmas below follow the writes of the services step by step.
\<close>

definition ledger_but :: "nat \<Rightarrow> mdk_db \<Rightarrow> bool" where
  "ledger_but k s \<longleftrightarrow> keys_ok s \<and> refs_ok s \<and> refunds_capped s \<and>
     (\<forall>r \<in> set (campaigns s). row_pk r \<noteq> k \<longrightarrow> synced s (row_pk r) (vals r) = vals r)"

lemma ledger_ok_but: "ledger_ok s \<longleftrightarrow> (\<forall>k. ledger_but k s)"
proof
  assume all: "\<forall>k. ledger_but k s"
  have "synced s (row_pk r) (vals r) = vals r" if "r \<in> set (campaigns s)" for r
    using all [rule_format, of "Suc (row_pk r)"] that by (auto simp: ledger_but_def)
  with all show "ledger_ok s"
    by (auto simp: ledger_ok_def ledger_but_def counters_ok_def list_all_iff)
qed (auto simp: ledger_ok_def ledger_but_def counters_ok_def list_all_iff)

lemma ledger_ok_butD: "ledger_ok s \<Longrightarrow> ledger_but k s"
  by (simp add: ledger_ok_but)

lemma ledger_but_money: "money t = money s \<Longrightarrow> ledger_but k t = ledger_but k s"
  using moneyD [of t s] synced_money [of t s]
  by (simp add: ledger_but_def keys_ok_def refs_ok_def refunds_capped_def live_refunds_def)

text \<open>What a write to a campaign row may touch: everything but the five counters.\<close>

definition leaves_counters :: "(campaign \<Rightarrow> campaign) \<Rightarrow> bool" where
  "leaves_counters f \<longleftrightarrow> (\<forall>c. c_purchased_shares (f c) = c_purchased_shares c \<and>
     c_purchased_amount (f c) = c_purchased_amount c \<and> c_participant_count (f c) = c_participant_count c \<and>
     c_external_funded_shares (f c) = c_external_funded_shares c \<and>
     c_external_funded_amount (f c) = c_external_funded_amount c)"

lemma synced_iff:
  "synced s k c = c \<longleftrightarrow> c_purchased_shares c = reserved_shares s k \<and>
     c_purchased_amount c = max (paid_amount s k - completed_refunds s k + adjustment_delta s k) 0 \<and>
     c_participant_count c = unique_users s k \<and> c_external_funded_shares c = external_shares s k \<and>
     c_external_funded_amount c = external_amount s k"
  by (cases c) (auto simp: synced_def)

lemma save_campaign_ok:
  assumes "save_campaign now k f s = (Inr u, t)" and "ledger_ok s" and "leaves_counters f"
  shows "ledger_ok t"
proof -
  have t: "t = s\<lparr>campaigns := tbl_upd k now f (campaigns s)\<rparr>" using assms(1) by (auto simp: svc_inv)
  have "counters_ok t" unfolding t
    by (rule counters_ok_campaign_write)
      (use assms(2,3) in \<open>simp_all add: ledger_ok_def synced_iff leaves_counters_def\<close>)
  with assms(2) show ?thesis
    by (simp add: t ledger_ok_def keys_ok_def refs_ok_def refunds_capped_def live_refunds_def)
qed

lemma campaign_set_active_ok:
  assumes "ledger_ok s"
  shows "ledger_ok (s\<lparr>campaigns := tbl_set_active k now b (campaigns s)\<rparr>)"
proof -
  have "counters_ok (s\<lparr>campaigns := tbl_set_active k now b (campaigns s)\<rparr>)"
    using assms by (auto simp: ledger_ok_def counters_ok_def list_all_iff tbl_set_active_def)
  with assms show ?thesis
    by (simp add: ledger_ok_def keys_ok_def refs_ok_def refunds_capped_def live_refunds_def)
qed

lemma sync_but:
  assumes "sync_campaign_counters now c s = (Inr c', t)" and "ledger_but (row_pk c) s"
  shows "ledger_ok t"
proof -
  have t: "t = s\<lparr>campaigns := tbl_upd (row_pk c) now (synced s (row_pk c)) (campaigns s)\<rparr>"
    using assms(1) by (auto simp: svc_inv)
  have "counters_ok t" unfolding t
    by (rule counters_ok_resync) (use assms(2) in \<open>auto simp: ledger_but_def\<close>)
  with assms(2) show ?thesis
    by (simp add: t ledger_ok_def ledger_but_def keys_ok_def refs_ok_def refunds_capped_def live_refunds_def)
qed

lemma save_payment_but:
  assumes "save_payment now i f s = (Inr u, t)" and "ledger_but k s"
    and "\<And>x. pay_participation (f x) = pay_participation x" and "\<And>x. pay_amount (f x) = pay_amount x"
  shows "ledger_but k t"
proof -
  have t: "t = s\<lparr>payments := tbl_upd i now f (payments s)\<rparr>" using assms(1) by (simp add: svc_inv)
  have "synced t = synced s" unfolding t by (rule synced_payment_upd) (rule assms(3))
  then show ?thesis
    using assms(2-) by (auto simp: t ledger_but_def keys_ok_def refs_ok_def refunds_capped_def live_refunds_def set_tbl_upd)
qed

text \<open>The stored participation with key \<open>i\<close> belongs to campaign \<open>k\<close>.\<close>

definition part_of :: "mdk_db \<Rightarrow> nat \<Rightarrow> nat \<Rightarrow> bool" where
  "part_of s i k \<longleftrightarrow> (\<forall>r \<in> set (participations s). row_pk r = i \<longrightarrow> p_campaign (vals r) = k)"

lemma part_ofI:
  "keys_ok s \<Longrightarrow> tbl_all i (participations s) = Some r \<Longrightarrow> part_of s i (p_campaign (vals r))"
  using tbl_all_Some [of i "participations s" r] distinct_pk_eq [of "participations s"]
  by (auto simp: part_of_def keys_ok_def)

lemma part_of_money: "participations t = participations s \<Longrightarrow> part_of t i k = part_of s i k"
  by (simp add: part_of_def)

lemma save_participation_but:
  assumes "save_participation now i f s = (Inr u, t)" and "ledger_but k s" and "part_of s i k"
    and "\<And>x. p_campaign (f x) = p_campaign x"
  shows "ledger_but k t"
proof -
  have t: "t = s\<lparr>participations := tbl_upd i now f (participations s)\<rparr>" using assms(1) by (simp add: svc_inv)
  have "synced t j = synced s j" if "j \<noteq> k" for j
    unfolding t by (rule synced_participation_upd) (use assms(3,4) that in \<open>auto simp: part_of_def\<close>)
  then show ?thesis
    using assms(2-) by (auto simp: t ledger_but_def keys_ok_def refs_ok_def refunds_capped_def live_refunds_def set_tbl_upd)
qed

text \<open>Inserts.\<close>

lemma distinct_snoc_new_row [simp]:
  "distinct (map row_pk (t @ [new_row now v t])) \<longleftrightarrow> distinct (map row_pk t)"
  using distinct_tbl_insert [of now v t] by (simp add: tbl_insert_def)

lemma insert_participation_but:
  assumes "ledger_ok s" and "p_campaign v \<in> keys_of (campaigns s)"
  shows "ledger_but (p_campaign v) (s\<lparr>participations := participations s @ [new_row now v (participations s)]\<rparr>)"
proof -
  let ?t = "s\<lparr>participations := participations s @ [new_row now v (participations s)]\<rparr>"
  have "synced ?t j = synced s j" if "j \<noteq> p_campaign v" for j
    by (rule synced_participation_insert) (use assms(1) that in \<open>simp_all add: ledger_ok_def\<close>)
  with assms show ?thesis
    by (auto simp: ledger_ok_def ledger_but_def keys_ok_def refs_ok_def refunds_capped_def live_refunds_def
        counters_ok_def list_all_iff simp del: map_append)
qed

lemma live_refunds_fresh:
  assumes "refs_ok s" and "k \<notin> keys_of (payments s)"
  shows "live_refunds s k = 0"
proof -
  have "live_refunds s k = agg_sum (\<lambda>_. 0) (\<lambda>_. False) (objects (refunds s))"
    unfolding live_refunds_def by (rule agg_sum_cong) (use assms in \<open>auto simp: refs_ok_def objects_def\<close>)
  then show ?thesis by (simp add: agg_sum_def)
qed

lemma insert_payment_ok:
  assumes "ledger_ok s" and "pay_participation v \<in> keys_of (participations s)" and "1 \<le> pay_amount v"
  shows "ledger_ok (s\<lparr>payments := payments s @ [new_row now v (payments s)]\<rparr>)"
proof -
  let ?t = "s\<lparr>payments := payments s @ [new_row now v (payments s)]\<rparr>"
  have refs: "refs_ok s" using assms(1) by (simp add: ledger_ok_def)
  have sy: "synced ?t = synced s" by (rule synced_payment_insert [OF refs])
  have live: "live_refunds ?t = live_refunds s" by (simp add: live_refunds_def fun_eq_iff)
  have "live_refunds s (next_pk (payments s)) = 0" by (rule live_refunds_fresh [OF refs]) simp
  with assms sy live show ?thesis
    by (auto simp: ledger_ok_def keys_ok_def refs_ok_def refunds_capped_def counters_ok_def list_all_iff
        simp del: map_append)
qed

lemma insert_refund_ok:
  assumes "ledger_ok s" and "tbl_all (rf_payment v) (payments s) = Some y" and "1 \<le> rf_amount v"
    and "rf_status v = R_PENDING_REVIEW" and "live_refunds s (rf_payment v) + rf_amount v \<le> pay_amount (vals y)"
  shows "ledger_ok (s\<lparr>refunds := refunds s @ [new_row now v (refunds s)]\<rparr>)"
proof -
  let ?t = "s\<lparr>refunds := refunds s @ [new_row now v (refunds s)]\<rparr>"
  have sy: "synced ?t = synced s" by (rule synced_refund_insert) (simp add: assms(4))
  have live: "live_refunds ?t k = live_refunds s k + (if k = rf_payment v then rf_amount v else 0)" for k
    using assms(4) by (simp add: live_refunds_def)
  have y: "y \<in> set (payments s)" "row_pk y = rf_payment v" using tbl_all_Some [OF assms(2)] by auto
  have uniq: "z = y" if "z \<in> set (payments s)" "row_pk z = rf_payment v" for z
    using assms(1) that y distinct_pk_eq [of "payments s" z y] by (auto simp: ledger_ok_def keys_ok_def)
  have "refunds_capped ?t"
    using assms(1,3,5) uniq by (auto simp: ledger_ok_def refunds_capped_def live)
  moreover have "rf_payment v \<in> keys_of (payments s)" using keys_ofI [OF y(1)] y(2) by simp
  ultimately show ?thesis
    using assms(1) sy
    by (auto simp: ledger_ok_def keys_ok_def refs_ok_def counters_ok_def list_all_iff simp del: map_append)
qed

lemma insert_adjustment_ok:
  assumes "ledger_ok s" and "ad_campaign v \<in> keys_of (campaigns s)" and "ad_status v \<noteq> A_APPLIED"
  shows "ledger_ok (s\<lparr>adjustments := adjustments s @ [new_row now v (adjustments s)]\<rparr>)"
proof -
  have "synced (s\<lparr>adjustments := adjustments s @ [new_row now v (adjustments s)]\<rparr>) = synced s"
    by (rule synced_adjustment_insert [OF assms(3)])
  with assms show ?thesis
    by (auto simp: ledger_ok_def keys_ok_def refs_ok_def refunds_capped_def live_refunds_def counters_ok_def
        list_all_iff simp del: map_append)
qed

lemma insert_external_but:
  assumes "ledger_ok s" and "xf_campaign v \<in> keys_of (campaigns s)"
  shows "ledger_but (xf_campaign v) (s\<lparr>external_fundings := external_fundings s @ [new_row now v (external_fundings s)]\<rparr>)"
proof -
  let ?t = "s\<lparr>external_fundings := external_fundings s @ [new_row now v (external_fundings s)]\<rparr>"
  have "synced ?t j = synced s j" if "j \<noteq> xf_campaign v" for j
    by (rule synced_external_insert [OF that])
  with assms show ?thesis
    by (auto simp: ledger_ok_def ledger_but_def keys_ok_def refs_ok_def refunds_capped_def live_refunds_def
        counters_ok_def list_all_iff simp del: map_append)
qed

lemma insert_campaign_ok:
  assumes "ledger_ok s" and "c_purchased_shares c = 0" "c_purchased_amount c = 0" "c_participant_count c = 0"
      "c_external_funded_shares c = 0" "c_external_funded_amount c = 0"
  shows "ledger_ok (s\<lparr>campaigns := tbl_insert now c (campaigns s)\<rparr>)"
proof -
  have "synced s (next_pk (campaigns s)) c = c"
    by (rule synced_fresh) (use assms in \<open>simp_all add: ledger_ok_def\<close>)
  with assms(1) show ?thesis
    by (auto simp: ledger_ok_def keys_ok_def refs_ok_def refunds_capped_def live_refunds_def
        counters_ok_def list_all_iff tbl_insert_def simp del: map_append)
qed

text \<open>Updates of refunds, adjustments and offline fundings.\<close>

lemma save_refund_but:
  assumes "save_refund now i f s = (Inr u, t)" and ok: "ledger_but k s"
    and row: "tbl_all i (refunds s) = Some r"
    and st: "rf_status (vals r) \<in> {R_PENDING_REVIEW, R_APPROVED}"
    and f: "\<And>x. rf_payment (f x) = rf_payment x" "\<And>x. rf_amount (f x) = rf_amount x"
    and fin: "rf_status (f (vals r)) = R_COMPLETED \<Longrightarrow>
      \<exists>p. participation_of_payment s (rf_payment (vals r)) = Some p \<and> p_campaign p = k"
  shows "ledger_but k t"
proof -
  have t: "t = s\<lparr>refunds := tbl_upd i now f (refunds s)\<rparr>" using assms(1) by (simp add: svc_inv)
  have keys: "keys_ok s" using ok by (simp add: ledger_but_def)
  then have dist: "distinct (map row_pk (refunds s))" by (simp add: keys_ok_def)
  have uniq: "z = r" if "z \<in> set (refunds s)" "row_pk z = i" for z
    using that tbl_all_Some [OF row] distinct_pk_eq [OF dist, of z r] by auto
  have "synced t j = synced s j" if "j \<noteq> k" for j
    unfolding t by (rule synced_refund_upd) (use that st f fin uniq in \<open>force simp: refund_counts_for_def\<close>)
  moreover have "live_refunds t j \<le> live_refunds s j" for j
  proof -
    have "1 \<le> rf_amount (vals r)" using ok tbl_all_Some [OF row] by (simp add: ledger_but_def refunds_capped_def)
    moreover have "z = r" if "tbl_all i (objects (refunds s)) = Some z" for z
      using tbl_all_Some [OF that] uniq by (auto simp: objects_def)
    ultimately show ?thesis
      using st f by (auto simp: t live_refunds_def objects_tbl_upd agg_sum_tbl_upd [OF distinct_objects [OF dist]]
          Let_def split: option.split)
  qed
  then have "refunds_capped t"
    using ok f by (auto simp: t ledger_but_def refunds_capped_def set_tbl_upd) (meson order_trans)+
  ultimately show ?thesis
    using ok f by (auto simp: t ledger_but_def keys_ok_def refs_ok_def set_tbl_upd)
qed

lemma save_adjustment_but:
  assumes "save_adjustment now i f s = (Inr u, t)" and ok: "ledger_but k s"
    and row: "tbl_all i (adjustments s) = Some r" and st: "ad_status (vals r) \<noteq> A_APPLIED"
    and f: "\<And>x. ad_campaign (f x) = ad_campaign x"
    and fin: "ad_status (f (vals r)) = A_APPLIED \<Longrightarrow> ad_campaign (vals r) = k"
  shows "ledger_but k t"
proof -
  have t: "t = s\<lparr>adjustments := tbl_upd i now f (adjustments s)\<rparr>" using assms(1) by (simp add: svc_inv)
  have "z = r" if "z \<in> set (adjustments s)" "row_pk z = i" for z
    using that tbl_all_Some [OF row] ok distinct_pk_eq [of "adjustments s" z r] by (auto simp: ledger_but_def keys_ok_def)
  then have "synced t j = synced s j" if "j \<noteq> k" for j
    unfolding t by (intro synced_adjustment_upd) (use that st f fin in force)
  with ok f show ?thesis
    by (auto simp: t ledger_but_def keys_ok_def refs_ok_def refunds_capped_def live_refunds_def set_tbl_upd)
qed

lemma update_external_but:
  assumes ok: "ledger_ok s" and row: "tbl_all i (external_fundings s) = Some r"
    and f: "\<And>x. xf_campaign (f x) = xf_campaign x"
  shows "ledger_but (xf_campaign (vals r)) (s\<lparr>external_fundings := tbl_upd i now f (external_fundings s)\<rparr>)"
proof -
  let ?t = "s\<lparr>external_fundings := tbl_upd i now f (external_fundings s)\<rparr>"
  have "z = r" if "z \<in> set (external_fundings s)" "row_pk z = i" for z
    using that tbl_all_Some [OF row] ok distinct_pk_eq [of "external_fundings s" z r]
    by (auto simp: ledger_ok_def keys_ok_def)
  then have "synced ?t j = synced s j" if "j \<noteq> xf_campaign (vals r)" for j
    by (intro synced_external_upd [where k = "xf_campaign (vals r)"]) (use that f in auto)
  with ok f show ?thesis
    by (auto simp: ledger_ok_def ledger_but_def keys_ok_def refs_ok_def refunds_capped_def live_refunds_def
        counters_ok_def list_all_iff set_tbl_upd)
qed

end
