(* ===== verification/Mdk_Campaigns.thy ===== *)
theory Mdk_Campaigns
  imports Mdk_Ledger
begin

text \<open>
  Sponsors, campaigns, offline funding and gallery images (\<^verbatim>\<open>src/apps/madadkar/services.py\<close>,
  \<^verbatim>\<open>src/apps/madadkar/validators.py\<close> and the \<open>save\<close> methods of \<^verbatim>\<open>src/apps/madadkar/models.py\<close>).
  A service that receives a model object takes that object (a row, possibly stale) as its
  argument; a service that locks the row first reads it again from the table. \<open>slugify\<close> is
  Django's and is a parameter.
\<close>

section \<open>Validators\<close>

definition MINIMUM_TOTAL_AMOUNT :: int where "MINIMUM_TOTAL_AMOUNT = 1000"
definition MINIMUM_TOTAL_SHARES :: int where "MINIMUM_TOTAL_SHARES = 1"
definition MAXIMUM_TOTAL_SHARES :: int where "MAXIMUM_TOTAL_SHARES = 1000000"
definition MINIMUM_SHARE_COUNT :: int where "MINIMUM_SHARE_COUNT = 1"

definition validate_total_amount :: "int \<Rightarrow> bool" where
  "validate_total_amount v = (\<not> v < MINIMUM_TOTAL_AMOUNT)"

definition validate_total_shares :: "int \<Rightarrow> bool" where
  "validate_total_shares v = (\<not> v < MINIMUM_TOTAL_SHARES \<and> \<not> v > MAXIMUM_TOTAL_SHARES)"

definition validate_share_price_divisibility :: "int \<Rightarrow> int \<Rightarrow> bool" where
  "validate_share_price_divisibility total_amount total_shares =
     (\<not> total_shares \<le> 0 \<and> total_amount mod total_shares = 0)"

definition validate_share_count :: "int \<Rightarrow> bool" where
  "validate_share_count v = (\<not> v < MINIMUM_SHARE_COUNT)"

text \<open>\<open>os.path.splitext(name)[1]\<close>: from the last dot of the last path component, unless that
  component has only dots before it.\<close>

definition splitext_ext :: "string \<Rightarrow> string" where
  "splitext_ext name =
     (let base = rev (takeWhile (\<lambda>c. c \<noteq> CHR ''/'') (rev name));
          ext = rev (takeWhile (\<lambda>c. c \<noteq> CHR ''.'') (rev base));
          stem = take (length base - length ext) base
      in if stem = [] \<or> list_all (\<lambda>c. c = CHR ''.'') stem then [] else CHR ''.'' # ext)"

definition ALLOWED_IMAGE_EXTENSIONS :: "string list" where
  "ALLOWED_IMAGE_EXTENSIONS = [''.jpg'', ''.jpeg'', ''.png'', ''.webp'']"

definition MAX_IMAGE_SIZE_BYTES :: nat where "MAX_IMAGE_SIZE_BYTES = 5 * 1024 * 1024"

definition validate_image_extension :: "upload \<Rightarrow> bool" where
  "validate_image_extension u = (lower (splitext_ext (up_name u)) \<in> set ALLOWED_IMAGE_EXTENSIONS)"

definition validate_image_size :: "upload \<Rightarrow> bool" where
  "validate_image_size u = (\<not> up_size u > MAX_IMAGE_SIZE_BYTES)"

section \<open>Sponsors\<close>

text \<open>\<open>full_clean\<close>: the field checks, then the uniqueness queries, which Django runs through the
  default manager and so over the active rows only, leaving out the row itself.\<close>

definition sponsor_full_clean :: "sponsor table \<Rightarrow> nat option \<Rightarrow> sponsor \<Rightarrow> bool" where
  "sponsor_full_clean t self sp \<longleftrightarrow>
     sp_name sp \<noteq> [] \<and> length (sp_name sp) \<le> 200 \<and> length (sp_slug sp) \<le> 220 \<and>
     (case sp_logo sp of None \<Rightarrow> True | Some u \<Rightarrow> validate_image_extension u \<and> validate_image_size u) \<and>
     list_all (\<lambda>r. Some (row_pk r) \<noteq> self \<longrightarrow>
        sp_name (vals r) \<noteq> sp_name sp \<and> (sp_slug sp \<noteq> [] \<longrightarrow> sp_slug (vals r) \<noteq> sp_slug sp)) (objects t)"

text \<open>The unique columns of the table, over every row.\<close>

definition sponsor_unique :: "sponsor table \<Rightarrow> nat option \<Rightarrow> sponsor \<Rightarrow> bool" where
  "sponsor_unique t self sp =
     list_all (\<lambda>r. Some (row_pk r) \<noteq> self \<longrightarrow> sp_name (vals r) \<noteq> sp_name sp \<and> sp_slug (vals r) \<noteq> sp_slug sp) t"

definition sponsor_fill_slug :: "(string \<Rightarrow> string) \<Rightarrow> sponsor \<Rightarrow> sponsor" where
  "sponsor_fill_slug slugify sp =
     (if sp_slug sp = []
      then sp\<lparr>sp_slug := take 220 (if slugify (sp_name sp) = [] then ''sponsor'' else slugify (sp_name sp))\<rparr>
      else sp)"

definition create_sponsor :: "(string \<Rightarrow> string) \<Rightarrow> int \<Rightarrow> string \<Rightarrow> upload option \<Rightarrow> (mdk_db, sponsor row) svc" where
  "create_sponsor slugify now name logo =
     atomic (
     bnd (gets sponsors) (\<lambda>t.
     let sp = \<lparr>sp_name = name, sp_slug = [], sp_logo = logo\<rparr> in
     seqn (check (sponsor_full_clean t None sp) SponsorInvalidDataError)
     (let sp' = sponsor_fill_slug slugify sp in
     seqn (check (sponsor_unique t None sp') IntegrityError)
     (seqn (modify (\<lambda>s. s\<lparr>sponsors := tbl_insert now sp' (sponsors s)\<rparr>))
     (ret (new_row now sp' t))))))"

datatype sponsor_field = SF_name string | SF_logo "upload option" | SF_other string

fun set_sponsor_field :: "sponsor_field \<Rightarrow> sponsor \<Rightarrow> sponsor" where
  "set_sponsor_field (SF_name n) sp = sp\<lparr>sp_name := n\<rparr>"
| "set_sponsor_field (SF_logo l) sp = sp\<lparr>sp_logo := l\<rparr>"
| "set_sponsor_field (SF_other k) sp = sp"

definition allowed_sponsor_field :: "sponsor_field \<Rightarrow> bool" where
  "allowed_sponsor_field f = (case f of SF_other _ \<Rightarrow> False | _ \<Rightarrow> True)"

definition update_sponsor :: "int \<Rightarrow> sponsor row \<Rightarrow> sponsor_field list \<Rightarrow> (mdk_db, sponsor row) svc" where
  "update_sponsor now sp kwargs =
     (let upd = filter allowed_sponsor_field kwargs;
          sp' = fold set_sponsor_field upd (vals sp)
      in if upd = [] then ret sp
         else atomic (
           bnd (gets sponsors) (\<lambda>t.
           seqn (check (sponsor_full_clean t (Some (row_pk sp)) sp') SponsorInvalidDataError)
           (seqn (check (sponsor_unique t (Some (row_pk sp)) sp') IntegrityError)
           (seqn (modify (\<lambda>s. s\<lparr>sponsors := tbl_upd (row_pk sp) now (fold set_sponsor_field upd) (sponsors s)\<rparr>))
           (ret (sp\<lparr>updated_at := now, vals := sp'\<rparr>)))))))"

definition delete_sponsor :: "int \<Rightarrow> sponsor row \<Rightarrow> (mdk_db, unit) svc" where
  "delete_sponsor now sp =
     atomic (
     bnd (gets (\<lambda>s. list_ex (\<lambda>r. c_sponsor (vals r) = row_pk sp \<and> c_status (vals r) \<noteq> C_DRAFT) (objects (campaigns s)))) (\<lambda>in_use.
     seqn (check (\<not> in_use) SponsorInUseError)
     (modify (\<lambda>s. s\<lparr>sponsors := tbl_set_active (row_pk sp) now False (sponsors s)\<rparr>))))"

section \<open>Slugs of campaigns\<close>

text \<open>The loop over \<open>range(2, 10000)\<close>: \<open>n\<close> iterations are left, the next counter is \<open>i\<close>.\<close>

fun slug_loop :: "(string \<Rightarrow> bool) \<Rightarrow> string \<Rightarrow> nat \<Rightarrow> nat \<Rightarrow> string option" where
  "slug_loop taken base i 0 = None"
| "slug_loop taken base i (Suc n) =
     (let suffix = CHR ''-'' # nat_str i;
          candidate = take (320 - length suffix) base @ suffix
      in if \<not> taken candidate then Some candidate else slug_loop taken base (Suc i) n)"

definition slug_taken :: "campaign table \<Rightarrow> nat option \<Rightarrow> string \<Rightarrow> bool" where
  "slug_taken t self x = list_ex (\<lambda>r. c_slug (vals r) = x \<and> Some (row_pk r) \<noteq> self) t"

definition build_unique_slug ::
  "(string \<Rightarrow> string) \<Rightarrow> campaign table \<Rightarrow> nat option \<Rightarrow> string \<Rightarrow> string option" where
  "build_unique_slug slugify t self source =
     (let base = (if slugify source = [] then ''campaign'' else slugify source);
          candidate = take 320 base
      in if \<not> slug_taken t self candidate then Some candidate
         else slug_loop (slug_taken t self) base 2 9998)"

section \<open>Campaigns\<close>

definition validate_campaign_financial_fields :: "int \<Rightarrow> int \<Rightarrow> bool" where
  "validate_campaign_financial_fields total_amount total_shares =
     (validate_total_amount total_amount \<and> validate_total_shares total_shares \<and>
      validate_share_price_divisibility total_amount total_shares)"

definition deadline_shape :: "bool \<Rightarrow> int option \<Rightarrow> int \<Rightarrow> bool" where
  "deadline_shape has_deadline deadline now =
     (case deadline of None \<Rightarrow> \<not> has_deadline | Some d \<Rightarrow> has_deadline \<and> \<not> d \<le> now)"

definition create_campaign ::
  "(string \<Rightarrow> string) \<Rightarrow> int \<Rightarrow> nat \<Rightarrow> string \<Rightarrow> string \<Rightarrow> string \<Rightarrow> int \<Rightarrow> int \<Rightarrow> bool \<Rightarrow> int option \<Rightarrow> bool \<Rightarrow>
   (mdk_db, campaign row) svc" where
  "create_campaign slugify now sp title description cover_image total_amount total_shares has_deadline deadline is_visible =
     atomic (
     seqn (check (validate_campaign_financial_fields total_amount total_shares) CampaignInvalidDataError)
     (seqn (check (deadline_shape has_deadline deadline now) CampaignInvalidDataError)
     (bnd (gets campaigns) (\<lambda>t.
      case build_unique_slug slugify t None title of
        None \<Rightarrow> raise ValidationError
      | Some slug \<Rightarrow>
          let c = \<lparr>c_sponsor = sp, c_title = title, c_slug = slug, c_description = description,
                   c_cover_image = cover_image, c_total_amount = total_amount, c_total_shares = total_shares,
                   c_share_price = total_amount div total_shares, c_purchased_shares = 0,
                   c_purchased_amount = 0, c_participant_count = 0, c_external_funded_shares = 0,
                   c_external_funded_amount = 0, c_status = C_DRAFT, c_is_visible = is_visible,
                   c_has_deadline = has_deadline, c_deadline = deadline, c_published_at = None,
                   c_completed_at = None, c_closed_at = None\<rparr> in
          seqn (check (campaign_constraints c) IntegrityError)
          (seqn (modify (\<lambda>s. s\<lparr>campaigns := tbl_insert now c (campaigns s)\<rparr>))
          (ret (new_row now c t)))))))"

text \<open>The keyword arguments of \<open>update_campaign\<close>: a dictionary, given as the list of its entries.\<close>

datatype campaign_field =
    F_title string | F_description string | F_cover_image string | F_is_visible bool
  | F_sponsor nat | F_total_amount int | F_total_shares int
  | F_has_deadline bool | F_deadline "int option"

definition always_editable :: "campaign_field \<Rightarrow> bool" where
  "always_editable f = (case f of F_title _ \<Rightarrow> True | F_description _ \<Rightarrow> True | F_cover_image _ \<Rightarrow> True
     | F_is_visible _ \<Rightarrow> True | _ \<Rightarrow> False)"

definition locked_after_first_payment :: "campaign_field \<Rightarrow> bool" where
  "locked_after_first_payment f = (case f of F_sponsor _ \<Rightarrow> True | F_total_amount _ \<Rightarrow> True
     | F_total_shares _ \<Rightarrow> True | _ \<Rightarrow> False)"

definition deadline_field :: "campaign_field \<Rightarrow> bool" where
  "deadline_field f = (case f of F_has_deadline _ \<Rightarrow> True | F_deadline _ \<Rightarrow> True | _ \<Rightarrow> False)"

fun set_campaign_field :: "campaign_field \<Rightarrow> campaign \<Rightarrow> campaign" where
  "set_campaign_field (F_title x) c = c\<lparr>c_title := x\<rparr>"
| "set_campaign_field (F_description x) c = c\<lparr>c_description := x\<rparr>"
| "set_campaign_field (F_cover_image x) c = c\<lparr>c_cover_image := x\<rparr>"
| "set_campaign_field (F_is_visible x) c = c\<lparr>c_is_visible := x\<rparr>"
| "set_campaign_field (F_sponsor x) c = c\<lparr>c_sponsor := x\<rparr>"
| "set_campaign_field (F_total_amount x) c = c\<lparr>c_total_amount := x\<rparr>"
| "set_campaign_field (F_total_shares x) c = c\<lparr>c_total_shares := x\<rparr>"
| "set_campaign_field (F_has_deadline x) c = c\<lparr>c_has_deadline := x\<rparr>"
| "set_campaign_field (F_deadline x) c = c\<lparr>c_deadline := x\<rparr>"

definition is_terminal :: "campaign \<Rightarrow> bool" where
  "is_terminal c = (c_status c = C_COMPLETED \<or> c_status c = C_CLOSED)"

definition field_allowed :: "bool \<Rightarrow> bool \<Rightarrow> campaign_field \<Rightarrow> bool" where
  "field_allowed terminal locked f =
     (always_editable f \<or> (\<not> terminal \<and> \<not> (locked \<and> locked_after_first_payment f)))"

text \<open>The deadline rules: the first three are data errors, the last two are lock errors.\<close>

definition check_deadline_update :: "int \<Rightarrow> bool \<Rightarrow> campaign \<Rightarrow> bool \<Rightarrow> int option \<Rightarrow> (mdk_db, unit) svc" where
  "check_deadline_update now locked c new_has_deadline new_deadline =
     seqn (check (deadline_shape new_has_deadline new_deadline now) CampaignInvalidDataError)
     (seqn (check (\<not> (locked \<and> c_has_deadline c \<and>
              (case (new_deadline, c_deadline c) of (Some d, Some d0) \<Rightarrow> d < d0 | _ \<Rightarrow> False))) CampaignFieldLockedError)
     (check (\<not> (locked \<and> c_has_deadline c \<and> \<not> new_has_deadline)) CampaignFieldLockedError))"

definition computed_share_price :: "campaign \<Rightarrow> int" where
  "computed_share_price c =
     (if c_total_shares c \<noteq> 0 \<and> c_total_amount c \<noteq> 0 then c_total_amount c div c_total_shares c else c_share_price c)"

definition apply_campaign_fields :: "campaign_field list \<Rightarrow> campaign \<Rightarrow> campaign" where
  "apply_campaign_fields kwargs c = fold set_campaign_field kwargs c"

definition update_campaign :: "int \<Rightarrow> campaign row \<Rightarrow> campaign_field list \<Rightarrow> (mdk_db, campaign row) svc" where
  "update_campaign now c kwargs =
     atomic (
     bnd (gets (\<lambda>s. has_paid_participations s (row_pk c))) (\<lambda>locked.
     let terminal = is_terminal (vals c); mem = apply_campaign_fields kwargs (vals c) in
     seqn (check (list_all (field_allowed terminal locked) kwargs) CampaignFieldLockedError)
     (seqn (check ((\<exists>f \<in> set kwargs. case f of F_total_amount _ \<Rightarrow> True | F_total_shares _ \<Rightarrow> True | _ \<Rightarrow> False) \<longrightarrow>
              validate_campaign_financial_fields (c_total_amount mem) (c_total_shares mem)) CampaignInvalidDataError)
     (seqn (if \<exists>f \<in> set kwargs. deadline_field f
            then check_deadline_update now locked (vals c) (c_has_deadline mem) (c_deadline mem) else ret ())
     (if kwargs = [] then ret c
      else
       let price = computed_share_price mem in
       seqn (save_campaign now (row_pk c) (\<lambda>d. (apply_campaign_fields kwargs d)\<lparr>c_share_price := price\<rparr>))
       (ret (c\<lparr>updated_at := now, vals := mem\<lparr>c_share_price := price\<rparr>\<rparr>)))))))"

definition publish_campaign :: "int \<Rightarrow> campaign row \<Rightarrow> (mdk_db, campaign row) svc" where
  "publish_campaign now c =
     atomic (
     seqn (check (c_status (vals c) = C_DRAFT) CampaignInvalidStateError)
     (let f = (\<lambda>d. d\<lparr>c_status := C_PUBLISHED, c_published_at := Some now\<rparr>) in
     seqn (save_campaign now (row_pk c) f)
     (ret (c\<lparr>updated_at := now, vals := f (vals c)\<rparr>))))"

definition close_campaign :: "int \<Rightarrow> campaign row \<Rightarrow> (mdk_db, campaign row) svc" where
  "close_campaign now c =
     atomic (
     seqn (check (c_status (vals c) = C_PUBLISHED) CampaignInvalidStateError)
     (let f = (\<lambda>d. d\<lparr>c_status := C_CLOSED, c_closed_at := Some now\<rparr>) in
     seqn (save_campaign now (row_pk c) f)
     (ret (c\<lparr>updated_at := now, vals := f (vals c)\<rparr>))))"

definition auto_complete_campaign_if_fully_funded :: "int \<Rightarrow> campaign row \<Rightarrow> (mdk_db, campaign row) svc" where
  "auto_complete_campaign_if_fully_funded now c =
     atomic (
     if c_status (vals c) = C_PUBLISHED \<and> is_fully_funded (vals c)
     then
       (let f = (\<lambda>d. d\<lparr>c_status := C_COMPLETED, c_completed_at := Some now\<rparr>) in
       seqn (save_campaign now (row_pk c) f)
       (ret (c\<lparr>updated_at := now, vals := f (vals c)\<rparr>)))
     else ret c)"

definition close_campaign_due_to_deadline :: "int \<Rightarrow> campaign row \<Rightarrow> (mdk_db, campaign row) svc" where
  "close_campaign_due_to_deadline now c =
     atomic (
     if c_status (vals c) \<noteq> C_PUBLISHED then ret c
     else (case c_deadline (vals c) of
         None \<Rightarrow> ret c
       | Some d \<Rightarrow>
           if \<not> c_has_deadline (vals c) \<or> d > now then ret c
           else
             (let f = (\<lambda>x. x\<lparr>c_status := C_CLOSED, c_closed_at := Some now\<rparr>) in
             seqn (save_campaign now (row_pk c) f)
             (ret (c\<lparr>updated_at := now, vals := f (vals c)\<rparr>)))))"

definition delete_campaign :: "int \<Rightarrow> campaign row \<Rightarrow> (mdk_db, unit) svc" where
  "delete_campaign now c =
     atomic (
     seqn (check (c_status (vals c) = C_DRAFT) CampaignInvalidStateError)
     (modify (\<lambda>s. s\<lparr>campaigns := tbl_set_active (row_pk c) now False (campaigns s)\<rparr>)))"

section \<open>Offline funding\<close>

text \<open>\<open>full_clean\<close> of the new record cannot fail on these arguments: the method is one of the
  choices, the reference is cut to its length, shares and amount were checked.\<close>

definition build_external_funding ::
  "int \<Rightarrow> campaign row \<Rightarrow> int \<Rightarrow> int option \<Rightarrow> external_funding_method \<Rightarrow> string \<Rightarrow> string \<Rightarrow> int option \<Rightarrow> nat option \<Rightarrow>
   external_funding" where
  "build_external_funding now locked shares amount method reference note funded_at recorded_by =
     \<lparr>xf_campaign = row_pk locked, xf_status = RECORDED, xf_shares = shares,
      xf_amount = (case amount of Some a \<Rightarrow> a | None \<Rightarrow> shares * c_share_price (vals locked)),
      xf_share_price_snapshot = c_share_price (vals locked), xf_method = method,
      xf_reference = take 120 reference, xf_note = note,
      xf_funded_at = (case funded_at of Some d \<Rightarrow> d | None \<Rightarrow> now), xf_recorded_by = recorded_by,
      xf_void_reason = [], xf_voided_at = None\<rparr>"

definition record_external_funding ::
  "int \<Rightarrow> campaign row \<Rightarrow> int \<Rightarrow> int option \<Rightarrow> external_funding_method \<Rightarrow> string \<Rightarrow> string \<Rightarrow> int option \<Rightarrow> nat option \<Rightarrow>
   (mdk_db, external_funding row) svc" where
  "record_external_funding now c shares amount method reference note funded_at recorded_by =
     atomic (
     seqn (check (c_status (vals c) = C_DRAFT \<or> c_status (vals c) = C_PUBLISHED) ValidationError)
     (seqn (check (\<not> shares < 1) ValidationError)
     (seqn (check (case amount of None \<Rightarrow> True | Some a \<Rightarrow> \<not> a < 1) ValidationError)
     (bnd (fetch campaigns (row_pk c)) (\<lambda>locked.
      seqn (check (\<not> shares > remaining_shares (vals locked)) ValidationError)
      (bnd (gets (\<lambda>s. new_row now
          (build_external_funding now locked shares amount method reference note funded_at recorded_by)
          (external_fundings s))) (\<lambda>funding.
      seqn (modify (\<lambda>s. s\<lparr>external_fundings := external_fundings s @ [funding]\<rparr>))
      (bnd (sync_campaign_counters now locked) (\<lambda>synced_campaign.
      seqn (auto_complete_campaign_if_fully_funded now synced_campaign)
      (ret funding))))))))))"

definition void_external_funding :: "int \<Rightarrow> nat \<Rightarrow> string \<Rightarrow> (mdk_db, external_funding row) svc" where
  "void_external_funding now funding reason =
     atomic (
     bnd (fetch external_fundings funding) (\<lambda>locked.
     seqn (check (xf_status (vals locked) \<noteq> VOIDED) ValidationError)
     (bnd (fetch campaigns (xf_campaign (vals locked))) (\<lambda>c.
      let f = (\<lambda>x. x\<lparr>xf_status := VOIDED, xf_void_reason := take 2000 reason, xf_voided_at := Some now\<rparr>) in
      seqn (modify (\<lambda>s. s\<lparr>external_fundings := tbl_upd funding now f (external_fundings s)\<rparr>))
      (seqn (sync_campaign_counters now c)
      (ret (locked\<lparr>updated_at := now, vals := f (vals locked)\<rparr>)))))))"

section \<open>Gallery images\<close>

definition next_display_order :: "nat \<Rightarrow> campaign_image table \<Rightarrow> nat" where
  "next_display_order k t =
     (let orders = map (\<lambda>r. ci_display_order (vals r)) (filter (\<lambda>r. ci_campaign (vals r) = k) (objects t))
      in if orders = [] then 0 else fold max orders 0 + 1)"

definition add_campaign_image ::
  "int \<Rightarrow> nat \<Rightarrow> string \<Rightarrow> string \<Rightarrow> nat option \<Rightarrow> (mdk_db, campaign_image row) svc" where
  "add_campaign_image now k img_file alt_text display_order =
     atomic (
     bnd (gets (\<lambda>s. new_row now
        \<lparr>ci_campaign = k, ci_image = img_file, ci_alt_text = alt_text,
         ci_display_order = (case display_order of Some d \<Rightarrow> d | None \<Rightarrow> next_display_order k (campaign_images s))\<rparr>
        (campaign_images s))) (\<lambda>img.
     seqn (modify (\<lambda>s. s\<lparr>campaign_images := campaign_images s @ [img]\<rparr>))
     (ret img)))"

definition delete_campaign_image :: "int \<Rightarrow> campaign_image row \<Rightarrow> (mdk_db, unit) svc" where
  "delete_campaign_image now img =
     atomic (modify (\<lambda>s. s\<lparr>campaign_images := tbl_set_active (row_pk img) now False (campaign_images s)\<rparr>))"

section \<open>The ledger invariant\<close>

lemma set_campaign_field_counters: "leaves_counters (set_campaign_field f)"
  by (cases f) (simp_all add: leaves_counters_def)

lemma leaves_counters_comp: "leaves_counters f \<Longrightarrow> leaves_counters g \<Longrightarrow> leaves_counters (\<lambda>c. f (g c))"
  by (simp add: leaves_counters_def)

lemma apply_campaign_fields_counters: "leaves_counters (apply_campaign_fields kwargs)"
proof (induction kwargs)
  case Nil
  then show ?case by (simp add: leaves_counters_def apply_campaign_fields_def)
next
  case (Cons f kwargs)
  have "apply_campaign_fields (f # kwargs) = (\<lambda>c. apply_campaign_fields kwargs (set_campaign_field f c))"
    by (simp add: apply_campaign_fields_def fun_eq_iff)
  then show ?case by (simp add: leaves_counters_comp Cons set_campaign_field_counters)
qed

lemma create_campaign_ok:
  "preserves ledger_ok (create_campaign slugify now sp title ds ci A N has_dl dl vis)"
  unfolding create_campaign_def
  by (rule preserves_atomic) (auto simp: svc_inv Let_def split: option.splits intro!: insert_campaign_ok)

lemma update_campaign_ok: "preserves ledger_ok (update_campaign now c kwargs)"
  unfolding update_campaign_def
proof (rule preserves_atomic, goal_cases)
  case (1 s y t)
  have "leaves_counters (\<lambda>d. (apply_campaign_fields kwargs d)\<lparr>c_share_price := x\<rparr>)" for x
    using apply_campaign_fields_counters [of kwargs] by (simp add: leaves_counters_def)
  note save = save_campaign_ok [OF _ 1(1) this]
  have "t = s \<or> (\<exists>u x. save_campaign now (row_pk c) (\<lambda>d. (apply_campaign_fields kwargs d)\<lparr>c_share_price := x\<rparr>) s = (Inr u, t))"
    using 1(2) by (auto simp: Let_def bnd_Inr seqn_Inr gets_Inr check_Inr ret_Inr check_deadline_update_def split: if_splits)
  then show ?case using 1(1) save by blast
qed

lemma publish_campaign_ok: "preserves ledger_ok (publish_campaign now c)"
  and close_campaign_ok: "preserves ledger_ok (close_campaign now c)"
  and auto_complete_ok: "preserves ledger_ok (auto_complete_campaign_if_fully_funded now c)"
  and close_deadline_ok: "preserves ledger_ok (close_campaign_due_to_deadline now c)"
  and delete_campaign_ok: "preserves ledger_ok (delete_campaign now c)"
  unfolding publish_campaign_def close_campaign_def auto_complete_campaign_if_fully_funded_def
    close_campaign_due_to_deadline_def delete_campaign_def Let_def
  by (rule preserves_atomic;
      auto simp: bnd_Inr seqn_Inr check_Inr ret_Inr modify_Inr leaves_counters_def campaign_set_active_ok
        split: if_splits option.splits elim!: save_campaign_ok)+

lemma auto_complete_step:
  "auto_complete_campaign_if_fully_funded now c s = (Inr c', t) \<Longrightarrow> ledger_ok s \<Longrightarrow> ledger_ok t"
  using auto_complete_ok [of now c] by (auto simp: preserves_def dest: state_after_Inr)

lemma record_external_funding_ok:
  "preserves ledger_ok (record_external_funding now c shares amount method reference note funded_at rec)"
  unfolding record_external_funding_def
proof (rule preserves_atomic, goal_cases)
  case (1 s y t)
  let ?v = "\<lambda>locked. build_external_funding now locked shares amount method reference note funded_at rec"
  from 1(2) obtain locked u c' d where g: "tbl_get (row_pk c) (campaigns s) = Some locked"
    and sync: "sync_campaign_counters now locked
        (s\<lparr>external_fundings := external_fundings s @ [new_row now (?v locked) (external_fundings s)]\<rparr>) = (Inr c', u)"
    and fin: "auto_complete_campaign_if_fully_funded now c' u = (Inr d, t)"
    by (auto simp: bnd_Inr seqn_Inr check_Inr fetch_Inr gets_Inr modify_Inr ret_Inr)
  have v: "xf_campaign (?v locked) = row_pk locked" by (simp add: build_external_funding_def)
  then have "xf_campaign (?v locked) \<in> keys_of (campaigns s)"
    using tbl_get_Some [OF g] tbl_get_keys [OF g] by simp
  note but = insert_external_but [OF 1(1) this, of now]
  show ?case
    by (rule auto_complete_step [OF fin], rule sync_but [OF sync]) (use but v in simp)
qed

lemma void_external_funding_ok: "preserves ledger_ok (void_external_funding now k reason)"
  unfolding void_external_funding_def
proof (rule preserves_atomic, goal_cases)
  case (1 s y t)
  then obtain r c c' where g: "tbl_get k (external_fundings s) = Some r"
    and c: "tbl_get (xf_campaign (vals r)) (campaigns s) = Some c"
    and sync: "sync_campaign_counters now c (s\<lparr>external_fundings := tbl_upd k now
        (\<lambda>x. x\<lparr>xf_status := VOIDED, xf_void_reason := take 2000 reason, xf_voided_at := Some now\<rparr>)
        (external_fundings s)\<rparr>) = (Inr c', t)"
    by (auto simp: Let_def bnd_Inr seqn_Inr check_Inr fetch_Inr modify_Inr ret_Inr)
  have "tbl_all k (external_fundings s) = Some r"
    using 1(1) g by (simp add: ledger_ok_def keys_ok_def tbl_get_tbl_all)
  from update_external_but [OF 1(1) this] show ?case
    by (intro sync_but [OF sync]) (use tbl_get_Some [OF c] in simp)
qed

end
