(* ===== verification/Mdk_Providers.thy ===== *)
theory Mdk_Providers
  imports Mdk_Types
begin

text \<open>
  The payment gateways (\<^verbatim>\<open>src/apps/madadkar/payment_providers\<close>): the result types of the provider
  interface, the sandbox simulator, the Zarinpal client with its error normalisation, and the
  registry that resolves a provider by name. The HTTP transport, the random token source and
  Python's \<open>repr\<close> of nested JSON are parameters; user-visible texts are ASCII tags.
\<close>

section \<open>Results of a provider\<close>

record request_result =
  rq_success :: bool
  rq_authority :: string
  rq_gateway_url :: string
  rq_gateway_status :: string
  rq_error_message :: string

record verify_result =
  vr_success :: bool
  vr_already_verified :: bool
  vr_ref_id :: string
  vr_verified_amount :: int
  vr_gateway_status :: string
  vr_error_message :: string

section \<open>JSON responses and the transport\<close>

datatype jv = VNull | VBool bool | VNum int | VStr string | VList "jv list" | VObj "(string \<times> jv) list"

datatype http_outcome =
    HttpTimeout
  | HttpNetworkError
  | HttpInvalidJson
  | HttpStatus int
  | HttpJson jv

record gateway_env =
  ge_http :: "string \<Rightarrow> (string \<times> jv) list \<Rightarrow> http_outcome"
  ge_token :: string
  ge_repr :: "jv \<Rightarrow> string"

fun jv_truthy :: "jv \<Rightarrow> bool" where
  "jv_truthy VNull = False"
| "jv_truthy (VBool b) = b"
| "jv_truthy (VNum i) = (i \<noteq> 0)"
| "jv_truthy (VStr s) = (s \<noteq> [])"
| "jv_truthy (VList xs) = (xs \<noteq> [])"
| "jv_truthy (VObj xs) = (xs \<noteq> [])"

fun jv_str :: "gateway_env \<Rightarrow> jv \<Rightarrow> string" where
  "jv_str G VNull = ''None''"
| "jv_str G (VBool b) = (if b then ''True'' else ''False'')"
| "jv_str G (VNum i) = int_str i"
| "jv_str G (VStr s) = s"
| "jv_str G v = ge_repr G v"

text \<open>\<open>d.get(k)\<close> where a missing key and \<open>None\<close> are both falsy.\<close>

definition jget :: "(string \<times> jv) list \<Rightarrow> string \<Rightarrow> jv" where
  "jget d k = (case map_of d k of None \<Rightarrow> VNull | Some v \<Rightarrow> v)"

section \<open>Zarinpal\<close>

definition RIAL_PER_TOMAN :: int where "RIAL_PER_TOMAN = 10"

definition to_rial :: "int \<Rightarrow> int" where
  "to_rial amount_toman = amount_toman * RIAL_PER_TOMAN"

definition post_json ::
  "gateway_env \<Rightarrow> string \<Rightarrow> (string \<times> jv) list \<Rightarrow> (string \<times> jv) list \<times> string" where
  "post_json G url payload =
     (case ge_http G url payload of
        HttpTimeout \<Rightarrow> ([], ''timeout'')
      | HttpNetworkError \<Rightarrow> ([], ''network_error'')
      | HttpStatus c \<Rightarrow> ([], ''http_error'')
      | HttpInvalidJson \<Rightarrow> ([], ''invalid_json'')
      | HttpJson v \<Rightarrow> (case v of VObj d \<Rightarrow> (d, []) | _ \<Rightarrow> ([], ''unexpected_json'')))"

definition extract_data :: "(string \<times> jv) list \<Rightarrow> (string \<times> jv) list" where
  "extract_data payload = (case jget payload ''data'' of VObj d \<Rightarrow> d | _ \<Rightarrow> [])"

definition extract_code :: "gateway_env \<Rightarrow> (string \<times> jv) list \<Rightarrow> string" where
  "extract_code G data = (case map_of data ''code'' of None \<Rightarrow> [] | Some VNull \<Rightarrow> [] | Some v \<Rightarrow> jv_str G v)"

definition jor :: "jv \<Rightarrow> jv \<Rightarrow> jv" where
  "jor a b = (if jv_truthy a then a else b)"

definition data_message :: "gateway_env \<Rightarrow> (string \<times> jv) list \<Rightarrow> string" where
  "data_message G payload =
     (let m = jget (extract_data payload) ''message''
      in if jv_truthy m then jv_str G m else ''gateway_rejected'')"

definition extract_error_message :: "gateway_env \<Rightarrow> (string \<times> jv) list \<Rightarrow> string" where
  "extract_error_message G payload =
     (case jget payload ''errors'' of
        VObj errors \<Rightarrow>
          (let message = jor (jget errors ''message'') (jget errors ''code'')
           in if jv_truthy message then jv_str G message
              else case jget errors ''validations'' of
                     VList (v # vs) \<Rightarrow> jv_str G v
                   | _ \<Rightarrow> data_message G payload)
      | VList (e # es) \<Rightarrow>
          (case e of
             VObj d \<Rightarrow> jv_str G (jor (jor (jget d ''message'') (jget d ''code'')) e)
           | _ \<Rightarrow> jv_str G e)
      | _ \<Rightarrow> data_message G payload)"

definition build_request_metadata :: "string \<Rightarrow> string \<Rightarrow> (string \<times> jv) list \<Rightarrow> (string \<times> jv) list" where
  "build_request_metadata mobile email metadata =
     (if mobile \<noteq> [] \<and> ''mobile'' \<notin> fst ` set metadata then [(''mobile'', VStr mobile)] else []) @
     (if email \<noteq> [] \<and> ''email'' \<notin> fst ` set metadata then [(''email'', VStr email)] else []) @ metadata"

definition zp_request_url :: "bool \<Rightarrow> string" where
  "zp_request_url sandbox = (if sandbox then ''https://sandbox.zarinpal.com/pg/v4/payment/request.json''
     else ''https://api.zarinpal.com/pg/v4/payment/request.json'')"

definition zp_verify_url :: "bool \<Rightarrow> string" where
  "zp_verify_url sandbox = (if sandbox then ''https://sandbox.zarinpal.com/pg/v4/payment/verify.json''
     else ''https://api.zarinpal.com/pg/v4/payment/verify.json'')"

definition zp_startpay_url :: "bool \<Rightarrow> string \<Rightarrow> string" where
  "zp_startpay_url sandbox authority = (if sandbox then ''https://sandbox.zarinpal.com/pg/StartPay/''
     else ''https://www.zarinpal.com/pg/StartPay/'') @ authority"

definition zarinpal_request_payment ::
  "gateway_env \<Rightarrow> bool \<Rightarrow> string \<Rightarrow> int \<Rightarrow> string \<Rightarrow> string \<Rightarrow> string \<Rightarrow> string \<Rightarrow> (string \<times> jv) list \<Rightarrow> request_result" where
  "zarinpal_request_payment G sandbox merchant_id amount description callback_url mobile email metadata =
     (let md = build_request_metadata mobile email metadata;
          payload = [(''merchant_id'', VStr merchant_id), (''amount'', VNum (to_rial amount)),
                     (''description'', VStr description), (''callback_url'', VStr callback_url)] @
                    (if md = [] then [] else [(''metadata'', VObj md)]);
          r = post_json G (zp_request_url sandbox) payload
      in if snd r \<noteq> [] then
           \<lparr>rq_success = False, rq_authority = [], rq_gateway_url = [], rq_gateway_status = ''transport_error'',
            rq_error_message = snd r\<rparr>
         else
           (let data = extract_data (fst r); code = extract_code G data;
                a = jget data ''authority''; authority = (if jv_truthy a then jv_str G a else [])
            in if code = ''100'' \<and> authority \<noteq> [] then
                 \<lparr>rq_success = True, rq_authority = authority, rq_gateway_url = zp_startpay_url sandbox authority,
                  rq_gateway_status = code, rq_error_message = []\<rparr>
               else
                 \<lparr>rq_success = False, rq_authority = [], rq_gateway_url = [], rq_gateway_status = code,
                  rq_error_message = extract_error_message G (fst r)\<rparr>))"

definition zarinpal_verify_payment ::
  "gateway_env \<Rightarrow> bool \<Rightarrow> string \<Rightarrow> string \<Rightarrow> int \<Rightarrow> verify_result" where
  "zarinpal_verify_payment G sandbox merchant_id authority amount =
     (let payload = [(''merchant_id'', VStr merchant_id), (''authority'', VStr authority),
                     (''amount'', VNum (to_rial amount))];
          r = post_json G (zp_verify_url sandbox) payload
      in if snd r \<noteq> [] then
           \<lparr>vr_success = False, vr_already_verified = False, vr_ref_id = [], vr_verified_amount = 0,
            vr_gateway_status = ''transport_error'', vr_error_message = snd r\<rparr>
         else
           (let data = extract_data (fst r); code = extract_code G data; ref = jget data ''ref_id''
            in if code = ''100'' \<or> code = ''101'' then
                 \<lparr>vr_success = True, vr_already_verified = (code = ''101''),
                  vr_ref_id = (if jv_truthy ref then jv_str G ref else []), vr_verified_amount = amount,
                  vr_gateway_status = code, vr_error_message = []\<rparr>
               else
                 \<lparr>vr_success = False, vr_already_verified = False, vr_ref_id = [], vr_verified_amount = 0,
                  vr_gateway_status = code, vr_error_message = extract_error_message G (fst r)\<rparr>))"

section \<open>Sandbox\<close>

definition SANDBOX_CONFIRM_MARKER :: string where
  "SANDBOX_CONFIRM_MARKER = ''SANDBOX-CONFIRMED''"

definition rstrip_slash :: "string \<Rightarrow> string" where
  "rstrip_slash s = rev (dropWhile (\<lambda>c. c = CHR ''/'') (rev s))"

definition build_sandbox_gateway_url :: "string \<Rightarrow> string \<Rightarrow> string" where
  "build_sandbox_gateway_url base authority =
     rstrip_slash base @ ''/api/v1/madadkar/payment/sandbox/'' @ authority @ ''/''"

definition sandbox_request_payment :: "gateway_env \<Rightarrow> string \<Rightarrow> request_result" where
  "sandbox_request_payment G base =
     (let authority = ''SBX-'' @ ge_token G
      in \<lparr>rq_success = True, rq_authority = authority,
          rq_gateway_url = build_sandbox_gateway_url base authority,
          rq_gateway_status = ''100'', rq_error_message = []\<rparr>)"

definition sandbox_marker :: "mdk_db \<Rightarrow> string \<Rightarrow> string option" where
  "sandbox_marker s authority =
     map_option (\<lambda>r. pay_gateway_status (vals r))
       (first_newest (\<lambda>r. pay_authority (vals r) = authority \<and> pay_gateway_name (vals r) = ''sandbox'')
          (objects (payments s)))"

definition sandbox_verify_payment :: "gateway_env \<Rightarrow> mdk_db \<Rightarrow> string \<Rightarrow> int \<Rightarrow> verify_result" where
  "sandbox_verify_payment G s authority amount =
     (if sandbox_marker s authority \<noteq> Some SANDBOX_CONFIRM_MARKER then
        \<lparr>vr_success = False, vr_already_verified = False, vr_ref_id = [], vr_verified_amount = 0,
         vr_gateway_status = [], vr_error_message = ''sandbox_not_confirmed''\<rparr>
      else
        \<lparr>vr_success = True, vr_already_verified = False, vr_ref_id = ''SBXREF-'' @ ge_token G,
         vr_verified_amount = amount, vr_gateway_status = ''100'', vr_error_message = []\<rparr>)"

section \<open>Registry\<close>

datatype provider = SandboxProvider | ZarinpalProvider

definition provider_name :: "provider \<Rightarrow> string" where
  "provider_name p = (case p of SandboxProvider \<Rightarrow> ''sandbox'' | ZarinpalProvider \<Rightarrow> ''zarinpal'')"

definition provider_registry :: "(string \<times> provider) list" where
  "provider_registry = [(''sandbox'', SandboxProvider), (''zarinpal'', ZarinpalProvider)]"

text \<open>The empty name stands for \<open>None\<close>: both select the configured provider.\<close>

definition get_payment_provider :: "mdk_settings \<Rightarrow> string \<Rightarrow> exn + provider" where
  "get_payment_provider cfg name =
     (let n = lower (strip (if name = [] then MADADKAR_PAYMENT_PROVIDER cfg else name))
      in case map_of provider_registry n of
           None \<Rightarrow> Inl UnknownPaymentProviderError
         | Some SandboxProvider \<Rightarrow> Inr SandboxProvider
         | Some ZarinpalProvider \<Rightarrow>
             if MADADKAR_ZARINPAL_MERCHANT_ID cfg = [] then Inl ZarinpalNotConfiguredError else Inr ZarinpalProvider)"

text \<open>A call of a resolved provider; \<open>Inl\<close> is an exception that escapes the provider. The two
  providers of the registry turn every failure into a result.\<close>

definition provider_request ::
  "mdk_settings \<Rightarrow> bool \<Rightarrow> gateway_env \<Rightarrow> provider \<Rightarrow> int \<Rightarrow> string \<Rightarrow> string \<Rightarrow> string \<Rightarrow> string \<Rightarrow>
   (string \<times> jv) list \<Rightarrow> exn + request_result" where
  "provider_request cfg zp_sandbox G p amount description callback_url mobile email metadata =
     Inr (case p of
       SandboxProvider \<Rightarrow> sandbox_request_payment G (MADADKAR_PAYMENT_CALLBACK_BASE_URL cfg)
     | ZarinpalProvider \<Rightarrow> zarinpal_request_payment G zp_sandbox (MADADKAR_ZARINPAL_MERCHANT_ID cfg) amount
         description callback_url mobile email metadata)"

definition provider_verify ::
  "mdk_settings \<Rightarrow> bool \<Rightarrow> gateway_env \<Rightarrow> provider \<Rightarrow> mdk_db \<Rightarrow> string \<Rightarrow> int \<Rightarrow> exn + verify_result" where
  "provider_verify cfg zp_sandbox G p s authority amount =
     Inr (case p of
       SandboxProvider \<Rightarrow> sandbox_verify_payment G s authority amount
     | ZarinpalProvider \<Rightarrow> zarinpal_verify_payment G zp_sandbox (MADADKAR_ZARINPAL_MERCHANT_ID cfg) authority amount)"

section \<open>The provider contract\<close>

text \<open>
  What \<open>AbstractPaymentProvider\<close> promises its client: no exception leaks, a successful request
  carries an authority, and a successful verification reports the amount it was asked to verify.
\<close>

locale payment_provider =
  fixes request :: "int \<Rightarrow> string \<Rightarrow> string \<Rightarrow> string \<Rightarrow> string \<Rightarrow> (string \<times> jv) list \<Rightarrow> exn + request_result"
    and verify :: "mdk_db \<Rightarrow> string \<Rightarrow> int \<Rightarrow> exn + verify_result"
  assumes request_total: "\<exists>r. request amount description callback_url mobile email metadata = Inr r"
    and request_authority: "request amount description callback_url mobile email metadata = Inr r \<Longrightarrow>
      rq_success r \<Longrightarrow> rq_authority r \<noteq> []"
    and verify_total: "\<exists>v. verify s authority amount = Inr v"
    and verify_amount: "verify s authority amount = Inr v \<Longrightarrow> vr_success v \<Longrightarrow> vr_verified_amount v = amount"
begin

lemma no_tampering_report:
  "verify s authority amount = Inr v \<Longrightarrow> \<not> (vr_success v \<and> vr_verified_amount v \<noteq> amount)"
  using verify_amount by blast

lemma no_gateway_exception:
  "verify s authority amount \<noteq> Inl e"
  using verify_total [of s authority amount] by auto

end

lemma zarinpal_request_authority:
  "rq_success (zarinpal_request_payment G b m amount d cb mob em md) \<Longrightarrow>
   rq_authority (zarinpal_request_payment G b m amount d cb mob em md) \<noteq> []"
  by (auto simp: zarinpal_request_payment_def Let_def split: if_splits)

lemma zarinpal_verify_amount:
  "vr_success (zarinpal_verify_payment G b m a amount) \<Longrightarrow>
   vr_verified_amount (zarinpal_verify_payment G b m a amount) = amount"
  by (auto simp: zarinpal_verify_payment_def Let_def split: if_splits)

interpretation sandbox_gw: payment_provider
  "provider_request cfg zp G SandboxProvider" "provider_verify cfg zp G SandboxProvider"
  by unfold_locales
    (auto simp: provider_request_def provider_verify_def sandbox_request_payment_def
      sandbox_verify_payment_def Let_def split: if_splits)

interpretation zarinpal_gw: payment_provider
  "provider_request cfg zp G ZarinpalProvider" "provider_verify cfg zp G ZarinpalProvider"
  by unfold_locales
    (auto simp: provider_request_def provider_verify_def zarinpal_request_authority zarinpal_verify_amount)

lemma registered_provider_verify_amount:
  "provider_verify cfg zp G p s authority amount = Inr v \<Longrightarrow> vr_success v \<Longrightarrow> vr_verified_amount v = amount"
  by (cases p) (simp_all add: sandbox_gw.verify_amount zarinpal_gw.verify_amount)

lemma registered_provider_no_exception: "provider_verify cfg zp G p s authority amount \<noteq> Inl e"
  by (simp add: provider_verify_def)

text \<open>A Zarinpal payment counts as verified exactly when the gateway answered the verification request for
  this merchant, this authority and ten times the toman amount with a JSON object whose data carries code
  100 or 101; the result then reports the asked amount and code 101 as already verified. Every transport
  failure, malformed body and other code is a failed result with amount zero.\<close>

theorem zarinpal_verify_outcome:
  "let v = zarinpal_verify_payment G sandbox m a amount;
       answer = ge_http G (zp_verify_url sandbox)
         [(''merchant_id'', VStr m), (''authority'', VStr a), (''amount'', VNum (10 * amount))]
   in (vr_success v = (\<exists>d. answer = HttpJson (VObj d) \<and> extract_code G (extract_data d) \<in> {''100'', ''101''})) \<and>
      (vr_already_verified v = (\<exists>d. answer = HttpJson (VObj d) \<and> extract_code G (extract_data d) = ''101'')) \<and>
      vr_verified_amount v = (if vr_success v then amount else 0)"
  by (auto simp: zarinpal_verify_payment_def Let_def post_json_def to_rial_def RIAL_PER_TOMAN_def mult.commute
      split: http_outcome.splits jv.splits)

end
