(* ===== verification/Mdk_Receipts.thy ===== *)
theory Mdk_Receipts
  imports Mdk_Counters
begin

text \<open>
  Donation receipts (\<^verbatim>\<open>src/apps/madadkar/services.py\<close>, section "Donation receipt services", and
  \<open>DonationReceipt\<close> of \<^verbatim>\<open>src/apps/madadkar/models.py\<close>). SHA-256 of the canonical JSON text of
  the hash payload and \<open>isoformat\<close> are parameters, as is the name and e-mail of a user.
\<close>

section \<open>Definitions\<close>

record receipt_env =
  re_hash :: "string \<Rightarrow> string"
  re_canonical_json :: "json_obj \<Rightarrow> json_obj \<Rightarrow> json_obj \<Rightarrow> json_obj \<Rightarrow> string"
  re_isoformat :: "int \<Rightarrow> string"
  re_user_email :: "nat \<Rightarrow> string"
  re_user_full_name :: "nat \<Rightarrow> string"

text \<open>\<open>strftime("%Y%m%d")\<close> of a UTC time: the proleptic Gregorian date of a day number.\<close>

definition civil_from_days :: "int \<Rightarrow> int \<times> int \<times> int" where
  "civil_from_days days =
     (let z = days + 719468; era = z div 146097; doe = z - era * 146097;
          yoe = (doe - doe div 1460 + doe div 36524 - doe div 146096) div 365;
          doy = doe - (365 * yoe + yoe div 4 - yoe div 100);
          mp = (5 * doy + 2) div 153;
          d = doy - (153 * mp + 2) div 5 + 1;
          m = (if mp < 10 then mp + 3 else mp - 9);
          y = yoe + era * 400
      in (if m \<le> 2 then y + 1 else y, m, d))"

definition strftime_ymd :: "int \<Rightarrow> string" where
  "strftime_ymd t =
     (case civil_from_days (t div 86400) of (y, m, d) \<Rightarrow>
        pad_left 4 (nat_str (nat y)) @ pad_left 2 (nat_str (nat m)) @ pad_left 2 (nat_str (nat d)))"

definition build_receipt_number :: "nat \<Rightarrow> int \<Rightarrow> string" where
  "build_receipt_number payment_pk issued_at =
     ''MDK-'' @ strftime_ymd issued_at @ ''-'' @ pad_left 10 (nat_str payment_pk)"

text \<open>The scalar part of \<open>build_hash_payload\<close>; the three snapshots are its nested objects.\<close>

definition build_hash_payload :: "receipt_env \<Rightarrow> donation_receipt \<Rightarrow> json_obj" where
  "build_hash_payload R r =
     [(''hash_version'', JInt (int (dr_hash_version r))),
      (''receipt_number'', JStr (dr_receipt_number r)),
      (''payment_id'', JInt (int (dr_payment r))),
      (''user_id'', JInt (int (dr_user r))),
      (''campaign_id'', JInt (int (dr_campaign r))),
      (''amount'', JInt (dr_amount r)),
      (''issued_at'', JStr (re_isoformat R (dr_issued_at r)))]"

definition compute_receipt_hash :: "receipt_env \<Rightarrow> donation_receipt \<Rightarrow> string" where
  "compute_receipt_hash R r =
     re_hash R (re_canonical_json R (build_hash_payload R r) (dr_payment_snapshot r)
       (dr_campaign_snapshot r) (dr_donor_snapshot r))"

definition opt_json :: "(int \<Rightarrow> string) \<Rightarrow> int option \<Rightarrow> json" where
  "opt_json fmt d = (case d of None \<Rightarrow> JNull | Some t \<Rightarrow> JStr (fmt t))"

definition build_receipt ::
  "receipt_env \<Rightarrow> int \<Rightarrow> payment row \<Rightarrow> participation row \<Rightarrow> campaign row \<Rightarrow> sponsor row \<Rightarrow> donation_receipt" where
  "build_receipt R now pay p c sp =
     (let y = vals pay;
          issued_at = (case pay_paid_at y of Some t \<Rightarrow> t
             | None \<Rightarrow> (case pay_verified_at y of Some t \<Rightarrow> t | None \<Rightarrow> now));
          r = \<lparr>dr_payment = row_pk pay, dr_user = pay_user y, dr_campaign = row_pk c,
               dr_receipt_number = build_receipt_number (row_pk pay) issued_at, dr_receipt_hash = [],
               dr_hash_version = 1, dr_amount = pay_amount y, dr_issued_at = issued_at,
               dr_payment_snapshot =
                 [(''payment_id'', JInt (int (row_pk pay))), (''authority'', JStr (pay_authority y)),
                  (''ref_id'', JStr (pay_ref_id y)), (''gateway_name'', JStr (pay_gateway_name y)),
                  (''paid_at'', opt_json (re_isoformat R) (pay_paid_at y)),
                  (''share_count'', JInt (p_share_count (vals p)))],
               dr_campaign_snapshot =
                 [(''campaign_id'', JInt (int (row_pk c))), (''title'', JStr (c_title (vals c))),
                  (''slug'', JStr (c_slug (vals c))), (''sponsor_id'', JInt (int (c_sponsor (vals c)))),
                  (''sponsor_name'', JStr (sp_name (vals sp)))],
               dr_donor_snapshot =
                 [(''user_id'', JInt (int (pay_user y))), (''email'', JStr (re_user_email R (pay_user y))),
                  (''full_name'', JStr (re_user_full_name R (pay_user y)))],
               dr_resend_count = 0, dr_last_resent_at = None\<rparr>
      in r\<lparr>dr_receipt_hash := compute_receipt_hash R r\<rparr>)"

text \<open>The unique columns of the receipt table.\<close>

definition receipt_constraints :: "donation_receipt table \<Rightarrow> donation_receipt \<Rightarrow> bool" where
  "receipt_constraints t d \<longleftrightarrow> 1 \<le> dr_amount d \<and>
     list_all (\<lambda>r. dr_payment (vals r) \<noteq> dr_payment d \<and> dr_receipt_number (vals r) \<noteq> dr_receipt_number d \<and>
       dr_receipt_hash (vals r) \<noteq> dr_receipt_hash d) t"

definition issue_donation_receipt_for_payment ::
  "receipt_env \<Rightarrow> int \<Rightarrow> payment row \<Rightarrow> (mdk_db, donation_receipt row) svc" where
  "issue_donation_receipt_for_payment R now pay =
     seqn (check (pay_status (vals pay) = PAY_SUCCESS) MadadkarServiceError)
     (bnd (gets (\<lambda>s. find (\<lambda>r. dr_payment (vals r) = row_pk pay) (objects (receipts s)))) (\<lambda>existing.
      case existing of
        Some r \<Rightarrow> ret r
      | None \<Rightarrow>
          bnd (follow participations (pay_participation (vals pay))) (\<lambda>p.
          bnd (follow campaigns (p_campaign (vals p))) (\<lambda>c.
          bnd (follow sponsors (c_sponsor (vals c))) (\<lambda>sp.
          bnd (gets receipts) (\<lambda>t.
          let d = build_receipt R now pay p c sp in
          seqn (check (receipt_constraints t d) IntegrityError)
          (seqn (modify (\<lambda>s. s\<lparr>receipts := tbl_insert now d (receipts s)\<rparr>))
          (ret (new_row now d t)))))))))"

text \<open>\<open>DonationReceipt.save\<close> on a stored row: only the resend columns may be written.\<close>

datatype receipt_column = RC_resend_count | RC_last_resent_at | RC_updated_at | RC_evidence string

definition mutable_receipt_column :: "receipt_column \<Rightarrow> bool" where
  "mutable_receipt_column c = (case c of RC_evidence _ \<Rightarrow> False | _ \<Rightarrow> True)"

definition save_receipt ::
  "int \<Rightarrow> nat \<Rightarrow> receipt_column list \<Rightarrow> (donation_receipt \<Rightarrow> donation_receipt) \<Rightarrow> (mdk_db, unit) svc" where
  "save_receipt now k cols f =
     seqn (check (cols \<noteq> [] \<and> list_all mutable_receipt_column cols) PermissionError)
     (modify (\<lambda>s. s\<lparr>receipts := tbl_upd k now f (receipts s)\<rparr>))"

definition record_receipt_resend :: "int \<Rightarrow> nat \<Rightarrow> (mdk_db, unit) svc" where
  "record_receipt_resend now k =
     atomic (
     bnd (fetch receipts k) (\<lambda>locked.
     save_receipt now k [RC_resend_count, RC_last_resent_at, RC_updated_at]
       (\<lambda>d. d\<lparr>dr_resend_count := dr_resend_count (vals locked) + 1, dr_last_resent_at := Some now\<rparr>)))"

definition verify_donation_receipt ::
  "receipt_env \<Rightarrow> string \<Rightarrow> string \<Rightarrow> (mdk_db, bool \<times> donation_receipt row option) svc" where
  "verify_donation_receipt R receipt_number receipt_hash =
     bnd (gets (\<lambda>s. find (\<lambda>r. dr_receipt_number (vals r) = receipt_number) (objects (receipts s)))) (\<lambda>found.
     case found of
       None \<Rightarrow> ret (False, None)
     | Some r \<Rightarrow> ret (compute_receipt_hash R (vals r) = receipt_hash \<and> dr_receipt_hash (vals r) = receipt_hash, Some r))"

section \<open>Frame\<close>

lemma keeps_money_receipt [keeps_rules]: "keeps money (issue_donation_receipt_for_payment R now pay)"
  unfolding issue_donation_receipt_for_payment_def Let_def
  by (intro keeps_rules keeps_modify) (simp add: money_def)

lemma keeps_events_receipt [keeps_rules]: "keeps payment_events (issue_donation_receipt_for_payment R now pay)"
  unfolding issue_donation_receipt_for_payment_def Let_def
  by (intro keeps_rules keeps_modify) simp

section \<open>Receipt numbers\<close>

lemma receipt_number_suffix:
  "str_nat (rev (takeWhile (\<lambda>c. c \<noteq> CHR ''-'') (rev (build_receipt_number k t)))) = k"
proof -
  have "build_receipt_number k t = (''MDK-'' @ strftime_ymd t) @ CHR ''-'' # pad_left 10 (nat_str k)"
    by (simp add: build_receipt_number_def)
  then show ?thesis
    using after_last_dash [OF pad_left_digits, of "''MDK-'' @ strftime_ymd t" 10 k] by simp
qed

text \<open>Receipts of different payments have different numbers, whatever the dates of issue: the number
  ends in the key of the payment, and the padding to ten digits does not confuse two keys.\<close>

theorem receipt_numbers_differ:
  assumes "k \<noteq> k'"
  shows "build_receipt_number k t \<noteq> build_receipt_number k' t'"
  using assms receipt_number_suffix [of k t] receipt_number_suffix [of k' t'] by auto

section \<open>Verification\<close>

lemma compute_hash_ignores_hash: "compute_receipt_hash R (d\<lparr>dr_receipt_hash := h\<rparr>) = compute_receipt_hash R d"
  by (simp add: compute_receipt_hash_def build_hash_payload_def)

lemma find_append: "find p (xs @ ys) = (case find p xs of None \<Rightarrow> find p ys | Some x \<Rightarrow> Some x)"
  by (induction xs) auto

lemma build_receipt_hash: "dr_receipt_hash (build_receipt R now y p c sp) = compute_receipt_hash R (build_receipt R now y p c sp)"
proof -
  have "\<exists>d. build_receipt R now y p c sp = d\<lparr>dr_receipt_hash := compute_receipt_hash R d\<rparr>"
    unfolding build_receipt_def Let_def by (rule exI) (rule refl)
  then obtain d where "build_receipt R now y p c sp = d\<lparr>dr_receipt_hash := compute_receipt_hash R d\<rparr>" by blast
  then show ?thesis by (simp add: compute_hash_ignores_hash)
qed

text \<open>The evidence a receipt hash covers.\<close>

definition receipt_evidence :: "donation_receipt \<Rightarrow> nat \<times> string \<times> nat \<times> nat \<times> nat \<times> int \<times> json_obj \<times> json_obj \<times> json_obj" where
  "receipt_evidence d = (dr_hash_version d, dr_receipt_number d, dr_payment d, dr_user d, dr_campaign d, dr_amount d,
     dr_payment_snapshot d, dr_campaign_snapshot d, dr_donor_snapshot d)"

text \<open>The hash function and the JSON printer do not confuse the two receipts.\<close>

definition no_collision :: "receipt_env \<Rightarrow> donation_receipt \<Rightarrow> donation_receipt \<Rightarrow> bool" where
  "no_collision R d d' \<longleftrightarrow>
     (compute_receipt_hash R d = compute_receipt_hash R d' \<longrightarrow>
        build_hash_payload R d = build_hash_payload R d' \<and> dr_payment_snapshot d = dr_payment_snapshot d' \<and>
        dr_campaign_snapshot d = dr_campaign_snapshot d' \<and> dr_donor_snapshot d = dr_donor_snapshot d')"


text \<open>A settled payment of three shares, to issue a receipt for.\<close>

definition sample_renv :: receipt_env where
  "sample_renv = \<lparr>re_hash = (\<lambda>x. x), re_canonical_json = (\<lambda>a _ _ _. payload_str a ''receipt_number'' []), re_isoformat = int_str,
     re_user_email = (\<lambda>_. []), re_user_full_name = (\<lambda>_. [])\<rparr>"

definition sample_row :: "'v \<Rightarrow> 'v row" where
  "sample_row v = \<lparr>row_pk = 1, created_at = 0, updated_at = 0, is_active = True, vals = v\<rparr>"

definition sample_payment :: payment where
  "sample_payment = \<lparr>pay_participation = 1, pay_user = 7, pay_amount = 300, pay_gateway_name = ''sandbox'', pay_authority = ''a'',
     pay_ref_id = ''ref'', pay_gateway_status = ''100'', pay_status = PAY_SUCCESS, pay_paid_at = Some 50, pay_verified_at = Some 50,
     pay_ip_address = None, pay_user_agent = []\<rparr>"

definition sample_campaign :: campaign where
  "sample_campaign = \<lparr>c_sponsor = 1, c_title = ''t'', c_slug = ''t'', c_description = [], c_cover_image = [], c_total_amount = 1000,
     c_total_shares = 10, c_share_price = 100, c_purchased_shares = 3, c_purchased_amount = 300, c_participant_count = 1,
     c_external_funded_shares = 0, c_external_funded_amount = 0, c_status = C_PUBLISHED, c_is_visible = True,
     c_has_deadline = False, c_deadline = None, c_published_at = Some 20, c_completed_at = None, c_closed_at = None\<rparr>"

definition sample_db :: mdk_db where
  "sample_db = empty_db\<lparr>sponsors := [sample_row \<lparr>sp_name = ''S'', sp_slug = ''s'', sp_logo = None\<rparr>], campaigns := [sample_row sample_campaign],
     participations := [sample_row \<lparr>p_campaign = 1, p_user = 7, p_share_count = 3, p_share_price_snapshot = 100, p_total_amount = 300,
       p_status = PAID, p_paid_at = Some 50\<rparr>], payments := [sample_row sample_payment]\<rparr>"


end
