(* ===== verification/Mdk_Risk.thy ===== *)
theory Mdk_Risk
  imports Mdk_Counters
begin

text \<open>
  Risk signals of Madadkar (\<^verbatim>\<open>src/apps/madadkar/services.py\<close>, section "Risk scoring services"):
  the deduplicating creation of a signal, the three evaluations, and the review.
\<close>

section \<open>Definitions\<close>

record risk_subject =
  rsu_user :: "nat option"
  rsu_campaign :: "nat option"
  rsu_payment :: "nat option"
  rsu_refund :: "nat option"
  rsu_adjustment :: "nat option"

definition same_open_signal :: "risk_signal_type \<Rightarrow> risk_subject \<Rightarrow> risk_signal row \<Rightarrow> bool" where
  "same_open_signal ty su r =
     (let k = vals r in rk_signal_type k = ty \<and> rk_status k = RK_OPEN \<and> rk_user k = rsu_user su \<and>
       rk_campaign k = rsu_campaign su \<and> rk_payment k = rsu_payment su \<and> rk_refund k = rsu_refund su \<and>
       rk_adjustment k = rsu_adjustment su)"

definition create_madadkar_risk_signal ::
  "int \<Rightarrow> risk_signal_type \<Rightarrow> risk_severity \<Rightarrow> risk_subject \<Rightarrow> string option \<Rightarrow> json_obj \<Rightarrow>
   (mdk_db, risk_signal row) svc" where
  "create_madadkar_risk_signal now ty sev su ip md =
     bnd (gets (\<lambda>s. first_newest (same_open_signal ty su) (objects (risk_signals s)))) (\<lambda>existing.
     case existing of
       Some r \<Rightarrow> ret r
     | None \<Rightarrow>
         bnd (gets (\<lambda>s. new_row now
            \<lparr>rk_signal_type = ty, rk_severity = sev, rk_status = RK_OPEN, rk_user = rsu_user su,
             rk_campaign = rsu_campaign su, rk_payment = rsu_payment su, rk_refund = rsu_refund su,
             rk_adjustment = rsu_adjustment su, rk_ip_address = ip, rk_metadata = md,
             rk_reviewed_by = None, rk_reviewed_at = None, rk_review_note = []\<rparr> (risk_signals s))) (\<lambda>r.
         seqn (modify (\<lambda>s. s\<lparr>risk_signals := risk_signals s @ [r]\<rparr>)) (ret r)))"

text \<open>One evaluation rule: a signal when its condition holds, nothing otherwise.\<close>

definition signal_when :: "bool \<Rightarrow> (mdk_db, risk_signal row) svc \<Rightarrow> (mdk_db, risk_signal row list) svc" where
  "signal_when b m = (if b then bnd m (\<lambda>r. ret [r]) else ret [])"

definition evaluate_payment_risk ::
  "mdk_settings \<Rightarrow> int \<Rightarrow> payment row \<Rightarrow> int \<Rightarrow> (mdk_db, risk_signal row list) svc" where
  "evaluate_payment_risk cfg now pay window_minutes =
     bnd (follow participations (pay_participation (vals pay))) (\<lambda>p.
     bnd (gets payments) (\<lambda>t.
     let y = vals pay;
         su = \<lparr>rsu_user = Some (pay_user y), rsu_campaign = Some (p_campaign (vals p)),
               rsu_payment = Some (row_pk pay), rsu_refund = None, rsu_adjustment = None\<rparr>;
         since = now - 60 * window_minutes;
         previous_success_count = agg_count (\<lambda>r. pay_user (vals r) = pay_user y \<and>
            pay_status (vals r) = PAY_SUCCESS \<and> created_at r < created_at pay) (objects t);
         failure_count = agg_count (\<lambda>r. pay_user (vals r) = pay_user y \<and>
            pay_status (vals r) = PAY_FAILED \<and> since \<le> created_at r) (objects t);
         distinct_users = agg_count_distinct (\<lambda>r. pay_user (vals r))
            (\<lambda>r. pay_ip_address (vals r) = pay_ip_address y \<and> since \<le> created_at r) (objects t);
         high = MADADKAR_RISK_HIGH_AMOUNT_NEW_USER_THRESHOLD cfg;
         spike = MADADKAR_RISK_PAYMENT_FAILURE_SPIKE_THRESHOLD cfg;
         ip = pay_ip_address y
     in bnd (signal_when (high \<le> pay_amount y \<and> previous_success_count = 0)
              (create_madadkar_risk_signal now HIGH_AMOUNT_NEW_USER RS_HIGH su ip
                 [(''threshold'', JInt high), (''amount'', JInt (pay_amount y))])) (\<lambda>s1.
        bnd (signal_when (spike \<le> failure_count)
              (create_madadkar_risk_signal now PAYMENT_FAILURE_SPIKE
                 (if failure_count < spike * 2 then RS_MEDIUM else RS_HIGH) su ip
                 [(''window_minutes'', JInt window_minutes), (''failure_count'', JInt (int failure_count))])) (\<lambda>s2.
        bnd (signal_when (ip \<noteq> None \<and> ip \<noteq> Some [] \<and> MADADKAR_RISK_IP_DISTINCT_USERS_THRESHOLD cfg \<le> distinct_users)
              (create_madadkar_risk_signal now SUSPICIOUS_IP_VELOCITY RS_HIGH su ip
                 [(''window_minutes'', JInt window_minutes), (''distinct_users'', JInt (int distinct_users))])) (\<lambda>s3.
        ret (s1 @ s2 @ s3))))))"

definition refund_user :: "mdk_db \<Rightarrow> payment_refund row \<Rightarrow> nat option" where
  "refund_user s r = map_option (\<lambda>y. pay_user (vals y)) (tbl_all (rf_payment (vals r)) (payments s))"

definition refund_campaign :: "mdk_db \<Rightarrow> payment_refund row \<Rightarrow> nat option" where
  "refund_campaign s r = map_option p_campaign (participation_of_payment s (rf_payment (vals r)))"

definition evaluate_refund_risk ::
  "mdk_settings \<Rightarrow> int \<Rightarrow> payment_refund row \<Rightarrow> int \<Rightarrow> (mdk_db, risk_signal row list) svc" where
  "evaluate_refund_risk cfg now refund window_hours =
     bnd (follow payments (rf_payment (vals refund))) (\<lambda>pay.
     bnd (follow participations (pay_participation (vals pay))) (\<lambda>p.
     bnd (gets (\<lambda>s. (agg_count (\<lambda>r. refund_user s r = Some (pay_user (vals pay)) \<and> now - 3600 * window_hours \<le> created_at r) (objects (refunds s)),
                    agg_count (\<lambda>r. refund_campaign s r = Some (p_campaign (vals p)) \<and> now - 3600 * window_hours \<le> created_at r) (objects (refunds s))))) (\<lambda>counts.
     let user_refunds = fst counts; campaign_refunds = snd counts;
         su = \<lparr>rsu_user = Some (pay_user (vals pay)), rsu_campaign = Some (p_campaign (vals p)),
               rsu_payment = Some (row_pk pay), rsu_refund = Some (row_pk refund), rsu_adjustment = None\<rparr>;
         threshold = MADADKAR_RISK_CAMPAIGN_REFUND_SPIKE_THRESHOLD cfg
     in bnd (signal_when (MADADKAR_RISK_REFUND_VELOCITY_THRESHOLD cfg \<le> user_refunds)
              (create_madadkar_risk_signal now REFUND_VELOCITY RS_HIGH su (pay_ip_address (vals pay))
                 [(''window_hours'', JInt window_hours), (''user_refund_count'', JInt (int user_refunds))])) (\<lambda>s1.
        bnd (signal_when (threshold \<le> campaign_refunds)
              (create_madadkar_risk_signal now CAMPAIGN_REFUND_SPIKE
                 (if threshold * 2 \<le> campaign_refunds then RS_CRITICAL else RS_HIGH) su (pay_ip_address (vals pay))
                 [(''window_hours'', JInt window_hours), (''campaign_refund_count'', JInt (int campaign_refunds))])) (\<lambda>s2.
        ret (s1 @ s2))))))"

text \<open>The float comparison \<open>amount / base < n / d\<close> by cross-multiplication (\<open>base\<close> and \<open>d\<close> are positive).\<close>

definition ratio_less :: "int \<Rightarrow> int \<Rightarrow> int \<times> int \<Rightarrow> bool" where
  "ratio_less amount base q = (amount * snd q < fst q * base)"

definition evaluate_adjustment_risk ::
  "mdk_settings \<Rightarrow> int \<Rightarrow> adjustment row \<Rightarrow> (mdk_db, risk_signal row list) svc" where
  "evaluate_adjustment_risk cfg now adj =
     bnd (follow campaigns (ad_campaign (vals adj))) (\<lambda>c.
     let base = max (c_purchased_amount (vals c)) 1; amount = ad_amount (vals adj) in
     signal_when (\<not> ratio_less amount base (MADADKAR_RISK_ADJUSTMENT_RATIO_THRESHOLD cfg))
       (create_madadkar_risk_signal now ADJUSTMENT_ANOMALY
          (if ratio_less amount base (1, 2) then RS_HIGH else RS_CRITICAL)
          \<lparr>rsu_user = ad_requested_by (vals adj), rsu_campaign = Some (row_pk c), rsu_payment = ad_payment (vals adj),
           rsu_refund = None, rsu_adjustment = Some (row_pk adj)\<rparr> None
          [(''ratio'', JRatio amount base), (''amount'', JInt amount), (''base_amount'', JInt base)]))"

definition review_madadkar_risk_signal ::
  "int \<Rightarrow> nat \<Rightarrow> nat option \<Rightarrow> risk_status \<Rightarrow> string \<Rightarrow> (mdk_db, unit) svc" where
  "review_madadkar_risk_signal now signal reviewed_by status review_note =
     atomic (
     seqn (check (status \<in> {RK_REVIEWED, RK_DISMISSED, RK_ESCALATED}) MadadkarServiceError)
     (seqn (fetch risk_signals signal)
     (modify (\<lambda>s. s\<lparr>risk_signals := tbl_upd signal now
        (\<lambda>k. k\<lparr>rk_status := status, rk_reviewed_by := reviewed_by, rk_reviewed_at := Some now,
              rk_review_note := review_note\<rparr>) (risk_signals s)\<rparr>))))"

section \<open>Frame\<close>

lemma keeps_create_signal:
  "(\<And>s r. g (s\<lparr>risk_signals := r\<rparr>) = g s) \<Longrightarrow> keeps g (create_madadkar_risk_signal now ty sev su ip md)"
  unfolding create_madadkar_risk_signal_def by (intro keeps_rules keeps_modify) auto

lemma keeps_signal_when [keeps_rules]: "keeps g m \<Longrightarrow> keeps g (signal_when b m)"
  unfolding signal_when_def by (intro keeps_rules) auto

lemma keeps_payment_risk:
  "(\<And>s r. g (s\<lparr>risk_signals := r\<rparr>) = g s) \<Longrightarrow> keeps g (evaluate_payment_risk cfg now pay w)"
  unfolding evaluate_payment_risk_def Let_def by (intro keeps_rules keeps_create_signal)

lemma keeps_refund_risk:
  "(\<And>s r. g (s\<lparr>risk_signals := r\<rparr>) = g s) \<Longrightarrow> keeps g (evaluate_refund_risk cfg now refund w)"
  unfolding evaluate_refund_risk_def Let_def by (intro keeps_rules keeps_create_signal)

lemma keeps_adjustment_risk:
  "(\<And>s r. g (s\<lparr>risk_signals := r\<rparr>) = g s) \<Longrightarrow> keeps g (evaluate_adjustment_risk cfg now adj)"
  unfolding evaluate_adjustment_risk_def Let_def by (intro keeps_rules keeps_create_signal)

lemma keeps_money_risk [keeps_rules]:
  "keeps money (evaluate_payment_risk cfg now pay w)"
  "keeps money (evaluate_refund_risk cfg now refund w)"
  "keeps money (evaluate_adjustment_risk cfg now adj)"
  by (intro keeps_payment_risk keeps_refund_risk keeps_adjustment_risk; simp add: money_def)+

lemma keeps_events_risk [keeps_rules]:
  "keeps payment_events (evaluate_payment_risk cfg now pay w)"
  "keeps payment_events (evaluate_refund_risk cfg now refund w)"
  "keeps payment_events (evaluate_adjustment_risk cfg now adj)"
  by (intro keeps_payment_risk keeps_refund_risk keeps_adjustment_risk; simp)+

section \<open>Deduplication\<close>

text \<open>Raising a risk signal is idempotent: while a signal of the same type for the same user, campaign,
  payment, refund and adjustment is open, raising it again (with any severity, address or metadata)
  returns that signal and stores nothing.\<close>

theorem risk_signal_deduplicated:
  assumes "create_madadkar_risk_signal now ty sev su ip md s = (Inr r, t)"
  shows "create_madadkar_risk_signal now' ty sev' su ip' md' t = (Inr r, t)"
proof (cases "first_newest (same_open_signal ty su) (objects (risk_signals s))")
  case (Some q)
  with assms show ?thesis by (simp add: create_madadkar_risk_signal_def svc_defs)
next
  case None
  with assms have r: "same_open_signal ty su r" "is_active r" and t: "risk_signals t = risk_signals s @ [r]"
    by (auto simp: create_madadkar_risk_signal_def svc_defs same_open_signal_def)
  have "filter (same_open_signal ty su) (objects (risk_signals s)) = []"
    using None by (simp add: first_newest_None filter_empty_conv)
  with r have "first_newest (same_open_signal ty su) (objects (risk_signals t)) = Some r"
    by (simp add: t first_newest_def objects_def)
  then show ?thesis by (simp add: create_madadkar_risk_signal_def svc_defs)
qed

definition sample_subject :: risk_subject where
  "sample_subject = \<lparr>rsu_user = Some 7, rsu_campaign = Some 1, rsu_payment = Some 1, rsu_refund = None, rsu_adjustment = None\<rparr>"

theorem risk_signal_deduplicated_witness:
  "\<exists>r t. create_madadkar_risk_signal 10 REFUND_VELOCITY RS_HIGH sample_subject None [] empty_db = (Inr r, t) \<and>
     length (risk_signals t) = 1 \<and> create_madadkar_risk_signal 11 REFUND_VELOCITY RS_LOW sample_subject None [] t = (Inr r, t)"
proof -
  let ?run = "create_madadkar_risk_signal 10 REFUND_VELOCITY RS_HIGH sample_subject None [] empty_db"
  have "(case fst ?run of Inl e \<Rightarrow> False | Inr r \<Rightarrow> True) \<and> length (risk_signals (snd ?run)) = 1" by code_simp
  then obtain r t where run: "?run = (Inr r, t)" and len: "length (risk_signals t) = 1" by (cases ?run) (auto split: sum.splits)
  from risk_signal_deduplicated [OF run, of 11 RS_LOW None "[]"] run len show ?thesis by blast
qed

end
