(* ===== verification/Mdk_Payments.thy ===== *)
theory Mdk_Payments
  imports Mdk_Campaigns Mdk_Providers Mdk_Receipts Mdk_Risk
begin

text \<open>
  Participation and payment (\<^verbatim>\<open>src/apps/madadkar/services.py\<close>, sections "Participation services",
  "Payment services" and "Maintenance services"). The services that are deliberately not atomic
  are written as their phases: each phase is one transaction, the gateway is called between them,
  and what a phase committed stays when a later phase raises.
\<close>

section \<open>Environment\<close>

record mdk_env =
  env_cfg :: mdk_settings
  env_zarinpal_sandbox :: bool
  env_gateway :: gateway_env
  env_receipt :: receipt_env
  env_format :: "string \<Rightarrow> json_obj \<Rightarrow> string"

section \<open>Reserving shares and starting a payment\<close>

definition reserve_participation_shares ::
  "int \<Rightarrow> nat \<Rightarrow> nat \<Rightarrow> int \<Rightarrow> (mdk_db, participation row) svc" where
  "reserve_participation_shares now campaign user share_count =
     atomic (
     bnd (fetch campaigns campaign) (\<lambda>locked.
     seqn (check (is_campaign_open_for_participation now locked = None) CampaignNotAcceptingSharesError)
     (seqn (check (\<not> share_count > remaining_shares (vals locked)) InsufficientSharesError)
     (let v = \<lparr>p_campaign = row_pk locked, p_user = user, p_share_count = share_count,
               p_share_price_snapshot = c_share_price (vals locked),
               p_total_amount = share_count * c_share_price (vals locked),
               p_status = PENDING_PAYMENT, p_paid_at = None\<rparr> in
      seqn (check (participation_constraints v) IntegrityError)
      (bnd (gets (\<lambda>s. new_row now v (participations s))) (\<lambda>p.
      seqn (modify (\<lambda>s. s\<lparr>participations := participations s @ [p]\<rparr>))
      (seqn (sync_campaign_counters now locked)
      (ret p))))))))"

definition release_reserved_participation :: "int \<Rightarrow> nat \<Rightarrow> (mdk_db, unit) svc" where
  "release_reserved_participation now participation =
     atomic (
     bnd (fetch participations participation) (\<lambda>locked.
     if p_status (vals locked) \<noteq> PENDING_PAYMENT then ret ()
     else
       bnd (fetch campaigns (p_campaign (vals locked))) (\<lambda>c.
       seqn (save_participation now participation (\<lambda>p. p\<lparr>p_status := P_FAILED\<rparr>))
       (seqn (sync_campaign_counters now c)
       (ret ())))))"

text \<open>The unique columns of the payment table: one payment per participation, one per authority.\<close>

definition payment_constraints :: "payment table \<Rightarrow> payment \<Rightarrow> bool" where
  "payment_constraints t y \<longleftrightarrow> 1 \<le> pay_amount y \<and>
     list_all (\<lambda>r. pay_participation (vals r) \<noteq> pay_participation y \<and> pay_authority (vals r) \<noteq> pay_authority y) t"

definition persist_initiated_payment ::
  "int \<Rightarrow> participation row \<Rightarrow> nat \<Rightarrow> int \<Rightarrow> string \<Rightarrow> request_result \<Rightarrow> string option \<Rightarrow> string \<Rightarrow>
   (mdk_db, payment row) svc" where
  "persist_initiated_payment now p user amount gateway res ip_address user_agent =
     atomic (
     bnd (gets payments) (\<lambda>t.
     let v = \<lparr>pay_participation = row_pk p, pay_user = user, pay_amount = amount,
              pay_gateway_name = gateway, pay_authority = rq_authority res, pay_ref_id = [],
              pay_gateway_status = rq_gateway_status res, pay_status = PAY_PENDING, pay_paid_at = None,
              pay_verified_at = None, pay_ip_address = ip_address, pay_user_agent = take 500 user_agent\<rparr>;
         r = new_row now v t in
     seqn (check (payment_constraints t v) IntegrityError)
     (seqn (modify (\<lambda>s. s\<lparr>payments := payments s @ [r]\<rparr>))
     (seqn (record_payment_event now r EV_CREATED None (Some PAY_PENDING)
              [(''campaign_id'', JInt (int (p_campaign (vals p)))), (''participation_id'', JInt (int (row_pk p)))])
     (ret r)))))"

text \<open>An \<open>exn + 'a\<close> computed outside the database, as a service.\<close>

definition lift_result :: "exn + 'a \<Rightarrow> (mdk_db, 'a) svc" where
  "lift_result r = (case r of Inl e \<Rightarrow> raise e | Inr x \<Rightarrow> ret x)"

definition initiate_participation ::
  "mdk_env \<Rightarrow> int \<Rightarrow> campaign row \<Rightarrow> nat \<Rightarrow> int \<Rightarrow> string \<Rightarrow> string option \<Rightarrow> string \<Rightarrow> string \<Rightarrow> string \<Rightarrow>
   (mdk_db, participation row \<times> payment row \<times> string) svc" where
  "initiate_participation E now campaign user share_count callback_url ip_address user_agent mobile email =
     seqn (check (validate_share_count share_count) InvalidShareCountError)
     (bnd (reserve_participation_shares now (row_pk campaign) user share_count) (\<lambda>p.
     let total_amount = p_total_amount (vals p) in
     bnd (lift_result (get_payment_provider (env_cfg E) [])) (\<lambda>prov.
     case provider_request (env_cfg E) (env_zarinpal_sandbox E) (env_gateway E) prov total_amount
            (c_title (vals campaign)) callback_url mobile email
            [(''participation_id'', VStr (nat_str (row_pk p))), (''campaign_id'', VStr (nat_str (row_pk campaign))),
             (''user_id'', VStr (nat_str user))] of
       Inl e \<Rightarrow>
         seqn (release_reserved_participation now (row_pk p)) (raise PaymentGatewayError)
     | Inr res \<Rightarrow>
         if \<not> rq_success res \<or> rq_authority res = []
         then seqn (release_reserved_participation now (row_pk p)) (raise PaymentGatewayError)
         else
           bnd (persist_initiated_payment now p user total_amount (provider_name prov) res ip_address user_agent) (\<lambda>pay.
           ret (p, pay, rq_gateway_url res)))))"

section \<open>Settling a payment\<close>

definition payment_by_authority :: "mdk_db \<Rightarrow> string \<Rightarrow> payment row option" where
  "payment_by_authority s authority =
     first_newest (\<lambda>r. pay_authority (vals r) = authority) (objects (payments s))"

text \<open>The failure transaction of a payment: the payment and its participation become FAILED, the
  ledger gets one event, the counters of the campaign are recomputed.\<close>

definition fail_payment ::
  "int \<Rightarrow> payment row \<Rightarrow> participation row \<Rightarrow> campaign row \<Rightarrow> string \<Rightarrow> payment_event_kind \<Rightarrow> json_obj \<Rightarrow>
   (mdk_db, payment row) svc" where
  "fail_payment now locked p c gateway_status kind metadata =
     (let f = (\<lambda>y. y\<lparr>pay_status := PAY_FAILED, pay_gateway_status := gateway_status, pay_verified_at := Some now\<rparr>);
          locked' = locked\<lparr>updated_at := now, vals := f (vals locked)\<rparr>
      in seqn (save_payment now (row_pk locked) f)
         (seqn (record_payment_event now locked' kind (Some (pay_status (vals locked))) (Some PAY_FAILED) metadata)
         (seqn (save_participation now (row_pk p) (\<lambda>x. x\<lparr>p_status := P_FAILED\<rparr>))
         (seqn (sync_campaign_counters now c)
         (ret locked')))))"

text \<open>Step 3 of \<open>verify_payment\<close>: the amounts differ. The block reads the payment again under its
  lock but does not look at its status.\<close>

definition settle_amount_mismatch :: "int \<Rightarrow> payment row \<Rightarrow> verify_result \<Rightarrow> (mdk_db, payment row) svc" where
  "settle_amount_mismatch now pay vr =
     seqn (atomic (
       bnd (fetch payments (row_pk pay)) (\<lambda>locked.
       bnd (follow participations (pay_participation (vals locked))) (\<lambda>p.
       bnd (fetch campaigns (p_campaign (vals p))) (\<lambda>c.
       fail_payment now locked p c (vr_gateway_status vr) EV_AMOUNT_MISMATCH
         [(''stored_amount'', JInt (pay_amount (vals pay))), (''verified_amount'', JInt (vr_verified_amount vr))])))))
     (raise PaymentAmountMismatchError)"

definition notify_madadkar_payment_success ::
  "mdk_env \<Rightarrow> int \<Rightarrow> payment row \<Rightarrow> (mdk_db, ntf_event row) svc" where
  "notify_madadkar_payment_success E now pay =
     bnd (follow participations (pay_participation (vals pay))) (\<lambda>p.
     bnd (follow campaigns (p_campaign (vals p))) (\<lambda>c.
     emit_domain_notification (env_cfg E) (env_format E) now ''madadkar.payment_success'' (p_user (vals p))
       [(''title'', JStr ''payment_success''), (''campaign_title'', JStr (c_title (vals c))),
        (''amount'', JInt (pay_amount (vals pay))), (''ref_id'', JStr (pay_ref_id (vals pay)))]
       (Some (p_user (vals p))) ''madadkar_payment'' (nat_str (row_pk pay)) NP_HIGH))"

text \<open>The success branch of step 4: payment SUCCESS, participation PAID, counters and completion, receipt,
  risk evaluation and notification, all in the one transaction.\<close>

definition mark_success :: "int \<Rightarrow> verify_result \<Rightarrow> payment \<Rightarrow> payment" where
  "mark_success now vr y = y\<lparr>pay_status := PAY_SUCCESS, pay_ref_id := vr_ref_id vr,
     pay_gateway_status := vr_gateway_status vr, pay_paid_at := Some now, pay_verified_at := Some now\<rparr>"

definition succeed_payment ::
  "mdk_env \<Rightarrow> int \<Rightarrow> payment row \<Rightarrow> participation row \<Rightarrow> campaign row \<Rightarrow> verify_result \<Rightarrow> (mdk_db, payment row) svc" where
  "succeed_payment E now locked p c vr =
     (let f = mark_success now vr;
          locked' = locked\<lparr>updated_at := now, vals := f (vals locked)\<rparr>
      in seqn (save_payment now (row_pk locked) f)
             (seqn (record_payment_event now locked' EV_VERIFY_SUCCESS (Some (pay_status (vals locked))) (Some PAY_SUCCESS)
                      [(''already_verified'', JBool (vr_already_verified vr))])
             (seqn (save_participation now (row_pk p) (\<lambda>x. x\<lparr>p_status := PAID, p_paid_at := Some now\<rparr>))
             (bnd (sync_campaign_counters now c) (\<lambda>c'.
              seqn (auto_complete_campaign_if_fully_funded now c')
              (seqn (issue_donation_receipt_for_payment (env_receipt E) now locked')
              (seqn (evaluate_payment_risk (env_cfg E) now locked' 60)
              (seqn (notify_madadkar_payment_success E now locked')
              (ret locked')))))))))"

text \<open>Step 4: the final status, with the idempotency test repeated under the lock.\<close>

definition settle_payment :: "mdk_env \<Rightarrow> int \<Rightarrow> payment row \<Rightarrow> verify_result \<Rightarrow> (mdk_db, payment row) svc" where
  "settle_payment E now pay vr =
     atomic (
     bnd (fetch payments (row_pk pay)) (\<lambda>locked.
     if pay_status (vals locked) = PAY_SUCCESS \<or> pay_status (vals locked) = PAY_FAILED then ret locked
     else
       bnd (follow participations (pay_participation (vals locked))) (\<lambda>p.
       bnd (fetch campaigns (p_campaign (vals p))) (\<lambda>c.
       if \<not> vr_success vr then
         fail_payment now locked p c (vr_gateway_status vr) EV_VERIFY_FAILED
           [(''error_message'', JStr (vr_error_message vr))]
       else succeed_payment E now locked p c vr))))"

text \<open>\<open>verify_payment\<close> over any way to resolve and call a provider.\<close>

definition verify_payment_via ::
  "(string \<Rightarrow> exn + (mdk_db \<Rightarrow> string \<Rightarrow> int \<Rightarrow> exn + verify_result)) \<Rightarrow> mdk_env \<Rightarrow> int \<Rightarrow> string \<Rightarrow>
   (mdk_db, payment row) svc" where
  "verify_payment_via resolve E now authority =
     bnd (gets (\<lambda>s. payment_by_authority s authority)) (\<lambda>found.
     case found of
       None \<Rightarrow> raise PaymentNotFoundError
     | Some pay \<Rightarrow>
         if pay_status (vals pay) = PAY_SUCCESS then ret pay
         else if pay_status (vals pay) = PAY_FAILED then ret pay
         else
           bnd (lift_result (resolve (pay_gateway_name (vals pay)))) (\<lambda>call.
           bnd (gets (\<lambda>s. call s authority (pay_amount (vals pay)))) (\<lambda>answer.
           case answer of
             Inl e \<Rightarrow> raise PaymentGatewayError
           | Inr vr \<Rightarrow>
               if vr_success vr \<and> vr_verified_amount vr \<noteq> pay_amount (vals pay)
               then settle_amount_mismatch now pay vr
               else settle_payment E now pay vr)))"

definition resolve_verify ::
  "mdk_env \<Rightarrow> string \<Rightarrow> exn + (mdk_db \<Rightarrow> string \<Rightarrow> int \<Rightarrow> exn + verify_result)" where
  "resolve_verify E name =
     (case get_payment_provider (env_cfg E) name of
        Inl e \<Rightarrow> Inl e
      | Inr p \<Rightarrow> Inr (provider_verify (env_cfg E) (env_zarinpal_sandbox E) (env_gateway E) p))"

definition verify_payment :: "mdk_env \<Rightarrow> int \<Rightarrow> string \<Rightarrow> (mdk_db, payment row) svc" where
  "verify_payment E now authority = verify_payment_via (resolve_verify E) E now authority"

definition confirm_sandbox_payment :: "int \<Rightarrow> nat \<Rightarrow> (mdk_db, bool) svc" where
  "confirm_sandbox_payment now payment =
     atomic (
     bnd (fetch payments payment) (\<lambda>locked.
     if pay_status (vals locked) \<noteq> PAY_PENDING \<or> pay_gateway_name (vals locked) \<noteq> ''sandbox'' then ret False
     else seqn (save_payment now payment (\<lambda>y. y\<lparr>pay_gateway_status := SANDBOX_CONFIRM_MARKER\<rparr>)) (ret True)))"

definition cancel_pending_payment :: "int \<Rightarrow> string \<Rightarrow> (mdk_db, payment row) svc" where
  "cancel_pending_payment now authority =
     bnd (gets (\<lambda>s. payment_by_authority s authority)) (\<lambda>found.
     case found of
       None \<Rightarrow> raise PaymentNotFoundError
     | Some pay \<Rightarrow>
         if pay_status (vals pay) = PAY_SUCCESS \<or> pay_status (vals pay) = PAY_FAILED then ret pay
         else
           atomic (
           bnd (fetch payments (row_pk pay)) (\<lambda>locked.
           if pay_status (vals locked) = PAY_SUCCESS \<or> pay_status (vals locked) = PAY_FAILED then ret locked
           else
             bnd (follow participations (pay_participation (vals locked))) (\<lambda>p.
             bnd (fetch campaigns (p_campaign (vals p))) (\<lambda>c.
             fail_payment now locked p c ''NOK'' EV_VERIFY_FAILED
               [(''cancelled_by_user'', JBool True), (''error_message'', JStr ''cancelled_by_user'')])))))"

section \<open>Maintenance\<close>

text \<open>The participation is the object the caller holds: its row is not locked or read again. Its newest
  pending payment, if there is one, fails with it.\<close>

definition expire_pending_payment :: "int \<Rightarrow> nat \<Rightarrow> (mdk_db, unit) svc" where
  "expire_pending_payment now participation =
     bnd (gets (\<lambda>s. first_newest (\<lambda>r. pay_participation (vals r) = participation \<and> pay_status (vals r) = PAY_PENDING)
                       (objects (payments s)))) (\<lambda>found.
     case found of
       None \<Rightarrow> ret ()
     | Some y \<Rightarrow>
         let f = (\<lambda>v. v\<lparr>pay_status := PAY_FAILED, pay_gateway_status := ''expired'', pay_verified_at := Some now\<rparr>) in
         seqn (save_payment now (row_pk y) f)
         (seqn (record_payment_event now (y\<lparr>updated_at := now, vals := f (vals y)\<rparr>) EV_EXPIRED
                  (Some (pay_status (vals y))) (Some PAY_FAILED) [])
         (ret ())))"

definition expire_stale_participation :: "int \<Rightarrow> participation row \<Rightarrow> (mdk_db, participation row) svc" where
  "expire_stale_participation now p =
     (if p_status (vals p) \<noteq> PENDING_PAYMENT then ret p
      else atomic (
        bnd (fetch campaigns (p_campaign (vals p))) (\<lambda>c.
        seqn (save_participation now (row_pk p) (\<lambda>x. x\<lparr>p_status := EXPIRED\<rparr>))
        (seqn (expire_pending_payment now (row_pk p))
        (seqn (sync_campaign_counters now c)
        (ret (p\<lparr>updated_at := now, vals := (vals p)\<lparr>p_status := EXPIRED\<rparr>\<rparr>)))))))"

text \<open>\<open>timeout_minutes or settings...\<close>: \<open>None\<close> and 0 select the configured timeout.\<close>

definition get_stale_participations :: "mdk_settings \<Rightarrow> int \<Rightarrow> int option \<Rightarrow> mdk_db \<Rightarrow> participation table" where
  "get_stale_participations cfg now timeout_minutes s =
     (let timeout = (case timeout_minutes of None \<Rightarrow> MADADKAR_PAYMENT_TIMEOUT_MINUTES cfg
            | Some m \<Rightarrow> if m = 0 then MADADKAR_PAYMENT_TIMEOUT_MINUTES cfg else m);
          cutoff = now - 60 * timeout
      in filter (\<lambda>r. p_status (vals r) = PENDING_PAYMENT \<and> created_at r < cutoff) (objects (participations s)))"

text \<open>The periodic tasks: every item is its own transaction, a failure does not stop the loop.\<close>

definition count_failures :: "(exn + 'a) list \<Rightarrow> nat" where
  "count_failures rs = length (filter (\<lambda>r. case r of Inl _ \<Rightarrow> True | Inr _ \<Rightarrow> False) rs)"

definition guarded :: "(mdk_db, 'a) svc \<Rightarrow> (mdk_db, exn + 'a) svc" where
  "guarded m = try_svc (bnd m (\<lambda>x. ret (Inr x))) (\<lambda>e. ret (Inl e))"

definition expire_stale_participations_task ::
  "mdk_settings \<Rightarrow> int \<Rightarrow> (mdk_db, nat \<times> nat \<times> nat) svc" where
  "expire_stale_participations_task cfg now =
     bnd (gets (get_stale_participations cfg now None)) (\<lambda>stale.
     bnd (for_each stale (\<lambda>p. guarded (expire_stale_participation now p))) (\<lambda>rs.
     ret (length stale, length rs - count_failures rs, count_failures rs)))"

definition get_campaigns_due_for_closing :: "int \<Rightarrow> mdk_db \<Rightarrow> campaign table" where
  "get_campaigns_due_for_closing now s =
     filter (\<lambda>r. c_status (vals r) = C_PUBLISHED \<and> c_has_deadline (vals r) \<and>
        (case c_deadline (vals r) of None \<Rightarrow> False | Some d \<Rightarrow> d \<le> now)) (objects (campaigns s))"

definition close_expired_campaigns_task :: "int \<Rightarrow> (mdk_db, nat \<times> nat \<times> nat) svc" where
  "close_expired_campaigns_task now =
     bnd (gets (get_campaigns_due_for_closing now)) (\<lambda>due.
     bnd (for_each due (\<lambda>c. guarded (close_campaign_due_to_deadline now c))) (\<lambda>rs.
     ret (length due, length rs - count_failures rs, count_failures rs)))"

section \<open>Frame\<close>

lemma keeps_notify [keeps_rules]:
  "keeps money (notify_madadkar_payment_success E now pay)"
  "keeps payment_events (notify_madadkar_payment_success E now pay)"
  "keeps receipts (notify_madadkar_payment_success E now pay)"
  unfolding notify_madadkar_payment_success_def
  by (intro keeps_rules keeps_emit; simp add: money_def)+

lemma keeps_parts [keeps_rules]:
  "keeps participations (save_payment now i f)" "keeps participations (record_payment_event now y k a b m)"
  "keeps payments (save_participation now i fp)" "keeps payments (record_payment_event now y k a b m)"
  "keeps payments (sync_campaign_counters now c)" "keeps participations (sync_campaign_counters now c)"
  "keeps payment_events (save_payment now i f)" "keeps payment_events (save_participation now i fp)"
  "keeps payment_events (sync_campaign_counters now c)"
  unfolding save_payment_def save_participation_def record_payment_event_def sync_campaign_counters_def save_campaign_def
  by (intro keeps_rules keeps_modify; simp)+

section \<open>The ledger invariant\<close>

lemma reserve_ok: "preserves ledger_ok (reserve_participation_shares now k user n)"
  unfolding reserve_participation_shares_def
proof (rule preserves_atomic, goal_cases)
  case (1 s y t)
  let ?v = "\<lambda>locked. \<lparr>p_campaign = row_pk locked, p_user = user, p_share_count = n,
       p_share_price_snapshot = c_share_price (vals locked), p_total_amount = n * c_share_price (vals locked),
       p_status = PENDING_PAYMENT, p_paid_at = None\<rparr>"
  from 1(2) obtain locked c' where g: "tbl_get k (campaigns s) = Some locked"
    and sync: "sync_campaign_counters now locked
        (s\<lparr>participations := participations s @ [new_row now (?v locked) (participations s)]\<rparr>) = (Inr c', t)"
    by (auto simp: Let_def bnd_Inr seqn_Inr check_Inr fetch_Inr gets_Inr modify_Inr ret_Inr)
  have "p_campaign (?v locked) \<in> keys_of (campaigns s)"
    using tbl_get_Some [OF g] tbl_get_keys [OF g] by simp
  from insert_participation_but [OF 1(1) this, of now] show ?case by (intro sync_but [OF sync]) simp
qed

lemma release_ok: "preserves ledger_ok (release_reserved_participation now i)"
  unfolding release_reserved_participation_def
proof (rule preserves_atomic, goal_cases)
  case (1 s y t)
  show ?case
  proof (cases "t = s")
    case False
    with 1(2) obtain locked c c' u where g: "tbl_get i (participations s) = Some locked"
      and c: "tbl_get (p_campaign (vals locked)) (campaigns s) = Some c"
      and save: "save_participation now i (\<lambda>p. p\<lparr>p_status := P_FAILED\<rparr>) s = (Inr (), u)"
      and sync: "sync_campaign_counters now c u = (Inr c', t)"
      by (auto simp: bnd_Inr seqn_Inr fetch_Inr ret_Inr split: if_splits)
    have k: "row_pk c = p_campaign (vals locked)" using tbl_get_Some [OF c] by simp
    have "keys_ok s" using 1(1) by (simp add: ledger_ok_def)
    then have "part_of s i (row_pk c)"
      using part_ofI [of s i locked] g k by (simp add: keys_ok_def tbl_get_tbl_all)
    from save_participation_but [OF save ledger_ok_butD [OF 1(1)] this] show ?thesis
      by (intro sync_but [OF sync]) simp
  qed (use 1(1) in simp)
qed

lemma persist_payment_ok:
  assumes "ledger_ok s" and "row_pk p \<in> keys_of (participations s)"
  shows "ledger_ok (state_after (persist_initiated_payment now p user amount gw res ip ua) s)"
  unfolding persist_initiated_payment_def
proof (rule atomic_keeps [where P = ledger_ok, OF assms(1)], goal_cases)
  case (1 y t)
  let ?v = "\<lparr>pay_participation = row_pk p, pay_user = user, pay_amount = amount,
              pay_gateway_name = gw, pay_authority = rq_authority res, pay_ref_id = [],
              pay_gateway_status = rq_gateway_status res, pay_status = PAY_PENDING, pay_paid_at = None,
              pay_verified_at = None, pay_ip_address = ip, pay_user_agent = take 500 ua\<rparr>"
  from 1 obtain e u where ev: "money t = money (s\<lparr>payments := payments s @ [new_row now ?v (payments s)]\<rparr>)"
    and amt: "1 \<le> amount"
    by (auto simp: Let_def bnd_Inr seqn_Inr check_Inr gets_Inr modify_Inr ret_Inr payment_constraints_def
        dest: keepsD [OF keeps_money_event])
  show ?case unfolding ledger_ok_money [OF ev]
    by (rule insert_payment_ok [OF assms(1)]) (use assms(2) amt in simp_all)
qed

lemma fail_payment_step:
  assumes run: "fail_payment now locked p c gs kind md s = (Inr y, t)" and ok: "ledger_ok s"
    and p: "tbl_all (pay_participation (vals locked)) (participations s) = Some p"
    and c: "row_pk c = p_campaign (vals p)"
  shows "ledger_ok t"
proof -
  let ?f = "\<lambda>y. y\<lparr>pay_status := PAY_FAILED, pay_gateway_status := gs, pay_verified_at := Some now\<rparr>"
  from run obtain s1 s2 s3 e c' locked' where
      a: "save_payment now (row_pk locked) ?f s = (Inr (), s1)"
    and b: "record_payment_event now locked' kind (Some (pay_status (vals locked))) (Some PAY_FAILED) md s1 = (Inr e, s2)"
    and d: "save_participation now (row_pk p) (\<lambda>x. x\<lparr>p_status := P_FAILED\<rparr>) s2 = (Inr (), s3)"
    and sync: "sync_campaign_counters now c s3 = (Inr c', t)"
    by (auto simp: fail_payment_def Let_def bnd_Inr seqn_Inr ret_Inr)
  have pk: "row_pk p = pay_participation (vals locked)" using tbl_all_Some [OF p] by simp
  have "part_of s (row_pk p) (row_pk c)"
    using part_ofI [of s "row_pk p" p] ok p c pk by (simp add: ledger_ok_def)
  moreover have "participations s2 = participations s"
    using keepsD [OF keeps_parts(1) a] keepsD [OF keeps_parts(2) b] by simp
  ultimately have part: "part_of s2 (row_pk p) (row_pk c)" by (simp add: part_of_def)
  have "ledger_but (row_pk c) s1" by (rule save_payment_but [OF a ledger_ok_butD [OF ok]]) simp_all
  then have "ledger_but (row_pk c) s2" using ledger_but_money [OF keepsD [OF keeps_money_event b]] by simp
  then have "ledger_but (row_pk c) s3" by (rule save_participation_but [OF d _ part]) simp
  then show ?thesis by (rule sync_but [OF sync])
qed

lemma fetched_payment:
  assumes "ledger_ok s" and "tbl_get k (payments s) = Some locked"
    and "tbl_all (pay_participation (vals locked)) (participations s) = Some p"
    and "tbl_get (p_campaign (vals p)) (campaigns s) = Some c"
  shows "row_pk locked = k" "row_pk p = pay_participation (vals locked)" "row_pk c = p_campaign (vals p)"
    "tbl_all k (payments s) = Some locked" "part_of s (row_pk p) (row_pk c)"
proof -
  have keys: "keys_ok s" using assms(1) by (simp add: ledger_ok_def)
  show "row_pk locked = k" "row_pk p = pay_participation (vals locked)" "row_pk c = p_campaign (vals p)"
    using tbl_get_Some [OF assms(2)] tbl_all_Some [OF assms(3)] tbl_get_Some [OF assms(4)] by auto
  then show "tbl_all k (payments s) = Some locked" "part_of s (row_pk p) (row_pk c)"
    using keys assms(2,3) part_ofI [OF keys, of "row_pk p" p] by (auto simp: keys_ok_def tbl_get_tbl_all)
qed

lemma keeps_money_after_settle:
  assumes "issue_donation_receipt_for_payment R now y s = (Inr a, s1)"
    and "evaluate_payment_risk cfg now y w s1 = (Inr b, s2)"
    and "notify_madadkar_payment_success E now y s2 = (Inr d, t)"
  shows "money t = money s" "payment_events t = payment_events s"
  using keepsD [OF keeps_money_receipt assms(1)] keepsD [OF keeps_money_risk(1) assms(2)]
    keepsD [OF keeps_notify(1) assms(3)] keepsD [OF keeps_events_receipt assms(1)]
    keepsD [OF keeps_events_risk(1) assms(2)] keepsD [OF keeps_notify(2) assms(3)] by simp_all

lemma succeed_payment_Inr:
  assumes "succeed_payment E now locked p c vr s = (Inr y, t)"
  obtains s1 s2 s3 s4 s5 e c' c'' where
    "save_payment now (row_pk locked) (mark_success now vr) s = (Inr (), s1)"
    "record_payment_event now y EV_VERIFY_SUCCESS (Some (pay_status (vals locked))) (Some PAY_SUCCESS)
        [(''already_verified'', JBool (vr_already_verified vr))] s1 = (Inr e, s2)"
    "save_participation now (row_pk p) (\<lambda>x. x\<lparr>p_status := PAID, p_paid_at := Some now\<rparr>) s2 = (Inr (), s3)"
    "sync_campaign_counters now c s3 = (Inr c', s4)"
    "auto_complete_campaign_if_fully_funded now c' s4 = (Inr c'', s5)"
    "money t = money s5" "payment_events t = payment_events s5"
    "y = locked\<lparr>updated_at := now, vals := mark_success now vr (vals locked)\<rparr>"
proof -
  let ?y = "locked\<lparr>updated_at := now, vals := mark_success now vr (vals locked)\<rparr>"
  from assms obtain s1 s2 s3 s4 s5 s6 s7 e c' c'' r1 r2 r3 where run:
    "save_payment now (row_pk locked) (mark_success now vr) s = (Inr (), s1)"
    "record_payment_event now ?y EV_VERIFY_SUCCESS (Some (pay_status (vals locked))) (Some PAY_SUCCESS)
        [(''already_verified'', JBool (vr_already_verified vr))] s1 = (Inr e, s2)"
    "save_participation now (row_pk p) (\<lambda>x. x\<lparr>p_status := PAID, p_paid_at := Some now\<rparr>) s2 = (Inr (), s3)"
    "sync_campaign_counters now c s3 = (Inr c', s4)"
    "auto_complete_campaign_if_fully_funded now c' s4 = (Inr c'', s5)" "y = ?y"
    and after: "issue_donation_receipt_for_payment (env_receipt E) now ?y s5 = (Inr r1, s6)"
    "evaluate_payment_risk (env_cfg E) now ?y 60 s6 = (Inr r2, s7)"
    "notify_madadkar_payment_success E now ?y s7 = (Inr r3, t)"
    by (auto simp: succeed_payment_def Let_def bnd_Inr seqn_Inr ret_Inr)
  show thesis
    by (rule that [OF run(1) _ run(3-5) keeps_money_after_settle [OF after] run(6)]) (use run(2,6) in simp)
qed

lemma succeed_payment_step:
  assumes run: "succeed_payment E now locked p c vr s = (Inr y, t)" and ok: "ledger_ok s"
    and part: "part_of s (row_pk p) (row_pk c)"
  shows "ledger_ok t"
  using run
proof (rule succeed_payment_Inr)
  fix s1 s2 s3 s4 s5 e c' c''
  assume a: "save_payment now (row_pk locked) (mark_success now vr) s = (Inr (), s1)"
    and b: "record_payment_event now y EV_VERIFY_SUCCESS (Some (pay_status (vals locked))) (Some PAY_SUCCESS)
        [(''already_verified'', JBool (vr_already_verified vr))] s1 = (Inr e, s2)"
    and d: "save_participation now (row_pk p) (\<lambda>x. x\<lparr>p_status := PAID, p_paid_at := Some now\<rparr>) s2 = (Inr (), s3)"
    and sync: "sync_campaign_counters now c s3 = (Inr c', s4)"
    and fin: "auto_complete_campaign_if_fully_funded now c' s4 = (Inr c'', s5)"
    and m: "money t = money s5"
  have "participations s2 = participations s"
    using keepsD [OF keeps_parts(1) a] keepsD [OF keeps_parts(2) b] by simp
  with part have part2: "part_of s2 (row_pk p) (row_pk c)" by (simp add: part_of_def)
  have "ledger_but (row_pk c) s1" by (rule save_payment_but [OF a ledger_ok_butD [OF ok]]) (simp_all add: mark_success_def)
  then have "ledger_but (row_pk c) s2" using ledger_but_money [OF keepsD [OF keeps_money_event b]] by simp
  then have "ledger_but (row_pk c) s3" by (rule save_participation_but [OF d _ part2]) simp
  then have "ledger_ok s5" using sync_but [OF sync] auto_complete_step [OF fin] by blast
  then show ?thesis by (simp add: ledger_ok_money [OF m])
qed

lemma settle_payment_ok: "preserves ledger_ok (settle_payment E now pay vr)"
  unfolding settle_payment_def
proof (rule preserves_atomic, goal_cases)
  case (1 s y t)
  show ?case
  proof (cases "t = s")
    case False
    with 1(2) obtain locked p c where g: "tbl_get (row_pk pay) (payments s) = Some locked"
        "tbl_all (pay_participation (vals locked)) (participations s) = Some p"
        "tbl_get (p_campaign (vals p)) (campaigns s) = Some c"
      and run: "(if \<not> vr_success vr then fail_payment now locked p c (vr_gateway_status vr) EV_VERIFY_FAILED
           [(''error_message'', JStr (vr_error_message vr))] else succeed_payment E now locked p c vr) s = (Inr y, t)"
      by (auto simp: bnd_Inr fetch_Inr follow_Inr ret_Inr split: if_splits)
    note f = fetched_payment [OF 1(1) g]
    show ?thesis
    proof (cases "vr_success vr")
      case True
      with run f(5) show ?thesis by (auto intro: succeed_payment_step [OF _ 1(1)])
    next
      case False
      with run f(3) show ?thesis by (auto intro: fail_payment_step [OF _ 1(1) g(2)])
    qed
  qed (use 1(1) in simp)
qed

lemma fail_block_ok:
  "preserves ledger_ok (atomic (
     bnd (fetch payments k) (\<lambda>locked.
     if Q (vals locked) then ret locked
     else bnd (follow participations (pay_participation (vals locked))) (\<lambda>p.
     bnd (fetch campaigns (p_campaign (vals p))) (\<lambda>c. fail_payment now locked p c gs kind (md locked))))))"
proof (rule preserves_atomic, goal_cases)
  case (1 s y t)
  show ?case
  proof (cases "t = s")
    case False
    with 1(2) obtain locked p c where g: "tbl_get k (payments s) = Some locked"
        "tbl_all (pay_participation (vals locked)) (participations s) = Some p"
        "tbl_get (p_campaign (vals p)) (campaigns s) = Some c"
      and run: "fail_payment now locked p c gs kind (md locked) s = (Inr y, t)"
      by (auto simp: bnd_Inr fetch_Inr follow_Inr ret_Inr split: if_splits)
    show ?thesis by (rule fail_payment_step [OF run 1(1) g(2)]) (rule fetched_payment(3) [OF 1(1) g])
  qed (use 1(1) in simp)
qed

lemma settle_amount_mismatch_ok: "preserves ledger_ok (settle_amount_mismatch now pay vr)"
  unfolding settle_amount_mismatch_def
  using fail_block_ok [where Q = "\<lambda>_. False"] by (intro preserves_rules) simp

lemma cancel_pending_payment_ok: "preserves ledger_ok (cancel_pending_payment now authority)"
  unfolding cancel_pending_payment_def
  by (intro preserves_rules) (rule fail_block_ok [where Q = "\<lambda>y. pay_status y = PAY_SUCCESS \<or> pay_status y = PAY_FAILED"])

lemma lift_result_ok [preserves_rules]: "preserves P (lift_result r)"
  unfolding lift_result_def by (intro preserves_rules)

lemma verify_payment_ok: "preserves ledger_ok (verify_payment_via resolve E now authority)"
  unfolding verify_payment_via_def by (intro preserves_rules settle_payment_ok settle_amount_mismatch_ok)

lemma confirm_sandbox_ok: "preserves ledger_ok (confirm_sandbox_payment now k)"
  unfolding confirm_sandbox_payment_def
proof (rule preserves_atomic, goal_cases)
  case (1 s y t)
  then have "t = s \<or> (\<exists>u. save_payment now k (\<lambda>y. y\<lparr>pay_gateway_status := SANDBOX_CONFIRM_MARKER\<rparr>) s = (Inr u, t))"
    by (auto simp: bnd_Inr seqn_Inr fetch_Inr ret_Inr split: if_splits)
  then show ?case
    using 1(1) save_payment_but [where f = "\<lambda>y. y\<lparr>pay_gateway_status := SANDBOX_CONFIRM_MARKER\<rparr>" and now = now and i = k and s = s and t = t]
    by (auto simp: ledger_ok_but)
qed

lemma expire_pending_payment_step:
  assumes "expire_pending_payment now i s = (Inr u, t)" and "ledger_but k s"
  shows "ledger_but k t" "participations t = participations s"
proof -
  let ?f = "\<lambda>v. v\<lparr>pay_status := PAY_FAILED, pay_gateway_status := ''expired'', pay_verified_at := Some now\<rparr>"
  consider "t = s" | y v e where "save_payment now (row_pk y) ?f s = (Inr (), v)"
      "record_payment_event now (y\<lparr>updated_at := now, vals := ?f (vals y)\<rparr>) EV_EXPIRED (Some (pay_status (vals y)))
         (Some PAY_FAILED) [] v = (Inr e, t)"
    using assms(1) by (auto simp: expire_pending_payment_def Let_def bnd_Inr seqn_Inr gets_Inr ret_Inr split: option.splits)
  then have "ledger_but k t \<and> participations t = participations s"
  proof cases
    case 2
    have "ledger_but k v" by (rule save_payment_but [OF 2(1) assms(2)]) simp_all
    then show ?thesis
      using ledger_but_money [OF keepsD [OF keeps_money_event 2(2)]] keepsD [OF keeps_parts(1) 2(1)]
        keepsD [OF keeps_parts(2) 2(2)] by simp
  qed (use assms(2) in simp)
  then show "ledger_but k t" "participations t = participations s" by simp_all
qed

lemma keeps_parts_expire_payment [keeps_rules]: "keeps participations (expire_pending_payment now i)"
  unfolding expire_pending_payment_def Let_def by (intro keeps_rules)

lemma expire_step:
  assumes run: "expire_stale_participation now p s = (Inr y, t)" and ok: "ledger_ok s"
    and part: "part_of s (row_pk p) (p_campaign (vals p))"
  shows "ledger_ok t"
proof (cases "p_status (vals p) = PENDING_PAYMENT")
  case True
  with run obtain c u s2 c' where c: "tbl_get (p_campaign (vals p)) (campaigns s) = Some c"
    and a: "save_participation now (row_pk p) (\<lambda>x. x\<lparr>p_status := EXPIRED\<rparr>) s = (Inr (), u)"
    and b: "expire_pending_payment now (row_pk p) u = (Inr (), s2)"
    and sync: "sync_campaign_counters now c s2 = (Inr c', t)"
    by (auto simp: expire_stale_participation_def atomic_Inr bnd_Inr seqn_Inr fetch_Inr ret_Inr)
  have "row_pk c = p_campaign (vals p)" using tbl_get_Some [OF c] by simp
  with part have "ledger_but (row_pk c) u"
    by (intro save_participation_but [OF a ledger_ok_butD [OF ok]]) simp_all
  then show ?thesis by (intro sync_but [OF sync] expire_pending_payment_step(1) [OF b])
qed (use run ok in \<open>simp add: expire_stale_participation_def ret_Inr\<close>)

lemma expire_ok:
  assumes "ledger_ok s" and "part_of s (row_pk p) (p_campaign (vals p))"
  shows "ledger_ok (state_after (expire_stale_participation now p) s)"
proof (cases "expire_stale_participation now p s")
  case (Pair r t)
  show ?thesis
  proof (cases r)
    case (Inl e)
    with Pair have "t = s"
      by (auto simp: expire_stale_participation_def ret_def dest: atomic_Inl split: if_splits)
    with Pair assms(1) show ?thesis by (simp add: state_after_def)
  next
    case (Inr y)
    with Pair show ?thesis using expire_step [OF _ assms] by (simp add: state_after_def)
  qed
qed

text \<open>Participations never change key or campaign.\<close>

definition part_owners :: "mdk_db \<Rightarrow> (nat \<times> nat) list" where
  "part_owners s = map (\<lambda>r. (row_pk r, p_campaign (vals r))) (participations s)"

lemma part_of_owners: "part_of s i k \<longleftrightarrow> (\<forall>x \<in> set (part_owners s). fst x = i \<longrightarrow> snd x = k)"
  by (auto simp: part_of_def part_owners_def)

lemma keeps_owners: "keeps participations m \<Longrightarrow> keeps part_owners m"
  by (simp add: keeps_def part_owners_def)

lemma keeps_owners_save:
  "(\<And>x. p_campaign (f x) = p_campaign x) \<Longrightarrow> keeps part_owners (save_participation now i f)"
  unfolding save_participation_def by (rule keeps_modify) (auto simp: part_owners_def tbl_upd_def)

lemma keeps_owners_expire: "keeps part_owners (expire_stale_participation now p)"
  unfolding expire_stale_participation_def
  by (intro keeps_ret keeps_atomic keeps_bnd keeps_seqn keeps_if keeps_owners_save keeps_owners keeps_fetch keeps_parts
      keeps_parts_expire_payment) simp_all

lemma guarded_ok: "preserves P m \<Longrightarrow> preserves P (guarded m)"
  unfolding guarded_def by (intro preserves_rules)

lemma expire_task_ok: "preserves ledger_ok (expire_stale_participations_task cfg now)"
proof -
  have "ledger_ok (state_after (for_each stale (\<lambda>p. guarded (expire_stale_participation now p))) s)"
    if ok: "ledger_ok s" and stale: "stale = get_stale_participations cfg now None s" for s stale
  proof -
    let ?P = "\<lambda>t. ledger_ok t \<and> part_owners t = part_owners s"
    have "preserves ?P (expire_stale_participation now p)" if "p \<in> set stale" for p
    proof -
      have "p \<in> set (participations s)"
        using that by (auto simp: stale get_stale_participations_def Let_def objects_def)
      then have "part_of s (row_pk p) (p_campaign (vals p))"
        using part_ofI [of s "row_pk p" p] ok by (auto simp: ledger_ok_def keys_ok_def tbl_all_eq)
      then show ?thesis
        using expire_ok [of _ p now] keeps_owners_expire [of now p]
        by (auto simp: preserves_def part_of_owners keeps_def state_after_def)
    qed
    then have "preserves ?P (for_each stale (\<lambda>p. guarded (expire_stale_participation now p)))"
      by (intro preserves_rules guarded_ok)
    with ok show ?thesis by (auto simp: preserves_def)
  qed
  then show ?thesis
    by (auto simp: preserves_def expire_stale_participations_task_def state_after_bnd gets_def
        split: prod.split sum.split) (metis snd_conv state_after_def)+
qed

lemma close_task_ok: "preserves ledger_ok (close_expired_campaigns_task now)"
  unfolding close_expired_campaigns_task_def by (intro preserves_rules guarded_ok close_deadline_ok)

lemma reserve_Inr:
  assumes "reserve_participation_shares now k user n s = (Inr p, t)"
  shows "row_pk p = next_pk (participations s)" "participations t = participations s @ [p]"
    "p_status (vals p) = PENDING_PAYMENT" "p_campaign (vals p) = k" "p_share_count (vals p) = n" "p_user (vals p) = user"
  using assms
  by (auto simp: reserve_participation_shares_def Let_def atomic_Inr bnd_Inr seqn_Inr check_Inr fetch_Inr gets_Inr
      modify_Inr ret_Inr sync_Inr dest!: tbl_get_Some)

lemma bnd_lift_result [simp]:
  "bnd (lift_result (Inr x)) f = f x" "bnd (lift_result (Inl e)) f = raise e"
  by (simp_all add: lift_result_def bnd_def ret_def raise_def fun_eq_iff)

lemma state_after_bnd_ret: "state_after (bnd m (\<lambda>x. ret (g x))) s = state_after m s"
  by (auto simp: state_after_def bnd_def ret_def split: prod.split sum.split)

lemma initiate_ok: "preserves ledger_ok (initiate_participation E now c user n cb ip ua mob em)"
proof -
  have "ledger_ok (state_after (initiate_participation E now c user n cb ip ua mob em) s)" if ok: "ledger_ok s" for s
  proof (cases "reserve_participation_shares now (row_pk c) user n s")
    case (Pair r u)
    have u: "ledger_ok u" using reserve_ok [of now "row_pk c" user n] ok Pair by (auto simp: preserves_def state_after_def)
    have rel: "ledger_ok (state_after (seqn (release_reserved_participation now i) (raise e)) u)" for i e
      using u preserves_seqn [OF release_ok [of now i] preserves_raise [of ledger_ok e]] by (auto simp: preserves_def)
    have per: "ledger_ok (state_after (persist_initiated_payment now p user a gw res ip ua) u)"
      if "r = Inr p" for p a gw res
      using persist_payment_ok [OF u, of p] reserve_Inr [of now "row_pk c" user n s p u] Pair that by simp
    show ?thesis
      using ok u rel per
      by (cases "get_payment_provider (env_cfg E) []") (auto simp: initiate_participation_def state_after_seqn state_after_bnd [of "reserve_participation_shares _ _ _ _"]
          check_def ret_def [where x = "()"] raise_def [of InvalidShareCountError] Pair Let_def state_after_bnd_ret
          split: sum.split)
  qed
  then show ?thesis by (simp add: preserves_def)
qed

end
