(* ===== verification/Review_Workflow.thy ===== *)
theory Review_Workflow
  imports Setad_Prelude
begin

text \<open>
  The two-step review that refunds, financial adjustments and disbursements share: an item is
  pending, is approved or rejected once, and an approved item is finished once. The contract is a
  locale over the three operations of a component; what follows for every sequence of calls is
  proved here once and read off by the components.
\<close>

datatype review_phase = RV_PENDING | RV_APPROVED | RV_REJECTED | RV_DONE

datatype review_op = RV_approve | RV_reject | RV_finish

fun review_next :: "review_op \<Rightarrow> review_phase \<Rightarrow> review_phase option" where
  "review_next RV_approve RV_PENDING = Some RV_APPROVED"
| "review_next RV_reject RV_PENDING = Some RV_REJECTED"
| "review_next RV_finish RV_APPROVED = Some RV_DONE"
| "review_next _ _ = None"

fun_cases review_nextE: "review_next op a = Some b"

text \<open>The calls that succeeded, in order, when a list of calls is run one after the other.\<close>

fun review_log :: "('p \<Rightarrow> review_op \<Rightarrow> nat \<Rightarrow> ('s, 'a) svc) \<Rightarrow> ('p \<times> review_op \<times> nat) list \<Rightarrow> 's \<Rightarrow> (review_op \<times> nat) list" where
  "review_log run [] s = []"
| "review_log run ((p, op, k) # cs) s =
     (case run p op k s of
        (Inl e, t) \<Rightarrow> review_log run cs t
      | (Inr x, t) \<Rightarrow> (op, k) # review_log run cs t)"

text \<open>The words an item can still go through in its phase.\<close>

fun review_words :: "review_phase option \<Rightarrow> review_op list list" where
  "review_words (Some RV_PENDING) = [[], [RV_approve], [RV_approve, RV_finish], [RV_reject]]"
| "review_words (Some RV_APPROVED) = [[], [RV_finish]]"
| "review_words _ = [[]]"

definition review_of :: "nat \<Rightarrow> (review_op \<times> nat) list \<Rightarrow> review_op list" where
  "review_of k log = map fst (filter (\<lambda>c. snd c = k) log)"

lemma review_words_step:
  "review_next op a = Some b \<Longrightarrow> w \<in> set (review_words (Some b)) \<Longrightarrow> op # w \<in> set (review_words (Some a))"
  by (elim review_nextE) auto

locale review_workflow =
  fixes phase :: "'s \<Rightarrow> nat \<Rightarrow> review_phase option"
    and run :: "'p \<Rightarrow> review_op \<Rightarrow> nat \<Rightarrow> ('s, 'a) svc"
    and ok :: "'s \<Rightarrow> bool"
  assumes success: "ok s \<Longrightarrow> run p op k s = (Inr x, t) \<Longrightarrow>
      ok t \<and> (\<exists>a b. phase s k = Some a \<and> review_next op a = Some b \<and> phase t = (phase s)(k := Some b))"
    and failure: "run p op k s = (Inl e, t) \<Longrightarrow> t = s"
begin

text \<open>Whatever calls arrive, the successful ones of an item form one of its words.\<close>

lemma log_words: "ok s \<Longrightarrow> review_of k (review_log run cs s) \<in> set (review_words (phase s k))"
proof (induction cs arbitrary: s)
  case Nil
  show ?case by (cases "phase s k" rule: review_words.cases) (simp_all add: review_of_def)
next
  case (Cons c cs)
  obtain p op j where c: "c = (p, op, j)" by (cases c)
  obtain r t where run: "run p op j s = (r, t)" by (cases "run p op j s")
  show ?case
  proof (cases r)
    case (Inl e)
    with failure [of p op j s e t] run have "t = s" by simp
    with Cons run Inl c show ?thesis by simp
  next
    case (Inr x)
    from success [OF Cons.prems, of p op j x t] run Inr obtain a b where
      "ok t" "phase s j = Some a" "review_next op a = Some b" and t: "phase t = (phase s)(j := Some b)" by auto
    with Cons.IH [of t] show ?thesis
      using review_words_step [of op a b] run Inr c by (cases "j = k") (auto simp: review_of_def)
  qed
qed

lemma finished_once: "ok s \<Longrightarrow> length (filter (\<lambda>op. op = RV_finish) (review_of k (review_log run cs s))) \<le> 1"
  using log_words [of s k cs] by (cases "phase s k" rule: review_words.cases) auto

end

end
