(* ===== verification/Mdk_Refunds.thy ===== *)
theory Mdk_Refunds
  imports Mdk_Campaigns Mdk_Risk Review_Workflow
begin

text \<open>
  Refunds and manual financial adjustments (\<^verbatim>\<open>src/apps/madadkar/services.py\<close>, section
  "Refund / adjustment workflow services"): a request is reviewed, then completed or applied, and
  only the last step moves the accounting of the campaign.
\<close>

section \<open>Refunds\<close>

definition completed_refund_total :: "mdk_db \<Rightarrow> nat \<Rightarrow> int" where
  "completed_refund_total s pay = agg_sum (\<lambda>r. rf_amount (vals r))
     (\<lambda>r. rf_payment (vals r) = pay \<and> rf_status (vals r) = R_COMPLETED) (objects (refunds s))"

definition open_refund_total :: "mdk_db \<Rightarrow> nat \<Rightarrow> int" where
  "open_refund_total s pay = agg_sum (\<lambda>r. rf_amount (vals r))
     (\<lambda>r. rf_payment (vals r) = pay \<and> rf_status (vals r) \<in> {R_PENDING_REVIEW, R_APPROVED}) (objects (refunds s))"

text \<open>The constraints of the refund table: a positive amount, a unique idempotency key.\<close>

definition refund_constraints :: "payment_refund table \<Rightarrow> payment_refund \<Rightarrow> bool" where
  "refund_constraints t v \<longleftrightarrow> 1 \<le> rf_amount v \<and>
     (case rf_idempotency_key v of None \<Rightarrow> True
      | Some k \<Rightarrow> list_all (\<lambda>r. rf_idempotency_key (vals r) \<noteq> Some k) t)"

definition refund_by_key :: "mdk_db \<Rightarrow> string option \<Rightarrow> payment_refund row option" where
  "refund_by_key s key =
     (case key of None \<Rightarrow> None
      | Some k \<Rightarrow> if k = [] then None
                 else first_newest (\<lambda>r. rf_idempotency_key (vals r) = Some k) (objects (refunds s)))"

definition refund_reason_str :: "refund_reason \<Rightarrow> string" where
  "refund_reason_str r =
     (case r of DUPLICATE_PAYMENT \<Rightarrow> ''duplicate_payment'' | USER_REQUEST \<Rightarrow> ''user_request''
      | CAMPAIGN_CANCELED \<Rightarrow> ''campaign_canceled'' | PROVIDER_REVERSAL \<Rightarrow> ''provider_reversal''
      | ADMIN_CORRECTION \<Rightarrow> ''admin_correction'' | RR_OTHER \<Rightarrow> ''other'')"

definition request_payment_refund ::
  "mdk_settings \<Rightarrow> int \<Rightarrow> nat \<Rightarrow> int \<Rightarrow> refund_reason \<Rightarrow> nat option \<Rightarrow> string \<Rightarrow> string option \<Rightarrow>
   (mdk_db, payment_refund row) svc" where
  "request_payment_refund cfg now payment amount reason requested_by note idempotency_key =
     atomic (
     bnd (fetch payments payment) (\<lambda>locked.
     seqn (check (pay_status (vals locked) = PAY_SUCCESS) RefundWorkflowError)
     (seqn (check (\<not> amount \<le> 0) RefundWorkflowError)
     (bnd (gets (\<lambda>s. pay_amount (vals locked) - completed_refund_total s payment - open_refund_total s payment)) (\<lambda>available.
      seqn (check (\<not> amount > available) RefundWorkflowError)
      (bnd (gets (\<lambda>s. refund_by_key s idempotency_key)) (\<lambda>existing.
      case existing of
        Some r \<Rightarrow> ret r
      | None \<Rightarrow>
          bnd (gets refunds) (\<lambda>t.
          let v = \<lparr>rf_payment = payment, rf_requested_by = requested_by, rf_reviewed_by = None, rf_amount = amount,
                   rf_reason = reason, rf_status = R_PENDING_REVIEW, rf_idempotency_key = idempotency_key,
                   rf_provider_ref_id = [], rf_note = note, rf_rejection_reason = [], rf_reviewed_at = None,
                   rf_completed_at = None\<rparr>;
              r = new_row now v t in
          seqn (check (refund_constraints t v) IntegrityError)
          (seqn (modify (\<lambda>s. s\<lparr>refunds := refunds s @ [r]\<rparr>))
          (seqn (record_payment_event now locked EV_REFUND_REQUESTED (Some (pay_status (vals locked)))
                   (Some (pay_status (vals locked)))
                   [(''refund_id'', JInt (int (row_pk r))), (''amount'', JInt amount),
                    (''reason'', JStr (refund_reason_str reason))])
          (seqn (evaluate_refund_risk cfg now r 24)
          (ret r))))))))))))"

definition approve_payment_refund ::
  "int \<Rightarrow> nat \<Rightarrow> nat option \<Rightarrow> string \<Rightarrow> (mdk_db, payment_refund row) svc" where
  "approve_payment_refund now refund reviewed_by note =
     atomic (
     bnd (fetch refunds refund) (\<lambda>locked.
     seqn (check (rf_status (vals locked) = R_PENDING_REVIEW) RefundWorkflowError)
     (bnd (follow payments (rf_payment (vals locked))) (\<lambda>pay.
      let n = (if note = [] then rf_note (vals locked) else note);
          f = (\<lambda>v. v\<lparr>rf_status := R_APPROVED, rf_reviewed_by := reviewed_by, rf_reviewed_at := Some now, rf_note := n\<rparr>) in
      seqn (save_refund now refund f)
      (seqn (record_payment_event now pay EV_REFUND_APPROVED (Some (pay_status (vals pay))) (Some (pay_status (vals pay)))
               [(''refund_id'', JInt (int refund)), (''amount'', JInt (rf_amount (vals locked)))])
      (ret (locked\<lparr>updated_at := now, vals := f (vals locked)\<rparr>)))))))"

definition reject_payment_refund ::
  "int \<Rightarrow> nat \<Rightarrow> nat option \<Rightarrow> string \<Rightarrow> (mdk_db, payment_refund row) svc" where
  "reject_payment_refund now refund reviewed_by rejection_reason =
     atomic (
     bnd (fetch refunds refund) (\<lambda>locked.
     seqn (check (rf_status (vals locked) = R_PENDING_REVIEW) RefundWorkflowError)
     (bnd (follow payments (rf_payment (vals locked))) (\<lambda>pay.
      let f = (\<lambda>v. v\<lparr>rf_status := R_REJECTED, rf_reviewed_by := reviewed_by, rf_reviewed_at := Some now,
                    rf_rejection_reason := rejection_reason\<rparr>) in
      seqn (save_refund now refund f)
      (seqn (record_payment_event now pay EV_REFUND_REJECTED (Some (pay_status (vals pay))) (Some (pay_status (vals pay)))
               [(''refund_id'', JInt (int refund)), (''reason'', JStr rejection_reason)])
      (ret (locked\<lparr>updated_at := now, vals := f (vals locked)\<rparr>)))))))"

definition complete_payment_refund :: "int \<Rightarrow> nat \<Rightarrow> string \<Rightarrow> (mdk_db, payment_refund row) svc" where
  "complete_payment_refund now refund provider_ref_id =
     atomic (
     bnd (fetch refunds refund) (\<lambda>locked.
     seqn (check (rf_status (vals locked) = R_APPROVED) RefundWorkflowError)
     (bnd (fetch payments (rf_payment (vals locked))) (\<lambda>pay.
      bnd (follow participations (pay_participation (vals pay))) (\<lambda>p.
      bnd (fetch campaigns (p_campaign (vals p))) (\<lambda>c.
      let f = (\<lambda>v. v\<lparr>rf_status := R_COMPLETED, rf_provider_ref_id := provider_ref_id, rf_completed_at := Some now\<rparr>);
          full = is_full_refund (vals locked) (vals pay) in
      seqn (save_refund now refund f)
      (seqn (if full then save_participation now (row_pk p) (\<lambda>x. x\<lparr>p_status := REFUNDED\<rparr>) else ret ())
      (seqn (record_payment_event now pay EV_REFUND_COMPLETED (Some (pay_status (vals pay))) (Some (pay_status (vals pay)))
               [(''refund_id'', JInt (int refund)), (''amount'', JInt (rf_amount (vals locked))),
                (''provider_ref_id'', JStr provider_ref_id), (''full_refund'', JBool full)])
      (seqn (sync_campaign_counters now c)
      (ret (locked\<lparr>updated_at := now, vals := f (vals locked)\<rparr>)))))))))))"

section \<open>Adjustments\<close>

definition create_financial_adjustment ::
  "int \<Rightarrow> nat \<Rightarrow> int \<Rightarrow> adjustment_type \<Rightarrow> string \<Rightarrow> nat option \<Rightarrow> payment row option \<Rightarrow> string \<Rightarrow>
   (mdk_db, adjustment row) svc" where
  "create_financial_adjustment now campaign amount ty reason requested_by pay note =
     atomic (
     seqn (check (\<not> amount \<le> 0) FinancialAdjustmentWorkflowError)
     (seqn (case pay of
              None \<Rightarrow> ret ()
            | Some y \<Rightarrow> bnd (follow participations (pay_participation (vals y))) (\<lambda>p.
                check (p_campaign (vals p) = campaign) FinancialAdjustmentWorkflowError))
     (bnd (gets (\<lambda>s. new_row now
        \<lparr>ad_campaign = campaign, ad_payment = map_option row_pk pay, ad_requested_by = requested_by,
         ad_reviewed_by = None, ad_type = ty, ad_status = A_PENDING_REVIEW, ad_amount = amount,
         ad_reason = reason, ad_note = note, ad_rejection_reason = [], ad_reviewed_at = None,
         ad_applied_at = None\<rparr> (adjustments s))) (\<lambda>a.
     seqn (modify (\<lambda>s. s\<lparr>adjustments := adjustments s @ [a]\<rparr>))
     (ret a)))))"

definition approve_financial_adjustment :: "int \<Rightarrow> nat \<Rightarrow> nat option \<Rightarrow> (mdk_db, adjustment row) svc" where
  "approve_financial_adjustment now adj reviewed_by =
     atomic (
     bnd (fetch adjustments adj) (\<lambda>locked.
     seqn (check (ad_status (vals locked) = A_PENDING_REVIEW) FinancialAdjustmentWorkflowError)
     (let f = (\<lambda>v. v\<lparr>ad_status := A_APPROVED, ad_reviewed_by := reviewed_by, ad_reviewed_at := Some now\<rparr>) in
      seqn (save_adjustment now adj f)
      (ret (locked\<lparr>updated_at := now, vals := f (vals locked)\<rparr>)))))"

definition reject_financial_adjustment ::
  "int \<Rightarrow> nat \<Rightarrow> nat option \<Rightarrow> string \<Rightarrow> (mdk_db, adjustment row) svc" where
  "reject_financial_adjustment now adj reviewed_by rejection_reason =
     atomic (
     bnd (fetch adjustments adj) (\<lambda>locked.
     seqn (check (ad_status (vals locked) = A_PENDING_REVIEW) FinancialAdjustmentWorkflowError)
     (let f = (\<lambda>v. v\<lparr>ad_status := A_REJECTED, ad_reviewed_by := reviewed_by, ad_reviewed_at := Some now,
                   ad_rejection_reason := rejection_reason\<rparr>) in
      seqn (save_adjustment now adj f)
      (ret (locked\<lparr>updated_at := now, vals := f (vals locked)\<rparr>)))))"

definition apply_financial_adjustment :: "mdk_settings \<Rightarrow> int \<Rightarrow> nat \<Rightarrow> (mdk_db, adjustment row) svc" where
  "apply_financial_adjustment cfg now adj =
     atomic (
     bnd (fetch adjustments adj) (\<lambda>locked.
     seqn (check (ad_status (vals locked) = A_APPROVED) FinancialAdjustmentWorkflowError)
     (bnd (fetch campaigns (ad_campaign (vals locked))) (\<lambda>c.
      let f = (\<lambda>v. v\<lparr>ad_status := A_APPLIED, ad_applied_at := Some now\<rparr>);
          locked' = locked\<lparr>updated_at := now, vals := f (vals locked)\<rparr> in
      seqn (save_adjustment now adj f)
      (seqn (case ad_payment (vals locked) of
               None \<Rightarrow> ret ()
             | Some k \<Rightarrow> bnd (follow payments k) (\<lambda>pay.
                 seqn (record_payment_event now pay EV_ADJUSTMENT_APPLIED (Some (pay_status (vals pay)))
                         (Some (pay_status (vals pay)))
                         [(''adjustment_id'', JInt (int adj)), (''amount'', JInt (ad_amount (vals locked)))])
                 (ret ())))
      (seqn (sync_campaign_counters now c)
      (seqn (evaluate_adjustment_risk cfg now locked')
      (ret locked'))))))))"

section \<open>The ledger invariant\<close>

lemma live_refunds_split: "live_refunds s k = completed_refund_total s k + open_refund_total s k"
proof -
  have "agg_sum (\<lambda>r. rf_amount (vals r)) (\<lambda>r. rf_payment (vals r) = k \<and> rf_status (vals r) \<in> {R_PENDING_REVIEW, R_APPROVED, R_COMPLETED}) t =
      agg_sum (\<lambda>r. rf_amount (vals r)) (\<lambda>r. rf_payment (vals r) = k \<and> rf_status (vals r) = R_COMPLETED) t +
      agg_sum (\<lambda>r. rf_amount (vals r)) (\<lambda>r. rf_payment (vals r) = k \<and> rf_status (vals r) \<in> {R_PENDING_REVIEW, R_APPROVED}) t" for t
    by (induction t) (auto simp: agg_sum_def)
  then show ?thesis by (simp only: live_refunds_def completed_refund_total_def open_refund_total_def)
qed

lemma ledger_ok_keeps: "keeps money m \<Longrightarrow> m s = (r, t) \<Longrightarrow> ledger_ok t = ledger_ok s"
  by (rule ledger_ok_money) (rule keepsD)

lemma request_refund_ok: "preserves ledger_ok (request_payment_refund cfg now k amount reason rq note key)"
  unfolding request_payment_refund_def
proof (rule preserves_atomic, goal_cases)
  case (1 s y t)
  let ?v = "\<lparr>rf_payment = k, rf_requested_by = rq, rf_reviewed_by = None, rf_amount = amount,
       rf_reason = reason, rf_status = R_PENDING_REVIEW, rf_idempotency_key = key,
       rf_provider_ref_id = [], rf_note = note, rf_rejection_reason = [], rf_reviewed_at = None, rf_completed_at = None\<rparr>"
  show ?case
  proof (cases "t = s")
    case False
    with 1(2) obtain locked e u v where g: "tbl_get k (payments s) = Some locked" and amt: "\<not> amount \<le> 0"
        "\<not> amount > pay_amount (vals locked) - completed_refund_total s k - open_refund_total s k"
      and ev: "record_payment_event now locked EV_REFUND_REQUESTED (Some (pay_status (vals locked))) (Some (pay_status (vals locked)))
          [(''refund_id'', JInt (int (row_pk y))), (''amount'', JInt amount), (''reason'', JStr (refund_reason_str reason))]
          (s\<lparr>refunds := refunds s @ [new_row now ?v (refunds s)]\<rparr>) = (Inr e, u)"
      and rk: "evaluate_refund_risk cfg now y 24 u = (Inr v, t)"
      by (auto simp: Let_def bnd_Inr seqn_Inr check_Inr fetch_Inr gets_Inr modify_Inr ret_Inr split: option.splits)
    have "ledger_ok (s\<lparr>refunds := refunds s @ [new_row now ?v (refunds s)]\<rparr>)"
      by (rule insert_refund_ok [where y = locked])
        (use 1(1) g amt in \<open>auto simp: live_refunds_split ledger_ok_def keys_ok_def tbl_get_tbl_all\<close>)
    then show ?thesis
      using ledger_ok_keeps [OF keeps_money_event ev] ledger_ok_keeps [OF keeps_money_risk(2) rk] by simp
  qed (use 1(1) in simp)
qed

lemma fetched_refund:
  assumes "ledger_ok s" and "tbl_get k (refunds s) = Some r"
  shows "tbl_all k (refunds s) = Some r"
  using assms by (simp add: ledger_ok_def keys_ok_def tbl_get_tbl_all)

lemma fetched_adjustment:
  assumes "ledger_ok s" and "tbl_get k (adjustments s) = Some r"
  shows "tbl_all k (adjustments s) = Some r"
  using assms by (simp add: ledger_ok_def keys_ok_def tbl_get_tbl_all)

lemma review_refund_step:
  assumes "save_refund now k f s = (Inr u, t)" and "ledger_ok s" and "tbl_get k (refunds s) = Some r"
    and "rf_status (vals r) = R_PENDING_REVIEW" and "rf_status (f (vals r)) \<noteq> R_COMPLETED"
    and "\<And>x. rf_payment (f x) = rf_payment x" and "\<And>x. rf_amount (f x) = rf_amount x"
  shows "ledger_ok t"
  unfolding ledger_ok_but
  using save_refund_but [OF assms(1) ledger_ok_butD [OF assms(2)] fetched_refund [OF assms(2,3)]] assms(4-) by blast

lemma approve_refund_ok: "preserves ledger_ok (approve_payment_refund now k rev_by note)"
  unfolding approve_payment_refund_def
  by (rule preserves_atomic)
    (auto simp: Let_def bnd_Inr seqn_Inr check_Inr fetch_Inr follow_Inr ret_Inr
      dest!: ledger_ok_keeps [OF keeps_money_event] review_refund_step)

lemma reject_refund_ok: "preserves ledger_ok (reject_payment_refund now k rev_by reason)"
  unfolding reject_payment_refund_def
  by (rule preserves_atomic)
    (auto simp: Let_def bnd_Inr seqn_Inr check_Inr fetch_Inr follow_Inr ret_Inr
      dest!: ledger_ok_keeps [OF keeps_money_event] review_refund_step)

text \<open>Completing a refund, as the run of its steps.\<close>

lemma complete_refund_Inr:
  assumes "complete_payment_refund now k ref s = (Inr y, t)"
  obtains locked pay p c c' e s1 s2 s3 where
    "tbl_get k (refunds s) = Some locked" "rf_status (vals locked) = R_APPROVED"
    "tbl_get (rf_payment (vals locked)) (payments s) = Some pay"
    "tbl_all (pay_participation (vals pay)) (participations s) = Some p"
    "tbl_get (p_campaign (vals p)) (campaigns s) = Some c"
    "save_refund now k (\<lambda>v. v\<lparr>rf_status := R_COMPLETED, rf_provider_ref_id := ref, rf_completed_at := Some now\<rparr>) s = (Inr (), s1)"
    "(if is_full_refund (vals locked) (vals pay) then save_participation now (row_pk p) (\<lambda>x. x\<lparr>p_status := REFUNDED\<rparr>)
      else ret ()) s1 = (Inr (), s2)"
    "record_payment_event now pay EV_REFUND_COMPLETED (Some (pay_status (vals pay))) (Some (pay_status (vals pay)))
       [(''refund_id'', JInt (int k)), (''amount'', JInt (rf_amount (vals locked))),
        (''provider_ref_id'', JStr ref), (''full_refund'', JBool (is_full_refund (vals locked) (vals pay)))] s2 = (Inr e, s3)"
    "sync_campaign_counters now c s3 = (Inr c', t)"
  using assms by (auto simp: complete_payment_refund_def Let_def atomic_Inr bnd_Inr seqn_Inr check_Inr fetch_Inr follow_Inr ret_Inr)

lemma complete_refund_step:
  assumes run: "complete_payment_refund now k ref s = (Inr y, t)" and ok: "ledger_ok s"
  shows "ledger_ok t"
  using run
proof (rule complete_refund_Inr)
  fix locked pay p c c' e s1 s2 s3
  assume g: "tbl_get k (refunds s) = Some locked" and st: "rf_status (vals locked) = R_APPROVED"
    and pay: "tbl_get (rf_payment (vals locked)) (payments s) = Some pay"
    and p: "tbl_all (pay_participation (vals pay)) (participations s) = Some p"
    and c: "tbl_get (p_campaign (vals p)) (campaigns s) = Some c"
    and a: "save_refund now k (\<lambda>v. v\<lparr>rf_status := R_COMPLETED, rf_provider_ref_id := ref, rf_completed_at := Some now\<rparr>) s = (Inr (), s1)"
    and b: "(if is_full_refund (vals locked) (vals pay) then save_participation now (row_pk p) (\<lambda>x. x\<lparr>p_status := REFUNDED\<rparr>)
      else ret ()) s1 = (Inr (), s2)"
    and d: "record_payment_event now pay EV_REFUND_COMPLETED (Some (pay_status (vals pay))) (Some (pay_status (vals pay)))
       [(''refund_id'', JInt (int k)), (''amount'', JInt (rf_amount (vals locked))),
        (''provider_ref_id'', JStr ref), (''full_refund'', JBool (is_full_refund (vals locked) (vals pay)))] s2 = (Inr e, s3)"
    and sync: "sync_campaign_counters now c s3 = (Inr c', t)"
  have keys: "keys_ok s" using ok by (simp add: ledger_ok_def)
  have ck: "row_pk c = p_campaign (vals p)" using tbl_get_Some [OF c] by simp
  have "participation_of_payment s (rf_payment (vals locked)) = Some (vals p)"
    using keys pay p by (simp add: participation_of_payment_def keys_ok_def tbl_get_tbl_all)
  then have s1: "ledger_but (row_pk c) s1"
    by (intro save_refund_but [OF a ledger_ok_butD [OF ok] fetched_refund [OF ok g]]) (simp_all add: st ck)
  have "part_of s (row_pk p) (row_pk c)"
    using part_ofI [OF keys, of "row_pk p" p] p tbl_all_Some [OF p] ck by simp
  then have "part_of s1 (row_pk p) (row_pk c)" using a by (simp add: part_of_def svc_inv)
  then have "ledger_but (row_pk c) s2"
    using b s1 save_participation_but [of now "row_pk p" "\<lambda>x. x\<lparr>p_status := REFUNDED\<rparr>" s1 "()" s2 "row_pk c"]
    by (auto simp: ret_Inr split: if_splits)
  then have "ledger_but (row_pk c) s3" using ledger_but_money [OF keepsD [OF keeps_money_event d]] by simp
  then show ?thesis by (rule sync_but [OF sync])
qed

lemma complete_refund_ok: "preserves ledger_ok (complete_payment_refund now k ref)"
proof -
  have "preserves ledger_ok (atomic (complete_payment_refund now k ref))"
    by (rule preserves_atomic) (rule complete_refund_step)
  then show ?thesis by (simp add: complete_payment_refund_def atomic_atomic)
qed

lemma create_adjustment_ok:
  assumes "ledger_ok s" and "k \<in> keys_of (campaigns s)"
  shows "ledger_ok (state_after (create_financial_adjustment now k amount ty reason rq pay note) s)"
  unfolding create_financial_adjustment_def
  by (rule atomic_keeps [where P = ledger_ok, OF assms(1)])
    (use assms in \<open>auto simp: bnd_Inr seqn_Inr check_Inr follow_Inr gets_Inr modify_Inr ret_Inr
      split: option.splits intro!: insert_adjustment_ok\<close>)

lemma review_adjustment_step:
  assumes "save_adjustment now k f s = (Inr u, t)" and "ledger_ok s" and "tbl_get k (adjustments s) = Some r"
    and "ad_status (vals r) = A_PENDING_REVIEW" and "ad_status (f (vals r)) \<noteq> A_APPLIED"
    and "\<And>x. ad_campaign (f x) = ad_campaign x"
  shows "ledger_ok t"
  unfolding ledger_ok_but
  using save_adjustment_but [OF assms(1) ledger_ok_butD [OF assms(2)] fetched_adjustment [OF assms(2,3)]] assms(4-) by force

lemma approve_adjustment_ok: "preserves ledger_ok (approve_financial_adjustment now k rev_by)"
  unfolding approve_financial_adjustment_def
  by (rule preserves_atomic)
    (auto simp: Let_def bnd_Inr seqn_Inr check_Inr fetch_Inr ret_Inr dest!: review_adjustment_step)

lemma reject_adjustment_ok: "preserves ledger_ok (reject_financial_adjustment now k rev_by reason)"
  unfolding reject_financial_adjustment_def
  by (rule preserves_atomic)
    (auto simp: Let_def bnd_Inr seqn_Inr check_Inr fetch_Inr ret_Inr dest!: review_adjustment_step)

lemma apply_adjustment_ok: "preserves ledger_ok (apply_financial_adjustment cfg now k)"
  unfolding apply_financial_adjustment_def
proof (rule preserves_atomic, goal_cases)
  case (1 s y t)
  let ?f = "\<lambda>v. v\<lparr>ad_status := A_APPLIED, ad_applied_at := Some now\<rparr>"
  from 1(2) obtain locked c c' s1 s2 s3 r where g: "tbl_get k (adjustments s) = Some locked"
    and st: "ad_status (vals locked) = A_APPROVED" and c: "tbl_get (ad_campaign (vals locked)) (campaigns s) = Some c"
    and a: "save_adjustment now k ?f s = (Inr (), s1)" and b: "money s2 = money s1"
    and sync: "sync_campaign_counters now c s2 = (Inr c', s3)"
    and rk: "evaluate_adjustment_risk cfg now y s3 = (Inr r, t)"
    by (auto simp: Let_def bnd_Inr seqn_Inr check_Inr fetch_Inr follow_Inr ret_Inr split: option.splits
        dest!: keepsD [OF keeps_money_event])
  have "row_pk c = ad_campaign (vals locked)" using tbl_get_Some [OF c] by simp
  then have "ledger_but (row_pk c) s1"
    by (intro save_adjustment_but [OF a ledger_ok_butD [OF 1(1)] fetched_adjustment [OF 1(1) g]]) (simp_all add: st)
  then have "ledger_but (row_pk c) s2" by (simp add: ledger_but_money [OF b])
  then show ?case using sync_but [OF sync] ledger_ok_keeps [OF keeps_money_risk(3) rk] by simp
qed

section \<open>The review workflow\<close>

text \<open>The services never set \<open>R_FAILED\<close>; a row with that status is outside the workflow.\<close>

fun refund_phase :: "refund_status \<Rightarrow> review_phase option" where
  "refund_phase R_PENDING_REVIEW = Some RV_PENDING"
| "refund_phase R_APPROVED = Some RV_APPROVED"
| "refund_phase R_REJECTED = Some RV_REJECTED"
| "refund_phase R_COMPLETED = Some RV_DONE"
| "refund_phase R_FAILED = None"

fun adjustment_phase :: "adjustment_status \<Rightarrow> review_phase option" where
  "adjustment_phase A_PENDING_REVIEW = Some RV_PENDING"
| "adjustment_phase A_APPROVED = Some RV_APPROVED"
| "adjustment_phase A_REJECTED = Some RV_REJECTED"
| "adjustment_phase A_APPLIED = Some RV_DONE"

definition phase_of_refund :: "mdk_db \<Rightarrow> nat \<Rightarrow> review_phase option" where
  "phase_of_refund s k = (case tbl_get k (refunds s) of None \<Rightarrow> None | Some r \<Rightarrow> refund_phase (rf_status (vals r)))"

definition phase_of_adjustment :: "mdk_db \<Rightarrow> nat \<Rightarrow> review_phase option" where
  "phase_of_adjustment s k = (case tbl_get k (adjustments s) of None \<Rightarrow> None | Some r \<Rightarrow> adjustment_phase (ad_status (vals r)))"

text \<open>A review call: time, reviewer and text, and the service it goes to.\<close>

fun review_refund :: "int \<times> nat option \<times> string \<Rightarrow> review_op \<Rightarrow> nat \<Rightarrow> (mdk_db, payment_refund row) svc" where
  "review_refund (now, rv, msg) RV_approve k = approve_payment_refund now k rv msg"
| "review_refund (now, rv, msg) RV_reject k = reject_payment_refund now k rv msg"
| "review_refund (now, rv, msg) RV_finish k = complete_payment_refund now k msg"

fun review_adjustment ::
  "mdk_settings \<times> int \<times> nat option \<times> string \<Rightarrow> review_op \<Rightarrow> nat \<Rightarrow> (mdk_db, adjustment row) svc" where
  "review_adjustment (cfg, now, rv, msg) RV_approve k = approve_financial_adjustment now k rv"
| "review_adjustment (cfg, now, rv, msg) RV_reject k = reject_financial_adjustment now k rv msg"
| "review_adjustment (cfg, now, rv, msg) RV_finish k = apply_financial_adjustment cfg now k"

lemma phase_of_refund_upd:
  assumes "refunds t = tbl_upd k now f (refunds s)" and "tbl_get k (refunds s) = Some r"
  shows "phase_of_refund t = (phase_of_refund s)(k := refund_phase (rf_status (f (vals r))))"
  using assms by (auto simp: phase_of_refund_def tbl_get_upd fun_eq_iff split: option.split)

lemma phase_of_adjustment_upd:
  assumes "adjustments t = tbl_upd k now f (adjustments s)" and "tbl_get k (adjustments s) = Some r"
  shows "phase_of_adjustment t = (phase_of_adjustment s)(k := adjustment_phase (ad_status (f (vals r))))"
  using assms by (auto simp: phase_of_adjustment_def tbl_get_upd fun_eq_iff split: option.split)

lemma review_refund_run:
  assumes "review_refund q op k s = (Inr x, t)"
  shows "\<exists>r f now a b. tbl_get k (refunds s) = Some r \<and> refunds t = tbl_upd k now f (refunds s) \<and>
    refund_phase (rf_status (vals r)) = Some a \<and> review_next op a = Some b \<and> refund_phase (rf_status (f (vals r))) = Some b"
proof -
  obtain now rv msg where q: "q = (now, rv, msg)" by (cases q)
  show ?thesis
  proof (cases op)
    case RV_approve
    with assms q show ?thesis
      by (auto simp: approve_payment_refund_def Let_def svc_inv) ((intro exI conjI, rule refl, simp)+)
  next
    case RV_reject
    with assms q show ?thesis
      by (auto simp: reject_payment_refund_def Let_def svc_inv) ((intro exI conjI, rule refl, simp)+)
  next
    case RV_finish
    with assms q have "complete_payment_refund now k msg s = (Inr x, t)" by simp
    then show ?thesis
    proof (rule complete_refund_Inr, goal_cases)
      case (1 locked pay p c c' e s1 s2 s3)
      have "refunds t = refunds s1" using 1(7-9) by (auto simp: svc_inv split: if_splits)
      with 1(1,2,6) RV_finish show ?case by (auto simp: svc_inv)
    qed
  qed
qed

interpretation refund_review: review_workflow phase_of_refund review_refund "\<lambda>_. True"
proof unfold_locales
  fix s q op k x t
  assume "review_refund q op k s = (Inr x, t)"
  from review_refund_run [OF this] obtain r f now a b where
    r: "tbl_get k (refunds s) = Some r" "refunds t = tbl_upd k now f (refunds s)" and
    ab: "refund_phase (rf_status (vals r)) = Some a" "review_next op a = Some b" "refund_phase (rf_status (f (vals r))) = Some b"
    by blast
  have "phase_of_refund s k = Some a" using r(1) ab(1) by (simp add: phase_of_refund_def)
  then show "True \<and> (\<exists>a b. phase_of_refund s k = Some a \<and> review_next op a = Some b \<and>
      phase_of_refund t = (phase_of_refund s)(k := Some b))"
    using phase_of_refund_upd [OF r(2,1)] ab by auto
next
  fix q op k s e t
  assume "review_refund q op k s = (Inl e, t)"
  then show "t = s"
    by (cases q; cases op) (auto simp: approve_payment_refund_def reject_payment_refund_def complete_payment_refund_def dest: atomic_Inl)
qed

lemma review_adjustment_run:
  assumes "review_adjustment q op k s = (Inr x, t)"
  shows "\<exists>r f now a b. tbl_get k (adjustments s) = Some r \<and> adjustments t = tbl_upd k now f (adjustments s) \<and>
    adjustment_phase (ad_status (vals r)) = Some a \<and> review_next op a = Some b \<and> adjustment_phase (ad_status (f (vals r))) = Some b"
proof -
  obtain cfg now rv msg where q: "q = (cfg, now, rv, msg)" by (cases q)
  show ?thesis
  proof (cases op)
    case RV_approve
    with assms q show ?thesis
      by (auto simp: approve_financial_adjustment_def Let_def svc_inv) ((intro exI conjI, rule refl, simp)+)
  next
    case RV_reject
    with assms q show ?thesis
      by (auto simp: reject_financial_adjustment_def Let_def svc_inv) ((intro exI conjI, rule refl, simp)+)
  next
    case RV_finish
    let ?f = "\<lambda>v. v\<lparr>ad_status := A_APPLIED, ad_applied_at := Some now\<rparr>"
    from RV_finish assms q obtain locked c c' s1 s2 s3 r where g: "tbl_get k (adjustments s) = Some locked"
      "ad_status (vals locked) = A_APPROVED" and a: "save_adjustment now k ?f s = (Inr (), s1)" and b: "money s2 = money s1"
      and sync: "sync_campaign_counters now c s2 = (Inr c', s3)"
      and rk: "evaluate_adjustment_risk cfg now x s3 = (Inr r, t)"
      by (auto simp: apply_financial_adjustment_def Let_def atomic_Inr bnd_Inr seqn_Inr check_Inr fetch_Inr follow_Inr ret_Inr
          split: option.splits dest!: keepsD [OF keeps_money_event])
    have "adjustments t = tbl_upd k now ?f (adjustments s)"
      using moneyD(5) [OF keepsD [OF keeps_money_risk(3) rk]] sync moneyD(5) [OF b] a by (auto simp: svc_inv)
    moreover have "review_next op RV_APPROVED = Some RV_DONE" by (simp add: RV_finish)
    ultimately show ?thesis
      using g by (intro exI [of _ locked] exI [of _ ?f] exI [of _ now] exI [of _ RV_APPROVED] exI [of _ RV_DONE]) simp
  qed
qed

interpretation adjustment_review: review_workflow phase_of_adjustment review_adjustment "\<lambda>_. True"
proof unfold_locales
  fix s q op k x t
  assume "review_adjustment q op k s = (Inr x, t)"
  from review_adjustment_run [OF this] obtain r f now a b where
    r: "tbl_get k (adjustments s) = Some r" "adjustments t = tbl_upd k now f (adjustments s)" and
    ab: "adjustment_phase (ad_status (vals r)) = Some a" "review_next op a = Some b" "adjustment_phase (ad_status (f (vals r))) = Some b"
    by blast
  have "phase_of_adjustment s k = Some a" using r(1) ab(1) by (simp add: phase_of_adjustment_def)
  then show "True \<and> (\<exists>a b. phase_of_adjustment s k = Some a \<and> review_next op a = Some b \<and>
      phase_of_adjustment t = (phase_of_adjustment s)(k := Some b))"
    using phase_of_adjustment_upd [OF r(2,1)] ab by auto
next
  fix q op k s e t
  assume "review_adjustment q op k s = (Inl e, t)"
  then show "t = s"
    by (cases q; cases op)
      (auto simp: approve_financial_adjustment_def reject_financial_adjustment_def apply_financial_adjustment_def dest: atomic_Inl)
qed

end
