(* ===== verification/Mdk_Coherence.thy ===== *)
theory Mdk_Coherence
  imports Mdk_Payments Mdk_Refunds
begin

text \<open>
  What holds when the Madadkar services run one after the other: the status of a payment agrees
  with the status of its participation, refunds belong to settled payments, and no campaign has
  more shares funded than it offers.
\<close>

section \<open>Definitions\<close>

fun status_pair :: "payment_status \<Rightarrow> participation_status \<Rightarrow> bool" where
  "status_pair PAY_PENDING b = (b = PENDING_PAYMENT)"
| "status_pair PAY_SUCCESS b = (b = PAID \<or> b = REFUNDED)"
| "status_pair PAY_FAILED b = (b = P_FAILED \<or> b = EXPIRED)"

definition coherent :: "mdk_db \<Rightarrow> bool" where
  "coherent s \<longleftrightarrow>
     (\<forall>y \<in> set (payments s). is_active y \<and> (\<exists>p \<in> set (participations s). row_pk p = pay_participation (vals y) \<and>
        status_pair (pay_status (vals y)) (p_status (vals p)) \<and> pay_amount (vals y) = p_total_amount (vals p))) \<and>
     distinct (map (\<lambda>y. pay_participation (vals y)) (payments s)) \<and>
     (\<forall>p \<in> set (participations s). is_active p \<and> 1 \<le> p_share_count (vals p) \<and>
        (p_status (vals p) \<in> {PAID, REFUNDED} \<longrightarrow> (\<exists>y \<in> set (payments s). pay_participation (vals y) = row_pk p))) \<and>
     (\<forall>r \<in> set (refunds s). \<exists>y \<in> set (payments s). row_pk y = rf_payment (vals r) \<and> pay_status (vals y) = PAY_SUCCESS)"

definition no_oversell :: "mdk_db \<Rightarrow> bool" where
  "no_oversell s \<longleftrightarrow>
     (\<forall>c \<in> set (campaigns s). reserved_shares s (row_pk c) + external_shares s (row_pk c) \<le> c_total_shares (vals c)) \<and>
     (\<forall>x \<in> set (external_fundings s). 1 \<le> xf_shares (vals x))"

definition serial_ok :: "mdk_db \<Rightarrow> bool" where
  "serial_ok s \<longleftrightarrow> ledger_ok s \<and> coherent s \<and> no_oversell s"

section \<open>Coherence under updates\<close>

lemma coherent_map:
  assumes co: "coherent s"
    and pays: "payments t = map F (payments s)" and parts: "participations t = map G (participations s)"
    and refs: "\<And>r. r \<in> set (refunds t) \<Longrightarrow> \<exists>q \<in> set (refunds s). rf_payment (vals q) = rf_payment (vals r)"
    and F: "\<And>y. row_pk (F y) = row_pk y" "\<And>y. is_active (F y) = is_active y"
      "\<And>y. pay_participation (vals (F y)) = pay_participation (vals y)" "\<And>y. pay_amount (vals (F y)) = pay_amount (vals y)"
    and G: "\<And>p. row_pk (G p) = row_pk p" "\<And>p. is_active (G p) = is_active p"
      "\<And>p. p_share_count (vals (G p)) = p_share_count (vals p)" "\<And>p. p_total_amount (vals (G p)) = p_total_amount (vals p)"
    and pairs: "\<And>y p. y \<in> set (payments s) \<Longrightarrow> p \<in> set (participations s) \<Longrightarrow> row_pk p = pay_participation (vals y) \<Longrightarrow>
      status_pair (pay_status (vals y)) (p_status (vals p)) \<Longrightarrow> status_pair (pay_status (vals (F y))) (p_status (vals (G p)))"
    and paid: "\<And>p. p \<in> set (participations s) \<Longrightarrow> p_status (vals (G p)) \<in> {PAID, REFUNDED} \<Longrightarrow>
      p_status (vals p) \<in> {PAID, REFUNDED} \<or> (\<exists>y \<in> set (payments s). pay_participation (vals y) = row_pk p)"
    and succ: "\<And>y. y \<in> set (payments s) \<Longrightarrow> pay_status (vals y) = PAY_SUCCESS \<Longrightarrow> pay_status (vals (F y)) = PAY_SUCCESS"
  shows "coherent t"
proof -
  have "is_active y \<and> (\<exists>p \<in> set (participations t). row_pk p = pay_participation (vals y) \<and>
      status_pair (pay_status (vals y)) (p_status (vals p)) \<and> pay_amount (vals y) = p_total_amount (vals p))"
    if "y \<in> set (payments t)" for y
  proof -
    from that obtain z where z: "z \<in> set (payments s)" "y = F z" by (auto simp: pays)
    with co obtain p where p: "p \<in> set (participations s)" "row_pk p = pay_participation (vals z)"
        "status_pair (pay_status (vals z)) (p_status (vals p))" "pay_amount (vals z) = p_total_amount (vals p)"
      and "is_active z" by (auto simp: coherent_def)
    then show ?thesis using pairs [OF z(1) p(1-3)] z F G by (auto simp: parts intro!: bexI [of _ p])
  qed
  moreover have "distinct (map (\<lambda>y. pay_participation (vals y)) (payments t))"
    using co by (simp add: pays coherent_def F comp_def)
  moreover have "is_active p \<and> 1 \<le> p_share_count (vals p) \<and>
      (p_status (vals p) \<in> {PAID, REFUNDED} \<longrightarrow> (\<exists>y \<in> set (payments t). pay_participation (vals y) = row_pk p))"
    if "p \<in> set (participations t)" for p
  proof -
    from that obtain q where q: "q \<in> set (participations s)" "p = G q" by (auto simp: parts)
    have "p_status (vals (G q)) \<in> {PAID, REFUNDED} \<longrightarrow> (\<exists>y \<in> set (payments s). pay_participation (vals y) = row_pk q)"
      using co q(1) paid [OF q(1)] by (auto simp: coherent_def)
    with co q show ?thesis by (auto simp: coherent_def pays F G)
  qed
  moreover have "\<exists>y \<in> set (payments t). row_pk y = rf_payment (vals r) \<and> pay_status (vals y) = PAY_SUCCESS"
    if "r \<in> set (refunds t)" for r
  proof -
    from refs [OF that] co obtain y where "y \<in> set (payments s)" "row_pk y = rf_payment (vals r)" "pay_status (vals y) = PAY_SUCCESS"
      by (auto simp: coherent_def)
    then show ?thesis using succ F by (auto simp: pays)
  qed
  ultimately show ?thesis unfolding coherent_def by blast
qed

lemma coherent_payD:
  "coherent s \<Longrightarrow> y \<in> set (payments s) \<Longrightarrow> is_active y \<and> (\<exists>p \<in> set (participations s). row_pk p = pay_participation (vals y) \<and>
     status_pair (pay_status (vals y)) (p_status (vals p)) \<and> pay_amount (vals y) = p_total_amount (vals p))"
  unfolding coherent_def by blast

lemma coherent_money: "money t = money s \<Longrightarrow> coherent t = coherent s"
  using moneyD [of t s] by (simp add: coherent_def)

lemma coherent_same:
  "payments t = payments s \<Longrightarrow> participations t = participations s \<Longrightarrow> refunds t = refunds s \<Longrightarrow> coherent t = coherent s"
  by (simp add: coherent_def)

text \<open>The payment of a participation and the participation of a payment are unique.\<close>

lemma coherent_unique:
  assumes "coherent s" "y \<in> set (payments s)" "z \<in> set (payments s)" "pay_participation (vals y) = pay_participation (vals z)"
  shows "y = z"
  using assms distinct_map [of "\<lambda>y. pay_participation (vals y)" "payments s"] by (auto simp: coherent_def inj_on_def)

text \<open>A pending payment and its participation are settled together.\<close>

lemma coherent_settle:
  assumes co: "coherent s" and keys: "keys_ok s"
    and y: "tbl_all i (payments s) = Some y" "pay_status (vals y) = PAY_PENDING"
    and pays: "payments t = tbl_upd i now f (payments s)"
    and parts: "participations t = tbl_upd (pay_participation (vals y)) now h (participations s)"
    and refs: "refunds t = refunds s"
    and f: "\<And>x. pay_participation (f x) = pay_participation x" "\<And>x. pay_amount (f x) = pay_amount x"
    and h: "\<And>x. p_share_count (h x) = p_share_count x" "\<And>x. p_total_amount (h x) = p_total_amount x"
    and ab: "\<And>x z. status_pair (pay_status (f x)) (p_status (h z))"
  shows "coherent t"
proof (rule coherent_map [OF co pays [unfolded tbl_upd_def] parts [unfolded tbl_upd_def]], goal_cases)
  case (10 z p)
  have iy: "y \<in> set (payments s)" "row_pk y = i" using tbl_all_Some [OF y(1)] by auto
  have "row_pk z = i \<longleftrightarrow> row_pk p = pay_participation (vals y)"
  proof
    assume "row_pk z = i"
    then have "z = y" using keys iy 10(1) distinct_pk_eq [of "payments s" z y] by (auto simp: keys_ok_def)
    then show "row_pk p = pay_participation (vals y)" using 10(3) by simp
  next
    assume "row_pk p = pay_participation (vals y)"
    then show "row_pk z = i" using coherent_unique [OF co 10(1) iy(1)] 10(3) iy by auto
  qed
  then show ?case using 10(4) ab by auto
next
  case (11 p)
  have "y \<in> set (payments s)" using tbl_all_Some [OF y(1)] by simp
  with 11 show ?case by (auto split: if_splits)
next
  case (12 z)
  have "row_pk z \<noteq> i"
    using 12 y keys tbl_all_Some [OF y(1)] distinct_pk_eq [of "payments s" z y] by (auto simp: keys_ok_def)
  then show ?case using 12 by simp
qed (use f h refs in auto)

text \<open>A participation changes alone when its payment, if any, agrees with the new status.\<close>

lemma coherent_participation_upd:
  assumes co: "coherent s" and pays: "payments t = payments s"
    and parts: "participations t = tbl_upd j now h (participations s)"
    and refs: "\<And>r. r \<in> set (refunds t) \<Longrightarrow> \<exists>q \<in> set (refunds s). rf_payment (vals q) = rf_payment (vals r)"
    and h: "\<And>x. p_share_count (h x) = p_share_count x" "\<And>x. p_total_amount (h x) = p_total_amount x"
    and pairs: "\<And>y z. y \<in> set (payments s) \<Longrightarrow> pay_participation (vals y) = j \<Longrightarrow>
        status_pair (pay_status (vals y)) (p_status (h z))"
    and paid: "\<And>z. p_status (h z) \<in> {PAID, REFUNDED} \<Longrightarrow> \<exists>y \<in> set (payments s). pay_participation (vals y) = j"
  shows "coherent t"
proof (rule coherent_map [OF co _ parts [unfolded tbl_upd_def] refs, where F = "\<lambda>y. y"], goal_cases)
  case (12 p)
  then show ?case using paid by (auto split: if_splits)
qed (use h pays pairs in auto)

lemma coherent_insert_participation:
  assumes "coherent s" and "1 \<le> p_share_count v" and "p_status v = PENDING_PAYMENT"
    and "payments t = payments s" "refunds t = refunds s" "participations t = participations s @ [new_row now v (participations s)]"
  shows "coherent t"
  using assms by (auto simp: coherent_def)

lemma coherent_insert_payment:
  assumes co: "coherent s" and p: "p \<in> set (participations s)" "row_pk p = pay_participation v" "p_status (vals p) = PENDING_PAYMENT"
    and v: "pay_status v = PAY_PENDING" "pay_amount v = p_total_amount (vals p)"
    and new: "pay_participation v \<notin> (\<lambda>y. pay_participation (vals y)) ` set (payments s)"
    and t: "payments t = payments s @ [new_row now v (payments s)]" "participations t = participations s" "refunds t = refunds s"
  shows "coherent t"
proof -
  have "\<exists>q \<in> set (participations s). row_pk q = pay_participation v \<and> p_status (vals q) = PENDING_PAYMENT \<and>
      pay_amount v = p_total_amount (vals q)" using p v by blast
  with co v new t show ?thesis by (auto simp: coherent_def)
qed

section \<open>Shares under updates\<close>

definition totals :: "mdk_db \<Rightarrow> (nat \<times> int) list" where
  "totals s = map (\<lambda>c. (row_pk c, c_total_shares (vals c))) (campaigns s)"

lemma totals_save: "(\<And>c. c_total_shares (f c) = c_total_shares c) \<Longrightarrow> keeps totals (save_campaign now k f)"
  unfolding save_campaign_def by (intro keeps_rules keeps_modify) (auto simp: totals_def tbl_upd_def)

lemma totals_campaign_ops:
  "keeps totals (auto_complete_campaign_if_fully_funded now c)" "keeps totals (publish_campaign now c)"
  "keeps totals (close_campaign now c)" "keeps totals (close_campaign_due_to_deadline now c)"
  unfolding auto_complete_campaign_if_fully_funded_def publish_campaign_def close_campaign_def
    close_campaign_due_to_deadline_def Let_def
  by (intro keeps_rules totals_save; simp)+

lemma totals_sync: "sync_campaign_counters now c s = (Inr c', t) \<Longrightarrow> totals t = totals s"
  by (auto simp: sync_Inr totals_def tbl_upd_def)

lemma totals_eq: "campaigns t = tbl_upd k now (synced u j) (campaigns s) \<Longrightarrow> totals t = totals s"
  by (auto simp: totals_def tbl_upd_def)

lemma totals_money: "money t = money s \<Longrightarrow> totals t = totals s"
  using moneyD(1) [of t s] by (simp add: totals_def)

lemma totalsD:
  assumes "totals t = totals s" and "c \<in> set (campaigns t)"
  shows "\<exists>d \<in> set (campaigns s). row_pk d = row_pk c \<and> c_total_shares (vals d) = c_total_shares (vals c)"
proof -
  have "(row_pk c, c_total_shares (vals c)) \<in> set (totals t)" using assms(2) by (simp add: totals_def)
  then have "(row_pk c, c_total_shares (vals c)) \<in> set (totals s)" by (simp add: assms(1))
  then show ?thesis by (auto simp: totals_def)
qed

lemma no_oversell_mono:
  assumes "no_oversell s" and "totals t = totals s"
    and "\<And>j. reserved_shares t j \<le> reserved_shares s j" and "\<And>j. external_shares t j \<le> external_shares s j"
    and "\<And>x. x \<in> set (external_fundings t) \<Longrightarrow> 1 \<le> xf_shares (vals x)"
  shows "no_oversell t"
  unfolding no_oversell_def
proof (intro conjI ballI)
  fix c
  assume "c \<in> set (campaigns t)"
  then obtain d where "d \<in> set (campaigns s)" "row_pk d = row_pk c" "c_total_shares (vals d) = c_total_shares (vals c)"
    using totalsD [OF assms(2)] by blast
  then have "reserved_shares s (row_pk c) + external_shares s (row_pk c) \<le> c_total_shares (vals c)"
    using assms(1) by (force simp: no_oversell_def)
  then show "reserved_shares t (row_pk c) + external_shares t (row_pk c) \<le> c_total_shares (vals c)"
    using assms(3,4) [of "row_pk c"] by linarith
qed (use assms(5) in simp)

text \<open>\<open>no_oversell\<close> in terms of the columns of a campaign, for a state whose counters are in order.\<close>

lemma no_oversell_funded:
  assumes "counters_ok s" and "no_oversell s" and "c \<in> set (campaigns s)"
  shows "funded_shares (vals c) \<le> c_total_shares (vals c)"
  using assms counters_okD [OF assms(1,3)] by (auto simp: no_oversell_def funded_shares_def)

lemma agg_sum_upd_le:
  assumes "\<And>r. r \<in> set t \<Longrightarrow> row_pk r = i \<Longrightarrow>
      (if q (r\<lparr>updated_at := now, vals := h (vals r)\<rparr>) then f (r\<lparr>updated_at := now, vals := h (vals r)\<rparr>) else 0) \<le>
      (if q r then f r else (0 :: int))"
  shows "agg_sum f q (objects (tbl_upd i now h t)) \<le> agg_sum f q (objects t)"
  using assms by (induction t) (force simp: agg_sum_def tbl_upd_def objects_def)+

lemma reserved_upd_le:
  assumes "coherent s" and "participations t = tbl_upd i now h (participations s)"
    and "\<And>x. p_campaign (h x) = p_campaign x" "\<And>x. p_share_count (h x) = p_share_count x"
    and "\<And>p. p \<in> set (participations s) \<Longrightarrow> row_pk p = i \<Longrightarrow> p_status (h (vals p)) \<in> {PAID, PENDING_PAYMENT} \<Longrightarrow>
      p_status (vals p) \<in> {PAID, PENDING_PAYMENT}"
  shows "reserved_shares t k \<le> reserved_shares s k"
proof -
  have "0 \<le> p_share_count (vals p)" if "p \<in> set (participations s)" for p
    using assms(1) that by (force simp: coherent_def)
  then show ?thesis
    unfolding reserved_shares_def assms(2) by (intro agg_sum_upd_le) (use assms(3-) in auto)
qed

lemma external_same: "external_fundings t = external_fundings s \<Longrightarrow> external_shares t k = external_shares s k"
  by (simp add: external_shares_def)

lemma reserved_same: "participations t = participations s \<Longrightarrow> reserved_shares t k = reserved_shares s k"
  by (simp add: reserved_shares_def)

lemma no_oversell_same:
  assumes "no_oversell s" and "totals t = totals s" and "participations t = participations s"
    and "external_fundings t = external_fundings s"
  shows "no_oversell t"
  using assms(1) by (intro no_oversell_mono [OF assms(1,2)])
    (simp_all add: external_same [OF assms(4)] reserved_same [OF assms(3)] assms(4) no_oversell_def)

lemma serial_money: "money t = money s \<Longrightarrow> serial_ok t = serial_ok s"
  using moneyD [of t s] ledger_ok_money [of t s]
  by (simp add: serial_ok_def coherent_def no_oversell_def reserved_shares_def external_shares_def)

section \<open>Payments\<close>

lemma fail_payment_fields:
  assumes "fail_payment now locked p c gs kind md s = (Inr y, t)"
  shows "payments t = tbl_upd (row_pk locked) now
        (\<lambda>y. y\<lparr>pay_status := PAY_FAILED, pay_gateway_status := gs, pay_verified_at := Some now\<rparr>) (payments s)"
    "participations t = tbl_upd (row_pk p) now (\<lambda>x. x\<lparr>p_status := P_FAILED\<rparr>) (participations s)"
    "refunds t = refunds s" "external_fundings t = external_fundings s" "totals t = totals s"
    "y = locked\<lparr>updated_at := now, vals := (vals locked)\<lparr>pay_status := PAY_FAILED, pay_gateway_status := gs, pay_verified_at := Some now\<rparr>\<rparr>"
  using assms by (auto simp: fail_payment_def Let_def svc_inv totals_def tbl_upd_def)

lemma auto_complete_frame:
  assumes "auto_complete_campaign_if_fully_funded now c s = (Inr c', t)"
  shows "\<exists>x. t = s\<lparr>campaigns := x\<rparr>"
proof -
  have "t = s \<or> (\<exists>f. t = s\<lparr>campaigns := tbl_upd (row_pk c) now f (campaigns s)\<rparr>)"
    using assms by (auto simp: auto_complete_campaign_if_fully_funded_def Let_def svc_inv split: if_splits)
  then show ?thesis by (elim disjE) (auto intro: exI [of _ "campaigns s"])
qed

lemma succeed_payment_fields:
  assumes "succeed_payment E now locked p c vr s = (Inr y, t)"
  shows "payments t = tbl_upd (row_pk locked) now (mark_success now vr) (payments s) \<and>
    participations t = tbl_upd (row_pk p) now (\<lambda>x. x\<lparr>p_status := PAID, p_paid_at := Some now\<rparr>) (participations s) \<and>
    refunds t = refunds s \<and> external_fundings t = external_fundings s \<and> totals t = totals s"
  using assms
proof (rule succeed_payment_Inr, goal_cases)
  case (1 s1 s2 s3 s4 s5 e c' c'')
  obtain x where x: "s5 = s4\<lparr>campaigns := x\<rparr>" using auto_complete_frame [OF 1(5)] by blast
  have "totals t = totals s4"
    using totals_money [OF 1(6)] keepsD [OF totals_campaign_ops(1) 1(5)] by simp
  moreover have "totals s4 = totals s" using totals_sync [OF 1(4)] 1(1-3) by (auto simp: svc_inv totals_def)
  ultimately show ?case using moneyD [OF 1(6)] x 1(1-4) by (auto simp: svc_inv)
qed

text \<open>Settling a pending payment, in both directions, keeps the serial invariant.\<close>

lemma settle_serial:
  assumes ok: "serial_ok s" and ledger: "ledger_ok t"
    and y: "tbl_all i (payments s) = Some y" "pay_status (vals y) = PAY_PENDING"
    and t: "payments t = tbl_upd i now f (payments s)"
      "participations t = tbl_upd (pay_participation (vals y)) now h (participations s)"
      "refunds t = refunds s" "external_fundings t = external_fundings s" "totals t = totals s"
    and f: "\<And>x. pay_participation (f x) = pay_participation x" "\<And>x. pay_amount (f x) = pay_amount x"
    and h: "\<And>x. p_share_count (h x) = p_share_count x" "\<And>x. p_total_amount (h x) = p_total_amount x"
      "\<And>x. p_campaign (h x) = p_campaign x"
    and ab: "\<And>x z. status_pair (pay_status (f x)) (p_status (h z))"
  shows "serial_ok t"
proof -
  have co: "coherent s" and keys: "keys_ok s" and no: "no_oversell s"
    using ok by (simp_all add: serial_ok_def ledger_ok_def)
  have "coherent t" by (rule coherent_settle [OF co keys y t(1-3) f h(1,2) ab])
  moreover have "p_status (vals p) = PENDING_PAYMENT"
    if "p \<in> set (participations s)" "row_pk p = pay_participation (vals y)" for p
  proof -
    obtain q where "q \<in> set (participations s)" "row_pk q = pay_participation (vals y)" "p_status (vals q) = PENDING_PAYMENT"
      using co tbl_all_Some [OF y(1)] y(2) by (force simp: coherent_def)
    moreover from this have "q = p" using keys that distinct_pk_eq [of "participations s" q p] by (auto simp: keys_ok_def)
    ultimately show ?thesis by simp
  qed
  then have "reserved_shares t j \<le> reserved_shares s j" for j
    by (intro reserved_upd_le [OF co t(2) h(3,1)]) simp
  then have "no_oversell t"
    using no by (intro no_oversell_mono [OF no t(5)]) (simp_all add: external_same [OF t(4)] t(4) no_oversell_def)
  ultimately show ?thesis using ledger by (simp add: serial_ok_def)
qed

lemma fail_payment_serial:
  assumes run: "fail_payment now locked p c gs kind md s = (Inr y, t)" and ok: "serial_ok s"
    and g: "tbl_get k (payments s) = Some locked"
      "tbl_all (pay_participation (vals locked)) (participations s) = Some p"
      "tbl_get (p_campaign (vals p)) (campaigns s) = Some c" and st: "pay_status (vals locked) = PAY_PENDING"
  shows "serial_ok t"
proof -
  have l: "ledger_ok s" using ok by (simp add: serial_ok_def)
  note f = fetched_payment [OF l g]
  note t = fail_payment_fields [OF run]
  show ?thesis
    by (rule settle_serial [OF ok fail_payment_step [OF run l g(2) f(3)] f(4) st t(1) [unfolded f(1)] t(2) [unfolded f(2)] t(3-5)])
      simp_all
qed

lemma succeed_payment_serial:
  assumes run: "succeed_payment E now locked p c vr s = (Inr y, t)" and ok: "serial_ok s"
    and g: "tbl_get k (payments s) = Some locked"
      "tbl_all (pay_participation (vals locked)) (participations s) = Some p"
      "tbl_get (p_campaign (vals p)) (campaigns s) = Some c" and st: "pay_status (vals locked) = PAY_PENDING"
  shows "serial_ok t"
proof -
  have l: "ledger_ok s" using ok by (simp add: serial_ok_def)
  note f = fetched_payment [OF l g]
  note t = succeed_payment_fields [OF run, unfolded f(1,2)]
  show ?thesis
    by (rule settle_serial [OF ok succeed_payment_step [OF run l f(5)] f(4) st,
          where f = "mark_success now vr" and h = "\<lambda>x. x\<lparr>p_status := PAID, p_paid_at := Some now\<rparr>" and now = now])
      (use t in \<open>auto simp: mark_success_def\<close>)
qed

lemma pay_status_pending: "\<not> (x = PAY_SUCCESS \<or> x = PAY_FAILED) \<longleftrightarrow> x = PAY_PENDING"
  by (cases x) simp_all

lemma pay_status_pendingI: "x \<noteq> PAY_SUCCESS \<Longrightarrow> x \<noteq> PAY_FAILED \<Longrightarrow> x = PAY_PENDING"
  by (cases x) simp_all

lemma settle_payment_serial: "preserves serial_ok (settle_payment E now pay vr)"
  unfolding settle_payment_def
proof (rule preserves_atomic, goal_cases)
  case (1 s y t)
  show ?case
  proof (cases "t = s")
    case False
    with 1(2) obtain locked p c where g: "tbl_get (row_pk pay) (payments s) = Some locked"
        "tbl_all (pay_participation (vals locked)) (participations s) = Some p"
        "tbl_get (p_campaign (vals p)) (campaigns s) = Some c"
      and st: "\<not> (pay_status (vals locked) = PAY_SUCCESS \<or> pay_status (vals locked) = PAY_FAILED)"
      and run: "(if \<not> vr_success vr then fail_payment now locked p c (vr_gateway_status vr) EV_VERIFY_FAILED
           [(''error_message'', JStr (vr_error_message vr))] else succeed_payment E now locked p c vr) s = (Inr y, t)"
      by (auto simp: bnd_Inr fetch_Inr follow_Inr ret_Inr split: if_splits)
    note st' = st [unfolded pay_status_pending]
    show ?thesis
      using run fail_payment_serial [OF _ 1(1) g st'] succeed_payment_serial [OF _ 1(1) g st'] by (auto split: if_splits)
  qed (use 1(1) in simp)
qed

lemma cancel_payment_serial: "preserves serial_ok (cancel_pending_payment now authority)"
proof -
  have "preserves serial_ok (atomic (
     bnd (fetch payments k) (\<lambda>locked.
     if pay_status (vals locked) = PAY_SUCCESS \<or> pay_status (vals locked) = PAY_FAILED then ret locked
     else bnd (follow participations (pay_participation (vals locked))) (\<lambda>p.
     bnd (fetch campaigns (p_campaign (vals p))) (\<lambda>c. fail_payment now locked p c gs kind md)))))" for k gs kind md
    by (rule preserves_atomic)
      (auto simp: bnd_Inr fetch_Inr follow_Inr ret_Inr split: if_splits intro: fail_payment_serial pay_status_pendingI)
  then show ?thesis unfolding cancel_pending_payment_def by (intro preserves_rules) simp_all
qed

lemma state_after_bnd_gets: "state_after (bnd (gets f) k) s = state_after (k (f s)) s"
  by (simp add: state_after_def bnd_def gets_def)

lemma verify_payment_serial: "preserves serial_ok (verify_payment_via resolve E now authority)"
proof -
  have mm: "serial_ok (state_after (settle_amount_mismatch now pay vr) s)"
    if ok: "serial_ok s" and f: "payment_by_authority s authority = Some pay" and st: "pay_status (vals pay) = PAY_PENDING"
    for s pay vr
  proof -
    have "pay \<in> set (payments s)" "is_active pay"
      using first_newest_Some f by (fastforce simp: payment_by_authority_def objects_def)+
    then have g: "tbl_get (row_pk pay) (payments s) = Some pay"
      using ok by (simp add: serial_ok_def ledger_ok_def keys_ok_def tbl_get_eq)
    show ?thesis
      unfolding settle_amount_mismatch_def state_after_seqn
      using ok g st
      by (auto simp: atomic_def bnd_def fetch_def follow_def split: prod.splits sum.splits option.splits
          intro: fail_payment_serial)
  qed
  have "serial_ok (state_after (verify_payment_via resolve E now authority) s)" if ok: "serial_ok s" for s
  proof (cases "payment_by_authority s authority")
    case (Some pay)
    have "pay_status (vals pay) \<noteq> PAY_SUCCESS \<Longrightarrow> pay_status (vals pay) \<noteq> PAY_FAILED \<Longrightarrow> pay_status (vals pay) = PAY_PENDING"
      by (rule pay_status_pendingI)
    with Some ok mm [OF ok Some] settle_payment_serial [of E now pay] show ?thesis
      by (cases "resolve (pay_gateway_name (vals pay))")
        (auto simp: verify_payment_via_def state_after_bnd_gets preserves_def split: sum.split)
  qed (use ok in \<open>simp add: verify_payment_via_def state_after_bnd_gets\<close>)
  then show ?thesis by (simp add: preserves_def)
qed

section \<open>Reserving shares\<close>

lemma no_oversell_add:
  assumes ok: "ledger_ok s" and no: "no_oversell s" and g: "tbl_get k (campaigns s) = Some locked"
    and n: "1 \<le> n" "\<not> n > remaining_shares (vals locked)" and tot: "totals t = totals s"
    and sum: "\<And>j. reserved_shares t j + external_shares t j = reserved_shares s j + external_shares s j + (if j = k then n else 0)"
    and ext: "\<And>x. x \<in> set (external_fundings t) \<Longrightarrow> 1 \<le> xf_shares (vals x)"
  shows "no_oversell t"
  unfolding no_oversell_def
proof (intro conjI ballI)
  fix c
  assume "c \<in> set (campaigns t)"
  then obtain d where d: "d \<in> set (campaigns s)" "row_pk d = row_pk c" "c_total_shares (vals d) = c_total_shares (vals c)"
    using totalsD [OF tot] by blast
  have base: "reserved_shares s (row_pk d) + external_shares s (row_pk d) \<le> c_total_shares (vals d)"
    using no d(1) by (simp add: no_oversell_def)
  have funded: "funded_shares (vals d) = reserved_shares s (row_pk d) + external_shares s (row_pk d)"
    using counters_okD [OF _ d(1)] ok by (simp add: ledger_ok_def funded_shares_def)
  have "d = locked" if "row_pk d = k"
    using that tbl_get_Some [OF g] d(1) ok distinct_pk_eq [of "campaigns s" d locked] by (auto simp: ledger_ok_def keys_ok_def)
  then show "reserved_shares t (row_pk c) + external_shares t (row_pk c) \<le> c_total_shares (vals c)"
    using sum [of "row_pk c"] base funded n d(2,3) by (auto simp: remaining_shares_def max_def split: if_splits)
qed (use ext in simp)

lemma reserve_fields:
  assumes "reserve_participation_shares now k user n s = (Inr p, t)"
  obtains locked v where "tbl_get k (campaigns s) = Some locked" "is_campaign_open_for_participation now locked = None"
    "1 \<le> n" "\<not> n > remaining_shares (vals locked)"
    "v = \<lparr>p_campaign = k, p_user = user, p_share_count = n, p_share_price_snapshot = c_share_price (vals locked),
       p_total_amount = n * c_share_price (vals locked), p_status = PENDING_PAYMENT, p_paid_at = None\<rparr>"
    "p = new_row now v (participations s)" "participations t = participations s @ [p]" "payments t = payments s"
    "refunds t = refunds s" "external_fundings t = external_fundings s" "totals t = totals s"
proof -
  let ?v = "\<lambda>locked. \<lparr>p_campaign = k, p_user = user, p_share_count = n, p_share_price_snapshot = c_share_price (vals locked),
       p_total_amount = n * c_share_price (vals locked), p_status = PENDING_PAYMENT, p_paid_at = None\<rparr>"
  from assms obtain locked c' where g: "tbl_get k (campaigns s) = Some locked" "row_pk locked = k"
      "is_campaign_open_for_participation now locked = None" "1 \<le> n" "\<not> n > remaining_shares (vals locked)"
      "p = new_row now (?v locked) (participations s)"
    and sync: "sync_campaign_counters now locked (s\<lparr>participations := participations s @ [p]\<rparr>) = (Inr c', t)"
    by (auto simp: reserve_participation_shares_def Let_def atomic_Inr bnd_Inr seqn_Inr check_Inr fetch_Inr gets_Inr
        modify_Inr ret_Inr participation_constraints_def dest: tbl_get_Some)
  have "totals t = totals s" using totals_sync [OF sync] by (simp add: totals_def)
  moreover have "participations t = participations s @ [p]" "payments t = payments s"
      "refunds t = refunds s" "external_fundings t = external_fundings s"
    using sync by (auto simp: sync_Inr)
  ultimately show thesis using that [OF g(1,3-5) refl g(6)] by blast
qed

lemma reserve_serial_step:
  assumes run: "reserve_participation_shares now k user n s = (Inr p, t)" and ok: "serial_ok s"
  shows "serial_ok t"
  using run
proof (rule reserve_fields)
  fix locked v
  assume g: "tbl_get k (campaigns s) = Some locked" and n: "1 \<le> n" "\<not> n > remaining_shares (vals locked)"
    and v: "v = \<lparr>p_campaign = k, p_user = user, p_share_count = n, p_share_price_snapshot = c_share_price (vals locked),
       p_total_amount = n * c_share_price (vals locked), p_status = PENDING_PAYMENT, p_paid_at = None\<rparr>"
    and t: "p = new_row now v (participations s)" "participations t = participations s @ [p]" "payments t = payments s"
      "refunds t = refunds s" "external_fundings t = external_fundings s" "totals t = totals s"
  have l: "ledger_ok s" and co: "coherent s" and no: "no_oversell s" using ok by (simp_all add: serial_ok_def)
  have "ledger_ok t" using reserve_ok [of now k user n] l run by (auto simp: preserves_def state_after_def)
  moreover have "coherent t"
    using t by (intro coherent_insert_participation [OF co, of v]) (simp_all add: v n)
  moreover have "no_oversell t"
    using no by (intro no_oversell_add [OF l no g n t(6)])
      (simp_all add: t reserved_shares_def v external_shares_def no_oversell_def)
  ultimately show ?thesis by (simp add: serial_ok_def)
qed

lemma release_serial:
  assumes ok: "serial_ok s" and none: "\<And>y. y \<in> set (payments s) \<Longrightarrow> pay_participation (vals y) \<noteq> i"
  shows "serial_ok (state_after (release_reserved_participation now i) s)"
proof -
  have l: "ledger_ok s" and co: "coherent s" and no: "no_oversell s" using ok by (simp_all add: serial_ok_def)
  have "serial_ok t" if run: "release_reserved_participation now i s = (Inr y, t)" for y t
  proof (cases "t = s")
    case False
    have "ledger_ok t" using release_ok [of now i] l run by (auto simp: preserves_def state_after_def)
    moreover have t: "participations t = tbl_upd i now (\<lambda>x. x\<lparr>p_status := P_FAILED\<rparr>) (participations s)"
        "payments t = payments s" "refunds t = refunds s" "external_fundings t = external_fundings s" "totals t = totals s"
      using run False
      by (auto simp: release_reserved_participation_def svc_inv split: if_splits intro: totals_eq)
    moreover have "coherent t"
      by (rule coherent_participation_upd [OF co t(2,1)]) (use none t(3) in auto)
    moreover have "no_oversell t"
      using no by (intro no_oversell_mono [OF no t(5)] reserved_upd_le [OF co t(1)])
        (simp_all add: external_same [OF t(4)] t(4) no_oversell_def)
    ultimately show ?thesis by (simp add: serial_ok_def)
  qed (use ok in simp)
  then show ?thesis
    using ok by (intro transactional_run [where P = serial_ok]) (simp_all add: release_reserved_participation_def)
qed

lemma persist_serial:
  assumes ok: "serial_ok s" and p: "p \<in> set (participations s)" "p_status (vals p) = PENDING_PAYMENT"
    and none: "\<And>y. y \<in> set (payments s) \<Longrightarrow> pay_participation (vals y) \<noteq> row_pk p"
  shows "serial_ok (state_after (persist_initiated_payment now p user (p_total_amount (vals p)) gw res ip ua) s)"
proof -
  have l: "ledger_ok s" and co: "coherent s" and no: "no_oversell s" using ok by (simp_all add: serial_ok_def)
  let ?v = "\<lparr>pay_participation = row_pk p, pay_user = user, pay_amount = p_total_amount (vals p),
              pay_gateway_name = gw, pay_authority = rq_authority res, pay_ref_id = [],
              pay_gateway_status = rq_gateway_status res, pay_status = PAY_PENDING, pay_paid_at = None,
              pay_verified_at = None, pay_ip_address = ip, pay_user_agent = take 500 ua\<rparr>"
  have "serial_ok t" if run: "persist_initiated_payment now p user (p_total_amount (vals p)) gw res ip ua s = (Inr y, t)" for y t
  proof -
    have t: "payments t = payments s @ [new_row now ?v (payments s)]" "participations t = participations s"
        "refunds t = refunds s" "external_fundings t = external_fundings s" "totals t = totals s"
      using run by (auto simp: persist_initiated_payment_def Let_def svc_inv totals_def)
    have "ledger_ok t" using persist_payment_ok [OF l, of p] keys_ofI [OF p(1)] run by (metis state_after_Inr)
    moreover have "coherent t" by (rule coherent_insert_payment [OF co p(1) _ p(2) _ _ _ t(1-3)]) (auto dest: none)
    moreover have "no_oversell t" by (rule no_oversell_same [OF no t(5,2,4)])
    ultimately show ?thesis by (simp add: serial_ok_def)
  qed
  then show ?thesis
    using ok by (intro transactional_run [where P = serial_ok]) (simp_all add: persist_initiated_payment_def)
qed

lemma initiate_serial: "preserves serial_ok (initiate_participation E now c user n cb ip ua mob em)"
proof -
  have "serial_ok (state_after (initiate_participation E now c user n cb ip ua mob em) s)" if ok: "serial_ok s" for s
  proof (cases "reserve_participation_shares now (row_pk c) user n s")
    case (Pair r u)
    show ?thesis
    proof (cases r)
      case (Inl e)
      then have "u = s" using Pair by (auto simp: reserve_participation_shares_def dest: atomic_Inl)
      with Pair Inl ok show ?thesis
        by (simp add: initiate_participation_def state_after_bnd state_after_seqn check_def ret_def raise_def)
    next
      case (Inr p)
      note run = Pair [unfolded Inr]
      have u: "serial_ok u" by (rule reserve_serial_step [OF run ok])
      have p: "p \<in> set (participations u)" "p_status (vals p) = PENDING_PAYMENT" using reserve_Inr [OF run] by simp_all
      have "row_pk p \<notin> keys_of (participations s)" using reserve_Inr(1) [OF run] by simp
      moreover have "payments u = payments s" using run by (rule reserve_fields) simp
      ultimately have none: "pay_participation (vals y) \<noteq> row_pk p" if "y \<in> set (payments u)" for y
        using that ok by (auto simp: serial_ok_def ledger_ok_def refs_ok_def)
      have rel: "serial_ok (state_after (seqn (release_reserved_participation now (row_pk p)) (raise e)) u)" for e
        using release_serial [OF u none, of now] by (simp add: state_after_seqn_raise)
      note per = persist_serial [OF u p none]
      show ?thesis
        using ok u rel per
        by (cases "get_payment_provider (env_cfg E) []") (auto simp: initiate_participation_def state_after_seqn
            state_after_bnd [of "reserve_participation_shares _ _ _ _"] check_def ret_def [where x = "()"]
            raise_def [of InvalidShareCountError] run Let_def state_after_bnd_ret split: sum.split)
    qed
  qed
  then show ?thesis by (simp add: preserves_def)
qed

lemma confirm_sandbox_serial: "preserves serial_ok (confirm_sandbox_payment now k)"
proof -
  have "serial_ok t" if run: "confirm_sandbox_payment now k s = (Inr b, t)" and ok: "serial_ok s" for s b t
  proof (cases "t = s")
    case False
    have t: "t = s\<lparr>payments := tbl_upd k now (\<lambda>y. y\<lparr>pay_gateway_status := SANDBOX_CONFIRM_MARKER\<rparr>) (payments s)\<rparr>"
      using run False by (auto simp: confirm_sandbox_payment_def svc_inv split: if_splits)
    have "ledger_ok t"
      using confirm_sandbox_ok [of now k] run ok by (auto simp: preserves_def serial_ok_def state_after_def)
    moreover have "coherent t"
      by (rule coherent_map [where s = s and G = "\<lambda>p. p" and F = "\<lambda>r. if row_pk r = k then r\<lparr>updated_at := now,
            vals := (vals r)\<lparr>pay_gateway_status := SANDBOX_CONFIRM_MARKER\<rparr>\<rparr> else r"])
        (use ok in \<open>auto simp: t tbl_upd_def serial_ok_def\<close>)
    moreover have "no_oversell t"
      by (rule no_oversell_same [of s]) (use ok in \<open>simp_all add: t serial_ok_def totals_def\<close>)
    ultimately show ?thesis by (simp add: serial_ok_def)
  qed (use ok in simp)
  then show ?thesis
    by (intro preserves_transactional [where P = serial_ok]) (simp_all add: confirm_sandbox_payment_def)
qed

section \<open>Expiry\<close>

lemma expire_fields:
  assumes run: "expire_stale_participation now p s = (Inr y, t)" and st: "p_status (vals p) = PENDING_PAYMENT"
  shows "participations t = tbl_upd (row_pk p) now (\<lambda>x. x\<lparr>p_status := EXPIRED\<rparr>) (participations s)"
    "refunds t = refunds s" "external_fundings t = external_fundings s" "totals t = totals s"
    "payments t = (case first_newest (\<lambda>r. pay_participation (vals r) = row_pk p \<and> pay_status (vals r) = PAY_PENDING)
        (objects (payments s)) of None \<Rightarrow> payments s
      | Some z \<Rightarrow> tbl_upd (row_pk z) now (\<lambda>v. v\<lparr>pay_status := PAY_FAILED, pay_gateway_status := ''expired'',
          pay_verified_at := Some now\<rparr>) (payments s))"
  using run st
  by (auto simp: expire_stale_participation_def expire_pending_payment_def Let_def svc_inv split: option.splits
      intro: totals_eq)

lemma expire_serial_step:
  assumes run: "expire_stale_participation now p s = (Inr y, t)" and ok: "serial_ok s" and p: "p \<in> set (participations s)"
  shows "serial_ok t"
proof (cases "p_status (vals p) = PENDING_PAYMENT")
  case True
  have l: "ledger_ok s" and co: "coherent s" and no: "no_oversell s" and keys: "keys_ok s"
    using ok by (simp_all add: serial_ok_def ledger_ok_def)
  note t = expire_fields [OF run True]
  have "part_of s (row_pk p) (p_campaign (vals p))"
    using part_ofI [OF keys, of "row_pk p" p] p keys by (simp add: keys_ok_def tbl_all_eq)
  note ledger = expire_step [OF run l this]
  let ?q = "\<lambda>r. pay_participation (vals r) = row_pk p \<and> pay_status (vals r) = PAY_PENDING"
  have pend: "pay_status (vals z) = PAY_PENDING" if zin: "z \<in> set (payments s)" "pay_participation (vals z) = row_pk p" for z
  proof -
    obtain q where q: "q \<in> set (participations s)" "row_pk q = pay_participation (vals z)"
        "status_pair (pay_status (vals z)) (p_status (vals q))" using coherent_payD [OF co zin(1)] by blast
    then have "q = p" using keys p zin(2) distinct_pk_eq [of "participations s" q p] by (auto simp: keys_ok_def)
    with q(3) True show ?thesis by (cases "pay_status (vals z)") auto
  qed
  show ?thesis
  proof (cases "first_newest ?q (objects (payments s))")
    case None
    have none: "pay_participation (vals z) \<noteq> row_pk p" if "z \<in> set (payments s)" for z
      using None that pend [OF that] co by (auto simp: first_newest_None objects_def coherent_def)
    have "coherent t"
      by (rule coherent_participation_upd [OF co _ t(1)]) (use none t(2,5) None in auto)
    moreover have "no_oversell t"
      using no by (intro no_oversell_mono [OF no t(4)] reserved_upd_le [OF co t(1)])
        (simp_all add: external_same [OF t(3)] t(3) no_oversell_def)
    ultimately show ?thesis using ledger by (simp add: serial_ok_def)
  next
    case (Some z)
    have z: "z \<in> set (payments s)" "pay_participation (vals z) = row_pk p" "pay_status (vals z) = PAY_PENDING"
      using first_newest_Some [OF Some] by (auto simp: objects_def)
    have "tbl_all (row_pk z) (payments s) = Some z" using keys z(1) by (simp add: keys_ok_def tbl_all_eq)
    from settle_serial [OF ok ledger this z(3), unfolded z(2), OF _ t(1-4)] t(5) Some show ?thesis by simp
  qed
qed (use run ok in \<open>simp add: expire_stale_participation_def ret_Inr\<close>)

section \<open>Refunds\<close>


lemma request_refund_Inr:
  assumes "request_payment_refund cfg now k amount reason rq note key s = (Inr y, t)" and "t \<noteq> s"
  shows "\<exists>locked. tbl_get k (payments s) = Some locked \<and> pay_status (vals locked) = PAY_SUCCESS \<and> rf_payment (vals y) = k \<and>
     money t = money (s\<lparr>refunds := refunds s @ [y]\<rparr>)"
  using assms
  by (auto simp: request_payment_refund_def Let_def atomic_Inr bnd_Inr seqn_Inr check_Inr fetch_Inr gets_Inr modify_Inr ret_Inr
      split: option.splits dest!: keepsD [OF keeps_money_event] keepsD [OF keeps_money_risk(2)])

lemma request_refund_serial: "preserves serial_ok (request_payment_refund cfg now k amount reason rq note key)"
proof (rule preserves_transactional)
  fix s y t
  assume ok: "serial_ok s" and run: "request_payment_refund cfg now k amount reason rq note key s = (Inr y, t)"
  show "serial_ok t"
  proof (cases "t = s")
    case False
    obtain locked where g: "tbl_get k (payments s) = Some locked" "pay_status (vals locked) = PAY_SUCCESS"
        "rf_payment (vals y) = k" and t: "money t = money (s\<lparr>refunds := refunds s @ [y]\<rparr>)"
      using request_refund_Inr [OF run False] by blast
    have co: "coherent s" using ok by (simp add: serial_ok_def)
    have "\<exists>z \<in> set (payments s). row_pk z = rf_payment (vals y) \<and> pay_status (vals z) = PAY_SUCCESS"
      using tbl_get_Some [OF g(1)] g(2,3) by (intro bexI [of _ locked]) auto
    with co have "coherent t" unfolding coherent_money [OF t] by (simp add: coherent_def)
    moreover have "no_oversell t"
      by (rule no_oversell_same [of s]) (use ok moneyD [OF t] in \<open>simp_all add: serial_ok_def totals_def\<close>)
    moreover have "ledger_ok t" using preserves_Inr [OF request_refund_ok run] ok by (simp add: serial_ok_def)
    ultimately show ?thesis by (simp add: serial_ok_def)
  qed (use ok in simp)
qed (simp add: request_payment_refund_def)

text \<open>Services that leave payments, participations, offline funding and totals alone: it is enough to
  know that they keep the ledger invariant.\<close>

definition serial_view :: "mdk_db \<Rightarrow> payment table \<times> participation table \<times> external_funding table \<times> (nat \<times> int) list \<times> nat list" where
  "serial_view s = (payments s, participations s, external_fundings s, totals s, map (\<lambda>r. rf_payment (vals r)) (refunds s))"

lemma refund_owners:
  assumes "map (\<lambda>r. rf_payment (vals r)) t = map (\<lambda>r. rf_payment (vals r)) u" and "r \<in> set t"
  shows "\<exists>q \<in> set u. rf_payment (vals q) = rf_payment (vals r)"
proof -
  have "rf_payment (vals r) \<in> set (map (\<lambda>r. rf_payment (vals r)) t)" using assms(2) by simp
  then have "rf_payment (vals r) \<in> set (map (\<lambda>r. rf_payment (vals r)) u)" by (simp only: assms(1))
  then show ?thesis by auto
qed

lemma serial_by_view:
  assumes "preserves ledger_ok m" and "keeps serial_view m"
  shows "preserves serial_ok m"
  unfolding preserves_def
proof (intro allI impI)
  fix s
  assume ok: "serial_ok s"
  let ?t = "state_after m s"
  have v: "payments ?t = payments s" "participations ?t = participations s" "external_fundings ?t = external_fundings s"
      "totals ?t = totals s" "map (\<lambda>r. rf_payment (vals r)) (refunds ?t) = map (\<lambda>r. rf_payment (vals r)) (refunds s)"
    using assms(2) by (simp_all add: keeps_def serial_view_def state_after_def)
  note R = refund_owners [OF v(5)]
  have co: "coherent s" using ok by (simp add: serial_ok_def)
  have "coherent ?t"
    by (rule coherent_map [OF co, where F = "\<lambda>y. y" and G = "\<lambda>p. p"]) (simp_all add: v(1,2) R)
  moreover have "no_oversell ?t"
    by (rule no_oversell_same [of s]) (use ok v in \<open>simp_all add: serial_ok_def\<close>)
  ultimately show "serial_ok ?t" using ok assms(1) by (simp add: serial_ok_def preserves_def)
qed

lemma keeps_view_save_refund:
  "(\<And>x. rf_payment (f x) = rf_payment x) \<Longrightarrow> keeps serial_view (save_refund now k f)"
  unfolding save_refund_def
  by (rule keeps_modify) (auto simp: serial_view_def totals_def tbl_upd_def comp_def)

lemma keeps_view_save_campaign:
  "(\<And>x. c_total_shares (f x) = c_total_shares x) \<Longrightarrow> keeps serial_view (save_campaign now k f)"
  unfolding save_campaign_def
  by (intro keeps_rules keeps_modify) (auto simp: serial_view_def totals_def tbl_upd_def)

lemma keeps_view_money: "keeps money m \<Longrightarrow> keeps serial_view m"
  by (simp add: keeps_def serial_view_def money_def totals_def)

lemma keeps_view_sync [keeps_rules]: "keeps serial_view (sync_campaign_counters now c)"
  by (auto simp: keeps_def sync_campaign_counters_def svc_defs serial_view_def totals_def tbl_upd_def split: option.split)

lemma keeps_view_rules [keeps_rules]:
  "keeps serial_view (save_adjustment now k f)"
  "keeps serial_view (record_payment_event now y kind a b md)"
  "keeps serial_view (evaluate_adjustment_risk cfg now adj)"
  by (simp add: keeps_def svc_defs serial_view_def totals_def) (intro keeps_view_money keeps_rules)+

lemma review_serial:
  "preserves serial_ok (approve_payment_refund now k rev_by note)"
  "preserves serial_ok (reject_payment_refund now k rev_by reason)"
  "preserves serial_ok (approve_financial_adjustment now k rev_by)"
  "preserves serial_ok (reject_financial_adjustment now k rev_by reason)"
  "preserves serial_ok (apply_financial_adjustment cfg now k)"
  by (rule serial_by_view; (rule approve_refund_ok reject_refund_ok approve_adjustment_ok reject_adjustment_ok apply_adjustment_ok)?;
      unfold approve_payment_refund_def reject_payment_refund_def approve_financial_adjustment_def
        reject_financial_adjustment_def apply_financial_adjustment_def Let_def;
      intro keeps_rules keeps_view_save_refund; simp)+

lemma complete_refund_serial: "preserves serial_ok (complete_payment_refund now k ref)"
proof (rule preserves_transactional)
  fix s y t
  assume ok: "serial_ok s" and run: "complete_payment_refund now k ref s = (Inr y, t)"
  have l: "ledger_ok s" and co: "coherent s" and no: "no_oversell s" and keys: "keys_ok s"
    using ok by (simp_all add: serial_ok_def ledger_ok_def)
  have lt: "ledger_ok t" by (rule complete_refund_step [OF run l])
  from run show "serial_ok t"
  proof (rule complete_refund_Inr)
    fix locked pay p c c' e s1 s2 s3
    assume g: "tbl_get k (refunds s) = Some locked" "tbl_get (rf_payment (vals locked)) (payments s) = Some pay"
        "tbl_all (pay_participation (vals pay)) (participations s) = Some p"
      and a: "save_refund now k (\<lambda>v. v\<lparr>rf_status := R_COMPLETED, rf_provider_ref_id := ref, rf_completed_at := Some now\<rparr>) s = (Inr (), s1)"
      and b: "(if is_full_refund (vals locked) (vals pay) then save_participation now (row_pk p) (\<lambda>x. x\<lparr>p_status := REFUNDED\<rparr>)
        else ret ()) s1 = (Inr (), s2)"
      and d: "record_payment_event now pay EV_REFUND_COMPLETED (Some (pay_status (vals pay))) (Some (pay_status (vals pay)))
       [(''refund_id'', JInt (int k)), (''amount'', JInt (rf_amount (vals locked))),
        (''provider_ref_id'', JStr ref), (''full_refund'', JBool (is_full_refund (vals locked) (vals pay)))] s2 = (Inr e, s3)"
      and sync: "sync_campaign_counters now c s3 = (Inr c', t)"
    have v1: "serial_view s1 = serial_view s" by (rule keepsD [OF keeps_view_save_refund a]) simp
    have v3: "serial_view t = serial_view s2"
      using keepsD [OF keeps_view_rules(2) d] keepsD [OF keeps_view_sync sync] by simp
    have s2: "serial_view s2 = (payments s1, participations s2, external_fundings s1, totals s1, map (\<lambda>r. rf_payment (vals r)) (refunds s1))"
      using b by (auto simp: serial_view_def svc_inv totals_def split: if_splits)
    have t: "payments t = payments s" "external_fundings t = external_fundings s" "totals t = totals s"
        "map (\<lambda>r. rf_payment (vals r)) (refunds t) = map (\<lambda>r. rf_payment (vals r)) (refunds s)" "participations t = participations s2"
      using v1 v3 s2 by (simp_all add: serial_view_def)
    note R = refund_owners [OF t(4)]
    have p1: "participations s1 = participations s" using v1 by (simp add: serial_view_def)
    show "serial_ok t"
    proof (cases "is_full_refund (vals locked) (vals pay)")
      case True
      have parts: "participations t = tbl_upd (row_pk p) now (\<lambda>x. x\<lparr>p_status := REFUNDED\<rparr>) (participations s)"
        using t(5) b True p1 by (simp add: svc_inv)
      have pk: "row_pk p = pay_participation (vals pay)" using tbl_all_Some [OF g(3)] by simp
      have pin: "pay \<in> set (payments s)" "row_pk pay = rf_payment (vals locked)" using tbl_get_Some [OF g(2)] by auto
      have succ: "pay_status (vals pay) = PAY_SUCCESS"
      proof -
        have "locked \<in> set (refunds s)" using tbl_get_Some [OF g(1)] by simp
        then obtain z where "z \<in> set (payments s)" "row_pk z = rf_payment (vals locked)" "pay_status (vals z) = PAY_SUCCESS"
          using co by (auto simp: coherent_def)
        moreover from this have "z = pay" using keys pin distinct_pk_eq [of "payments s" z pay] by (auto simp: keys_ok_def)
        ultimately show ?thesis by simp
      qed
      have "status_pair (pay_status (vals z)) REFUNDED" if "z \<in> set (payments s)" "pay_participation (vals z) = row_pk p" for z
        using coherent_unique [OF co that(1) pin(1)] that(2) pk succ by simp
      then have "coherent t"
        by (intro coherent_participation_upd [OF co t(1) parts R]) (use pk pin(1) in auto)
      moreover have "no_oversell t"
        using no by (intro no_oversell_mono [OF no t(3)] reserved_upd_le [OF co parts])
          (simp_all add: external_same [OF t(2)] t(2) no_oversell_def)
      ultimately show ?thesis using lt by (simp add: serial_ok_def)
    next
      case False
      then have parts: "participations t = participations s" using t(5) b p1 by (simp add: svc_inv)
      have "coherent t"
        by (rule coherent_map [OF co, where F = "\<lambda>y. y" and G = "\<lambda>p. p"]) (simp_all add: t(1) parts R)
      moreover have "no_oversell t" by (rule no_oversell_same [OF no t(3) parts t(2)])
      ultimately show ?thesis using lt by (simp add: serial_ok_def)
    qed
  qed
qed (simp add: complete_payment_refund_def)

section \<open>Campaigns and offline funding\<close>

lemma campaign_ops_serial:
  "preserves serial_ok (publish_campaign now c)" "preserves serial_ok (close_campaign now c)"
  "preserves serial_ok (close_campaign_due_to_deadline now c)" "preserves serial_ok (delete_campaign now c)"
  by (rule serial_by_view; (rule publish_campaign_ok close_campaign_ok close_deadline_ok delete_campaign_ok)?;
      unfold publish_campaign_def close_campaign_def close_campaign_due_to_deadline_def delete_campaign_def Let_def;
      intro keeps_rules keeps_view_save_campaign keeps_modify; auto simp: serial_view_def totals_def tbl_set_active_def)+

lemma keeps_view_auto_complete [keeps_rules]: "keeps serial_view (auto_complete_campaign_if_fully_funded now c)"
  unfolding auto_complete_campaign_if_fully_funded_def Let_def
  by (intro keeps_rules keeps_view_save_campaign) simp

lemma create_campaign_serial: "preserves serial_ok (create_campaign slugify now sp title ds ci A N has_dl dl vis)"
proof (rule preserves_transactional)
  fix s y t
  assume ok: "serial_ok s" and run: "create_campaign slugify now sp title ds ci A N has_dl dl vis s = (Inr y, t)"
  have l: "ledger_ok t" using preserves_Inr [OF create_campaign_ok run] ok by (simp add: serial_ok_def)
  from run obtain c where t: "t = s\<lparr>campaigns := tbl_insert now c (campaigns s)\<rparr>" and c: "campaign_constraints c"
      "c_purchased_shares c = 0" "c_external_funded_shares c = 0"
    by (auto simp: create_campaign_def Let_def svc_inv split: option.splits)
  have "new_row now c (campaigns s) \<in> set (campaigns t)" by (simp add: t set_tbl_insert)
  from counters_okD [OF _ this] l c(2,3)
  have "reserved_shares t (next_pk (campaigns s)) = 0" "external_shares t (next_pk (campaigns s)) = 0"
    by (auto simp: ledger_ok_def)
  with ok c(1) have "no_oversell t"
    by (auto simp: serial_ok_def no_oversell_def t set_tbl_insert campaign_constraints_def reserved_shares_def external_shares_def)
  moreover have "coherent t" using ok by (simp add: serial_ok_def t coherent_def)
  ultimately show "serial_ok t" using l by (simp add: serial_ok_def)
qed (simp add: create_campaign_def)

lemma record_external_serial:
  "preserves serial_ok (record_external_funding now c shares amount method reference note funded_at rec)"
proof (rule preserves_transactional)
  fix s y t
  assume ok: "serial_ok s" and run: "record_external_funding now c shares amount method reference note funded_at rec s = (Inr y, t)"
  have l: "ledger_ok s" and co: "coherent s" and no: "no_oversell s" using ok by (simp_all add: serial_ok_def)
  let ?v = "\<lambda>locked. build_external_funding now locked shares amount method reference note funded_at rec"
  from run obtain locked u c' d where g: "tbl_get (row_pk c) (campaigns s) = Some locked"
    and n: "1 \<le> shares" "\<not> shares > remaining_shares (vals locked)"
    and sync: "sync_campaign_counters now locked
        (s\<lparr>external_fundings := external_fundings s @ [new_row now (?v locked) (external_fundings s)]\<rparr>) = (Inr c', u)"
    and fin: "auto_complete_campaign_if_fully_funded now c' u = (Inr d, t)"
    by (auto simp: record_external_funding_def atomic_Inr bnd_Inr seqn_Inr check_Inr fetch_Inr gets_Inr modify_Inr ret_Inr)
  have v: "serial_view t = serial_view (s\<lparr>external_fundings := external_fundings s @ [new_row now (?v locked) (external_fundings s)]\<rparr>)"
    using keepsD [OF keeps_view_sync sync] keepsD [OF keeps_view_auto_complete fin] by simp
  have "refunds u = refunds s" using sync by (auto simp: sync_Inr)
  then have t: "payments t = payments s" "participations t = participations s" "totals t = totals s" "refunds t = refunds s"
      "external_fundings t = external_fundings s @ [new_row now (?v locked) (external_fundings s)]"
    using v auto_complete_frame [OF fin] by (auto simp: serial_view_def totals_def)
  have "row_pk locked = row_pk c" using tbl_get_Some [OF g] by simp
  then have "no_oversell t"
    using no n by (intro no_oversell_add [OF l no g n t(3)])
      (auto simp: t(5) external_shares_def reserved_same [OF t(2)] build_external_funding_def no_oversell_def)
  moreover have "coherent t" using co by (simp add: coherent_same [OF t(1,2,4)])
  moreover have "ledger_ok t" using preserves_Inr [OF record_external_funding_ok run] l by simp
  ultimately show "serial_ok t" by (simp add: serial_ok_def)
qed (simp add: record_external_funding_def)

lemma void_external_serial: "preserves serial_ok (void_external_funding now k reason)"
proof (rule preserves_transactional)
  fix s y t
  assume ok: "serial_ok s" and run: "void_external_funding now k reason s = (Inr y, t)"
  have l: "ledger_ok s" and co: "coherent s" and no: "no_oversell s" using ok by (simp_all add: serial_ok_def)
  have t: "payments t = payments s" "participations t = participations s" "refunds t = refunds s" "totals t = totals s"
      "external_fundings t = tbl_upd k now (\<lambda>x. x\<lparr>xf_status := VOIDED, xf_void_reason := take 2000 reason, xf_voided_at := Some now\<rparr>)
        (external_fundings s)"
    using run by (auto simp: void_external_funding_def Let_def svc_inv intro: totals_eq)
  have nn: "0 \<le> xf_shares (vals x)" if "x \<in> set (external_fundings s)" for x
    using no that by (force simp: no_oversell_def)
  have "external_shares t j \<le> external_shares s j" for j
    unfolding external_shares_def t(5) by (rule agg_sum_upd_le) (use nn in auto)
  then have "no_oversell t"
    using no by (intro no_oversell_mono [OF no t(4)])
      (auto simp: reserved_same [OF t(2)] t(5) set_tbl_upd no_oversell_def split: if_splits)
  moreover have "coherent t" using co by (simp add: coherent_same [OF t(1-3)])
  moreover have "ledger_ok t" using preserves_Inr [OF void_external_funding_ok run] l by simp
  ultimately show "serial_ok t" by (simp add: serial_ok_def)
qed (simp add: void_external_funding_def)

text \<open>The total of a campaign may be edited; the serial invariant needs that the new total still covers
  the funded shares.\<close>

definition covers_funded :: "campaign row \<Rightarrow> campaign_field list \<Rightarrow> bool" where
  "covers_funded c kwargs = list_all (\<lambda>f. case f of F_total_shares n \<Rightarrow> funded_shares (vals c) \<le> n | _ \<Rightarrow> True) kwargs"

lemma apply_total_shares:
  "c_total_shares (apply_campaign_fields kwargs d) = c_total_shares d \<or>
   F_total_shares (c_total_shares (apply_campaign_fields kwargs d)) \<in> set kwargs"
proof (induction kwargs arbitrary: d)
  case (Cons f kwargs)
  have "c_total_shares (set_campaign_field f d) = c_total_shares d \<or> f = F_total_shares (c_total_shares (set_campaign_field f d))"
    by (cases f) simp_all
  with Cons [of "set_campaign_field f d"] show ?case by (auto simp: apply_campaign_fields_def)
qed (simp add: apply_campaign_fields_def)

lemma update_campaign_Inr:
  assumes "update_campaign now c kwargs s = (Inr y, t)"
  shows "t = s \<or> t = s\<lparr>campaigns := tbl_upd (row_pk c) now (\<lambda>d. (apply_campaign_fields kwargs d)\<lparr>c_share_price :=
      computed_share_price (apply_campaign_fields kwargs (vals c))\<rparr>) (campaigns s)\<rparr>"
  using assms
  by (auto simp: update_campaign_def Let_def atomic_Inr bnd_Inr seqn_Inr gets_Inr check_Inr ret_Inr check_deadline_update_def
      save_campaign_Inr split: if_splits)

lemma update_campaign_serial:
  assumes ok: "serial_ok s" and g: "tbl_get k (campaigns s) = Some c" and cov: "covers_funded c kwargs"
  shows "serial_ok (state_after (update_campaign now c kwargs) s)"
proof (rule transactional_run [where P = serial_ok, OF _ ok])
  fix y t
  assume run: "update_campaign now c kwargs s = (Inr y, t)"
  have l: "ledger_ok s" and co: "coherent s" and no: "no_oversell s" using ok by (simp_all add: serial_ok_def)
  let ?f = "\<lambda>d. (apply_campaign_fields kwargs d)\<lparr>c_share_price := computed_share_price (apply_campaign_fields kwargs (vals c))\<rparr>"
  show "serial_ok t"
  proof (cases "t = s")
    case False
    then have t: "t = s\<lparr>campaigns := tbl_upd (row_pk c) now ?f (campaigns s)\<rparr>" using update_campaign_Inr [OF run] by blast
    have c: "c \<in> set (campaigns s)" using tbl_get_Some [OF g] by simp
    have "reserved_shares s (row_pk d) + external_shares s (row_pk d) \<le> c_total_shares (?f (vals d))"
      if d: "d \<in> set (campaigns s)" "row_pk d = row_pk c" for d
    proof -
      have "d = c" using l d c distinct_pk_eq [of "campaigns s" d c] by (auto simp: ledger_ok_def keys_ok_def)
      moreover have "funded_shares (vals c) = reserved_shares s (row_pk c) + external_shares s (row_pk c)"
        using counters_okD [OF _ c] l by (simp add: ledger_ok_def funded_shares_def)
      ultimately show ?thesis
        using apply_total_shares [of kwargs "vals c"] cov no c by (force simp: covers_funded_def list_all_iff no_oversell_def)
    qed
    with no have "no_oversell t"
      by (auto simp: no_oversell_def t set_tbl_upd reserved_shares_def external_shares_def)
    moreover have "coherent t" using co by (simp add: t coherent_def)
    moreover have "ledger_ok t" using preserves_Inr [OF update_campaign_ok run] l by simp
    ultimately show ?thesis by (simp add: serial_ok_def)
  qed (use ok in simp)
qed (simp add: update_campaign_def)

lemma create_adjustment_serial:
  assumes ok: "serial_ok s" and k: "k \<in> keys_of (campaigns s)"
  shows "serial_ok (state_after (create_financial_adjustment now k amount ty reason rq pay note) s)"
proof (rule transactional_run [where P = serial_ok, OF _ ok])
  fix y t
  assume run: "create_financial_adjustment now k amount ty reason rq pay note s = (Inr y, t)"
  have "ledger_ok t" using create_adjustment_ok [OF _ k] run ok by (metis serial_ok_def state_after_Inr)
  moreover have "payments t = payments s" "participations t = participations s" "refunds t = refunds s"
      "external_fundings t = external_fundings s" "totals t = totals s"
    using run by (auto simp: create_financial_adjustment_def svc_inv totals_def split: option.splits)
  ultimately show "serial_ok t"
    using ok no_oversell_same [of s t] coherent_same [of t s] by (simp add: serial_ok_def)
qed (simp add: create_financial_adjustment_def)

end
