(* ===== verification/Mdk_Disbursements.thy ===== *)
theory Mdk_Disbursements
  imports Mdk_Ledger Review_Workflow
begin

text \<open>
  Paying out collected money (\<^verbatim>\<open>src/apps/madadkar/services.py\<close>, section "Disbursement / allocation
  ledger services"): a disbursement is requested against the net amount of the campaign, approved or
  rejected, and marked paid with a bank reference.
\<close>

section \<open>Definitions\<close>

definition committed_disbursements :: "mdk_db \<Rightarrow> nat \<Rightarrow> int" where
  "committed_disbursements s k = agg_sum (\<lambda>r. db_amount (vals r))
     (\<lambda>r. db_campaign (vals r) = k \<and> db_status (vals r) \<in> {D_REQUESTED, D_APPROVED, D_PAID}) (objects (disbursements s))"

definition calculate_campaign_disbursable_amount :: "campaign row \<Rightarrow> mdk_db \<Rightarrow> int" where
  "calculate_campaign_disbursable_amount c s =
     max (c_purchased_amount (vals c) - committed_disbursements s (row_pk c)) 0"

definition request_campaign_disbursement ::
  "int \<Rightarrow> nat \<Rightarrow> int \<Rightarrow> string \<Rightarrow> string \<Rightarrow> nat option \<Rightarrow> string \<Rightarrow> string \<Rightarrow> json_obj \<Rightarrow> string \<Rightarrow>
   (mdk_db, disbursement row) svc" where
  "request_campaign_disbursement now campaign amount recipient_name purpose requested_by recipient_identifier
     recipient_bank_account supporting_document note =
     atomic (
     bnd (fetch campaigns campaign) (\<lambda>locked.
     seqn (check (\<not> amount \<le> 0) DisbursementWorkflowError)
     (bnd (gets (calculate_campaign_disbursable_amount locked)) (\<lambda>available.
      seqn (check (\<not> amount > available) DisbursementWorkflowError)
      (bnd (gets (\<lambda>s. new_row now
         \<lparr>db_campaign = row_pk locked, db_requested_by = requested_by, db_reviewed_by = None, db_paid_by = None,
          db_status = D_REQUESTED, db_amount = amount, db_recipient_name = strip recipient_name,
          db_recipient_identifier = strip recipient_identifier,
          db_recipient_bank_account = strip recipient_bank_account, db_purpose = strip purpose,
          db_note = strip note, db_rejection_reason = [], db_bank_tracking_reference = [],
          db_supporting_document = supporting_document, db_approved_at = None, db_rejected_at = None,
          db_paid_at = None\<rparr> (disbursements s))) (\<lambda>d.
      seqn (modify (\<lambda>s. s\<lparr>disbursements := disbursements s @ [d]\<rparr>))
      (ret d)))))))"

definition approve_campaign_disbursement :: "int \<Rightarrow> nat \<Rightarrow> nat option \<Rightarrow> (mdk_db, disbursement row) svc" where
  "approve_campaign_disbursement now disb reviewed_by =
     atomic (
     bnd (fetch disbursements disb) (\<lambda>locked.
     seqn (check (db_status (vals locked) = D_REQUESTED) DisbursementWorkflowError)
     (bnd (follow campaigns (db_campaign (vals locked))) (\<lambda>c.
      bnd (gets (\<lambda>s. calculate_campaign_disbursable_amount c s + db_amount (vals locked))) (\<lambda>available.
      seqn (check (\<not> db_amount (vals locked) > available) DisbursementWorkflowError)
      (let f = (\<lambda>v. v\<lparr>db_status := D_APPROVED, db_reviewed_by := reviewed_by, db_approved_at := Some now\<rparr>) in
      seqn (save_disbursement now disb f)
      (ret (locked\<lparr>updated_at := now, vals := f (vals locked)\<rparr>))))))))"

definition reject_campaign_disbursement ::
  "int \<Rightarrow> nat \<Rightarrow> nat option \<Rightarrow> string \<Rightarrow> (mdk_db, disbursement row) svc" where
  "reject_campaign_disbursement now disb reviewed_by rejection_reason =
     atomic (
     bnd (fetch disbursements disb) (\<lambda>locked.
     seqn (check (db_status (vals locked) = D_REQUESTED) DisbursementWorkflowError)
     (let f = (\<lambda>v. v\<lparr>db_status := D_REJECTED, db_reviewed_by := reviewed_by,
                   db_rejection_reason := strip rejection_reason, db_rejected_at := Some now\<rparr>) in
      seqn (save_disbursement now disb f)
      (ret (locked\<lparr>updated_at := now, vals := f (vals locked)\<rparr>)))))"

definition mark_campaign_disbursement_paid ::
  "int \<Rightarrow> nat \<Rightarrow> nat option \<Rightarrow> string \<Rightarrow> (mdk_db, disbursement row) svc" where
  "mark_campaign_disbursement_paid now disb paid_by bank_tracking_reference =
     atomic (
     bnd (fetch disbursements disb) (\<lambda>locked.
     seqn (check (db_status (vals locked) = D_APPROVED) DisbursementWorkflowError)
     (seqn (check (strip bank_tracking_reference \<noteq> []) DisbursementWorkflowError)
     (let f = (\<lambda>v. v\<lparr>db_status := D_PAID, db_paid_by := paid_by,
                   db_bank_tracking_reference := strip bank_tracking_reference, db_paid_at := Some now\<rparr>) in
      seqn (save_disbursement now disb f)
      (ret (locked\<lparr>updated_at := now, vals := f (vals locked)\<rparr>))))))"

section \<open>The review workflow\<close>

text \<open>\<open>D_CANCELED\<close> is a choice of the model that no service sets.\<close>

fun disbursement_phase :: "disbursement_status \<Rightarrow> review_phase option" where
  "disbursement_phase D_REQUESTED = Some RV_PENDING"
| "disbursement_phase D_APPROVED = Some RV_APPROVED"
| "disbursement_phase D_REJECTED = Some RV_REJECTED"
| "disbursement_phase D_PAID = Some RV_DONE"
| "disbursement_phase D_CANCELED = None"

definition phase_of_disbursement :: "mdk_db \<Rightarrow> nat \<Rightarrow> review_phase option" where
  "phase_of_disbursement s k =
     (case tbl_get k (disbursements s) of None \<Rightarrow> None | Some r \<Rightarrow> disbursement_phase (db_status (vals r)))"

fun review_disbursement :: "int \<times> nat option \<times> string \<Rightarrow> review_op \<Rightarrow> nat \<Rightarrow> (mdk_db, disbursement row) svc" where
  "review_disbursement (now, rv, msg) RV_approve k = approve_campaign_disbursement now k rv"
| "review_disbursement (now, rv, msg) RV_reject k = reject_campaign_disbursement now k rv msg"
| "review_disbursement (now, rv, msg) RV_finish k = mark_campaign_disbursement_paid now k rv msg"

lemma review_disbursement_run:
  assumes "review_disbursement q op k s = (Inr x, t)"
  shows "\<exists>r f now a b. tbl_get k (disbursements s) = Some r \<and> t = s\<lparr>disbursements := tbl_upd k now f (disbursements s)\<rparr> \<and>
    disbursement_phase (db_status (vals r)) = Some a \<and> review_next op a = Some b \<and>
    disbursement_phase (db_status (f (vals r))) = Some b \<and> (\<forall>v. db_amount (f v) = db_amount v \<and> db_campaign (f v) = db_campaign v)"
proof -
  obtain now rv msg where q: "q = (now, rv, msg)" by (cases q)
  with assms show ?thesis
    by (cases op)
      ((auto simp: approve_campaign_disbursement_def reject_campaign_disbursement_def mark_campaign_disbursement_paid_def
          Let_def svc_inv),
       (intro exI conjI allI, rule refl, simp, simp, simp)+)
qed

interpretation disbursement_review: review_workflow phase_of_disbursement review_disbursement "\<lambda>_. True"
proof unfold_locales
  fix s q op k x t
  assume "review_disbursement q op k s = (Inr x, t)"
  from review_disbursement_run [OF this] obtain r f now a b where
    r: "tbl_get k (disbursements s) = Some r" "t = s\<lparr>disbursements := tbl_upd k now f (disbursements s)\<rparr>" and
    ab: "disbursement_phase (db_status (vals r)) = Some a" "review_next op a = Some b" "disbursement_phase (db_status (f (vals r))) = Some b"
    by blast
  have "phase_of_disbursement s k = Some a" using r(1) ab(1) by (simp add: phase_of_disbursement_def)
  moreover have "phase_of_disbursement t = (phase_of_disbursement s)(k := Some b)"
    using r ab(3) by (auto simp: phase_of_disbursement_def tbl_get_upd fun_eq_iff split: option.split)
  ultimately show "True \<and> (\<exists>a b. phase_of_disbursement s k = Some a \<and> review_next op a = Some b \<and>
      phase_of_disbursement t = (phase_of_disbursement s)(k := Some b))"
    using ab(2) by blast
next
  fix q op k s e t
  assume "review_disbursement q op k s = (Inl e, t)"
  then show "t = s"
    by (cases q; cases op)
      (auto simp: approve_campaign_disbursement_def reject_campaign_disbursement_def mark_campaign_disbursement_paid_def dest: atomic_Inl)
qed

end
