(* ===== verification/Mdk_Recon.thy ===== *)
theory Mdk_Recon
  imports Mdk_Counters
begin

text \<open>
  Reconciliation of a provider report with the payment ledger and the daily control snapshot
  (\<^verbatim>\<open>src/apps/madadkar/services.py\<close>, sections "Payment reconciliation services" and "Financial
  operations control services"; row parsing from \<^verbatim>\<open>src/apps/madadkar/reconciliation.py\<close>).
\<close>

section \<open>Parsing a settlement report\<close>

text \<open>A parsed row. The cell readers of CSV and XLSX files are library code; the rows reach this
  model with their canonical cells as text.\<close>

record settlement_row =
  sr_authority :: string
  sr_ref_id :: string
  sr_amount :: int
  sr_status :: string

text \<open>Two headers are Persian words; they stand here as the bytes of their UTF-8 encoding.\<close>

definition header_aliases :: "(string \<times> string) list" where
  "header_aliases =
     [(''authority'', ''authority''), (''Authority'', ''authority''), (''authority_code'', ''authority''),
      (''ref_id'', ''ref_id''), (''refid'', ''ref_id''), (''reference'', ''ref_id''), (''reference_id'', ''ref_id''),
      (''amount'', ''amount''), (''Amount'', ''amount''),
      ([CHR 0xD9, CHR 0x85, CHR 0xD8, CHR 0xA8, CHR 0xD9, CHR 0x84, CHR 0xD8, CHR 0xBA], ''amount''),
      (''status'', ''status''), (''Status'', ''status''),
      ([CHR 0xD9, CHR 0x88, CHR 0xD8, CHR 0xB6, CHR 0xD8, CHR 0xB9, CHR 0xDB, CHR 0x8C, CHR 0xD8, CHR 0xAA], ''status'')]"

definition normalize_header :: "string \<Rightarrow> string" where
  "normalize_header h =
     (let stripped = strip h in case map_of header_aliases stripped of None \<Rightarrow> lower stripped | Some c \<Rightarrow> c)"

definition normalize_headers :: "string list \<Rightarrow> exn + (string \<times> string) list" where
  "normalize_headers names =
     (let mapping = map (\<lambda>h. (strip h, normalize_header h)) names; canon = map snd mapping
      in if ''amount'' \<notin> set canon \<or> ''status'' \<notin> set canon \<or> (''authority'' \<notin> set canon \<and> ''ref_id'' \<notin> set canon)
         then Inl ValueError else Inr mapping)"

definition row_blank :: "settlement_row \<Rightarrow> bool" where
  "row_blank r \<longleftrightarrow> sr_authority r = [] \<and> sr_ref_id r = [] \<and> sr_amount r = 0 \<and> sr_status r = []"

definition row_valid :: "settlement_row \<Rightarrow> bool" where
  "row_valid r \<longleftrightarrow> (sr_authority r \<noteq> [] \<or> sr_ref_id r \<noteq> []) \<and> \<not> sr_amount r \<le> 0 \<and> sr_status r \<noteq> []"

definition validate_rows :: "settlement_row list \<Rightarrow> exn + settlement_row list" where
  "validate_rows rows =
     (let cleaned = filter (\<lambda>r. \<not> row_blank r) rows
      in if list_all row_valid cleaned then Inr cleaned else Inl ValueError)"

section \<open>Reconciliation\<close>

definition find_payment_for_reconciliation :: "mdk_db \<Rightarrow> string \<Rightarrow> string \<Rightarrow> string \<Rightarrow> payment row option" where
  "find_payment_for_reconciliation s provider_name authority ref_id =
     (let qs = filter (\<lambda>r. pay_gateway_name (vals r) = provider_name) (objects (payments s));
          by_auth = (if authority = [] then None else first_newest (\<lambda>r. pay_authority (vals r) = authority) qs)
      in case by_auth of
           Some r \<Rightarrow> Some r
         | None \<Rightarrow> if ref_id = [] then None else first_newest (\<lambda>r. pay_ref_id (vals r) = ref_id) qs)"

definition provider_success :: "string \<Rightarrow> bool" where
  "provider_success st = (st \<in> set [''success'', ''paid'', ''verified'', ''100'', ''101''])"

definition classify_reconciliation_row ::
  "payment row option \<Rightarrow> int \<Rightarrow> string \<Rightarrow> bool \<Rightarrow> reconciliation_item_status" where
  "classify_reconciliation_row pay provider_amount provider_status duplicate_ref =
     (if duplicate_ref then DUPLICATE_PROVIDER_REF
      else case pay of
        None \<Rightarrow> MISSING_INTERNAL
      | Some y \<Rightarrow>
          if provider_amount \<noteq> 0 \<and> provider_amount \<noteq> pay_amount (vals y) then RI_AMOUNT_MISMATCH
          else if provider_success provider_status \<and> pay_status (vals y) \<noteq> PAY_SUCCESS then STATUS_MISMATCH
          else if \<not> provider_success provider_status \<and> pay_status (vals y) = PAY_SUCCESS then STATUS_MISMATCH
          else MATCHED)"

text \<open>The loop over the rows, with the references seen so far; one item per row.\<close>

fun reconcile_rows :: "mdk_db \<Rightarrow> nat \<Rightarrow> string \<Rightarrow> string list \<Rightarrow> settlement_row list \<Rightarrow> reconciliation_item list" where
  "reconcile_rows s batch provider seen [] = []"
| "reconcile_rows s batch provider seen (row # rows) =
     (let authority = strip (sr_authority row); ref_id = strip (sr_ref_id row);
          provider_status = lower (strip (sr_status row)); provider_amount = sr_amount row;
          duplicate_ref = (ref_id \<noteq> [] \<and> ref_id \<in> set seen);
          seen' = (if ref_id \<noteq> [] then ref_id # seen else seen);
          pay = find_payment_for_reconciliation s provider authority ref_id
      in \<lparr>ri_batch = batch, ri_payment = map_option row_pk pay, ri_authority = authority,
          ri_provider_ref_id = ref_id, ri_provider_amount = provider_amount, ri_provider_status = provider_status,
          ri_internal_amount = map_option (\<lambda>y. pay_amount (vals y)) pay,
          ri_internal_status = map_option (\<lambda>y. pay_status (vals y)) pay,
          ri_status = classify_reconciliation_row pay provider_amount provider_status duplicate_ref\<rparr>
         # reconcile_rows s batch provider seen' rows)"

definition finalize_reconciliation_batch :: "int \<Rightarrow> reconciliation_item list \<Rightarrow> reconciliation_batch \<Rightarrow> reconciliation_batch" where
  "finalize_reconciliation_batch now items b =
     (let n = (\<lambda>p. length (filter p (map ri_status items)))
      in b\<lparr>rb_matched_count := n (\<lambda>x. x = MATCHED), rb_missing_internal_count := n (\<lambda>x. x = MISSING_INTERNAL),
           rb_duplicate_provider_ref_count := n (\<lambda>x. x = DUPLICATE_PROVIDER_REF),
           rb_mismatch_count := n (\<lambda>x. x \<noteq> MATCHED), rb_status := RC_COMPLETED, rb_completed_at := Some now\<rparr>)"

text \<open>A negative amount is refused by the item table (a positive integer column).\<close>

definition reconcile_provider_payments ::
  "int \<Rightarrow> string \<Rightarrow> settlement_row list \<Rightarrow> string \<Rightarrow> (mdk_db, reconciliation_batch row) svc" where
  "reconcile_provider_payments now provider rows source_name =
     atomic (
     bnd (gets (\<lambda>s. new_row now
        \<lparr>rb_provider_name = lower (strip provider), rb_source_name = strip source_name, rb_status = RC_DRAFT,
         rb_total_rows = length rows, rb_matched_count = 0, rb_mismatch_count = 0, rb_missing_internal_count = 0,
         rb_duplicate_provider_ref_count = 0, rb_completed_at = None\<rparr> (recon_batches s))) (\<lambda>b.
     bnd (gets (\<lambda>s. reconcile_rows s (row_pk b) (rb_provider_name (vals b)) [] rows)) (\<lambda>items.
     seqn (check (list_all (\<lambda>i. 0 \<le> ri_provider_amount i) items) IntegrityError)
     (let b' = b\<lparr>vals := finalize_reconciliation_batch now items (vals b)\<rparr> in
     seqn (modify (\<lambda>s. s\<lparr>recon_batches := recon_batches s @ [b'], recon_items := fold (tbl_insert now) items (recon_items s)\<rparr>))
     (ret b')))))"

section \<open>Control snapshot\<close>

definition build_financial_control_payload :: "mdk_settings \<Rightarrow> int \<Rightarrow> mdk_db \<Rightarrow> (string \<times> int) list" where
  "build_financial_control_payload cfg now s =
     (let stale_cutoff = now - 60 * MADADKAR_PAYMENT_TIMEOUT_MINUTES cfg;
          pay = objects (payments s); risk = objects (risk_signals s);
          ref = objects (refunds s); dis = objects (disbursements s)
      in [(''pending_payments'', int (agg_count (\<lambda>r. pay_status (vals r) = PAY_PENDING) pay)),
          (''stale_pending_payments'', int (agg_count (\<lambda>r. pay_status (vals r) = PAY_PENDING \<and> created_at r < stale_cutoff) pay)),
          (''open_risk_signals'', int (agg_count (\<lambda>r. rk_status (vals r) = RK_OPEN) risk)),
          (''high_risk_signals'', int (agg_count (\<lambda>r. rk_status (vals r) = RK_OPEN \<and> rk_severity (vals r) \<in> {RS_HIGH, RS_CRITICAL}) risk)),
          (''pending_refunds'', int (agg_count (\<lambda>r. rf_status (vals r) = R_PENDING_REVIEW) ref)),
          (''approved_refunds'', int (agg_count (\<lambda>r. rf_status (vals r) = R_APPROVED) ref)),
          (''requested_disbursements'', int (agg_count (\<lambda>r. db_status (vals r) = D_REQUESTED) dis)),
          (''approved_unpaid_disbursements'', int (agg_count (\<lambda>r. db_status (vals r) = D_APPROVED) dis)),
          (''reconciliation_mismatches'', agg_sum (\<lambda>r. int (rb_mismatch_count (vals r))) (\<lambda>_. True) (objects (recon_batches s)))])"

definition flag_specs :: "(string \<times> control_severity) list" where
  "flag_specs =
     [(''stale_pending_payments'', FC_WARNING), (''high_risk_signals'', FC_CRITICAL),
      (''pending_refunds'', FC_WATCH), (''approved_refunds'', FC_WARNING),
      (''requested_disbursements'', FC_WATCH), (''approved_unpaid_disbursements'', FC_WARNING),
      (''reconciliation_mismatches'', FC_WARNING)]"

definition control_count :: "(string \<times> int) list \<Rightarrow> string \<Rightarrow> int" where
  "control_count controls key = (case map_of controls key of None \<Rightarrow> 0 | Some n \<Rightarrow> n)"

definition build_financial_control_flags :: "(string \<times> int) list \<Rightarrow> control_flag list" where
  "build_financial_control_flags controls =
     map (\<lambda>(key, sev). \<lparr>fl_key = key, fl_severity = sev, fl_count = control_count controls key\<rparr>)
       (filter (\<lambda>(key, sev). control_count controls key > 0) flag_specs)"

definition derive_financial_control_severity :: "control_flag list \<Rightarrow> control_severity" where
  "derive_financial_control_severity flags =
     (let severities = map fl_severity flags
      in if FC_CRITICAL \<in> set severities then FC_CRITICAL
         else if FC_WARNING \<in> set severities then FC_WARNING
         else if FC_WATCH \<in> set severities then FC_WATCH
         else FC_HEALTHY)"

text \<open>The local date of a time is its day number in the server's time zone, \<open>tz\<close> seconds from UTC.\<close>

definition generate_financial_control_snapshot ::
  "mdk_settings \<Rightarrow> int \<Rightarrow> int \<Rightarrow> string \<Rightarrow> (mdk_db, control_snapshot row) svc" where
  "generate_financial_control_snapshot cfg tz now task_id =
     bnd (gets (build_financial_control_payload cfg now)) (\<lambda>controls.
     let flags = build_financial_control_flags controls;
         n = (\<lambda>sev. length (filter (\<lambda>f. fl_severity f = sev) flags)) in
     bnd (gets (\<lambda>s. new_row now
        \<lparr>cs_generated_for_date = (now + tz) div 86400, cs_severity = derive_financial_control_severity flags,
         cs_open_flags = length flags, cs_critical_flags = n FC_CRITICAL, cs_warning_flags = n FC_WARNING,
         cs_controls = controls, cs_flags = flags, cs_generated_by_task_id = task_id\<rparr> (control_snapshots s))) (\<lambda>r.
     seqn (modify (\<lambda>s. s\<lparr>control_snapshots := control_snapshots s @ [r]\<rparr>))
     (ret r)))"

section \<open>Reconciliation: accounting for every row\<close>

lemma length_reconcile_rows [simp]: "length (reconcile_rows s b p seen rows) = length rows"
  by (induction rows arbitrary: seen) (simp_all add: Let_def)

lemma length_fold_insert [simp]: "length (fold (tbl_insert now) vs t) = length t + length vs"
  by (induction vs arbitrary: t) (simp_all add: tbl_insert_def)

text \<open>A completed reconciliation accounts for every row of the provider report exactly once: one item is
  stored per row, matched and mismatched rows add up to the rows of the report, and rows without an
  internal payment and repeated references are among the mismatched ones.\<close>

theorem reconciliation_accounts_for_rows:
  assumes "reconcile_provider_payments now provider rows source s = (Inr b, t)"
  shows "rb_total_rows (vals b) = length rows \<and>
    rb_matched_count (vals b) + rb_mismatch_count (vals b) = rb_total_rows (vals b) \<and>
    rb_missing_internal_count (vals b) + rb_duplicate_provider_ref_count (vals b) \<le> rb_mismatch_count (vals b) \<and>
    rb_status (vals b) = RC_COMPLETED \<and> length (recon_items t) = length (recon_items s) + length rows \<and>
    payments t = payments s"
proof -
  have split: "length (filter ((\<lambda>x. x = MATCHED) \<circ> ri_status) ys) + length (filter ((\<lambda>x. x \<noteq> MATCHED) \<circ> ri_status) ys) = length ys" for ys
    by (induction ys) simp_all
  have part: "length (filter ((\<lambda>x. x = MISSING_INTERNAL) \<circ> ri_status) ys) + length (filter ((\<lambda>x. x = DUPLICATE_PROVIDER_REF) \<circ> ri_status) ys) \<le>
      length (filter ((\<lambda>x. x \<noteq> MATCHED) \<circ> ri_status) ys)" for ys
    by (induction ys) auto
  show ?thesis
    using assms
    by (auto simp: reconcile_provider_payments_def finalize_reconciliation_batch_def Let_def svc_inv split part)
qed

definition sample_report :: "settlement_row list" where
  "sample_report = [\<lparr>sr_authority = ''a'', sr_ref_id = ''r1'', sr_amount = 300, sr_status = ''paid''\<rparr>,
     \<lparr>sr_authority = ''b'', sr_ref_id = ''r1'', sr_amount = 300, sr_status = ''paid''\<rparr>]"

theorem reconciliation_accounts_for_rows_witness:
  "\<exists>b t. reconcile_provider_payments 10 ''sandbox'' sample_report ''f'' empty_db = (Inr b, t) \<and>
     rb_matched_count (vals b) + rb_mismatch_count (vals b) = 2 \<and> rb_duplicate_provider_ref_count (vals b) = 1"
proof -
  let ?run = "reconcile_provider_payments 10 ''sandbox'' sample_report ''f'' empty_db"
  have "case fst ?run of Inl e \<Rightarrow> False | Inr b \<Rightarrow> rb_duplicate_provider_ref_count (vals b) = 1" by code_simp
  then obtain b t where run: "?run = (Inr b, t)" "rb_duplicate_provider_ref_count (vals b) = 1"
    by (cases ?run) (auto split: sum.splits)
  from reconciliation_accounts_for_rows [OF run(1)] run show ?thesis by (auto simp: sample_report_def)
qed

lemma classify_matched:
  "classify_reconciliation_row pay amt st dup = MATCHED \<longleftrightarrow>
     \<not> dup \<and> (\<exists>y. pay = Some y \<and> (amt = 0 \<or> amt = pay_amount (vals y)) \<and>
       (provider_success st \<longleftrightarrow> pay_status (vals y) = PAY_SUCCESS))"
  by (auto simp: classify_reconciliation_row_def split: option.splits)

lemma classify_duplicate: "classify_reconciliation_row pay amt st dup = DUPLICATE_PROVIDER_REF \<longleftrightarrow> dup"
  by (auto simp: classify_reconciliation_row_def split: option.splits)

lemma reconcile_duplicates:
  "i < length rows \<Longrightarrow> ri_status (reconcile_rows s b p seen rows ! i) = DUPLICATE_PROVIDER_REF \<longleftrightarrow>
     strip (sr_ref_id (rows ! i)) \<noteq> [] \<and>
     (strip (sr_ref_id (rows ! i)) \<in> set seen \<or> (\<exists>j < i. strip (sr_ref_id (rows ! j)) = strip (sr_ref_id (rows ! i))))"
proof (induction rows arbitrary: seen i)
  case (Cons row rows)
  show ?case
  proof (cases i)
    case 0
    then show ?thesis by (simp add: Let_def classify_duplicate)
  next
    case (Suc m)
    let ?seen = "if strip (sr_ref_id row) \<noteq> [] then strip (sr_ref_id row) # seen else seen"
    have ex: "(\<exists>j < Suc m. Q ((row # rows) ! j)) \<longleftrightarrow> Q row \<or> (\<exists>j < m. Q (rows ! j))" for Q
      by (auto simp: less_Suc_eq_0_disj)
    have "ri_status (reconcile_rows s b p seen (row # rows) ! i) = ri_status (reconcile_rows s b p ?seen rows ! m)"
      by (simp add: Suc Let_def)
    also have "\<dots> = DUPLICATE_PROVIDER_REF \<longleftrightarrow> strip (sr_ref_id (rows ! m)) \<noteq> [] \<and>
        (strip (sr_ref_id (rows ! m)) \<in> set ?seen \<or> (\<exists>j < m. strip (sr_ref_id (rows ! j)) = strip (sr_ref_id (rows ! m))))"
      using Cons.prems by (intro Cons.IH) (simp add: Suc)
    finally show ?thesis
      unfolding Suc ex [of "\<lambda>r. strip (sr_ref_id r) = strip (sr_ref_id ((row # rows) ! Suc m))"] by auto
  qed
qed simp

text \<open>The classification of a row: it is MATCHED exactly when its reference is not a repetition, an
  internal payment was found, the reported amount is absent or equal to the stored one, and provider and
  ledger agree on whether the payment succeeded; and the rows flagged as repeated are exactly those whose
  non-empty reference occurred in an earlier row of the report.\<close>

theorem reconciliation_classification:
  "(classify_reconciliation_row pay amt st dup = MATCHED \<longleftrightarrow>
     \<not> dup \<and> (\<exists>y. pay = Some y \<and> (amt = 0 \<or> amt = pay_amount (vals y)) \<and>
       (provider_success st \<longleftrightarrow> pay_status (vals y) = PAY_SUCCESS))) \<and>
   (i < length rows \<longrightarrow> (ri_status (reconcile_rows s b p [] rows ! i) = DUPLICATE_PROVIDER_REF \<longleftrightarrow>
     strip (sr_ref_id (rows ! i)) \<noteq> [] \<and> (\<exists>j < i. strip (sr_ref_id (rows ! j)) = strip (sr_ref_id (rows ! i)))))"
  using classify_matched reconcile_duplicates [of i rows s b p "[]"] by auto

theorem reconciliation_classification_witness:
  "ri_status (reconcile_rows empty_db 1 ''sandbox'' [] sample_report ! 1) = DUPLICATE_PROVIDER_REF"
proof -
  have "1 < length sample_report \<and> strip (sr_ref_id (sample_report ! 1)) \<noteq> [] \<and>
      strip (sr_ref_id (sample_report ! 0)) = strip (sr_ref_id (sample_report ! 1))" by code_simp
  then show ?thesis
    using reconciliation_classification [of None 0 "[]" False 1 sample_report empty_db 1 "''sandbox''"] by auto
qed

section \<open>Severity of a control snapshot\<close>

text \<open>The severities are ordered from healthy to critical.\<close>

fun severity_rank :: "control_severity \<Rightarrow> nat" where
  "severity_rank FC_HEALTHY = 0"
| "severity_rank FC_WATCH = 1"
| "severity_rank FC_WARNING = 2"
| "severity_rank FC_CRITICAL = 3"

lemma severity_rank_inj: "severity_rank a = severity_rank b \<Longrightarrow> a = b"
  by (cases a; cases b) simp_all

instantiation control_severity :: linorder
begin

definition less_eq_control_severity :: "control_severity \<Rightarrow> control_severity \<Rightarrow> bool" where
  "less_eq_control_severity a b = (severity_rank a \<le> severity_rank b)"

definition less_control_severity :: "control_severity \<Rightarrow> control_severity \<Rightarrow> bool" where
  "less_control_severity a b = (severity_rank a < severity_rank b)"

instance
  by standard (auto simp: less_eq_control_severity_def less_control_severity_def intro: severity_rank_inj)

end

text \<open>The severity of a control snapshot is the greatest severity among its flags, and healthy when there
  is none; a flag is raised exactly for the controls whose count is positive.\<close>

theorem snapshot_severity_is_greatest:
  "derive_financial_control_severity flags = Max (insert FC_HEALTHY (fl_severity ` set flags)) \<and>
   (\<exists>f \<in> set (build_financial_control_flags controls). fl_key f = key) =
     (key \<in> fst ` set flag_specs \<and> 0 < control_count controls key)"
proof
  let ?S = "fl_severity ` set flags"
  have top: "a \<le> FC_CRITICAL" and bot: "FC_HEALTHY \<le> a" for a by (cases a; simp add: less_eq_control_severity_def)+
  have "derive_financial_control_severity flags \<in> insert FC_HEALTHY ?S"
    by (auto simp: derive_financial_control_severity_def Let_def image_iff)
  moreover have "a \<le> derive_financial_control_severity flags" if "a \<in> insert FC_HEALTHY ?S" for a
    using that by (cases a) (auto simp: derive_financial_control_severity_def Let_def less_eq_control_severity_def image_iff)
  ultimately show "derive_financial_control_severity flags = Max (insert FC_HEALTHY ?S)"
    by (intro Max_eqI [symmetric]) auto
  show "(\<exists>f \<in> set (build_financial_control_flags controls). fl_key f = key) =
     (key \<in> fst ` set flag_specs \<and> 0 < control_count controls key)"
    by (force simp: build_financial_control_flags_def)
qed

end
