(* ===== verification/Mdk_System.thy ===== *)
theory Mdk_System
  imports Mdk_Coherence Mdk_Disbursements Mdk_Recon
begin

text \<open>
  The Madadkar services as two transition systems over the database. In the first every
  transaction is a step of its own and the objects it is handed may be stale: this covers every
  interleaving of the workers. In the second whole service calls run one after the other on
  objects read at the start of the call, as the API views do.
\<close>

section \<open>The initial database\<close>

text \<open>A database that has sponsors, templates and preferences but no money yet.\<close>

definition no_money :: "mdk_db \<Rightarrow> bool" where
  "no_money s \<longleftrightarrow> campaigns s = [] \<and> participations s = [] \<and> payments s = [] \<and> refunds s = [] \<and>
     adjustments s = [] \<and> external_fundings s = []"

section \<open>Interleaved transactions\<close>

text \<open>One rule per transaction that touches the money tables. A participation object handed to
  \<open>persist_initiated_payment\<close> or \<open>expire_stale_participation\<close> may have an outdated status, but its key
  and its campaign, which are never written again, are those of the stored row.\<close>

inductive txn_step :: "mdk_env \<Rightarrow> (string \<Rightarrow> string) \<Rightarrow> mdk_db \<Rightarrow> mdk_db \<Rightarrow> bool" for E slugify where
  T_create: "txn_step E slugify s (state_after (create_campaign slugify now sp title ds ci A N has_dl dl vis) s)"
| T_update: "txn_step E slugify s (state_after (update_campaign now c kwargs) s)"
| T_publish: "txn_step E slugify s (state_after (publish_campaign now c) s)"
| T_close: "txn_step E slugify s (state_after (close_campaign now c) s)"
| T_deadline: "txn_step E slugify s (state_after (close_campaign_due_to_deadline now c) s)"
| T_delete: "txn_step E slugify s (state_after (delete_campaign now c) s)"
| T_external: "txn_step E slugify s (state_after (record_external_funding now c n amount meth reference note at rec) s)"
| T_void: "txn_step E slugify s (state_after (void_external_funding now k reason) s)"
| T_reserve: "txn_step E slugify s (state_after (reserve_participation_shares now k user n) s)"
| T_release: "txn_step E slugify s (state_after (release_reserved_participation now k) s)"
| T_persist: "row_pk p \<in> keys_of (participations s) \<Longrightarrow>
    txn_step E slugify s (state_after (persist_initiated_payment now p user amt gw res ip ua) s)"
| T_settle: "txn_step E slugify s (state_after (settle_payment E now pay vr) s)"
| T_mismatch: "txn_step E slugify s (state_after (settle_amount_mismatch now pay vr) s)"
| T_cancel: "txn_step E slugify s (state_after (cancel_pending_payment now authority) s)"
| T_confirm: "txn_step E slugify s (state_after (confirm_sandbox_payment now k) s)"
| T_expire: "part_of s (row_pk p) (p_campaign (vals p)) \<Longrightarrow>
    txn_step E slugify s (state_after (expire_stale_participation now p) s)"
| T_refund: "txn_step E slugify s (state_after (request_payment_refund (env_cfg E) now k amt reason rq note key) s)"
| T_refund_approve: "txn_step E slugify s (state_after (approve_payment_refund now k rev_by note) s)"
| T_refund_reject: "txn_step E slugify s (state_after (reject_payment_refund now k rev_by note) s)"
| T_refund_complete: "txn_step E slugify s (state_after (complete_payment_refund now k note) s)"
| T_adjust: "k \<in> keys_of (campaigns s) \<Longrightarrow>
    txn_step E slugify s (state_after (create_financial_adjustment now k amt ty reason2 rq opay note) s)"
| T_adjust_approve: "txn_step E slugify s (state_after (approve_financial_adjustment now k rev_by) s)"
| T_adjust_reject: "txn_step E slugify s (state_after (reject_financial_adjustment now k rev_by note) s)"
| T_adjust_apply: "txn_step E slugify s (state_after (apply_financial_adjustment (env_cfg E) now k) s)"

lemma no_money_ledger: "no_money s \<Longrightarrow> ledger_ok s"
  by (simp add: no_money_def ledger_ok_def keys_ok_def refs_ok_def counters_ok_def refunds_capped_def)

lemmas ledger_preserved = create_campaign_ok update_campaign_ok publish_campaign_ok close_campaign_ok close_deadline_ok
  delete_campaign_ok record_external_funding_ok void_external_funding_ok reserve_ok release_ok settle_payment_ok
  settle_amount_mismatch_ok cancel_pending_payment_ok confirm_sandbox_ok request_refund_ok approve_refund_ok reject_refund_ok
  complete_refund_ok approve_adjustment_ok reject_adjustment_ok apply_adjustment_ok

lemma txn_step_ledger: "txn_step E slugify s t \<Longrightarrow> ledger_ok s \<Longrightarrow> ledger_ok t"
  by (induction rule: txn_step.induct)
    (simp_all add: ledger_preserved [unfolded preserves_def, rule_format] persist_payment_ok expire_ok create_adjustment_ok)

interpretation txn: invariant_system no_money "txn_step E slugify" ledger_ok
  by unfold_locales (simp_all add: no_money_ledger txn_step_ledger)

section \<open>Service calls one after the other\<close>

datatype mdk_call =
    Create_campaign nat string string string int int bool "int option" bool
  | Update_campaign nat "campaign_field list"
  | Publish_campaign nat
  | Close_campaign nat
  | Delete_campaign nat
  | Record_external_funding nat int "int option" external_funding_method string string "int option" "nat option"
  | Void_external_funding nat string
  | Initiate_participation nat nat int string "string option" string string string
  | Confirm_sandbox_payment nat
  | Verify_payment string
  | Cancel_pending_payment string
  | Expire_participation nat
  | Close_expired_campaigns
  | Request_refund nat int refund_reason "nat option" string "string option"
  | Approve_refund nat "nat option" string
  | Reject_refund nat "nat option" string
  | Complete_refund nat string
  | Create_adjustment nat int adjustment_type string "nat option" "nat option" string
  | Approve_adjustment nat "nat option"
  | Reject_adjustment nat "nat option" string
  | Apply_adjustment nat

definition unit_of :: "('s, 'a) svc \<Rightarrow> ('s, unit) svc" where
  "unit_of m = bnd m (\<lambda>_. ret ())"

text \<open>A view reads the object by its key and hands it to the service.\<close>

fun run_call :: "mdk_env \<Rightarrow> (string \<Rightarrow> string) \<Rightarrow> int \<Rightarrow> mdk_call \<Rightarrow> (mdk_db, unit) svc" where
  "run_call E slugify now (Create_campaign sp title ds ci A N has_dl dl vis) =
     unit_of (create_campaign slugify now sp title ds ci A N has_dl dl vis)"
| "run_call E slugify now (Update_campaign k kwargs) = bnd (fetch campaigns k) (\<lambda>c. unit_of (update_campaign now c kwargs))"
| "run_call E slugify now (Publish_campaign k) = bnd (fetch campaigns k) (\<lambda>c. unit_of (publish_campaign now c))"
| "run_call E slugify now (Close_campaign k) = bnd (fetch campaigns k) (\<lambda>c. unit_of (close_campaign now c))"
| "run_call E slugify now (Delete_campaign k) = bnd (fetch campaigns k) (\<lambda>c. unit_of (delete_campaign now c))"
| "run_call E slugify now (Record_external_funding k n amount meth reference note at rec) =
     bnd (fetch campaigns k) (\<lambda>c. unit_of (record_external_funding now c n amount meth reference note at rec))"
| "run_call E slugify now (Void_external_funding k reason) = unit_of (void_external_funding now k reason)"
| "run_call E slugify now (Initiate_participation k user n cb ip ua mob em) =
     bnd (fetch campaigns k) (\<lambda>c. unit_of (initiate_participation E now c user n cb ip ua mob em))"
| "run_call E slugify now (Confirm_sandbox_payment k) = unit_of (confirm_sandbox_payment now k)"
| "run_call E slugify now (Verify_payment authority) = unit_of (verify_payment E now authority)"
| "run_call E slugify now (Cancel_pending_payment authority) = unit_of (cancel_pending_payment now authority)"
| "run_call E slugify now (Expire_participation k) =
     bnd (fetch participations k) (\<lambda>p. unit_of (expire_stale_participation now p))"
| "run_call E slugify now Close_expired_campaigns = unit_of (close_expired_campaigns_task now)"
| "run_call E slugify now (Request_refund k amt reason rq note key) =
     unit_of (request_payment_refund (env_cfg E) now k amt reason rq note key)"
| "run_call E slugify now (Approve_refund k rv note) = unit_of (approve_payment_refund now k rv note)"
| "run_call E slugify now (Reject_refund k rv reason) = unit_of (reject_payment_refund now k rv reason)"
| "run_call E slugify now (Complete_refund k ref) = unit_of (complete_payment_refund now k ref)"
| "run_call E slugify now (Create_adjustment k amt ty reason rq opay note) =
     bnd (fetch campaigns k) (\<lambda>c.
     case opay of
       None \<Rightarrow> unit_of (create_financial_adjustment now k amt ty reason rq None note)
     | Some i \<Rightarrow> bnd (fetch payments i) (\<lambda>y. unit_of (create_financial_adjustment now k amt ty reason rq (Some y) note)))"
| "run_call E slugify now (Approve_adjustment k rv) = unit_of (approve_financial_adjustment now k rv)"
| "run_call E slugify now (Reject_adjustment k rv reason) = unit_of (reject_financial_adjustment now k rv reason)"
| "run_call E slugify now (Apply_adjustment k) = unit_of (apply_financial_adjustment (env_cfg E) now k)"

text \<open>The one call that the serial invariant restricts: an edit of the number of shares.\<close>

definition admissible :: "mdk_call \<Rightarrow> mdk_db \<Rightarrow> bool" where
  "admissible call s =
     (case call of
        Update_campaign k kwargs \<Rightarrow> (case tbl_get k (campaigns s) of None \<Rightarrow> True | Some c \<Rightarrow> covers_funded c kwargs)
      | _ \<Rightarrow> True)"

inductive call_step :: "mdk_env \<Rightarrow> (string \<Rightarrow> string) \<Rightarrow> mdk_db \<Rightarrow> mdk_db \<Rightarrow> bool" for E slugify where
  Call: "admissible call s \<Longrightarrow> call_step E slugify s (state_after (run_call E slugify now call) s)"

inductive_cases call_stepE: "call_step E slugify s t"

lemma state_after_unit_of [simp]: "state_after (unit_of m) s = state_after m s"
  by (simp add: unit_of_def state_after_bnd_ret)

lemma preserves_unit_of [simp]: "preserves P (unit_of m) = preserves P m"
  by (simp add: preserves_def)

lemma preserves_fetch_bnd:
  "(\<And>s r. P s \<Longrightarrow> tbl_get k (tab s) = Some r \<Longrightarrow> P (state_after (f r) s)) \<Longrightarrow> preserves P (bnd (fetch tab k) f)"
  by (auto simp: preserves_def state_after_bnd fetch_def split: option.split)

lemma close_task_serial: "preserves serial_ok (close_expired_campaigns_task now)"
  unfolding close_expired_campaigns_task_def by (intro preserves_rules guarded_ok campaign_ops_serial)

lemmas serial_preserved = create_campaign_serial campaign_ops_serial record_external_serial void_external_serial
  initiate_serial confirm_sandbox_serial verify_payment_serial [of "resolve_verify E" E for E, folded verify_payment_def]
  cancel_payment_serial close_task_serial request_refund_serial review_serial complete_refund_serial

lemma expire_serial:
  assumes ok: "serial_ok s" and p: "p \<in> set (participations s)"
  shows "serial_ok (state_after (expire_stale_participation now p) s)"
proof (rule transactional_run [where P = serial_ok, OF _ ok])
  show "transactional (expire_stale_participation now p)"
    by (auto simp: expire_stale_participation_def transactional_def ret_def dest: atomic_Inl)
qed (rule expire_serial_step [OF _ ok p])

lemma state_after_fetch:
  "P s \<Longrightarrow> (\<And>r. tbl_get k (tab s) = Some r \<Longrightarrow> P (state_after (f r) s)) \<Longrightarrow> P (state_after (bnd (fetch tab k) f) s)"
  by (auto simp: state_after_bnd fetch_def split: option.split)

lemma run_call_serial:
  assumes ok: "serial_ok s" and adm: "admissible call s"
  shows "serial_ok (state_after (run_call E slugify now call) s)"
proof -
  note kept = serial_preserved [unfolded preserves_def, rule_format, OF ok]
  note fetched = state_after_fetch [where P = serial_ok, OF ok]
  show ?thesis
  proof (cases call)
    case (Update_campaign k kwargs)
    with adm show ?thesis by (auto intro!: fetched update_campaign_serial [OF ok] simp: admissible_def)
  next
    case (Expire_participation k)
    then show ?thesis by (auto intro!: fetched expire_serial [OF ok] dest: tbl_get_Some)
  next
    case (Create_adjustment k amt ty reason rq opay txt_note)
    then show ?thesis
      by (cases opay) (auto intro!: fetched create_adjustment_serial [OF ok] dest: tbl_get_keys)
  qed (auto simp: kept intro!: fetched)
qed

lemma no_money_serial: "no_money s \<Longrightarrow> serial_ok s"
  by (simp add: serial_ok_def no_money_ledger coherent_def no_oversell_def) (simp add: no_money_def)

lemma call_step_serial: "serial_ok s \<Longrightarrow> call_step E slugify s t \<Longrightarrow> serial_ok t"
  by (auto elim!: call_stepE intro: run_call_serial)

interpretation serial: invariant_system no_money "call_step E slugify" serial_ok
  by unfold_locales (simp_all add: no_money_serial call_step_serial)

section \<open>The payment event log\<close>

definition extends_log :: "mdk_db \<Rightarrow> mdk_db \<Rightarrow> bool" where
  "extends_log s t = (\<exists>es. payment_events t = payment_events s @ es)"

interpretation log: evolution extends_log
  by unfold_locales (auto simp: extends_log_def)

lemma log_same: "keeps payment_events m \<Longrightarrow> evolves extends_log m"
  by (rule log.e_keeps) (auto simp: extends_log_def)

lemma log_modify: "(\<And>s. payment_events (h s) = payment_events s) \<Longrightarrow> evolves extends_log (modify h)"
  by (rule log_same) (rule keeps_modify)

lemma log_event: "evolves extends_log (record_payment_event now y kind a b md)"
  by (simp add: evolves_def record_payment_event_def svc_defs extends_log_def)

lemma log_saves:
  "evolves extends_log (save_campaign now k fc)" "evolves extends_log (save_participation now k fp)"
  "evolves extends_log (save_payment now k fy)" "evolves extends_log (save_refund now k fr)"
  "evolves extends_log (save_adjustment now k fa)" "evolves extends_log (sync_campaign_counters now c)"
  unfolding save_campaign_def save_participation_def save_payment_def save_refund_def save_adjustment_def
    sync_campaign_counters_def
  by (intro log.e_rules log_modify; simp)+

lemmas log_rules = log.e_rules log_event log_saves

lemma log_campaign_ops:
  "evolves extends_log (create_campaign slugify now sp title ds ci A N has_dl dl vis)"
  "evolves extends_log (update_campaign now c kwargs)" "evolves extends_log (publish_campaign now c)"
  "evolves extends_log (close_campaign now c)" "evolves extends_log (delete_campaign now c)"
  "evolves extends_log (auto_complete_campaign_if_fully_funded now c)"
  "evolves extends_log (close_campaign_due_to_deadline now c)"
  unfolding create_campaign_def update_campaign_def check_deadline_update_def publish_campaign_def close_campaign_def
    delete_campaign_def auto_complete_campaign_if_fully_funded_def close_campaign_due_to_deadline_def Let_def
  by (intro log_rules log_modify; simp)+

lemma log_external:
  "evolves extends_log (record_external_funding now c n amount meth reference note at rec)"
  "evolves extends_log (void_external_funding now k reason)"
  unfolding record_external_funding_def void_external_funding_def Let_def
  by (intro log_rules log_modify log_campaign_ops; simp)+

lemma log_settle: "evolves extends_log (settle_payment E now pay vr)"
  unfolding settle_payment_def succeed_payment_def fail_payment_def Let_def
  by (intro log_rules log_campaign_ops log_same keeps_rules)

lemma log_fail: "evolves extends_log (fail_payment now locked p c gs kind md)"
  unfolding fail_payment_def Let_def by (intro log_rules)

lemma log_lift: "evolves extends_log (lift_result r)"
  unfolding lift_result_def by (intro log_rules)

lemma log_payments:
  "evolves extends_log (initiate_participation E now c user n cb ip ua mob em)"
  "evolves extends_log (confirm_sandbox_payment now k)" "evolves extends_log (verify_payment E now authority)"
  "evolves extends_log (cancel_pending_payment now authority)" "evolves extends_log (expire_stale_participation now p)"
  "evolves extends_log (close_expired_campaigns_task now)"
  unfolding initiate_participation_def reserve_participation_shares_def release_reserved_participation_def
    persist_initiated_payment_def confirm_sandbox_payment_def verify_payment_def verify_payment_via_def
    settle_amount_mismatch_def cancel_pending_payment_def expire_stale_participation_def expire_pending_payment_def
    close_expired_campaigns_task_def guarded_def Let_def
  by (intro log_rules log_modify log_lift log_fail log_settle log_campaign_ops; simp)+

lemma log_reviews:
  "evolves extends_log (request_payment_refund cfg now k amt reason rq note key)"
  "evolves extends_log (approve_payment_refund now k rv note)" "evolves extends_log (reject_payment_refund now k rv note)"
  "evolves extends_log (complete_payment_refund now k note)"
  "evolves extends_log (create_financial_adjustment now k amt ty note rq opay note2)"
  "evolves extends_log (approve_financial_adjustment now k rv)" "evolves extends_log (reject_financial_adjustment now k rv note)"
  "evolves extends_log (apply_financial_adjustment cfg now k)"
  unfolding request_payment_refund_def approve_payment_refund_def reject_payment_refund_def complete_payment_refund_def
    create_financial_adjustment_def approve_financial_adjustment_def reject_financial_adjustment_def
    apply_financial_adjustment_def Let_def
  by (intro log_rules log_modify log_same [OF keeps_events_risk(2)] log_same [OF keeps_events_risk(3)]; simp)+

lemma log_run_call: "evolves extends_log (run_call E slugify now call)"
  by (cases call) (auto simp: unit_of_def split: option.split intro!: log_rules log_campaign_ops log_external log_payments log_reviews)

end
