(* ===== verification/Mdk_Example.thy ===== *)
theory Mdk_Example
  imports Mdk_System
begin

text \<open>
  A concrete run of Madadkar on the sandbox gateway, at which the theorems are instantiated: a
  campaign of ten shares is created and published, a user buys three shares, confirms and verifies the
  payment, and asks for a full refund, which is approved and completed.
\<close>

section \<open>Environment\<close>

definition demo_cfg :: mdk_settings where
  "demo_cfg = \<lparr>NOTIFICATIONS_EMAIL_ENABLED = False, NOTIFICATIONS_SMS_ENABLED = False,
     MADADKAR_PAYMENT_PROVIDER = ''sandbox'', MADADKAR_PAYMENT_CALLBACK_BASE_URL = ''https://setad.example'',
     MADADKAR_PAYMENT_TIMEOUT_MINUTES = 20, MADADKAR_ZARINPAL_MERCHANT_ID = [],
     MADADKAR_RISK_HIGH_AMOUNT_NEW_USER_THRESHOLD = 10000000, MADADKAR_RISK_PAYMENT_FAILURE_SPIKE_THRESHOLD = 5,
     MADADKAR_RISK_IP_DISTINCT_USERS_THRESHOLD = 5, MADADKAR_RISK_REFUND_VELOCITY_THRESHOLD = 3,
     MADADKAR_RISK_CAMPAIGN_REFUND_SPIKE_THRESHOLD = 5, MADADKAR_RISK_ADJUSTMENT_RATIO_THRESHOLD = (1, 5)\<rparr>"

definition demo_env :: mdk_env where
  "demo_env = \<lparr>env_cfg = demo_cfg, env_zarinpal_sandbox = True,
     env_gateway = \<lparr>ge_http = (\<lambda>_ _. HttpTimeout), ge_token = ''t1'', ge_repr = (\<lambda>_. [])\<rparr>,
     env_receipt = \<lparr>re_hash = (\<lambda>x. x), re_canonical_json = (\<lambda>_ _ _ _. ''h''), re_isoformat = int_str,
       re_user_email = (\<lambda>_. []), re_user_full_name = (\<lambda>_. [])\<rparr>,
     env_format = (\<lambda>x _. x)\<rparr>"

definition demo_slug :: "string \<Rightarrow> string" where
  "demo_slug x = x"

definition demo_call :: "int \<Rightarrow> mdk_call \<Rightarrow> mdk_db \<Rightarrow> mdk_db" where
  "demo_call now call s = state_after (run_call demo_env demo_slug now call) s"

section \<open>The run\<close>

definition demo0 :: mdk_db where
  "demo0 = empty_db\<lparr>sponsors := [\<lparr>row_pk = 1, created_at = 0, updated_at = 0, is_active = True,
     vals = \<lparr>sp_name = ''S'', sp_slug = ''s'', sp_logo = None\<rparr>\<rparr>]\<rparr>"

definition demo_published :: mdk_db where
  "demo_published = demo_call 20 (Publish_campaign 1)
     (demo_call 10 (Create_campaign 1 ''t'' [] [] 1000 10 False None True) demo0)"

definition demo_pending :: mdk_db where
  "demo_pending = demo_call 40 (Confirm_sandbox_payment 1)
     (demo_call 30 (Initiate_participation 1 7 3 ''cb'' None [] [] []) demo_published)"

definition demo_paid :: mdk_db where
  "demo_paid = demo_call 50 (Verify_payment ''SBX-t1'') demo_pending"

definition demo_refund :: mdk_db where
  "demo_refund = demo_call 60 (Request_refund 1 300 USER_REQUEST None [] (Some ''k1'')) demo_paid"

definition demo_refunded :: mdk_db where
  "demo_refunded = demo_call 80 (Complete_refund 1 ''r'') (demo_call 70 (Approve_refund 1 (Some 2) []) demo_refund)"

section \<open>The states of the run, evaluated\<close>

text \<open>
  The states evaluated once: as code equations they spare later evaluations the run that leads to them.
\<close>

lemma demo_published_value [code]:
  "demo_published =
     \<lparr>ntf_templates = [], ntf_events = [], ntf_deliveries = [], ntf_preferences = [], activities = [],
     on_commit_dispatch = [], campaigns = [\<lparr>row_pk = 1, created_at = 10, updated_at = 20, is_active = True, vals =
     \<lparr>c_sponsor = 1, c_title = ''t'', c_slug = ''t'', c_description = [], c_cover_image = [], c_total_amount = 1000,
     c_total_shares = 10, c_share_price = 100, c_purchased_shares = 0, c_purchased_amount = 0, c_participant_count = 0,
     c_external_funded_shares = 0, c_external_funded_amount = 0, c_status = C_PUBLISHED, c_is_visible = True, c_has_deadline =
     False, c_deadline = None, c_published_at = Some 20, c_completed_at = None, c_closed_at = None\<rparr>\<rparr>],
     participations = [], payments = [], refunds = [], adjustments = [], external_fundings = [], payment_events = [], sponsors
     = [\<lparr>row_pk = 1, created_at = 0, updated_at = 0, is_active = True, vals = \<lparr>sp_name = ''S'', sp_slug = ''s'',
     sp_logo = None\<rparr>\<rparr>], campaign_images = [], disbursements = [], receipts = [], risk_signals = [],
     recon_batches = [], recon_items = [], control_snapshots = []\<rparr>"
  by code_simp

lemma demo_pending_value [code]:
  "demo_pending =
     \<lparr>ntf_templates = [], ntf_events = [], ntf_deliveries = [], ntf_preferences = [], activities = [],
     on_commit_dispatch = [], campaigns = [\<lparr>row_pk = 1, created_at = 10, updated_at = 30, is_active = True, vals =
     \<lparr>c_sponsor = 1, c_title = ''t'', c_slug = ''t'', c_description = [], c_cover_image = [], c_total_amount = 1000,
     c_total_shares = 10, c_share_price = 100, c_purchased_shares = 3, c_purchased_amount = 0, c_participant_count = 0,
     c_external_funded_shares = 0, c_external_funded_amount = 0, c_status = C_PUBLISHED, c_is_visible = True, c_has_deadline =
     False, c_deadline = None, c_published_at = Some 20, c_completed_at = None, c_closed_at = None\<rparr>\<rparr>],
     participations = [\<lparr>row_pk = 1, created_at = 30, updated_at = 30, is_active = True, vals = \<lparr>p_campaign = 1,
     p_user = 7, p_share_count = 3, p_share_price_snapshot = 100, p_total_amount = 300, p_status = PENDING_PAYMENT, p_paid_at
     = None\<rparr>\<rparr>], payments = [\<lparr>row_pk = 1, created_at = 30, updated_at = 40, is_active = True, vals =
     \<lparr>pay_participation = 1, pay_user = 7, pay_amount = 300, pay_gateway_name = ''sandbox'', pay_authority =
     ''SBX-t1'', pay_ref_id = [], pay_gateway_status = ''SANDBOX-CONFIRMED'', pay_status = PAY_PENDING, pay_paid_at = None,
     pay_verified_at = None, pay_ip_address = None, pay_user_agent = []\<rparr>\<rparr>], refunds = [], adjustments = [],
     external_fundings = [], payment_events = [\<lparr>row_pk = 1, created_at = 30, updated_at = 30, is_active = True, vals =
     \<lparr>ev_payment = 1, ev_kind = EV_CREATED, ev_previous_status = None, ev_new_status = Some PAY_PENDING, ev_amount =
     300, ev_gateway_status = ''100'', ev_ref_id = [], ev_metadata = [(''campaign_id'', JInt 1), (''participation_id'', JInt
     1)]\<rparr>\<rparr>], sponsors = [\<lparr>row_pk = 1, created_at = 0, updated_at = 0, is_active = True, vals =
     \<lparr>sp_name = ''S'', sp_slug = ''s'', sp_logo = None\<rparr>\<rparr>], campaign_images = [], disbursements = [],
     receipts = [], risk_signals = [], recon_batches = [], recon_items = [], control_snapshots = []\<rparr>"
  by code_simp

lemma demo_paid_value [code]:
  "demo_paid =
     \<lparr>ntf_templates = [], ntf_events = [\<lparr>row_pk = 1, created_at = 50, updated_at = 50, is_active = True, vals =
     \<lparr>ne_event_type = ''madadkar.payment_success'', ne_aggregate_type = ''madadkar_payment'', ne_aggregate_id = ''1'',
     ne_actor = Some 7, ne_payload = [(''title'', JStr ''payment_success''), (''campaign_title'', JStr ''t''), (''amount'',
     JInt 300), (''ref_id'', JStr ''SBXREF-t1'')], ne_priority = NP_HIGH, ne_status = NE_PENDING, ne_processed_at = None,
     ne_attempt_count = 0\<rparr>\<rparr>], ntf_deliveries = [\<lparr>row_pk = 1, created_at = 50, updated_at = 50, is_active
     = True, vals = \<lparr>nd_event = 1, nd_recipient = 7, nd_channel = NC_IN_APP, nd_status = ND_PENDING, nd_subject =
     ''payment_success'', nd_body = ''payment_success'', nd_provider = [], nd_external_id = [], nd_error_message = [],
     nd_sent_at = None, nd_read_at = None\<rparr>\<rparr>], ntf_preferences = [], activities = [\<lparr>row_pk = 1, created_at
     = 50, updated_at = 50, is_active = True, vals = \<lparr>ua_user = 7, ua_actor = Some 7, ua_event_type =
     ''madadkar.payment_success'', ua_app_label = ''madadkar'', ua_verb = AV_PAID, ua_title = ''payment_success'', ua_summary
     = [], ua_aggregate_type = ''madadkar_payment'', ua_aggregate_id = ''1'', ua_metadata = [(''title'', JStr
     ''payment_success''), (''campaign_title'', JStr ''t''), (''amount'', JInt 300), (''ref_id'', JStr ''SBXREF-t1''),
     (''notification_event_id'', JInt 1)]\<rparr>\<rparr>], on_commit_dispatch = [1], campaigns = [\<lparr>row_pk = 1,
     created_at = 10, updated_at = 50, is_active = True, vals = \<lparr>c_sponsor = 1, c_title = ''t'', c_slug = ''t'',
     c_description = [], c_cover_image = [], c_total_amount = 1000, c_total_shares = 10, c_share_price = 100,
     c_purchased_shares = 3, c_purchased_amount = 300, c_participant_count = 1, c_external_funded_shares = 0,
     c_external_funded_amount = 0, c_status = C_PUBLISHED, c_is_visible = True, c_has_deadline = False, c_deadline = None,
     c_published_at = Some 20, c_completed_at = None, c_closed_at = None\<rparr>\<rparr>], participations = [\<lparr>row_pk =
     1, created_at = 30, updated_at = 50, is_active = True, vals = \<lparr>p_campaign = 1, p_user = 7, p_share_count = 3,
     p_share_price_snapshot = 100, p_total_amount = 300, p_status = PAID, p_paid_at = Some 50\<rparr>\<rparr>], payments =
     [\<lparr>row_pk = 1, created_at = 30, updated_at = 50, is_active = True, vals = \<lparr>pay_participation = 1, pay_user =
     7, pay_amount = 300, pay_gateway_name = ''sandbox'', pay_authority = ''SBX-t1'', pay_ref_id = ''SBXREF-t1'',
     pay_gateway_status = ''100'', pay_status = PAY_SUCCESS, pay_paid_at = Some 50, pay_verified_at = Some 50, pay_ip_address
     = None, pay_user_agent = []\<rparr>\<rparr>], refunds = [], adjustments = [], external_fundings = [], payment_events =
     [\<lparr>row_pk = 1, created_at = 30, updated_at = 30, is_active = True, vals = \<lparr>ev_payment = 1, ev_kind =
     EV_CREATED, ev_previous_status = None, ev_new_status = Some PAY_PENDING, ev_amount = 300, ev_gateway_status = ''100'',
     ev_ref_id = [], ev_metadata = [(''campaign_id'', JInt 1), (''participation_id'', JInt 1)]\<rparr>\<rparr>, \<lparr>row_pk
     = 2, created_at = 50, updated_at = 50, is_active = True, vals = \<lparr>ev_payment = 1, ev_kind = EV_VERIFY_SUCCESS,
     ev_previous_status = Some PAY_PENDING, ev_new_status = Some PAY_SUCCESS, ev_amount = 300, ev_gateway_status = ''100'',
     ev_ref_id = ''SBXREF-t1'', ev_metadata = [(''already_verified'', JBool False)]\<rparr>\<rparr>], sponsors =
     [\<lparr>row_pk = 1, created_at = 0, updated_at = 0, is_active = True, vals = \<lparr>sp_name = ''S'', sp_slug = ''s'',
     sp_logo = None\<rparr>\<rparr>], campaign_images = [], disbursements = [], receipts = [\<lparr>row_pk = 1, created_at =
     50, updated_at = 50, is_active = True, vals = \<lparr>dr_payment = 1, dr_user = 7, dr_campaign = 1, dr_receipt_number =
     ''MDK-19700101-0000000001'', dr_receipt_hash = ''h'', dr_hash_version = 1, dr_amount = 300, dr_issued_at = 50,
     dr_payment_snapshot = [(''payment_id'', JInt 1), (''authority'', JStr ''SBX-t1''), (''ref_id'', JStr ''SBXREF-t1''),
     (''gateway_name'', JStr ''sandbox''), (''paid_at'', JStr ''50''), (''share_count'', JInt 3)], dr_campaign_snapshot =
     [(''campaign_id'', JInt 1), (''title'', JStr ''t''), (''slug'', JStr ''t''), (''sponsor_id'', JInt 1), (''sponsor_name'',
     JStr ''S'')], dr_donor_snapshot = [(''user_id'', JInt 7), (''email'', JStr []), (''full_name'', JStr [])],
     dr_resend_count = 0, dr_last_resent_at = None\<rparr>\<rparr>], risk_signals = [], recon_batches = [], recon_items = [],
     control_snapshots = []\<rparr>"
  by code_simp

lemma demo_step:
  assumes "reach no_money (call_step demo_env demo_slug) s" and "admissible call s"
  shows "reach no_money (call_step demo_env demo_slug) (demo_call now call s)"
  unfolding demo_call_def by (rule reach_step [OF assms(1)]) (rule Call [OF assms(2)])

lemma demo_reach:
  "reach no_money (call_step demo_env demo_slug) demo_published"
  "reach no_money (call_step demo_env demo_slug) demo_pending"
  "reach no_money (call_step demo_env demo_slug) demo_paid"
  "reach no_money (call_step demo_env demo_slug) demo_refund"
  "reach no_money (call_step demo_env demo_slug) demo_refunded"
proof -
  have "reach no_money (call_step demo_env demo_slug) demo0"
    by (rule reach_init) (simp add: demo0_def no_money_def empty_db_def)
  then show pub: "reach no_money (call_step demo_env demo_slug) demo_published"
    unfolding demo_published_def by (intro demo_step) (simp_all add: admissible_def)
  show pend: "reach no_money (call_step demo_env demo_slug) demo_pending"
    unfolding demo_pending_def by (intro demo_step pub) (simp_all add: admissible_def)
  show paid: "reach no_money (call_step demo_env demo_slug) demo_paid"
    unfolding demo_paid_def by (intro demo_step pend) (simp_all add: admissible_def)
  show ref: "reach no_money (call_step demo_env demo_slug) demo_refund"
    unfolding demo_refund_def by (intro demo_step paid) (simp_all add: admissible_def)
  show "reach no_money (call_step demo_env demo_slug) demo_refunded"
    unfolding demo_refunded_def by (intro demo_step ref) (simp_all add: admissible_def)
qed

text \<open>A run at the grain of transactions: the reservation has committed, the gateway was not asked yet.\<close>

definition demo_reserved :: mdk_db where
  "demo_reserved = state_after (reserve_participation_shares 30 1 7 3)
     (state_after (publish_campaign 20 (hd (campaigns (state_after (create_campaign demo_slug 10 1 ''t'' [] [] 1000 10 False None True) demo0))))
     (state_after (create_campaign demo_slug 10 1 ''t'' [] [] 1000 10 False None True) demo0))"

lemma txn_reach:
  "reach no_money (txn_step E slugify) s \<Longrightarrow> txn_step E slugify s t \<Longrightarrow> reach no_money (txn_step E slugify) t"
  by (rule reach_step)

lemma demo_txn_reach: "reach no_money (txn_step demo_env demo_slug) demo_reserved"
  unfolding demo_reserved_def
  by (rule txn_reach [OF _ T_reserve], rule txn_reach [OF _ T_publish], rule txn_reach [OF _ T_create], rule reach_init)
    (simp add: demo0_def no_money_def empty_db_def)

text \<open>The same run carried on: the payment is stored and settled by two racing callbacks, then refunded in part.\<close>

definition demo_vr :: verify_result where
  "demo_vr = \<lparr>vr_success = True, vr_already_verified = False, vr_ref_id = ''ref'', vr_verified_amount = 300,
     vr_gateway_status = ''100'', vr_error_message = []\<rparr>"

definition demo_stored :: mdk_db where
  "demo_stored = state_after (persist_initiated_payment 30 (hd (participations demo_reserved)) 7 300 ''sandbox''
     (sandbox_request_payment (env_gateway demo_env) []) None []) demo_reserved"

definition demo_settled :: mdk_db where
  "demo_settled = state_after (settle_payment demo_env 50 (hd (payments demo_stored)) demo_vr) demo_stored"

definition demo_race :: mdk_db where
  "demo_race = state_after (request_payment_refund (env_cfg demo_env) 60 1 100 USER_REQUEST None [] None)
     (state_after (settle_payment demo_env 51 (hd (payments demo_stored)) demo_vr) demo_settled)"

lemma demo_reserved_value [code]:
  "demo_reserved =
     \<lparr>ntf_templates = [], ntf_events = [], ntf_deliveries = [], ntf_preferences = [], activities = [],
     on_commit_dispatch = [], campaigns = [\<lparr>row_pk = 1, created_at = 10, updated_at = 30, is_active = True, vals =
     \<lparr>c_sponsor = 1, c_title = ''t'', c_slug = ''t'', c_description = [], c_cover_image = [], c_total_amount = 1000,
     c_total_shares = 10, c_share_price = 100, c_purchased_shares = 3, c_purchased_amount = 0, c_participant_count = 0,
     c_external_funded_shares = 0, c_external_funded_amount = 0, c_status = C_PUBLISHED, c_is_visible = True, c_has_deadline =
     False, c_deadline = None, c_published_at = Some 20, c_completed_at = None, c_closed_at = None\<rparr>\<rparr>],
     participations = [\<lparr>row_pk = 1, created_at = 30, updated_at = 30, is_active = True, vals = \<lparr>p_campaign = 1,
     p_user = 7, p_share_count = 3, p_share_price_snapshot = 100, p_total_amount = 300, p_status = PENDING_PAYMENT, p_paid_at
     = None\<rparr>\<rparr>], payments = [], refunds = [], adjustments = [], external_fundings = [], payment_events = [],
     sponsors = [\<lparr>row_pk = 1, created_at = 0, updated_at = 0, is_active = True, vals = \<lparr>sp_name = ''S'', sp_slug
     = ''s'', sp_logo = None\<rparr>\<rparr>], campaign_images = [], disbursements = [], receipts = [], risk_signals = [],
     recon_batches = [], recon_items = [], control_snapshots = []\<rparr>"
  by code_simp

lemma demo_stored_value [code]:
  "demo_stored =
     \<lparr>ntf_templates = [], ntf_events = [], ntf_deliveries = [], ntf_preferences = [], activities = [],
     on_commit_dispatch = [], campaigns = [\<lparr>row_pk = 1, created_at = 10, updated_at = 30, is_active = True, vals =
     \<lparr>c_sponsor = 1, c_title = ''t'', c_slug = ''t'', c_description = [], c_cover_image = [], c_total_amount = 1000,
     c_total_shares = 10, c_share_price = 100, c_purchased_shares = 3, c_purchased_amount = 0, c_participant_count = 0,
     c_external_funded_shares = 0, c_external_funded_amount = 0, c_status = C_PUBLISHED, c_is_visible = True, c_has_deadline =
     False, c_deadline = None, c_published_at = Some 20, c_completed_at = None, c_closed_at = None\<rparr>\<rparr>],
     participations = [\<lparr>row_pk = 1, created_at = 30, updated_at = 30, is_active = True, vals = \<lparr>p_campaign = 1,
     p_user = 7, p_share_count = 3, p_share_price_snapshot = 100, p_total_amount = 300, p_status = PENDING_PAYMENT, p_paid_at
     = None\<rparr>\<rparr>], payments = [\<lparr>row_pk = 1, created_at = 30, updated_at = 30, is_active = True, vals =
     \<lparr>pay_participation = 1, pay_user = 7, pay_amount = 300, pay_gateway_name = ''sandbox'', pay_authority =
     ''SBX-t1'', pay_ref_id = [], pay_gateway_status = ''100'', pay_status = PAY_PENDING, pay_paid_at = None, pay_verified_at
     = None, pay_ip_address = None, pay_user_agent = []\<rparr>\<rparr>], refunds = [], adjustments = [], external_fundings =
     [], payment_events = [\<lparr>row_pk = 1, created_at = 30, updated_at = 30, is_active = True, vals = \<lparr>ev_payment =
     1, ev_kind = EV_CREATED, ev_previous_status = None, ev_new_status = Some PAY_PENDING, ev_amount = 300, ev_gateway_status
     = ''100'', ev_ref_id = [], ev_metadata = [(''campaign_id'', JInt 1), (''participation_id'', JInt 1)]\<rparr>\<rparr>],
     sponsors = [\<lparr>row_pk = 1, created_at = 0, updated_at = 0, is_active = True, vals = \<lparr>sp_name = ''S'', sp_slug
     = ''s'', sp_logo = None\<rparr>\<rparr>], campaign_images = [], disbursements = [], receipts = [], risk_signals = [],
     recon_batches = [], recon_items = [], control_snapshots = []\<rparr>"
  by code_simp

lemma demo_settled_value [code]:
  "demo_settled =
     \<lparr>ntf_templates = [], ntf_events = [\<lparr>row_pk = 1, created_at = 50, updated_at = 50, is_active = True, vals =
     \<lparr>ne_event_type = ''madadkar.payment_success'', ne_aggregate_type = ''madadkar_payment'', ne_aggregate_id = ''1'',
     ne_actor = Some 7, ne_payload = [(''title'', JStr ''payment_success''), (''campaign_title'', JStr ''t''), (''amount'',
     JInt 300), (''ref_id'', JStr ''ref'')], ne_priority = NP_HIGH, ne_status = NE_PENDING, ne_processed_at = None,
     ne_attempt_count = 0\<rparr>\<rparr>], ntf_deliveries = [\<lparr>row_pk = 1, created_at = 50, updated_at = 50, is_active
     = True, vals = \<lparr>nd_event = 1, nd_recipient = 7, nd_channel = NC_IN_APP, nd_status = ND_PENDING, nd_subject =
     ''payment_success'', nd_body = ''payment_success'', nd_provider = [], nd_external_id = [], nd_error_message = [],
     nd_sent_at = None, nd_read_at = None\<rparr>\<rparr>], ntf_preferences = [], activities = [\<lparr>row_pk = 1, created_at
     = 50, updated_at = 50, is_active = True, vals = \<lparr>ua_user = 7, ua_actor = Some 7, ua_event_type =
     ''madadkar.payment_success'', ua_app_label = ''madadkar'', ua_verb = AV_PAID, ua_title = ''payment_success'', ua_summary
     = [], ua_aggregate_type = ''madadkar_payment'', ua_aggregate_id = ''1'', ua_metadata = [(''title'', JStr
     ''payment_success''), (''campaign_title'', JStr ''t''), (''amount'', JInt 300), (''ref_id'', JStr ''ref''),
     (''notification_event_id'', JInt 1)]\<rparr>\<rparr>], on_commit_dispatch = [1], campaigns = [\<lparr>row_pk = 1,
     created_at = 10, updated_at = 50, is_active = True, vals = \<lparr>c_sponsor = 1, c_title = ''t'', c_slug = ''t'',
     c_description = [], c_cover_image = [], c_total_amount = 1000, c_total_shares = 10, c_share_price = 100,
     c_purchased_shares = 3, c_purchased_amount = 300, c_participant_count = 1, c_external_funded_shares = 0,
     c_external_funded_amount = 0, c_status = C_PUBLISHED, c_is_visible = True, c_has_deadline = False, c_deadline = None,
     c_published_at = Some 20, c_completed_at = None, c_closed_at = None\<rparr>\<rparr>], participations = [\<lparr>row_pk =
     1, created_at = 30, updated_at = 50, is_active = True, vals = \<lparr>p_campaign = 1, p_user = 7, p_share_count = 3,
     p_share_price_snapshot = 100, p_total_amount = 300, p_status = PAID, p_paid_at = Some 50\<rparr>\<rparr>], payments =
     [\<lparr>row_pk = 1, created_at = 30, updated_at = 50, is_active = True, vals = \<lparr>pay_participation = 1, pay_user =
     7, pay_amount = 300, pay_gateway_name = ''sandbox'', pay_authority = ''SBX-t1'', pay_ref_id = ''ref'', pay_gateway_status
     = ''100'', pay_status = PAY_SUCCESS, pay_paid_at = Some 50, pay_verified_at = Some 50, pay_ip_address = None,
     pay_user_agent = []\<rparr>\<rparr>], refunds = [], adjustments = [], external_fundings = [], payment_events =
     [\<lparr>row_pk = 1, created_at = 30, updated_at = 30, is_active = True, vals = \<lparr>ev_payment = 1, ev_kind =
     EV_CREATED, ev_previous_status = None, ev_new_status = Some PAY_PENDING, ev_amount = 300, ev_gateway_status = ''100'',
     ev_ref_id = [], ev_metadata = [(''campaign_id'', JInt 1), (''participation_id'', JInt 1)]\<rparr>\<rparr>, \<lparr>row_pk
     = 2, created_at = 50, updated_at = 50, is_active = True, vals = \<lparr>ev_payment = 1, ev_kind = EV_VERIFY_SUCCESS,
     ev_previous_status = Some PAY_PENDING, ev_new_status = Some PAY_SUCCESS, ev_amount = 300, ev_gateway_status = ''100'',
     ev_ref_id = ''ref'', ev_metadata = [(''already_verified'', JBool False)]\<rparr>\<rparr>], sponsors = [\<lparr>row_pk =
     1, created_at = 0, updated_at = 0, is_active = True, vals = \<lparr>sp_name = ''S'', sp_slug = ''s'', sp_logo =
     None\<rparr>\<rparr>], campaign_images = [], disbursements = [], receipts = [\<lparr>row_pk = 1, created_at = 50,
     updated_at = 50, is_active = True, vals = \<lparr>dr_payment = 1, dr_user = 7, dr_campaign = 1, dr_receipt_number =
     ''MDK-19700101-0000000001'', dr_receipt_hash = ''h'', dr_hash_version = 1, dr_amount = 300, dr_issued_at = 50,
     dr_payment_snapshot = [(''payment_id'', JInt 1), (''authority'', JStr ''SBX-t1''), (''ref_id'', JStr ''ref''),
     (''gateway_name'', JStr ''sandbox''), (''paid_at'', JStr ''50''), (''share_count'', JInt 3)], dr_campaign_snapshot =
     [(''campaign_id'', JInt 1), (''title'', JStr ''t''), (''slug'', JStr ''t''), (''sponsor_id'', JInt 1), (''sponsor_name'',
     JStr ''S'')], dr_donor_snapshot = [(''user_id'', JInt 7), (''email'', JStr []), (''full_name'', JStr [])],
     dr_resend_count = 0, dr_last_resent_at = None\<rparr>\<rparr>], risk_signals = [], recon_batches = [], recon_items = [],
     control_snapshots = []\<rparr>"
  by code_simp

lemma demo_race_reach: "reach no_money (txn_step demo_env demo_slug) demo_race"
proof -
  have "row_pk (hd (participations demo_reserved)) \<in> keys_of (participations demo_reserved)" by code_simp
  then have "reach no_money (txn_step demo_env demo_slug) demo_stored"
    unfolding demo_stored_def by (rule txn_reach [OF demo_txn_reach T_persist])
  then show ?thesis
    unfolding demo_race_def demo_settled_def
    by (intro txn_reach [OF _ T_refund] txn_reach [OF _ T_settle])
qed

end
