(* ===== verification/Mdk_Correctness.thy ===== *)
theory Mdk_Correctness
  imports Mdk_Example
begin

text \<open>
  The properties of the Madadkar money flow: invariants of every interleaving of transactions and
  of every sequence of calls, and the behaviour of the payment services on each branch.
\<close>

section \<open>Invariants\<close>

text \<open>C1. In every state that any interleaving of the transactions can reach, with stale objects and
  concurrent callbacks, the denormalised counters of every campaign equal the sums over the
  participations, refunds, applied adjustments and offline fundings they summarise.\<close>

theorem counters_match_sources:
  assumes "reach no_money (txn_step E slugify) s" and "c \<in> set (campaigns s)"
  shows "c_purchased_shares (vals c) = reserved_shares s (row_pk c) \<and>
    c_purchased_amount (vals c) =
      max (paid_amount s (row_pk c) - completed_refunds s (row_pk c) + adjustment_delta s (row_pk c)) 0 \<and>
    c_participant_count (vals c) = unique_users s (row_pk c) \<and>
    c_external_funded_shares (vals c) = external_shares s (row_pk c) \<and>
    c_external_funded_amount (vals c) = external_amount s (row_pk c)"
  using txn.reach_inv [OF assms(1)] counters_ok_other [OF _ assms(2)] by (auto simp: ledger_ok_def synced_iff)

theorem counters_match_sources_witness:
  "list_all (\<lambda>c. c_purchased_shares (vals c) = reserved_shares demo_reserved (row_pk c)) (campaigns demo_reserved) \<and>
   map (\<lambda>c. c_purchased_shares (vals c)) (campaigns demo_reserved) = [3]"
proof
  show "list_all (\<lambda>c. c_purchased_shares (vals c) = reserved_shares demo_reserved (row_pk c)) (campaigns demo_reserved)"
    using counters_match_sources [OF demo_txn_reach] by (auto simp: list_all_iff)
qed code_simp





text \<open>C4. In every interleaving of the transactions, the refunds of a payment that are pending,
  approved or completed never add up to more than the payment.\<close>

theorem refunds_never_exceed_payment:
  assumes "reach no_money (txn_step E slugify) s" and "y \<in> set (payments s)"
  shows "completed_refund_total s (row_pk y) + open_refund_total s (row_pk y) \<le> pay_amount (vals y)"
  using txn.reach_inv [OF assms(1)] assms(2) by (auto simp: ledger_ok_def refunds_capped_def live_refunds_split)

theorem refunds_never_exceed_payment_witness:
  "list_all (\<lambda>y. completed_refund_total demo_race (row_pk y) + open_refund_total demo_race (row_pk y) \<le> pay_amount (vals y))
     (payments demo_race) \<and> map (\<lambda>y. open_refund_total demo_race (row_pk y)) (payments demo_race) = [100]"
proof
  show "list_all (\<lambda>y. completed_refund_total demo_race (row_pk y) + open_refund_total demo_race (row_pk y) \<le> pay_amount (vals y))
     (payments demo_race)"
    using refunds_never_exceed_payment [OF demo_race_reach] by (auto simp: list_all_iff)
qed code_simp

section \<open>Settling a payment\<close>

lemma settle_payment_done:
  assumes "settle_payment E now pay vr s = (Inr y, t)"
  shows "tbl_get (row_pk pay) (payments t) = Some y \<and> (pay_status (vals y) = PAY_SUCCESS \<or> pay_status (vals y) = PAY_FAILED)"
proof -
  consider (kept) "tbl_get (row_pk pay) (payments s) = Some y" "pay_status (vals y) = PAY_SUCCESS \<or> pay_status (vals y) = PAY_FAILED" "t = s"
    | (fail) locked p c where "tbl_get (row_pk pay) (payments s) = Some locked"
        "fail_payment now locked p c (vr_gateway_status vr) EV_VERIFY_FAILED [(''error_message'', JStr (vr_error_message vr))] s = (Inr y, t)"
    | (succeed) locked p c where "tbl_get (row_pk pay) (payments s) = Some locked" "succeed_payment E now locked p c vr s = (Inr y, t)"
    using assms by (auto simp: settle_payment_def atomic_Inr bnd_Inr fetch_Inr follow_Inr ret_Inr split: if_splits)
  then show ?thesis
  proof cases
    case fail
    then show ?thesis using fail_payment_fields(1,6) [OF fail(2)] tbl_get_Some [OF fail(1)] by (simp add: tbl_get_upd)
  next
    case succeed
    then have "y = locked\<lparr>updated_at := now, vals := mark_success now vr (vals locked)\<rparr>"
      using succeed_payment_Inr [OF succeed(2)] by metis
    then show ?thesis
      using succeed_payment_fields [OF succeed(2)] succeed(1) tbl_get_Some [OF succeed(1)] by (simp add: tbl_get_upd mark_success_def)
  qed simp
qed





lemma issue_receipt_stored:
  assumes "issue_donation_receipt_for_payment R now y s = (Inr r, t)"
  shows "r \<in> set (objects (receipts t)) \<and> dr_payment (vals r) = row_pk y"
proof -
  have "dr_payment (build_receipt R now y p c sp) = row_pk y" for p c sp
    by (simp add: build_receipt_def Let_def)
  with assms show ?thesis
    by (auto simp: issue_donation_receipt_for_payment_def Let_def bnd_Inr seqn_Inr check_Inr gets_Inr follow_Inr modify_Inr ret_Inr
        objects_tbl_insert find_Some_iff split: option.splits)
qed

lemma succeed_payment_receipt:
  assumes "succeed_payment E now locked p c vr s = (Inr y, t)"
  shows "\<exists>r \<in> set (objects (receipts t)). dr_payment (vals r) = row_pk locked"
proof -
  let ?y = "locked\<lparr>updated_at := now, vals := mark_success now vr (vals locked)\<rparr>"
  from assms obtain s5 s6 s7 r1 r2 r3 where a: "issue_donation_receipt_for_payment (env_receipt E) now ?y s5 = (Inr r1, s6)"
    and b: "evaluate_payment_risk (env_cfg E) now ?y 60 s6 = (Inr r2, s7)"
    and d: "notify_madadkar_payment_success E now ?y s7 = (Inr r3, t)"
    by (auto simp: succeed_payment_def Let_def bnd_Inr seqn_Inr ret_Inr)
  have "receipts t = receipts s6"
    using keepsD [OF keeps_notify(3) d] keepsD [OF keeps_payment_risk b, of receipts] by simp
  with issue_receipt_stored [OF a] show ?thesis by auto
qed

lemma succeed_payment_events:
  assumes "succeed_payment E now locked p c vr s = (Inr y, t)"
  shows "\<exists>e. payment_events t = payment_events s @ [e] \<and> ev_kind (vals e) = EV_VERIFY_SUCCESS \<and> ev_payment (vals e) = row_pk locked \<and>
    ev_previous_status (vals e) = Some (pay_status (vals locked)) \<and> ev_new_status (vals e) = Some PAY_SUCCESS \<and>
    ev_amount (vals e) = pay_amount (vals locked)"
  using assms
proof (rule succeed_payment_Inr, goal_cases)
  case (1 s1 s2 s3 s4 s5 e c' c'')
  have "payment_events t = payment_events s2"
    using 1(7) auto_complete_frame [OF 1(5)] keepsD [OF keeps_parts(9) 1(4)] keepsD [OF keeps_parts(8) 1(3)] by auto
  then show ?case using 1(1,2,8) by (auto simp: svc_inv mark_success_def)
qed

text \<open>C7. A successful answer for a pending payment makes the payment SUCCESS with the reference of the
  gateway and its participation PAID, appends exactly one VERIFY_SUCCESS event from PENDING to
  SUCCESS over the amount of the payment, and leaves a receipt for it, all in the same transaction.\<close>

theorem settle_payment_success:
  assumes "settle_payment E now pay vr s = (Inr y, t)" and "vr_success vr"
    and "tbl_get (row_pk pay) (payments s) = Some locked" and "pay_status (vals locked) = PAY_PENDING"
  shows "tbl_get (row_pk pay) (payments t) = Some y \<and> pay_status (vals y) = PAY_SUCCESS \<and> pay_ref_id (vals y) = vr_ref_id vr \<and>
    pay_paid_at (vals y) = Some now \<and> pay_amount (vals y) = pay_amount (vals locked) \<and>
    (\<exists>p. tbl_all (pay_participation (vals y)) (participations t) = Some p \<and> p_status (vals p) = PAID \<and> p_paid_at (vals p) = Some now) \<and>
    (\<exists>e. payment_events t = payment_events s @ [e] \<and> ev_kind (vals e) = EV_VERIFY_SUCCESS \<and> ev_payment (vals e) = row_pk pay \<and>
       ev_previous_status (vals e) = Some PAY_PENDING \<and> ev_new_status (vals e) = Some PAY_SUCCESS \<and>
       ev_amount (vals e) = pay_amount (vals locked)) \<and>
    (\<exists>r \<in> set (objects (receipts t)). dr_payment (vals r) = row_pk pay)"
proof -
  have pk: "row_pk locked = row_pk pay" using tbl_get_Some [OF assms(3)] by simp
  from assms obtain p c where p: "tbl_all (pay_participation (vals locked)) (participations s) = Some p"
    and run: "succeed_payment E now locked p c vr s = (Inr y, t)"
    by (auto simp: settle_payment_def atomic_Inr bnd_Inr fetch_Inr follow_Inr ret_Inr split: if_splits)
  have y: "y = locked\<lparr>updated_at := now, vals := mark_success now vr (vals locked)\<rparr>"
    using succeed_payment_Inr [OF run] by metis
  have "row_pk p = pay_participation (vals locked)" using tbl_all_Some [OF p] by simp
  then have "\<exists>q. tbl_all (pay_participation (vals y)) (participations t) = Some q \<and> p_status (vals q) = PAID \<and> p_paid_at (vals q) = Some now"
    using succeed_payment_fields [OF run] p by (simp add: tbl_all_upd y mark_success_def)
  then show ?thesis
    using settle_payment_done [OF assms(1)] succeed_payment_events [OF run] succeed_payment_receipt [OF run] pk assms(4)
    by (auto simp: y mark_success_def)
qed

theorem settle_payment_success_witness:
  "list_all (\<lambda>y. pay_status (vals y) = PAY_SUCCESS) (payments demo_settled) \<and>
   (\<exists>r \<in> set (objects (receipts demo_settled)). dr_payment (vals r) = 1) \<and>
   length (payment_events demo_settled) = length (payment_events demo_stored) + 1"
proof -
  let ?run = "settle_payment demo_env 50 (hd (payments demo_stored)) demo_vr demo_stored"
  have "(case fst ?run of Inl e \<Rightarrow> False | Inr y \<Rightarrow> True) \<and> (case tbl_get (row_pk (hd (payments demo_stored))) (payments demo_stored) of
      None \<Rightarrow> False | Some l \<Rightarrow> pay_status (vals l) = PAY_PENDING) \<and> row_pk (hd (payments demo_stored)) = 1 \<and> vr_success demo_vr" by code_simp
  then obtain y l where run: "?run = (Inr y, demo_settled)" "tbl_get (row_pk (hd (payments demo_stored))) (payments demo_stored) = Some l"
      "pay_status (vals l) = PAY_PENDING" "row_pk (hd (payments demo_stored)) = 1" "vr_success demo_vr"
    by (auto simp: demo_settled_def state_after_def prod_eq_iff split: sum.splits option.splits)
  have "list_all (\<lambda>y. pay_status (vals y) = PAY_SUCCESS) (payments demo_settled)" by code_simp
  with settle_payment_success [OF run(1,5,2,3)] run(4) show ?thesis by auto
qed

end
