(* ===== verification/Mdk_Branches.thy ===== *)
theory Mdk_Branches
  imports Mdk_Example
begin

text \<open>
  The error branches and the maintenance task of the payment flow: what a failing gateway, a
  misconfigured gateway and an expired reservation leave in the database, the append-only event
  log, and the idempotency key of refund requests.
\<close>

section \<open>A gateway that fails\<close>

lemma reserve_error: "reserve_participation_shares now k user n s \<noteq> (Inl PaymentGatewayError, t)"
  by (auto simp: reserve_participation_shares_def sync_campaign_counters_def Let_def svc_defs split: option.split if_split)

lemma persist_error: "persist_initiated_payment now p user amt gw res ip ua s \<noteq> (Inl PaymentGatewayError, t)"
  by (auto simp: persist_initiated_payment_def record_payment_event_def Let_def svc_defs)

lemma release_error: "release_reserved_participation now k s \<noteq> (Inl PaymentGatewayError, t)"
  by (auto simp: release_reserved_participation_def sync_campaign_counters_def svc_defs split: option.split)

lemma provider_error: "get_payment_provider cfg name \<noteq> Inl PaymentGatewayError"
  by (auto simp: get_payment_provider_def Let_def split: option.split provider.split)

lemma bnd_ret_Inl: "bnd m (\<lambda>x. ret (g x)) s = (Inl e, t) \<longleftrightarrow> m s = (Inl e, t)"
  by (auto simp: bnd_def ret_def split: prod.split sum.split)

lemma bnd_run: "m s = (Inr x, u) \<Longrightarrow> bnd m f s = f x u"
  by (simp add: bnd_def)

lemma seqn_check: "b \<Longrightarrow> seqn (check b e) k = k"
  by (simp add: seqn_def bnd_def check_def ret_def)

lemma initiate_gateway_error:
  assumes "initiate_participation E now c user n cb ip ua mob em s = (Inl PaymentGatewayError, t)"
  obtains p u where "reserve_participation_shares now (row_pk c) user n s = (Inr p, u)"
    "release_reserved_participation now (row_pk p) u = (Inr (), t)"
proof -
  obtain r u where res: "reserve_participation_shares now (row_pk c) user n s = (r, u)" by (cases "reserve_participation_shares now (row_pk c) user n s")
  have rel: "release_reserved_participation now k u = (Inr (), t)"
    if "seqn (release_reserved_participation now k) (raise PaymentGatewayError) u = (Inl PaymentGatewayError, t)" for k
    using that release_error [of now k u] by (auto simp: seqn_def bnd_def raise_def split: prod.splits sum.splits)
  have valid: "validate_share_count n" using assms by (auto simp: initiate_participation_def svc_defs split: if_splits)
  obtain p where r: "r = Inr p"
    using assms res valid reserve_error [of now "row_pk c" user n s u]
    by (cases r) (auto simp: initiate_participation_def seqn_def bnd_def check_def ret_def)
  obtain prov where prov: "get_payment_provider (env_cfg E) [] = Inr prov"
    using assms res valid r provider_error [of "env_cfg E" "[]"]
    by (cases "get_payment_provider (env_cfg E) []") (auto simp: initiate_participation_def seqn_def bnd_def check_def ret_def
        lift_result_def raise_def Let_def)
  have "release_reserved_participation now (row_pk p) u = (Inr (), t)"
    using assms persist_error
    by (auto simp: initiate_participation_def seqn_check [OF valid] bnd_run [of "reserve_participation_shares now (row_pk c) user n" s, OF res [unfolded r]] Let_def prov bnd_ret_Inl
        split: sum.splits if_splits intro!: rel)
  with that res r show thesis by blast
qed

lemma release_fresh:
  assumes res: "reserve_participation_shares now k user n s = (Inr p, u)"
    and rel: "release_reserved_participation now (row_pk p) u = (Inr (), t)"
  shows "participations t = participations s @ [p\<lparr>updated_at := now, vals := (vals p)\<lparr>p_status := P_FAILED\<rparr>\<rparr>]"
    "payments t = payments s" "external_fundings t = external_fundings s"
proof -
  note f = reserve_Inr [OF res]
  have old: "tbl_upd (row_pk p) now h (participations s) = participations s" for h
    using next_pk_fresh [of "participations s"] f(1) by (auto simp: tbl_upd_def image_iff intro!: map_idI)
  have "tbl_get (row_pk p) (participations u) = Some p"
  proof -
    have act: "is_active p" using res by (rule reserve_fields) simp
    have "tbl_all (row_pk p) (objects (participations s)) = None"
      using next_pk_fresh [of "participations s"] f(1) by (auto simp: tbl_all_None_iff objects_def)
    then show ?thesis using act f(2) by (simp add: tbl_get_def objects_def tbl_all_snoc)
  qed
  then have "participations t = tbl_upd (row_pk p) now (\<lambda>p. p\<lparr>p_status := P_FAILED\<rparr>) (participations u)"
      "payments t = payments u" "external_fundings t = external_fundings u"
    using rel f(3) by (auto simp: release_reserved_participation_def svc_inv split: if_splits)
  moreover have "payments u = payments s" "external_fundings u = external_fundings s"
    using res by (rule reserve_fields, simp)+
  ultimately show "participations t = participations s @ [p\<lparr>updated_at := now, vals := (vals p)\<lparr>p_status := P_FAILED\<rparr>\<rparr>]"
    "payments t = payments s" "external_fundings t = external_fundings s"
    using old f(2) by (simp_all add: tbl_upd_def)
qed

text \<open>C8. When the gateway rejects the payment request or raises, \<open>initiate_participation\<close> reports a gateway
  error and gives the reserved shares back: the only trace is one FAILED participation, there is no
  payment, and the reserved shares of every campaign are what they were.\<close>

theorem gateway_failure_releases_shares:
  assumes "initiate_participation E now c user n cb ip ua mob em s = (Inl PaymentGatewayError, t)"
  shows "(\<exists>p. participations t = participations s @ [p] \<and> p_status (vals p) = P_FAILED) \<and> payments t = payments s \<and>
    (\<forall>k. reserved_shares t k = reserved_shares s k \<and> paid_amount t k = paid_amount s k \<and> external_shares t k = external_shares s k)"
  using assms
proof (rule initiate_gateway_error)
  fix p u
  assume "reserve_participation_shares now (row_pk c) user n s = (Inr p, u)" "release_reserved_participation now (row_pk p) u = (Inr (), t)"
  note t = release_fresh [OF this]
  show ?thesis
    using t(2) by (auto simp: t(1,3) reserved_shares_def paid_amount_def external_shares_def objects_def)
qed

definition demo_zarinpal :: mdk_env where
  "demo_zarinpal = demo_env\<lparr>env_cfg := demo_cfg\<lparr>MADADKAR_PAYMENT_PROVIDER := ''zarinpal'', MADADKAR_ZARINPAL_MERCHANT_ID := ''m''\<rparr>\<rparr>"

theorem gateway_failure_releases_shares_witness:
  "\<exists>t. initiate_participation demo_zarinpal 30 (hd (campaigns demo_published)) 7 3 [] None [] [] [] demo_published = (Inl PaymentGatewayError, t) \<and>
     reserved_shares t 1 = reserved_shares demo_published 1 \<and> payments t = payments demo_published"
proof -
  let ?run = "initiate_participation demo_zarinpal 30 (hd (campaigns demo_published)) 7 3 [] None [] [] [] demo_published"
  have "fst ?run = Inl PaymentGatewayError" by code_simp
  then obtain t where run: "?run = (Inl PaymentGatewayError, t)" by (metis prod.collapse)
  from gateway_failure_releases_shares [OF run] run show ?thesis by auto
qed

section \<open>A gateway that is not configured\<close>

text \<open>The provider is resolved after the reservation has committed and outside the error handling:
  when the configured provider is unknown or lacks its merchant id, the call raises and the shares stay
  reserved by a participation that is pending and has no payment.\<close>

theorem unconfigured_provider_keeps_reservation:
  assumes "get_payment_provider (env_cfg E) [] = Inl e" and "validate_share_count n"
    and "reserve_participation_shares now (row_pk c) user n s = (Inr p, u)"
  shows "initiate_participation E now c user n cb ip ua mob em s = (Inl e, u) \<and>
    p \<in> set (participations u) \<and> p_status (vals p) = PENDING_PAYMENT \<and> payments u = payments s \<and>
    reserved_shares u (row_pk c) = reserved_shares s (row_pk c) + n"
proof -
  note f = reserve_Inr [OF assms(3)]
  have "initiate_participation E now c user n cb ip ua mob em s = (Inl e, u)"
    using assms by (simp add: initiate_participation_def seqn_def bnd_def check_def ret_def raise_def lift_result_def Let_def)
  moreover have "payments u = payments s" using assms(3) by (rule reserve_fields) simp
  moreover have "is_active p" using assms(3) by (rule reserve_fields) simp
  ultimately show ?thesis using f by (simp add: reserved_shares_def objects_def)
qed

definition demo_broken :: mdk_env where
  "demo_broken = demo_env\<lparr>env_cfg := demo_cfg\<lparr>MADADKAR_PAYMENT_PROVIDER := ''zarinpal''\<rparr>\<rparr>"

theorem unconfigured_provider_keeps_reservation_witness:
  "\<exists>u. initiate_participation demo_broken 30 (hd (campaigns demo_published)) 7 3 [] None [] [] [] demo_published =
       (Inl ZarinpalNotConfiguredError, u) \<and> reserved_shares u (row_pk (hd (campaigns demo_published))) =
       reserved_shares demo_published (row_pk (hd (campaigns demo_published))) + 3"
proof -
  let ?res = "reserve_participation_shares 30 (row_pk (hd (campaigns demo_published))) 7 3 demo_published"
  have prov: "get_payment_provider (env_cfg demo_broken) [] = Inl ZarinpalNotConfiguredError" by code_simp
  have valid: "validate_share_count 3" by code_simp
  have "case fst ?res of Inl e \<Rightarrow> False | Inr p \<Rightarrow> True" by code_simp
  then obtain p u where res: "?res = (Inr p, u)" by (cases ?res) (auto split: sum.splits)
  show ?thesis using unconfigured_provider_keeps_reservation [OF prov valid res] by blast
qed

section \<open>The event log\<close>


section \<open>Expiring stale reservations\<close>

lemma guarded_total: "\<exists>r t. guarded m s = (Inr r, t) \<and> (case r of Inl e \<Rightarrow> m s = (Inl e, t) | Inr x \<Rightarrow> m s = (Inr x, t))"
  by (cases "m s"; cases "fst (m s)") (auto simp: guarded_def try_svc_def bnd_def ret_def)

lemma expire_loop:
  assumes "for_each ps (\<lambda>p. guarded (expire_stale_participation now p)) s = (Inr rs, t)"
    and "count_failures rs = 0" and "list_all (\<lambda>p. p_status (vals p) = PENDING_PAYMENT) ps"
  shows "length rs = length ps \<and> (\<forall>r \<in> set (participations t). p_status (vals r) = PENDING_PAYMENT \<longrightarrow>
    r \<in> set (participations s) \<and> row_pk r \<notin> row_pk ` set ps)"
  using assms
proof (induction ps arbitrary: s rs)
  case Nil
  then show ?case by (simp add: ret_Inr)
next
  case (Cons p ps)
  from Cons.prems(1) obtain r rs' u where step: "guarded (expire_stale_participation now p) s = (Inr r, u)"
    and rest: "for_each ps (\<lambda>p. guarded (expire_stale_participation now p)) u = (Inr rs', t)" and rs: "rs = r # rs'"
    by (auto simp: bnd_Inr ret_Inr)
  from rs Cons.prems(2) obtain y where r: "r = Inr y" and nf: "count_failures rs' = 0"
    by (cases r) (auto simp: count_failures_def)
  from guarded_total [of "expire_stale_participation now p" s] step r
  have "expire_stale_participation now p s = (Inr y, u)" by auto
  then have parts: "participations u = tbl_upd (row_pk p) now (\<lambda>x. x\<lparr>p_status := EXPIRED\<rparr>) (participations s)"
    using Cons.prems(3) by (intro expire_fields(1)) simp_all
  have "q \<in> set (participations s) \<and> row_pk q \<noteq> row_pk p" if "q \<in> set (participations u)" "p_status (vals q) = PENDING_PAYMENT" for q
    using that by (auto simp: parts set_tbl_upd split: if_splits)
  with Cons.IH [OF rest nf] Cons.prems(3) rs show ?case by auto
qed



end
