(* ===== verification/Mdk_Workflows.thy ===== *)
theory Mdk_Workflows
  imports Mdk_Example
begin

text \<open>
  The reviewed money movements: refunds, financial adjustments and disbursements. Each is a review
  workflow; disbursements are moreover bounded by what the campaign has collected.
\<close>

section \<open>Reviews\<close>

text \<open>C11. Whatever sequence of review calls arrives, on whatever rows, the calls that succeed on one
  refund, one adjustment or one disbursement form one of the words of the workflow: nothing, an
  approval, an approval followed by a single completion, or a rejection. In particular a refund is
  completed, an adjustment applied and a disbursement paid at most once.\<close>

theorem reviews_follow_workflow:
  "review_of k (review_log review_refund rcalls s) \<in> set (review_words (phase_of_refund s k)) \<and>
   review_of k (review_log review_adjustment acalls s) \<in> set (review_words (phase_of_adjustment s k)) \<and>
   review_of k (review_log review_disbursement dcalls s) \<in> set (review_words (phase_of_disbursement s k))"
  using refund_review.log_words adjustment_review.log_words disbursement_review.log_words by simp

section \<open>The idempotency key of a refund request\<close>

lemma request_refund_new:
  assumes "request_payment_refund cfg now k amt reason rq note (Some key) s = (Inr r, t)" and "t \<noteq> s"
  shows "refunds t = refunds s @ [r]" "payments t = payments s" "is_active r" "rf_payment (vals r) = k" "rf_amount (vals r) = amt"
    "rf_status (vals r) = R_PENDING_REVIEW" "rf_idempotency_key (vals r) = Some key"
    "\<forall>q \<in> set (refunds s). rf_idempotency_key (vals q) \<noteq> Some key"
proof -
  have "money t = money (s\<lparr>refunds := refunds s @ [r]\<rparr>) \<and> is_active r \<and> rf_payment (vals r) = k \<and> rf_amount (vals r) = amt \<and>
      rf_status (vals r) = R_PENDING_REVIEW \<and> rf_idempotency_key (vals r) = Some key \<and>
      (\<forall>q \<in> set (refunds s). rf_idempotency_key (vals q) \<noteq> Some key)"
    using assms
    by (auto simp: request_payment_refund_def Let_def atomic_Inr bnd_Inr seqn_Inr check_Inr fetch_Inr gets_Inr modify_Inr ret_Inr
        refund_constraints_def list_all_iff
        split: option.splits dest!: keepsD [OF keeps_money_event] keepsD [OF keeps_money_risk(2)])
  then show "refunds t = refunds s @ [r]" "payments t = payments s" "is_active r" "rf_payment (vals r) = k" "rf_amount (vals r) = amt"
    "rf_status (vals r) = R_PENDING_REVIEW" "rf_idempotency_key (vals r) = Some key"
    "\<forall>q \<in> set (refunds s). rf_idempotency_key (vals q) \<noteq> Some key" by (auto simp: money_def)
qed

text \<open>The idempotency key is looked up after the availability check: once a request has been stored
  whose amount no longer fits a second time, sending the very same request again is refused with a
  workflow error, although the stored request is found under its key.\<close>

theorem refund_retry_refused:
  assumes "request_payment_refund cfg now k amt reason rq note (Some key) s = (Inr r, t)" and "t \<noteq> s" and "key \<noteq> []"
    and "tbl_get k (payments s) = Some y" and "pay_amount (vals y) < completed_refund_total s k + open_refund_total s k + 2 * amt"
  shows "refund_by_key t (Some key) = Some r \<and>
    request_payment_refund cfg now' k amt reason rq note (Some key) t = (Inl RefundWorkflowError, t)"
proof -
  note n = request_refund_new [OF assms(1,2)]
  have "filter (\<lambda>q. rf_idempotency_key (vals q) = Some key) (objects (refunds t)) = [r]"
    using n(3,7,8) by (auto simp: n(1) objects_def filter_empty_conv)
  then have "refund_by_key t (Some key) = Some r"
    using assms(3) by (simp add: refund_by_key_def first_newest_def)
  moreover have "live_refunds t k = live_refunds s k + amt"
    using n by (simp add: live_refunds_def objects_def)
  then have "pay_amount (vals y) - completed_refund_total t k - open_refund_total t k < amt"
    using assms(5) live_refunds_split [of t k] live_refunds_split [of s k] by linarith
  then have "request_payment_refund cfg now' k amt reason rq note (Some key) t = (Inl RefundWorkflowError, t)"
    using assms(4) n(2) by (simp add: request_payment_refund_def atomic_def bnd_def seqn_def fetch_def check_def ret_def raise_def gets_def)
  ultimately show ?thesis by blast
qed

theorem refund_retry_refused_witness:
  "\<exists>r. refund_by_key demo_refund (Some ''k1'') = Some r \<and>
     request_payment_refund demo_cfg 61 1 300 USER_REQUEST None [] (Some ''k1'') demo_refund = (Inl RefundWorkflowError, demo_refund)"
proof -
  let ?run = "request_payment_refund demo_cfg 60 1 300 USER_REQUEST None [] (Some ''k1'') demo_paid"
  have st: "demo_refund = snd ?run"
    by (simp add: demo_refund_def demo_call_def demo_env_def) (simp add: state_after_def)
  have "case fst ?run of Inl e \<Rightarrow> False | Inr r \<Rightarrow> True" by code_simp
  then obtain r where run: "?run = (Inr r, demo_refund)" by (cases ?run) (auto simp: st split: sum.splits)
  have "length (refunds demo_refund) = 1 \<and> length (refunds demo_paid) = 0" by code_simp
  then have new: "demo_refund \<noteq> demo_paid" by auto
  have "case tbl_get 1 (payments demo_paid) of None \<Rightarrow> False
      | Some y \<Rightarrow> pay_amount (vals y) < completed_refund_total demo_paid 1 + open_refund_total demo_paid 1 + 2 * 300" by code_simp
  then obtain y where "tbl_get 1 (payments demo_paid) = Some y"
      "pay_amount (vals y) < completed_refund_total demo_paid 1 + open_refund_total demo_paid 1 + 2 * 300" by (auto split: option.splits)
  from refund_retry_refused [OF run new _ this, of 61] show ?thesis by auto
qed

section \<open>Disbursements\<close>

text \<open>The disbursement services as a system of their own: requests and reviews in any order.\<close>

inductive disb_step :: "mdk_db \<Rightarrow> mdk_db \<Rightarrow> bool" where
  D_request: "disb_step s (state_after (request_campaign_disbursement now k amt recipient purpose rq ident bank doc note) s)"
| D_review: "disb_step s (state_after (review_disbursement q op k) s)"

definition no_disbursements :: "mdk_db \<Rightarrow> bool" where
  "no_disbursements s \<longleftrightarrow> disbursements s = [] \<and> distinct (map row_pk (campaigns s)) \<and>
     list_all (\<lambda>c. campaign_constraints (vals c)) (campaigns s)"

definition allocation_ok :: "mdk_db \<Rightarrow> bool" where
  "allocation_ok s \<longleftrightarrow> distinct (map row_pk (campaigns s)) \<and> distinct (map row_pk (disbursements s)) \<and>
     (\<forall>c \<in> set (campaigns s). committed_disbursements s (row_pk c) \<le> c_purchased_amount (vals c)) \<and>
     (\<forall>d \<in> set (disbursements s). 1 \<le> db_amount (vals d))"

lemma request_disbursement_Inr:
  assumes "request_campaign_disbursement now k amt recipient purpose rq ident bank doc note s = (Inr d, t)"
  shows "\<exists>c. tbl_get k (campaigns s) = Some c \<and> 1 \<le> amt \<and> amt \<le> max (c_purchased_amount (vals c) - committed_disbursements s k) 0 \<and>
    t = s\<lparr>disbursements := disbursements s @ [d]\<rparr> \<and> is_active d \<and> row_pk d = next_pk (disbursements s) \<and> db_campaign (vals d) = k \<and> db_amount (vals d) = amt \<and>
    db_status (vals d) = D_REQUESTED"
  using assms tbl_get_Some [of k "campaigns s"]
  by (auto simp: request_campaign_disbursement_def calculate_campaign_disbursable_amount_def atomic_Inr bnd_Inr seqn_Inr check_Inr
      fetch_Inr gets_Inr modify_Inr ret_Inr)

lemma request_disbursement_committed:
  assumes "request_campaign_disbursement now k amt recipient purpose rq ident bank doc note s = (Inr d, t)"
  shows "committed_disbursements t j = committed_disbursements s j + (if j = k then amt else 0)"
  using request_disbursement_Inr [OF assms] by (auto simp: committed_disbursements_def objects_def)

lemma allocation_request:
  assumes run: "request_campaign_disbursement now k amt recipient purpose rq ident bank doc note s = (Inr d, t)" and ok: "allocation_ok s"
  shows "allocation_ok t"
proof -
  obtain c where c: "tbl_get k (campaigns s) = Some c" "1 \<le> amt" "amt \<le> max (c_purchased_amount (vals c) - committed_disbursements s k) 0"
    and t: "t = s\<lparr>disbursements := disbursements s @ [d]\<rparr>" "db_amount (vals d) = amt" "row_pk d = next_pk (disbursements s)"
    using request_disbursement_Inr [OF run] by blast
  have "committed_disbursements t (row_pk e) \<le> c_purchased_amount (vals e)" if "e \<in> set (campaigns s)" for e
  proof (cases "row_pk e = k")
    case True
    then have "e = c" using tbl_get_Some [OF c(1)] that ok distinct_pk_eq [of "campaigns s" e c] by (auto simp: allocation_ok_def)
    then show ?thesis using c(2,3) True request_disbursement_committed [OF run, of k] by auto
  next
    case False
    then show ?thesis using ok that request_disbursement_committed [OF run, of "row_pk e"] by (simp add: allocation_ok_def)
  qed
  then show ?thesis using ok t c(2) next_pk_fresh [of "disbursements s"] by (auto simp: allocation_ok_def)
qed

lemma allocation_review:
  assumes run: "review_disbursement q op k s = (Inr d, t)" and ok: "allocation_ok s"
  shows "allocation_ok t"
proof -
  obtain r f now a b where r: "tbl_get k (disbursements s) = Some r" "t = s\<lparr>disbursements := tbl_upd k now f (disbursements s)\<rparr>"
      "disbursement_phase (db_status (vals r)) = Some a" "review_next op a = Some b" "disbursement_phase (db_status (f (vals r))) = Some b"
      "\<forall>v. db_amount (f v) = db_amount v \<and> db_campaign (f v) = db_campaign v"
    using review_disbursement_run [OF run] by blast
  have live: "db_status (vals r) \<in> {D_REQUESTED, D_APPROVED, D_PAID}"
    using r(3,4) by (cases "db_status (vals r)") (auto elim: review_nextE)
  have uniq: "z = r" if "z \<in> set (disbursements s)" "row_pk z = k" for z
    using that tbl_get_Some [OF r(1)] ok distinct_pk_eq [of "disbursements s" z r] by (auto simp: allocation_ok_def)
  have amt: "1 \<le> db_amount (vals r)" using tbl_get_Some [OF r(1)] ok by (simp add: allocation_ok_def)
  have "committed_disbursements t j \<le> committed_disbursements s j" for j
    unfolding committed_disbursements_def r(2)
    by (simp, rule agg_sum_upd_le) (use uniq live amt r(6) in auto)
  then have "committed_disbursements t (row_pk c) \<le> c_purchased_amount (vals c)" if "c \<in> set (campaigns s)" for c
    using ok that by (meson allocation_ok_def order_trans)
  then show ?thesis using ok r(6) by (auto simp: r(2) allocation_ok_def set_tbl_upd)
qed

lemma transactional_disbursements:
  "transactional (request_campaign_disbursement now k amt recipient purpose rq ident bank doc note)"
  "transactional (review_disbursement q op k)"
  by (simp add: request_campaign_disbursement_def)
    (auto simp: transactional_def dest: disbursement_review.failure)

lemma disb_step_allocation: "disb_step s t \<Longrightarrow> allocation_ok s \<Longrightarrow> allocation_ok t"
  by (induction rule: disb_step.induct)
    (rule transactional_run [where P = allocation_ok]; auto simp: transactional_disbursements intro: allocation_request allocation_review)+

lemma no_disbursements_allocation: "no_disbursements s \<Longrightarrow> allocation_ok s"
  by (simp add: no_disbursements_def allocation_ok_def list_all_iff campaign_constraints_def committed_disbursements_def objects_def)

interpretation disb: invariant_system no_disbursements disb_step allocation_ok
  by unfold_locales (simp_all add: no_disbursements_allocation disb_step_allocation)

text \<open>C12. As long as the collected amounts stand, no sequence of disbursement requests, approvals,
  rejections and payments allocates more of a campaign than it has collected.\<close>

theorem disbursements_within_collected:
  assumes "reach no_disbursements disb_step s" and "c \<in> set (campaigns s)"
  shows "committed_disbursements s (row_pk c) \<le> c_purchased_amount (vals c)"
  using disb.reach_inv [OF assms(1)] assms(2) by (simp add: allocation_ok_def)

definition demo_disbursed :: mdk_db where
  "demo_disbursed = state_after (review_disbursement (70, None, []) RV_approve 1)
     (state_after (request_campaign_disbursement 60 1 200 ''A'' ''B'' None [] [] [] []) demo_paid)"

theorem disbursements_within_collected_witness:
  "list_all (\<lambda>c. committed_disbursements demo_disbursed (row_pk c) \<le> c_purchased_amount (vals c)) (campaigns demo_disbursed) \<and>
   map (\<lambda>c. committed_disbursements demo_disbursed (row_pk c)) (campaigns demo_disbursed) = [200]"
proof
  have "no_disbursements demo_paid" by code_simp
  then have "reach no_disbursements disb_step demo_disbursed"
    unfolding demo_disbursed_def
    by (intro reach_step [where step = disb_step, OF _ D_review] reach_step [where step = disb_step, OF _ D_request] reach_init)
  from disbursements_within_collected [OF this]
  show "list_all (\<lambda>c. committed_disbursements demo_disbursed (row_pk c) \<le> c_purchased_amount (vals c)) (campaigns demo_disbursed)"
    by (auto simp: list_all_iff)
qed code_simp

text \<open>The check that the approval of a disbursement repeats can never fail: it adds the requested
  amount to a non-negative remainder before comparing. A requested disbursement is approved whatever
  the campaign still holds, also when the collected money was refunded after the request.\<close>

theorem disbursement_approval_unchecked:
  assumes "tbl_get k (disbursements s) = Some d" and "db_status (vals d) = D_REQUESTED"
    and "tbl_all (db_campaign (vals d)) (campaigns s) = Some c"
  shows "\<exists>y t. approve_campaign_disbursement now k rv s = (Inr y, t) \<and> db_status (vals y) = D_APPROVED"
  using assms
  by (auto simp: approve_campaign_disbursement_def calculate_campaign_disbursable_amount_def Let_def svc_defs)

end
