(* ===== verification/Unique_Slug.thy ===== *)
theory Unique_Slug
  imports Setad_Prelude
begin

text \<open>
  Unique slugs. The models of several applications share one scheme: a base slug, then numbered candidates
  that are cut to the length of the column. \<open>slugify\<close> is Django's and a parameter; \<open>uuid\<close> is the random text that
  replaces an empty slug. Here are the candidates and the unbounded search of \<^verbatim>\<open>support_desk/models.py\<close>, which ends
  because the candidates differ and only finitely many slugs are taken.
\<close>

definition slug_candidate :: "nat \<Rightarrow> string \<Rightarrow> nat \<Rightarrow> string" where
  "slug_candidate max_length base i = take (max_length - length (CHR ''-'' # nat_str i)) base @ CHR ''-'' # nat_str i"

lemma slug_candidate_number: "str_nat (rev (takeWhile (\<lambda>c. c \<noteq> CHR ''-'') (rev (slug_candidate m base j)))) = j"
  using after_last_dash [OF nat_str_digits, of "take (m - length (CHR ''-'' # nat_str j)) base" j]
  by (simp add: slug_candidate_def)

lemma slug_candidate_inj: "inj (slug_candidate m base)"
  by (rule injI) (metis slug_candidate_number)

lemma finite_taken_candidates: "finite {j. i \<le> j \<and> slug_candidate m base j \<in> set slugs}"
  by (rule finite_subset [OF _ finite_vimageI [OF _ slug_candidate_inj, of "set slugs" m base]]) auto

function slug_from :: "string list \<Rightarrow> nat \<Rightarrow> string \<Rightarrow> nat \<Rightarrow> string" where
  "slug_from slugs max_length base suffix =
     (if slug_candidate max_length base suffix \<in> set slugs then slug_from slugs max_length base (Suc suffix)
      else slug_candidate max_length base suffix)"
  by pat_completeness auto
termination
proof (relation "measure (\<lambda>(slugs, m, base, i). card {j. i \<le> j \<and> slug_candidate m base j \<in> set slugs})")
  fix slugs m base i
  assume "slug_candidate m base i \<in> set slugs"
  then have "i \<in> {j. i \<le> j \<and> slug_candidate m base j \<in> set slugs} - {j. Suc i \<le> j \<and> slug_candidate m base j \<in> set slugs}"
    by simp
  then have "{j. Suc i \<le> j \<and> slug_candidate m base j \<in> set slugs} \<subset> {j. i \<le> j \<and> slug_candidate m base j \<in> set slugs}"
    by (intro psubsetI) (blast dest: Suc_leD)+
  then show "((slugs, m, base, Suc i), (slugs, m, base, i)) \<in>
      measure (\<lambda>(slugs, m, base, i). card {j. i \<le> j \<and> slug_candidate m base j \<in> set slugs})"
    by (auto intro: psubset_card_mono finite_taken_candidates)
qed simp

declare slug_from.simps [simp del]

definition unique_slug :: "(string \<Rightarrow> string) \<Rightarrow> string \<Rightarrow> string list \<Rightarrow> nat \<Rightarrow> string \<Rightarrow> string" where
  "unique_slug slugify uuid slugs max_length value =
     (let cut = take max_length (slugify value);
          base = (if cut = [] then uuid else cut)
      in if base \<in> set slugs then slug_from slugs max_length base 2 else base)"

lemma slug_from_fresh: "slug_from slugs m base i \<notin> set slugs \<and> (\<exists>j. slug_from slugs m base i = slug_candidate m base j)"
proof (induction slugs m base i rule: slug_from.induct)
  case (1 slugs m base i)
  then show ?case by (cases "slug_candidate m base i \<in> set slugs") (auto simp: slug_from.simps [of slugs m base i])
qed

lemma unique_slug_fresh: "unique_slug slugify uuid slugs m v \<notin> set slugs"
  using slug_from_fresh by (simp add: unique_slug_def Let_def)

text \<open>A slug is never empty, and has no slash unless \<open>slugify\<close> leaves one.\<close>

definition slug_ok :: "string \<Rightarrow> bool" where
  "slug_ok s = (s \<noteq> [] \<and> CHR ''/'' \<notin> set s)"

lemma nat_str_no_slash: "CHR ''/'' \<notin> set (nat_str n)"
proof (induction n rule: nat_str.induct)
  case (1 n)
  have "CHR ''/'' \<noteq> digit_char d" if "d < 10" for d
  proof
    assume "CHR ''/'' = digit_char d"
    then have "of_char (digit_char d) = (of_char (CHR ''/'') :: nat)" by simp
    with that show False by simp
  qed
  with 1 show ?case by (cases "n < 10") (auto simp: nat_str.simps [of n])
qed

lemma slug_candidate_ok: "CHR ''/'' \<notin> set base \<Longrightarrow> slug_ok (slug_candidate m base j)"
  using nat_str_no_slash [of j] by (auto simp: slug_ok_def slug_candidate_def dest: in_set_takeD)

lemma unique_slug_ok:
  assumes "CHR ''/'' \<notin> set (slugify v)" "slug_ok uuid"
  shows "slug_ok (unique_slug slugify uuid slugs m v)"
proof -
  define base where "base = (if take m (slugify v) = [] then uuid else take m (slugify v))"
  have "slug_ok base" using assms by (auto simp: base_def slug_ok_def dest: in_set_takeD)
  moreover obtain j where "slug_from slugs m base 2 = slug_candidate m base j" using slug_from_fresh by blast
  moreover have "unique_slug slugify uuid slugs m v = (if base \<in> set slugs then slug_from slugs m base 2 else base)"
    by (simp only: unique_slug_def base_def Let_def)
  ultimately show ?thesis using slug_candidate_ok by (auto simp: slug_ok_def)
qed

end
