(* ===== verification/Mdk_Campaign_Rules.thy ===== *)
theory Mdk_Campaign_Rules
  imports Mdk_Example Unique_Slug
begin

text \<open>
  The rules of campaigns: slugs, creation, the lock on financial fields after the first payment, the
  life cycle, and offline funding.
\<close>

section \<open>Slugs\<close>

abbreviation campaign_slug :: "string \<Rightarrow> nat \<Rightarrow> string" where
  "campaign_slug \<equiv> slug_candidate 320"

lemma slug_loop_Suc:
  "slug_loop taken base i (Suc n) =
     (if taken (campaign_slug base i) then slug_loop taken base (Suc i) n else Some (campaign_slug base i))"
  by (simp add: slug_candidate_def Let_def)

declare slug_loop.simps(2) [simp del]

lemma slug_loop_Some:
  "slug_loop taken base i n = Some x \<Longrightarrow> \<not> taken x \<and> (\<exists>j. i \<le> j \<and> j < i + n \<and> x = campaign_slug base j)"
proof (induction n arbitrary: i)
  case (Suc n)
  show ?case
  proof (cases "taken (campaign_slug base i)")
    case True
    with Suc.prems have "slug_loop taken base (Suc i) n = Some x" by (simp add: slug_loop_Suc)
    from Suc.IH [OF this] obtain j where "\<not> taken x" "Suc i \<le> j" "j < Suc i + n" "x = campaign_slug base j" by blast
    then show ?thesis by (intro conjI exI [of _ j]) simp_all
  next
    case False
    with Suc.prems have "x = campaign_slug base i" by (simp add: slug_loop_Suc)
    with False show ?thesis by (intro conjI exI [of _ i]) simp_all
  qed
qed simp

lemma slug_loop_None:
  "slug_loop taken base i n = None \<Longrightarrow> i \<le> j \<Longrightarrow> j < i + n \<Longrightarrow> taken (campaign_slug base j)"
proof (induction n arbitrary: i)
  case (Suc n)
  then show ?case by (cases "j = i") (auto simp: slug_loop_Suc split: if_splits)
qed simp

lemma campaign_slug_length: "j < 10000 \<Longrightarrow> length (campaign_slug base j) \<le> 320"
  using length_nat_str [of j 4] by (simp add: slug_candidate_def)

lemma slug_taken_rows: "slug_taken t self x \<Longrightarrow> x \<in> set (map (\<lambda>r. c_slug (vals r)) t)"
  by (auto simp: slug_taken_def list_ex_iff)

lemma slug_loop_total:
  assumes "length t < n"
  shows "slug_loop (slug_taken t self) base i n \<noteq> None"
proof
  assume none: "slug_loop (slug_taken t self) base i n = None"
  have "campaign_slug base ` {i..<i + n} \<subseteq> set (map (\<lambda>r. c_slug (vals r)) t)"
    using slug_loop_None [OF none] slug_taken_rows [of t self] by (auto simp del: set_map)
  then have "card (campaign_slug base ` {i..<i + n}) \<le> card (set (map (\<lambda>r. c_slug (vals r)) t))"
    by (intro card_mono) simp_all
  moreover have "card (set (map (\<lambda>r. c_slug (vals r)) t)) \<le> length t"
    using card_length [of "map (\<lambda>r. c_slug (vals r)) t"] by simp
  moreover have "card (campaign_slug base ` {i..<i + n}) = n"
    using card_image [OF inj_on_subset [OF slug_candidate_inj [of 320 base], of "{i..<i + n}"]] by simp
  ultimately show False using assms by simp
qed

lemma build_unique_slug_Some:
  assumes "build_unique_slug slugify t self src = Some x"
  shows "\<not> slug_taken t self x \<and> length x \<le> 320"
proof -
  define base where "base = (if slugify src = [] then ''campaign'' else slugify src)"
  have eq: "build_unique_slug slugify t self src =
      (if \<not> slug_taken t self (take 320 base) then Some (take 320 base) else slug_loop (slug_taken t self) base 2 9998)"
    by (simp only: build_unique_slug_def Let_def base_def)
  show ?thesis
  proof (cases "slug_taken t self (take 320 base)")
    case True
    with assms eq have "slug_loop (slug_taken t self) base 2 9998 = Some x" by simp
    from slug_loop_Some [OF this] obtain j where "\<not> slug_taken t self x" "j < 2 + 9998" "x = campaign_slug base j" by blast
    then show ?thesis using campaign_slug_length [of j base] by simp
  next
    case False
    with assms eq have "x = take 320 base" by simp
    with False show ?thesis by simp
  qed
qed

text \<open>C13. The slug generator never returns a slug another campaign has (deleted ones included), never
  exceeds the 320 characters of the column, and always finds one while there are fewer than 9998
  campaigns.\<close>

theorem build_unique_slug_spec:
  "(\<forall>x. build_unique_slug slugify t self src = Some x \<longrightarrow> \<not> slug_taken t self x \<and> length x \<le> 320) \<and>
   (length t < 9998 \<longrightarrow> build_unique_slug slugify t self src \<noteq> None)"
proof (intro conjI allI impI)
  fix x
  assume "build_unique_slug slugify t self src = Some x"
  then show "\<not> slug_taken t self x" "length x \<le> 320" using build_unique_slug_Some by blast+
next
  assume "length t < 9998"
  then have "slug_loop (slug_taken t self) b 2 9998 \<noteq> None" for b by (rule slug_loop_total)
  then show "build_unique_slug slugify t self src \<noteq> None" by (simp add: build_unique_slug_def Let_def)
qed

theorem build_unique_slug_spec_witness:
  "build_unique_slug demo_slug (campaigns demo_published) None ''t'' = Some ''t-2'' \<and>
   \<not> slug_taken (campaigns demo_published) None ''t-2'' \<and>
   build_unique_slug demo_slug (campaigns demo_published) None ''other'' \<noteq> None"
proof -
  have eq: "build_unique_slug demo_slug (campaigns demo_published) None ''t'' = Some ''t-2''" by code_simp
  have len: "length (campaigns demo_published) = 1" by code_simp
  show ?thesis
    using eq build_unique_slug_spec [of demo_slug "campaigns demo_published" None "''t''"]
      build_unique_slug_spec [of demo_slug "campaigns demo_published" None "''other''"] len by simp
qed

section \<open>Creation\<close>

text \<open>A created campaign is a draft with no funding whose share price times its number of shares is
  exactly its total amount; it is appended under a fresh key with a slug no other campaign has, it
  satisfies the constraints of the table, and nothing else changes. A refused creation changes nothing.\<close>

theorem create_campaign_spec:
  assumes "create_campaign slugify now sp title ds ci A N has_dl dl vis s = (out, t)"
  shows "case out of
      Inl e \<Rightarrow> t = s
    | Inr r \<Rightarrow> t = s\<lparr>campaigns := campaigns s @ [r]\<rparr> \<and> row_pk r \<notin> keys_of (campaigns s) \<and> is_active r \<and>
        c_total_amount (vals r) = A \<and> c_total_shares (vals r) = N \<and> c_share_price (vals r) * N = A \<and>
        c_status (vals r) = C_DRAFT \<and> funded_shares (vals r) = 0 \<and> c_purchased_amount (vals r) = 0 \<and>
        campaign_constraints (vals r) \<and> (\<forall>q \<in> set (campaigns s). c_slug (vals q) \<noteq> c_slug (vals r))"
proof (cases out)
  case (Inl e)
  with assms show ?thesis by (auto simp: create_campaign_def dest: atomic_Inl)
next
  case (Inr r)
  have uniq: "\<forall>q \<in> set (campaigns s). c_slug (vals q) \<noteq> slug" if "build_unique_slug slugify (campaigns s) None title = Some slug" for slug
    using build_unique_slug_Some [OF that] by (auto simp: slug_taken_def list_ex_iff)
  from assms Inr show ?thesis
    by (auto simp: create_campaign_def Let_def svc_inv validate_campaign_financial_fields_def validate_share_price_divisibility_def
        funded_shares_def tbl_insert_def uniq split: option.splits)
qed

theorem create_campaign_spec_witness:
  "\<exists>r t. create_campaign demo_slug 10 1 ''t'' [] [] 1000 10 False None True demo0 = (Inr r, t) \<and>
     c_share_price (vals r) * 10 = 1000 \<and> c_status (vals r) = C_DRAFT"
proof -
  let ?run = "create_campaign demo_slug 10 1 ''t'' [] [] 1000 10 False None True demo0"
  have "case fst ?run of Inl e \<Rightarrow> False | Inr r \<Rightarrow> True" by code_simp
  then obtain r t where run: "?run = (Inr r, t)" by (cases ?run) (auto split: sum.splits)
  from create_campaign_spec [OF run] run show ?thesis by auto
qed

section \<open>The lock after the first payment\<close>

lemma tbl_all_hd: "t \<noteq> [] \<Longrightarrow> tbl_all (row_pk (hd t)) t = Some (hd t)"
  by (cases t) (simp_all add: tbl_all_def)

lemma apply_unlocked:
  "list_all (\<lambda>f. \<not> locked_after_first_payment f) kwargs \<Longrightarrow>
   c_sponsor (apply_campaign_fields kwargs d) = c_sponsor d \<and> c_total_amount (apply_campaign_fields kwargs d) = c_total_amount d \<and>
   c_total_shares (apply_campaign_fields kwargs d) = c_total_shares d"
proof (induction kwargs arbitrary: d)
  case (Cons f kwargs)
  have "c_sponsor (set_campaign_field f d) = c_sponsor d \<and> c_total_amount (set_campaign_field f d) = c_total_amount d \<and>
      c_total_shares (set_campaign_field f d) = c_total_shares d"
    using Cons.prems by (cases f) (auto simp: locked_after_first_payment_def)
  with Cons show ?case by (simp add: apply_campaign_fields_def)
qed (simp add: apply_campaign_fields_def)

lemma apply_status: "c_status (apply_campaign_fields kwargs d) = c_status d"
proof (induction kwargs arbitrary: d)
  case (Cons f kwargs)
  have "c_status (set_campaign_field f d) = c_status d" by (cases f) simp_all
  with Cons [of "set_campaign_field f d"] show ?case by (simp add: apply_campaign_fields_def)
qed (simp add: apply_campaign_fields_def)

lemma apply_no_deadline:
  "list_all (\<lambda>f. \<not> deadline_field f) kwargs \<Longrightarrow>
   c_has_deadline (apply_campaign_fields kwargs d) = c_has_deadline d \<and> c_deadline (apply_campaign_fields kwargs d) = c_deadline d"
proof (induction kwargs arbitrary: d)
  case (Cons f kwargs)
  have "c_has_deadline (set_campaign_field f d) = c_has_deadline d \<and> c_deadline (set_campaign_field f d) = c_deadline d"
    using Cons.prems by (cases f) (auto simp: deadline_field_def)
  with Cons show ?case by (simp add: apply_campaign_fields_def)
qed (simp add: apply_campaign_fields_def)

lemma field_allowed_locked: "field_allowed terminal True f \<Longrightarrow> \<not> locked_after_first_payment f"
  by (cases f) (auto simp: field_allowed_def always_editable_def locked_after_first_payment_def)

lemma update_campaign_checks:
  assumes "update_campaign now c kwargs s = (Inr c', t)"
  shows "list_all (field_allowed (is_terminal (vals c)) (has_paid_participations s (row_pk c))) kwargs"
    "(\<exists>f \<in> set kwargs. deadline_field f) \<Longrightarrow> deadline_shape (c_has_deadline (apply_campaign_fields kwargs (vals c)))
        (c_deadline (apply_campaign_fields kwargs (vals c))) now \<and>
      \<not> (has_paid_participations s (row_pk c) \<and> c_has_deadline (vals c) \<and>
         (case (c_deadline (apply_campaign_fields kwargs (vals c)), c_deadline (vals c)) of (Some d, Some d0) \<Rightarrow> d < d0 | _ \<Rightarrow> False)) \<and>
      \<not> (has_paid_participations s (row_pk c) \<and> c_has_deadline (vals c) \<and> \<not> c_has_deadline (apply_campaign_fields kwargs (vals c)))"
  using assms
  by (auto simp: update_campaign_def Let_def atomic_Inr bnd_Inr seqn_Inr gets_Inr check_Inr check_deadline_update_def split: if_splits)

text \<open>C14. After the first paid participation, an accepted edit of a campaign leaves its sponsor, total
  amount, number of shares, status and counters as they were, and a campaign that has a deadline keeps one
  that is not earlier.\<close>

theorem update_campaign_locked:
  assumes run: "update_campaign now c kwargs s = (Inr c', t)" and fresh: "tbl_all (row_pk c) (campaigns s) = Some c"
    and paid: "has_paid_participations s (row_pk c)"
  shows "\<exists>d. tbl_all (row_pk c) (campaigns t) = Some d \<and> c_sponsor (vals d) = c_sponsor (vals c) \<and>
    c_total_amount (vals d) = c_total_amount (vals c) \<and> c_total_shares (vals d) = c_total_shares (vals c) \<and>
    c_status (vals d) = c_status (vals c) \<and> funded_shares (vals d) = funded_shares (vals c) \<and>
    c_purchased_amount (vals d) = c_purchased_amount (vals c) \<and>
    (c_has_deadline (vals c) \<longrightarrow> (\<forall>d0. c_deadline (vals c) = Some d0 \<longrightarrow>
       c_has_deadline (vals d) \<and> (\<exists>d1. c_deadline (vals d) = Some d1 \<and> d0 \<le> d1)))"
proof (cases "t = s")
  case True
  then show ?thesis using fresh by auto
next
  case False
  let ?mem = "apply_campaign_fields kwargs (vals c)"
  have t: "tbl_all (row_pk c) (campaigns t) = Some (c\<lparr>updated_at := now, vals := ?mem\<lparr>c_share_price := computed_share_price ?mem\<rparr>\<rparr>)"
    using update_campaign_Inr [OF run] False fresh by (auto simp: tbl_all_upd)
  have "list_all (\<lambda>f. \<not> locked_after_first_payment f) kwargs"
    using update_campaign_checks(1) [OF run] paid field_allowed_locked by (auto simp: list_all_iff)
  note unl = apply_unlocked [OF this, of "vals c"]
  have dl: "c_has_deadline ?mem \<and> (\<exists>d1. c_deadline ?mem = Some d1 \<and> d0 \<le> d1)" if "c_has_deadline (vals c)" "c_deadline (vals c) = Some d0" for d0
  proof (cases "\<exists>f \<in> set kwargs. deadline_field f")
    case True
    from update_campaign_checks(2) [OF run this] paid that show ?thesis
      by (auto simp: deadline_shape_def split: option.splits)
  next
    case False
    then show ?thesis using apply_no_deadline [of kwargs "vals c"] that by (auto simp: list_all_iff)
  qed
  show ?thesis
    using t unl dl apply_status [of kwargs "vals c"] apply_campaign_fields_counters [of kwargs]
    by (auto simp: funded_shares_def leaves_counters_def)
qed

definition demo_edit :: "campaign_field list" where
  "demo_edit = [F_title ''u'', F_has_deadline True, F_deadline (Some 900)]"

theorem update_campaign_locked_witness:
  "\<exists>c' t d. update_campaign 60 (hd (campaigns demo_paid)) demo_edit demo_paid = (Inr c', t) \<and>
     tbl_all (row_pk (hd (campaigns demo_paid))) (campaigns t) = Some d \<and>
     c_total_shares (vals d) = c_total_shares (vals (hd (campaigns demo_paid)))"
proof -
  let ?c = "hd (campaigns demo_paid)"
  let ?run = "update_campaign 60 ?c demo_edit demo_paid"
  have "(case fst ?run of Inl e \<Rightarrow> False | Inr r \<Rightarrow> True) \<and> has_paid_participations demo_paid (row_pk ?c)" by code_simp
  then obtain c' t where run: "?run = (Inr c', t)" and paid: "has_paid_participations demo_paid (row_pk ?c)"
    by (cases ?run) (auto split: sum.splits)
  have "length (campaigns demo_paid) = 1" by code_simp
  then have "tbl_all (row_pk ?c) (campaigns demo_paid) = Some ?c" by (intro tbl_all_hd) auto
  from update_campaign_locked [OF run this paid] run show ?thesis by blast
qed

section \<open>Life cycle\<close>

datatype life_op = L_publish | L_close | L_deadline | L_complete

fun run_life :: "life_op \<Rightarrow> int \<Rightarrow> campaign row \<Rightarrow> (mdk_db, campaign row) svc" where
  "run_life L_publish now c = publish_campaign now c"
| "run_life L_close now c = close_campaign now c"
| "run_life L_deadline now c = close_campaign_due_to_deadline now c"
| "run_life L_complete now c = auto_complete_campaign_if_fully_funded now c"

text \<open>The transition each operation may make, and when.\<close>

fun life_next :: "life_op \<Rightarrow> int \<Rightarrow> campaign \<Rightarrow> campaign_status option" where
  "life_next L_publish now c = (if c_status c = C_DRAFT then Some C_PUBLISHED else None)"
| "life_next L_close now c = (if c_status c = C_PUBLISHED then Some C_CLOSED else None)"
| "life_next L_deadline now c =
     (if c_status c = C_PUBLISHED \<and> c_has_deadline c \<and> (case c_deadline c of None \<Rightarrow> False | Some d \<Rightarrow> d \<le> now)
      then Some C_CLOSED else None)"
| "life_next L_complete now c = (if c_status c = C_PUBLISHED \<and> is_fully_funded c then Some C_COMPLETED else None)"

text \<open>The life cycle of a campaign is draft, then published, then completed or closed: each of the four
  operations makes exactly its transition on the stored row when its condition holds, and otherwise leaves
  the database as it is; completed and closed campaigns never change status.\<close>

theorem campaign_life_cycle:
  assumes "run_life op now c s = (out, t)" and "tbl_all (row_pk c) (campaigns s) = Some c"
  shows "case life_next op now (vals c) of
      None \<Rightarrow> t = s \<and> (out = Inl CampaignInvalidStateError \<or> out = Inr c)
    | Some st \<Rightarrow> (case out of
          Inl e \<Rightarrow> e = IntegrityError \<and> t = s
        | Inr c' \<Rightarrow> c_status (vals c') = st \<and> tbl_all (row_pk c) (campaigns t) = Some c')"
  using assms
  by (cases op)
    (auto simp: publish_campaign_def close_campaign_def close_campaign_due_to_deadline_def
      auto_complete_campaign_if_fully_funded_def Let_def svc_defs tbl_all_upd split: option.splits if_splits)

theorem campaign_life_cycle_witness:
  "\<exists>c' t. run_life L_close 60 (hd (campaigns demo_paid)) demo_paid = (Inr c', t) \<and> c_status (vals c') = C_CLOSED"
proof -
  let ?c = "hd (campaigns demo_paid)"
  let ?run = "run_life L_close 60 ?c demo_paid"
  have "(case fst ?run of Inl e \<Rightarrow> False | Inr r \<Rightarrow> True) \<and> life_next L_close 60 (vals ?c) = Some C_CLOSED" by code_simp
  then obtain c' t where run: "?run = (Inr c', t)" and nx: "life_next L_close 60 (vals ?c) = Some C_CLOSED"
    by (cases ?run) (auto split: sum.splits)
  have "length (campaigns demo_paid) = 1" by code_simp
  then have "tbl_all (row_pk ?c) (campaigns demo_paid) = Some ?c" by (intro tbl_all_hd) auto
  from campaign_life_cycle [OF run this] nx run show ?thesis by auto
qed

section \<open>Offline funding\<close>

lemma record_external_Inr:
  assumes "record_external_funding now c n amount meth reference note at rec s = (Inr x, t)"
  shows "external_fundings t = external_fundings s @ [x]" "row_pk x = next_pk (external_fundings s)" "is_active x"
    "xf_status (vals x) = RECORDED" "xf_campaign (vals x) = row_pk c" "xf_shares (vals x) = n"
    "participations t = participations s" "1 \<le> n"
proof -
  let ?v = "\<lambda>locked. build_external_funding now locked n amount meth reference note at rec"
  from assms obtain locked u c' d where g: "tbl_get (row_pk c) (campaigns s) = Some locked"
    and x: "x = new_row now (?v locked) (external_fundings s)" and n: "1 \<le> n"
    and sync: "sync_campaign_counters now locked (s\<lparr>external_fundings := external_fundings s @ [x]\<rparr>) = (Inr c', u)"
    and fin: "auto_complete_campaign_if_fully_funded now c' u = (Inr d, t)"
    by (auto simp: record_external_funding_def atomic_Inr bnd_Inr seqn_Inr check_Inr fetch_Inr gets_Inr modify_Inr ret_Inr)
  have "external_fundings u = external_fundings s @ [x]" "participations u = participations s" using sync by (auto simp: sync_Inr)
  then show "external_fundings t = external_fundings s @ [x]" "participations t = participations s"
    using auto_complete_frame [OF fin] by auto
  show "row_pk x = next_pk (external_fundings s)" "is_active x" "xf_status (vals x) = RECORDED"
    "xf_campaign (vals x) = row_pk c" "xf_shares (vals x) = n" "1 \<le> n"
    using tbl_get_Some [OF g] n by (simp_all add: x build_external_funding_def)
qed


definition demo_offline :: mdk_db where
  "demo_offline = demo_call 25 (Record_external_funding 1 4 None M_CASH [] [] None None) demo_published"


end
