(* ===== verification/Audit_Log.thy ===== *)
theory Audit_Log
  imports Setad_Prelude
begin

text \<open>
  The tamper-evident audit log (\<^verbatim>\<open>src/apps/audit_logs\<close>: \<open>models.py\<close>, \<open>services.py\<close>, \<open>chain.py\<close>,
  \<open>tasks.py\<close>, \<open>exporters.py\<close>, \<open>retention.py\<close>). Every entry carries a position in the chain, the hash
  of its predecessor and its own hash. An insert takes the position after the head it read and
  starts over when another writer took that position first. SHA-256 of the canonical JSON text of an
  entry is a parameter \<open>H\<close> on what the text contains.
\<close>

section \<open>Entries and hashes\<close>

record audit_entry =
  al_user :: "nat option"
  al_action :: string
  al_ip_address :: "string option"
  al_request_id :: "string option"
  al_user_agent :: string
  al_path :: string
  al_method :: string
  al_resource_type :: string
  al_resource_id :: "string option"
  al_changes :: "json_obj option"
  al_extra_data :: "json_obj option"
  al_previous_hash :: string
  al_event_hash :: string
  al_hash_version :: nat
  al_chain_index :: "int option"

definition GENESIS_HASH :: string where "GENESIS_HASH = replicate 64 (CHR ''0'')"

definition GENESIS_CHAIN_INDEX :: int where "GENESIS_CHAIN_INDEX = 1"

definition CHAIN_INSERT_MAX_ATTEMPTS :: nat where "CHAIN_INSERT_MAX_ATTEMPTS = 8"

text \<open>What the hashed JSON object holds: every column but the key, the timestamps, the position and the
  hash itself.\<close>

record audit_payload =
  ap_hash_version :: nat
  ap_previous_hash :: string
  ap_user :: "nat option"
  ap_action :: string
  ap_ip_address :: "string option"
  ap_request_id :: "string option"
  ap_user_agent :: string
  ap_path :: string
  ap_method :: string
  ap_resource_type :: string
  ap_resource_id :: "string option"
  ap_changes :: "json_obj option"
  ap_extra_data :: "json_obj option"

definition event_payload :: "string \<Rightarrow> audit_entry \<Rightarrow> audit_payload" where
  "event_payload previous_hash e =
     \<lparr>ap_hash_version = al_hash_version e, ap_previous_hash = previous_hash, ap_user = al_user e,
      ap_action = al_action e, ap_ip_address = al_ip_address e, ap_request_id = al_request_id e,
      ap_user_agent = al_user_agent e, ap_path = al_path e, ap_method = al_method e,
      ap_resource_type = al_resource_type e, ap_resource_id = al_resource_id e,
      ap_changes = al_changes e, ap_extra_data = al_extra_data e\<rparr>"

definition compute_event_hash :: "(audit_payload \<Rightarrow> string) \<Rightarrow> string \<Rightarrow> audit_entry \<Rightarrow> string" where
  "compute_event_hash H previous_hash e = H (event_payload previous_hash e)"

section \<open>Appending to the chain\<close>

text \<open>The row with the greatest position, as position and hash; rows without a position do not count.\<close>

definition read_chain_head :: "audit_entry table \<Rightarrow> (int \<times> string) option" where
  "read_chain_head t =
     fold (\<lambda>r best. case al_chain_index (vals r) of
        None \<Rightarrow> best
      | Some i \<Rightarrow> (case best of
            None \<Rightarrow> Some (i, al_event_hash (vals r))
          | Some (j, h) \<Rightarrow> if j < i then Some (i, al_event_hash (vals r)) else best)) t None"

definition link_to_chain_head :: "(audit_payload \<Rightarrow> string) \<Rightarrow> audit_entry table \<Rightarrow> audit_entry \<Rightarrow> audit_entry" where
  "link_to_chain_head H t e =
     (let (i, p) = (case read_chain_head t of None \<Rightarrow> (GENESIS_CHAIN_INDEX, GENESIS_HASH) | Some (j, h) \<Rightarrow> (j + 1, h))
      in e\<lparr>al_chain_index := Some i, al_previous_hash := p, al_event_hash := compute_event_hash H p e\<rparr>)"

text \<open>The unique columns of the table: the hash, and the position where there is one.\<close>

definition audit_unique :: "audit_entry table \<Rightarrow> audit_entry \<Rightarrow> bool" where
  "audit_unique t e = list_all (\<lambda>r. al_event_hash (vals r) \<noteq> al_event_hash e \<and>
     (al_chain_index e = None \<or> al_chain_index (vals r) \<noteq> al_chain_index e)) t"

record audit_db =
  audit_logs :: "audit_entry table"
  audit_queue :: "audit_entry list"

definition insert_entry :: "int \<Rightarrow> audit_entry \<Rightarrow> (audit_db, audit_entry row) svc" where
  "insert_entry now e =
     bnd (gets audit_logs) (\<lambda>t.
     seqn (check (audit_unique t e) IntegrityError)
     (seqn (modify (\<lambda>s. s\<lparr>audit_logs := tbl_insert now e (audit_logs s)\<rparr>))
     (ret (new_row now e t))))"

text \<open>The retry loop of \<open>AuditLog.save\<close>: \<open>n\<close> attempts are left.\<close>

fun save_attempts :: "(audit_payload \<Rightarrow> string) \<Rightarrow> int \<Rightarrow> nat \<Rightarrow> audit_entry \<Rightarrow> (audit_db, audit_entry row) svc" where
  "save_attempts H now 0 e = raise AuditLogChainContentionError"
| "save_attempts H now (Suc n) e =
     bnd (gets (\<lambda>s. link_to_chain_head H (audit_logs s) e)) (\<lambda>linked.
     try_svc (atomic (insert_entry now linked)) (\<lambda>x.
       if x = IntegrityError then save_attempts H now n linked else raise x))"

definition save_audit_log :: "(audit_payload \<Rightarrow> string) \<Rightarrow> int \<Rightarrow> audit_entry \<Rightarrow> (audit_db, audit_entry row) svc" where
  "save_audit_log H now e =
     (if al_chain_index e \<noteq> None \<and> al_previous_hash e \<noteq> [] \<and> al_event_hash e \<noteq> [] then insert_entry now e
      else save_attempts H now CHAIN_INSERT_MAX_ATTEMPTS e)"

text \<open>\<open>save\<close> on a stored row, \<open>update\<close>, \<open>delete\<close>, \<open>soft_delete\<close> and \<open>restore\<close> all refuse.\<close>

definition mutate_audit_log :: "audit_entry row \<Rightarrow> (audit_db, unit) svc" where
  "mutate_audit_log r = raise AuditLogImmutableError"

definition new_entry ::
  "nat option \<Rightarrow> string \<Rightarrow> string \<Rightarrow> string option \<Rightarrow> string option \<Rightarrow> string option \<Rightarrow> string \<Rightarrow> string \<Rightarrow> string \<Rightarrow>
   json_obj option \<Rightarrow> json_obj option \<Rightarrow> audit_entry" where
  "new_entry user_id action resource_type resource_id ip_address request_id user_agent path meth changes extra_data =
     \<lparr>al_user = user_id, al_action = action, al_ip_address = ip_address, al_request_id = request_id,
      al_user_agent = user_agent, al_path = path, al_method = meth, al_resource_type = resource_type,
      al_resource_id = resource_id, al_changes = changes, al_extra_data = extra_data, al_previous_hash = [],
      al_event_hash = [], al_hash_version = 1, al_chain_index = None\<rparr>"

text \<open>\<open>create_audit_log\<close> and \<open>log_action\<close>, on the entry their arguments build.\<close>

definition create_audit_log :: "(audit_payload \<Rightarrow> string) \<Rightarrow> int \<Rightarrow> audit_entry \<Rightarrow> (audit_db, audit_entry row) svc" where
  "create_audit_log H now e = save_audit_log H now e"

definition log_action :: "(audit_payload \<Rightarrow> string) \<Rightarrow> int \<Rightarrow> audit_entry \<Rightarrow> (audit_db, audit_entry row) svc" where
  "log_action H now e = create_audit_log H now e"

text \<open>\<open>delay\<close> either hands the arguments to the broker or raises; then the entry is written at once, and
  a failure of that write is only logged.\<close>

definition log_action_async :: "(audit_payload \<Rightarrow> string) \<Rightarrow> bool \<Rightarrow> int \<Rightarrow> audit_entry \<Rightarrow> (audit_db, unit) svc" where
  "log_action_async H broker_up now e =
     (if broker_up then modify (\<lambda>s. s\<lparr>audit_queue := audit_queue s @ [e]\<rparr>)
      else try_svc (seqn (create_audit_log H now e) (ret ())) (\<lambda>_. ret ()))"

text \<open>A worker takes the first task. An \<open>IntegrityError\<close> is a \<open>DatabaseError\<close> and is raised for the
  automatic retry; any other exception is logged and the record is lost.\<close>

definition create_audit_log_task :: "(audit_payload \<Rightarrow> string) \<Rightarrow> int \<Rightarrow> (audit_db, unit) svc" where
  "create_audit_log_task H now =
     bnd (gets audit_queue) (\<lambda>q.
     case q of
       [] \<Rightarrow> ret ()
     | e # rest \<Rightarrow>
         try_svc (seqn (create_audit_log H now e) (modify (\<lambda>s. s\<lparr>audit_queue := rest\<rparr>)))
           (\<lambda>x. if x = IntegrityError then raise x else modify (\<lambda>s. s\<lparr>audit_queue := rest\<rparr>)))"

section \<open>Verification of the chain\<close>

record chain_failure =
  cf_audit_log_id :: nat
  cf_reason :: string
  cf_checked :: nat

record chain_result =
  cr_checked :: nat
  cr_head_hash :: string
  cr_hash_version :: nat

text \<open>\<open>order_by("chain_index", "id")\<close> on PostgreSQL: rows without a position come last.\<close>

definition chain_order :: "audit_entry table \<Rightarrow> audit_entry table" where
  "chain_order t =
     sort_key (\<lambda>r. case al_chain_index (vals r) of None \<Rightarrow> (1 :: nat) | Some _ \<Rightarrow> 0)
       (sort_key (\<lambda>r. case al_chain_index (vals r) of None \<Rightarrow> 0 | Some i \<Rightarrow> i) (sort_key row_pk t))"

fun verify_loop ::
  "(audit_payload \<Rightarrow> string) \<Rightarrow> string \<Rightarrow> nat \<Rightarrow> nat \<Rightarrow> audit_entry table \<Rightarrow> chain_failure + chain_result" where
  "verify_loop H previous_hash checked hash_version [] =
     Inr \<lparr>cr_checked = checked, cr_head_hash = previous_hash, cr_hash_version = hash_version\<rparr>"
| "verify_loop H previous_hash checked hash_version (r # rs) =
     (if al_previous_hash (vals r) \<noteq> previous_hash then
        Inl \<lparr>cf_audit_log_id = row_pk r, cf_reason = ''previous_hash mismatch'', cf_checked = checked\<rparr>
      else if al_event_hash (vals r) \<noteq> compute_event_hash H previous_hash (vals r) then
        Inl \<lparr>cf_audit_log_id = row_pk r, cf_reason = ''event_hash mismatch'', cf_checked = checked\<rparr>
      else verify_loop H (al_event_hash (vals r)) (checked + 1) (al_hash_version (vals r)) rs)"

definition verify_audit_chain_integrity ::
  "(audit_payload \<Rightarrow> string) \<Rightarrow> audit_entry table \<Rightarrow> chain_failure + chain_result" where
  "verify_audit_chain_integrity H t = verify_loop H GENESIS_HASH 0 1 (chain_order t)"

section \<open>Retention and export\<close>

text \<open>\<open>icontains\<close> and \<open>iexact\<close> on ASCII text.\<close>

fun contains :: "string \<Rightarrow> string \<Rightarrow> bool" where
  "contains needle [] = (needle = [])"
| "contains needle (c # cs) = (take (length needle) (c # cs) = needle \<or> contains needle cs)"

definition icontains :: "string \<Rightarrow> string \<Rightarrow> bool" where
  "icontains needle hay = contains (lower needle) (lower hay)"

record audit_filters =
  af_action :: string
  af_user_id :: "nat option"
  af_resource_type :: string
  af_resource_id :: string
  af_request_id :: string
  af_ip_address :: string
  af_method :: string
  af_path :: string
  af_created_after :: "int option"
  af_created_before :: "int option"
  af_search :: string

text \<open>An unset text filter is the empty string; \<open>None\<close> and \<open>""\<close> are both falsy.\<close>

definition matches_filters :: "audit_filters \<Rightarrow> audit_entry row \<Rightarrow> bool" where
  "matches_filters f r =
     (let e = vals r; opt = (\<lambda>x. case x of None \<Rightarrow> [] | Some y \<Rightarrow> y) in
      (af_action f = [] \<or> al_action e = af_action f) \<and>
      (af_user_id f = None \<or> al_user e = af_user_id f) \<and>
      (af_resource_type f = [] \<or> al_resource_type e = af_resource_type f) \<and>
      (af_resource_id f = [] \<or> al_resource_id e = Some (af_resource_id f)) \<and>
      (af_request_id f = [] \<or> al_request_id e = Some (af_request_id f)) \<and>
      (af_ip_address f = [] \<or> al_ip_address e = Some (af_ip_address f)) \<and>
      (af_method f = [] \<or> lower (al_method e) = lower (af_method f)) \<and>
      (af_path f = [] \<or> icontains (af_path f) (al_path e)) \<and>
      (case af_created_after f of None \<Rightarrow> True | Some d \<Rightarrow> d \<le> created_at r) \<and>
      (case af_created_before f of None \<Rightarrow> True | Some d \<Rightarrow> created_at r \<le> d) \<and>
      (af_search f = [] \<or> icontains (af_search f) (al_action e) \<or> icontains (af_search f) (al_resource_type e) \<or>
       (al_resource_id e \<noteq> None \<and> icontains (af_search f) (opt (al_resource_id e))) \<or>
       icontains (af_search f) (al_path e)))"

definition build_audit_export_queryset :: "audit_filters \<Rightarrow> audit_entry table \<Rightarrow> audit_entry table" where
  "build_audit_export_queryset f t = sort_key created_at (sort_key row_pk (filter (matches_filters f) t))"

definition require_chain :: "(audit_payload \<Rightarrow> string) \<Rightarrow> (audit_db, chain_result) svc" where
  "require_chain H =
     bnd (gets (\<lambda>s. verify_audit_chain_integrity H (audit_logs s))) (\<lambda>v.
     case v of Inl _ \<Rightarrow> raise AuditChainVerificationError | Inr res \<Rightarrow> ret res)"

text \<open>The package is the verification result of its manifest and the exported rows; the JSONL, CSV and XLSX
  bytes rendered from them are library output.\<close>

definition build_audit_export_package ::
  "(audit_payload \<Rightarrow> string) \<Rightarrow> nat \<Rightarrow> int \<Rightarrow> audit_filters \<Rightarrow> audit_entry option \<Rightarrow>
   (audit_db, chain_result \<times> audit_entry table) svc" where
  "build_audit_export_package H max_records now f export_event =
     seqn (require_chain H)
     (seqn (case export_event of None \<Rightarrow> ret () | Some e \<Rightarrow> seqn (create_audit_log H now e) (ret ()))
     (bnd (require_chain H) (\<lambda>res.
      bnd (gets (\<lambda>s. build_audit_export_queryset f (audit_logs s))) (\<lambda>records.
      seqn (check (\<not> length records > max_records) ValueError)
      (ret (res, records))))))"

definition DANGEROUS_SPREADSHEET_PREFIXES :: string where
  "DANGEROUS_SPREADSHEET_PREFIXES = ''=+-@''"

definition safe_spreadsheet_value :: "json \<Rightarrow> json" where
  "safe_spreadsheet_value v =
     (case v of
        JStr (c # cs) \<Rightarrow> if c \<in> set DANGEROUS_SPREADSHEET_PREFIXES then JStr (CHR 0x27 # c # cs) else v
      | _ \<Rightarrow> v)"

record retention_report =
  rr_cutoff :: int
  rr_eligible_for_archive_count :: nat
  rr_total_count :: nat
  rr_oldest_created_at :: "int option"
  rr_newest_created_at :: "int option"
  rr_destructive_deletion_performed :: bool

definition build_audit_retention_report :: "int \<Rightarrow> int \<Rightarrow> audit_entry table \<Rightarrow> retention_report" where
  "build_audit_retention_report retention_days now t =
     (let cutoff = now - 86400 * retention_days; times = sort (map created_at t)
      in \<lparr>rr_cutoff = cutoff, rr_eligible_for_archive_count = agg_count (\<lambda>r. created_at r < cutoff) t,
          rr_total_count = length t,
          rr_oldest_created_at = (if times = [] then None else Some (hd times)),
          rr_newest_created_at = (if times = [] then None else Some (last times)),
          rr_destructive_deletion_performed = False\<rparr>)"

section \<open>Concurrent writers\<close>

text \<open>
  Each writer runs the loop of \<open>save\<close>. Reading the head and inserting are two steps, and other
  writers may insert in between; only the insert itself is atomic, under the unique constraints.
\<close>

datatype writer =
    W_ready nat audit_entry
  | W_linked nat audit_entry
  | W_done
  | W_contention

record chain_sys =
  cs_rows :: "audit_entry table"
  cs_writers :: "writer list"

definition writer_move :: "(audit_payload \<Rightarrow> string) \<Rightarrow> int \<Rightarrow> nat \<Rightarrow> chain_sys \<Rightarrow> chain_sys" where
  "writer_move H now i s =
     (case cs_writers s ! i of
        W_ready 0 e \<Rightarrow> s\<lparr>cs_writers := (cs_writers s)[i := W_contention]\<rparr>
      | W_ready (Suc n) e \<Rightarrow> s\<lparr>cs_writers := (cs_writers s)[i := W_linked n (link_to_chain_head H (cs_rows s) e)]\<rparr>
      | W_linked n e \<Rightarrow>
          if audit_unique (cs_rows s) e
          then s\<lparr>cs_rows := tbl_insert now e (cs_rows s), cs_writers := (cs_writers s)[i := W_done]\<rparr>
          else s\<lparr>cs_writers := (cs_writers s)[i := W_ready n e]\<rparr>
      | _ \<Rightarrow> s)"

inductive chain_step :: "(audit_payload \<Rightarrow> string) \<Rightarrow> chain_sys \<Rightarrow> chain_sys \<Rightarrow> bool" for H where
  start: "chain_step H s (s\<lparr>cs_writers := cs_writers s @ [W_ready CHAIN_INSERT_MAX_ATTEMPTS e]\<rparr>)"
| move: "i < length (cs_writers s) \<Longrightarrow> chain_step H s (writer_move H now i s)"

definition empty_chain :: "chain_sys \<Rightarrow> bool" where
  "empty_chain s \<longleftrightarrow> cs_rows s = [] \<and> cs_writers s = []"

end
