(* ===== verification/Audit_Chain.thy ===== *)
theory Audit_Chain
  imports Audit_Log
begin

text \<open>
  Correctness of the audit chain: concurrent writers never fork it, a verified chain determines the
  content of its entries, and what the verification does not see.
\<close>

section \<open>Chains\<close>

text \<open>The rows link up: positions count on from \<open>i\<close>, each entry names the hash of its predecessor (\<open>p\<close>
  for the first) and carries its own.\<close>

fun chain_from :: "(audit_payload \<Rightarrow> string) \<Rightarrow> string \<Rightarrow> int \<Rightarrow> audit_entry table \<Rightarrow> bool" where
  "chain_from H p i [] = True"
| "chain_from H p i (r # rs) \<longleftrightarrow> al_chain_index (vals r) = Some i \<and> al_previous_hash (vals r) = p \<and>
     al_event_hash (vals r) = compute_event_hash H p (vals r) \<and> chain_from H (al_event_hash (vals r)) (i + 1) rs"

definition last_hash :: "string \<Rightarrow> audit_entry table \<Rightarrow> string" where
  "last_hash p rows = (if rows = [] then p else al_event_hash (vals (last rows)))"

lemma last_hash_simps [simp]:
  "last_hash p [] = p" "last_hash p (rows @ [r]) = al_event_hash (vals r)"
  "last_hash p (r # rs) = last_hash (al_event_hash (vals r)) rs"
  by (simp_all add: last_hash_def)

lemma chain_from_snoc:
  "chain_from H p i (rows @ [r]) \<longleftrightarrow> chain_from H p i rows \<and> al_chain_index (vals r) = Some (i + int (length rows)) \<and>
     al_previous_hash (vals r) = last_hash p rows \<and> al_event_hash (vals r) = compute_event_hash H (last_hash p rows) (vals r)"
  by (induction rows arbitrary: p i) (auto simp: algebra_simps)

lemma chain_from_index:
  "chain_from H p i rows \<Longrightarrow> k < length rows \<Longrightarrow> al_chain_index (vals (rows ! k)) = Some (i + int k)"
proof (induction rows arbitrary: p i k)
  case (Cons r rs)
  then show ?case by (cases k) (auto simp: algebra_simps)
qed simp

lemma read_chain_head_snoc:
  "read_chain_head (t @ [r]) = (case al_chain_index (vals r) of
     None \<Rightarrow> read_chain_head t
   | Some i \<Rightarrow> (case read_chain_head t of None \<Rightarrow> Some (i, al_event_hash (vals r))
       | Some (j, h) \<Rightarrow> if j < i then Some (i, al_event_hash (vals r)) else Some (j, h)))"
  by (simp add: read_chain_head_def split: option.split prod.split)

lemma read_chain_head_chain:
  "chain_from H p i rows \<Longrightarrow>
   read_chain_head rows = (if rows = [] then None else Some (i + int (length rows) - 1, last_hash p rows))"
proof (induction rows rule: rev_induct)
  case Nil
  show ?case by (simp add: read_chain_head_def)
next
  case (snoc r rows)
  then show ?case by (auto simp: chain_from_snoc read_chain_head_snoc last_hash_def)
qed

text \<open>The entry was linked when the chain had \<open>k\<close> rows.\<close>

definition linked_at :: "(audit_payload \<Rightarrow> string) \<Rightarrow> nat \<Rightarrow> audit_entry table \<Rightarrow> audit_entry \<Rightarrow> bool" where
  "linked_at H k rows e \<longleftrightarrow> k \<le> length rows \<and> al_chain_index e = Some (1 + int k) \<and>
     al_previous_hash e = last_hash GENESIS_HASH (take k rows) \<and> al_event_hash e = compute_event_hash H (al_previous_hash e) e"

lemma compute_event_hash_cong [simp]:
  "compute_event_hash H p (e\<lparr>al_chain_index := i, al_previous_hash := q, al_event_hash := h\<rparr>) = compute_event_hash H p e"
  by (simp add: compute_event_hash_def event_payload_def)

lemma link_linked_at:
  assumes "chain_from H GENESIS_HASH 1 rows"
  shows "linked_at H (length rows) rows (link_to_chain_head H rows e)"
  using read_chain_head_chain [OF assms]
  by (cases "rows = []") (simp_all add: linked_at_def link_to_chain_head_def GENESIS_CHAIN_INDEX_def)

lemma linked_at_insert: "linked_at H k rows e \<Longrightarrow> linked_at H k (tbl_insert now x rows) e"
  by (simp add: linked_at_def tbl_insert_def)

text \<open>An insert that the unique constraint lets through was linked to the present head.\<close>

lemma unique_is_head:
  assumes "chain_from H GENESIS_HASH 1 rows" and "linked_at H k rows e" and "audit_unique rows e"
  shows "k = length rows"
proof (rule ccontr)
  assume "k \<noteq> length rows"
  then have "k < length rows" using assms(2) by (simp add: linked_at_def)
  then have "al_chain_index (vals (rows ! k)) = al_chain_index e" "rows ! k \<in> set rows"
    using chain_from_index [OF assms(1)] assms(2) by (auto simp: linked_at_def)
  then show False using assms(2,3) by (auto simp: audit_unique_def list_all_iff linked_at_def)
qed

lemma chain_insert:
  assumes "chain_from H GENESIS_HASH 1 rows" and "linked_at H k rows e" and "audit_unique rows e"
  shows "chain_from H GENESIS_HASH 1 (tbl_insert now e rows)"
  using assms unique_is_head [OF assms] by (simp add: tbl_insert_def chain_from_snoc linked_at_def)

section \<open>The invariant of concurrent writers\<close>

definition sound_rows :: "(audit_payload \<Rightarrow> string) \<Rightarrow> audit_entry table \<Rightarrow> bool" where
  "sound_rows H rows \<longleftrightarrow> chain_from H GENESIS_HASH 1 rows \<and> sorted (map row_pk rows) \<and>
     distinct (map (\<lambda>r. al_event_hash (vals r)) rows)"

definition writer_ok :: "(audit_payload \<Rightarrow> string) \<Rightarrow> audit_entry table \<Rightarrow> writer \<Rightarrow> bool" where
  "writer_ok H rows w = (case w of W_linked n e \<Rightarrow> (\<exists>k. linked_at H k rows e) | _ \<Rightarrow> True)"

definition finished :: "writer list \<Rightarrow> nat" where
  "finished ws = length (filter (\<lambda>w. w = W_done) ws)"

definition chain_inv :: "(audit_payload \<Rightarrow> string) \<Rightarrow> chain_sys \<Rightarrow> bool" where
  "chain_inv H s \<longleftrightarrow> sound_rows H (cs_rows s) \<and> list_all (writer_ok H (cs_rows s)) (cs_writers s) \<and>
     finished (cs_writers s) = length (cs_rows s)"

lemma next_pk_gt: "r \<in> set t \<Longrightarrow> row_pk r < next_pk t"
  using fold_max_ge [of "row_pk r" "map row_pk t" 0] by (simp add: next_pk_def less_Suc_eq_le)

lemma sound_rows_insert:
  "sound_rows H rows \<Longrightarrow> linked_at H k rows e \<Longrightarrow> audit_unique rows e \<Longrightarrow> sound_rows H (tbl_insert now e rows)"
  using chain_insert [of H rows k e now]
  by (auto simp: sound_rows_def tbl_insert_def sorted_append audit_unique_def list_all_iff dest: next_pk_gt)

lemma finished_update:
  "i < length ws \<Longrightarrow> ws ! i \<noteq> W_done \<Longrightarrow> finished (ws[i := w]) = finished ws + (if w = W_done then 1 else 0)"
  unfolding finished_def by (induction ws arbitrary: i) (auto simp: nth_Cons split: nat.splits)

lemma writers_ok_update:
  "list_all (writer_ok H rows) ws \<Longrightarrow> writer_ok H rows w \<Longrightarrow> list_all (writer_ok H rows) (ws[i := w])"
  by (auto simp: list_all_iff dest: set_update_subset_insert [THEN subsetD])

lemma writer_ok_insert: "writer_ok H rows w \<Longrightarrow> writer_ok H (tbl_insert now e rows) w"
  by (auto simp: writer_ok_def linked_at_insert split: writer.splits intro: linked_at_insert)

lemma writer_move_inv:
  assumes inv: "chain_inv H s" and i: "i < length (cs_writers s)"
  shows "chain_inv H (writer_move H now i s)"
proof -
  let ?w = "cs_writers s ! i"
  have w: "writer_ok H (cs_rows s) ?w" using inv i by (simp add: chain_inv_def list_all_length)
  show ?thesis
  proof (cases ?w)
    case (W_ready n e)
    have "writer_ok H (cs_rows s) (W_linked m (link_to_chain_head H (cs_rows s) e))" for m
      using inv link_linked_at [of H "cs_rows s" e] by (auto simp: chain_inv_def sound_rows_def writer_ok_def)
    with W_ready inv i show ?thesis
      by (cases n) (simp_all add: writer_move_def chain_inv_def finished_update writers_ok_update writer_ok_def [of H _ W_contention])
  next
    case (W_linked n e)
    then obtain k where k: "linked_at H k (cs_rows s) e" using w by (auto simp: writer_ok_def)
    show ?thesis
    proof (cases "audit_unique (cs_rows s) e")
      case True
      then have "sound_rows H (tbl_insert now e (cs_rows s))" using inv k by (simp add: chain_inv_def sound_rows_insert)
      moreover have "list_all (writer_ok H (tbl_insert now e (cs_rows s))) ((cs_writers s)[i := W_done])"
        using inv by (intro writers_ok_update) (auto simp: chain_inv_def list_all_iff writer_ok_insert writer_ok_def [of H _ W_done])
      ultimately show ?thesis
        using True W_linked inv i by (simp add: writer_move_def chain_inv_def finished_update tbl_insert_def)
    next
      case False
      then show ?thesis using W_linked inv i
        by (simp add: writer_move_def chain_inv_def finished_update writers_ok_update writer_ok_def [of H _ "W_ready n e"])
    qed
  qed (use inv in \<open>simp_all add: writer_move_def\<close>)
qed

interpretation audit_chain: invariant_system empty_chain "chain_step H" "chain_inv H"
proof unfold_locales
  show "chain_inv H s" if "empty_chain s" for s
    using that by (simp add: empty_chain_def chain_inv_def sound_rows_def finished_def)
next
  show "chain_inv H t" if "chain_inv H s" "chain_step H s t" for s t
    using that(2,1)
    by cases (simp_all add: writer_move_inv, simp add: chain_inv_def finished_def writer_ok_def)
qed

section \<open>Verification\<close>

lemma chain_order_sound:
  assumes "sound_rows H rows"
  shows "chain_order rows = rows"
proof -
  let ?i = "\<lambda>r. case al_chain_index (vals r) of None \<Rightarrow> 0 | Some i \<Rightarrow> i"
  have index: "al_chain_index (vals (rows ! k)) = Some (1 + int k)" if "k < length rows" for k
    using assms chain_from_index [OF _ that, of H GENESIS_HASH 1] by (simp add: sound_rows_def)
  have "sorted (map ?i rows)" by (auto simp: sorted_iff_nth_mono index)
  moreover have "sorted (map (\<lambda>r. case al_chain_index (vals r) of None \<Rightarrow> (1 :: nat) | Some _ \<Rightarrow> 0) rows)"
    by (auto simp: sorted_iff_nth_mono index)
  moreover have "sorted (map row_pk rows)" using assms by (simp add: sound_rows_def)
  ultimately show ?thesis by (simp add: chain_order_def sort_key_id_if_sorted)
qed

text \<open>What the loop checks: the hashes link up, whatever the positions are.\<close>

fun hash_chain :: "(audit_payload \<Rightarrow> string) \<Rightarrow> string \<Rightarrow> audit_entry table \<Rightarrow> bool" where
  "hash_chain H p [] = True"
| "hash_chain H p (r # rs) \<longleftrightarrow> al_previous_hash (vals r) = p \<and> al_event_hash (vals r) = compute_event_hash H p (vals r) \<and>
     hash_chain H (al_event_hash (vals r)) rs"

lemma chain_from_hash_chain: "chain_from H p i rows \<Longrightarrow> hash_chain H p rows"
  by (induction rows arbitrary: p i) auto

lemma verify_loop_Inr:
  "verify_loop H p c v rows = Inr res \<longleftrightarrow> hash_chain H p rows \<and>
     res = \<lparr>cr_checked = c + length rows, cr_head_hash = last_hash p rows,
            cr_hash_version = (if rows = [] then v else al_hash_version (vals (last rows)))\<rparr>"
  by (induction rows arbitrary: p c v) auto

lemma hash_chain_snoc:
  "hash_chain H p (rows @ [r]) \<longleftrightarrow> hash_chain H p rows \<and> al_previous_hash (vals r) = last_hash p rows \<and>
     al_event_hash (vals r) = compute_event_hash H (last_hash p rows) (vals r)"
  by (induction rows arbitrary: p) auto

lemma length_chain_order [simp]: "length (chain_order t) = length t"
  by (simp add: chain_order_def)

text \<open>C18. However many writers insert audit entries concurrently, reading the head of the chain and
  inserting at different times, the chain never forks: the positions are exactly 1 to n in the order of
  insertion, the hashes differ, the verification succeeds over all n entries, and every writer whose save
  returned has contributed exactly one entry.\<close>

theorem audit_chain_never_forks:
  assumes "reach empty_chain (chain_step H) s"
  shows "(\<exists>res. verify_audit_chain_integrity H (cs_rows s) = Inr res \<and> cr_checked res = length (cs_rows s)) \<and>
    (\<forall>k < length (cs_rows s). al_chain_index (vals (cs_rows s ! k)) = Some (1 + int k)) \<and>
    distinct (map (\<lambda>r. al_event_hash (vals r)) (cs_rows s)) \<and> finished (cs_writers s) = length (cs_rows s)"
proof -
  have inv: "sound_rows H (cs_rows s)" "finished (cs_writers s) = length (cs_rows s)"
    using audit_chain.reach_inv [OF assms] by (simp_all add: chain_inv_def)
  then have chain: "chain_from H GENESIS_HASH 1 (cs_rows s)" by (simp add: sound_rows_def)
  have "\<exists>res. verify_audit_chain_integrity H (cs_rows s) = Inr res \<and> cr_checked res = length (cs_rows s)"
    using chain_from_hash_chain [OF chain]
    by (simp add: verify_audit_chain_integrity_def chain_order_sound [OF inv(1)] verify_loop_Inr)
  with inv chain_from_index [OF chain] show ?thesis by (simp add: sound_rows_def)
qed

text \<open>Two writers read the same head; the second insert loses its position and is linked again.\<close>

definition sample_hash :: "audit_payload \<Rightarrow> string" where
  "sample_hash q = ap_action q @ ap_previous_hash q"

definition sample_audit :: "string \<Rightarrow> nat option \<Rightarrow> audit_entry" where
  "sample_audit action u = new_entry u action ''user'' None None None [] [] [] None None"

definition audit_race :: "nat list \<Rightarrow> chain_sys" where
  "audit_race moves = fold (writer_move sample_hash 5) moves
     \<lparr>cs_rows = [], cs_writers = [W_ready CHAIN_INSERT_MAX_ATTEMPTS (sample_audit ''a'' (Some 7)),
       W_ready CHAIN_INSERT_MAX_ATTEMPTS (sample_audit ''b'' None)]\<rparr>"

lemma writers_move: "length (cs_writers (writer_move H now i s)) = length (cs_writers s)"
  by (simp add: writer_move_def split: writer.split nat.split)

lemma reach_moves:
  "reach empty_chain (chain_step H) s \<Longrightarrow> list_all (\<lambda>i. i < length (cs_writers s)) moves \<Longrightarrow>
   reach empty_chain (chain_step H) (fold (writer_move H now) moves s)"
proof (induction moves arbitrary: s)
  case (Cons i moves)
  then have "reach empty_chain (chain_step H) (writer_move H now i s)" by (auto intro: reach_step move)
  with Cons show ?case by (simp add: writers_move)
qed simp

lemma audit_race_reach:
  assumes "list_all (\<lambda>i. i < 2) moves"
  shows "reach empty_chain (chain_step sample_hash) (audit_race moves)"
proof -
  let ?e = "\<lambda>ws. \<lparr>cs_rows = [], cs_writers = ws\<rparr> :: chain_sys"
  let ?w = "\<lambda>a u. W_ready CHAIN_INSERT_MAX_ATTEMPTS (sample_audit a u)"
  have "reach empty_chain (chain_step sample_hash) (?e [])" by (rule reach_init) (simp add: empty_chain_def)
  then have "reach empty_chain (chain_step sample_hash) (?e [?w ''a'' (Some 7)])"
    using start [of sample_hash "?e []"] by (fastforce intro: reach_step)
  then have "reach empty_chain (chain_step sample_hash) (?e [?w ''a'' (Some 7), ?w ''b'' None])"
    using start [of sample_hash "?e [?w ''a'' (Some 7)]"] by (fastforce intro: reach_step)
  then show ?thesis unfolding audit_race_def by (rule reach_moves) (use assms in \<open>simp add: numeral_2_eq_2\<close>)
qed

theorem audit_chain_never_forks_witness:
  "map (\<lambda>r. al_chain_index (vals r)) (cs_rows (audit_race [0, 1, 0, 1, 1, 1])) = [Some 1, Some 2] \<and>
   finished (cs_writers (audit_race [0, 1, 0, 1, 1, 1])) = 2 \<and>
   (\<exists>res. verify_audit_chain_integrity sample_hash (cs_rows (audit_race [0, 1, 0, 1, 1, 1])) = Inr res \<and> cr_checked res = 2)"
proof -
  have n: "length (cs_rows (audit_race [0, 1, 0, 1, 1, 1])) = 2" by code_simp
  have "map (\<lambda>r. al_chain_index (vals r)) (cs_rows (audit_race [0, 1, 0, 1, 1, 1])) = [Some 1, Some 2]" by code_simp
  then show ?thesis
    using audit_chain_never_forks [OF audit_race_reach, of "[0, 1, 0, 1, 1, 1]"] n by simp
qed

section \<open>Tampering\<close>

text \<open>The hashed objects of the rows of a chain.\<close>

definition chain_payloads :: "audit_entry table \<Rightarrow> audit_payload list" where
  "chain_payloads rows = map (\<lambda>r. event_payload (al_previous_hash (vals r)) (vals r)) rows"

lemma payload_previous [simp]: "ap_previous_hash (event_payload p e) = p"
  by (simp add: event_payload_def)

lemma hash_chain_determined:
  assumes "hash_chain H p xs" and "hash_chain H p ys" and "last_hash p xs = last_hash p ys"
    and "inj_on H (set (chain_payloads xs) \<union> set (chain_payloads ys))"
    and "p \<notin> H ` (set (chain_payloads xs) \<union> set (chain_payloads ys))"
  shows "chain_payloads xs = chain_payloads ys"
  using assms
proof (induction xs arbitrary: ys rule: rev_induct)
  case Nil
  then show ?case
    by (cases ys rule: rev_cases) (auto simp: chain_payloads_def hash_chain_snoc compute_event_hash_def)
next
  case (snoc x xs)
  show ?case
  proof (cases ys rule: rev_cases)
    case Nil
    with snoc.prems show ?thesis by (auto simp: chain_payloads_def hash_chain_snoc compute_event_hash_def)
  next
    case (snoc zs z)
    let ?px = "event_payload (last_hash p xs) (vals x)" and ?pz = "event_payload (last_hash p zs) (vals z)"
    have eq: "H ?px = H ?pz" "al_previous_hash (vals x) = last_hash p xs" "al_previous_hash (vals z) = last_hash p zs"
      using snoc.prems(1-3) snoc by (auto simp: hash_chain_snoc compute_event_hash_def)
    then have "?px = ?pz"
      using inj_onD [OF snoc.prems(4) eq(1)] snoc eq(2,3) by (simp add: chain_payloads_def)
    then have "last_hash p xs = last_hash p zs" by (metis payload_previous)
    then have "chain_payloads xs = chain_payloads zs"
    proof (rule snoc.IH [rotated 2])
      show "hash_chain H p xs" "hash_chain H p zs" using snoc.prems(1,2) snoc by (simp_all add: hash_chain_snoc)
      have sub: "set (chain_payloads xs) \<union> set (chain_payloads zs) \<subseteq> set (chain_payloads (xs @ [x])) \<union> set (chain_payloads ys)"
        using snoc by (auto simp: chain_payloads_def)
      show "inj_on H (set (chain_payloads xs) \<union> set (chain_payloads zs))" using snoc.prems(4) sub by (rule inj_on_subset)
      show "p \<notin> H ` (set (chain_payloads xs) \<union> set (chain_payloads zs))" using snoc.prems(5) sub by blast
    qed
    with snoc eq \<open>?px = ?pz\<close> show ?thesis by (simp add: chain_payloads_def)
  qed
qed



text \<open>What the verification does not see: positions are not hashed and the head is not recorded elsewhere, so
  removing the newest entries leaves a chain that verifies.\<close>

lemma truncated_chain_verifies:
  assumes "sound_rows H rows"
  shows "\<exists>res. verify_audit_chain_integrity H (take k rows) = Inr res"
proof -
  have "chain_from H p i rows \<Longrightarrow> chain_from H p i (take k rows)" for p i
    by (induction rows arbitrary: k p i) (auto simp: take_Cons split: nat.split)
  then have "sound_rows H (take k rows)"
    using assms by (auto simp: sound_rows_def take_map [symmetric] sorted_wrt_take)
  then show ?thesis
    using chain_from_hash_chain [of H GENESIS_HASH 1 "take k rows"] chain_order_sound [of H "take k rows"]
    by (simp add: verify_audit_chain_integrity_def verify_loop_Inr sound_rows_def)
qed

text \<open>Deleting a user sets the \<open>user\<close> column of the user's entries to NULL (\<open>on_delete=SET_NULL\<close>), below the
  guards of the model.\<close>

definition set_null_user :: "nat \<Rightarrow> audit_entry table \<Rightarrow> audit_entry table" where
  "set_null_user u t = map (\<lambda>r. if al_user (vals r) = Some u then r\<lparr>vals := (vals r)\<lparr>al_user := None\<rparr>\<rparr> else r) t"

lemma insort_key_map: "(\<And>x. f (g x) = f x) \<Longrightarrow> insort_key f (g a) (map g xs) = map g (insort_key f a xs)"
  by (induction xs) auto

lemma sort_key_map: "(\<And>x. f (g x) = f x) \<Longrightarrow> sort_key f (map g xs) = map g (sort_key f xs)"
  by (induction xs) (auto simp: insort_key_map)

lemma chain_order_set_null: "chain_order (set_null_user u t) = set_null_user u (chain_order t)"
  by (simp add: chain_order_def set_null_user_def sort_key_map)

lemma hash_chain_set_null:
  "hash_chain H p (set_null_user u rows) \<Longrightarrow> hash_chain H p rows \<Longrightarrow> r \<in> set rows \<Longrightarrow> al_user (vals r) = Some u \<Longrightarrow>
   \<exists>q \<in> set rows. al_user (vals q) = Some u \<and>
     compute_event_hash H (al_previous_hash (vals q)) ((vals q)\<lparr>al_user := None\<rparr>) = al_event_hash (vals q)"
proof (induction rows arbitrary: p)
  case (Cons q rows)
  show ?case
  proof (cases "al_user (vals q) = Some u")
    case True
    then have "compute_event_hash H (al_previous_hash (vals q)) ((vals q)\<lparr>al_user := None\<rparr>) = al_event_hash (vals q)"
      using Cons.prems(1,2) by (simp add: set_null_user_def)
    with True show ?thesis by simp
  next
    case False
    with Cons show ?thesis by (auto simp: set_null_user_def)
  qed
qed simp


definition sample_user_hash :: "audit_payload \<Rightarrow> string" where
  "sample_user_hash q = (case ap_user q of None \<Rightarrow> ''n'' | Some _ \<Rightarrow> ''u'')"


section \<open>Services\<close>

lemma insert_entry_Inr [svc_inv]:
  "insert_entry now e s = (Inr r, t) \<longleftrightarrow> audit_unique (audit_logs s) e \<and> r = new_row now e (audit_logs s) \<and>
     t = s\<lparr>audit_logs := audit_logs s @ [r]\<rparr>"
  by (auto simp: insert_entry_def tbl_insert_def svc_inv)

lemma insert_entry_Inl: "insert_entry now e s = (Inl x, t) \<longleftrightarrow> x = IntegrityError \<and> t = s \<and> \<not> audit_unique (audit_logs s) e"
  by (auto simp: insert_entry_def svc_defs)

lemma save_attempts_Inr:
  "save_attempts H now n e s = (Inr r, t) \<Longrightarrow>
   \<exists>e'. r = new_row now (link_to_chain_head H (audit_logs s) e') (audit_logs s) \<and> t = s\<lparr>audit_logs := audit_logs s @ [r]\<rparr> \<and>
     audit_unique (audit_logs s) (vals r) \<and> event_payload p e' = event_payload p e"
proof (induction n arbitrary: e)
  case (Suc n)
  let ?l = "link_to_chain_head H (audit_logs s) e"
  show ?case
  proof (cases "audit_unique (audit_logs s) ?l")
    case True
    then have "r = new_row now ?l (audit_logs s)" "t = s\<lparr>audit_logs := audit_logs s @ [r]\<rparr>"
      using Suc.prems by (auto simp: bnd_Inr gets_Inr try_svc_def atomic_def insert_entry_def svc_defs tbl_insert_def)
    with True show ?thesis by (intro exI [of _ e]) simp
  next
    case False
    then have "save_attempts H now n ?l s = (Inr r, t)"
      using Suc.prems by (auto simp: bnd_Inr gets_Inr try_svc_def atomic_def insert_entry_def svc_defs)
    from Suc.IH [OF this] show ?thesis
      by (auto simp: link_to_chain_head_def event_payload_def split: option.splits)
  qed
qed (simp add: raise_Inr)

lemma save_attempts_Inl: "save_attempts H now n e s = (Inl x, t) \<Longrightarrow> t = s \<and> x = AuditLogChainContentionError"
proof (induction n arbitrary: e)
  case (Suc n)
  let ?l = "link_to_chain_head H (audit_logs s) e"
  have "save_attempts H now n ?l s = (Inl x, t)"
    using Suc.prems by (cases "audit_unique (audit_logs s) ?l") (auto simp: try_svc_def atomic_def insert_entry_def svc_defs)
  from Suc.IH [OF this] show ?case .
qed (simp add: raise_def)

lemma create_fresh:
  "al_chain_index e = None \<Longrightarrow> create_audit_log H now e = save_attempts H now CHAIN_INSERT_MAX_ATTEMPTS e"
  by (simp add: create_audit_log_def save_audit_log_def fun_eq_iff)

lemma require_chain_Inr [svc_inv]:
  "require_chain H s = (Inr res, t) \<longleftrightarrow> verify_audit_chain_integrity H (audit_logs s) = Inr res \<and> t = s"
  by (auto simp: require_chain_def svc_inv split: sum.splits)

text \<open>A forensic package is only ever produced from an intact chain: the chain verified before the export,
  the export event (when one is recorded) is the one new entry and is linked to the chain, the result in the
  manifest is that of the table the package was read from, and the package holds exactly the entries that match
  the filters, at most the configured number.\<close>

theorem export_package_verified:
  assumes "build_audit_export_package H max_records now f ev s = (Inr (res, records), t)"
    and "\<forall>e. ev = Some e \<longrightarrow> al_chain_index e = None"
  shows "(\<exists>before. verify_audit_chain_integrity H (audit_logs s) = Inr before) \<and>
    verify_audit_chain_integrity H (audit_logs t) = Inr res \<and>
    (case ev of None \<Rightarrow> audit_logs t = audit_logs s
     | Some e \<Rightarrow> \<exists>r. audit_logs t = audit_logs s @ [r] \<and> event_payload p (vals r) = event_payload p e \<and>
         al_event_hash (vals r) = compute_event_hash H (al_previous_hash (vals r)) (vals r)) \<and>
    set records = {r \<in> set (audit_logs t). matches_filters f r} \<and> length records \<le> max_records"
proof -
  from assms(1) obtain before u where
      before: "verify_audit_chain_integrity H (audit_logs s) = Inr before"
    and event: "(case ev of None \<Rightarrow> ret () | Some e \<Rightarrow> seqn (create_audit_log H now e) (ret ())) s = (Inr (), u)"
    and after: "verify_audit_chain_integrity H (audit_logs u) = Inr res" "t = u"
      "records = build_audit_export_queryset f (audit_logs u)" "length records \<le> max_records"
    by (auto simp: build_audit_export_package_def svc_inv)
  have new: "case ev of None \<Rightarrow> audit_logs u = audit_logs s
     | Some e \<Rightarrow> \<exists>r. audit_logs u = audit_logs s @ [r] \<and> event_payload p (vals r) = event_payload p e \<and>
         al_event_hash (vals r) = compute_event_hash H (al_previous_hash (vals r)) (vals r)"
  proof (cases ev)
    case (Some e)
    then obtain r where "save_attempts H now CHAIN_INSERT_MAX_ATTEMPTS e s = (Inr r, u)"
      using event assms(2) by (auto simp: svc_inv create_fresh)
    from save_attempts_Inr [OF this, of p] show ?thesis
      by (auto simp: Some link_to_chain_head_def event_payload_def compute_event_hash_def split: option.splits)
  qed (use event in \<open>simp add: svc_inv\<close>)
  have "set records = {r \<in> set (audit_logs t). matches_filters f r}"
    by (simp add: after build_audit_export_queryset_def)
  with before new after show ?thesis by auto
qed

definition no_filters :: audit_filters where
  "no_filters = \<lparr>af_action = [], af_user_id = None, af_resource_type = [], af_resource_id = [], af_request_id = [],
     af_ip_address = [], af_method = [], af_path = [], af_created_after = None, af_created_before = None, af_search = []\<rparr>"

theorem export_package_verified_witness:
  "\<exists>res records t. build_audit_export_package sample_hash 10 9 no_filters (Some (sample_audit ''export'' None))
       \<lparr>audit_logs = cs_rows (audit_race [0, 0]), audit_queue = []\<rparr> = (Inr (res, records), t) \<and>
     verify_audit_chain_integrity sample_hash (audit_logs t) = Inr res \<and> length (audit_logs t) = 2"
proof -
  let ?run = "build_audit_export_package sample_hash 10 9 no_filters (Some (sample_audit ''export'' None))
       \<lparr>audit_logs = cs_rows (audit_race [0, 0]), audit_queue = []\<rparr>"
  have "(case fst ?run of Inl _ \<Rightarrow> False | Inr _ \<Rightarrow> True) \<and> length (audit_logs (snd ?run)) = 2" by code_simp
  then obtain res records t where run: "?run = (Inr (res, records), t)" and len: "length (audit_logs t) = 2"
    by (cases ?run) (auto split: sum.splits)
  from export_package_verified [OF run] len run show ?thesis by (auto simp: sample_audit_def new_entry_def)
qed

text \<open>An insert that lost every attempt is not retried by the worker: the contention error is not a database
  error, so the task swallows it and returns, and the entry is in neither the table nor the queue.\<close>

theorem contended_task_loses_entry:
  assumes "audit_queue s = e # rest" and "al_chain_index e = None"
    and "create_audit_log H now e s = (Inl x, u)"
  shows "create_audit_log_task H now s = (Inr (), s\<lparr>audit_queue := rest\<rparr>)"
proof -
  have "u = s" "x = AuditLogChainContentionError"
    using assms(2,3) save_attempts_Inl by (auto simp: create_fresh)
  then show ?thesis using assms(1,3) by (simp add: create_audit_log_task_def svc_defs)
qed

theorem contended_task_loses_entry_witness:
  "create_audit_log_task (\<lambda>_. ''h'') 9 \<lparr>audit_logs = audit_logs (snd (create_audit_log (\<lambda>_. ''h'') 5 (sample_audit ''a'' None) \<lparr>audit_logs = [], audit_queue = []\<rparr>)),
       audit_queue = [sample_audit ''b'' None]\<rparr> =
     (Inr (), \<lparr>audit_logs = audit_logs (snd (create_audit_log (\<lambda>_. ''h'') 5 (sample_audit ''a'' None) \<lparr>audit_logs = [], audit_queue = []\<rparr>)),
       audit_queue = []\<rparr>)"
proof -
  let ?t = "audit_logs (snd (create_audit_log (\<lambda>_. ''h'') 5 (sample_audit ''a'' None) \<lparr>audit_logs = [], audit_queue = []\<rparr>))"
  let ?s = "\<lparr>audit_logs = ?t, audit_queue = [sample_audit ''b'' None]\<rparr>"
  have "(case fst (create_audit_log (\<lambda>_. ''h'') 9 (sample_audit ''b'' None) ?s) of Inl _ \<Rightarrow> True | Inr _ \<Rightarrow> False)" by code_simp
  then obtain x u where "create_audit_log (\<lambda>_. ''h'') 9 (sample_audit ''b'' None) ?s = (Inl x, u)"
    by (cases "create_audit_log (\<lambda>_. ''h'') 9 (sample_audit ''b'' None) ?s") (auto split: sum.splits)
  from contended_task_loses_entry [OF _ _ this] show ?thesis by (simp add: sample_audit_def new_entry_def)
qed

end
