(* ===== verification/Auth_Identifiers.thy ===== *)
theory Auth_Identifiers
  imports Setad_Prelude
begin

text \<open>
  Canonical forms of e-mail addresses and phone numbers (\<^verbatim>\<open>src/apps/authentication/normalizers.py\<close>).
  Texts are ASCII: the regular expressions and \<open>isdigit\<close> of Python also accept other digits and letters,
  which the model leaves out.
\<close>

section \<open>Character classes and patterns\<close>

definition is_digit :: "char \<Rightarrow> bool" where
  "is_digit c = (c \<in> set ''0123456789'')"

definition is_lower_alpha :: "char \<Rightarrow> bool" where
  "is_lower_alpha c = (c \<in> set ''abcdefghijklmnopqrstuvwxyz'')"

text \<open>\<open>^9\d{9}$\<close>\<close>

definition iran_local_phone :: "string \<Rightarrow> bool" where
  "iran_local_phone s = (length s = 10 \<and> hd s = CHR ''9'' \<and> list_all is_digit s)"

text \<open>\<open>^\+\d{10,15}$\<close>\<close>

definition e164 :: "string \<Rightarrow> bool" where
  "e164 s = (case s of [] \<Rightarrow> False | c # ds \<Rightarrow> c = CHR ''+'' \<and> 10 \<le> length ds \<and> length ds \<le> 15 \<and> list_all is_digit ds)"

text \<open>\<open>^[a-z0-9._%+\-]+@[a-z0-9.\-]+\.[a-z]{2,}$\<close> on a lower-case text with one \<open>@\<close>: the last label has
  letters only, so it starts after the last dot.\<close>

definition local_char :: "char \<Rightarrow> bool" where
  "local_char c = (is_lower_alpha c \<or> is_digit c \<or> c \<in> set ''._%+-'')"

definition domain_char :: "char \<Rightarrow> bool" where
  "domain_char c = (is_lower_alpha c \<or> is_digit c \<or> c \<in> set ''.-'')"

definition email_pattern :: "string \<Rightarrow> bool" where
  "email_pattern s =
     (let loc = takeWhile (\<lambda>c. c \<noteq> CHR ''@'') s; dom = drop (Suc (length loc)) s;
          tld = rev (takeWhile (\<lambda>c. c \<noteq> CHR ''.'') (rev dom));
          base = take (length dom - Suc (length tld)) dom
      in loc \<noteq> [] \<and> list_all local_char loc \<and> CHR ''.'' \<in> set dom \<and> base \<noteq> [] \<and> list_all domain_char base \<and>
         2 \<le> length tld \<and> list_all is_lower_alpha tld)"

section \<open>Normalisation\<close>

datatype identifier_kind = EMAIL | PHONE

definition detect_identifier_kind :: "string \<Rightarrow> exn + identifier_kind" where
  "detect_identifier_kind v =
     (let stripped = strip v in
      if stripped = [] then Inl ValidationError
      else if CHR ''@'' \<in> set stripped then Inr EMAIL
      else if list_all (\<lambda>c. c \<in> set ''0123456789+ -()'') stripped then Inr PHONE
      else Inl ValidationError)"

definition phone_separator :: "char \<Rightarrow> bool" where
  "phone_separator c = (is_space c \<or> c \<in> set ''-()'')"

definition normalize_phone :: "string \<Rightarrow> exn + string" where
  "normalize_phone v =
     (let raw = strip v in
      if raw = [] then Inl ValidationError
      else if length raw > 20 then Inl ValidationError
      else
        (let cleaned = filter (\<lambda>c. \<not> phone_separator c) raw in
         if length cleaned < 10 then Inl ValidationError
         else
           (let cleaned = (if take 2 cleaned = ''00'' then CHR ''+'' # drop 2 cleaned else cleaned) in
            if take 1 cleaned = ''0'' \<and> take 2 cleaned \<noteq> ''00'' then
              (if iran_local_phone (drop 1 cleaned) then Inr (''+98'' @ drop 1 cleaned) else Inl ValidationError)
            else if iran_local_phone cleaned then Inr (''+98'' @ cleaned)
            else if list_all is_digit cleaned \<and> cleaned \<noteq> [] \<and> length cleaned > 10 \<and>
                    e164 (CHR ''+'' # cleaned) \<and> length cleaned \<le> 15 then Inr (CHR ''+'' # cleaned)
            else if take 1 cleaned = ''+'' \<and> e164 cleaned then Inr cleaned
            else Inl ValidationError)))"

definition normalize_email :: "string \<Rightarrow> exn + string" where
  "normalize_email v =
     (let raw = strip v in
      if raw = [] then Inl ValidationError
      else if length raw > 254 then Inl ValidationError
      else
        (let lowered = lower raw in
         if length (filter (\<lambda>c. c = CHR ''@'') lowered) \<noteq> 1 then Inl ValidationError
         else if \<not> email_pattern lowered then Inl ValidationError
         else Inr lowered))"

definition normalize_identifier_by_kind :: "identifier_kind \<Rightarrow> string \<Rightarrow> exn + string" where
  "normalize_identifier_by_kind k v = (case k of EMAIL \<Rightarrow> normalize_email v | PHONE \<Rightarrow> normalize_phone v)"

definition normalize_identifier :: "string \<Rightarrow> exn + (identifier_kind \<times> string)" where
  "normalize_identifier v =
     (case detect_identifier_kind v of
        Inl e \<Rightarrow> Inl e
      | Inr k \<Rightarrow> (case normalize_identifier_by_kind k v of Inl e \<Rightarrow> Inl e | Inr x \<Rightarrow> Inr (k, x)))"

section \<open>Canonical forms\<close>

lemma strip_id: "s = [] \<or> \<not> is_space (hd s) \<and> \<not> is_space (last s) \<Longrightarrow> strip s = s"
proof -
  assume s: "s = [] \<or> \<not> is_space (hd s) \<and> \<not> is_space (last s)"
  then have "dropWhile is_space s = s" by (auto simp: dropWhile_eq_self_iff)
  moreover have "dropWhile is_space (rev s) = rev s" using s by (auto simp: dropWhile_eq_self_iff hd_rev)
  ultimately show "strip s = s" by (simp add: strip_def)
qed

lemma strip_edges:
  assumes ne: "strip s \<noteq> []"
  shows "\<not> is_space (hd (strip s)) \<and> \<not> is_space (last (strip s))"
proof -
  let ?t = "dropWhile is_space s"
  have s: "strip s = rev (dropWhile is_space (rev ?t))" by (simp add: strip_def)
  then have "dropWhile is_space (rev ?t) \<noteq> []" using ne by simp
  then have "\<not> is_space (hd (dropWhile is_space (rev ?t)))" by (rule hd_dropWhile)
  then have last: "\<not> is_space (last (strip s))" using ne by (simp add: s last_rev)
  obtain zs where zs: "?t = strip s @ zs"
    by (metis rev_append rev_rev_ident s takeWhile_dropWhile_id)
  then have "?t \<noteq> []" using ne by simp
  then have "\<not> is_space (hd ?t)" by (rule hd_dropWhile)
  with zs ne last show ?thesis by simp
qed

lemma strip_strip [simp]: "strip (strip s) = strip s"
  using strip_edges [of s] by (intro strip_id) auto

lemma of_char_lower: "of_char (lower_char c) = (if (65 :: nat) \<le> of_char c \<and> of_char c \<le> (90 :: nat) then of_char c + 32 else of_char c :: nat)"
  by (simp add: lower_char_def)

lemma lower_char_idem [simp]: "lower_char (lower_char c) = lower_char c"
  by (auto simp: lower_char_def)

lemma lower_idem [simp]: "lower (lower s) = lower s"
  by (simp add: lower_def)

lemma lower_char_space [simp]: "is_space (lower_char c) = is_space c"
proof (cases "(65 :: nat) \<le> of_char c \<and> of_char c \<le> (90 :: nat)")
  case True
  have nat_space: "is_space d \<Longrightarrow> of_char d \<le> (32 :: nat)" for d by (auto simp: is_space_def)
  from True have "of_char (lower_char c) \<ge> (97 :: nat)" by (simp add: of_char_lower)
  then show ?thesis using nat_space [of c] nat_space [of "lower_char c"] True by auto
qed (auto simp: lower_char_def)

lemma strip_lower: "strip s = s \<Longrightarrow> strip (lower s) = lower s"
  using strip_edges [of s] by (intro strip_id) (auto simp: lower_def hd_map last_map)

lemma normalize_email_canonical:
  assumes "normalize_email v = Inr x"
  shows "normalize_email x = Inr x \<and> CHR ''@'' \<in> set x \<and> strip x = x"
proof -
  from assms have x: "x = lower (strip v)" and n: "length (filter (\<lambda>c. c = CHR ''@'') x) = 1"
    by (auto simp: normalize_email_def Let_def split: if_splits)
  have s: "strip x = x" unfolding x by (rule strip_lower) simp
  have "lower x = x" by (simp add: x)
  moreover have "length x = length (strip v)" by (simp add: x lower_def)
  ultimately have "normalize_email x = Inr x"
    using assms s by (auto simp: normalize_email_def Let_def x [symmetric] split: if_splits)
  moreover have "filter (\<lambda>c. c = CHR ''@'') x \<noteq> []" using n by auto
  then have "CHR ''@'' \<in> set x" by (auto simp: filter_empty_conv)
  ultimately show ?thesis using s by simp
qed

lemma digit_not_separator: "is_digit c \<Longrightarrow> \<not> phone_separator c \<and> \<not> is_space c"
proof -
  have "list_all (\<lambda>c. \<not> phone_separator c \<and> \<not> is_space c) ''0123456789''" by code_simp
  then show "is_digit c \<Longrightarrow> ?thesis" unfolding is_digit_def list_all_iff by blast
qed

lemma digit_phone_char: "is_digit c \<Longrightarrow> c \<in> set ''0123456789+ -()'' \<and> c \<noteq> CHR ''@'' \<and> c \<noteq> CHR ''+''"
proof -
  have "list_all (\<lambda>c. c \<in> set ''0123456789+ -()'' \<and> c \<noteq> CHR ''@'' \<and> c \<noteq> CHR ''+'') ''0123456789''" by code_simp
  then show "is_digit c \<Longrightarrow> ?thesis" unfolding is_digit_def list_all_iff by blast
qed

lemma digits_98 [simp]: "is_digit (CHR ''9'')" "is_digit (CHR ''8'')" "\<not> is_digit (CHR ''+'')"
  by (simp_all add: is_digit_def)

lemma e164_Cons: "e164 x \<longleftrightarrow> (\<exists>ds. x = CHR ''+'' # ds \<and> 10 \<le> length ds \<and> length ds \<le> 15 \<and> list_all is_digit ds)"
  by (auto simp: e164_def split: list.splits)

lemma e164_strip: "e164 x \<Longrightarrow> strip x = x"
proof -
  assume "e164 x"
  then obtain ds where x: "x = CHR ''+'' # ds" "10 \<le> length ds" "list_all is_digit ds" by (auto simp: e164_Cons)
  then have "ds \<noteq> []" by auto
  then have "is_digit (last ds)" using x(3) by (simp add: list_all_iff)
  then have "\<not> is_space (last x)" using x(1) \<open>ds \<noteq> []\<close> digit_not_separator by simp
  moreover have "\<not> is_space (hd x)" using x by (simp add: is_space_def)
  ultimately show ?thesis by (intro strip_id) simp
qed

lemma normalize_phone_e164: "e164 x \<Longrightarrow> normalize_phone x = Inr x"
proof -
  assume e: "e164 x"
  then obtain ds where x: "x = CHR ''+'' # ds" "10 \<le> length ds" "length ds \<le> 15" "list_all is_digit ds"
    by (auto simp: e164_Cons)
  have "filter (\<lambda>c. \<not> phone_separator c) ds = ds"
    using x(4) digit_not_separator by (intro filter_True) (auto simp: list_all_iff)
  then have f: "filter (\<lambda>c. \<not> phone_separator c) x = x" using x by (simp add: phone_separator_def is_space_def)
  have "\<not> iran_local_phone x" "\<not> list_all is_digit x" using x by (auto simp: iran_local_phone_def)
  then show ?thesis using e f x by (simp add: normalize_phone_def Let_def e164_strip)
qed

lemma iran_local_e164: "iran_local_phone s \<Longrightarrow> e164 (''+98'' @ s)"
  by (simp add: iran_local_phone_def e164_def)

lemma normalize_phone_canonical: "normalize_phone v = Inr x \<Longrightarrow> e164 x"
  by (auto simp: normalize_phone_def Let_def split: if_splits dest: iran_local_e164)

lemma detect_e164: "e164 x \<Longrightarrow> detect_identifier_kind x = Inr PHONE"
proof -
  assume e: "e164 x"
  then obtain ds where x: "x = CHR ''+'' # ds" "list_all is_digit ds" by (auto simp: e164_Cons)
  then have "CHR ''@'' \<notin> set ds" using digit_phone_char unfolding list_all_iff by blast
  moreover have "list_all (\<lambda>c. c \<in> set ''0123456789+ -()'') ds"
    using x(2) digit_phone_char unfolding list_all_iff by blast
  ultimately show ?thesis using x e by (simp add: detect_identifier_kind_def Let_def e164_strip)
qed

lemma detect_email: "CHR ''@'' \<in> set x \<Longrightarrow> strip x = x \<Longrightarrow> detect_identifier_kind x = Inr EMAIL"
  by (auto simp: detect_identifier_kind_def Let_def)

text \<open>
  C21. A normalised identifier is canonical: normalising it again, with its kind detected or given, returns
  it unchanged, so that the value under which an OTP or a user is stored is the value every later flow looks
  up; a phone number is always in E.164 form and an e-mail address is in lower case.
\<close>

theorem normalize_identifier_canonical:
  assumes "normalize_identifier v = Inr (k, x)"
  shows "normalize_identifier x = Inr (k, x) \<and> normalize_identifier_by_kind k x = Inr x \<and>
    (case k of EMAIL \<Rightarrow> lower x = x \<and> email_pattern x | PHONE \<Rightarrow> e164 x)"
proof -
  from assms have n: "normalize_identifier_by_kind k v = Inr x"
    by (auto simp: normalize_identifier_def split: sum.splits)
  have "(detect_identifier_kind x = Inr k \<and> normalize_identifier_by_kind k x = Inr x) \<and>
        (case k of EMAIL \<Rightarrow> lower x = x \<and> email_pattern x | PHONE \<Rightarrow> e164 x)"
  proof (cases k)
    case EMAIL
    with n have e: "normalize_email v = Inr x" by (simp add: normalize_identifier_by_kind_def)
    then have "lower x = x \<and> email_pattern x" by (auto simp: normalize_email_def Let_def split: if_splits)
    with EMAIL normalize_email_canonical [OF e] show ?thesis
      by (simp add: normalize_identifier_by_kind_def detect_email)
  next
    case PHONE
    with n have "e164 x" by (simp add: normalize_identifier_by_kind_def normalize_phone_canonical)
    with PHONE show ?thesis by (simp add: normalize_identifier_by_kind_def normalize_phone_e164 detect_e164)
  qed
  then show ?thesis by (simp add: normalize_identifier_def)
qed

theorem normalize_identifier_canonical_witness:
  "normalize_identifier '' 0912-000 0000'' = Inr (PHONE, ''+989120000000'') \<and>
   normalize_identifier ''+989120000000'' = Inr (PHONE, ''+989120000000'')"
proof -
  have *: "normalize_identifier '' 0912-000 0000'' = Inr (PHONE, ''+989120000000'')" by code_simp
  show ?thesis using * normalize_identifier_canonical [OF *] by simp
qed

end
