(* ===== verification/Auth_Types.thy ===== *)
theory Auth_Types
  imports Auth_Identifiers
begin

text \<open>
  Data of the authentication application (\<^verbatim>\<open>src/apps/authentication/models.py\<close>, \<open>choices.py\<close>):
  users, profiles, one-time codes, tracked sessions and risk signals; the tables of the token library
  that the services read and write; the two parts of the cache they use. A transaction restores the
  database on an exception and leaves the cache as it is, so the two are separate parts of the state.

  The user table reuses the rows of the prelude: \<open>created_at\<close> is \<open>date_joined\<close> and \<open>updated_at\<close>
  carries no meaning there.
\<close>

section \<open>Choices\<close>

datatype user_role = ROLE_USER | ROLE_ADMIN

datatype otp_purpose = SIGNUP | LOGIN | IDENTIFIER_ADD | EMAIL_VERIFICATION | PASSWORD_RESET

datatype auth_risk_type = NEW_DEVICE | NEW_IP | FAILED_LOGIN_SPIKE | SESSION_REVOKE_SPIKE

datatype auth_risk_severity = AR_LOW | AR_MEDIUM | AR_HIGH | AR_CRITICAL

datatype auth_risk_status = AR_OPEN | AR_REVIEWED | AR_DISMISSED | AR_ESCALATED

definition kind_str :: "identifier_kind \<Rightarrow> string" where
  "kind_str k = (case k of EMAIL \<Rightarrow> ''email'' | PHONE \<Rightarrow> ''phone'')"

definition purpose_str :: "otp_purpose \<Rightarrow> string" where
  "purpose_str p =
     (case p of SIGNUP \<Rightarrow> ''signup'' | LOGIN \<Rightarrow> ''login'' | IDENTIFIER_ADD \<Rightarrow> ''identifier_add''
      | EMAIL_VERIFICATION \<Rightarrow> ''email_verification'' | PASSWORD_RESET \<Rightarrow> ''password_reset'')"

section \<open>Tables\<close>

record auth_user =
  u_email :: "string option"
  u_phone_number :: "string option"
  u_primary_identifier :: identifier_kind
  u_is_email_verified :: bool
  u_is_phone_verified :: bool
  u_first_name :: string
  u_last_name :: string
  u_role :: user_role
  u_is_staff :: bool
  u_is_superuser :: bool
  u_password :: string
  u_last_login_ip :: "string option"

record profile =
  pf_user :: nat
  pf_national_code :: string
  pf_birth_date :: "int option"
  pf_gender :: string
  pf_avatar :: "string option"
  pf_bio :: string
  pf_province :: string
  pf_city :: string
  pf_address :: string

record otp_code =
  oc_identifier_kind :: identifier_kind
  oc_identifier_value :: string
  oc_purpose :: otp_purpose
  oc_code_hash :: string
  oc_code_salt :: string
  oc_expires_at :: int
  oc_attempts :: nat
  oc_is_used :: bool

record auth_session =
  as_user :: nat
  as_refresh_jti :: string
  as_device_label :: string
  as_user_agent :: string
  as_ip_address :: "string option"
  as_request_id :: string
  as_is_revoked :: bool
  as_revoked_at :: "int option"
  as_revoked_by :: "nat option"
  as_last_seen_at :: int
  as_expires_at :: "int option"
  as_fingerprint_hash :: string

record auth_risk_signal =
  ar_signal_type :: auth_risk_type
  ar_severity :: auth_risk_severity
  ar_status :: auth_risk_status
  ar_user :: nat
  ar_session :: "nat option"
  ar_ip_address :: "string option"
  ar_metadata :: json_obj
  ar_reviewed_by :: "nat option"
  ar_reviewed_at :: "int option"
  ar_review_note :: string

text \<open>The user row's computed properties.\<close>

definition primary_identifier_value :: "auth_user \<Rightarrow> string option" where
  "primary_identifier_value u = (case u_primary_identifier u of PHONE \<Rightarrow> u_phone_number u | EMAIL \<Rightarrow> u_email u)"

definition is_primary_identifier_verified :: "auth_user \<Rightarrow> bool" where
  "is_primary_identifier_verified u =
     (case u_primary_identifier u of PHONE \<Rightarrow> u_is_phone_verified u | EMAIL \<Rightarrow> u_is_email_verified u)"

definition is_fully_verified :: "auth_user \<Rightarrow> bool" where
  "is_fully_verified u = (u_is_email_verified u \<and> u_is_phone_verified u)"

text \<open>The fields a profile needs for high-trust operations, in the order of \<open>PROFILE_R4J_REQUIRED_FIELDS\<close>.\<close>

definition get_missing_r4j_fields :: "profile \<Rightarrow> string list" where
  "get_missing_r4j_fields p =
     map fst (filter snd
       [(''national_code'', pf_national_code p = []), (''birth_date'', pf_birth_date p = None), (''gender'', pf_gender p = []),
        (''province'', pf_province p = []), (''city'', pf_city p = []), (''address'', pf_address p = [])])"

definition is_complete_for_r4j :: "profile \<Rightarrow> bool" where
  "is_complete_for_r4j p = (get_missing_r4j_fields p = [])"

section \<open>State\<close>

record auth_db =
  users :: "auth_user table"
  profiles :: "profile table"
  otp_codes :: "otp_code table"
  auth_sessions :: "auth_session table"
  auth_risk_signals :: "auth_risk_signal table"
  outstanding_tokens :: "string list"
  blacklisted_tokens :: "string list"

text \<open>A cached verdict on a session: the last activity that was seen, or the mark of a revoked session.\<close>

datatype session_state = SESSION_STATE_REVOKED | SEEN int

text \<open>Cache entries carry the time at which they expire. The key sequence of the OTP table is outside the
  transaction: a rolled-back insert does not give its key back.\<close>

record auth_st =
  adb :: auth_db
  otp_seq :: nat
  cooldown_cache :: "string \<Rightarrow> (int \<times> int) option"
  session_cache :: "nat \<times> nat \<Rightarrow> (session_state \<times> int) option"

definition cache_live :: "int \<Rightarrow> ('a \<times> int) option \<Rightarrow> 'a option" where
  "cache_live now e = (case e of None \<Rightarrow> None | Some (x, expiry) \<Rightarrow> if now < expiry then Some x else None)"

definition atomic_db :: "(auth_st, 'a) svc \<Rightarrow> (auth_st, 'a) svc" where
  "atomic_db m = (\<lambda>s. case m s of (Inl e, t) \<Rightarrow> (Inl e, t\<lparr>adb := adb s\<rparr>) | (Inr x, t) \<Rightarrow> (Inr x, t))"

text \<open>\<open>queryset.filter(P).update(...)\<close>\<close>

definition qs_update :: "('v row \<Rightarrow> bool) \<Rightarrow> int \<Rightarrow> ('v \<Rightarrow> 'v) \<Rightarrow> 'v table \<Rightarrow> 'v table" where
  "qs_update p now f t = map (\<lambda>r. if p r then r\<lparr>updated_at := now, vals := f (vals r)\<rparr> else r) t"

definition upd_users :: "(auth_user table \<Rightarrow> auth_user table) \<Rightarrow> auth_st \<Rightarrow> auth_st" where
  "upd_users f s = s\<lparr>adb := (adb s)\<lparr>users := f (users (adb s))\<rparr>\<rparr>"

definition upd_otps :: "(otp_code table \<Rightarrow> otp_code table) \<Rightarrow> auth_st \<Rightarrow> auth_st" where
  "upd_otps f s = s\<lparr>adb := (adb s)\<lparr>otp_codes := f (otp_codes (adb s))\<rparr>\<rparr>"

definition upd_sessions :: "(auth_session table \<Rightarrow> auth_session table) \<Rightarrow> auth_st \<Rightarrow> auth_st" where
  "upd_sessions f s = s\<lparr>adb := (adb s)\<lparr>auth_sessions := f (auth_sessions (adb s))\<rparr>\<rparr>"

section \<open>Lemmas\<close>

lemma atomic_db_Inr [svc_inv]: "atomic_db m s = (Inr y, t) \<longleftrightarrow> m s = (Inr y, t)"
  by (auto simp: atomic_db_def split: prod.splits sum.splits)

lemma atomic_db_Inl: "atomic_db m s = (Inl e, t) \<Longrightarrow> adb t = adb s"
  by (auto simp: atomic_db_def split: prod.splits sum.splits)

lemma upd_otps_simps [simp]:
  "otp_codes (adb (upd_otps f s)) = f (otp_codes (adb s))" "users (adb (upd_otps f s)) = users (adb s)"
  "auth_sessions (adb (upd_otps f s)) = auth_sessions (adb s)" "otp_seq (upd_otps f s) = otp_seq s"
  "cooldown_cache (upd_otps f s) = cooldown_cache s" "session_cache (upd_otps f s) = session_cache s"
  by (simp_all add: upd_otps_def)

lemma map_row_pk_qs_update [simp]: "map row_pk (qs_update p now f t) = map row_pk t"
  by (simp add: qs_update_def)

lemma set_qs_update: "set (qs_update p now f t) = (\<lambda>r. if p r then r\<lparr>updated_at := now, vals := f (vals r)\<rparr> else r) ` set t"
  by (simp add: qs_update_def)

lemma qs_update_none: "(\<And>r. r \<in> set t \<Longrightarrow> \<not> p r) \<Longrightarrow> qs_update p now f t = t"
  by (simp add: qs_update_def map_idI)

end
