(* ===== verification/Auth_Otp.thy ===== *)
theory Auth_Otp
  imports Auth_Types
begin

text \<open>
  The one-time-code engine (\<^verbatim>\<open>src/apps/authentication/otp.py\<close>). HMAC-SHA256 under the secret key and the
  salted digest of the cooldown key are parameters, as is what the delivery provider does; the random
  code and salt of a call are arguments of it. A call reads the clock once.
\<close>

section \<open>Environment\<close>

record otp_env =
  otp_code_length :: nat
  otp_ttl :: int
  otp_max_attempts :: nat
  otp_cooldown :: int
  otp_hmac :: "string \<Rightarrow> string"
  otp_digest :: "string \<Rightarrow> string"

datatype delivery = Delivered | ProviderRefused | ProviderCrashed

record otp_draw =
  draw_code :: nat
  draw_salt :: string
  draw_delivery :: delivery

section \<open>Helpers\<close>

definition generate_code :: "otp_env \<Rightarrow> nat \<Rightarrow> string" where
  "generate_code E n = pad_left (otp_code_length E) (nat_str n)"

definition hash_code :: "otp_env \<Rightarrow> string \<Rightarrow> identifier_kind \<Rightarrow> string \<Rightarrow> otp_purpose \<Rightarrow> string \<Rightarrow> string" where
  "hash_code E salt kind v purpose code =
     otp_hmac E (salt @ ''|'' @ kind_str kind @ ''|'' @ v @ ''|'' @ purpose_str purpose @ ''|'' @ code)"

definition hash_code_legacy :: "otp_env \<Rightarrow> string \<Rightarrow> string" where
  "hash_code_legacy E code = otp_hmac E code"

definition expected_hash_for :: "otp_env \<Rightarrow> otp_code \<Rightarrow> string \<Rightarrow> string" where
  "expected_hash_for E otp code =
     (if oc_code_salt otp = [] then hash_code_legacy E code
      else hash_code E (oc_code_salt otp) (oc_identifier_kind otp) (oc_identifier_value otp) (oc_purpose otp) code)"

definition cooldown_key :: "otp_env \<Rightarrow> identifier_kind \<Rightarrow> string \<Rightarrow> otp_purpose \<Rightarrow> string" where
  "cooldown_key E kind v purpose =
     ''auth:otp:cooldown:'' @ otp_digest E (kind_str kind @ ''|'' @ v @ ''|'' @ purpose_str purpose)"

text \<open>\<open>cache.add\<close> claims a free slot; on a taken one the remaining seconds are returned, at least one. With
  one clock reading the entry cannot expire between \<open>add\<close> and \<open>get\<close>.\<close>

definition reserve_cooldown_slot :: "otp_env \<Rightarrow> int \<Rightarrow> identifier_kind \<Rightarrow> string \<Rightarrow> otp_purpose \<Rightarrow> (auth_st, int option) svc" where
  "reserve_cooldown_slot E now kind v purpose =
     (let key = cooldown_key E kind v purpose in
      bnd (gets (\<lambda>s. cache_live now (cooldown_cache s key))) (\<lambda>e.
      case e of
        None \<Rightarrow> seqn (modify (\<lambda>s. s\<lparr>cooldown_cache := (cooldown_cache s)(key := Some (now, now + otp_cooldown E))\<rparr>)) (ret None)
      | Some started_at \<Rightarrow> ret (Some (max (otp_cooldown E - (now - started_at)) 1))))"

definition release_cooldown_slot :: "otp_env \<Rightarrow> identifier_kind \<Rightarrow> string \<Rightarrow> otp_purpose \<Rightarrow> (auth_st, unit) svc" where
  "release_cooldown_slot E kind v purpose =
     modify (\<lambda>s. s\<lparr>cooldown_cache := (cooldown_cache s)(cooldown_key E kind v purpose := None)\<rparr>)"

text \<open>The rows of one identifier and purpose that were not used yet.\<close>

definition open_for :: "identifier_kind \<Rightarrow> string \<Rightarrow> otp_purpose \<Rightarrow> otp_code row \<Rightarrow> bool" where
  "open_for kind v purpose r =
     (is_active r \<and> oc_identifier_kind (vals r) = kind \<and> oc_identifier_value (vals r) = v \<and>
      oc_purpose (vals r) = purpose \<and> \<not> oc_is_used (vals r))"

definition get_latest_active_otp :: "int \<Rightarrow> identifier_kind \<Rightarrow> string \<Rightarrow> otp_purpose \<Rightarrow> otp_code table \<Rightarrow> otp_code row option" where
  "get_latest_active_otp now kind v purpose t =
     first_newest (\<lambda>r. open_for kind v purpose r \<and> oc_expires_at (vals r) > now) t"

definition is_expired :: "int \<Rightarrow> otp_code \<Rightarrow> bool" where
  "is_expired now otp = (now > oc_expires_at otp)"

definition is_valid :: "int \<Rightarrow> otp_code \<Rightarrow> bool" where
  "is_valid now otp = (\<not> oc_is_used otp \<and> \<not> is_expired now otp)"

text \<open>The rows a conditional update on one code touches.\<close>

definition unused_pk :: "nat \<Rightarrow> otp_code row \<Rightarrow> bool" where
  "unused_pk k r = (row_pk r = k \<and> is_active r \<and> \<not> oc_is_used (vals r))"

definition mark_otp_used :: "int \<Rightarrow> nat \<Rightarrow> (auth_st, bool) svc" where
  "mark_otp_used now k =
     bnd (gets (\<lambda>s. list_ex (unused_pk k) (otp_codes (adb s)))) (\<lambda>updated.
     seqn (modify (upd_otps (qs_update (unused_pk k) now (\<lambda>v. v\<lparr>oc_is_used := True\<rparr>))))
     (ret updated))"

definition increment_otp_attempts :: "int \<Rightarrow> nat \<Rightarrow> (auth_st, nat) svc" where
  "increment_otp_attempts now k =
     atomic_db
     (bnd (gets (\<lambda>s. list_ex (unused_pk k) (otp_codes (adb s)))) (\<lambda>updated.
      seqn (modify (upd_otps (qs_update (unused_pk k) now (\<lambda>v. v\<lparr>oc_attempts := oc_attempts v + 1\<rparr>))))
      (seqn (check updated OTPNotFound)
      (bnd (follow (\<lambda>s. otp_codes (adb s)) k) (\<lambda>r.
       ret (oc_attempts (vals r)))))))"

section \<open>Generation\<close>

definition persist_new_otp ::
  "int \<Rightarrow> identifier_kind \<Rightarrow> string \<Rightarrow> otp_purpose \<Rightarrow> string \<Rightarrow> string \<Rightarrow> int \<Rightarrow> (auth_st, otp_code row) svc" where
  "persist_new_otp now kind v purpose code_hash code_salt expires_at =
     bnd (gets otp_seq) (\<lambda>n.
     let r = \<lparr>row_pk = Suc n, created_at = now, updated_at = now, is_active = True,
              vals = \<lparr>oc_identifier_kind = kind, oc_identifier_value = v, oc_purpose = purpose, oc_code_hash = code_hash,
                      oc_code_salt = code_salt, oc_expires_at = expires_at, oc_attempts = 0, oc_is_used = False\<rparr>\<rparr>
     in seqn (modify (\<lambda>s. (upd_otps (\<lambda>t. t @ [r]) s)\<lparr>otp_seq := Suc n\<rparr>)) (ret r))"

definition commit_otp_delivery :: "int \<Rightarrow> otp_code row \<Rightarrow> (auth_st, unit) svc" where
  "commit_otp_delivery now otp =
     modify (upd_otps (qs_update
       (\<lambda>r. open_for (oc_identifier_kind (vals otp)) (oc_identifier_value (vals otp)) (oc_purpose (vals otp)) r \<and>
            row_pk r \<noteq> row_pk otp)
       now (\<lambda>v. v\<lparr>oc_is_used := True\<rparr>)))"

definition discard_undelivered_otp :: "nat \<Rightarrow> (auth_st, unit) svc" where
  "discard_undelivered_otp k = modify (upd_otps (filter (\<lambda>r. \<not> (row_pk r = k \<and> is_active r))))"

definition discard_and_release :: "otp_env \<Rightarrow> otp_code row \<Rightarrow> exn \<Rightarrow> (auth_st, 'a) svc" where
  "discard_and_release E otp e =
     seqn (discard_undelivered_otp (row_pk otp))
     (seqn (release_cooldown_slot E (oc_identifier_kind (vals otp)) (oc_identifier_value (vals otp)) (oc_purpose (vals otp)))
     (raise e))"

record otp_result =
  or_otp :: "otp_code row"
  or_code_plain :: string
  or_expires_in_seconds :: int

definition generate_and_send_otp ::
  "otp_env \<Rightarrow> int \<Rightarrow> otp_draw \<Rightarrow> identifier_kind \<Rightarrow> string \<Rightarrow> otp_purpose \<Rightarrow> (auth_st, otp_result) svc" where
  "generate_and_send_otp E now d kind v purpose =
     bnd (reserve_cooldown_slot E now kind v purpose) (\<lambda>remaining.
     case remaining of
       Some secs \<Rightarrow> raise (OTPCooldownActive secs)
     | None \<Rightarrow>
         bnd (gets (\<lambda>s. get_latest_active_otp now kind v purpose (otp_codes (adb s)))) (\<lambda>latest.
         let elapsed = (case latest of None \<Rightarrow> otp_cooldown E | Some r \<Rightarrow> now - created_at r) in
         if elapsed < otp_cooldown E then
           seqn (release_cooldown_slot E kind v purpose) (raise (OTPCooldownActive (otp_cooldown E - elapsed)))
         else
           (let code_plain = generate_code E (draw_code d);
                code_hash = hash_code E (draw_salt d) kind v purpose code_plain in
            bnd (persist_new_otp now kind v purpose code_hash (draw_salt d) (now + otp_ttl E)) (\<lambda>otp.
            case draw_delivery d of
              ProviderRefused \<Rightarrow> discard_and_release E otp OTPDeliveryError
            | ProviderCrashed \<Rightarrow> discard_and_release E otp OTPProviderException
            | Delivered \<Rightarrow>
                seqn (commit_otp_delivery now otp)
                (ret \<lparr>or_otp = otp, or_code_plain = code_plain, or_expires_in_seconds = otp_ttl E\<rparr>)))))"

section \<open>Verification\<close>

definition select_otp :: "identifier_kind \<Rightarrow> string \<Rightarrow> otp_purpose \<Rightarrow> otp_code table \<Rightarrow> otp_code row option" where
  "select_otp kind v purpose t = first_newest (open_for kind v purpose) t"

definition retire_otp :: "int \<Rightarrow> otp_code row \<Rightarrow> exn \<Rightarrow> (auth_st, 'a) svc" where
  "retire_otp now otp e = bnd (mark_otp_used now (row_pk otp)) (\<lambda>ok. if ok then raise e else raise OTPNotFound)"

definition after_wrong_code :: "otp_env \<Rightarrow> int \<Rightarrow> nat \<Rightarrow> nat \<Rightarrow> (auth_st, 'a) svc" where
  "after_wrong_code E now k next_attempt_count =
     (if next_attempt_count \<ge> otp_max_attempts E then seqn (mark_otp_used now k) (raise OTPTooManyAttempts)
      else raise OTPInvalidCode)"

definition accept_otp :: "int \<Rightarrow> otp_code row \<Rightarrow> (auth_st, otp_code row) svc" where
  "accept_otp now otp =
     bnd (mark_otp_used now (row_pk otp)) (\<lambda>ok.
     if ok then ret (otp\<lparr>vals := (vals otp)\<lparr>oc_is_used := True\<rparr>\<rparr>) else raise OTPNotFound)"

definition judge_otp :: "otp_env \<Rightarrow> int \<Rightarrow> string \<Rightarrow> otp_code row \<Rightarrow> (auth_st, otp_code row) svc" where
  "judge_otp E now code otp =
     (if is_expired now (vals otp) then retire_otp now otp OTPExpired
      else if oc_attempts (vals otp) \<ge> otp_max_attempts E then retire_otp now otp OTPTooManyAttempts
      else if oc_code_hash (vals otp) \<noteq> expected_hash_for E (vals otp) code then
        bnd (increment_otp_attempts now (row_pk otp)) (after_wrong_code E now (row_pk otp))
      else accept_otp now otp)"

definition verify_otp ::
  "otp_env \<Rightarrow> int \<Rightarrow> identifier_kind \<Rightarrow> string \<Rightarrow> otp_purpose \<Rightarrow> string \<Rightarrow> (auth_st, otp_code row) svc" where
  "verify_otp E now kind v purpose code =
     (if strip code = [] then raise OTPInvalidCode
      else
        bnd (gets (\<lambda>s. select_otp kind v purpose (otp_codes (adb s)))) (\<lambda>found.
        case found of None \<Rightarrow> raise OTPNotFound | Some otp \<Rightarrow> judge_otp E now code otp))"

section \<open>Concurrent verification\<close>

text \<open>
  A verification is a sequence of database statements between which other requests run: the query that
  selects the code, one conditional update that depends on what was read, and after a counted wrong
  guess the update that retires the code. Each verifier is at one of these points.
\<close>

datatype verifier =
    V_select identifier_kind string otp_purpose string
  | V_judge string "otp_code row"
  | V_counted nat nat
  | V_accepted nat
  | V_wrong nat exn
  | V_refused exn

definition end_in :: "('a \<Rightarrow> verifier) \<Rightarrow> (exn \<Rightarrow> verifier) \<Rightarrow> (auth_st, 'a) svc \<Rightarrow> (auth_st, verifier) svc" where
  "end_in f g m = try_svc (bnd m (\<lambda>x. ret (f x))) (\<lambda>e. ret (g e))"

definition verifier_move :: "otp_env \<Rightarrow> int \<Rightarrow> verifier \<Rightarrow> (auth_st, verifier) svc" where
  "verifier_move E now v =
     (case v of
        V_select kind w purpose code \<Rightarrow>
          if strip code = [] then ret (V_refused OTPInvalidCode)
          else bnd (gets (\<lambda>s. select_otp kind w purpose (otp_codes (adb s)))) (\<lambda>found.
               ret (case found of None \<Rightarrow> V_refused OTPNotFound | Some otp \<Rightarrow> V_judge code otp))
      | V_judge code otp \<Rightarrow>
          if \<not> is_expired now (vals otp) \<and> oc_attempts (vals otp) < otp_max_attempts E \<and>
             oc_code_hash (vals otp) \<noteq> expected_hash_for E (vals otp) code
          then end_in (V_counted (row_pk otp)) V_refused (increment_otp_attempts now (row_pk otp))
          else end_in (\<lambda>r. V_accepted (row_pk r)) V_refused (judge_otp E now code otp)
      | V_counted k n \<Rightarrow> end_in (\<lambda>_ :: unit. V_counted k n) (V_wrong k) (after_wrong_code E now k n)
      | _ \<Rightarrow> ret v)"

record otp_sys =
  os_state :: auth_st
  os_verifiers :: "verifier list"

inductive otp_step :: "otp_env \<Rightarrow> otp_sys \<Rightarrow> otp_sys \<Rightarrow> bool" for E where
  arrive: "otp_step E s (s\<lparr>os_verifiers := os_verifiers s @ [V_select kind w purpose code]\<rparr>)"
| verify: "i < length (os_verifiers s) \<Longrightarrow> verifier_move E now (os_verifiers s ! i) (os_state s) = (Inr v, t) \<Longrightarrow>
     otp_step E s \<lparr>os_state = t, os_verifiers = (os_verifiers s)[i := v]\<rparr>"
| issue: "persist_new_otp now kind w purpose code_hash code_salt expires_at (os_state s) = (Inr r, t) \<Longrightarrow>
     otp_step E s (s\<lparr>os_state := t\<rparr>)"
| commit: "commit_otp_delivery now otp (os_state s) = (Inr u, t) \<Longrightarrow> otp_step E s (s\<lparr>os_state := t\<rparr>)"
| discard: "discard_undelivered_otp k (os_state s) = (Inr u, t) \<Longrightarrow> otp_step E s (s\<lparr>os_state := t\<rparr>)"

definition no_otps :: "otp_sys \<Rightarrow> bool" where
  "no_otps s \<longleftrightarrow> otp_codes (adb (os_state s)) = [] \<and> os_verifiers s = []"

inductive_cases otp_stepE: "otp_step E s t"

end
