(* ===== verification/Auth_Sessions.thy ===== *)
theory Auth_Sessions
  imports Auth_Otp Audit_Log
begin

text \<open>
  Tracked sessions and the risk signals raised on them (\<^verbatim>\<open>src/apps/authentication/services.py\<close>: sections
  of helpers, JWT and sessions; \<open>AuthSession\<close> of \<open>models.py\<close>). The token library is a parameter: the refresh
  token that it issues in a call is an argument of the call, and how issuing and blacklisting change its two
  tables are functions of the environment. The client address of a request is the result of
  \<open>apps.core.client_ip\<close>.
\<close>

section \<open>Environment\<close>

record refresh_token =
  rt_jti :: string
  rt_exp :: "int option"
  rt_sid :: "nat option"

record http_request =
  rq_client_ip :: "string option"
  rq_user_agent :: string
  rq_request_id :: string

datatype fingerprint_algorithm = FINGERPRINT_SHA256 | FINGERPRINT_SHA1

record auth_env =
  env_otp :: otp_env
  env_fingerprint :: "fingerprint_algorithm \<Rightarrow> string \<Rightarrow> string"
  env_make_password :: "string \<Rightarrow> string"
  env_check_password :: "string \<Rightarrow> string \<Rightarrow> bool"
  env_token_issued :: "string \<Rightarrow> string list \<Rightarrow> string list"
  env_token_blacklist :: "string \<Rightarrow> string list \<times> string list \<Rightarrow> string list \<times> string list"

definition LAST_SEEN_TOUCH_SECONDS :: int where "LAST_SEEN_TOUCH_SECONDS = 60"

section \<open>Fingerprints and labels\<close>

definition build_fingerprint_hash :: "auth_env \<Rightarrow> fingerprint_algorithm \<Rightarrow> string \<Rightarrow> string option \<Rightarrow> string" where
  "build_fingerprint_hash E alg user_agent ip_address =
     env_fingerprint E alg (take 512 user_agent @ ''|'' @ (case ip_address of None \<Rightarrow> [] | Some ip \<Rightarrow> ip))"

definition build_device_label :: "string \<Rightarrow> string" where
  "build_device_label user_agent =
     (let normalized = (if user_agent = [] then ''Unknown device'' else user_agent) in
      if contains ''Mobile'' normalized \<or> contains ''Android'' normalized \<or> contains ''iPhone'' normalized then ''Mobile browser''
      else if contains ''Firefox'' normalized then ''Firefox browser''
      else if contains ''Chrome'' normalized then ''Chrome browser''
      else if contains ''Safari'' normalized then ''Safari browser''
      else take 80 normalized)"

section \<open>Creating a session\<close>

definition create_auth_session :: "auth_env \<Rightarrow> int \<Rightarrow> nat \<Rightarrow> refresh_token \<Rightarrow> http_request \<Rightarrow> (auth_st, auth_session row) svc" where
  "create_auth_session E now user refresh rq =
     (let ip = rq_client_ip rq; user_agent = take 512 (rq_user_agent rq);
          v = \<lparr>as_user = user, as_refresh_jti = rt_jti refresh, as_device_label = build_device_label user_agent,
               as_user_agent = user_agent, as_ip_address = ip, as_request_id = take 80 (rq_request_id rq),
               as_is_revoked = False, as_revoked_at = None, as_revoked_by = None, as_last_seen_at = now,
               as_expires_at = (case rt_exp refresh of None \<Rightarrow> None | Some e \<Rightarrow> if e = 0 then None else Some e),
               as_fingerprint_hash = build_fingerprint_hash E FINGERPRINT_SHA256 user_agent ip\<rparr>
      in bnd (gets (\<lambda>s. auth_sessions (adb s))) (\<lambda>t.
         seqn (check (list_all (\<lambda>r. as_refresh_jti (vals r) \<noteq> rt_jti refresh) t) IntegrityError)
         (seqn (modify (upd_sessions (tbl_insert now v)))
         (ret (new_row now v t)))))"

section \<open>Risk signals\<close>

definition upd_signals :: "(auth_risk_signal table \<Rightarrow> auth_risk_signal table) \<Rightarrow> auth_st \<Rightarrow> auth_st" where
  "upd_signals f s = s\<lparr>adb := (adb s)\<lparr>auth_risk_signals := f (auth_risk_signals (adb s))\<rparr>\<rparr>"

text \<open>The description of a signal is user-visible text and is not modelled.\<close>

definition create_auth_risk_signal ::
  "int \<Rightarrow> auth_risk_type \<Rightarrow> auth_risk_severity \<Rightarrow> nat \<Rightarrow> nat option \<Rightarrow> string option \<Rightarrow> json_obj \<Rightarrow> (auth_st, auth_risk_signal row) svc" where
  "create_auth_risk_signal now signal_type severity user session ip_address metadata =
     bnd (gets (\<lambda>s. auth_risk_signals (adb s))) (\<lambda>t.
     case first_newest (\<lambda>r. is_active r \<and> ar_signal_type (vals r) = signal_type \<and> ar_status (vals r) = AR_OPEN \<and>
            ar_user (vals r) = user \<and> ar_session (vals r) = session \<and> ar_ip_address (vals r) = ip_address) t of
       Some existing \<Rightarrow> ret existing
     | None \<Rightarrow>
         (let v = \<lparr>ar_signal_type = signal_type, ar_severity = severity, ar_status = AR_OPEN, ar_user = user,
                   ar_session = session, ar_ip_address = ip_address, ar_metadata = metadata, ar_reviewed_by = None,
                   ar_reviewed_at = None, ar_review_note = []\<rparr>
          in seqn (modify (upd_signals (tbl_insert now v))) (ret (new_row now v t))))"

definition evaluate_auth_session_risk :: "auth_env \<Rightarrow> int \<Rightarrow> auth_session row \<Rightarrow> (auth_st, auth_risk_signal row list) svc" where
  "evaluate_auth_session_risk E now session =
     (let v = vals session; signal = (\<lambda>ty sev. create_auth_risk_signal now ty sev (as_user v) (Some (row_pk session))
            (as_ip_address v) [(''device_label'', JStr (as_device_label v))]);
          legacy = build_fingerprint_hash E FINGERPRINT_SHA1 (as_user_agent v) (as_ip_address v) in
      bnd (gets (\<lambda>s. filter (\<lambda>r. as_user (vals r) = as_user v \<and> row_pk r \<noteq> row_pk session) (objects (auth_sessions (adb s))))) (\<lambda>previous.
      bnd (if list_ex (\<lambda>r. as_fingerprint_hash (vals r) = as_fingerprint_hash v \<or> as_fingerprint_hash (vals r) = legacy) previous
           then ret [] else bnd (signal NEW_DEVICE AR_MEDIUM) (\<lambda>x. ret [x])) (\<lambda>signals.
      if as_ip_address v \<noteq> None \<and> as_ip_address v \<noteq> Some [] \<and> \<not> list_ex (\<lambda>r. as_ip_address (vals r) = as_ip_address v) previous
      then bnd (signal NEW_IP AR_LOW) (\<lambda>x. ret (signals @ [x]))
      else ret signals)))"

text \<open>\<open>record_failed_login_risk\<close> counts the failed logins in the audit log.\<close>

definition LOGIN_FAILED :: string where "LOGIN_FAILED = ''LOGIN_FAILED''"

definition record_failed_login_risk ::
  "audit_entry table \<Rightarrow> int \<Rightarrow> nat option \<Rightarrow> string option \<Rightarrow> int \<Rightarrow> nat \<Rightarrow> (auth_st, auth_risk_signal row option) svc" where
  "record_failed_login_risk log now user ip_address window_minutes threshold =
     (case user of
        None \<Rightarrow> ret None
      | Some u \<Rightarrow>
          (let since = now - 60 * window_minutes in
           bnd (gets (\<lambda>s. agg_count (\<lambda>r. ar_user (vals r) = u \<and> ar_signal_type (vals r) = FAILED_LOGIN_SPIKE \<and>
                since \<le> created_at r \<and> ar_status (vals r) = AR_OPEN) (objects (auth_risk_signals (adb s))))) (\<lambda>recent.
           if recent \<ge> 1 then ret None
           else
             (let failure_count = agg_count (\<lambda>r. al_user (vals r) = Some u \<and> al_action (vals r) = LOGIN_FAILED \<and> since \<le> created_at r) log in
              if failure_count < threshold then ret None
              else bnd (create_auth_risk_signal now FAILED_LOGIN_SPIKE AR_HIGH u None ip_address
                     [(''window_minutes'', JInt window_minutes), (''failure_count'', JInt (int failure_count))]) (\<lambda>x. ret (Some x))))))"

definition review_auth_risk_signal ::
  "int \<Rightarrow> nat \<Rightarrow> nat \<Rightarrow> auth_risk_status \<Rightarrow> string \<Rightarrow> (auth_st, auth_risk_signal row) svc" where
  "review_auth_risk_signal now signal reviewed_by status review_note =
     atomic_db
     (seqn (check (status \<noteq> AR_OPEN) AuthServiceError)
     (bnd (fetch (\<lambda>s. auth_risk_signals (adb s)) signal) (\<lambda>locked.
      let f = (\<lambda>v. v\<lparr>ar_status := status, ar_reviewed_by := Some reviewed_by, ar_reviewed_at := Some now, ar_review_note := strip review_note\<rparr>)
      in seqn (modify (upd_signals (tbl_upd signal now f)))
         (ret (locked\<lparr>updated_at := now, vals := f (vals locked)\<rparr>)))))"

section \<open>Revocation\<close>

definition invalidate_session_validity_cache :: "nat \<Rightarrow> nat \<Rightarrow> (auth_st, unit) svc" where
  "invalidate_session_validity_cache sid user_id =
     modify (\<lambda>s. s\<lparr>session_cache := (session_cache s)((user_id, sid) := None)\<rparr>)"

definition blacklist_outstanding :: "string \<Rightarrow> auth_db \<Rightarrow> auth_db" where
  "blacklist_outstanding jti d =
     (if jti \<in> set (outstanding_tokens d) \<and> jti \<notin> set (blacklisted_tokens d)
      then d\<lparr>blacklisted_tokens := blacklisted_tokens d @ [jti]\<rparr> else d)"

definition revoke_auth_session :: "int \<Rightarrow> nat \<Rightarrow> nat option \<Rightarrow> (auth_st, auth_session row) svc" where
  "revoke_auth_session now session revoked_by =
     atomic_db
     (bnd (fetch (\<lambda>s. auth_sessions (adb s)) session) (\<lambda>locked.
      if as_is_revoked (vals locked) then ret locked
      else
        (let f = (\<lambda>v. v\<lparr>as_is_revoked := True, as_revoked_at := Some now, as_revoked_by := revoked_by\<rparr>) in
         seqn (modify (upd_sessions (tbl_upd session now f)))
         (seqn (modify (\<lambda>s. s\<lparr>adb := blacklist_outstanding (as_refresh_jti (vals locked)) (adb s)\<rparr>))
         (seqn (invalidate_session_validity_cache session (as_user (vals locked)))
         (ret (locked\<lparr>updated_at := now, vals := f (vals locked)\<rparr>)))))))"

definition revoke_auth_session_by_jti :: "int \<Rightarrow> string \<Rightarrow> nat option \<Rightarrow> (auth_st, auth_session row option) svc" where
  "revoke_auth_session_by_jti now refresh_jti revoked_by =
     bnd (gets (\<lambda>s. find (\<lambda>r. as_refresh_jti (vals r) = refresh_jti) (objects (auth_sessions (adb s))))) (\<lambda>session.
     case session of None \<Rightarrow> ret None
     | Some r \<Rightarrow> bnd (revoke_auth_session now (row_pk r) revoked_by) (\<lambda>x. ret (Some x)))"

text \<open>The sessions are revoked in table order; the order of the queryset does not change the outcome.\<close>

definition revoke_all_user_sessions :: "int \<Rightarrow> nat \<Rightarrow> nat option \<Rightarrow> nat option \<Rightarrow> (auth_st, nat) svc" where
  "revoke_all_user_sessions now user revoked_by exclude_sid =
     atomic_db
     (bnd (gets (\<lambda>s. filter (\<lambda>r. as_user (vals r) = user \<and> \<not> as_is_revoked (vals r) \<and>
            (case exclude_sid of None \<Rightarrow> True | Some k \<Rightarrow> row_pk r \<noteq> k)) (objects (auth_sessions (adb s))))) (\<lambda>sessions.
      bnd (for_each (map row_pk sessions) (\<lambda>k. revoke_auth_session now k revoked_by)) (\<lambda>done.
      ret (length done))))"

section \<open>The check on every request\<close>

definition session_of :: "nat \<Rightarrow> nat \<Rightarrow> auth_session table \<Rightarrow> auth_session row option" where
  "session_of user sid t = find (\<lambda>r. row_pk r = sid \<and> as_user (vals r) = user) (objects t)"

definition cache_session :: "int \<Rightarrow> nat \<Rightarrow> nat \<Rightarrow> session_state \<Rightarrow> (auth_st, unit) svc" where
  "cache_session now user sid v =
     modify (\<lambda>s. s\<lparr>session_cache := (session_cache s)((user, sid) := Some (v, now + LAST_SEEN_TOUCH_SECONDS))\<rparr>)"

definition touch_last_seen :: "int \<Rightarrow> nat \<Rightarrow> auth_session table \<Rightarrow> auth_session table" where
  "touch_last_seen now sid t =
     map (\<lambda>r. if row_pk r = sid \<and> is_active r \<and> \<not> as_is_revoked (vals r) then r\<lparr>vals := (vals r)\<lparr>as_last_seen_at := now\<rparr>\<rparr> else r) t"

definition validate_and_touch_session :: "int \<Rightarrow> nat \<Rightarrow> nat option \<Rightarrow> (auth_st, bool) svc" where
  "validate_and_touch_session now user sid_claim =
     (case sid_claim of
        None \<Rightarrow> ret True
      | Some sid \<Rightarrow>
          bnd (gets (\<lambda>s. cache_live now (session_cache s (user, sid)))) (\<lambda>cached.
          if cached = Some SESSION_STATE_REVOKED then ret False
          else if (case cached of Some (SEEN t) \<Rightarrow> now - t < LAST_SEEN_TOUCH_SECONDS | _ \<Rightarrow> False) then ret True
          else
            bnd (gets (\<lambda>s. session_of user sid (auth_sessions (adb s)))) (\<lambda>session.
            case session of
              None \<Rightarrow> seqn (cache_session now user sid SESSION_STATE_REVOKED) (ret False)
            | Some r \<Rightarrow>
                if as_is_revoked (vals r) then seqn (cache_session now user sid SESSION_STATE_REVOKED) (ret False)
                else if now - as_last_seen_at (vals r) \<ge> LAST_SEEN_TOUCH_SECONDS then
                  seqn (modify (upd_sessions (touch_last_seen now sid)))
                  (seqn (cache_session now user sid (SEEN now)) (ret True))
                else seqn (cache_session now user sid (SEEN (as_last_seen_at (vals r)))) (ret True))))"

end
