(* ===== verification/Auth_Accounts.thy ===== *)
theory Auth_Accounts
  imports Auth_Sessions
begin

text \<open>
  Accounts and the authentication flows (\<^verbatim>\<open>src/apps/authentication/services.py\<close>, \<open>managers.py\<close>, \<open>backends.py\<close>,
  \<open>selectors.py\<close>, \<open>signals.py\<close>): registration, login by password and by code, password reset, identifier
  management, profile and administration. A user argument of a service is the row the caller has in memory.
  Password hashing is a parameter. User rows are never deleted by this code, so a save finds its row.
\<close>

section \<open>Saving users\<close>

datatype user_field =
    F_email "string option" | F_phone_number "string option" | F_primary_identifier identifier_kind
  | F_is_email_verified bool | F_is_phone_verified bool | F_first_name string | F_last_name string
  | F_role user_role | F_is_staff bool | F_is_active bool | F_password string | F_last_login_ip "string option"

fun set_user_field :: "user_field \<Rightarrow> auth_user row \<Rightarrow> auth_user row" where
  "set_user_field (F_email x) r = r\<lparr>vals := (vals r)\<lparr>u_email := x\<rparr>\<rparr>"
| "set_user_field (F_phone_number x) r = r\<lparr>vals := (vals r)\<lparr>u_phone_number := x\<rparr>\<rparr>"
| "set_user_field (F_primary_identifier x) r = r\<lparr>vals := (vals r)\<lparr>u_primary_identifier := x\<rparr>\<rparr>"
| "set_user_field (F_is_email_verified x) r = r\<lparr>vals := (vals r)\<lparr>u_is_email_verified := x\<rparr>\<rparr>"
| "set_user_field (F_is_phone_verified x) r = r\<lparr>vals := (vals r)\<lparr>u_is_phone_verified := x\<rparr>\<rparr>"
| "set_user_field (F_first_name x) r = r\<lparr>vals := (vals r)\<lparr>u_first_name := x\<rparr>\<rparr>"
| "set_user_field (F_last_name x) r = r\<lparr>vals := (vals r)\<lparr>u_last_name := x\<rparr>\<rparr>"
| "set_user_field (F_role x) r = r\<lparr>vals := (vals r)\<lparr>u_role := x\<rparr>\<rparr>"
| "set_user_field (F_is_staff x) r = r\<lparr>vals := (vals r)\<lparr>u_is_staff := x\<rparr>\<rparr>"
| "set_user_field (F_is_active x) r = r\<lparr>is_active := x\<rparr>"
| "set_user_field (F_password x) r = r\<lparr>vals := (vals r)\<lparr>u_password := x\<rparr>\<rparr>"
| "set_user_field (F_last_login_ip x) r = r\<lparr>vals := (vals r)\<lparr>u_last_login_ip := x\<rparr>\<rparr>"

definition set_user_fields :: "user_field list \<Rightarrow> auth_user row \<Rightarrow> auth_user row" where
  "set_user_fields fs r = fold set_user_field fs r"

text \<open>The unique columns and the check constraint of the table, of row \<open>k\<close> against the others.\<close>

definition user_constraints :: "auth_user table \<Rightarrow> nat \<Rightarrow> auth_user \<Rightarrow> bool" where
  "user_constraints t k u \<longleftrightarrow> (u_email u \<noteq> None \<or> u_phone_number u \<noteq> None) \<and>
     list_all (\<lambda>r. row_pk r = k \<or>
       (u_email u = None \<or> u_email (vals r) \<noteq> u_email u) \<and>
       (u_phone_number u = None \<or> u_phone_number (vals r) \<noteq> u_phone_number u)) t"

definition save_user :: "nat \<Rightarrow> user_field list \<Rightarrow> (auth_st, unit) svc" where
  "save_user k fs =
     bnd (gets (\<lambda>s. map (\<lambda>r. if row_pk r = k then set_user_fields fs r else r) (users (adb s)))) (\<lambda>t.
     seqn (check (list_all (\<lambda>r. row_pk r \<noteq> k \<or> user_constraints t k (vals r)) t) IntegrityError)
     (modify (upd_users (\<lambda>_. t))))"

section \<open>Managers, selectors and the login backend\<close>

text \<open>Django's \<open>BaseUserManager.normalize_email\<close> lowers the part after the last \<open>@\<close>.\<close>

definition manager_normalize_email :: "string \<Rightarrow> string" where
  "manager_normalize_email e =
     (if CHR ''@'' \<in> set e then
        (let domain = rev (takeWhile (\<lambda>c. c \<noteq> CHR ''@'') (rev e)) in take (length e - length domain) e @ lower domain)
      else e)"

definition normalize_optional_email :: "string option \<Rightarrow> string option" where
  "normalize_optional_email e =
     (case e of None \<Rightarrow> None | Some x \<Rightarrow> if strip x = [] then None else Some (manager_normalize_email (strip x)))"

definition normalize_optional_phone :: "string option \<Rightarrow> string option" where
  "normalize_optional_phone p = (case p of None \<Rightarrow> None | Some x \<Rightarrow> if strip x = [] then None else Some (strip x))"

definition resolve_primary_identifier :: "string option \<Rightarrow> string option \<Rightarrow> identifier_kind option \<Rightarrow> exn + identifier_kind" where
  "resolve_primary_identifier email phone primary =
     (case primary of
        None \<Rightarrow> Inr (if email \<noteq> None then EMAIL else PHONE)
      | Some EMAIL \<Rightarrow> if email = None then Inl ValueError else Inr EMAIL
      | Some PHONE \<Rightarrow> if phone = None then Inl ValueError else Inr PHONE)"

definition create_profile :: "int \<Rightarrow> nat \<Rightarrow> (auth_st, unit) svc" where
  "create_profile now user =
     modify (\<lambda>s. s\<lparr>adb := (adb s)\<lparr>profiles := tbl_insert now
       \<lparr>pf_user = user, pf_national_code = [], pf_birth_date = None, pf_gender = [], pf_avatar = None, pf_bio = [],
        pf_province = [], pf_city = [], pf_address = []\<rparr> (profiles (adb s))\<rparr>\<rparr>)"

text \<open>\<open>create_user\<close> with \<open>_create_user\<close>; the signal handler adds the profile of the new user.\<close>

definition create_user ::
  "auth_env \<Rightarrow> int \<Rightarrow> string option \<Rightarrow> string option \<Rightarrow> identifier_kind option \<Rightarrow> string \<Rightarrow> string \<Rightarrow> string \<Rightarrow>
   user_role \<Rightarrow> bool \<Rightarrow> bool \<Rightarrow> bool \<Rightarrow> bool \<Rightarrow> (auth_st, auth_user row) svc" where
  "create_user E now email0 phone0 primary password first_name last_name role is_staff is_superuser email_verified phone_verified =
     (let email = normalize_optional_email email0; phone = normalize_optional_phone phone0 in
      seqn (check (\<not> (email = None \<and> phone = None)) ValueError)
      (case resolve_primary_identifier email phone primary of
         Inl e \<Rightarrow> raise e
       | Inr kind \<Rightarrow>
           (let u = \<lparr>u_email = email, u_phone_number = phone, u_primary_identifier = kind, u_is_email_verified = email_verified,
                     u_is_phone_verified = phone_verified, u_first_name = first_name, u_last_name = last_name, u_role = role,
                     u_is_staff = is_staff, u_is_superuser = is_superuser, u_password = env_make_password E password,
                     u_last_login_ip = None\<rparr> in
            bnd (gets (\<lambda>s. users (adb s))) (\<lambda>t.
            seqn (check (user_constraints t (next_pk t) u) IntegrityError)
            (seqn (modify (upd_users (tbl_insert now u)))
            (seqn (create_profile now (next_pk t))
            (ret (new_row now u t))))))))"

definition create_superuser :: "auth_env \<Rightarrow> int \<Rightarrow> string \<Rightarrow> string \<Rightarrow> (auth_st, auth_user row) svc" where
  "create_superuser E now email password =
     seqn (check (email \<noteq> []) ValueError)
     (create_user E now (Some email) None (Some EMAIL) password [] [] ROLE_ADMIN True True True False)"

definition has_identifier :: "identifier_kind \<Rightarrow> string \<Rightarrow> auth_user \<Rightarrow> bool" where
  "has_identifier kind v u =
     (case kind of
        EMAIL \<Rightarrow> (case u_email u of None \<Rightarrow> False | Some e \<Rightarrow> lower e = lower v)
      | PHONE \<Rightarrow> u_phone_number u = Some v)"

text \<open>The default order of the user table is the newest first.\<close>

definition get_user_by_identifier :: "identifier_kind \<Rightarrow> string \<Rightarrow> auth_user table \<Rightarrow> auth_user row option" where
  "get_user_by_identifier kind v t = first_newest (\<lambda>r. has_identifier kind v (vals r)) t"

definition get_active_user_by_identifier :: "identifier_kind \<Rightarrow> string \<Rightarrow> auth_user table \<Rightarrow> auth_user row option" where
  "get_active_user_by_identifier kind v t = first_newest (\<lambda>r. is_active r \<and> has_identifier kind v (vals r)) t"

text \<open>\<open>MultiIdentifierBackend.authenticate\<close>: \<open>get\<close> on the active users raises when several rows match.\<close>

definition backend_authenticate :: "auth_env \<Rightarrow> string \<Rightarrow> string \<Rightarrow> (auth_st, auth_user row option) svc" where
  "backend_authenticate E identifier password =
     (if identifier = [] then ret None
      else
        bnd (gets (\<lambda>s. filter (\<lambda>r. is_active r \<and> (has_identifier EMAIL identifier (vals r) \<or> has_identifier PHONE identifier (vals r)))
          (users (adb s)))) (\<lambda>found.
        case found of
          [] \<Rightarrow> ret None
        | [r] \<Rightarrow> ret (if env_check_password E password (u_password (vals r)) then Some r else None)
        | _ \<Rightarrow> raise MultipleObjectsReturned))"

section \<open>Helpers\<close>

definition get_identifier_state_for_user :: "auth_user \<Rightarrow> identifier_kind \<Rightarrow> string option \<times> bool" where
  "get_identifier_state_for_user u kind =
     (case kind of EMAIL \<Rightarrow> (u_email u, u_is_email_verified u) | PHONE \<Rightarrow> (u_phone_number u, u_is_phone_verified u))"

definition identifier_exists_for_other_user :: "identifier_kind \<Rightarrow> string \<Rightarrow> nat \<Rightarrow> auth_user table \<Rightarrow> bool" where
  "identifier_exists_for_other_user kind v exclude t = list_ex (\<lambda>r. row_pk r \<noteq> exclude \<and> has_identifier kind v (vals r)) t"

definition normalized :: "identifier_kind \<Rightarrow> string \<Rightarrow> (auth_st, string) svc" where
  "normalized kind v = (case normalize_identifier_by_kind kind v of Inl e \<Rightarrow> raise e | Inr x \<Rightarrow> ret x)"

definition ensure_identifier_can_be_added_or_verified :: "auth_user row \<Rightarrow> identifier_kind \<Rightarrow> string \<Rightarrow> (auth_st, string) svc" where
  "ensure_identifier_can_be_added_or_verified user kind v =
     bnd (normalized kind v) (\<lambda>x.
     case get_identifier_state_for_user (vals user) kind of
       (Some current, verified) \<Rightarrow>
         if current = x then (if verified then raise IdentifierAlreadyVerified else ret x)
         else raise IdentifierChannelAlreadyOccupied
     | (None, _) \<Rightarrow>
         bnd (gets (\<lambda>s. identifier_exists_for_other_user kind x (row_pk user) (users (adb s)))) (\<lambda>dup.
         if dup then raise IdentifierAlreadyExists else ret x))"

definition truthy_str :: "string option \<Rightarrow> bool" where
  "truthy_str x = (case x of None \<Rightarrow> False | Some y \<Rightarrow> y \<noteq> [])"

definition resolve_legacy_otp_identifier :: "auth_user \<Rightarrow> otp_purpose \<Rightarrow> exn + identifier_kind \<times> string" where
  "resolve_legacy_otp_identifier u purpose =
     (let by_email = map_sum id (Pair EMAIL) (normalize_email (the (u_email u)));
          by_phone = map_sum id (Pair PHONE) (normalize_phone (the (u_phone_number u))) in
      if purpose = EMAIL_VERIFICATION \<or> purpose = PASSWORD_RESET then
        (if truthy_str (u_email u) then by_email else Inl ValueError)
      else if u_primary_identifier u = PHONE \<and> truthy_str (u_phone_number u) then by_phone
      else if truthy_str (u_email u) then by_email
      else if truthy_str (u_phone_number u) then by_phone
      else Inl ValueError)"

text \<open>The fields of the user that a phone number given in the profile changes.\<close>

definition prepare_phone_number_update :: "auth_user row \<Rightarrow> string option \<Rightarrow> (auth_st, user_field list) svc" where
  "prepare_phone_number_update user phone_number =
     (let u = vals user in
      case phone_number of
        None \<Rightarrow> ret []
      | Some p \<Rightarrow>
          if p = [] then
            seqn (check (\<not> (u_primary_identifier u = PHONE \<and> \<not> truthy_str (u_email u))) ValidationError)
            (ret ((if u_phone_number u \<noteq> None then [F_phone_number None] else []) @
                  (if u_is_phone_verified u then [F_is_phone_verified False] else [])))
          else
            bnd (normalized PHONE p) (\<lambda>x.
            bnd (gets (\<lambda>s. list_ex (\<lambda>r. u_phone_number (vals r) = Some x \<and> row_pk r \<noteq> row_pk user) (users (adb s)))) (\<lambda>taken.
            if taken then raise ValidationError
            else ret (if u_phone_number u \<noteq> Some x
                      then F_phone_number (Some x) # (if u_is_phone_verified u then [F_is_phone_verified False] else [])
                      else []))))"

definition map_otp_errors :: "exn list \<Rightarrow> (auth_st, 'a) svc \<Rightarrow> (auth_st, 'a) svc" where
  "map_otp_errors es m = try_svc m (\<lambda>e. if e \<in> set es then raise OTPServiceError else raise e)"

definition map_request_errors :: "(auth_st, 'a) svc \<Rightarrow> (auth_st, 'a) svc" where
  "map_request_errors m =
     try_svc m (\<lambda>e. case e of OTPCooldownActive _ \<Rightarrow> raise OTPServiceError | OTPDeliveryError \<Rightarrow> raise OTPServiceError | _ \<Rightarrow> raise e)"

definition verify_mapped :: "auth_env \<Rightarrow> int \<Rightarrow> identifier_kind \<Rightarrow> string \<Rightarrow> otp_purpose \<Rightarrow> string \<Rightarrow> (auth_st, otp_code row) svc" where
  "verify_mapped E now kind v purpose code =
     map_otp_errors [OTPNotFound, OTPExpired, OTPInvalidCode, OTPTooManyAttempts] (verify_otp (env_otp E) now kind v purpose code)"

record login_result =
  lr_user :: nat
  lr_refresh :: refresh_token
  lr_session :: "auth_session row"

definition build_login_result ::
  "auth_env \<Rightarrow> int \<Rightarrow> refresh_token \<Rightarrow> auth_user row \<Rightarrow> http_request \<Rightarrow> (auth_st, login_result) svc" where
  "build_login_result E now refresh user rq =
     seqn (if truthy_str (rq_client_ip rq) then save_user (row_pk user) [F_last_login_ip (rq_client_ip rq)] else ret ())
     (seqn (modify (\<lambda>s. s\<lparr>adb := (adb s)\<lparr>outstanding_tokens := env_token_issued E (rt_jti refresh) (outstanding_tokens (adb s))\<rparr>\<rparr>))
     (bnd (create_auth_session E now (row_pk user) refresh rq) (\<lambda>session.
      seqn (evaluate_auth_session_risk E now session)
      (ret \<lparr>lr_user = row_pk user, lr_refresh = refresh\<lparr>rt_sid := Some (row_pk session)\<rparr>, lr_session = session\<rparr>))))"

text \<open>\<open>_issue_tokens\<close>: tokens without a tracked session.\<close>

definition issue_tokens :: "auth_env \<Rightarrow> refresh_token \<Rightarrow> (auth_st, refresh_token) svc" where
  "issue_tokens E refresh =
     seqn (modify (\<lambda>s. s\<lparr>adb := (adb s)\<lparr>outstanding_tokens := env_token_issued E (rt_jti refresh) (outstanding_tokens (adb s))\<rparr>\<rparr>))
     (ret refresh)"

section \<open>The flows of the first version\<close>

definition create_and_send_otp :: "auth_env \<Rightarrow> int \<Rightarrow> otp_draw \<Rightarrow> auth_user row \<Rightarrow> otp_purpose \<Rightarrow> (auth_st, otp_code row) svc" where
  "create_and_send_otp E now d user purpose =
     atomic_db
     (case resolve_legacy_otp_identifier (vals user) purpose of
        Inl e \<Rightarrow> raise e
      | Inr (kind, v) \<Rightarrow> bnd (generate_and_send_otp (env_otp E) now d kind v purpose) (\<lambda>res. ret (or_otp res)))"

definition legacy_verify_otp :: "auth_env \<Rightarrow> int \<Rightarrow> auth_user row \<Rightarrow> string \<Rightarrow> otp_purpose \<Rightarrow> (auth_st, bool) svc" where
  "legacy_verify_otp E now user code purpose =
     try_svc
       (case resolve_legacy_otp_identifier (vals user) purpose of
          Inl e \<Rightarrow> raise e
        | Inr (kind, v) \<Rightarrow> seqn (verify_otp (env_otp E) now kind v purpose code) (ret True))
       (\<lambda>e. if e \<in> set [OTPNotFound, OTPExpired, OTPInvalidCode, OTPTooManyAttempts, ValidationError, ValueError] then ret False else raise e)"

definition register_user ::
  "auth_env \<Rightarrow> int \<Rightarrow> otp_draw \<Rightarrow> string \<Rightarrow> string \<Rightarrow> string \<Rightarrow> string \<Rightarrow> (auth_st, auth_user row) svc" where
  "register_user E now d email password first_name last_name =
     atomic_db
     (bnd (normalized EMAIL email) (\<lambda>e.
      bnd (create_user E now (Some e) None None password first_name last_name ROLE_USER False False False False) (\<lambda>user.
      seqn (create_and_send_otp E now d user EMAIL_VERIFICATION) (ret user))))"

definition login_user ::
  "auth_env \<Rightarrow> int \<Rightarrow> refresh_token \<Rightarrow> http_request \<Rightarrow> string \<Rightarrow> string \<Rightarrow> (auth_st, login_result option) svc" where
  "login_user E now refresh rq email password =
     (case normalize_email email of
        Inl _ \<Rightarrow> ret None
      | Inr e \<Rightarrow>
          bnd (backend_authenticate E e password) (\<lambda>found.
          case found of None \<Rightarrow> ret None
          | Some user \<Rightarrow> bnd (build_login_result E now refresh user rq) (\<lambda>res. ret (Some res))))"

definition verify_user_email :: "auth_env \<Rightarrow> int \<Rightarrow> auth_user row \<Rightarrow> string \<Rightarrow> (auth_st, bool) svc" where
  "verify_user_email E now user code =
     atomic_db
     (bnd (legacy_verify_otp E now user code EMAIL_VERIFICATION) (\<lambda>ok.
      if \<not> ok then ret False
      else seqn (if u_is_email_verified (vals user) then ret () else save_user (row_pk user) [F_is_email_verified True])
           (ret True)))"

definition request_password_reset :: "auth_env \<Rightarrow> int \<Rightarrow> otp_draw \<Rightarrow> auth_user row \<Rightarrow> (auth_st, otp_code row) svc" where
  "request_password_reset E now d user = atomic_db (create_and_send_otp E now d user PASSWORD_RESET)"

definition reset_password_with_otp :: "auth_env \<Rightarrow> int \<Rightarrow> auth_user row \<Rightarrow> string \<Rightarrow> string \<Rightarrow> (auth_st, bool) svc" where
  "reset_password_with_otp E now user code new_password =
     atomic_db
     (bnd (legacy_verify_otp E now user code PASSWORD_RESET) (\<lambda>ok.
      if \<not> ok then ret False
      else
        seqn (save_user (row_pk user) [F_password (env_make_password E new_password)])
        (seqn (revoke_all_user_sessions now (row_pk user) None None) (ret True))))"

definition change_password ::
  "auth_env \<Rightarrow> int \<Rightarrow> auth_user row \<Rightarrow> string \<Rightarrow> string \<Rightarrow> nat option \<Rightarrow> (auth_st, bool) svc" where
  "change_password E now user old_password new_password keep_session_sid =
     atomic_db
     (if \<not> env_check_password E old_password (u_password (vals user)) then ret False
      else
        seqn (save_user (row_pk user) [F_password (env_make_password E new_password)])
        (seqn (revoke_all_user_sessions now (row_pk user) None keep_session_sid) (ret True)))"

text \<open>\<open>decoded\<close> is the identifier of the presented refresh token, or nothing when the library rejects it.\<close>

definition logout_user :: "auth_env \<Rightarrow> int \<Rightarrow> string option \<Rightarrow> (auth_st, bool) svc" where
  "logout_user E now decoded =
     (case decoded of
        None \<Rightarrow> ret False
      | Some jti \<Rightarrow>
          try_svc
            (seqn (modify (\<lambda>s. let (out, black) = env_token_blacklist E jti (outstanding_tokens (adb s), blacklisted_tokens (adb s))
                in s\<lparr>adb := (adb s)\<lparr>outstanding_tokens := out, blacklisted_tokens := black\<rparr>\<rparr>))
            (seqn (revoke_auth_session_by_jti now jti None) (ret True)))
            (\<lambda>_. ret False))"

section \<open>The flows by identifier\<close>

definition signup_request :: "auth_env \<Rightarrow> int \<Rightarrow> otp_draw \<Rightarrow> identifier_kind \<Rightarrow> string \<Rightarrow> (auth_st, unit) svc" where
  "signup_request E now d kind v =
     bnd (normalized kind v) (\<lambda>x.
     seqn (map_request_errors (generate_and_send_otp (env_otp E) now d kind x SIGNUP)) (ret ()))"

definition signup_verify ::
  "auth_env \<Rightarrow> int \<Rightarrow> refresh_token \<Rightarrow> identifier_kind \<Rightarrow> string \<Rightarrow> string \<Rightarrow> string \<Rightarrow> string \<Rightarrow> string \<Rightarrow> http_request option \<Rightarrow>
   (auth_st, nat \<times> refresh_token) svc" where
  "signup_verify E now refresh kind v code password first_name last_name rq =
     atomic_db
     (bnd (normalized kind v) (\<lambda>x.
      seqn (verify_mapped E now kind x SIGNUP code)
      (bnd (gets (\<lambda>s. list_ex (\<lambda>r. has_identifier kind x (vals r)) (users (adb s)))) (\<lambda>taken.
      if taken then raise IdentifierAlreadyExists
      else
        bnd (case kind of
               EMAIL \<Rightarrow> create_user E now (Some x) None (Some EMAIL) password first_name last_name ROLE_USER False False True False
             | PHONE \<Rightarrow> create_user E now None (Some x) (Some PHONE) password first_name last_name ROLE_USER False False False True) (\<lambda>user.
        case rq of
          Some r \<Rightarrow> bnd (build_login_result E now refresh user r) (\<lambda>res. ret (row_pk user, lr_refresh res))
        | None \<Rightarrow> bnd (issue_tokens E refresh) (\<lambda>tok. ret (row_pk user, tok)))))))"

definition login_with_password ::
  "auth_env \<Rightarrow> int \<Rightarrow> refresh_token \<Rightarrow> identifier_kind \<Rightarrow> string \<Rightarrow> string \<Rightarrow> http_request \<Rightarrow> (auth_st, login_result) svc" where
  "login_with_password E now refresh kind v password rq =
     bnd (normalized kind v) (\<lambda>x.
     bnd (gets (\<lambda>s. get_user_by_identifier kind x (users (adb s)))) (\<lambda>found.
     case found of
       None \<Rightarrow> raise IdentifierNotFound
     | Some user \<Rightarrow>
         if \<not> is_active user then raise AccountInactive
         else if \<not> env_check_password E password (u_password (vals user)) then raise InvalidCredentials
         else if \<not> is_primary_identifier_verified (vals user) then raise AccountNotVerified
         else build_login_result E now refresh user rq))"

definition otp_request_for_active ::
  "auth_env \<Rightarrow> int \<Rightarrow> otp_draw \<Rightarrow> identifier_kind \<Rightarrow> string \<Rightarrow> otp_purpose \<Rightarrow> (auth_st, unit) svc" where
  "otp_request_for_active E now d kind v purpose =
     bnd (normalized kind v) (\<lambda>x.
     bnd (gets (\<lambda>s. get_active_user_by_identifier kind x (users (adb s)))) (\<lambda>found.
     case found of
       None \<Rightarrow> ret ()
     | Some user \<Rightarrow> seqn (map_request_errors (generate_and_send_otp (env_otp E) now d kind x purpose)) (ret ())))"

definition login_otp_request :: "auth_env \<Rightarrow> int \<Rightarrow> otp_draw \<Rightarrow> identifier_kind \<Rightarrow> string \<Rightarrow> (auth_st, unit) svc" where
  "login_otp_request E now d kind v = otp_request_for_active E now d kind v LOGIN"

definition login_otp_verify ::
  "auth_env \<Rightarrow> int \<Rightarrow> refresh_token \<Rightarrow> identifier_kind \<Rightarrow> string \<Rightarrow> string \<Rightarrow> http_request \<Rightarrow> (auth_st, login_result) svc" where
  "login_otp_verify E now refresh kind v code rq =
     bnd (normalized kind v) (\<lambda>x.
     seqn (verify_mapped E now kind x LOGIN code)
     (bnd (gets (\<lambda>s. get_active_user_by_identifier kind x (users (adb s)))) (\<lambda>found.
     case found of None \<Rightarrow> raise IdentifierNotFound | Some user \<Rightarrow> build_login_result E now refresh user rq)))"

definition forgot_password_request :: "auth_env \<Rightarrow> int \<Rightarrow> otp_draw \<Rightarrow> identifier_kind \<Rightarrow> string \<Rightarrow> (auth_st, unit) svc" where
  "forgot_password_request E now d kind v = otp_request_for_active E now d kind v PASSWORD_RESET"

definition forgot_password_confirm :: "auth_env \<Rightarrow> int \<Rightarrow> identifier_kind \<Rightarrow> string \<Rightarrow> string \<Rightarrow> string \<Rightarrow> (auth_st, unit) svc" where
  "forgot_password_confirm E now kind v code new_password =
     atomic_db
     (bnd (normalized kind v) (\<lambda>x.
      seqn (verify_mapped E now kind x PASSWORD_RESET code)
      (bnd (gets (\<lambda>s. get_active_user_by_identifier kind x (users (adb s)))) (\<lambda>found.
      case found of
        None \<Rightarrow> raise IdentifierNotFound
      | Some user \<Rightarrow>
          seqn (save_user (row_pk user) [F_password (env_make_password E new_password)])
          (seqn (revoke_all_user_sessions now (row_pk user) None None) (ret ()))))))"

section \<open>Identifier management\<close>

definition identifier_add_request :: "auth_env \<Rightarrow> int \<Rightarrow> otp_draw \<Rightarrow> auth_user row \<Rightarrow> identifier_kind \<Rightarrow> string \<Rightarrow> (auth_st, unit) svc" where
  "identifier_add_request E now d user kind v =
     bnd (ensure_identifier_can_be_added_or_verified user kind v) (\<lambda>x.
     seqn (map_request_errors (generate_and_send_otp (env_otp E) now d kind x IDENTIFIER_ADD)) (ret ()))"

definition attach_fields :: "auth_user \<Rightarrow> identifier_kind \<Rightarrow> string \<Rightarrow> user_field list" where
  "attach_fields u kind x =
     (case kind of
        EMAIL \<Rightarrow> (if u_email u \<noteq> Some x then [F_email (Some x)] else []) @ (if u_is_email_verified u then [] else [F_is_email_verified True])
      | PHONE \<Rightarrow> (if u_phone_number u \<noteq> Some x then [F_phone_number (Some x)] else []) @
                 (if u_is_phone_verified u then [] else [F_is_phone_verified True]))"

definition save_user_if :: "auth_user row \<Rightarrow> user_field list \<Rightarrow> (auth_st, auth_user row) svc" where
  "save_user_if user fs = seqn (if fs = [] then ret () else save_user (row_pk user) fs) (ret (set_user_fields fs user))"

definition identifier_add_verify ::
  "auth_env \<Rightarrow> int \<Rightarrow> auth_user row \<Rightarrow> identifier_kind \<Rightarrow> string \<Rightarrow> string \<Rightarrow> (auth_st, auth_user row) svc" where
  "identifier_add_verify E now user kind v code =
     atomic_db
     (bnd (ensure_identifier_can_be_added_or_verified user kind v) (\<lambda>x.
      seqn (verify_mapped E now kind x IDENTIFIER_ADD code)
      (bnd (ensure_identifier_can_be_added_or_verified user kind x) (\<lambda>y.
       save_user_if user (attach_fields (vals user) kind y)))))"

definition make_primary_identifier :: "auth_user row \<Rightarrow> identifier_kind \<Rightarrow> (auth_st, auth_user row) svc" where
  "make_primary_identifier user kind =
     atomic_db
     (case get_identifier_state_for_user (vals user) kind of
        (None, _) \<Rightarrow> raise IdentifierNotAttached
      | (Some _, verified) \<Rightarrow>
          if \<not> verified then raise IdentifierNotVerified
          else if u_primary_identifier (vals user) = kind then ret user
          else save_user_if user [F_primary_identifier kind])"

section \<open>Profile and administration\<close>

datatype profile_field =
    PF_national_code string | PF_birth_date int | PF_gender string | PF_avatar string | PF_bio string
  | PF_province string | PF_city string | PF_address string

fun set_profile_field :: "profile_field \<Rightarrow> profile \<Rightarrow> profile" where
  "set_profile_field (PF_national_code x) p = p\<lparr>pf_national_code := x\<rparr>"
| "set_profile_field (PF_birth_date x) p = p\<lparr>pf_birth_date := Some x\<rparr>"
| "set_profile_field (PF_gender x) p = p\<lparr>pf_gender := x\<rparr>"
| "set_profile_field (PF_avatar x) p = p\<lparr>pf_avatar := Some x\<rparr>"
| "set_profile_field (PF_bio x) p = p\<lparr>pf_bio := x\<rparr>"
| "set_profile_field (PF_province x) p = p\<lparr>pf_province := x\<rparr>"
| "set_profile_field (PF_city x) p = p\<lparr>pf_city := x\<rparr>"
| "set_profile_field (PF_address x) p = p\<lparr>pf_address := x\<rparr>"

text \<open>The given fields are those whose value is not \<open>None\<close>.\<close>

definition update_profile :: "int \<Rightarrow> profile row \<Rightarrow> string option \<Rightarrow> profile_field list \<Rightarrow> (auth_st, profile row) svc" where
  "update_profile now profile phone_number given =
     atomic_db
     (bnd (follow (\<lambda>s. users (adb s)) (pf_user (vals profile))) (\<lambda>user.
      bnd (prepare_phone_number_update user phone_number) (\<lambda>fs.
      seqn (if fs = [] then ret () else save_user (row_pk user) fs)
      (seqn (modify (\<lambda>s. s\<lparr>adb := (adb s)\<lparr>profiles := tbl_upd (row_pk profile) now (fold set_profile_field given) (profiles (adb s))\<rparr>\<rparr>))
      (ret (profile\<lparr>updated_at := now, vals := fold set_profile_field given (vals profile)\<rparr>))))))"

fun basic_field :: "user_field \<Rightarrow> bool" where
  "basic_field (F_first_name _) = True"
| "basic_field (F_last_name _) = True"
| "basic_field _ = False"

fun admin_field :: "user_field \<Rightarrow> bool" where
  "admin_field (F_first_name _) = True"
| "admin_field (F_last_name _) = True"
| "admin_field (F_is_active _) = True"
| "admin_field (F_is_email_verified _) = True"
| "admin_field _ = False"

definition update_user_basic_info :: "auth_user row \<Rightarrow> user_field list \<Rightarrow> (auth_st, auth_user row) svc" where
  "update_user_basic_info user given = atomic_db (save_user_if user (filter basic_field given))"

definition admin_update_user :: "auth_user row \<Rightarrow> user_field list \<Rightarrow> (auth_st, auth_user row) svc" where
  "admin_update_user user given = atomic_db (save_user_if user (filter admin_field given))"

definition admin_change_user_role :: "auth_user row \<Rightarrow> user_role \<Rightarrow> (auth_st, auth_user row) svc" where
  "admin_change_user_role user role = atomic_db (save_user_if user [F_role role, F_is_staff (role = ROLE_ADMIN)])"

end
