(* ===== verification/Auth_Otp_Rules.thy ===== *)
theory Auth_Otp_Rules
  imports Auth_Otp
begin

text \<open>
  Correctness of the one-time-code engine: single use and exact counting under every interleaving of
  requests, the bound on wrong guesses, the round trip from generation to verification, and the
  compensation of a failed delivery.
\<close>

section \<open>Building blocks\<close>

abbreviation otps :: "auth_st \<Rightarrow> otp_code table" where
  "otps s \<equiv> otp_codes (adb s)"

definition use_otp :: "int \<Rightarrow> nat \<Rightarrow> auth_st \<Rightarrow> auth_st" where
  "use_otp now k = upd_otps (qs_update (unused_pk k) now (\<lambda>v. v\<lparr>oc_is_used := True\<rparr>))"

definition count_guess :: "int \<Rightarrow> nat \<Rightarrow> auth_st \<Rightarrow> auth_st" where
  "count_guess now k = upd_otps (qs_update (unused_pk k) now (\<lambda>v. v\<lparr>oc_attempts := oc_attempts v + 1\<rparr>))"

lemma mark_otp_used_run: "mark_otp_used now k s = (Inr (list_ex (unused_pk k) (otps s)), use_otp now k s)"
  by (simp add: mark_otp_used_def use_otp_def svc_defs)

lemma list_ex_unused: "list_ex (unused_pk k) t \<longleftrightarrow> (\<exists>r \<in> set t. unused_pk k r)"
  by (simp add: list_ex_iff)

lemma row_pk_image_qs_update [simp]: "row_pk ` set (qs_update p now f t) = row_pk ` set t"
  by (metis list.set_map map_row_pk_qs_update)

lemma qs_update_pk_Some:
  "list_ex (unused_pk k) t \<Longrightarrow> \<exists>r. tbl_all k (qs_update p now f t) = Some r"
proof -
  assume "list_ex (unused_pk k) t"
  then have "k \<in> row_pk ` set (qs_update p now f t)" by (auto simp: list_ex_iff unused_pk_def)
  then have "tbl_all k (qs_update p now f t) \<noteq> None" by (simp only: tbl_all_None_iff not_not)
  then show ?thesis by blast
qed

lemma increment_otp_attempts_run:
  "increment_otp_attempts now k s =
     (if list_ex (unused_pk k) (otps s) then
        (case tbl_all k (otps (count_guess now k s)) of
           Some r \<Rightarrow> (Inr (oc_attempts (vals r)), count_guess now k s) | None \<Rightarrow> (Inl DoesNotExist, s))
      else (Inl OTPNotFound, s))"
  by (auto simp: increment_otp_attempts_def atomic_db_def count_guess_def svc_defs upd_otps_def split: option.split)

lemma increment_otp_attempts_cases:
  obtains (counted) n where "list_ex (unused_pk k) (otps s)" "increment_otp_attempts now k s = (Inr n, count_guess now k s)"
  | (gone) "\<not> list_ex (unused_pk k) (otps s)" "increment_otp_attempts now k s = (Inl OTPNotFound, s)"
proof (cases "list_ex (unused_pk k) (otps s)")
  case True
  then obtain r where "tbl_all k (otps (count_guess now k s)) = Some r"
    using qs_update_pk_Some [OF True] unfolding count_guess_def upd_otps_simps by blast
  with True show ?thesis by (intro counted) (simp_all add: increment_otp_attempts_run)
next
  case False
  then show ?thesis by (intro gone) (simp_all add: increment_otp_attempts_run)
qed

lemma otps_use_otp: "otps (use_otp now k s) = qs_update (unused_pk k) now (\<lambda>v. v\<lparr>oc_is_used := True\<rparr>) (otps s)"
  by (simp add: use_otp_def)

lemma otps_count_guess: "otps (count_guess now k s) = qs_update (unused_pk k) now (\<lambda>v. v\<lparr>oc_attempts := oc_attempts v + 1\<rparr>) (otps s)"
  by (simp add: count_guess_def)

lemma otp_seq_updates [simp]: "otp_seq (use_otp now k s) = otp_seq s" "otp_seq (count_guess now k s) = otp_seq s"
  by (simp_all add: use_otp_def count_guess_def)

section \<open>Interleaved verification\<close>

definition counted :: "nat \<Rightarrow> verifier \<Rightarrow> bool" where
  "counted k v = (case v of V_counted j _ \<Rightarrow> j = k | V_wrong j _ \<Rightarrow> j = k | _ \<Rightarrow> False)"

definition judges :: "verifier \<Rightarrow> otp_code row option" where
  "judges v = (case v of V_judge _ otp \<Rightarrow> Some otp | _ \<Rightarrow> None)"

text \<open>Every move of a verifier is one of three: it counts a wrong guess on an open code, it accepts an open
  code and retires it in the same statement, or it does neither and at most retires a code.\<close>

lemma verifier_move_cases:
  assumes "verifier_move E now v s = (Inr v', t)"
  obtains (quiet) k where "t = s \<or> t = use_otp now k s" "\<And>j. counted j v' = counted j v" "\<And>j. v' = V_accepted j \<longleftrightarrow> v = V_accepted j"
      "\<And>otp. judges v' = Some otp \<Longrightarrow> otp \<in> set (otps s)"
  | (count) code otp n where "v = V_judge code otp" "v' = V_counted (row_pk otp) n" "list_ex (unused_pk (row_pk otp)) (otps s)"
      "t = count_guess now (row_pk otp) s"
  | (accept) code otp where "v = V_judge code otp" "v' = V_accepted (row_pk otp)" "list_ex (unused_pk (row_pk otp)) (otps s)"
      "t = use_otp now (row_pk otp) s"
proof (cases v)
  case (V_select kind w purpose code)
  with assms show ?thesis
    by (intro quiet [of 0])
       (auto simp: verifier_move_def counted_def judges_def select_otp_def svc_defs
             split: if_splits option.splits dest: first_newest_Some)
next
  case (V_judge code otp)
  show ?thesis
  proof (cases "\<not> is_expired now (vals otp) \<and> oc_attempts (vals otp) < otp_max_attempts E \<and>
             oc_code_hash (vals otp) \<noteq> expected_hash_for E (vals otp) code")
    case True
    show ?thesis
    proof (cases rule: increment_otp_attempts_cases [of "row_pk otp" s now])
      case (counted n)
      with True V_judge assms show ?thesis
        by (intro count [of code otp n]) (auto simp: verifier_move_def end_in_def svc_defs)
    next
      case gone
      with True V_judge assms show ?thesis
        by (intro quiet [of 0]) (auto simp: verifier_move_def end_in_def svc_defs counted_def judges_def)
    qed
  next
    case False
    then consider (acc) "\<not> is_expired now (vals otp)" "oc_attempts (vals otp) < otp_max_attempts E"
        "oc_code_hash (vals otp) = expected_hash_for E (vals otp) code"
      | (ret) e where "judge_otp E now code otp = retire_otp now otp e"
      by (cases "is_expired now (vals otp)"; cases "oc_attempts (vals otp) < otp_max_attempts E")
         (auto simp: judge_otp_def not_less)
    then show ?thesis
    proof cases
      case acc
      then have "judge_otp E now code otp = accept_otp now otp" by (simp add: judge_otp_def)
      with acc V_judge assms show ?thesis
        by (cases "list_ex (unused_pk (row_pk otp)) (otps s)")
           (intro accept [of code otp], auto simp: verifier_move_def end_in_def accept_otp_def bnd_def mark_otp_used_run svc_defs,
            intro quiet [of "row_pk otp"], auto simp: counted_def judges_def)
    next
      case ret
      with False V_judge assms show ?thesis
        by (intro quiet [of "row_pk otp"])
           (auto simp: verifier_move_def end_in_def retire_otp_def mark_otp_used_run counted_def judges_def svc_defs
                 split: if_splits)
    qed
  qed
next
  case (V_counted k n)
  with assms show ?thesis
    by (intro quiet [of k])
       (auto simp: verifier_move_def end_in_def after_wrong_code_def mark_otp_used_run counted_def judges_def svc_defs split: if_splits)
qed (use assms in \<open>intro quiet [of 0]; auto simp: verifier_move_def counted_def judges_def svc_defs\<close>)+

definition otp_rows_ok :: "nat \<Rightarrow> verifier list \<Rightarrow> otp_code table \<Rightarrow> bool" where
  "otp_rows_ok n vs t \<longleftrightarrow> distinct (map row_pk t) \<and>
     (\<forall>r \<in> set t. row_pk r \<le> n \<and> oc_attempts (vals r) = length (filter (counted (row_pk r)) vs) \<and>
        (V_accepted (row_pk r) \<in> set vs \<longrightarrow> oc_is_used (vals r)))"

definition verifiers_ok :: "nat \<Rightarrow> verifier list \<Rightarrow> bool" where
  "verifiers_ok n vs \<longleftrightarrow> (\<forall>k. length (filter (\<lambda>v. v = V_accepted k) vs) \<le> 1) \<and>
     (\<forall>v \<in> set vs. \<forall>k. v = V_accepted k \<or> counted k v \<or> (\<exists>r. judges v = Some r \<and> row_pk r = k) \<longrightarrow> k \<le> n)"

definition otp_inv :: "otp_sys \<Rightarrow> bool" where
  "otp_inv s \<longleftrightarrow> otp_rows_ok (otp_seq (os_state s)) (os_verifiers s) (otps (os_state s)) \<and>
     verifiers_ok (otp_seq (os_state s)) (os_verifiers s)"

lemma length_filter_update:
  "i < length xs \<Longrightarrow>
   length (filter p (xs[i := x])) + (if p (xs ! i) then 1 else 0) = length (filter p xs) + (if p x then 1 else 0)"
proof (induction xs arbitrary: i)
  case (Cons a xs)
  show ?case
  proof (cases i)
    case (Suc j)
    with Cons.IH [of j] Cons.prems show ?thesis by (cases "p a") simp_all
  qed simp
qed simp

lemma set_list_update: "i < length xs \<Longrightarrow> y \<in> set (xs[i := x]) \<Longrightarrow> y = x \<or> y \<in> set xs"
  by (meson insertE set_update_subset_insert subsetD)

lemma length_filter_same:
  assumes "i < length xs" and "p x = p (xs ! i)"
  shows "length (filter p (xs[i := x])) = length (filter p xs)"
  using length_filter_update [OF assms(1), of p x] assms(2) by simp

lemma qs_update_member:
  assumes "r' \<in> set (qs_update p now f t)"
  obtains r where "r \<in> set t" "row_pk r' = row_pk r" "r' = (if p r then r\<lparr>updated_at := now, vals := f (vals r)\<rparr> else r)"
  using assms by (auto simp: set_qs_update)

text \<open>Retiring a code, or a step that touches no code, keeps the invariant as long as the verifier that moved
  neither counts nor accepts.\<close>

lemma otp_rows_use:
  "otp_rows_ok n vs t \<Longrightarrow> otp_rows_ok n vs (qs_update p now (\<lambda>v. v\<lparr>oc_is_used := True\<rparr>) t)"
  unfolding otp_rows_ok_def by (auto elim!: qs_update_member)

lemma otp_rows_filter: "otp_rows_ok n vs t \<Longrightarrow> otp_rows_ok n vs (filter p t)"
  by (auto simp: otp_rows_ok_def distinct_map_filter)

lemma otp_rows_verifiers:
  assumes "otp_rows_ok n vs t" and "i < length vs"
    and "\<And>j. counted j v = counted j (vs ! i)" "\<And>j. v = V_accepted j \<longleftrightarrow> vs ! i = V_accepted j"
  shows "otp_rows_ok n (vs[i := v]) t"
proof -
  have "V_accepted j \<in> set (vs[i := v]) \<Longrightarrow> V_accepted j \<in> set vs" for j
    using set_list_update [OF assms(2)] assms(2,4) by (metis nth_mem)
  then show ?thesis using assms(1) length_filter_same [OF assms(2)] assms(3) by (auto simp: otp_rows_ok_def)
qed

lemma verifiers_ok_quiet:
  assumes "verifiers_ok n vs" and "i < length vs"
    and "\<And>j. counted j v = counted j (vs ! i)" "\<And>j. v = V_accepted j \<longleftrightarrow> vs ! i = V_accepted j"
    and "\<And>r. judges v = Some r \<Longrightarrow> row_pk r \<le> n"
  shows "verifiers_ok n (vs[i := v])"
proof -
  have "length (filter (\<lambda>w. w = V_accepted k) (vs[i := v])) \<le> 1" for k
    using assms(1,4) length_filter_same [OF assms(2), of "\<lambda>w. w = V_accepted k" v] by (auto simp: verifiers_ok_def)
  moreover have "vs ! i \<in> set vs" using assms(2) by simp
  ultimately show ?thesis
    using assms(1,3-5) set_list_update [OF assms(2)] unfolding verifiers_ok_def by metis
qed

lemma verifier_move_inv:
  assumes inv: "otp_inv s" and i: "i < length (os_verifiers s)"
    and move: "verifier_move E now (os_verifiers s ! i) (os_state s) = (Inr v, t)"
  shows "otp_inv \<lparr>os_state = t, os_verifiers = (os_verifiers s)[i := v]\<rparr>"
  using move
proof (cases rule: verifier_move_cases)
  case (quiet k)
  let ?n = "otp_seq (os_state s)" and ?vs = "os_verifiers s"
  have seq: "otp_seq t = ?n" using quiet(1) by auto
  have "row_pk r \<le> ?n" if "judges v = Some r" for r
    using quiet(4) [OF that] inv by (auto simp: otp_inv_def otp_rows_ok_def)
  then have vs: "verifiers_ok ?n (?vs[i := v])"
    using inv i quiet(2,3) by (intro verifiers_ok_quiet) (auto simp: otp_inv_def)
  have "otp_rows_ok ?n ?vs (otps t)"
    using inv quiet(1) by (auto simp: otp_inv_def otps_use_otp otp_rows_use)
  then have "otp_rows_ok ?n (?vs[i := v]) (otps t)" using i quiet(2,3) by (rule otp_rows_verifiers)
  with vs seq show ?thesis by (simp add: otp_inv_def)
next
  case (count code otp n)
  let ?n = "otp_seq (os_state s)" and ?vs = "os_verifiers s" and ?k = "row_pk otp"
  have bound: "?k \<le> ?n" using inv i count(1) nth_mem [OF i] by (auto simp: otp_inv_def verifiers_ok_def judges_def)
  have acc: "V_accepted j \<in> set (?vs[i := v]) \<Longrightarrow> V_accepted j \<in> set ?vs" for j
    using set_list_update [OF i] count(2) by blast
  have len: "length (filter (\<lambda>w. w = V_accepted j) (?vs[i := v])) = length (filter (\<lambda>w. w = V_accepted j) ?vs)" for j
    using length_filter_same [OF i] count(1,2) by simp
  have vs: "verifiers_ok ?n (?vs[i := v])"
    unfolding verifiers_ok_def
  proof (intro conjI allI ballI impI)
    show "length (filter (\<lambda>w. w = V_accepted j) (?vs[i := v])) \<le> 1" for j
      using inv len by (simp add: otp_inv_def verifiers_ok_def)
    show "j \<le> ?n" if "w \<in> set (?vs[i := v])" "w = V_accepted j \<or> counted j w \<or> (\<exists>r. judges w = Some r \<and> row_pk r = j)" for w j
      using set_list_update [OF i that(1)] that(2) bound count(2) inv
      by (auto simp: otp_inv_def verifiers_ok_def counted_def judges_def)
  qed
  have cnt: "length (filter (counted j) (?vs[i := v])) = length (filter (counted j) ?vs) + (if j = ?k then 1 else 0)" for j
    using length_filter_update [OF i, of "counted j" v] count(1,2) by (auto simp: counted_def)
  obtain q where q: "q \<in> set (otps (os_state s))" "unused_pk ?k q" using count(3) by (auto simp: list_ex_iff)
  have "otp_rows_ok ?n (?vs[i := v]) (otps t)"
    unfolding otp_rows_ok_def count(4) otps_count_guess
  proof (intro conjI ballI)
    fix r' assume "r' \<in> set (qs_update (unused_pk ?k) now (\<lambda>v. v\<lparr>oc_attempts := oc_attempts v + 1\<rparr>) (otps (os_state s)))"
    then obtain r where r: "r \<in> set (otps (os_state s))" "row_pk r' = row_pk r"
      "r' = (if unused_pk ?k r then r\<lparr>updated_at := now, vals := (vals r)\<lparr>oc_attempts := oc_attempts (vals r) + 1\<rparr>\<rparr> else r)"
      by (rule qs_update_member)
    have "unused_pk ?k r \<longleftrightarrow> row_pk r = ?k"
      using distinct_pk_eq [of "otps (os_state s)" r q] q r(1) inv by (auto simp: otp_inv_def otp_rows_ok_def unused_pk_def)
    with r inv show "oc_attempts (vals r') = length (filter (counted (row_pk r')) (?vs[i := v]))"
      by (auto simp: cnt otp_inv_def otp_rows_ok_def)
    show "row_pk r' \<le> ?n" using r inv by (auto simp: otp_inv_def otp_rows_ok_def)
    show "V_accepted (row_pk r') \<in> set (?vs[i := v]) \<longrightarrow> oc_is_used (vals r')"
      using r inv acc by (auto simp: otp_inv_def otp_rows_ok_def)
  qed (use inv in \<open>simp add: otp_inv_def otp_rows_ok_def\<close>)
  with vs count(4) show ?thesis by (simp add: otp_inv_def)
next
  case (accept code otp)
  let ?n = "otp_seq (os_state s)" and ?vs = "os_verifiers s" and ?k = "row_pk otp"
  obtain q where q: "q \<in> set (otps (os_state s))" "unused_pk ?k q" using accept(3) by (auto simp: list_ex_iff)
  have bound: "?k \<le> ?n" using inv i accept(1) nth_mem [OF i] by (auto simp: otp_inv_def verifiers_ok_def judges_def)
  have fresh: "V_accepted ?k \<notin> set ?vs" using q inv by (auto simp: otp_inv_def otp_rows_ok_def unused_pk_def)
  have len: "length (filter (\<lambda>w. w = V_accepted j) (?vs[i := v])) =
      length (filter (\<lambda>w. w = V_accepted j) ?vs) + (if j = ?k then 1 else 0)" for j
    using length_filter_update [OF i, of "\<lambda>w. w = V_accepted j" v] accept(1,2) by auto
  have none: "filter (\<lambda>w. w = V_accepted ?k) ?vs = []" using fresh by (auto simp: filter_empty_conv)
  have vs: "verifiers_ok ?n (?vs[i := v])"
    unfolding verifiers_ok_def
  proof (intro conjI allI ballI impI)
    show "length (filter (\<lambda>w. w = V_accepted j) (?vs[i := v])) \<le> 1" for j
      using inv none by (cases "j = ?k") (simp_all add: len otp_inv_def verifiers_ok_def)
    show "j \<le> ?n" if "w \<in> set (?vs[i := v])" "w = V_accepted j \<or> counted j w \<or> (\<exists>r. judges w = Some r \<and> row_pk r = j)" for w j
      using set_list_update [OF i that(1)] that(2) bound accept(2) inv
      by (auto simp: otp_inv_def verifiers_ok_def counted_def judges_def)
  qed
  have cnt: "length (filter (counted j) (?vs[i := v])) = length (filter (counted j) ?vs)" for j
    using length_filter_same [OF i, of "counted j" v] accept(1,2) by (simp add: counted_def)
  have "otp_rows_ok ?n (?vs[i := v]) (otps t)"
    unfolding otp_rows_ok_def accept(4) otps_use_otp
  proof (intro conjI ballI)
    fix r' assume "r' \<in> set (qs_update (unused_pk ?k) now (\<lambda>v. v\<lparr>oc_is_used := True\<rparr>) (otps (os_state s)))"
    then obtain r where r: "r \<in> set (otps (os_state s))" "row_pk r' = row_pk r"
      "r' = (if unused_pk ?k r then r\<lparr>updated_at := now, vals := (vals r)\<lparr>oc_is_used := True\<rparr>\<rparr> else r)"
      by (rule qs_update_member)
    have "row_pk r = ?k \<Longrightarrow> unused_pk ?k r"
      using distinct_pk_eq [of "otps (os_state s)" r q] q r(1) inv by (auto simp: otp_inv_def otp_rows_ok_def unused_pk_def)
    moreover have "V_accepted j \<in> set (?vs[i := v]) \<Longrightarrow> j = ?k \<or> V_accepted j \<in> set ?vs" for j
      using set_list_update [OF i] accept(2) by blast
    ultimately show "V_accepted (row_pk r') \<in> set (?vs[i := v]) \<longrightarrow> oc_is_used (vals r')"
      using r inv by (auto simp: otp_inv_def otp_rows_ok_def)
    show "row_pk r' \<le> ?n" "oc_attempts (vals r') = length (filter (counted (row_pk r')) (?vs[i := v]))"
      using r inv by (auto simp: cnt otp_inv_def otp_rows_ok_def)
  qed (use inv in \<open>simp add: otp_inv_def otp_rows_ok_def\<close>)
  with vs accept(4) show ?thesis by (simp add: otp_inv_def)
qed

lemma otp_step_inv:
  assumes "otp_inv s" and "otp_step E s t"
  shows "otp_inv t"
  using assms(2,1)
proof cases
  case (arrive kind w purpose code)
  with assms(1) show ?thesis by (auto simp: otp_inv_def otp_rows_ok_def verifiers_ok_def counted_def judges_def)
next
  case (verify i now v u)
  with assms(1) show ?thesis by (simp add: verifier_move_inv)
next
  case (issue now kind w purpose code_hash code_salt expires_at r u)
  let ?n = "otp_seq (os_state s)"
  have n: "Suc ?n \<notin> row_pk ` set (otps (os_state s))"
    using assms(1) by (fastforce simp: otp_inv_def otp_rows_ok_def)
  have "filter (counted (Suc ?n)) (os_verifiers s) = []"
    using assms(1) by (fastforce simp: otp_inv_def verifiers_ok_def filter_empty_conv)
  moreover have "V_accepted (Suc ?n) \<notin> set (os_verifiers s)"
    using assms(1) by (fastforce simp: otp_inv_def verifiers_ok_def)
  moreover have "otp_rows_ok (Suc ?n) (os_verifiers s) (otps (os_state s))"
    using assms(1) by (fastforce simp: otp_inv_def otp_rows_ok_def)
  moreover have "verifiers_ok (Suc ?n) (os_verifiers s)"
    using assms(1) by (fastforce simp: otp_inv_def verifiers_ok_def)
  ultimately show ?thesis
    using issue n by (auto simp: otp_inv_def otp_rows_ok_def persist_new_otp_def Let_def svc_inv image_iff)
next
  case (commit now otp u v)
  with assms(1) show ?thesis by (auto simp: otp_inv_def commit_otp_delivery_def svc_inv otp_rows_use)
next
  case (discard k u v)
  with assms(1) show ?thesis by (auto simp: otp_inv_def discard_undelivered_otp_def svc_inv otp_rows_filter)
qed

interpretation otp_engine: invariant_system no_otps "otp_step E" otp_inv
proof unfold_locales
  show "otp_inv s" if "no_otps s" for s
    using that by (simp add: no_otps_def otp_inv_def otp_rows_ok_def verifiers_ok_def)
next
  show "otp_inv t" if "otp_inv s" "otp_step E s t" for s t
    using that by (rule otp_step_inv)
qed

text \<open>A verification that runs without interference makes exactly the moves of a verifier.\<close>

fun run_verifier :: "otp_env \<Rightarrow> int \<Rightarrow> nat \<Rightarrow> verifier \<Rightarrow> (auth_st, verifier) svc" where
  "run_verifier E now 0 v = ret v"
| "run_verifier E now (Suc n) v = bnd (verifier_move E now v) (run_verifier E now n)"

definition verdict :: "exn + otp_code row \<Rightarrow> verifier \<Rightarrow> bool" where
  "verdict res v =
     (case res of
        Inr otp \<Rightarrow> v = V_accepted (row_pk otp)
      | Inl e \<Rightarrow> v = V_refused e \<or> (\<exists>k. v = V_wrong k e))"

lemma verify_otp_runs_verifier:
  "\<exists>v. run_verifier E now 3 (V_select kind w purpose code) s = (Inr v, snd (verify_otp E now kind w purpose code s)) \<and>
     verdict (fst (verify_otp E now kind w purpose code s)) v"
proof (cases "strip code = [] \<or> select_otp kind w purpose (otps s) = None")
  case True
  then show ?thesis
    by (auto simp: verify_otp_def verifier_move_def verdict_def numeral_3_eq_3 svc_defs)
next
  case False
  then obtain otp where sel: "select_otp kind w purpose (otps s) = Some otp" by blast
  have start: "run_verifier E now 3 (V_select kind w purpose code) s = run_verifier E now 2 (V_judge code otp) s"
    using False sel by (simp add: verifier_move_def numeral_3_eq_3 numeral_2_eq_2 svc_defs)
  have verify: "verify_otp E now kind w purpose code s = judge_otp E now code otp s"
    using False sel by (simp add: verify_otp_def svc_defs)
  show ?thesis
  proof (cases "\<not> is_expired now (vals otp) \<and> oc_attempts (vals otp) < otp_max_attempts E \<and>
             oc_code_hash (vals otp) \<noteq> expected_hash_for E (vals otp) code")
    case True
    show ?thesis
    proof (cases rule: increment_otp_attempts_cases [of "row_pk otp" s now])
      case (counted n)
      with True show ?thesis
        by (auto simp: start verify numeral_2_eq_2 verifier_move_def judge_otp_def after_wrong_code_def end_in_def verdict_def
              mark_otp_used_run svc_defs)
    next
      case gone
      with True show ?thesis
        by (auto simp: start verify numeral_2_eq_2 verifier_move_def judge_otp_def end_in_def verdict_def svc_defs)
    qed
  next
    case False
    have "row_pk (otp\<lparr>vals := x\<rparr>) = row_pk otp" for x by simp
    then show ?thesis using False
      by (cases "fst (judge_otp E now code otp s)"; cases "judge_otp E now code otp s")
         (auto simp: start verify numeral_2_eq_2 verifier_move_def end_in_def verdict_def svc_defs)
  qed
qed


section \<open>A concrete engine\<close>

definition sample_otp_env :: otp_env where
  "sample_otp_env = \<lparr>otp_code_length = 6, otp_ttl = 300, otp_max_attempts = 5, otp_cooldown = 60, otp_hmac = (\<lambda>x. x), otp_digest = (\<lambda>x. x)\<rparr>"

definition empty_auth :: auth_st where
  "empty_auth = \<lparr>adb = \<lparr>users = [], profiles = [], otp_codes = [], auth_sessions = [], auth_risk_signals = [],
     outstanding_tokens = [], blacklisted_tokens = []\<rparr>, otp_seq = 0, cooldown_cache = (\<lambda>_. None), session_cache = (\<lambda>_. None)\<rparr>"

definition sample_draw :: otp_draw where
  "sample_draw = \<lparr>draw_code = 47, draw_salt = ''5a17'', draw_delivery = Delivered\<rparr>"

definition sample_mail :: string where "sample_mail = ''a@b.ir''"

definition move_sys :: "otp_env \<Rightarrow> int \<Rightarrow> nat \<Rightarrow> otp_sys \<Rightarrow> otp_sys" where
  "move_sys E now i s =
     (case verifier_move E now (os_verifiers s ! i) (os_state s) of
        (Inr v, t) \<Rightarrow> \<lparr>os_state = t, os_verifiers = (os_verifiers s)[i := v]\<rparr> | (Inl _, t) \<Rightarrow> s)"

lemma length_move_sys [simp]: "length (os_verifiers (move_sys E now i s)) = length (os_verifiers s)"
  by (simp add: move_sys_def split: prod.split sum.split)

lemma reach_move_sys:
  "reach no_otps (otp_step E) s \<Longrightarrow> i < length (os_verifiers s) \<Longrightarrow> reach no_otps (otp_step E) (move_sys E now i s)"
  by (auto simp: move_sys_def split: prod.split sum.split intro: reach_step otp_step.verify)

lemma reach_otp_moves:
  "reach no_otps (otp_step E) s \<Longrightarrow> \<forall>i \<in> set is. i < length (os_verifiers s) \<Longrightarrow>
   reach no_otps (otp_step E) (fold (move_sys E now) is s)"
  by (induction "is" arbitrary: s) (simp_all add: reach_move_sys)

text \<open>One issued code and two requests that both present it.\<close>

definition otp_race_start :: otp_sys where
  "otp_race_start =
     \<lparr>os_state = snd (persist_new_otp 0 EMAIL sample_mail LOGIN (hash_code sample_otp_env ''5a17'' EMAIL sample_mail LOGIN ''000047'') ''5a17'' 300 empty_auth),
      os_verifiers = [V_select EMAIL sample_mail LOGIN ''000047'', V_select EMAIL sample_mail LOGIN ''000047'']\<rparr>"

lemma reach_otp_race_start: "reach no_otps (otp_step sample_otp_env) otp_race_start"
proof -
  let ?s = "\<lambda>vs. \<lparr>os_state = empty_auth, os_verifiers = vs\<rparr>"
  let ?v = "V_select EMAIL sample_mail LOGIN ''000047''"
  let ?h = "hash_code sample_otp_env ''5a17'' EMAIL sample_mail LOGIN ''000047''"
  have "reach no_otps (otp_step sample_otp_env) (?s [])" by (rule reach_init) (simp add: no_otps_def empty_auth_def)
  then have "reach no_otps (otp_step sample_otp_env) (?s [?v])"
    using arrive [of sample_otp_env "?s []"] by (fastforce intro: reach_step)
  then have "reach no_otps (otp_step sample_otp_env) (?s [?v, ?v])"
    using arrive [of sample_otp_env "?s [?v]"] by (fastforce intro: reach_step)
  moreover have "otp_step sample_otp_env (?s [?v, ?v]) otp_race_start"
    using issue [of 0 EMAIL sample_mail LOGIN ?h "''5a17''" 300 "?s [?v, ?v]"]
    by (simp add: otp_race_start_def persist_new_otp_def Let_def svc_defs)
  ultimately show ?thesis by (rule reach_step)
qed


section \<open>The bound on wrong guesses\<close>

definition sole_open :: "identifier_kind \<Rightarrow> string \<Rightarrow> otp_purpose \<Rightarrow> otp_code row \<Rightarrow> auth_st \<Rightarrow> bool" where
  "sole_open kind w purpose otp s \<longleftrightarrow> distinct (map row_pk (otps s)) \<and> filter (open_for kind w purpose) (otps s) = [otp]"

lemma sole_open_member: "sole_open kind w purpose otp s \<Longrightarrow> otp \<in> set (otps s) \<and> open_for kind w purpose otp"
  unfolding sole_open_def by (metis (no_types, lifting) filter_eq_ConsD in_set_conv_decomp)

lemma sole_open_only:
  assumes "sole_open kind w purpose otp s" "r \<in> set (otps s)" "open_for kind w purpose r"
  shows "r = otp"
proof -
  have "r \<in> set (filter (open_for kind w purpose) (otps s))" using assms(2,3) by simp
  with assms(1) show ?thesis by (simp add: sole_open_def del: set_filter)
qed

lemma sole_open_select: "sole_open kind w purpose otp s \<Longrightarrow> select_otp kind w purpose (otps s) = Some otp"
  by (simp add: sole_open_def select_otp_def first_newest_def)

lemma sole_open_unused: "sole_open kind w purpose otp s \<Longrightarrow> unused_pk (row_pk otp) otp \<and> list_ex (unused_pk (row_pk otp)) (otps s)"
  using sole_open_member [of kind w purpose otp s] by (auto simp: open_for_def unused_pk_def list_ex_iff)

lemma filter_open_qs_update:
  assumes "\<And>v. oc_identifier_kind (f v) = oc_identifier_kind v \<and> oc_identifier_value (f v) = oc_identifier_value v \<and>
      oc_purpose (f v) = oc_purpose v"
  shows "filter (open_for kind w purpose) (qs_update p now f t) =
    map (\<lambda>r. if p r then r\<lparr>updated_at := now, vals := f (vals r)\<rparr> else r)
      (filter (\<lambda>r. open_for kind w purpose (if p r then r\<lparr>updated_at := now, vals := f (vals r)\<rparr> else r)) t)"
  by (simp add: qs_update_def filter_map comp_def)

definition guessed :: "int \<Rightarrow> otp_code row \<Rightarrow> otp_code row" where
  "guessed now otp = otp\<lparr>updated_at := now, vals := (vals otp)\<lparr>oc_attempts := oc_attempts (vals otp) + 1\<rparr>\<rparr>"

lemma sole_open_count_guess:
  assumes "sole_open kind w purpose otp s"
  shows "sole_open kind w purpose (guessed now otp) (count_guess now (row_pk otp) s)"
proof -
  let ?g = "\<lambda>r. if unused_pk (row_pk otp) r then r\<lparr>updated_at := now, vals := (vals r)\<lparr>oc_attempts := oc_attempts (vals r) + 1\<rparr>\<rparr> else r"
  have "open_for kind w purpose (?g r) = open_for kind w purpose r" for r by (simp add: open_for_def)
  then have "filter (open_for kind w purpose) (otps (count_guess now (row_pk otp) s)) = map ?g [otp]"
    using assms unfolding otps_count_guess by (subst filter_open_qs_update) (simp_all only: sole_open_def, simp)
  with assms sole_open_unused [OF assms] show ?thesis by (simp add: sole_open_def guessed_def otps_count_guess)
qed

lemma closed_use_otp:
  assumes "sole_open kind w purpose otp s"
  shows "filter (open_for kind w purpose) (otps (use_otp now (row_pk otp) s)) = []"
proof -
  have "\<not> open_for kind w purpose (if unused_pk (row_pk otp) r then r\<lparr>updated_at := now, vals := (vals r)\<lparr>oc_is_used := True\<rparr>\<rparr> else r)"
    if "r \<in> set (otps s)" for r
  proof (cases "r = otp")
    case True
    then show ?thesis using sole_open_unused [OF assms] by (simp add: open_for_def)
  next
    case False
    then have "\<not> open_for kind w purpose r" using sole_open_only [OF assms that] by blast
    then show ?thesis by (simp add: open_for_def)
  qed
  then show ?thesis by (simp add: otps_use_otp filter_open_qs_update filter_empty_conv)
qed

lemma closed_verify:
  "filter (open_for kind w purpose) (otps s) = [] \<Longrightarrow> strip code \<noteq> [] \<Longrightarrow>
   verify_otp E now kind w purpose code s = (Inl OTPNotFound, s)"
  by (simp add: verify_otp_def select_otp_def first_newest_def svc_defs)

lemma verify_wrong:
  assumes sole: "sole_open kind w purpose otp s" and "oc_attempts (vals otp) < otp_max_attempts E"
    and "\<not> is_expired now (vals otp)" "strip code \<noteq> []" "oc_code_hash (vals otp) \<noteq> expected_hash_for E (vals otp) code"
  shows "verify_otp E now kind w purpose code s =
    (if Suc (oc_attempts (vals otp)) < otp_max_attempts E then (Inl OTPInvalidCode, count_guess now (row_pk otp) s)
     else (Inl OTPTooManyAttempts, use_otp now (row_pk otp) (count_guess now (row_pk otp) s)))"
proof -
  have "sole_open kind w purpose (guessed now otp) (count_guess now (row_pk otp) s)"
    using sole by (rule sole_open_count_guess)
  then have "tbl_all (row_pk otp) (otps (count_guess now (row_pk otp) s)) = Some (guessed now otp)"
    using sole_open_member [of kind w purpose "guessed now otp"] tbl_all_eq [of _ "guessed now otp"]
    by (auto simp: sole_open_def guessed_def)
  then have "increment_otp_attempts now (row_pk otp) s = (Inr (Suc (oc_attempts (vals otp))), count_guess now (row_pk otp) s)"
    using sole_open_unused [OF sole] by (simp add: increment_otp_attempts_run guessed_def)
  with assms(2-) sole_open_select [OF sole] show ?thesis
    by (simp add: verify_otp_def judge_otp_def after_wrong_code_def mark_otp_used_run svc_defs)
qed

lemma verify_right:
  assumes sole: "sole_open kind w purpose otp s" and "oc_attempts (vals otp) < otp_max_attempts E"
    and "\<not> is_expired now (vals otp)" "strip code \<noteq> []" "oc_code_hash (vals otp) = expected_hash_for E (vals otp) code"
  shows "verify_otp E now kind w purpose code s =
    (Inr (otp\<lparr>vals := (vals otp)\<lparr>oc_is_used := True\<rparr>\<rparr>), use_otp now (row_pk otp) s)"
  using assms sole_open_select [OF sole] sole_open_unused [OF sole]
  by (simp add: verify_otp_def judge_otp_def accept_otp_def mark_otp_used_run svc_defs)

text \<open>A sequence of verifications, each at its own time with its own code.\<close>

fun guesses ::
  "otp_env \<Rightarrow> identifier_kind \<Rightarrow> string \<Rightarrow> otp_purpose \<Rightarrow> (int \<times> string) list \<Rightarrow> auth_st \<Rightarrow> (exn + otp_code row) list \<times> auth_st" where
  "guesses E kind w purpose [] s = ([], s)"
| "guesses E kind w purpose ((now, code) # gs) s =
     (let (res, t) = verify_otp E now kind w purpose code s; (rest, u) = guesses E kind w purpose gs t in (res # rest, u))"

definition wrong_guess :: "otp_env \<Rightarrow> otp_code \<Rightarrow> int \<times> string \<Rightarrow> bool" where
  "wrong_guess E otp g = (fst g \<le> oc_expires_at otp \<and> strip (snd g) \<noteq> [] \<and> oc_code_hash otp \<noteq> expected_hash_for E otp (snd g))"

lemma wrong_guess_guessed [simp]: "wrong_guess E (vals (guessed now otp)) = wrong_guess E (vals otp)"
  by (simp add: wrong_guess_def guessed_def expected_hash_for_def fun_eq_iff)

lemma guesses_closed:
  "filter (open_for kind w purpose) (otps s) = [] \<Longrightarrow> list_all (\<lambda>g. strip (snd g) \<noteq> []) gs \<Longrightarrow>
   guesses E kind w purpose gs s = (replicate (length gs) (Inl OTPNotFound), s)"
  by (induction gs) (auto simp: closed_verify)

text \<open>What \<open>n\<close> wrong guesses answer when \<open>a\<close> were counted before and \<open>m\<close> are allowed, and what they leave.\<close>

definition guess_outcomes :: "nat \<Rightarrow> nat \<Rightarrow> nat \<Rightarrow> (exn + otp_code row) list" where
  "guess_outcomes m a n =
     (if a + n < m then replicate n (Inl OTPInvalidCode)
      else replicate (m - Suc a) (Inl OTPInvalidCode) @ Inl OTPTooManyAttempts # replicate (a + n - m) (Inl OTPNotFound))"

definition guesses_leave :: "otp_env \<Rightarrow> identifier_kind \<Rightarrow> string \<Rightarrow> otp_purpose \<Rightarrow> otp_code row \<Rightarrow> nat \<Rightarrow> auth_st \<Rightarrow> bool" where
  "guesses_leave E kind w purpose otp n t \<longleftrightarrow>
     (if n < otp_max_attempts E
      then \<exists>otp'. sole_open kind w purpose otp' t \<and> vals otp' = (vals otp)\<lparr>oc_attempts := n\<rparr> \<and> row_pk otp' = row_pk otp
      else filter (open_for kind w purpose) (otps t) = [])"

lemma guess_outcomes_Suc: "Suc a < m \<Longrightarrow> guess_outcomes m a (Suc n) = Inl OTPInvalidCode # guess_outcomes m (Suc a) n"
proof -
  assume "Suc a < m"
  then have "m - Suc a = Suc (m - Suc (Suc a))" by simp
  then show ?thesis by (simp add: guess_outcomes_def)
qed

lemma guesses_wrong:
  assumes "sole_open kind w purpose otp s" "list_all (wrong_guess E (vals otp)) gs"
    and "oc_attempts (vals otp) < otp_max_attempts E"
  shows "\<exists>t. guesses E kind w purpose gs s = (guess_outcomes (otp_max_attempts E) (oc_attempts (vals otp)) (length gs), t) \<and>
    guesses_leave E kind w purpose otp (oc_attempts (vals otp) + length gs) t"
  using assms
proof (induction gs arbitrary: s otp)
  case Nil
  then have "vals otp = (vals otp)\<lparr>oc_attempts := oc_attempts (vals otp)\<rparr>" by simp
  with Nil show ?case by (auto simp: guess_outcomes_def guesses_leave_def)
next
  case (Cons g gs)
  obtain now code where g: "g = (now, code)" by (cases g)
  let ?a = "oc_attempts (vals otp)" and ?s = "count_guess now (row_pk otp) s"
  have run: "verify_otp E now kind w purpose code s =
    (if Suc ?a < otp_max_attempts E then (Inl OTPInvalidCode, ?s) else (Inl OTPTooManyAttempts, use_otp now (row_pk otp) ?s))"
    using Cons.prems g by (intro verify_wrong) (auto simp: wrong_guess_def is_expired_def)
  have sole: "sole_open kind w purpose (guessed now otp) ?s" using Cons.prems(1) by (rule sole_open_count_guess)
  have a: "oc_attempts (vals (guessed now otp)) = Suc ?a" by (simp add: guessed_def)
  show ?case
  proof (cases "Suc ?a < otp_max_attempts E")
    case True
    obtain t where t: "guesses E kind w purpose gs ?s = (guess_outcomes (otp_max_attempts E) (Suc ?a) (length gs), t)"
      "guesses_leave E kind w purpose (guessed now otp) (Suc ?a + length gs) t"
      using Cons.IH [OF sole] Cons.prems(2) True unfolding a by auto
    have "guesses_leave E kind w purpose otp (?a + length (g # gs)) t"
      using t(2) by (auto simp: guesses_leave_def guessed_def split: if_splits)
    then show ?thesis using True run t(1) by (simp add: g guess_outcomes_Suc)
  next
    case False
    have closed: "filter (open_for kind w purpose) (otps (use_otp now (row_pk otp) ?s)) = []"
      using closed_use_otp [OF sole, of now] by (simp add: guessed_def)
    moreover have "list_all (\<lambda>g. strip (snd g) \<noteq> []) gs"
      using Cons.prems(2) by (auto simp: list_all_iff wrong_guess_def)
    ultimately have "guesses E kind w purpose gs (use_otp now (row_pk otp) ?s) =
        (replicate (length gs) (Inl OTPNotFound), use_otp now (row_pk otp) ?s)" by (rule guesses_closed)
    moreover have "otp_max_attempts E = Suc ?a" using False Cons.prems(3) by simp
    ultimately show ?thesis using run False closed by (simp add: g guess_outcomes_def guesses_leave_def)
  qed
qed



section \<open>From generation to verification\<close>

definition otp_keys_ok :: "auth_st \<Rightarrow> bool" where
  "otp_keys_ok s \<longleftrightarrow> distinct (map row_pk (otps s)) \<and> (\<forall>r \<in> set (otps s). row_pk r \<le> otp_seq s)"

lemma strip_nonblank: "c \<in> set s \<Longrightarrow> \<not> is_space c \<Longrightarrow> strip s \<noteq> []"
proof -
  assume c: "c \<in> set s" "\<not> is_space c"
  then have "c \<in> set (dropWhile is_space s)" by (metis UnE set_append set_takeWhileD takeWhile_dropWhile_id)
  with c(2) show ?thesis by (auto simp: strip_def)
qed

lemma space_code: "is_space c \<Longrightarrow> of_char c \<le> (32 :: nat)"
  by (auto simp: is_space_def)

lemma generate_code_nonblank: "strip (generate_code E n) \<noteq> []"
proof (rule strip_nonblank)
  have "digit_char (n mod 10) \<in> set (nat_str n)" by (cases "n < 10") (simp_all add: nat_str.simps [of n])
  then show "digit_char (n mod 10) \<in> set (generate_code E n)" by (simp add: generate_code_def pad_left_def)
  show "\<not> is_space (digit_char (n mod 10))"
  proof
    assume "is_space (digit_char (n mod 10))"
    then have "of_char (digit_char (n mod 10)) \<le> (32 :: nat)" by (rule space_code)
    moreover have "of_char (digit_char (n mod 10)) = 48 + n mod 10" by (rule of_char_digit_char) simp
    ultimately show False by simp
  qed
qed

lemma length_generate_code: "0 < otp_code_length E \<Longrightarrow> n < 10 ^ otp_code_length E \<Longrightarrow> length (generate_code E n) = otp_code_length E"
  using length_nat_str [of n "otp_code_length E"] by (simp add: generate_code_def pad_left_def)

text \<open>The row a generation stores.\<close>

definition issued :: "otp_env \<Rightarrow> int \<Rightarrow> otp_draw \<Rightarrow> identifier_kind \<Rightarrow> string \<Rightarrow> otp_purpose \<Rightarrow> nat \<Rightarrow> otp_code row" where
  "issued E now d kind w purpose n =
     \<lparr>row_pk = Suc n, created_at = now, updated_at = now, is_active = True,
      vals = \<lparr>oc_identifier_kind = kind, oc_identifier_value = w, oc_purpose = purpose,
              oc_code_hash = hash_code E (draw_salt d) kind w purpose (generate_code E (draw_code d)),
              oc_code_salt = draw_salt d, oc_expires_at = now + otp_ttl E, oc_attempts = 0, oc_is_used = False\<rparr>\<rparr>"

lemma generate_cases:
  assumes "generate_and_send_otp E now d kind w purpose s = (res, t)"
  obtains (cooldown) secs where "res = Inl (OTPCooldownActive secs)" "adb t = adb s" "otp_seq t = otp_seq s"
  | (failed) "draw_delivery d \<noteq> Delivered" "res = Inl (if draw_delivery d = ProviderRefused then OTPDeliveryError else OTPProviderException)"
      "otps t = filter (\<lambda>r. \<not> (row_pk r = Suc (otp_seq s) \<and> is_active r)) (otps s @ [issued E now d kind w purpose (otp_seq s)])"
      "adb t = (adb s)\<lparr>otp_codes := otps t\<rparr>" "cooldown_cache t (cooldown_key E kind w purpose) = None"
  | (sent) "draw_delivery d = Delivered"
      "res = Inr \<lparr>or_otp = issued E now d kind w purpose (otp_seq s), or_code_plain = generate_code E (draw_code d), or_expires_in_seconds = otp_ttl E\<rparr>"
      "otps t = qs_update (\<lambda>r. open_for kind w purpose r \<and> row_pk r \<noteq> Suc (otp_seq s)) now (\<lambda>v. v\<lparr>oc_is_used := True\<rparr>)
         (otps s @ [issued E now d kind w purpose (otp_seq s)])"
      "adb t = (adb s)\<lparr>otp_codes := otps t\<rparr>" "otp_seq t = Suc (otp_seq s)"
proof -
  note defs = generate_and_send_otp_def reserve_cooldown_slot_def release_cooldown_slot_def Let_def svc_defs
  let ?key = "cooldown_key E kind w purpose" and ?r = "issued E now d kind w purpose (otp_seq s)"
  let ?latest = "get_latest_active_otp now kind w purpose (otps s)"
  let ?elapsed = "case ?latest of None \<Rightarrow> otp_cooldown E | Some r \<Rightarrow> now - created_at r"
  let ?claimed = "s\<lparr>cooldown_cache := (cooldown_cache s)(?key := Some (now, now + otp_cooldown E))\<rparr>"
  let ?stored = "(upd_otps (\<lambda>t. t @ [?r]) ?claimed)\<lparr>otp_seq := Suc (otp_seq s)\<rparr>"
  show ?thesis
  proof (cases "cache_live now (cooldown_cache s ?key)")
    case (Some started)
    with assms show ?thesis by (intro cooldown) (auto simp: defs)
  next
    case None
    show ?thesis
    proof (cases "?elapsed < otp_cooldown E")
      case True
      with None assms show ?thesis by (intro cooldown [of "otp_cooldown E - ?elapsed"]) (auto simp: defs)
    next
      case False
      have persist: "persist_new_otp now kind w purpose (hash_code E (draw_salt d) kind w purpose (generate_code E (draw_code d)))
          (draw_salt d) (now + otp_ttl E) ?claimed = (Inr ?r, ?stored)"
        by (simp add: persist_new_otp_def issued_def Let_def svc_defs)
      have run: "generate_and_send_otp E now d kind w purpose s =
          (case draw_delivery d of
             ProviderRefused \<Rightarrow> discard_and_release E ?r OTPDeliveryError
           | ProviderCrashed \<Rightarrow> discard_and_release E ?r OTPProviderException
           | Delivered \<Rightarrow> seqn (commit_otp_delivery now ?r)
               (ret \<lparr>or_otp = ?r, or_code_plain = generate_code E (draw_code d), or_expires_in_seconds = otp_ttl E\<rparr>)) ?stored"
        using None False by (simp add: defs persist)
      have vals: "row_pk ?r = Suc (otp_seq s)" "oc_identifier_kind (vals ?r) = kind" "oc_identifier_value (vals ?r) = w"
        "oc_purpose (vals ?r) = purpose" by (simp_all add: issued_def)
      have undo: "discard_and_release E ?r e ?stored =
          (Inl e, (upd_otps (filter (\<lambda>r. \<not> (row_pk r = Suc (otp_seq s) \<and> is_active r))) ?stored)\<lparr>cooldown_cache := (cooldown_cache ?stored)(?key := None)\<rparr>)"
        for e :: exn
        by (simp add: discard_and_release_def discard_undelivered_otp_def release_cooldown_slot_def vals svc_defs)
      show ?thesis
      proof (cases "draw_delivery d")
        case Delivered
        then have "res = Inr \<lparr>or_otp = ?r, or_code_plain = generate_code E (draw_code d), or_expires_in_seconds = otp_ttl E\<rparr>"
          "t = upd_otps (qs_update (\<lambda>r. open_for kind w purpose r \<and> row_pk r \<noteq> Suc (otp_seq s)) now (\<lambda>v. v\<lparr>oc_is_used := True\<rparr>)) ?stored"
          using assms by (simp_all add: run commit_otp_delivery_def vals svc_defs)
        with Delivered show ?thesis by (intro sent) (simp_all add: upd_otps_def)
      next
        case ProviderRefused
        then have "res = Inl OTPDeliveryError"
          "t = (upd_otps (filter (\<lambda>r. \<not> (row_pk r = Suc (otp_seq s) \<and> is_active r))) ?stored)\<lparr>cooldown_cache := (cooldown_cache ?stored)(?key := None)\<rparr>"
          using assms unfolding run by (simp_all only: delivery.case undo prod.inject)
        with ProviderRefused show ?thesis by (intro failed) (simp_all add: upd_otps_def)
      next
        case ProviderCrashed
        then have "res = Inl OTPProviderException"
          "t = (upd_otps (filter (\<lambda>r. \<not> (row_pk r = Suc (otp_seq s) \<and> is_active r))) ?stored)\<lparr>cooldown_cache := (cooldown_cache ?stored)(?key := None)\<rparr>"
          using assms unfolding run by (simp_all only: delivery.case undo prod.inject)
        with ProviderCrashed show ?thesis by (intro failed) (simp_all add: upd_otps_def)
      qed
    qed
  qed
qed

lemma generate_sole_open:
  assumes keys: "otp_keys_ok s" and run: "generate_and_send_otp E now d kind w purpose s = (Inr res, t)"
  shows "sole_open kind w purpose (or_otp res) t" "or_otp res = issued E now d kind w purpose (otp_seq s)"
    "or_code_plain res = generate_code E (draw_code d)" "otp_keys_ok t"
proof -
  have "sole_open kind w purpose (or_otp res) t \<and> or_otp res = issued E now d kind w purpose (otp_seq s) \<and>
    or_code_plain res = generate_code E (draw_code d) \<and> otp_keys_ok t"
    using run
  proof (cases rule: generate_cases)
    case sent
    let ?r = "issued E now d kind w purpose (otp_seq s)"
    let ?p = "\<lambda>r. open_for kind w purpose r \<and> row_pk r \<noteq> Suc (otp_seq s)"
    have fresh: "r \<in> set (otps s) \<Longrightarrow> row_pk r \<noteq> Suc (otp_seq s)" for r using keys by (fastforce simp: otp_keys_ok_def)
    have "\<not> open_for kind w purpose (if ?p r then r\<lparr>updated_at := now, vals := (vals r)\<lparr>oc_is_used := True\<rparr>\<rparr> else r)"
      if "r \<in> set (otps s)" for r using fresh [OF that] by (simp add: open_for_def)
    then have "filter (open_for kind w purpose) (qs_update ?p now (\<lambda>v. v\<lparr>oc_is_used := True\<rparr>) (otps s)) = []"
      unfolding filter_empty_conv set_qs_update by blast
    moreover have "filter (open_for kind w purpose) (qs_update ?p now (\<lambda>v. v\<lparr>oc_is_used := True\<rparr>) [?r]) = [?r]"
      by (simp add: qs_update_def issued_def open_for_def)
    ultimately have "filter (open_for kind w purpose) (otps t) = [?r]"
      by (simp add: sent(3) qs_update_def)
    moreover have "map row_pk (otps t) = map row_pk (otps s) @ [Suc (otp_seq s)]" by (simp add: sent(3) issued_def)
    moreover have "Suc (otp_seq s) \<notin> row_pk ` set (otps s)" using fresh by (metis imageE)
    moreover have "row_pk r \<le> Suc (otp_seq s)" if "r \<in> set (otps t)" for r
    proof -
      have "row_pk r \<in> set (map row_pk (otps t))" using that by simp
      then show ?thesis using keys calculation(2) by (auto simp: otp_keys_ok_def)
    qed
    ultimately show ?thesis using keys sent(2,5) by (simp add: sole_open_def otp_keys_ok_def)
  qed simp_all
  then show "sole_open kind w purpose (or_otp res) t" "or_otp res = issued E now d kind w purpose (otp_seq s)"
    "or_code_plain res = generate_code E (draw_code d)" "otp_keys_ok t" by blast+
qed

text \<open>C24. A delivered code works once: within its lifetime the code that was sent is accepted, after that every
  code for this identifier and purpose is refused; only that code is accepted (up to collisions of the keyed
  hash), so a code sent earlier no longer works; and it has the configured number of digits.\<close>

theorem otp_round_trip:
  assumes "otp_keys_ok s" and run: "generate_and_send_otp E now d kind w purpose s = (Inr res, t)"
    and "draw_salt d \<noteq> []" "0 < otp_code_length E" "draw_code d < 10 ^ otp_code_length E"
    and "0 < otp_max_attempts E" "later \<le> now + otp_ttl E"
  shows "length (or_code_plain res) = otp_code_length E \<and>
    (\<exists>r u. verify_otp E later kind w purpose (or_code_plain res) t = (Inr r, u) \<and> row_pk r = row_pk (or_otp res) \<and>
       (\<forall>again code. strip code \<noteq> [] \<longrightarrow> verify_otp E again kind w purpose code u = (Inl OTPNotFound, u))) \<and>
    (\<forall>code r u. verify_otp E later kind w purpose code t = (Inr r, u) \<longrightarrow>
       hash_code E (draw_salt d) kind w purpose code = hash_code E (draw_salt d) kind w purpose (or_code_plain res))"
proof -
  note g = generate_sole_open [OF assms(1) run]
  have v: "oc_attempts (vals (or_otp res)) < otp_max_attempts E" "\<not> is_expired later (vals (or_otp res))"
    using assms(6,7) by (simp_all add: g(2) issued_def is_expired_def)
  have h: "expected_hash_for E (vals (or_otp res)) code = hash_code E (draw_salt d) kind w purpose code" for code
    using assms(3) by (simp add: g(2) issued_def expected_hash_for_def)
  have hash: "oc_code_hash (vals (or_otp res)) = hash_code E (draw_salt d) kind w purpose (or_code_plain res)"
    by (simp add: g(2,3)) (simp add: issued_def)
  have ok: "verify_otp E later kind w purpose (or_code_plain res) t =
      (Inr ((or_otp res)\<lparr>vals := (vals (or_otp res))\<lparr>oc_is_used := True\<rparr>\<rparr>), use_otp later (row_pk (or_otp res)) t)"
    by (rule verify_right [OF g(1) v]) (simp_all add: h hash, simp add: g(3) generate_code_nonblank)
  have replay: "strip code \<noteq> [] \<Longrightarrow> verify_otp E again kind w purpose code (use_otp later (row_pk (or_otp res)) t) =
      (Inl OTPNotFound, use_otp later (row_pk (or_otp res)) t)" for again code
    using closed_use_otp [OF g(1)] by (rule closed_verify)
  have other: "hash_code E (draw_salt d) kind w purpose code = hash_code E (draw_salt d) kind w purpose (or_code_plain res)"
    if "verify_otp E later kind w purpose code t = (Inr r, u)" for code r u
  proof (rule ccontr)
    assume "hash_code E (draw_salt d) kind w purpose code \<noteq> hash_code E (draw_salt d) kind w purpose (or_code_plain res)"
    moreover have "strip code \<noteq> []" using that by (auto simp: verify_otp_def svc_inv)
    ultimately show False using that verify_wrong [OF g(1) v, of code] by (auto simp: h hash split: if_splits)
  qed
  have "length (or_code_plain res) = otp_code_length E" using assms(4,5) by (simp add: g(3) length_generate_code)
  moreover have "\<exists>r u. verify_otp E later kind w purpose (or_code_plain res) t = (Inr r, u) \<and> row_pk r = row_pk (or_otp res) \<and>
       (\<forall>again code. strip code \<noteq> [] \<longrightarrow> verify_otp E again kind w purpose code u = (Inl OTPNotFound, u))"
    by (intro exI conjI, rule ok) (simp_all add: replay)
  ultimately show ?thesis using other by blast
qed

theorem otp_round_trip_witness:
  "\<exists>res t r u. generate_and_send_otp sample_otp_env 1000 sample_draw EMAIL sample_mail LOGIN empty_auth = (Inr res, t) \<and>
     or_code_plain res = ''000047'' \<and> verify_otp sample_otp_env 1299 EMAIL sample_mail LOGIN ''000047'' t = (Inr r, u) \<and>
     verify_otp sample_otp_env 1299 EMAIL sample_mail LOGIN ''000047'' u = (Inl OTPNotFound, u)"
proof -
  let ?g = "generate_and_send_otp sample_otp_env 1000 sample_draw EMAIL sample_mail LOGIN empty_auth"
  have c: "(case fst ?g of Inr res \<Rightarrow> or_code_plain res | Inl _ \<Rightarrow> []) = ''000047''" by code_simp
  then obtain res t where run: "?g = (Inr res, t)" "or_code_plain res = ''000047''"
    by (cases "fst ?g"; cases ?g) simp_all
  have k: "otp_keys_ok empty_auth" by (simp add: otp_keys_ok_def empty_auth_def)
  have d: "draw_salt sample_draw \<noteq> []" "0 < otp_code_length sample_otp_env" "draw_code sample_draw < 10 ^ otp_code_length sample_otp_env"
    "0 < otp_max_attempts sample_otp_env" "1299 \<le> 1000 + otp_ttl sample_otp_env"
    by (simp_all add: sample_draw_def sample_otp_env_def)
  have n: "strip ''000047'' \<noteq> []" by code_simp
  from otp_round_trip [OF k run(1) d] obtain r u
    where "verify_otp sample_otp_env 1299 EMAIL sample_mail LOGIN (or_code_plain res) t = (Inr r, u)"
      and "\<forall>again code. strip code \<noteq> [] \<longrightarrow> verify_otp sample_otp_env again EMAIL sample_mail LOGIN code u = (Inl OTPNotFound, u)"
    by blast
  with n run show ?thesis
    by (intro exI [of _ res] exI [of _ t] exI [of _ r] exI [of _ u]) simp
qed

text \<open>A delivery that failed leaves no trace: the database is as before the request and the cooldown slot is free
  again, so the user can ask for a code at once and an earlier code still works.\<close>

lemma failed_delivery_compensated:
  assumes "otp_keys_ok s" and "draw_delivery d \<noteq> Delivered" and run: "generate_and_send_otp E now d kind w purpose s = (res, t)"
  shows "adb t = adb s \<and>
    (res = Inl OTPDeliveryError \<or> res = Inl OTPProviderException \<longrightarrow> cooldown_cache t (cooldown_key E kind w purpose) = None)"
  using run
proof (cases rule: generate_cases)
  case failed
  have "filter (\<lambda>r. \<not> (row_pk r = Suc (otp_seq s) \<and> is_active r)) (otps s) = otps s"
    using assms(1) by (intro filter_True) (fastforce simp: otp_keys_ok_def)
  then have "otps t = otps s" by (simp add: failed(3) issued_def)
  with failed(4,5) show ?thesis by simp
qed (use assms(2) in simp_all)

end
