(* ===== verification/Auth_Session_Rules.thy ===== *)
theory Auth_Session_Rules
  imports Auth_Accounts Auth_Otp_Rules
begin

text \<open>
  Revocation takes effect at the next request: a cached verdict never outlives the session it speaks
  for, whatever service calls run in between. The relation \<open>calm\<close> is what every service except the
  per-request check does to sessions and their cache; it is shown call by call with the rules of the
  \<open>evolution\<close> interface.
\<close>

section \<open>Live and ended sessions\<close>

definition live :: "nat \<Rightarrow> nat \<Rightarrow> auth_st \<Rightarrow> bool" where
  "live u k s = (case session_of u k (auth_sessions (adb s)) of None \<Rightarrow> False | Some r \<Rightarrow> \<not> as_is_revoked (vals r))"

definition ended :: "nat \<Rightarrow> nat \<Rightarrow> auth_st \<Rightarrow> bool" where
  "ended u k s = (case session_of u k (auth_sessions (adb s)) of None \<Rightarrow> False | Some r \<Rightarrow> as_is_revoked (vals r))"

definition sess_keys :: "auth_st \<Rightarrow> bool" where
  "sess_keys s = distinct (map row_pk (auth_sessions (adb s)))"

definition calm :: "auth_st \<Rightarrow> auth_st \<Rightarrow> bool" where
  "calm s t \<longleftrightarrow> (sess_keys s \<longrightarrow> sess_keys t \<and> (\<forall>u k. ended u k s \<longrightarrow> ended u k t) \<and>
     (\<forall>u k x. session_cache t (u, k) = Some x \<longrightarrow> session_cache s (u, k) = Some x \<and> (live u k s \<longrightarrow> live u k t)))"

text \<open>The cache is sound when a cached activity belongs to a live session.\<close>

definition cache_sound :: "auth_st \<Rightarrow> bool" where
  "cache_sound s \<longleftrightarrow> (\<forall>u k seen expiry. session_cache s (u, k) = Some (SEEN seen, expiry) \<longrightarrow> live u k s)"

interpretation calm: evolution calm
  by unfold_locales (auto simp: calm_def)

definition sess_view :: "auth_st \<Rightarrow> auth_session table \<times> (nat \<times> nat \<Rightarrow> (session_state \<times> int) option)" where
  "sess_view s = (auth_sessions (adb s), session_cache s)"

lemma calm_view: "sess_view t = sess_view s \<Longrightarrow> calm s t"
  by (simp add: calm_def sess_view_def sess_keys_def ended_def live_def)

lemma calm_keeps: "keeps sess_view m \<Longrightarrow> evolves calm m"
  by (rule calm.e_keeps) (auto intro: calm_view)

lemma calm_atomic_db: "evolves calm m \<Longrightarrow> evolves calm (atomic_db m)"
proof -
  assume m: "evolves calm m"
  have "calm s (t\<lparr>adb := adb s\<rparr>)" if "calm s t" for s t
    using that by (auto simp: calm_def sess_keys_def ended_def live_def)
  with m show ?thesis
    unfolding evolves_def atomic_db_def by (auto split: prod.split sum.split) (metis snd_conv)+
qed

lemma keeps_atomic_db: "keeps sess_view m \<Longrightarrow> keeps sess_view (atomic_db m)"
  unfolding keeps_def atomic_db_def sess_view_def by (auto split: prod.split sum.split) (metis prod.inject snd_conv)+

lemma keeps_case_sum: "(\<And>e. keeps g (f e)) \<Longrightarrow> (\<And>x. keeps g (h x)) \<Longrightarrow> keeps g (case v of Inl e \<Rightarrow> f e | Inr x \<Rightarrow> h x)"
  by (simp split: sum.split)

lemma keeps_case_prod: "(\<And>a b. keeps g (f a b)) \<Longrightarrow> keeps g (case v of (a, b) \<Rightarrow> f a b)"
  by (simp split: prod.split)

lemma keeps_case_list: "keeps g m \<Longrightarrow> (\<And>x xs. keeps g (f x xs)) \<Longrightarrow> keeps g (case v of [] \<Rightarrow> m | x # xs \<Rightarrow> f x xs)"
  by (simp split: list.split)

lemma keeps_case_kind: "keeps g m \<Longrightarrow> keeps g n \<Longrightarrow> keeps g (case v of EMAIL \<Rightarrow> m | PHONE \<Rightarrow> n)"
  by (simp split: identifier_kind.split)

lemma keeps_case_delivery: "keeps g a \<Longrightarrow> keeps g b \<Longrightarrow> keeps g c \<Longrightarrow> keeps g (case v of Delivered \<Rightarrow> a | ProviderRefused \<Rightarrow> b | ProviderCrashed \<Rightarrow> c)"
  by (simp split: delivery.split)

lemma keeps_modify_view: "(\<And>s. sess_view (f s) = sess_view s) \<Longrightarrow> keeps sess_view (modify f)"
  by (rule keeps_modify)

lemmas view_rules = keeps_rules keeps_atomic_db keeps_case_sum keeps_case_prod keeps_case_list keeps_case_kind keeps_case_delivery

section \<open>Calls that leave sessions alone\<close>

lemma keeps_mark_otp_used: "keeps sess_view (mark_otp_used now k)"
  unfolding mark_otp_used_def by (intro view_rules keeps_modify_view) (simp add: sess_view_def)

lemma keeps_increment: "keeps sess_view (increment_otp_attempts now k)"
  unfolding increment_otp_attempts_def by (intro view_rules keeps_modify_view) (simp add: sess_view_def)

lemma keeps_verify_otp: "keeps sess_view (verify_otp E now kind w purpose code)"
  unfolding verify_otp_def judge_otp_def retire_otp_def after_wrong_code_def accept_otp_def
  by (intro view_rules keeps_mark_otp_used keeps_increment)

lemma keeps_persist: "keeps sess_view (persist_new_otp now kind w purpose h salt expires)"
  unfolding persist_new_otp_def Let_def by (intro view_rules keeps_modify_view) (simp add: sess_view_def upd_otps_def)

lemma keeps_release: "keeps sess_view (release_cooldown_slot E kind w purpose)"
  unfolding release_cooldown_slot_def by (intro keeps_modify_view) (simp add: sess_view_def)

lemma keeps_discard: "keeps sess_view (discard_and_release E otp e)"
  unfolding discard_and_release_def discard_undelivered_otp_def
  by (intro view_rules keeps_release keeps_modify_view) (simp add: sess_view_def)

lemma keeps_generate: "keeps sess_view (generate_and_send_otp E now d kind w purpose)"
  unfolding generate_and_send_otp_def reserve_cooldown_slot_def commit_otp_delivery_def Let_def
  by (intro view_rules keeps_release keeps_discard keeps_persist keeps_modify_view) (simp_all add: sess_view_def)

lemma keeps_save_user: "keeps sess_view (save_user k fs)"
  unfolding save_user_def by (intro view_rules keeps_modify_view) (simp add: sess_view_def upd_users_def)

lemma keeps_create_user:
  "keeps sess_view (create_user E now email phone primary pw fname lname role staff super ev pv)"
  unfolding create_user_def create_profile_def Let_def
  by (intro view_rules keeps_modify_view) (simp_all add: sess_view_def upd_users_def)

lemma keeps_normalized: "keeps sess_view (normalized kind v)"
  unfolding normalized_def by (intro view_rules)

lemma keeps_risk_signal: "keeps sess_view (create_auth_risk_signal now ty sev u sess ip meta)"
  unfolding create_auth_risk_signal_def Let_def
  by (intro view_rules keeps_modify_view) (simp add: sess_view_def upd_signals_def)

lemma keeps_session_risk: "keeps sess_view (evaluate_auth_session_risk E now session)"
  unfolding evaluate_auth_session_risk_def Let_def by (intro view_rules keeps_risk_signal)

lemma keeps_failed_login: "keeps sess_view (record_failed_login_risk log now u ip window n)"
  unfolding record_failed_login_risk_def Let_def by (intro view_rules keeps_risk_signal)

lemma keeps_review: "keeps sess_view (review_auth_risk_signal now signal by status note)"
  unfolding review_auth_risk_signal_def Let_def
  by (intro view_rules keeps_modify_view) (simp add: sess_view_def upd_signals_def)

lemma keeps_verify_mapped: "keeps sess_view (verify_mapped E now kind w purpose code)"
  unfolding verify_mapped_def map_otp_errors_def by (intro view_rules keeps_verify_otp)

lemma keeps_map_request: "keeps sess_view m \<Longrightarrow> keeps sess_view (map_request_errors m)"
  unfolding map_request_errors_def by (intro view_rules) (auto intro: view_rules split: exn.split)

lemma keeps_ensure: "keeps sess_view (ensure_identifier_can_be_added_or_verified u kind v)"
  unfolding ensure_identifier_can_be_added_or_verified_def by (intro view_rules keeps_normalized)

lemma keeps_authenticate: "keeps sess_view (backend_authenticate E i pw)"
  unfolding backend_authenticate_def by (intro view_rules)

lemma keeps_legacy_verify: "keeps sess_view (legacy_verify_otp E now u code purpose)"
  unfolding legacy_verify_otp_def by (intro view_rules keeps_verify_otp)

lemma keeps_create_and_send: "keeps sess_view (create_and_send_otp E now d u purpose)"
  unfolding create_and_send_otp_def by (intro view_rules keeps_generate)

lemma keeps_save_user_if: "keeps sess_view (save_user_if u fs)"
  unfolding save_user_if_def by (intro view_rules keeps_save_user)

lemma keeps_phone_update: "keeps sess_view (prepare_phone_number_update u p)"
  unfolding prepare_phone_number_update_def Let_def by (intro view_rules keeps_normalized)

lemma keeps_issue_tokens: "keeps sess_view (issue_tokens E refresh)"
  unfolding issue_tokens_def by (intro view_rules keeps_modify_view) (simp add: sess_view_def)

lemmas view_calls = keeps_verify_mapped keeps_generate keeps_save_user keeps_create_user keeps_normalized keeps_session_risk
  keeps_map_request keeps_ensure keeps_authenticate keeps_legacy_verify keeps_create_and_send keeps_save_user_if
  keeps_phone_update keeps_issue_tokens

section \<open>Creating and revoking sessions\<close>

lemma find_append_Some: "find p xs = Some r \<Longrightarrow> find p (xs @ ys) = Some r"
  by (induction xs) (auto split: if_splits)

lemma session_of_insert: "session_of u k t = Some r \<Longrightarrow> session_of u k (tbl_insert now v t) = Some r"
  by (simp add: session_of_def objects_tbl_insert find_append_Some)

lemma calm_create_session: "evolves calm (create_auth_session E now u refresh rq)"
proof -
  have "calm s (upd_sessions (tbl_insert now v) s)" for v s
    by (auto simp: calm_def sess_keys_def ended_def live_def upd_sessions_def session_of_insert split: option.splits)
  then have "evolves calm (modify (upd_sessions (tbl_insert now v)))" for v by (simp add: evolves_def modify_def)
  then show ?thesis unfolding create_auth_session_def Let_def by (intro calm.e_rules)
qed

lemma session_of_upd:
  assumes "\<And>v. as_user (f v) = as_user v"
  shows "session_of u j (tbl_upd k now f t) =
    map_option (\<lambda>r. if j = k then r\<lparr>updated_at := now, vals := f (vals r)\<rparr> else r) (session_of u j t)"
proof -
  have "find (\<lambda>r. row_pk r = j \<and> as_user (vals r) = u) (tbl_upd k now f xs) =
      map_option (\<lambda>r. if j = k then r\<lparr>updated_at := now, vals := f (vals r)\<rparr> else r)
        (find (\<lambda>r. row_pk r = j \<and> as_user (vals r) = u) xs)" for xs
    by (induction xs) (auto simp: tbl_upd_def assms)
  then show ?thesis by (simp add: session_of_def objects_tbl_upd)
qed

definition revoked_by_at :: "int \<Rightarrow> nat option \<Rightarrow> auth_session \<Rightarrow> auth_session" where
  "revoked_by_at now by v = v\<lparr>as_is_revoked := True, as_revoked_at := Some now, as_revoked_by := by\<rparr>"

lemma session_of_revoked:
  "session_of u j (tbl_upd k now (revoked_by_at now by) t) =
     map_option (\<lambda>r. if j = k then r\<lparr>updated_at := now, vals := revoked_by_at now by (vals r)\<rparr> else r) (session_of u j t)"
  by (rule session_of_upd) (simp add: revoked_by_at_def)

lemma auth_sessions_blacklist [simp]: "auth_sessions (blacklist_outstanding jti d) = auth_sessions d"
  by (simp add: blacklist_outstanding_def)

text \<open>A revocation that returns either found the session revoked, or revoked it and dropped its cached verdict.\<close>

lemma revoke_cases:
  obtains (missing) "tbl_get k (auth_sessions (adb s)) = None" "revoke_auth_session now k by s = (Inl DoesNotExist, s)"
  | (already) r where "tbl_get k (auth_sessions (adb s)) = Some r" "as_is_revoked (vals r)" "revoke_auth_session now k by s = (Inr r, s)"
  | (revoked) r where "tbl_get k (auth_sessions (adb s)) = Some r" "\<not> as_is_revoked (vals r)"
      "revoke_auth_session now k by s =
        (Inr (r\<lparr>updated_at := now, vals := revoked_by_at now by (vals r)\<rparr>),
         s\<lparr>adb := blacklist_outstanding (as_refresh_jti (vals r))
             ((adb s)\<lparr>auth_sessions := tbl_upd k now (revoked_by_at now by) (auth_sessions (adb s))\<rparr>),
           session_cache := (session_cache s)((as_user (vals r), k) := None)\<rparr>)"
proof (cases "tbl_get k (auth_sessions (adb s))")
  case None
  then show ?thesis by (intro missing) (simp_all add: revoke_auth_session_def atomic_db_def svc_defs)
next
  case (Some r)
  show ?thesis
  proof (cases "as_is_revoked (vals r)")
    case True
    with Some show ?thesis by (intro already) (simp_all add: revoke_auth_session_def atomic_db_def svc_defs)
  next
    case False
    with Some show ?thesis
      by (intro revoked)
         (simp_all add: revoke_auth_session_def atomic_db_def invalidate_session_validity_cache_def upd_sessions_def
            revoked_by_at_def [abs_def] Let_def svc_defs)
  qed
qed

lemma tbl_get_session_of:
  assumes "tbl_get k t = Some r" and "session_of u k t = Some q" and "distinct (map row_pk t)"
  shows "q = r"
proof -
  have "q \<in> set t" "row_pk q = k" "is_active q" using assms(2) by (auto simp: session_of_def find_Some_iff objects_def dest: nth_mem)
  with assms(1,3) show ?thesis using tbl_get_eq by fastforce
qed

lemma session_of_get: "tbl_get k t = Some r \<Longrightarrow> session_of (as_user (vals r)) k t = Some r"
  unfolding tbl_get_def session_of_def tbl_all_def objects_def
  by (induction t) (auto split: if_splits)

lemma calm_revoke: "evolves calm (revoke_auth_session now k by)"
  unfolding evolves_def
proof
  fix s
  show "calm s (snd (revoke_auth_session now k by s))"
  proof (cases rule: revoke_cases [of k s now "by"])
    case (revoked r)
    let ?t = "snd (revoke_auth_session now k by s)"
    have sessions: "auth_sessions (adb ?t) = tbl_upd k now (revoked_by_at now by) (auth_sessions (adb s))"
      and cache: "session_cache ?t = (session_cache s)((as_user (vals r), k) := None)" by (simp_all add: revoked(3))
    have ended: "ended u j s \<longrightarrow> ended u j ?t" for u j
      by (auto simp: ended_def sessions session_of_revoked revoked_by_at_def split: option.splits)
    have "live u j ?t" if "sess_keys s" "session_cache ?t (u, j) = Some x" "live u j s" for u j x
    proof (cases "j = k")
      case True
      from that(3) True obtain q where q: "session_of u k (auth_sessions (adb s)) = Some q" by (auto simp: live_def split: option.splits)
      then have "q = r" using tbl_get_session_of [OF revoked(1)] that(1) by (simp add: sess_keys_def)
      moreover have "as_user (vals q) = u" using q by (auto simp: session_of_def find_Some_iff)
      ultimately show ?thesis using that(2) True by (simp add: cache)
    next
      case False
      with that(3) show ?thesis by (auto simp: live_def sessions session_of_revoked split: option.splits)
    qed
    moreover have "session_cache ?t (u, j) = Some x \<Longrightarrow> session_cache s (u, j) = Some x" for u j x
      by (simp add: cache split: if_splits)
    moreover have "sess_keys s \<longrightarrow> sess_keys ?t" by (simp add: sess_keys_def sessions)
    ultimately show ?thesis using ended by (simp add: calm_def)
  qed (simp_all add: calm.refl)
qed

lemma calm_case_kind: "evolves calm m \<Longrightarrow> evolves calm n \<Longrightarrow> evolves calm (case v of EMAIL \<Rightarrow> m | PHONE \<Rightarrow> n)"
  by (simp split: identifier_kind.split)

lemmas calm_rules = calm.e_rules calm_atomic_db calm_create_session calm_revoke calm_case_kind calm_keeps [OF keeps_verify_mapped]
  calm_keeps [OF keeps_save_user] calm_keeps [OF keeps_create_user] calm_keeps [OF keeps_normalized]
  calm_keeps [OF keeps_session_risk] calm_keeps [OF keeps_authenticate] calm_keeps [OF keeps_legacy_verify]
  calm_keeps [OF keeps_issue_tokens]

lemma calm_revoke_all: "evolves calm (revoke_all_user_sessions now u by ex)"
  unfolding revoke_all_user_sessions_def by (intro calm_rules)

lemma calm_revoke_by_jti: "evolves calm (revoke_auth_session_by_jti now jti by)"
  unfolding revoke_auth_session_by_jti_def by (intro calm_rules)

lemma calm_modify_view: "(\<And>s. sess_view (f s) = sess_view s) \<Longrightarrow> evolves calm (modify f)"
  by (rule calm_keeps [OF keeps_modify])

lemma calm_login_result: "evolves calm (build_login_result E now refresh u rq)"
  unfolding build_login_result_def by (intro calm_rules calm_modify_view) (simp add: sess_view_def)

section \<open>Service calls\<close>

text \<open>Every call of the authentication services, with the values the environment supplies to it.\<close>

datatype (plugins only: code) auth_call =
    C_create_and_send_otp int otp_draw "auth_user row" otp_purpose
  | C_verify_otp int "auth_user row" string otp_purpose
  | C_register_user int otp_draw string string string string
  | C_login_user int refresh_token http_request string string
  | C_verify_user_email int "auth_user row" string
  | C_request_password_reset int otp_draw "auth_user row"
  | C_reset_password_with_otp int "auth_user row" string string
  | C_change_password int "auth_user row" string string "nat option"
  | C_logout_user int "string option"
  | C_revoke_auth_session int nat "nat option"
  | C_revoke_all_user_sessions int nat "nat option" "nat option"
  | C_validate_and_touch_session int nat "nat option"
  | C_signup_request int otp_draw identifier_kind string
  | C_signup_verify int refresh_token identifier_kind string string string string string "http_request option"
  | C_login_with_password int refresh_token identifier_kind string string http_request
  | C_login_otp_request int otp_draw identifier_kind string
  | C_login_otp_verify int refresh_token identifier_kind string string http_request
  | C_forgot_password_request int otp_draw identifier_kind string
  | C_forgot_password_confirm int identifier_kind string string string
  | C_identifier_add_request int otp_draw "auth_user row" identifier_kind string
  | C_identifier_add_verify int "auth_user row" identifier_kind string string
  | C_make_primary_identifier "auth_user row" identifier_kind
  | C_update_profile int "profile row" "string option" "profile_field list"
  | C_update_user_basic_info "auth_user row" "user_field list"
  | C_admin_update_user "auth_user row" "user_field list"
  | C_admin_change_user_role "auth_user row" user_role
  | C_record_failed_login_risk "audit_entry table" int "nat option" "string option" int nat
  | C_review_auth_risk_signal int nat nat auth_risk_status string

fun run_auth :: "auth_env \<Rightarrow> auth_call \<Rightarrow> (auth_st, unit) svc" where
  "run_auth E (C_create_and_send_otp now d u p) = seqn (create_and_send_otp E now d u p) (ret ())"
| "run_auth E (C_verify_otp now u c p) = seqn (legacy_verify_otp E now u c p) (ret ())"
| "run_auth E (C_register_user now d e p f l) = seqn (register_user E now d e p f l) (ret ())"
| "run_auth E (C_login_user now r rq e p) = seqn (login_user E now r rq e p) (ret ())"
| "run_auth E (C_verify_user_email now u c) = seqn (verify_user_email E now u c) (ret ())"
| "run_auth E (C_request_password_reset now d u) = seqn (request_password_reset E now d u) (ret ())"
| "run_auth E (C_reset_password_with_otp now u c p) = seqn (reset_password_with_otp E now u c p) (ret ())"
| "run_auth E (C_change_password now u p q k) = seqn (change_password E now u p q k) (ret ())"
| "run_auth E (C_logout_user now j) = seqn (logout_user E now j) (ret ())"
| "run_auth E (C_revoke_auth_session now k b) = seqn (revoke_auth_session now k b) (ret ())"
| "run_auth E (C_revoke_all_user_sessions now u b k) = seqn (revoke_all_user_sessions now u b k) (ret ())"
| "run_auth E (C_validate_and_touch_session now u k) = seqn (validate_and_touch_session now u k) (ret ())"
| "run_auth E (C_signup_request now d k v) = signup_request E now d k v"
| "run_auth E (C_signup_verify now r k v c p f l rq) = seqn (signup_verify E now r k v c p f l rq) (ret ())"
| "run_auth E (C_login_with_password now r k v p rq) = seqn (login_with_password E now r k v p rq) (ret ())"
| "run_auth E (C_login_otp_request now d k v) = login_otp_request E now d k v"
| "run_auth E (C_login_otp_verify now r k v c rq) = seqn (login_otp_verify E now r k v c rq) (ret ())"
| "run_auth E (C_forgot_password_request now d k v) = forgot_password_request E now d k v"
| "run_auth E (C_forgot_password_confirm now k v c p) = forgot_password_confirm E now k v c p"
| "run_auth E (C_identifier_add_request now d u k v) = identifier_add_request E now d u k v"
| "run_auth E (C_identifier_add_verify now u k v c) = seqn (identifier_add_verify E now u k v c) (ret ())"
| "run_auth E (C_make_primary_identifier u k) = seqn (make_primary_identifier u k) (ret ())"
| "run_auth E (C_update_profile now p n fs) = seqn (update_profile now p n fs) (ret ())"
| "run_auth E (C_update_user_basic_info u fs) = seqn (update_user_basic_info u fs) (ret ())"
| "run_auth E (C_admin_update_user u fs) = seqn (admin_update_user u fs) (ret ())"
| "run_auth E (C_admin_change_user_role u r) = seqn (admin_change_user_role u r) (ret ())"
| "run_auth E (C_record_failed_login_risk log now u ip w n) = seqn (record_failed_login_risk log now u ip w n) (ret ())"
| "run_auth E (C_review_auth_risk_signal now k b st n) = seqn (review_auth_risk_signal now k b st n) (ret ())"

inductive auth_step :: "auth_env \<Rightarrow> auth_st \<Rightarrow> auth_st \<Rightarrow> bool" for E where
  call: "auth_step E s (state_after (run_auth E c) s)"

lemma calm_request: "evolves calm (map_request_errors (generate_and_send_otp E now d kind w purpose))"
  by (intro calm_keeps keeps_map_request keeps_generate)

lemma calm_seqn_ret: "evolves calm m \<Longrightarrow> evolves calm (seqn m (ret ()))"
  by (intro calm_rules)

lemmas calm_calls = calm_rules calm_revoke_all calm_revoke_by_jti calm_login_result calm_request calm_keeps [OF keeps_ensure]
  calm_keeps [OF keeps_create_and_send] calm_keeps [OF keeps_save_user_if]

lemma calm_login_flows:
  "evolves calm (login_user E now r rq e p)" "evolves calm (login_with_password E now r k v p rq)"
  "evolves calm (login_otp_verify E now r k v c rq)" "evolves calm (signup_verify E now r k v c p f l rq')"
  unfolding login_user_def login_with_password_def login_otp_verify_def signup_verify_def by (intro calm_calls)+

lemma calm_otp_flows:
  "evolves calm (signup_request E now d k v)" "evolves calm (login_otp_request E now d k v)"
  "evolves calm (forgot_password_request E now d k v)" "evolves calm (identifier_add_request E now d u k v)"
  "evolves calm (create_and_send_otp E now d u q)" "evolves calm (legacy_verify_otp E now u c q)"
  "evolves calm (register_user E now d e p f l)" "evolves calm (verify_user_email E now u c)"
  "evolves calm (request_password_reset E now d u)"
  unfolding signup_request_def login_otp_request_def forgot_password_request_def otp_request_for_active_def
    identifier_add_request_def register_user_def verify_user_email_def request_password_reset_def
  by (intro calm_calls)+

lemma calm_password_flows:
  "evolves calm (reset_password_with_otp E now u c p)" "evolves calm (change_password E now u p q k)"
  "evolves calm (forgot_password_confirm E now kind v c p)"
  unfolding reset_password_with_otp_def change_password_def forgot_password_confirm_def by (intro calm_calls)+

lemma calm_logout: "evolves calm (logout_user E now j)"
  unfolding logout_user_def
  by (intro calm_calls calm_modify_view) (simp add: sess_view_def split: prod.split)

lemma calm_account_flows:
  "evolves calm (identifier_add_verify E now u k v c)" "evolves calm (update_user_basic_info u fs)"
  "evolves calm (admin_update_user u fs)" "evolves calm (admin_change_user_role u r)"
  unfolding identifier_add_verify_def update_user_basic_info_def admin_update_user_def admin_change_user_role_def
  by (intro calm_calls)+

lemma calm_make_primary: "evolves calm (make_primary_identifier u k)"
  unfolding make_primary_identifier_def
  by (intro calm_keeps view_rules) (auto intro!: view_rules keeps_save_user_if split: prod.split option.split)

lemma calm_update_profile: "evolves calm (update_profile now p n fs)"
  unfolding update_profile_def
  by (intro calm_keeps view_rules keeps_phone_update keeps_save_user keeps_modify_view) (simp add: sess_view_def)

lemma calm_call:
  assumes "case c of C_validate_and_touch_session now u k \<Rightarrow> False | _ \<Rightarrow> True"
  shows "evolves calm (run_auth E c)"
  using assms
  by (cases c)
     (simp_all add: calm_seqn_ret calm_login_flows calm_otp_flows calm_password_flows calm_logout calm_account_flows
        calm_make_primary calm_update_profile calm_revoke calm_revoke_all calm_keeps [OF keeps_failed_login] calm_keeps [OF keeps_review])

section \<open>The check on every request\<close>

lemma session_of_touch:
  "session_of u j (touch_last_seen now k t) =
     map_option (\<lambda>r. if j = k \<and> \<not> as_is_revoked (vals r) then r\<lparr>vals := (vals r)\<lparr>as_last_seen_at := now\<rparr>\<rparr> else r) (session_of u j t)"
  unfolding session_of_def objects_def touch_last_seen_def by (induction t) auto

lemma map_row_pk_touch [simp]: "map row_pk (touch_last_seen now k t) = map row_pk t"
  by (simp add: touch_last_seen_def)

lemma touch_same [simp]:
  "ended u j (upd_sessions (touch_last_seen now k) s) = ended u j s" "live u j (upd_sessions (touch_last_seen now k) s) = live u j s"
  by (auto simp: ended_def live_def upd_sessions_def session_of_touch split: option.splits)

lemma sess_keys_touch [simp]: "sess_keys (upd_sessions (touch_last_seen now k) s) = sess_keys s"
  by (simp add: sess_keys_def upd_sessions_def)

lemma session_cache_upd_sessions [simp]: "session_cache (upd_sessions f s) = session_cache s"
  by (simp add: upd_sessions_def)

lemma cache_session_views [simp]:
  "ended u j (s\<lparr>session_cache := c\<rparr>) = ended u j s" "live u j (s\<lparr>session_cache := c\<rparr>) = live u j s" "sess_keys (s\<lparr>session_cache := c\<rparr>) = sess_keys s"
  by (simp_all add: ended_def live_def sess_keys_def)

lemma validate_ended: "ended u k (state_after (validate_and_touch_session now v sid) s) = ended u k s"
  by (auto simp: validate_and_touch_session_def cache_session_def state_after_def svc_defs split: option.split)

lemma validate_keys: "sess_keys (state_after (validate_and_touch_session now v sid) s) = sess_keys s"
  by (auto simp: validate_and_touch_session_def cache_session_def state_after_def svc_defs split: option.split)

lemma liveI: "session_of u k (auth_sessions (adb s)) = Some r \<Longrightarrow> \<not> as_is_revoked (vals r) \<Longrightarrow> live u k s"
  by (simp add: live_def)

lemma cache_sound_put:
  "cache_sound s \<Longrightarrow> x = SESSION_STATE_REVOKED \<or> live u k s \<Longrightarrow> cache_sound (s\<lparr>session_cache := (session_cache s)((u, k) := Some (x, e))\<rparr>)"
  by (auto simp: cache_sound_def)

lemma cache_sound_touch [simp]: "cache_sound (upd_sessions (touch_last_seen now k) s) = cache_sound s"
  by (simp add: cache_sound_def)

lemma cache_sound_put_touch:
  "cache_sound s \<Longrightarrow> live u k s \<Longrightarrow>
   cache_sound ((upd_sessions (touch_last_seen now k) s)\<lparr>session_cache := (session_cache s)((u, k) := Some (x, e))\<rparr>)"
  using cache_sound_put [of "upd_sessions (touch_last_seen now k) s" x u k e] by simp

lemma validate_sound:
  assumes "cache_sound s"
  shows "cache_sound (state_after (validate_and_touch_session now v sid) s)"
  using assms
  by (auto simp: validate_and_touch_session_def cache_session_def state_after_def svc_defs
      intro!: cache_sound_put cache_sound_put_touch split: option.split dest: liveI)

lemma validate_refuses:
  assumes "cache_sound s" and "ended u k s"
  shows "fst (validate_and_touch_session now u (Some k) s) = Inr False"
proof -
  obtain r where r: "session_of u k (auth_sessions (adb s)) = Some r" "as_is_revoked (vals r)"
    using assms(2) by (auto simp: ended_def split: option.splits)
  then have "session_cache s (u, k) \<noteq> Some (SEEN t, e)" for t e
    using assms(1) by (fastforce simp: cache_sound_def live_def)
  then have "cache_live now (session_cache s (u, k)) \<noteq> Some (SEEN t)" for t
    by (auto simp: cache_live_def split: option.splits if_splits)
  then have "cache_live now (session_cache s (u, k)) \<in> {None, Some SESSION_STATE_REVOKED}"
    by (metis insertCI option.exhaust session_state.exhaust)
  with r show ?thesis by (auto simp: validate_and_touch_session_def svc_defs cache_session_def)
qed

text \<open>What every call keeps: keys, the soundness of the cache and the end of a session.\<close>

lemma auth_step_keeps:
  assumes "auth_step E s t" and "sess_keys s" "cache_sound s"
  shows "sess_keys t \<and> cache_sound t \<and> (\<forall>u k. ended u k s \<longrightarrow> ended u k t)"
  using assms(1)
proof cases
  case (call c)
  show ?thesis
  proof (cases "case c of C_validate_and_touch_session now u k \<Rightarrow> False | _ \<Rightarrow> True")
    case True
    then have "calm s t" using calm_call [OF True, of E] call by (simp add: evolves_def state_after_def)
    with assms(2,3) show ?thesis by (fastforce simp: calm_def cache_sound_def)
  next
    case False
    then obtain now u k where c: "c = C_validate_and_touch_session now u k" by (cases c) auto
    have "t = state_after (validate_and_touch_session now u k) s"
      unfolding call c by (simp add: state_after_def seqn_def bnd_def ret_def split: prod.split sum.split)
    with assms(2,3) show ?thesis by (simp add: validate_keys validate_sound validate_ended)
  qed
qed

definition auth_start :: "auth_st \<Rightarrow> bool" where
  "auth_start s \<longleftrightarrow> sess_keys s \<and> session_cache s = (\<lambda>_. None)"

interpretation auth_system: invariant_system auth_start "auth_step E" "\<lambda>s. sess_keys s \<and> cache_sound s"
  by unfold_locales (auto simp: auth_start_def cache_sound_def dest: auth_step_keeps)

lemma ended_forever:
  assumes "(auth_step E)\<^sup>*\<^sup>* t u" and "sess_keys t \<and> cache_sound t" and "ended v k t"
  shows "fst (validate_and_touch_session now v (Some k) u) = Inr False"
proof -
  from assms have "sess_keys u \<and> cache_sound u \<and> ended v k u"
    by (induction rule: rtranclp_induct) (auto dest: auth_step_keeps)
  then show ?thesis by (simp add: validate_refuses)
qed

lemma revoke_ends:
  assumes "revoke_auth_session now k by s = (Inr r, t)" and "sess_keys s"
  shows "ended (as_user (vals r)) k t"
proof (cases rule: revoke_cases [of k s now "by"])
  case (already q)
  then have "session_of (as_user (vals q)) k (auth_sessions (adb s)) = Some q"
    by (simp add: session_of_get)
  with already assms(1) show ?thesis by (simp add: ended_def)
next
  case (revoked q)
  then have "session_of (as_user (vals q)) k (auth_sessions (adb s)) = Some q"
    by (simp add: session_of_get)
  with revoked assms(1) show ?thesis by (auto simp: ended_def session_of_revoked revoked_by_at_def)
qed (use assms in simp)

text \<open>A revoked session is refused at every later request.\<close>

lemma revoked_session_refused:
  assumes "reach auth_start (auth_step E) s" and "revoke_auth_session now k by s = (Inr r, t)" and "(auth_step E)\<^sup>*\<^sup>* t u"
  shows "fst (validate_and_touch_session later (as_user (vals r)) (Some k) u) = Inr False"
proof -
  have inv: "sess_keys s" "cache_sound s" using auth_system.reach_inv [OF assms(1)] by simp_all
  have "auth_step E s t"
    using call [of E s "C_revoke_auth_session now k by"] assms(2) by (simp add: state_after_def seqn_def bnd_def ret_def)
  then have "sess_keys t \<and> cache_sound t" using auth_step_keeps inv by blast
  with assms(3) revoke_ends [OF assms(2) inv(1)] show ?thesis by (intro ended_forever)
qed

end
