(* ===== verification/Auth_Rules.thy ===== *)
theory Auth_Rules
  imports Auth_Session_Rules
begin

text \<open>
  Properties of the password-reset flow that span the code engine, the accounts and the sessions: what a
  wrong code costs an attacker, and what a successful reset does to the sessions of the account.
\<close>

section \<open>Revoking every session of a user\<close>

definition sess_status :: "nat \<Rightarrow> auth_st \<Rightarrow> (nat \<times> bool) option" where
  "sess_status j s = map_option (\<lambda>r. (as_user (vals r), as_is_revoked (vals r))) (tbl_get j (auth_sessions (adb s)))"

lemma revoke_status:
  assumes "sess_status k s \<noteq> None"
  shows "\<exists>r t. revoke_auth_session now k by s = (Inr r, t) \<and> users (adb t) = users (adb s) \<and>
    (\<forall>j. sess_status j t = (if j = k then map_option (\<lambda>(u, _). (u, True)) (sess_status j s) else sess_status j s))"
proof (cases rule: revoke_cases [of k s now "by"])
  case missing
  with assms show ?thesis by (simp add: sess_status_def)
next
  case (already r)
  then show ?thesis by (auto simp: sess_status_def)
next
  case (revoked r)
  have "users (blacklist_outstanding jti d) = users d" for jti d by (simp add: blacklist_outstanding_def)
  with revoked show ?thesis by (auto simp: sess_status_def tbl_get_upd revoked_by_at_def option.map_comp comp_def)
qed

lemma for_each_revoke:
  assumes "\<forall>k \<in> set ks. sess_status k s \<noteq> None"
  shows "\<exists>rs t. for_each ks (\<lambda>k. revoke_auth_session now k by) s = (Inr rs, t) \<and> users (adb t) = users (adb s) \<and>
    (\<forall>j. sess_status j t = (if j \<in> set ks then map_option (\<lambda>(u, _). (u, True)) (sess_status j s) else sess_status j s))"
  using assms
proof (induction ks arbitrary: s)
  case Nil
  then show ?case by (simp add: ret_def)
next
  case (Cons k ks)
  obtain r t where r: "revoke_auth_session now k by s = (Inr r, t)" "users (adb t) = users (adb s)"
    "\<forall>j. sess_status j t = (if j = k then map_option (\<lambda>(u, _). (u, True)) (sess_status j s) else sess_status j s)"
    using revoke_status [of k s now "by"] Cons.prems by auto
  then have "\<forall>k \<in> set ks. sess_status k t \<noteq> None" using Cons.prems by auto
  from Cons.IH [OF this] obtain rs v where v: "for_each ks (\<lambda>k. revoke_auth_session now k by) t = (Inr rs, v)"
    "users (adb v) = users (adb t)"
    "\<forall>j. sess_status j v = (if j \<in> set ks then map_option (\<lambda>(u, _). (u, True)) (sess_status j t) else sess_status j t)"
    by blast
  have "map_option (\<lambda>(u, _). (u, True)) (map_option (\<lambda>(u, _). (u, True)) x) = map_option (\<lambda>(u, _). (u, True)) x" for x :: "(nat \<times> bool) option"
    by (cases x) auto
  with r v show ?case by (auto simp: bnd_def ret_def)
qed

lemma session_of_status:
  "sess_keys s \<Longrightarrow> session_of u k (auth_sessions (adb s)) = Some r \<Longrightarrow> sess_status k s = Some (u, as_is_revoked (vals r)) \<and> is_active r \<and> r \<in> set (auth_sessions (adb s)) \<and> row_pk r = k"
proof -
  assume keys: "sess_keys s" and r: "session_of u k (auth_sessions (adb s)) = Some r"
  then have m: "r \<in> set (auth_sessions (adb s))" "row_pk r = k" "is_active r" "as_user (vals r) = u"
    by (auto simp: session_of_def find_Some_iff objects_def dest: nth_mem)
  then have "tbl_get k (auth_sessions (adb s)) = Some r" using keys tbl_get_eq by (fastforce simp: sess_keys_def)
  with m show ?thesis by (simp add: sess_status_def)
qed

lemma status_ended: "sess_status k s = Some (u, True) \<Longrightarrow> ended u k s"
  using session_of_get [of k "auth_sessions (adb s)"] by (auto simp: sess_status_def ended_def)

text \<open>Revoking all sessions always succeeds and ends every session of the user.\<close>

lemma revoke_all_run:
  assumes keys: "sess_keys s"
  shows "\<exists>n t. revoke_all_user_sessions now u by None s = (Inr n, t) \<and> users (adb t) = users (adb s) \<and>
    (\<forall>k r. session_of u k (auth_sessions (adb s)) = Some r \<longrightarrow> ended u k t)"
proof -
  let ?open = "filter (\<lambda>r. as_user (vals r) = u \<and> \<not> as_is_revoked (vals r)) (objects (auth_sessions (adb s)))"
  have get: "tbl_get (row_pk r) (auth_sessions (adb s)) = Some r" if "r \<in> set ?open" for r
    using that keys tbl_get_eq [of "auth_sessions (adb s)" r] by (simp add: sess_keys_def objects_def)
  then have "\<forall>k \<in> set (map row_pk ?open). sess_status k s \<noteq> None" by (auto simp: sess_status_def)
  then obtain rs t where t: "for_each (map row_pk ?open) (\<lambda>k. revoke_auth_session now k by) s = (Inr rs, t)"
    "users (adb t) = users (adb s)"
    "\<forall>j. sess_status j t = (if j \<in> set (map row_pk ?open) then map_option (\<lambda>(u, _). (u, True)) (sess_status j s) else sess_status j s)"
    using for_each_revoke by blast
  have "ended u k t" if r: "session_of u k (auth_sessions (adb s)) = Some r" for k r
  proof (rule status_ended)
    note st = session_of_status [OF keys r]
    moreover have "k \<in> set (map row_pk ?open) \<or> as_is_revoked (vals r)"
    proof (cases "as_is_revoked (vals r)")
      case False
      then have "r \<in> set ?open" using st r by (auto simp: objects_def session_of_def find_Some_iff)
      with st show ?thesis by auto
    qed simp
    ultimately show "sess_status k t = Some (u, True)" using t(3) by auto
  qed
  moreover have "revoke_all_user_sessions now u by None s = (Inr (length rs), t)"
    using t(1) by (simp add: revoke_all_user_sessions_def atomic_db_def svc_defs)
  ultimately show ?thesis using t(2) by blast
qed

section \<open>Saving a password\<close>

definition users_ok :: "auth_st \<Rightarrow> bool" where
  "users_ok s = list_all (\<lambda>r. user_constraints (users (adb s)) (row_pk r) (vals r)) (users (adb s))"

definition with_password :: "nat \<Rightarrow> string \<Rightarrow> auth_user table \<Rightarrow> auth_user table" where
  "with_password k p t = map (\<lambda>r. if row_pk r = k then set_user_fields [F_password p] r else r) t"

definition user_keys :: "auth_user table \<Rightarrow> (nat \<times> string option \<times> string option) list" where
  "user_keys t = map (\<lambda>r. (row_pk r, u_email (vals r), u_phone_number (vals r))) t"

lemma user_constraints_keys:
  "user_constraints t k u \<longleftrightarrow> (u_email u \<noteq> None \<or> u_phone_number u \<noteq> None) \<and>
     list_all (\<lambda>(j, e, p). j = k \<or> (u_email u = None \<or> e \<noteq> u_email u) \<and> (u_phone_number u = None \<or> p \<noteq> u_phone_number u)) (user_keys t)"
  by (simp add: user_constraints_def user_keys_def list_all_iff)

lemma user_keys_with_password [simp]: "user_keys (with_password k p t) = user_keys t"
  by (simp add: user_keys_def with_password_def set_user_fields_def)

lemma save_password_run:
  assumes "users_ok s"
  shows "save_user k [F_password p] s = (Inr (), upd_users (\<lambda>_. with_password k p (users (adb s))) s)"
proof -
  have "user_constraints (with_password k p (users (adb s))) k (vals r')"
    if r': "r' \<in> set (with_password k p (users (adb s)))" "row_pk r' = k" for r'
  proof -
    have "row_pk (set_user_fields [F_password p] r) = row_pk r" for r by (simp add: set_user_fields_def)
    with r' obtain r where r: "r \<in> set (users (adb s))" "row_pk r = k" "r' = set_user_fields [F_password p] r"
      by (auto simp: with_password_def split: if_splits)
    with assms have "user_constraints (users (adb s)) k (vals r)" by (auto simp: users_ok_def list_all_iff)
    moreover have "u_email (vals r') = u_email (vals r)" "u_phone_number (vals r') = u_phone_number (vals r)"
      by (simp_all add: r(3) set_user_fields_def)
    ultimately show ?thesis by (simp add: user_constraints_keys)
  qed
  then have "list_all (\<lambda>r. row_pk r \<noteq> k \<or> user_constraints (with_password k p (users (adb s))) k (vals r)) (with_password k p (users (adb s)))"
    unfolding list_all_iff by blast
  then show ?thesis by (simp add: save_user_def with_password_def svc_defs)
qed

section \<open>Confirming a password reset\<close>

text \<open>Everything a confirmation does before the code is accepted touches the code table only.\<close>

lemma code_table_undo [simp]: "(count_guess now k s)\<lparr>adb := adb s\<rparr> = s" "(use_otp later k (count_guess now k s))\<lparr>adb := adb s\<rparr> = s"
  by (simp_all add: count_guess_def use_otp_def upd_otps_def)

lemma confirm_wrong:
  assumes "normalize_identifier_by_kind kind v = Inr x" and "sole_open kind x PASSWORD_RESET otp s"
    and "oc_attempts (vals otp) < otp_max_attempts (env_otp E)" and "wrong_guess (env_otp E) (vals otp) (now, code)"
  shows "forgot_password_confirm E now kind v code pw s = (Inl OTPServiceError, s)"
proof -
  have "verify_otp (env_otp E) now kind x PASSWORD_RESET code s =
    (if Suc (oc_attempts (vals otp)) < otp_max_attempts (env_otp E) then (Inl OTPInvalidCode, count_guess now (row_pk otp) s)
     else (Inl OTPTooManyAttempts, use_otp now (row_pk otp) (count_guess now (row_pk otp) s)))"
    using assms(4) by (intro verify_wrong [OF assms(2,3)]) (auto simp: wrong_guess_def is_expired_def)
  then show ?thesis
    using assms(1)
    by (auto simp: forgot_password_confirm_def normalized_def verify_mapped_def map_otp_errors_def atomic_db_def svc_defs)
qed

lemma users_use_otp [simp]: "users (adb (use_otp now k s)) = users (adb s)" "auth_sessions (adb (use_otp now k s)) = auth_sessions (adb s)"
  by (simp_all add: use_otp_def)

lemma confirm_right:
  assumes "normalize_identifier_by_kind kind v = Inr x" and "sole_open kind x PASSWORD_RESET otp s"
    and "oc_attempts (vals otp) < otp_max_attempts (env_otp E)" and "now \<le> oc_expires_at (vals otp)" "strip code \<noteq> []"
    and "oc_code_hash (vals otp) = expected_hash_for (env_otp E) (vals otp) code"
    and "get_active_user_by_identifier kind x (users (adb s)) = Some user" and "users_ok s" "sess_keys s"
  shows "\<exists>t. forgot_password_confirm E now kind v code pw s = (Inr (), t) \<and>
    users (adb t) = with_password (row_pk user) (env_make_password E pw) (users (adb s))"
proof -
  let ?s = "use_otp now (row_pk otp) s"
  have v: "verify_otp (env_otp E) now kind x PASSWORD_RESET code s = (Inr (otp\<lparr>vals := (vals otp)\<lparr>oc_is_used := True\<rparr>\<rparr>), ?s)"
    using assms(4) by (intro verify_right [OF assms(2,3)] assms(5,6)) (simp add: is_expired_def)
  let ?u = "upd_users (\<lambda>_. with_password (row_pk user) (env_make_password E pw) (users (adb s))) ?s"
  have "users_ok ?s" using assms(8) by (simp add: users_ok_def)
  then have save: "save_user (row_pk user) [F_password (env_make_password E pw)] ?s = (Inr (), ?u)" using save_password_run by fastforce
  have "sess_keys ?u" using assms(9) by (simp add: sess_keys_def upd_users_def)
  then obtain n t where "revoke_all_user_sessions now (row_pk user) None None ?u = (Inr n, t)" "users (adb t) = users (adb ?u)"
    using revoke_all_run by blast
  with v save show ?thesis
    using assms(1,7)
    by (auto simp: forgot_password_confirm_def normalized_def verify_mapped_def map_otp_errors_def atomic_db_def upd_users_def svc_defs)
qed

fun confirm_all ::
  "auth_env \<Rightarrow> identifier_kind \<Rightarrow> string \<Rightarrow> string \<Rightarrow> (int \<times> string) list \<Rightarrow> auth_st \<Rightarrow> (exn + unit) list \<times> auth_st" where
  "confirm_all E kind v pw [] s = ([], s)"
| "confirm_all E kind v pw ((now, code) # gs) s =
     (let (res, t) = forgot_password_confirm E now kind v code pw s; (rest, u) = confirm_all E kind v pw gs t in (res # rest, u))"

text \<open>C25. A password reset can be attacked with any number of codes: the confirmation runs in one transaction
  that the raised error rolls back, and with it the counted attempt. However many wrong codes were tried, the
  state is as before and the right code still resets the password, while the engine itself would have
  retired the code after the configured number of attempts.\<close>

theorem reset_guesses_uncounted:
  assumes "normalize_identifier_by_kind kind v = Inr x" and "sole_open kind x PASSWORD_RESET otp s"
    and "oc_attempts (vals otp) < otp_max_attempts (env_otp E)" and "list_all (wrong_guess (env_otp E) (vals otp)) gs"
    and "now \<le> oc_expires_at (vals otp)" "strip code \<noteq> []" "oc_code_hash (vals otp) = expected_hash_for (env_otp E) (vals otp) code"
    and "get_active_user_by_identifier kind x (users (adb s)) = Some user" and "users_ok s" "sess_keys s"
  shows "confirm_all E kind v pw gs s = (replicate (length gs) (Inl OTPServiceError), s) \<and>
    (\<exists>t. forgot_password_confirm E now kind v code pw s = (Inr (), t) \<and>
       users (adb t) = with_password (row_pk user) (env_make_password E pw) (users (adb s)))"
proof
  show "confirm_all E kind v pw gs s = (replicate (length gs) (Inl OTPServiceError), s)"
    using assms(4) by (induction gs) (auto simp: confirm_wrong [OF assms(1-3)])
qed (rule confirm_right [OF assms(1-3,5-10)])

lemma verify_otp_Inr: "verify_otp E now kind w purpose code s = (Inr r, t) \<Longrightarrow> \<exists>k. t = use_otp now k s"
  unfolding verify_otp_def judge_otp_def retire_otp_def after_wrong_code_def accept_otp_def
  by (auto simp: svc_inv mark_otp_used_run split: option.splits if_splits)

lemma verify_mapped_Inr: "verify_mapped E now kind w purpose code s = (Inr r, t) \<Longrightarrow> \<exists>k. t = use_otp now k s"
  unfolding verify_mapped_def map_otp_errors_def try_svc_def
  by (auto simp: raise_def split: prod.splits sum.splits if_splits dest: verify_otp_Inr)

lemma confirm_Inr:
  assumes "forgot_password_confirm E now kind v code pw s = (Inr (), t)" and "normalize_identifier_by_kind kind v = Inr x"
    and "get_active_user_by_identifier kind x (users (adb s)) = Some user"
  obtains c n where "sess_view c = sess_view s" "revoke_all_user_sessions now (row_pk user) None None c = (Inr n, t)"
proof -
  obtain otp a where a: "verify_mapped E now kind x PASSWORD_RESET code s = (Inr otp, a)"
    and rest: "(case get_active_user_by_identifier kind x (users (adb a)) of None \<Rightarrow> raise IdentifierNotFound
      | Some user \<Rightarrow> seqn (save_user (row_pk user) [F_password (env_make_password E pw)])
          (seqn (revoke_all_user_sessions now (row_pk user) None None) (ret ()))) a = (Inr (), t)"
    using assms(1,2) by (auto simp: forgot_password_confirm_def normalized_def svc_inv)
  have "users (adb a) = users (adb s)" using verify_mapped_Inr [OF a] by auto
  with rest assms(3) obtain b c n where c: "save_user (row_pk user) [F_password (env_make_password E pw)] a = (Inr b, c)"
    "revoke_all_user_sessions now (row_pk user) None None c = (Inr n, t)"
    by (auto simp: svc_inv)
  have "sess_view c = sess_view s"
    using keepsD [OF keeps_verify_mapped a] keepsD [OF keeps_save_user c(1)] by simp
  from this c(2) show ?thesis by (rule that)
qed

text \<open>C26. A successful password reset ends every session of the account: at every later request, after any
  further service calls and whatever was cached before, a token of such a session is refused.\<close>

theorem reset_ends_sessions:
  assumes "reach auth_start (auth_step E) s" and "forgot_password_confirm E now kind v code pw s = (Inr (), t)"
    and "normalize_identifier_by_kind kind v = Inr x" and "get_active_user_by_identifier kind x (users (adb s)) = Some user"
    and "session_of (row_pk user) k (auth_sessions (adb s)) = Some r" and "(auth_step E)\<^sup>*\<^sup>* t u"
  shows "fst (validate_and_touch_session later (row_pk user) (Some k) u) = Inr False"
proof -
  have inv: "sess_keys s" "cache_sound s" using auth_system.reach_inv [OF assms(1)] by simp_all
  obtain c n where c: "sess_view c = sess_view s" "revoke_all_user_sessions now (row_pk user) None None c = (Inr n, t)"
    using assms(2-4) by (rule confirm_Inr)
  have "sess_keys c" "session_of (row_pk user) k (auth_sessions (adb c)) = Some r"
    using inv(1) assms(5) c(1) by (simp_all add: sess_keys_def sess_view_def)
  then have "ended (row_pk user) k t" using revoke_all_run [of c now "row_pk user" None] c(2) by auto
  moreover have "auth_step E s t"
    using call [of E s "C_forgot_password_confirm now kind v code pw"] assms(2) by (simp add: state_after_def)
  then have "sess_keys t \<and> cache_sound t" using auth_step_keeps inv by blast
  ultimately show ?thesis using assms(6) by (intro ended_forever)
qed

section \<open>A concrete account\<close>

definition sample_auth_env :: auth_env where
  "sample_auth_env = \<lparr>env_otp = sample_otp_env, env_fingerprint = (\<lambda>_ x. x), env_make_password = (\<lambda>p. ''hash:'' @ p),
     env_check_password = (\<lambda>p h. h = ''hash:'' @ p), env_token_issued = (\<lambda>j js. js @ [j]),
     env_token_blacklist = (\<lambda>j (out, black). (out, black @ [j]))\<rparr>"

definition sample_request :: http_request where
  "sample_request = \<lparr>rq_client_ip = Some ''10.0.0.1'', rq_user_agent = ''Firefox'', rq_request_id = ''r1''\<rparr>"

definition sample_refresh :: refresh_token where
  "sample_refresh = \<lparr>rt_jti = ''jti-1'', rt_exp = Some 900000, rt_sid = None\<rparr>"

text \<open>Sign up with a code, which also opens a session; use the session; ask for a reset code.\<close>

definition sample_calls :: "auth_call list" where
  "sample_calls =
     [C_signup_request 1000 sample_draw EMAIL ''A@b.ir'',
      C_signup_verify 1010 sample_refresh EMAIL ''a@b.ir'' ''000047'' ''pw'' [] [] (Some sample_request),
      C_validate_and_touch_session 1020 1 (Some 1),
      C_forgot_password_request 1100 sample_draw EMAIL ''a@b.ir'']"

definition sample_account :: auth_st where
  "sample_account = fold (\<lambda>c s. state_after (run_auth sample_auth_env c) s) sample_calls empty_auth"

lemma reach_fold_calls:
  "reach auth_start (auth_step E) s \<Longrightarrow> reach auth_start (auth_step E) (fold (\<lambda>c s. state_after (run_auth E c) s) cs s)"
  by (induction cs arbitrary: s) (auto intro: reach_step auth_step.call)

lemma reach_sample_account: "reach auth_start (auth_step sample_auth_env) sample_account"
  unfolding sample_account_def
  by (intro reach_fold_calls reach_init) (simp add: auth_start_def sess_keys_def empty_auth_def)

definition sample_user :: "auth_user row" where
  "sample_user = hd (users (adb sample_account))"

definition sample_reset_otp :: "otp_code row" where
  "sample_reset_otp = last (otps sample_account)"

text \<open>What the theorems need of the state, evaluated once.\<close>

definition account_facts :: "auth_st \<Rightarrow> bool" where
  "account_facts a = (let u = hd (users (adb a)); o1 = last (otps a) in
     get_active_user_by_identifier EMAIL sample_mail (users (adb a)) = Some u \<and> row_pk u = 1 \<and>
     sole_open EMAIL sample_mail PASSWORD_RESET o1 a \<and> oc_attempts (vals o1) < otp_max_attempts (env_otp sample_auth_env) \<and>
     list_all (wrong_guess (env_otp sample_auth_env) (vals o1)) (replicate 7 (1200, ''123456'')) \<and>
     1200 \<le> oc_expires_at (vals o1) \<and>
     oc_code_hash (vals o1) = expected_hash_for (env_otp sample_auth_env) (vals o1) ''000047'' \<and>
     users_ok a \<and> sess_keys a \<and>
     fst (forgot_password_confirm sample_auth_env 1200 EMAIL ''a@b.ir'' ''000047'' ''new'' a) = Inr () \<and>
     session_of (row_pk u) 1 (auth_sessions (adb a)) = Some (hd (auth_sessions (adb a))) \<and>
     fst (validate_and_touch_session 1101 1 (Some 1) a) = Inr True)"

lemma sample_account_facts: "account_facts sample_account"
  by code_simp

lemma sample_mail_normal: "normalize_identifier_by_kind EMAIL ''a@b.ir'' = Inr sample_mail"
  by code_simp

lemma sample_account_user:
  "get_active_user_by_identifier EMAIL sample_mail (users (adb sample_account)) = Some sample_user" "row_pk sample_user = 1"
  using sample_account_facts by (simp_all add: account_facts_def sample_user_def Let_def)

theorem reset_guesses_uncounted_witness:
  "confirm_all sample_auth_env EMAIL ''a@b.ir'' ''new'' (replicate 7 (1200, ''123456'')) sample_account =
     (replicate 7 (Inl OTPServiceError), sample_account) \<and>
   (\<exists>t. forgot_password_confirm sample_auth_env 1200 EMAIL ''a@b.ir'' ''000047'' ''new'' sample_account = (Inr (), t) \<and>
      users (adb t) = with_password 1 ''hash:new'' (users (adb sample_account)))"
proof -
  have o: "sole_open EMAIL sample_mail PASSWORD_RESET sample_reset_otp sample_account"
    and a: "oc_attempts (vals sample_reset_otp) < otp_max_attempts (env_otp sample_auth_env)"
    and g: "list_all (wrong_guess (env_otp sample_auth_env) (vals sample_reset_otp)) (replicate 7 (1200, ''123456''))"
    and c: "1200 \<le> oc_expires_at (vals sample_reset_otp)"
    and h: "oc_code_hash (vals sample_reset_otp) = expected_hash_for (env_otp sample_auth_env) (vals sample_reset_otp) ''000047''"
    and k: "users_ok sample_account" "sess_keys sample_account"
    using sample_account_facts unfolding account_facts_def Let_def sample_reset_otp_def by blast+
  have n: "strip ''000047'' \<noteq> []" by code_simp
  have p: "env_make_password sample_auth_env ''new'' = ''hash:new''" by code_simp
  show ?thesis
    using reset_guesses_uncounted [OF sample_mail_normal o a g c n h sample_account_user(1) k, of "''new''"]
    by (simp add: p sample_account_user(2))
qed

theorem reset_ends_sessions_witness:
  "\<exists>t. forgot_password_confirm sample_auth_env 1200 EMAIL ''a@b.ir'' ''000047'' ''new'' sample_account = (Inr (), t) \<and>
     fst (validate_and_touch_session 1101 1 (Some 1) sample_account) = Inr True \<and>
     fst (validate_and_touch_session 1201 1 (Some 1) t) = Inr False"
proof -
  have "fst (forgot_password_confirm sample_auth_env 1200 EMAIL ''a@b.ir'' ''000047'' ''new'' sample_account) = Inr ()"
    and ses: "session_of (row_pk sample_user) 1 (auth_sessions (adb sample_account)) = Some (hd (auth_sessions (adb sample_account)))"
    and before: "fst (validate_and_touch_session 1101 1 (Some 1) sample_account) = Inr True"
    using sample_account_facts unfolding account_facts_def Let_def sample_user_def by blast+
  then obtain t where t: "forgot_password_confirm sample_auth_env 1200 EMAIL ''a@b.ir'' ''000047'' ''new'' sample_account = (Inr (), t)"
    by (metis prod.collapse)
  from reset_ends_sessions [OF reach_sample_account t sample_mail_normal sample_account_user(1) ses rtranclp.rtrancl_refl, of 1201]
  have "fst (validate_and_touch_session 1201 1 (Some 1) t) = Inr False" by (simp add: sample_account_user(2))
  then show ?thesis using t before by blast
qed

end
