(* ===== verification/Support_Types.thy ===== *)
theory Support_Types
  imports Notifications Auth_Types "HOL-Library.Product_Lexorder" "HOL-Library.List_Lexorder" "HOL-Library.Char_ord"
begin

text \<open>
  Data of the support desk (\<^verbatim>\<open>src/apps/support_desk/models.py\<close>, \<^verbatim>\<open>choices.py\<close>, \<^verbatim>\<open>managers.py\<close>): the taxonomy
  (departments, the category tree, ticket types), service levels (calendars, holidays, policies), tickets with
  their timeline and histories, and the knowledge base. The random \<open>uuid\<close> columns are left out. A constant Persian
  text that a service stores stands here as an English word. The acting user of a service is a row of the
  user table, or \<open>None\<close> for an anonymous request.
\<close>

section \<open>Choices\<close>

datatype (plugins only: code) ticket_status =
    TS_DRAFT | TS_SUBMITTED | TS_OPEN | TS_IN_PROGRESS | TS_WAITING_FOR_USER | TS_WAITING_FOR_ADMIN | TS_RESOLVED
  | TS_CLOSED | TS_REOPENED | TS_ESCALATED | TS_SPAM | TS_ARCHIVED

datatype ticket_priority = TP_LOW | TP_NORMAL | TP_HIGH | TP_URGENT

datatype ticket_severity = SV_MINOR | SV_MAJOR | SV_CRITICAL | SV_BLOCKER

datatype ticket_channel = CH_WEB | CH_ADMIN | CH_SYSTEM | CH_IMPORT

datatype ticket_message_type =
    MT_USER_MESSAGE | MT_ADMIN_REPLY | MT_INTERNAL_NOTE | MT_SYSTEM_EVENT | MT_STATUS_CHANGE | MT_ASSIGNMENT_CHANGE
  | MT_SLA_EVENT

datatype attachment_kind = AK_SCREENSHOT | AK_IMAGE | AK_DOCUMENT | AK_RECEIPT | AK_OTHER

datatype attachment_visibility = VIS_PUBLIC | VIS_INTERNAL_ONLY

datatype tag_source = TAG_USER | TAG_ADMIN | TAG_AUTO_TRIAGE | TAG_SYSTEM

datatype sla_event_type =
    SE_POLICY_APPLIED | SE_PAUSED | SE_RESUMED | SE_FIRST_RESPONSE_BREACHED | SE_RESOLUTION_BREACHED | SE_ESCALATED

datatype duplicate_review_status = DUP_ACTIVE | DUP_DISMISSED | DUP_CONFIRMED

datatype article_status = KA_DRAFT | KA_PUBLISHED | KA_ARCHIVED

definition status_str :: "ticket_status \<Rightarrow> string" where
  "status_str x =
     (case x of TS_DRAFT \<Rightarrow> ''draft'' | TS_SUBMITTED \<Rightarrow> ''submitted'' | TS_OPEN \<Rightarrow> ''open'' | TS_IN_PROGRESS \<Rightarrow> ''in_progress''
      | TS_WAITING_FOR_USER \<Rightarrow> ''waiting_for_user'' | TS_WAITING_FOR_ADMIN \<Rightarrow> ''waiting_for_admin''
      | TS_RESOLVED \<Rightarrow> ''resolved'' | TS_CLOSED \<Rightarrow> ''closed'' | TS_REOPENED \<Rightarrow> ''reopened'' | TS_ESCALATED \<Rightarrow> ''escalated''
      | TS_SPAM \<Rightarrow> ''spam'' | TS_ARCHIVED \<Rightarrow> ''archived'')"

section \<open>Tables\<close>

record department =
  dep_title :: string
  dep_slug :: string
  dep_description :: string
  dep_default_assignee :: "nat option"
  dep_order :: nat

record category =
  cat_parent :: "nat option"
  cat_department :: nat
  cat_title :: string
  cat_slug :: string
  cat_path :: string
  cat_depth :: nat
  cat_description :: string
  cat_icon :: string
  cat_order :: nat
  cat_tickets_count :: nat
  cat_open_tickets_count :: nat

text \<open>A time of day is a number of seconds after midnight, a date a number of days since 1970-01-01.\<close>

record business_calendar =
  cal_title :: string
  cal_department :: "nat option"
  cal_timezone_name :: string
  cal_workday_start :: int
  cal_workday_end :: int
  cal_active_weekdays :: "int list"
  cal_is_default :: bool

record holiday =
  hol_calendar :: nat
  hol_date :: int
  hol_title :: string

record sla_policy =
  pol_title :: string
  pol_slug :: string
  pol_department :: "nat option"
  pol_priority :: ticket_priority
  pol_severity :: ticket_severity
  pol_first_response_minutes :: nat
  pol_resolution_minutes :: nat
  pol_business_hours_only :: bool
  pol_pause_when_waiting_for_user :: bool
  pol_escalate_on_breach :: bool
  pol_order :: nat

record ticket_type =
  tt_code :: string
  tt_title :: string
  tt_description :: string
  tt_default_department :: "nat option"
  tt_default_category :: "nat option"
  tt_default_priority :: ticket_priority
  tt_default_severity :: ticket_severity
  tt_default_sla_policy :: "nat option"
  tt_order :: nat

record ticket =
  tk_ticket_number :: string
  tk_owner :: nat
  tk_department :: nat
  tk_category :: nat
  tk_ticket_type :: nat
  tk_subject :: string
  tk_description_snapshot :: string
  tk_status :: ticket_status
  tk_priority :: ticket_priority
  tk_severity :: ticket_severity
  tk_channel :: ticket_channel
  tk_assigned_to :: "nat option"
  tk_submitted_at :: "int option"
  tk_first_admin_response_at :: "int option"
  tk_last_user_message_at :: "int option"
  tk_last_admin_message_at :: "int option"
  tk_last_activity_at :: int
  tk_resolved_at :: "int option"
  tk_closed_at :: "int option"
  tk_reopened_at :: "int option"
  tk_escalated_at :: "int option"
  tk_escalated_by :: "nat option"
  tk_escalation_reason :: string
  tk_applied_sla_policy :: "nat option"
  tk_first_response_due_at :: "int option"
  tk_resolution_due_at :: "int option"
  tk_sla_breached_at :: "int option"
  tk_sla_paused_at :: "int option"
  tk_sla_total_paused_seconds :: int
  tk_message_count :: nat
  tk_attachment_count :: nat
  tk_internal_note_count :: nat
  tk_reopen_count :: nat
  tk_satisfaction_rating_snapshot :: "int option"
  tk_search_document :: string

record ticket_message =
  tm_ticket :: nat
  tm_author :: nat
  tm_message_type :: ticket_message_type
  tm_body :: string
  tm_is_internal :: bool
  tm_is_from_staff :: bool
  tm_metadata :: json_obj

record ticket_attachment =
  ta_ticket :: nat
  ta_message :: "nat option"
  ta_uploaded_by :: nat
  ta_file :: string
  ta_original_filename :: string
  ta_content_type :: string
  ta_file_size :: nat
  ta_attachment_kind :: attachment_kind
  ta_visibility :: attachment_visibility

record support_tag =
  tg_name :: string
  tg_slug :: string
  tg_normalized_name :: string
  tg_usage_count :: nat

record ticket_tag =
  tt_ticket :: nat
  tt_tag :: nat
  tt_source :: tag_source

record canned_response =
  cr_department :: "nat option"
  cr_category :: "nat option"
  cr_title :: string
  cr_body :: string
  cr_usage_count :: nat

record knowledge_article =
  ka_department :: "nat option"
  ka_category :: "nat option"
  ka_ticket_type :: "nat option"
  ka_title :: string
  ka_slug :: string
  ka_summary :: string
  ka_body :: string
  ka_keywords :: "string list"
  ka_status :: article_status
  ka_published_at :: "int option"
  ka_archived_at :: "int option"
  ka_usage_count :: nat

record knowledge_article_use =
  ku_article :: nat
  ku_ticket :: "nat option"
  ku_used_by :: "nat option"
  ku_context :: string
  ku_metadata :: json_obj

record ticket_assignment =
  tas_ticket :: nat
  tas_assigned_by :: nat
  tas_from_assignee :: "nat option"
  tas_assigned_to :: "nat option"
  tas_department :: "nat option"
  tas_reason :: string

record status_history =
  sh_ticket :: nat
  sh_changed_by :: "nat option"
  sh_from_status :: "ticket_status option"
  sh_to_status :: ticket_status
  sh_reason :: string

record sla_event =
  sle_ticket :: nat
  sle_event_type :: sla_event_type
  sle_occurred_at :: int
  sle_metadata :: json_obj

record satisfaction =
  sat_ticket :: nat
  sat_user :: nat
  sat_rating :: int
  sat_comment :: string

record duplicate_candidate =
  dc_ticket :: nat
  dc_candidate_ticket :: nat
  dc_score :: int
  dc_reason :: string
  dc_status :: duplicate_review_status
  dc_reviewed_by :: "nat option"
  dc_reviewed_at :: "int option"

section \<open>State\<close>

record sup_db = ntf_db +
  sd_users :: "auth_user table"
  departments :: "department table"
  categories :: "category table"
  calendars :: "business_calendar table"
  holidays :: "holiday table"
  sla_policies :: "sla_policy table"
  ticket_types :: "ticket_type table"
  tickets :: "ticket table"
  messages :: "ticket_message table"
  attachments :: "ticket_attachment table"
  support_tags :: "support_tag table"
  ticket_tags :: "ticket_tag table"
  canned_responses :: "canned_response table"
  articles :: "knowledge_article table"
  article_uses :: "knowledge_article_use table"
  assignments :: "ticket_assignment table"
  status_histories :: "status_history table"
  sla_events :: "sla_event table"
  satisfactions :: "satisfaction table"
  duplicates :: "duplicate_candidate table"

type_synonym sd_user = "auth_user row option"

definition user_pk :: "sd_user \<Rightarrow> nat option" where
  "user_pk u = map_option row_pk u"

definition is_admin :: "sd_user \<Rightarrow> bool" where
  "is_admin u = (case u of None \<Rightarrow> False | Some r \<Rightarrow> u_is_staff (vals r) \<or> u_is_superuser (vals r) \<or> u_role (vals r) = ROLE_ADMIN)"

section \<open>Querysets\<close>

definition in_open_queue :: "ticket row \<Rightarrow> bool" where
  "in_open_queue r = (tk_status (vals r) \<notin> {TS_CLOSED, TS_ARCHIVED, TS_SPAM})"

definition open_queue :: "ticket table \<Rightarrow> ticket table" where
  "open_queue t = filter in_open_queue t"

text \<open>\<open>order_by(...).first()\<close>: the first row with the least key, in the order of the table on a tie.\<close>

fun first_by :: "('v row \<Rightarrow> 'k :: linorder) \<Rightarrow> 'v table \<Rightarrow> 'v row option" where
  "first_by key [] = None"
| "first_by key (r # rs) =
     (case first_by key rs of
        None \<Rightarrow> Some r
      | Some q \<Rightarrow> if key r \<le> key q then Some r else Some q)"

lemma first_by_None: "first_by key t = None \<longleftrightarrow> t = []"
  by (cases t) (auto split: option.split)

lemma first_by_Some:
  "first_by key t = Some r \<Longrightarrow> r \<in> set t \<and> (\<forall>q \<in> set t. key r \<le> key q)"
proof (induction t arbitrary: r)
  case Nil
  then show ?case by simp
next
  case (Cons a t)
  show ?case
  proof (cases "first_by key t")
    case None
    with Cons.prems show ?thesis by (simp add: first_by_None)
  next
    case (Some q)
    have q: "q \<in> set t" "\<forall>x \<in> set t. key q \<le> key x" using Cons.IH [OF Some] by blast+
    show ?thesis
    proof (cases "key a \<le> key q")
      case True
      with Cons.prems Some have "r = a" by simp
      moreover have "\<forall>x \<in> set t. key a \<le> key x" using q(2) True by (meson order_trans)
      ultimately show ?thesis by simp
    next
      case False
      with Cons.prems Some have "r = q" by simp
      with q False show ?thesis by auto
    qed
  qed
qed

end
