(* ===== verification/Support_Calendar.thy ===== *)
theory Support_Calendar
  imports Support_Types
begin

text \<open>
  Business time (\<^verbatim>\<open>src/apps/support_desk/services.py\<close>: \<open>add_business_minutes\<close>, \<open>_next_working_instant\<close>). All
  datetimes of the two loops carry the same zone object, so Python compares and subtracts their wall-clock
  fields: the loops work on local time in seconds, and only the conversions at the two ends use the zone, which is a
  parameter (the time zone database). The loops move forward by whole days and raise \<open>OverflowError\<close>
  when they step past \<open>date.max\<close>, so they always end.

  The specification is \<open>business_seconds\<close>, the number of working seconds between two instants.
\<close>

section \<open>Local time\<close>

text \<open>The day number of 9999-12-31. A time of day is read modulo one day.\<close>

definition MAX_DAY :: int where
  "MAX_DAY = 2932896"

definition day_of :: "int \<Rightarrow> int" where
  "day_of w = w div 86400"

definition combine :: "int \<Rightarrow> int \<Rightarrow> int" where
  "combine day t = day * 86400 + t mod 86400"

text \<open>\<open>weekday()\<close>: Monday is 0, and 1970-01-01 was a Thursday.\<close>

definition weekday :: "int \<Rightarrow> int" where
  "weekday w = (day_of w + 3) mod 7"

record zone =
  z_local :: "int \<Rightarrow> int"
  z_utc :: "int \<Rightarrow> int"

section \<open>The two loops\<close>

definition working_day :: "(int \<Rightarrow> bool) \<Rightarrow> int list \<Rightarrow> int \<Rightarrow> bool" where
  "working_day is_holiday active_weekdays w = (weekday w \<in> set active_weekdays \<and> \<not> is_holiday (day_of w))"

lemma day_of_combine [simp]: "day_of (combine d t) = d"
  by (simp add: day_of_def combine_def)

function next_working_instant :: "business_calendar \<Rightarrow> (int \<Rightarrow> bool) \<Rightarrow> int list \<Rightarrow> int \<Rightarrow> int option" where
  "next_working_instant cal is_holiday active_weekdays current =
     (if working_day is_holiday active_weekdays current \<and> current < combine (day_of current) (cal_workday_start cal)
      then Some (combine (day_of current) (cal_workday_start cal))
      else if working_day is_holiday active_weekdays current \<and>
         combine (day_of current) (cal_workday_start cal) \<le> current \<and> current < combine (day_of current) (cal_workday_end cal)
      then Some current
      else if MAX_DAY \<le> day_of current then None
      else next_working_instant cal is_holiday active_weekdays (combine (day_of current + 1) (cal_workday_start cal)))"
  by pat_completeness auto
termination
  by (relation "measure (\<lambda>(cal, h, a, w). nat (MAX_DAY - day_of w))") auto

declare next_working_instant.simps [simp del]

text \<open>Induction along the days that are left.\<close>

lemma day_induct:
  assumes "\<And>w. (\<And>v. day_of w < day_of v \<Longrightarrow> \<not> MAX_DAY \<le> day_of w \<Longrightarrow> P v) \<Longrightarrow> P w"
  shows "P (w :: int)"
proof (induction w rule: measure_induct_rule [where f = "\<lambda>w. nat (MAX_DAY - day_of w)"])
  case (less w)
  show ?case by (rule assms, rule less) auto
qed

lemma next_working_instant_cases:
  obtains (today) "next_working_instant cal h a w = Some (combine (day_of w) (cal_workday_start cal))"
      "working_day h a w" "w < combine (day_of w) (cal_workday_start cal)"
  | (now) "next_working_instant cal h a w = Some w" "working_day h a w" "combine (day_of w) (cal_workday_start cal) \<le> w"
      "w < combine (day_of w) (cal_workday_end cal)"
  | (never) "next_working_instant cal h a w = None" "MAX_DAY \<le> day_of w"
      "\<not> working_day h a w \<or> combine (day_of w) (cal_workday_end cal) \<le> w"
  | (later) "next_working_instant cal h a w = next_working_instant cal h a (combine (day_of w + 1) (cal_workday_start cal))"
      "\<not> MAX_DAY \<le> day_of w" "\<not> working_day h a w \<or> combine (day_of w) (cal_workday_end cal) \<le> w"
  using next_working_instant.simps [of cal h a w] by (auto simp: not_less not_le split: if_splits)

lemma next_working_instant_day:
  "next_working_instant cal h a w = Some c \<Longrightarrow> day_of w \<le> day_of c"
proof (induction w rule: day_induct)
  case (1 w)
  show ?case
  proof (cases rule: next_working_instant_cases [where cal = cal and h = h and a = a and w = w])
    case later
    with 1(1) [of "combine (day_of w + 1) (cal_workday_start cal)"] 1(2) show ?thesis by simp
  qed (use 1 in auto)
qed

text \<open>The whole minutes left of the working day.\<close>

definition available_minutes :: "business_calendar \<Rightarrow> int \<Rightarrow> int" where
  "available_minutes cal current = max 0 ((combine (day_of current) (cal_workday_end cal) - current) div 60)"

function business_loop :: "business_calendar \<Rightarrow> (int \<Rightarrow> bool) \<Rightarrow> int list \<Rightarrow> int \<Rightarrow> int \<Rightarrow> int option" where
  "business_loop cal is_holiday active_weekdays remaining current =
     (if remaining \<le> 0 then Some current
      else case next_working_instant cal is_holiday active_weekdays current of
        None \<Rightarrow> None
      | Some cur \<Rightarrow>
          if available_minutes cal cur \<ge> remaining then Some (cur + remaining * 60)
          else if MAX_DAY \<le> day_of cur then None
          else business_loop cal is_holiday active_weekdays (remaining - available_minutes cal cur)
                 (combine (day_of cur + 1) (cal_workday_start cal)))"
  by pat_completeness auto
termination
  by (relation "measure (\<lambda>(cal, h, a, n, w). nat (MAX_DAY - day_of w))") (auto dest!: next_working_instant_day)

declare business_loop.simps [simp del]

definition calendar_weekdays :: "business_calendar \<Rightarrow> int list" where
  "calendar_weekdays cal = (if cal_active_weekdays cal = [] then [5, 6, 0, 1, 2] else cal_active_weekdays cal)"

definition holiday_on :: "holiday table \<Rightarrow> nat \<Rightarrow> int \<Rightarrow> bool" where
  "holiday_on hs cal day = list_ex (\<lambda>h. hol_calendar (vals h) = cal \<and> hol_date (vals h) = day) (objects hs)"

definition add_business_minutes ::
  "(string \<Rightarrow> zone option) \<Rightarrow> holiday table \<Rightarrow> int \<Rightarrow> int \<Rightarrow> business_calendar row \<Rightarrow> exn + int" where
  "add_business_minutes zones hs start_at minutes calendar =
     (if minutes \<le> 0 then Inr start_at
      else case zones (cal_timezone_name (vals calendar)) of
        None \<Rightarrow> Inl ZoneInfoNotFoundError
      | Some z \<Rightarrow>
          (case business_loop (vals calendar) (holiday_on hs (row_pk calendar)) (calendar_weekdays (vals calendar))
                  minutes (z_local z start_at) of
             None \<Rightarrow> Inl OverflowError
           | Some w \<Rightarrow> Inr (z_utc z w)))"

section \<open>Specification\<close>

definition working_second :: "business_calendar \<Rightarrow> (int \<Rightarrow> bool) \<Rightarrow> int list \<Rightarrow> int \<Rightarrow> bool" where
  "working_second cal h a w =
     (working_day h a w \<and> combine (day_of w) (cal_workday_start cal) \<le> w \<and> w < combine (day_of w) (cal_workday_end cal))"

definition business_seconds :: "business_calendar \<Rightarrow> (int \<Rightarrow> bool) \<Rightarrow> int list \<Rightarrow> int \<Rightarrow> int \<Rightarrow> int" where
  "business_seconds cal h a v w = int (length (filter (working_second cal h a) [v..w - 1]))"

text \<open>A calendar whose working day begins and ends on whole minutes.\<close>

definition whole_minutes :: "business_calendar \<Rightarrow> bool" where
  "whole_minutes cal = (cal_workday_start cal mod 60 = 0 \<and> cal_workday_end cal mod 60 = 0)"

section \<open>Counting working seconds\<close>

lemma business_seconds_split:
  assumes "v \<le> m" "m \<le> w"
  shows "business_seconds cal h a v w = business_seconds cal h a v m + business_seconds cal h a m w"
proof (cases "m = w")
  case False
  with assms have "[v..w - 1] = [v..m - 1] @ [m..w - 1]" by (intro upto_split1) auto
  then show ?thesis by (simp add: business_seconds_def)
qed (simp add: business_seconds_def)

lemma business_seconds_none:
  "(\<And>x. v \<le> x \<Longrightarrow> x < w \<Longrightarrow> \<not> working_second cal h a x) \<Longrightarrow> business_seconds cal h a v w = 0"
  by (simp add: business_seconds_def filter_empty_conv)

lemma business_seconds_all:
  "v \<le> w \<Longrightarrow> (\<And>x. v \<le> x \<Longrightarrow> x < w \<Longrightarrow> working_second cal h a x) \<Longrightarrow> business_seconds cal h a v w = w - v"
  by (simp add: business_seconds_def)

lemma business_seconds_nonneg: "0 \<le> business_seconds cal h a v w"
  by (simp add: business_seconds_def)

lemma day_of_mono: "v \<le> w \<Longrightarrow> day_of v \<le> day_of w"
  by (simp add: day_of_def zdiv_mono1)

lemma day_of_between: "w \<le> x \<Longrightarrow> x < combine (day_of w) t \<Longrightarrow> day_of x = day_of w"
  using day_of_mono [of w x] day_of_mono [of x "combine (day_of w) t"] by simp

lemma combine_day: "combine (day_of w) 0 \<le> w \<and> w < combine (day_of w + 1) 0"
  by (simp add: combine_def day_of_def) presburger

lemma combine_bounds: "combine d 0 \<le> combine d t \<and> combine d t < combine (d + 1) 0"
  by (simp add: combine_def)

lemma less_next_combine: "w < combine (day_of w + 1) t"
  using combine_day [of w] combine_bounds [of "day_of w + 1" t] by linarith

lemma working_day_same: "day_of v = day_of w \<Longrightarrow> working_day h a v = working_day h a w"
  by (simp add: working_day_def weekday_def)

text \<open>Once the working day is over, or on a day off, nothing counts until the next working day begins.\<close>

lemma rest_of_day_off:
  assumes "\<not> working_day h a w \<or> combine (day_of w) (cal_workday_end cal) \<le> w"
    and "w \<le> x" "x < combine (day_of w + 1) (cal_workday_start cal)"
  shows "\<not> working_second cal h a x"
proof -
  have "day_of x \<le> day_of w + 1" using day_of_mono [of x] assms(3) by (metis day_of_combine order_less_imp_le)
  with day_of_mono [OF assms(2)] consider "day_of x = day_of w" | "day_of x = day_of w + 1" by linarith
  then show ?thesis
  proof cases
    case 1
    with assms show ?thesis by (auto simp: working_second_def working_day_same [of x w])
  next
    case 2
    with assms show ?thesis by (simp add: working_second_def)
  qed
qed

lemma next_working_instant_Some:
  "next_working_instant cal h a w = Some c \<Longrightarrow>
   w \<le> c \<and> business_seconds cal h a w c = 0 \<and> working_day h a c \<and> combine (day_of c) (cal_workday_start cal) \<le> c \<and>
   (c = w \<or> c = combine (day_of c) (cal_workday_start cal))"
proof (induction w rule: day_induct)
  case (1 w)
  show ?case
  proof (cases rule: next_working_instant_cases [where cal = cal and h = h and a = a and w = w])
    case today
    have "business_seconds cal h a w (combine (day_of w) (cal_workday_start cal)) = 0"
      by (rule business_seconds_none) (auto simp: working_second_def day_of_between [of w])
    moreover have "working_day h a (combine (day_of w) (cal_workday_start cal))"
      using today(2) by (simp add: working_day_def weekday_def)
    ultimately show ?thesis using today 1(2) by auto
  next
    case now
    with 1 show ?thesis by (auto simp: business_seconds_def)
  next
    case never
    with 1 show ?thesis by simp
  next
    case later
    let ?n = "combine (day_of w + 1) (cal_workday_start cal)"
    have n: "?n \<le> c \<and> business_seconds cal h a ?n c = 0 \<and> working_day h a c \<and>
        combine (day_of c) (cal_workday_start cal) \<le> c \<and> (c = ?n \<or> c = combine (day_of c) (cal_workday_start cal))"
      using 1(1) [of ?n] 1(2) later by simp
    have "business_seconds cal h a w ?n = 0" using rest_of_day_off [OF later(3)] by (intro business_seconds_none) blast
    with n show ?thesis using less_next_combine [of w "cal_workday_start cal"] business_seconds_split [of w ?n c cal h a] by auto
  qed
qed

lemma next_working_instant_None:
  "next_working_instant cal h a w = None \<Longrightarrow> business_seconds cal h a w (combine (MAX_DAY + 1) 0) = 0"
proof (induction w rule: day_induct)
  case (1 w)
  have off: "business_seconds cal h a w (combine (MAX_DAY + 1) 0) = 0"
    if "\<not> working_day h a w \<or> combine (day_of w) (cal_workday_end cal) \<le> w" "MAX_DAY \<le> day_of w"
  proof (rule business_seconds_none)
    fix x assume x: "w \<le> x" "x < combine (MAX_DAY + 1) 0"
    have "combine (MAX_DAY + 1) 0 \<le> combine (day_of w + 1) (cal_workday_start cal)"
      using that(2) combine_bounds [of "day_of w + 1" "cal_workday_start cal"] by (simp add: combine_def)
    then show "\<not> working_second cal h a x" using rest_of_day_off [OF that(1) x(1)] x(2) by linarith
  qed
  show ?case
  proof (cases rule: next_working_instant_cases [where cal = cal and h = h and a = a and w = w])
    case never
    then show ?thesis using off by blast
  next
    case later
    let ?n = "combine (day_of w + 1) (cal_workday_start cal)"
    have n: "business_seconds cal h a ?n (combine (MAX_DAY + 1) 0) = 0" using 1(1) [of ?n] 1(2) later by simp
    have "business_seconds cal h a w ?n = 0" using rest_of_day_off [OF later(3)] by (intro business_seconds_none) blast
    moreover have "?n \<le> combine (MAX_DAY + 1) 0"
      using later(2) combine_bounds [of "day_of w + 1" "cal_workday_start cal"] by (simp add: combine_def)
    ultimately show ?thesis
      using n less_next_combine [of w "cal_workday_start cal"] business_seconds_split [of w ?n "combine (MAX_DAY + 1) 0" cal h a]
      by simp
  qed (use 1 in auto)
qed

text \<open>What is left of a working day counts second by second.\<close>

lemma rest_of_day_counts:
  assumes "working_day h a c" "combine (day_of c) (cal_workday_start cal) \<le> c" "c \<le> w" "w \<le> combine (day_of c) (cal_workday_end cal)"
  shows "business_seconds cal h a c w = w - c"
proof (rule business_seconds_all)
  fix x assume x: "c \<le> x" "x < w"
  then have "day_of x = day_of c" using assms(4) by (intro day_of_between [of c x "cal_workday_end cal"]) auto
  with x assms show "working_second cal h a x" by (simp add: working_second_def working_day_same [of x c])
qed (use assms in simp)

lemma day_counts:
  assumes "working_day h a c" "combine (day_of c) (cal_workday_start cal) \<le> c"
  shows "business_seconds cal h a c (combine (day_of c + 1) (cal_workday_start cal)) =
    max 0 (combine (day_of c) (cal_workday_end cal) - c)"
proof (cases "c \<le> combine (day_of c) (cal_workday_end cal)")
  case True
  let ?f = "combine (day_of c) (cal_workday_end cal)" and ?n = "combine (day_of c + 1) (cal_workday_start cal)"
  have "business_seconds cal h a ?f ?n = 0"
    by (rule business_seconds_none, rule rest_of_day_off [of h a ?f cal]) simp_all
  moreover have "?f \<le> ?n" using combine_bounds [of "day_of c" "cal_workday_end cal"]
      combine_bounds [of "day_of c + 1" "cal_workday_start cal"] by linarith
  ultimately show ?thesis
    using True business_seconds_split [of c ?f ?n cal h a] rest_of_day_counts [OF assms True order.refl]
    by simp
next
  case False
  then show ?thesis using rest_of_day_off [of h a c cal] by (simp add: business_seconds_none)
qed

lemma combine_mod_60: "t mod 60 = 0 \<Longrightarrow> combine d t mod 60 = 0"
proof -
  assume "t mod 60 = 0"
  moreover have "t mod 86400 mod 60 = t mod 60" by (rule mod_mod_cancel) simp
  ultimately show ?thesis by (simp add: combine_def mod_add_eq [symmetric] mod_mult_eq [symmetric])
qed

lemma available_minutes_le: "60 * available_minutes cal c \<le> max 0 (combine (day_of c) (cal_workday_end cal) - c)"
proof -
  have "60 * (x div 60) \<le> x" for x :: int by simp
  then show ?thesis by (auto simp: available_minutes_def max_def)
qed

lemma available_minutes_exact:
  assumes "whole_minutes cal" "c mod 60 = 0"
  shows "60 * available_minutes cal c = max 0 (combine (day_of c) (cal_workday_end cal) - c)"
proof -
  have "(combine (day_of c) (cal_workday_end cal) - c) mod 60 = 0"
    using assms combine_mod_60 by (simp add: whole_minutes_def mod_diff_eq [symmetric])
  then have "60 * ((combine (day_of c) (cal_workday_end cal) - c) div 60) = combine (day_of c) (cal_workday_end cal) - c"
    using minus_mod_eq_mult_div [of "combine (day_of c) (cal_workday_end cal) - c" 60] by simp
  then show ?thesis by (auto simp: available_minutes_def max_def)
qed

lemma next_instant_mod_60:
  assumes "next_working_instant cal h a w = Some c" "whole_minutes cal" "w mod 60 = 0"
  shows "c mod 60 = 0 \<and> combine d (cal_workday_start cal) mod 60 = 0"
proof -
  have *: "combine e (cal_workday_start cal) mod 60 = 0" for e
    using assms(2) by (intro combine_mod_60) (simp add: whole_minutes_def)
  with next_working_instant_Some [OF assms(1)] assms(3) show ?thesis by metis
qed

section \<open>Correctness of the loop\<close>

lemma business_loop_Some:
  "business_loop cal h a n w = Some r \<Longrightarrow> 0 < n \<Longrightarrow>
   w \<le> r \<and> 60 * n \<le> business_seconds cal h a w r \<and> working_second cal h a (r - 1) \<and>
   (whole_minutes cal \<longrightarrow> w mod 60 = 0 \<longrightarrow> business_seconds cal h a w r = 60 * n)"
proof (induction w arbitrary: n rule: day_induct)
  case (1 w)
  then obtain c where c: "next_working_instant cal h a w = Some c"
    by (subst (asm) business_loop.simps) (auto split: option.splits if_splits)
  note nxt = next_working_instant_Some [OF c]
  show ?case
  proof (cases "available_minutes cal c \<ge> n")
    case True
    then have r: "r = c + n * 60" using 1(2,3) c by (simp add: business_loop.simps [of cal h a n w])
    have le: "r \<le> combine (day_of c) (cal_workday_end cal)"
      using True available_minutes_le [of cal c] 1(3) r by (auto simp: max_def split: if_splits)
    have "business_seconds cal h a c r = 60 * n" using nxt le r 1(3) by (subst rest_of_day_counts) auto
    moreover have "working_second cal h a (r - 1)"
    proof -
      have "day_of (r - 1) = day_of c"
        using le r 1(3) by (intro day_of_between [of c _ "cal_workday_end cal"]) auto
      with nxt le r 1(3) show ?thesis using working_day_same [of "r - 1" c h a] by (simp add: working_second_def)
    qed
    ultimately show ?thesis using nxt r 1(3) business_seconds_split [of w c r cal h a] by simp
  next
    case False
    let ?n = "combine (day_of c + 1) (cal_workday_start cal)" and ?m = "n - available_minutes cal c"
    have step: "\<not> MAX_DAY \<le> day_of c" "business_loop cal h a ?m ?n = Some r"
      using 1(2,3) False c by (auto simp: business_loop.simps [of cal h a n w] split: if_splits)
    have IH: "?n \<le> r \<and> 60 * ?m \<le> business_seconds cal h a ?n r \<and> working_second cal h a (r - 1) \<and>
        (whole_minutes cal \<longrightarrow> ?n mod 60 = 0 \<longrightarrow> business_seconds cal h a ?n r = 60 * ?m)"
      using step False next_working_instant_day [OF c] by (intro 1(1)) auto
    have cn: "c \<le> ?n" using less_next_combine [of c] by (simp add: less_imp_le)
    have cr: "business_seconds cal h a w r = max 0 (combine (day_of c) (cal_workday_end cal) - c) + business_seconds cal h a ?n r"
      using business_seconds_split [of w c r cal h a] business_seconds_split [of c ?n r cal h a] nxt IH cn
        day_counts [of h a c cal] by simp
    have "business_seconds cal h a w r = 60 * n" if "whole_minutes cal" "w mod 60 = 0"
    proof -
      have "c mod 60 = 0" "?n mod 60 = 0" using next_instant_mod_60 [OF c that] by auto
      with that IH cr show ?thesis using available_minutes_exact [of cal c] by simp
    qed
    then show ?thesis using IH cr cn nxt available_minutes_le [of cal c] by auto
  qed
qed

lemma business_loop_None:
  "business_loop cal h a n w = None \<Longrightarrow> whole_minutes cal \<Longrightarrow> w mod 60 = 0 \<Longrightarrow>
   0 < n \<and> business_seconds cal h a w (combine (MAX_DAY + 1) 0) < 60 * n"
proof (induction w arbitrary: n rule: day_induct)
  case (1 w)
  from 1(2) have n: "0 < n" by (simp add: business_loop.simps [of cal h a n w] split: if_splits)
  show ?case
  proof (cases "next_working_instant cal h a w")
    case None
    with n show ?thesis by (simp add: next_working_instant_None)
  next
    case (Some c)
    note nxt = next_working_instant_Some [OF Some]
    let ?n = "combine (day_of c + 1) (cal_workday_start cal)" and ?m = "n - available_minutes cal c"
    let ?e = "combine (MAX_DAY + 1) 0"
    have short: "available_minutes cal c < n" using 1(2) n Some by (simp add: business_loop.simps [of cal h a n w] split: if_splits)
    have m60: "c mod 60 = 0" "?n mod 60 = 0" using next_instant_mod_60 [OF Some 1(3,4)] by auto
    note avail = available_minutes_exact [OF 1(3) m60(1)]
    have cn: "c \<le> ?n" using less_next_combine [of c] by (simp add: less_imp_le)
    have day: "business_seconds cal h a w ?n = 60 * available_minutes cal c"
      using business_seconds_split [of w c ?n cal h a] nxt cn day_counts [of h a c cal] avail by simp
    show ?thesis
    proof (cases "MAX_DAY \<le> day_of c")
      case True
      have "?e \<le> ?n" using True combine_bounds [of "day_of c + 1" "cal_workday_start cal"] by (simp add: combine_def)
      then have "business_seconds cal h a w ?e \<le> business_seconds cal h a w ?n"
        by (cases "w \<le> ?e") (use business_seconds_split [of w ?e ?n cal h a] business_seconds_nonneg [of cal h a] in
          \<open>auto simp: business_seconds_def\<close>)
      with n day short show ?thesis by simp
    next
      case False
      then have "business_loop cal h a ?m ?n = None" using 1(2) n short Some by (simp add: business_loop.simps [of cal h a n w])
      then have "business_seconds cal h a ?n ?e < 60 * ?m"
        using 1(1) [of ?n ?m] False next_working_instant_day [OF Some] 1(3) m60 by simp
      moreover have "?n \<le> ?e" using False combine_bounds [of "day_of c + 1" "cal_workday_start cal"] by (simp add: combine_def)
      ultimately show ?thesis using n day cn nxt business_seconds_split [of w ?n ?e cal h a] by simp
    qed
  qed
qed


text \<open>The default week of an office in Tehran: half an hour before closing on a Wednesday, one hour of business
  time ends at half past nine on the next Saturday.\<close>

definition tehran :: zone where
  "tehran = \<lparr>z_local = (\<lambda>u. u + 12600), z_utc = (\<lambda>w. w - 12600)\<rparr>"

definition office :: "business_calendar row" where
  "office = \<lparr>row_pk = 1, created_at = 0, updated_at = 0, is_active = True,
     vals = \<lparr>cal_title = ''office'', cal_department = None, cal_timezone_name = ''Asia/Tehran'', cal_workday_start = 32400,
       cal_workday_end = 61200, cal_active_weekdays = [], cal_is_default = True\<rparr>\<rparr>"

lemma office_hour:
  "add_business_minutes (\<lambda>n. if n = ''Asia/Tehran'' then Some tehran else None) [] 565200 60 office = Inr 799200"
  by code_simp


end
