(* ===== verification/Support_Taxonomy.thy ===== *)
theory Support_Taxonomy
  imports Support_Calendar Unique_Slug
begin

text \<open>
  Departments and the category tree (\<^verbatim>\<open>src/apps/support_desk/services.py\<close>, \<^verbatim>\<open>models.py\<close>). A category row carries its
  path and its depth, computed from the parent row at every save; moving a category saves its descendants again. The
  guard against cycles compares paths. Python's recursion limit is a parameter. The object that a service of this theory gets is
  read at its start. That paths are unique follows from the uniqueness of slugs and is not checked again.
\<close>

section \<open>Environment and partial updates\<close>

text \<open>\<open>se_uuid\<close> and \<open>se_token_hex\<close> are the random texts of a call, \<open>se_zones\<close> the time zone database, \<open>se_local\<close> the conversion to
  the zone in which the database computes dates.\<close>

record sup_env =
  se_slugify :: "string \<Rightarrow> string"
  se_uuid :: string
  se_recursion_limit :: nat
  se_token_hex :: "nat \<Rightarrow> string"
  se_zones :: "string \<Rightarrow> zone option"
  se_local :: "int \<Rightarrow> int"
  se_format :: "string \<Rightarrow> json_obj \<Rightarrow> string"
  se_cfg :: ntf_settings

definition opt_set :: "'a option \<Rightarrow> 'a \<Rightarrow> 'a" where
  "opt_set p old = (case p of None \<Rightarrow> old | Some v \<Rightarrow> v)"

text \<open>Only fields whose value differs are saved, and \<open>updated_at\<close> is set only when there is one.\<close>

definition patch_row :: "int \<Rightarrow> ('v \<Rightarrow> 'v) \<Rightarrow> bool option \<Rightarrow> 'v row \<Rightarrow> 'v row" where
  "patch_row now f act r =
     (let r' = r\<lparr>is_active := opt_set act (is_active r), vals := f (vals r)\<rparr> in if r' = r then r else r'\<lparr>updated_at := now\<rparr>)"

definition patch_table :: "nat \<Rightarrow> int \<Rightarrow> ('v \<Rightarrow> 'v) \<Rightarrow> bool option \<Rightarrow> 'v table \<Rightarrow> 'v table" where
  "patch_table k now f act t = map (\<lambda>r. if row_pk r = k then patch_row now f act r else r) t"

text \<open>A unique column (or group of columns): no other row has the value.\<close>

definition taken_by_other :: "('v row \<Rightarrow> 'k) \<Rightarrow> 'k \<Rightarrow> nat \<Rightarrow> 'v table \<Rightarrow> bool" where
  "taken_by_other f x k t = list_ex (\<lambda>r. f r = x \<and> row_pk r \<noteq> k) t"

section \<open>Departments\<close>

definition create_department ::
  "sup_env \<Rightarrow> int \<Rightarrow> string \<Rightarrow> string \<Rightarrow> nat option \<Rightarrow> nat \<Rightarrow> (sup_db, department row) svc" where
  "create_department E now title description default_assignee order =
     atomic (
     bnd (gets departments) (\<lambda>t.
     seqn (check (\<not> list_ex (\<lambda>r. dep_title (vals r) = strip title) t) IntegrityError)
     (let d = new_row now \<lparr>dep_title = strip title,
            dep_slug = unique_slug (se_slugify E) (se_uuid E) (map (dep_slug \<circ> vals) t) 220 (strip title),
            dep_description = strip description, dep_default_assignee = default_assignee, dep_order = order\<rparr> t
      in seqn (modify (\<lambda>s. s\<lparr>departments := departments s @ [d]\<rparr>)) (ret d))))"

record department_patch =
  dpp_title :: "string option"
  dpp_description :: "string option"
  dpp_default_assignee :: "nat option option"
  dpp_order :: "nat option"
  dpp_is_active :: "bool option"

definition update_department :: "int \<Rightarrow> nat \<Rightarrow> department_patch \<Rightarrow> (sup_db, department row) svc" where
  "update_department now k p =
     atomic (
     bnd (follow departments k) (\<lambda>d.
     let title = opt_set (map_option strip (dpp_title p)) (dep_title (vals d)) in
     bnd (gets departments) (\<lambda>t.
     seqn (check (\<not> taken_by_other (dep_title \<circ> vals) title k t) IntegrityError)
     (seqn (modify (\<lambda>s. s\<lparr>departments := patch_table k now (\<lambda>v. v\<lparr>dep_title := title,
          dep_description := opt_set (map_option strip (dpp_description p)) (dep_description v),
          dep_default_assignee := opt_set (dpp_default_assignee p) (dep_default_assignee v),
          dep_order := opt_set (dpp_order p) (dep_order v)\<rparr>) (dpp_is_active p) (departments s)\<rparr>))
     (follow departments k)))))"

definition deactivate_department :: "int \<Rightarrow> nat \<Rightarrow> (sup_db, department row) svc" where
  "deactivate_department now k =
     atomic (
     bnd (gets (\<lambda>s. list_ex (\<lambda>r. tk_department (vals r) = k) (open_queue (objects (tickets s))))) (\<lambda>busy.
     seqn (check (\<not> busy) SupportDeskServiceError)
     (seqn (modify (\<lambda>s. s\<lparr>departments := tbl_set_active k now False (departments s)\<rparr>))
     (follow departments k))))"

section \<open>The category tree\<close>

definition rstrip_slash :: "string \<Rightarrow> string" where
  "rstrip_slash s = rev (dropWhile (\<lambda>c. c = CHR ''/'') (rev s))"

definition child_path :: "string \<Rightarrow> string \<Rightarrow> string" where
  "child_path parent_path slug = rstrip_slash parent_path @ CHR ''/'' # slug @ ''/''"

text \<open>\<open>SupportCategory.save\<close>: depth and path from the parent row in the database.\<close>

definition fill_path :: "category table \<Rightarrow> category \<Rightarrow> category" where
  "fill_path t v =
     (case cat_parent v of
        None \<Rightarrow> v\<lparr>cat_depth := 0, cat_path := CHR ''/'' # cat_slug v @ ''/''\<rparr>
      | Some p \<Rightarrow>
          (case tbl_all p t of
             None \<Rightarrow> v
           | Some q \<Rightarrow> v\<lparr>cat_depth := cat_depth (vals q) + 1, cat_path := child_path (cat_path (vals q)) (cat_slug v)\<rparr>))"

definition resave_path :: "int \<Rightarrow> nat \<Rightarrow> category table \<Rightarrow> category table" where
  "resave_path now k t = tbl_upd k now (fill_path t) t"

definition children :: "nat \<Rightarrow> category table \<Rightarrow> category table" where
  "children k t = sort_key (\<lambda>r. (cat_order (vals r), cat_title (vals r))) (filter (\<lambda>r. cat_parent (vals r) = Some k) t)"

fun fold_opt :: "('b \<Rightarrow> 'a \<Rightarrow> 'a option) \<Rightarrow> 'b list \<Rightarrow> 'a \<Rightarrow> 'a option" where
  "fold_opt f [] t = Some t"
| "fold_opt f (x # xs) t = (case f x t of None \<Rightarrow> None | Some u \<Rightarrow> fold_opt f xs u)"

text \<open>\<open>_refresh_descendant_paths\<close>; \<open>None\<close> is a \<open>RecursionError\<close> after \<open>n\<close> nested calls.\<close>

primrec refresh_descendant_paths :: "nat \<Rightarrow> int \<Rightarrow> nat \<Rightarrow> category table \<Rightarrow> category table option" where
  "refresh_descendant_paths 0 now k t = None"
| "refresh_descendant_paths (Suc n) now k t =
     fold_opt (\<lambda>c u. refresh_descendant_paths n now (row_pk c) (resave_path now (row_pk c) u)) (children k t) t"

definition assert_valid_category_parent ::
  "category row option \<Rightarrow> category row option \<Rightarrow> nat \<Rightarrow> (sup_db, unit) svc" where
  "assert_valid_category_parent category parent department =
     (case parent of
        None \<Rightarrow> ret ()
      | Some p \<Rightarrow>
          seqn (check (cat_department (vals p) = department) SupportTaxonomyTreeError)
          (case category of
             None \<Rightarrow> ret ()
           | Some c \<Rightarrow>
               seqn (check (row_pk p \<noteq> row_pk c) SupportTaxonomyTreeError)
               (check (\<not> has_prefix (cat_path (vals c)) (cat_path (vals p))) SupportTaxonomyTreeError)))"

definition follow_opt :: "('s \<Rightarrow> 'v table) \<Rightarrow> nat option \<Rightarrow> ('s, 'v row option) svc" where
  "follow_opt tab k = (case k of None \<Rightarrow> ret None | Some j \<Rightarrow> bnd (follow tab j) (\<lambda>r. ret (Some r)))"

text \<open>The unique constraints on (parent, department, title), for roots on (department, title).\<close>

definition category_key :: "category row \<Rightarrow> nat option \<times> nat \<times> string" where
  "category_key r = (cat_parent (vals r), cat_department (vals r), cat_title (vals r))"

definition create_category ::
  "sup_env \<Rightarrow> int \<Rightarrow> nat \<Rightarrow> string \<Rightarrow> nat option \<Rightarrow> string \<Rightarrow> string \<Rightarrow> nat \<Rightarrow> (sup_db, category row) svc" where
  "create_category E now department title parent description icon order =
     atomic (
     bnd (follow departments department) (\<lambda>_.
     bnd (follow_opt categories parent) (\<lambda>p.
     seqn (assert_valid_category_parent None p department)
     (bnd (gets categories) (\<lambda>t.
      seqn (check (\<not> list_ex (\<lambda>r. category_key r = (parent, department, strip title)) t) IntegrityError)
      (let c = new_row now (fill_path t \<lparr>cat_parent = parent, cat_department = department, cat_title = strip title,
             cat_slug = unique_slug (se_slugify E) (se_uuid E) (map (cat_slug \<circ> vals) t) 220 (strip title),
             cat_path = [], cat_depth = 0, cat_description = strip description, cat_icon = strip icon, cat_order = order,
             cat_tickets_count = 0, cat_open_tickets_count = 0\<rparr>) t
       in seqn (modify (\<lambda>s. s\<lparr>categories := categories s @ [c]\<rparr>)) (ret c)))))))"

record category_patch =
  ctp_department :: "nat option"
  ctp_parent :: "nat option option"
  ctp_title :: "string option"
  ctp_description :: "string option"
  ctp_icon :: "string option"
  ctp_order :: "nat option"
  ctp_is_active :: "bool option"

definition apply_category_patch :: "category_patch \<Rightarrow> category \<Rightarrow> category" where
  "apply_category_patch p v =
     v\<lparr>cat_department := opt_set (ctp_department p) (cat_department v), cat_parent := opt_set (ctp_parent p) (cat_parent v),
       cat_title := opt_set (map_option strip (ctp_title p)) (cat_title v),
       cat_description := opt_set (map_option strip (ctp_description p)) (cat_description v),
       cat_icon := opt_set (map_option strip (ctp_icon p)) (cat_icon v), cat_order := opt_set (ctp_order p) (cat_order v)\<rparr>"

definition update_category :: "sup_env \<Rightarrow> int \<Rightarrow> nat \<Rightarrow> category_patch \<Rightarrow> (sup_db, category row) svc" where
  "update_category E now k p =
     atomic (
     bnd (follow categories k) (\<lambda>c.
     let v = apply_category_patch p (vals c) in
     bnd (follow_opt categories (cat_parent v)) (\<lambda>parent.
     bnd (follow departments (cat_department v)) (\<lambda>_.
     seqn (assert_valid_category_parent (Some c) parent (cat_department v))
     (if v = vals c \<and> opt_set (ctp_is_active p) (is_active c) = is_active c then ret c
      else
       bnd (gets categories) (\<lambda>t.
       seqn (check (\<not> taken_by_other category_key (cat_parent v, cat_department v, cat_title v) k t) IntegrityError)
       (case refresh_descendant_paths (se_recursion_limit E) now k
               (patch_table k now (\<lambda>_. fill_path t v) (ctp_is_active p) t) of
          None \<Rightarrow> raise RecursionError
        | Some t' \<Rightarrow> seqn (modify (\<lambda>s. s\<lparr>categories := t'\<rparr>)) (follow categories k))))))))"

definition deactivate_category :: "int \<Rightarrow> nat \<Rightarrow> (sup_db, category row) svc" where
  "deactivate_category now k =
     atomic (
     bnd (gets (\<lambda>s. list_ex (\<lambda>r. cat_parent (vals r) = Some k \<and> is_active r) (categories s))) (\<lambda>parent_of_active.
     seqn (check (\<not> parent_of_active) SupportTaxonomyTreeError)
     (bnd (gets (\<lambda>s. list_ex (\<lambda>r. tk_category (vals r) = k) (open_queue (objects (tickets s))))) (\<lambda>busy.
      seqn (check (\<not> busy) SupportTaxonomyTreeError)
      (seqn (modify (\<lambda>s. s\<lparr>categories := tbl_set_active k now False (categories s)\<rparr>))
      (follow categories k))))))"

end
