(* ===== verification/Support_Config.thy ===== *)
theory Support_Config
  imports Support_Taxonomy
begin

text \<open>
  The configuration of the desk (\<^verbatim>\<open>src/apps/support_desk/services.py\<close>): business calendars and holidays, service level
  policies and their resolution for a ticket, ticket types. A keyword argument that a caller leaves out is \<open>None\<close>.
\<close>

section \<open>Calendars and holidays\<close>

text \<open>\<open>SupportBusinessCalendar.save\<close> replaces an empty list of weekdays.\<close>

definition default_weekdays :: "int list \<Rightarrow> int list" where
  "default_weekdays ds = (if ds = [] then [5, 6, 0, 1, 2] else ds)"

definition create_business_calendar ::
  "int \<Rightarrow> string \<Rightarrow> nat option \<Rightarrow> string \<Rightarrow> int option \<Rightarrow> int option \<Rightarrow> int list option \<Rightarrow> bool \<Rightarrow>
   (sup_db, business_calendar row) svc" where
  "create_business_calendar now title department timezone_name workday_start workday_end active_weekdays is_default =
     atomic (
     bnd (gets (\<lambda>s. new_row now \<lparr>cal_title = strip title, cal_department = department, cal_timezone_name = timezone_name,
       cal_workday_start = opt_set workday_start 32400, cal_workday_end = opt_set workday_end 61200,
       cal_active_weekdays = default_weekdays (opt_set active_weekdays []), cal_is_default = is_default\<rparr> (calendars s))) (\<lambda>c.
     seqn (modify (\<lambda>s. s\<lparr>calendars := calendars s @ [c]\<rparr>)) (ret c)))"

record calendar_patch =
  clp_title :: "string option"
  clp_department :: "nat option option"
  clp_timezone_name :: "string option"
  clp_workday_start :: "int option"
  clp_workday_end :: "int option"
  clp_active_weekdays :: "int list option"
  clp_is_default :: "bool option"
  clp_is_active :: "bool option"

text \<open>An empty list of weekdays is a change to be saved; the hook of \<open>save\<close> then replaces it.\<close>

definition apply_calendar_patch :: "calendar_patch \<Rightarrow> business_calendar \<Rightarrow> business_calendar" where
  "apply_calendar_patch p v =
     v\<lparr>cal_title := opt_set (map_option strip (clp_title p)) (cal_title v),
       cal_department := opt_set (clp_department p) (cal_department v),
       cal_timezone_name := opt_set (map_option strip (clp_timezone_name p)) (cal_timezone_name v),
       cal_workday_start := opt_set (clp_workday_start p) (cal_workday_start v),
       cal_workday_end := opt_set (clp_workday_end p) (cal_workday_end v),
       cal_active_weekdays := opt_set (clp_active_weekdays p) (cal_active_weekdays v),
       cal_is_default := opt_set (clp_is_default p) (cal_is_default v)\<rparr>"

definition update_business_calendar :: "int \<Rightarrow> nat \<Rightarrow> calendar_patch \<Rightarrow> (sup_db, business_calendar row) svc" where
  "update_business_calendar now k p =
     atomic (
     bnd (follow calendars k) (\<lambda>c.
     let v = apply_calendar_patch p (vals c) in
     if v = vals c \<and> opt_set (clp_is_active p) (is_active c) = is_active c then ret c
     else
      seqn (modify (\<lambda>s. s\<lparr>calendars := map (\<lambda>r. if row_pk r = k
          then r\<lparr>updated_at := now, is_active := opt_set (clp_is_active p) (is_active r),
                 vals := v\<lparr>cal_active_weekdays := default_weekdays (cal_active_weekdays v)\<rparr>\<rparr>
          else r) (calendars s)\<rparr>))
      (follow calendars k)))"

definition holiday_key :: "holiday row \<Rightarrow> nat \<times> int" where
  "holiday_key r = (hol_calendar (vals r), hol_date (vals r))"

definition create_holiday :: "int \<Rightarrow> nat \<Rightarrow> int \<Rightarrow> string \<Rightarrow> (sup_db, holiday row) svc" where
  "create_holiday now calendar date title =
     atomic (
     bnd (gets holidays) (\<lambda>t.
     seqn (check (\<not> list_ex (\<lambda>r. holiday_key r = (calendar, date)) t) IntegrityError)
     (let h = new_row now \<lparr>hol_calendar = calendar, hol_date = date, hol_title = strip title\<rparr> t
      in seqn (modify (\<lambda>s. s\<lparr>holidays := holidays s @ [h]\<rparr>)) (ret h))))"

record holiday_patch =
  hlp_calendar :: "nat option"
  hlp_date :: "int option"
  hlp_title :: "string option"
  hlp_is_active :: "bool option"

definition update_holiday :: "int \<Rightarrow> nat \<Rightarrow> holiday_patch \<Rightarrow> (sup_db, holiday row) svc" where
  "update_holiday now k p =
     atomic (
     bnd (follow holidays k) (\<lambda>h.
     let calendar = opt_set (hlp_calendar p) (hol_calendar (vals h)); date = opt_set (hlp_date p) (hol_date (vals h)) in
     bnd (gets holidays) (\<lambda>t.
     seqn (check (\<not> taken_by_other holiday_key (calendar, date) k t) IntegrityError)
     (seqn (modify (\<lambda>s. s\<lparr>holidays := patch_table k now (\<lambda>v. v\<lparr>hol_calendar := calendar, hol_date := date,
          hol_title := opt_set (map_option strip (hlp_title p)) (hol_title v)\<rparr>) (hlp_is_active p) (holidays s)\<rparr>))
     (follow holidays k)))))"

section \<open>Service level policies\<close>

definition create_sla_policy ::
  "sup_env \<Rightarrow> int \<Rightarrow> string \<Rightarrow> nat option \<Rightarrow> ticket_priority \<Rightarrow> ticket_severity \<Rightarrow> nat \<Rightarrow> nat \<Rightarrow> bool \<Rightarrow> bool \<Rightarrow> bool \<Rightarrow> nat \<Rightarrow>
   (sup_db, sla_policy row) svc" where
  "create_sla_policy E now title department priority severity first_response_minutes resolution_minutes business_hours_only
       pause_when_waiting_for_user escalate_on_breach order =
     atomic (
     bnd (gets sla_policies) (\<lambda>t.
     seqn (check (\<not> list_ex (\<lambda>r. pol_title (vals r) = strip title) t) IntegrityError)
     (let p = new_row now \<lparr>pol_title = strip title,
            pol_slug = unique_slug (se_slugify E) (se_uuid E) (map (pol_slug \<circ> vals) t) 220 (strip title),
            pol_department = department, pol_priority = priority, pol_severity = severity,
            pol_first_response_minutes = first_response_minutes, pol_resolution_minutes = resolution_minutes,
            pol_business_hours_only = business_hours_only, pol_pause_when_waiting_for_user = pause_when_waiting_for_user,
            pol_escalate_on_breach = escalate_on_breach, pol_order = order\<rparr> t
      in seqn (modify (\<lambda>s. s\<lparr>sla_policies := sla_policies s @ [p]\<rparr>)) (ret p))))"

record policy_patch =
  plp_title :: "string option"
  plp_department :: "nat option option"
  plp_priority :: "ticket_priority option"
  plp_severity :: "ticket_severity option"
  plp_first_response_minutes :: "nat option"
  plp_resolution_minutes :: "nat option"
  plp_business_hours_only :: "bool option"
  plp_pause_when_waiting_for_user :: "bool option"
  plp_escalate_on_breach :: "bool option"
  plp_order :: "nat option"
  plp_is_active :: "bool option"

definition update_sla_policy :: "int \<Rightarrow> nat \<Rightarrow> policy_patch \<Rightarrow> (sup_db, sla_policy row) svc" where
  "update_sla_policy now k p =
     atomic (
     bnd (follow sla_policies k) (\<lambda>r.
     let title = opt_set (map_option strip (plp_title p)) (pol_title (vals r)) in
     bnd (gets sla_policies) (\<lambda>t.
     seqn (check (\<not> taken_by_other (pol_title \<circ> vals) title k t) IntegrityError)
     (seqn (modify (\<lambda>s. s\<lparr>sla_policies := patch_table k now (\<lambda>v. v\<lparr>pol_title := title,
          pol_department := opt_set (plp_department p) (pol_department v),
          pol_priority := opt_set (plp_priority p) (pol_priority v), pol_severity := opt_set (plp_severity p) (pol_severity v),
          pol_first_response_minutes := opt_set (plp_first_response_minutes p) (pol_first_response_minutes v),
          pol_resolution_minutes := opt_set (plp_resolution_minutes p) (pol_resolution_minutes v),
          pol_business_hours_only := opt_set (plp_business_hours_only p) (pol_business_hours_only v),
          pol_pause_when_waiting_for_user := opt_set (plp_pause_when_waiting_for_user p) (pol_pause_when_waiting_for_user v),
          pol_escalate_on_breach := opt_set (plp_escalate_on_breach p) (pol_escalate_on_breach v),
          pol_order := opt_set (plp_order p) (pol_order v)\<rparr>) (plp_is_active p) (sla_policies s)\<rparr>))
     (follow sla_policies k)))))"

text \<open>\<open>order_by("order", "title").first()\<close>\<close>

definition first_policy :: "sla_policy table \<Rightarrow> sla_policy row option" where
  "first_policy t = first_by (\<lambda>r. (pol_order (vals r), pol_title (vals r))) t"

definition resolve_sla_policy ::
  "sla_policy table \<Rightarrow> nat option \<Rightarrow> ticket_type option \<Rightarrow> ticket_priority \<Rightarrow> ticket_severity \<Rightarrow> sla_policy row option" where
  "resolve_sla_policy t department ticket_type priority severity =
     (case (case ticket_type of None \<Rightarrow> None | Some ty \<Rightarrow> tt_default_sla_policy ty) of
        Some k \<Rightarrow> tbl_all k t
      | None \<Rightarrow>
         (let candidates = filter (\<lambda>r. pol_priority (vals r) = priority \<and> pol_severity (vals r) = severity) (objects t)
          in case (case department of None \<Rightarrow> None
                   | Some d \<Rightarrow> first_policy (filter (\<lambda>r. pol_department (vals r) = Some d) candidates)) of
               Some r \<Rightarrow> Some r
             | None \<Rightarrow>
                (case first_policy (filter (\<lambda>r. pol_department (vals r) = None) candidates) of
                   Some r \<Rightarrow> Some r
                 | None \<Rightarrow> first_policy (objects t))))"

text \<open>\<open>order_by("-is_default", "title").first()\<close>: default calendars first.\<close>

definition first_calendar :: "business_calendar table \<Rightarrow> business_calendar row option" where
  "first_calendar t = first_by (\<lambda>r. (\<not> cal_is_default (vals r), cal_title (vals r))) t"

definition get_business_calendar_for_department :: "business_calendar table \<Rightarrow> nat option \<Rightarrow> business_calendar row option" where
  "get_business_calendar_for_department t department =
     (case (case department of None \<Rightarrow> None
            | Some d \<Rightarrow> first_calendar (filter (\<lambda>r. cal_department (vals r) = Some d) (objects t))) of
        Some c \<Rightarrow> Some c
      | None \<Rightarrow> first_calendar (filter (\<lambda>r. cal_department (vals r) = None) (objects t)))"

section \<open>Ticket types\<close>

text \<open>The default category must belong to the default department when both are given.\<close>

definition check_category_department :: "nat option \<Rightarrow> nat option \<Rightarrow> (sup_db, unit) svc" where
  "check_category_department category department =
     (case (category, department) of
        (Some c, Some d) \<Rightarrow> bnd (follow categories c) (\<lambda>r. check (cat_department (vals r) = d) SupportDeskServiceError)
      | _ \<Rightarrow> ret ())"

definition create_ticket_type ::
  "int \<Rightarrow> string \<Rightarrow> string \<Rightarrow> string \<Rightarrow> nat option \<Rightarrow> nat option \<Rightarrow> ticket_priority \<Rightarrow> ticket_severity \<Rightarrow> nat option \<Rightarrow> nat \<Rightarrow>
   (sup_db, ticket_type row) svc" where
  "create_ticket_type now code title description default_department default_category default_priority default_severity
       default_sla_policy order =
     atomic (
     seqn (check_category_department default_category default_department)
     (bnd (gets ticket_types) (\<lambda>t.
      seqn (check (\<not> list_ex (\<lambda>r. tt_code (vals r) = strip code \<or> tt_title (vals r) = strip title) t) IntegrityError)
      (let y = new_row now \<lparr>tt_code = strip code, tt_title = strip title, tt_description = strip description,
             tt_default_department = default_department, tt_default_category = default_category,
             tt_default_priority = default_priority, tt_default_severity = default_severity,
             tt_default_sla_policy = default_sla_policy, tt_order = order\<rparr> t
       in seqn (modify (\<lambda>s. s\<lparr>ticket_types := ticket_types s @ [y]\<rparr>)) (ret y)))))"

record ticket_type_patch =
  ttp_code :: "string option"
  ttp_title :: "string option"
  ttp_description :: "string option"
  ttp_default_department :: "nat option option"
  ttp_default_category :: "nat option option"
  ttp_default_priority :: "ticket_priority option"
  ttp_default_severity :: "ticket_severity option"
  ttp_default_sla_policy :: "nat option option"
  ttp_order :: "nat option"
  ttp_is_active :: "bool option"

definition apply_type_patch :: "ticket_type_patch \<Rightarrow> ticket_type \<Rightarrow> ticket_type" where
  "apply_type_patch p v =
     v\<lparr>tt_code := opt_set (map_option strip (ttp_code p)) (tt_code v), tt_title := opt_set (map_option strip (ttp_title p)) (tt_title v),
       tt_description := opt_set (map_option strip (ttp_description p)) (tt_description v),
       tt_default_department := opt_set (ttp_default_department p) (tt_default_department v),
       tt_default_category := opt_set (ttp_default_category p) (tt_default_category v),
       tt_default_priority := opt_set (ttp_default_priority p) (tt_default_priority v),
       tt_default_severity := opt_set (ttp_default_severity p) (tt_default_severity v),
       tt_default_sla_policy := opt_set (ttp_default_sla_policy p) (tt_default_sla_policy v),
       tt_order := opt_set (ttp_order p) (tt_order v)\<rparr>"

definition update_ticket_type :: "int \<Rightarrow> nat \<Rightarrow> ticket_type_patch \<Rightarrow> (sup_db, ticket_type row) svc" where
  "update_ticket_type now k p =
     atomic (
     bnd (follow ticket_types k) (\<lambda>r.
     let v = apply_type_patch p (vals r) in
     seqn (check_category_department (tt_default_category v) (tt_default_department v))
     (bnd (gets ticket_types) (\<lambda>t.
      seqn (check (\<not> taken_by_other (tt_code \<circ> vals) (tt_code v) k t \<and> \<not> taken_by_other (tt_title \<circ> vals) (tt_title v) k t) IntegrityError)
      (seqn (modify (\<lambda>s. s\<lparr>ticket_types := patch_table k now (apply_type_patch p) (ttp_is_active p) (ticket_types s)\<rparr>))
      (follow ticket_types k))))))"

section \<open>Resolution of a policy\<close>

lemma first_policy_Some: "first_policy t = Some r \<Longrightarrow> r \<in> set t"
  by (auto simp: first_policy_def dest: first_by_Some)

text \<open>Without a default of the ticket type, a resolved policy is an active one.\<close>

lemma resolve_sla_policy_active:
  assumes "(case ty of None \<Rightarrow> None | Some y \<Rightarrow> tt_default_sla_policy y) = None" "resolve_sla_policy t d ty p v = Some r"
  shows "r \<in> set t \<and> is_active r"
proof -
  have sub: "q \<in> set t \<and> is_active q" if "first_policy u = Some q" "set u \<subseteq> set (objects t)" for u q
    using first_policy_Some [OF that(1)] that(2) by (auto simp: objects_def)
  let ?c = "filter (\<lambda>r. pol_priority (vals r) = p \<and> pol_severity (vals r) = v) (objects t)"
  consider x where "first_policy (filter (\<lambda>r. pol_department (vals r) = Some x) ?c) = Some r"
    | "first_policy (filter (\<lambda>r. pol_department (vals r) = None) ?c) = Some r" | "first_policy (objects t) = Some r"
    using assms(2) unfolding resolve_sla_policy_def assms(1) option.case Let_def by (auto split: option.splits)
  then show ?thesis by cases (erule sub, fastforce)+
qed

end
