(* ===== verification/Support_Text.thy ===== *)
theory Support_Text
  imports Support_Types
begin

text \<open>
  Text of tickets (\<^verbatim>\<open>src/apps/support_desk/models.py\<close>: \<open>_normalize_text\<close>, \<^verbatim>\<open>services.py\<close>: \<open>_tokenize\<close>, \<open>_similarity_score\<close>).
  Strings are the bytes of their UTF-8 encoding, so the Persian letters of the source stand as byte sequences; the
  order of byte strings is the order of code points. Case and white space are those of ASCII. The
  ratio of a score is computed in double precision, as Python does.
\<close>

section \<open>Normalisation\<close>

fun replace_all :: "string \<Rightarrow> string \<Rightarrow> nat \<Rightarrow> string \<Rightarrow> string" where
  "replace_all source target skip [] = []"
| "replace_all source target skip (c # cs) =
     (if skip > 0 then replace_all source target (skip - 1) cs
      else if source \<noteq> [] \<and> has_prefix source (c # cs) then target @ replace_all source target (length source - 1) cs
      else c # replace_all source target 0 cs)"

definition replacements :: "(string \<times> string) list" where
  "replacements =
     [([CHR 0xD9, CHR 0x8A], [CHR 0xDB, CHR 0x8C]),
      ([CHR 0xD9, CHR 0x83], [CHR 0xDA, CHR 0xA9]),
      ([CHR 0xDB, CHR 0x80], [CHR 0xD9, CHR 0x87]),
      ([CHR 0xD8, CHR 0xA9], [CHR 0xD9, CHR 0x87]),
      ([CHR 0xD8, CHR 0xA2], [CHR 0xD8, CHR 0xA7]),
      ([CHR 0xD8, CHR 0xA3], [CHR 0xD8, CHR 0xA7]),
      ([CHR 0xD8, CHR 0xA5], [CHR 0xD8, CHR 0xA7]),
      ([CHR 0xE2, CHR 0x80, CHR 0x8C], [CHR 0x20])]"

text \<open>\<open>s.split()\<close>: the maximal runs of characters that are not white space.\<close>

fun split_ws :: "string \<Rightarrow> string \<Rightarrow> string list" where
  "split_ws acc [] = (if acc = [] then [] else [rev acc])"
| "split_ws acc (c # cs) =
     (if is_space c then (if acc = [] then split_ws [] cs else rev acc # split_ws [] cs) else split_ws (c # acc) cs)"

fun join_ws :: "string list \<Rightarrow> string" where
  "join_ws [] = []"
| "join_ws [w] = w"
| "join_ws (w # ws) = w @ CHR '' '' # join_ws ws"

definition normalize_text :: "string \<Rightarrow> string" where
  "normalize_text value =
     join_ws (split_ws [] (fold (\<lambda>(source, target) v. replace_all source target 0 v) replacements (lower (strip value))))"

section \<open>Tokens\<close>

definition stopwords :: "string list" where
  "stopwords =
     [[CHR 0xD8, CHR 0xA7, CHR 0xD8, CHR 0xB2],
      [CHR 0xD8, CHR 0xA8, CHR 0xD9, CHR 0x87],
      [CHR 0xD8, CHR 0xAF, CHR 0xD8, CHR 0xB1],
      [CHR 0xD9, CHR 0x88],
      [CHR 0xDB, CHR 0x8C, CHR 0xD8, CHR 0xA7],
      [CHR 0xD8, CHR 0xA8, CHR 0xD8, CHR 0xB1, CHR 0xD8, CHR 0xA7, CHR 0xDB, CHR 0x8C],
      [CHR 0xD8, CHR 0xA8, CHR 0xD8, CHR 0xA7],
      [CHR 0xDA, CHR 0xA9, CHR 0xD9, CHR 0x87],
      [CHR 0xD8, CHR 0xA7, CHR 0xDB, CHR 0x8C, CHR 0xD9, CHR 0x86],
      [CHR 0xD8, CHR 0xA2, CHR 0xD9, CHR 0x86],
      [CHR 0xD9, CHR 0x85, CHR 0xD9, CHR 0x86],
      [CHR 0xD9, CHR 0x85, CHR 0xD8, CHR 0xA7],
      [CHR 0xD9, CHR 0x85, CHR 0xD8, CHR 0xB4, CHR 0xDA, CHR 0xA9, CHR 0xD9, CHR 0x84],
      [CHR 0xD8, CHR 0xB3, CHR 0xD9, CHR 0x88, CHR 0xD8, CHR 0xA7, CHR 0xD9, CHR 0x84],
      [CHR 0xD8, CHR 0xAA, CHR 0xDB, CHR 0x8C, CHR 0xDA, CHR 0xA9, CHR 0xD8, CHR 0xAA]]"

text \<open>A set of tokens is its sorted list.\<close>

definition tokenize :: "string \<Rightarrow> string list" where
  "tokenize value = sort (remdups (filter (\<lambda>w. w \<noteq> [] \<and> w \<notin> set stopwords) (split_ws [] (normalize_text value))))"

definition round_half_even :: "nat \<Rightarrow> nat \<Rightarrow> nat" where
  "round_half_even a b =
     (let q = a div b; r = a mod b in if 2 * r < b then q else if 2 * r > b then q + 1 else if even q then q else q + 1)"

text \<open>
  A quotient \<open>p / q\<close> below \<open>2 ^ 53\<close> as a floating-point number \<open>m / 2 ^ k\<close>: the dividend is doubled until the
  quotient has 53 bits, and rounded to the nearest integer, ties to even.
\<close>

function double_scale :: "nat \<Rightarrow> nat \<Rightarrow> nat \<Rightarrow> nat \<times> nat" where
  "double_scale p q k = (if p = 0 \<or> q * 2 ^ 52 \<le> p then (p, k) else double_scale (2 * p) q (Suc k))"
  by pat_completeness auto
termination by (relation "measure (\<lambda>(p, q, k). q * 2 ^ 52 - p)") auto

declare double_scale.simps [simp del]

definition double_quotient :: "nat \<Rightarrow> nat \<Rightarrow> nat \<times> nat" where
  "double_quotient p q = (let (p', k) = double_scale p q 0 in (round_half_even p' q, k))"

definition score_of_ratio :: "nat \<Rightarrow> nat \<Rightarrow> nat \<Rightarrow> nat" where
  "score_of_ratio a b max_points =
     (let (m, k) = double_quotient a b; (n, j) = double_quotient (m * max_points) (2 ^ k) in round_half_even n (2 ^ j))"

definition similarity_score :: "string \<Rightarrow> string \<Rightarrow> nat \<Rightarrow> nat" where
  "similarity_score left right max_points =
     (let l = tokenize left; r = tokenize right
      in if l = [] \<or> r = [] then 0
         else score_of_ratio (length (filter (\<lambda>w. w \<in> set r) l)) (length (remdups (l @ r))) max_points)"

definition contains_text :: "string \<Rightarrow> string \<Rightarrow> bool" where
  "contains_text word text = list_ex (\<lambda>i. has_prefix word (drop i text)) [0..<Suc (length text)]"

text \<open>The keywords of the triage, by ticket type.\<close>

definition triage_keywords :: "(string \<times> string list) list" where
  "triage_keywords =
     [(''payment'', [[CHR 0xD9, CHR 0xBE, CHR 0xD8, CHR 0xB1, CHR 0xD8, CHR 0xAF, CHR 0xD8, CHR 0xA7, CHR 0xD8, CHR 0xAE, CHR 0xD8, CHR 0xAA],
        [CHR 0xD8, CHR 0xB1, CHR 0xD8, CHR 0xB3, CHR 0xDB, CHR 0x8C, CHR 0xD8, CHR 0xAF],
        [CHR 0xD9, CHR 0x85, CHR 0xD8, CHR 0xA8, CHR 0xD9, CHR 0x84, CHR 0xD8, CHR 0xBA],
        [CHR 0xD8, CHR 0xAA, CHR 0xD8, CHR 0xB1, CHR 0xD8, CHR 0xA7, CHR 0xDA, CHR 0xA9, CHR 0xD9, CHR 0x86, CHR 0xD8, CHR 0xB4],
        [CHR 0xD9, CHR 0x85, CHR 0xD8, CHR 0xA7, CHR 0xD9, CHR 0x84, CHR 0xDB, CHR 0x8C]]),
      (''technical_issue'', [[CHR 0xD8, CHR 0xAE, CHR 0xD8, CHR 0xB7, CHR 0xD8, CHR 0xA7],
        [CHR 0xDA, CHR 0xA9, CHR 0xD9, CHR 0x86, CHR 0xD8, CHR 0xAF, CHR 0xDB, CHR 0x8C],
        [CHR 0xD8, CHR 0xA2, CHR 0xD9, CHR 0xBE, CHR 0xD9, CHR 0x84, CHR 0xD9, CHR 0x88, CHR 0xD8, CHR 0xAF],
        [CHR 0xD9, CHR 0x86, CHR 0xD9, CHR 0x85, CHR 0xD8, CHR 0xA7, CHR 0xDB, CHR 0x8C, CHR 0xD8, CHR 0xB4],
        [CHR 0xD9, CHR 0x81, CHR 0xD9, CHR 0x86, CHR 0xDB, CHR 0x8C],
        ''api'']),
      (''account'', [[CHR 0xD9, CHR 0x88, CHR 0xD8, CHR 0xB1, CHR 0xD9, CHR 0x88, CHR 0xD8, CHR 0xAF],
        [CHR 0xD8, CHR 0xB1, CHR 0xD9, CHR 0x85, CHR 0xD8, CHR 0xB2],
        ''otp'',
        [CHR 0xD9, CHR 0x85, CHR 0xD9, CHR 0x88, CHR 0xD8, CHR 0xA8, CHR 0xD8, CHR 0xA7, CHR 0xDB, CHR 0x8C, CHR 0xD9, CHR 0x84],
        [CHR 0xD9, CHR 0xBE, CHR 0xD8, CHR 0xB1, CHR 0xD9, CHR 0x88, CHR 0xD9, CHR 0x81, CHR 0xD8, CHR 0xA7, CHR 0xDB, CHR 0x8C, CHR 0xD9, CHR 0x84],
        [CHR 0xD8, CHR 0xA7, CHR 0xD8, CHR 0xAD, CHR 0xD8, CHR 0xB1, CHR 0xD8, CHR 0xA7, CHR 0xD8, CHR 0xB2]]),
      (''security'', [[CHR 0xD8, CHR 0xA7, CHR 0xD9, CHR 0x85, CHR 0xD9, CHR 0x86, CHR 0xDB, CHR 0x8C, CHR 0xD8, CHR 0xAA],
        [CHR 0xD9, CHR 0x87, CHR 0xDA, CHR 0xA9],
        [CHR 0xD8, CHR 0xA2, CHR 0xD8, CHR 0xB3, CHR 0xDB, CHR 0x8C, CHR 0xD8, CHR 0xA8],
        [CHR 0xD8, CHR 0xAD, CHR 0xD8, CHR 0xB1, CHR 0xDB, CHR 0x8C, CHR 0xD9, CHR 0x85],
        [CHR 0xD8, CHR 0xAC, CHR 0xD8, CHR 0xB9, CHR 0xD9, CHR 0x84]]),
      (''suggestion'', [[CHR 0xD9, CHR 0xBE, CHR 0xDB, CHR 0x8C, CHR 0xD8, CHR 0xB4, CHR 0xD9, CHR 0x86, CHR 0xD9, CHR 0x87, CHR 0xD8, CHR 0xA7, CHR 0xD8, CHR 0xAF],
        [CHR 0xD8, CHR 0xA7, CHR 0xDB, CHR 0x8C, CHR 0xD8, CHR 0xAF, CHR 0xD9, CHR 0x87],
        [CHR 0xD8, CHR 0xA8, CHR 0xD9, CHR 0x87, CHR 0xD8, CHR 0xA8, CHR 0xD9, CHR 0x88, CHR 0xD8, CHR 0xAF]])]"

definition payment_words :: "string list" where
  "payment_words =
     [[CHR 0xD9, CHR 0xBE, CHR 0xD8, CHR 0xB1, CHR 0xD8, CHR 0xAF, CHR 0xD8, CHR 0xA7, CHR 0xD8, CHR 0xAE, CHR 0xD8, CHR 0xAA],
      [CHR 0xD9, CHR 0x85, CHR 0xD8, CHR 0xA7, CHR 0xD9, CHR 0x84, CHR 0xDB, CHR 0x8C]]"

definition security_words :: "string list" where
  "security_words =
     [[CHR 0xD8, CHR 0xA7, CHR 0xD9, CHR 0x85, CHR 0xD9, CHR 0x86, CHR 0xDB, CHR 0x8C, CHR 0xD8, CHR 0xAA],
      [CHR 0xD9, CHR 0x87, CHR 0xDA, CHR 0xA9],
      [CHR 0xD8, CHR 0xA2, CHR 0xD8, CHR 0xB3, CHR 0xDB, CHR 0x8C, CHR 0xD8, CHR 0xA8]]"

section \<open>Lemmas\<close>

lemma tokenize_sorted: "sorted (tokenize v) \<and> distinct (tokenize v)"
  by (simp add: tokenize_def)

lemma round_half_even_le: "a \<le> n * b \<Longrightarrow> 0 < b \<Longrightarrow> round_half_even a b \<le> n"
proof -
  assume ab: "a \<le> n * b" "0 < b"
  show ?thesis
  proof (cases "a mod b = 0")
    case True
    then show ?thesis using ab div_le_mono [OF ab(1), of b] by (simp add: round_half_even_def Let_def)
  next
    case False
    have "a div b < n"
    proof (rule ccontr)
      assume "\<not> a div b < n"
      then have "n * b \<le> a div b * b" by simp
      moreover have "a = a div b * b + a mod b" by simp
      ultimately show False using ab False by linarith
    qed
    then show ?thesis by (auto simp: round_half_even_def Let_def)
  qed
qed

lemma double_scale_value: "double_scale p q k = (p', k') \<Longrightarrow> k \<le> k' \<and> p' = p * 2 ^ (k' - k)"
proof (induction p q k rule: double_scale.induct)
  case (1 p q k)
  show ?case
  proof (cases "p = 0 \<or> q * 2 ^ 52 \<le> p")
    case True
    with 1(2) show ?thesis by (simp add: double_scale.simps [of p q k])
  next
    case False
    with 1(2) have "double_scale (2 * p) q (Suc k) = (p', k')" by (simp add: double_scale.simps [of p q k])
    with 1(1) [OF False] have le: "Suc k \<le> k'" and p': "p' = 2 * p * 2 ^ (k' - Suc k)" by blast+
    from le have "k' - k = Suc (k' - Suc k)" by simp
    with p' le show ?thesis by simp
  qed
qed

lemma double_quotient_le:
  assumes "double_quotient p q = (m, k)" "p \<le> n * q" "0 < q"
  shows "m \<le> n * 2 ^ k"
proof -
  obtain p' where p': "double_scale p q 0 = (p', k)" "m = round_half_even p' q"
    using assms(1) by (auto simp: double_quotient_def split: prod.splits)
  from double_scale_value [OF p'(1)] have "p' = p * 2 ^ k" by simp
  then have "p' \<le> n * 2 ^ k * q" using assms(2) mult_le_mono1 [of p "n * q" "2 ^ k"] by (simp add: mult_ac)
  with p'(2) assms(3) show ?thesis by (simp add: round_half_even_le)
qed

lemma score_of_ratio_le:
  assumes "a \<le> b" "0 < b"
  shows "score_of_ratio a b n \<le> n"
proof -
  obtain m k where mk: "double_quotient a b = (m, k)" by fastforce
  obtain x j where xj: "double_quotient (m * n) (2 ^ k) = (x, j)" by fastforce
  from double_quotient_le [OF mk, of 1] assms have "m \<le> 2 ^ k" by simp
  then have "m * n \<le> n * 2 ^ k" by simp
  from double_quotient_le [OF xj this] have "x \<le> n * 2 ^ j" by simp
  with mk xj show ?thesis by (simp add: score_of_ratio_def round_half_even_le)
qed

lemma similarity_score_le: "similarity_score l r m \<le> m"
proof (cases "tokenize l = [] \<or> tokenize r = []")
  case True
  then show ?thesis by (auto simp: similarity_score_def Let_def)
next
  case False
  let ?i = "length (filter (\<lambda>w. w \<in> set (tokenize r)) (tokenize l))" and ?u = "length (remdups (tokenize l @ tokenize r))"
  have "?i \<le> length (tokenize l)" by simp
  also have "\<dots> = card (set (tokenize l))" using tokenize_sorted [of l] by (simp add: distinct_card)
  also have "\<dots> \<le> card (set (tokenize l @ tokenize r))" by (intro card_mono) auto
  also have "\<dots> = ?u" by (simp only: length_remdups_card_conv)
  finally have "?i \<le> ?u" .
  moreover have "0 < ?u" using False by (simp add: length_remdups_card_conv card_gt_0_iff)
  ultimately have "score_of_ratio ?i ?u m \<le> m" using score_of_ratio_le by blast
  with False show ?thesis by (simp add: similarity_score_def Let_def)
qed

end
