(* ===== verification/Support_Tickets.thy ===== *)
theory Support_Tickets
  imports Support_Config Support_Text
begin

text \<open>
  Tickets (\<^verbatim>\<open>src/apps/support_desk/services.py\<close>): creation, service levels, conversation and workflow. A service gets the ticket as an
  object that its caller loaded before, without a lock. The object is an argument here and may be older than the
  row: guards look at the object, and \<open>save(update_fields=...)\<close> copies the listed fields of the object into the row.
  The services that change a ticket return the changed object.
\<close>

section \<open>Saving objects\<close>

definition save_ticket :: "int \<Rightarrow> (ticket \<Rightarrow> ticket \<Rightarrow> ticket) \<Rightarrow> ticket row \<Rightarrow> (sup_db, ticket row) svc" where
  "save_ticket now copy_fields tk =
     seqn (modify (\<lambda>s. s\<lparr>tickets := tbl_upd (row_pk tk) now (copy_fields (vals tk)) (tickets s)\<rparr>))
     (ret (tk\<lparr>updated_at := now\<rparr>))"

definition set_vals :: "(ticket \<Rightarrow> ticket) \<Rightarrow> ticket row \<Rightarrow> ticket row" where
  "set_vals f tk = tk\<lparr>vals := f (vals tk)\<rparr>"

definition add_message :: "int \<Rightarrow> ticket_message \<Rightarrow> (sup_db, ticket_message row) svc" where
  "add_message now m =
     bnd (gets (\<lambda>s. new_row now m (messages s))) (\<lambda>r.
     seqn (modify (\<lambda>s. s\<lparr>messages := messages s @ [r]\<rparr>)) (ret r))"

definition add_history :: "int \<Rightarrow> status_history \<Rightarrow> (sup_db, unit) svc" where
  "add_history now h = modify (\<lambda>s. s\<lparr>status_histories := tbl_insert now h (status_histories s)\<rparr>)"

definition add_sla_event :: "int \<Rightarrow> sla_event \<Rightarrow> (sup_db, unit) svc" where
  "add_sla_event now e = modify (\<lambda>s. s\<lparr>sla_events := tbl_insert now e (sla_events s)\<rparr>)"

definition add_assignment :: "int \<Rightarrow> ticket_assignment \<Rightarrow> (sup_db, unit) svc" where
  "add_assignment now a = modify (\<lambda>s. s\<lparr>assignments := tbl_insert now a (assignments s)\<rparr>)"

section \<open>Counters\<close>

definition ticket_messages :: "nat \<Rightarrow> ticket_message table \<Rightarrow> ticket_message table" where
  "ticket_messages k t = filter (\<lambda>m. tm_ticket (vals m) = k) (objects t)"

definition ticket_attachments :: "nat \<Rightarrow> ticket_attachment table \<Rightarrow> ticket_attachment table" where
  "ticket_attachments k t = filter (\<lambda>a. ta_ticket (vals a) = k) (objects t)"

definition is_internal_note :: "ticket_message row \<Rightarrow> bool" where
  "is_internal_note m = (tm_is_internal (vals m) \<and> tm_message_type (vals m) = MT_INTERNAL_NOTE)"

definition sync_ticket_counters :: "int \<Rightarrow> ticket row \<Rightarrow> (sup_db, ticket row) svc" where
  "sync_ticket_counters now tk =
     bnd (gets (\<lambda>s. (ticket_messages (row_pk tk) (messages s), ticket_attachments (row_pk tk) (attachments s)))) (\<lambda>(ms, as).
     save_ticket now
       (\<lambda>ob v. v\<lparr>tk_message_count := tk_message_count ob, tk_attachment_count := tk_attachment_count ob,
                 tk_internal_note_count := tk_internal_note_count ob\<rparr>)
       (set_vals (\<lambda>v. v\<lparr>tk_message_count := length ms, tk_attachment_count := length as,
                       tk_internal_note_count := length (filter is_internal_note ms)\<rparr>) tk))"

definition sync_category_counters :: "int \<Rightarrow> nat \<Rightarrow> (sup_db, unit) svc" where
  "sync_category_counters now k =
     modify (\<lambda>s. s\<lparr>categories := tbl_upd k now (\<lambda>v. v\<lparr>
         cat_tickets_count := length (filter (\<lambda>r. tk_category (vals r) = k) (tickets s)),
         cat_open_tickets_count := length (filter (\<lambda>r. tk_category (vals r) = k) (open_queue (objects (tickets s))))\<rparr>)
       (categories s)\<rparr>)"

section \<open>Tags and duplicates\<close>

text \<open>\<open>get_or_create\<close> through the active manager: an inactive row of the same name makes the insert fail.\<close>

definition get_or_create_tag :: "sup_env \<Rightarrow> int \<Rightarrow> string \<Rightarrow> (sup_db, support_tag row) svc" where
  "get_or_create_tag E now token =
     bnd (gets support_tags) (\<lambda>t.
     case find (\<lambda>r. tg_name (vals r) = token) (objects t) of
       Some r \<Rightarrow> ret r
     | None \<Rightarrow>
         seqn (check (\<not> list_ex (\<lambda>r. tg_name (vals r) = token \<or> tg_normalized_name (vals r) = token) t) IntegrityError)
         (let r = new_row now \<lparr>tg_name = token,
                tg_slug = unique_slug (se_slugify E) (se_uuid E) (map (tg_slug \<circ> vals) t) 160 token,
                tg_normalized_name = token, tg_usage_count = 0\<rparr> t
          in seqn (modify (\<lambda>s. s\<lparr>support_tags := support_tags s @ [r]\<rparr>)) (ret r)))"

definition tag_ticket :: "int \<Rightarrow> nat \<Rightarrow> nat \<Rightarrow> (sup_db, unit) svc" where
  "tag_ticket now k tag =
     bnd (gets ticket_tags) (\<lambda>t.
     let same = (\<lambda>r. tt_ticket (vals r) = k \<and> tt_tag (vals r) = tag) in
     if list_ex same (objects t) then ret ()
     else seqn (check (\<not> list_ex same t) IntegrityError)
       (modify (\<lambda>s. s\<lparr>ticket_tags := tbl_insert now \<lparr>tt_ticket = k, tt_tag = tag, tt_source = TAG_AUTO_TRIAGE\<rparr> (ticket_tags s)\<rparr>)))"

definition auto_tag_ticket :: "sup_env \<Rightarrow> int \<Rightarrow> nat \<Rightarrow> string \<Rightarrow> (sup_db, unit) svc" where
  "auto_tag_ticket E now k text =
     seqn (for_each (take 12 (tokenize text)) (\<lambda>token.
       bnd (get_or_create_tag E now token) (\<lambda>tag.
       seqn (tag_ticket now k (row_pk tag))
       (modify (\<lambda>s. s\<lparr>support_tags := tbl_upd (row_pk tag) now
          (\<lambda>v. v\<lparr>tg_usage_count := length (filter (\<lambda>r. tt_tag (vals r) = row_pk tag) (objects (ticket_tags s)))\<rparr>)
          (support_tags s)\<rparr>)))))
     (ret ())"

definition ticket_text :: "ticket \<Rightarrow> string" where
  "ticket_text v = tk_subject v @ '' '' @ tk_description_snapshot v"

text \<open>\<open>order_by("-created_at")[:50]\<close>\<close>

definition newest_50 :: "'v table \<Rightarrow> 'v table" where
  "newest_50 t = take 50 (sort_key (\<lambda>r. - created_at r) t)"

definition duplicate_of :: "nat \<Rightarrow> nat \<Rightarrow> duplicate_candidate row \<Rightarrow> bool" where
  "duplicate_of k c r = (dc_ticket (vals r) = k \<and> dc_candidate_ticket (vals r) = c)"

definition store_duplicate :: "int \<Rightarrow> nat \<Rightarrow> nat \<Rightarrow> nat \<Rightarrow> (sup_db, unit) svc" where
  "store_duplicate now k c score =
     bnd (gets duplicates) (\<lambda>t.
     case find (duplicate_of k c) (objects t) of
       Some r \<Rightarrow> modify (\<lambda>s. s\<lparr>duplicates := tbl_upd (row_pk r) now
          (\<lambda>v. v\<lparr>dc_score := int score, dc_reason := ''similar_text''\<rparr>) (duplicates s)\<rparr>)
     | None \<Rightarrow>
         seqn (check (\<not> list_ex (duplicate_of k c) t) IntegrityError)
         (modify (\<lambda>s. s\<lparr>duplicates := tbl_insert now \<lparr>dc_ticket = k, dc_candidate_ticket = c, dc_score = int score,
            dc_reason = ''similar_text'', dc_status = DUP_ACTIVE, dc_reviewed_by = None, dc_reviewed_at = None\<rparr> (duplicates s)\<rparr>)))"

definition detect_duplicate_candidates :: "int \<Rightarrow> ticket row \<Rightarrow> nat \<Rightarrow> (sup_db, nat list) svc" where
  "detect_duplicate_candidates now tk threshold =
     bnd (gets (\<lambda>s. newest_50 (filter (\<lambda>r. tk_owner (vals r) = tk_owner (vals tk) \<and> tk_category (vals r) = tk_category (vals tk) \<and>
          tk_ticket_type (vals r) = tk_ticket_type (vals tk) \<and> row_pk r \<noteq> row_pk tk \<and>
          tk_status (vals r) \<notin> {TS_ARCHIVED, TS_SPAM}) (tickets s)))) (\<lambda>candidates.
     let similar = filter (\<lambda>r. threshold \<le> similarity_score (ticket_text (vals tk)) (ticket_text (vals r)) 100) candidates in
     for_each similar (\<lambda>r.
       seqn (store_duplicate now (row_pk tk) (row_pk r) (similarity_score (ticket_text (vals tk)) (ticket_text (vals r)) 100))
       (ret (row_pk r))))"

section \<open>Ticket numbers\<close>

text \<open>Year and month of a day number in the civil calendar, with years that begin in March.\<close>

definition civil_month :: "int \<Rightarrow> int \<times> int" where
  "civil_month day =
     (let z = day + 719468; era = z div 146097; doe = z mod 146097;
          yoe = (doe - doe div 1460 + doe div 36524 - doe div 146096) div 365;
          doy = doe - (365 * yoe + yoe div 4 - yoe div 100);
          mp = (5 * doy + 2) div 153;
          m = (if mp < 10 then mp + 3 else mp - 9)
      in (yoe + era * 400 + (if m \<le> 2 then 1 else 0), m))"

definition upper_char :: "char \<Rightarrow> char" where
  "upper_char c = (if (97 :: nat) \<le> of_char c \<and> of_char c \<le> (122 :: nat) then char_of (of_char c - 32 :: nat) else c)"

definition number_prefix :: "int \<Rightarrow> string" where
  "number_prefix now =
     (let (y, m) = civil_month (day_of now) in ''SUP-'' @ pad_left 4 (int_str y) @ pad_left 2 (int_str m))"

fun number_loop :: "sup_env \<Rightarrow> string list \<Rightarrow> string \<Rightarrow> nat \<Rightarrow> nat \<Rightarrow> nat \<Rightarrow> string option" where
  "number_loop E numbers prefix sequence i 0 = None"
| "number_loop E numbers prefix sequence i (Suc n) =
     (let candidate = prefix @ ''-'' @ pad_left 4 (nat_str sequence) @ ''-'' @ map upper_char (se_token_hex E i)
      in if candidate \<notin> set numbers then Some candidate else number_loop E numbers prefix (Suc sequence) (Suc i) n)"

definition build_ticket_number :: "sup_env \<Rightarrow> int \<Rightarrow> ticket table \<Rightarrow> string" where
  "build_ticket_number E now t =
     (let prefix = number_prefix now;
          sequence = length (filter (\<lambda>r. civil_month (day_of (se_local E (created_at r))) = civil_month (day_of now)) t) + 1
      in case number_loop E (map (tk_ticket_number \<circ> vals) t) prefix sequence 0 20 of
           Some x \<Rightarrow> x
         | None \<Rightarrow> prefix @ ''-'' @ map upper_char (take 8 (se_uuid E)))"

text \<open>\<open>SupportTicket.save\<close>: the search document is stored by a save without \<open>update_fields\<close> only.\<close>

definition search_document :: "ticket \<Rightarrow> string \<Rightarrow> string \<Rightarrow> string \<Rightarrow> string" where
  "search_document v department_title category_title type_title =
     strip (join_ws [tk_ticket_number v, tk_subject v, tk_description_snapshot v, department_title, category_title, type_title])"

definition fill_document :: "ticket \<Rightarrow> (sup_db, ticket) svc" where
  "fill_document v =
     bnd (follow departments (tk_department v)) (\<lambda>d.
     bnd (follow categories (tk_category v)) (\<lambda>c.
     bnd (follow ticket_types (tk_ticket_type v)) (\<lambda>y.
     ret (v\<lparr>tk_search_document := search_document v (dep_title (vals d)) (cat_title (vals c)) (tt_title (vals y))\<rparr>))))"

section \<open>Service levels\<close>

text \<open>\<open>now + timedelta(minutes=...)\<close>, which overflows after the year 9999.\<close>

definition add_minutes :: "int \<Rightarrow> nat \<Rightarrow> exn + int" where
  "add_minutes now minutes =
     (let due = now + int minutes * 60 in if MAX_DAY < day_of due then Inl OverflowError else Inr due)"

definition calculate_sla_due_at :: "sup_env \<Rightarrow> ticket row \<Rightarrow> sla_policy \<Rightarrow> nat \<Rightarrow> int \<Rightarrow> (sup_db, int) svc" where
  "calculate_sla_due_at E tk policy minutes now = (\<lambda>s.
     ((if \<not> pol_business_hours_only policy then add_minutes now minutes
       else case get_business_calendar_for_department (calendars s) (Some (tk_department (vals tk))) of
         None \<Rightarrow> add_minutes now minutes
       | Some calendar \<Rightarrow> add_business_minutes (se_zones E) (holidays s) now (int minutes) calendar), s))"

definition apply_sla :: "sup_env \<Rightarrow> ticket row \<Rightarrow> sla_policy row option \<Rightarrow> int \<Rightarrow> (sup_db, ticket row) svc" where
  "apply_sla E tk policy now =
     (case policy of
        None \<Rightarrow> ret tk
      | Some p \<Rightarrow>
          bnd (calculate_sla_due_at E tk (vals p) (pol_first_response_minutes (vals p)) now) (\<lambda>first.
          bnd (calculate_sla_due_at E tk (vals p) (pol_resolution_minutes (vals p)) now) (\<lambda>resolution.
          bnd (save_ticket now
                (\<lambda>ob v. v\<lparr>tk_applied_sla_policy := tk_applied_sla_policy ob, tk_first_response_due_at := tk_first_response_due_at ob,
                          tk_resolution_due_at := tk_resolution_due_at ob\<rparr>)
                (set_vals (\<lambda>v. v\<lparr>tk_applied_sla_policy := Some (row_pk p), tk_first_response_due_at := Some first,
                                tk_resolution_due_at := Some resolution\<rparr>) tk)) (\<lambda>tk.
          seqn (add_sla_event now \<lparr>sle_ticket = row_pk tk, sle_event_type = SE_POLICY_APPLIED, sle_occurred_at = now,
             sle_metadata = [(''policy_id'', JInt (int (row_pk p))),
               (''first_response_minutes'', JInt (int (pol_first_response_minutes (vals p)))),
               (''resolution_minutes'', JInt (int (pol_resolution_minutes (vals p))))]\<rparr>)
          (ret tk)))))"

definition pause_sla_if_needed :: "int \<Rightarrow> ticket row \<Rightarrow> (sup_db, ticket row) svc" where
  "pause_sla_if_needed now tk =
     bnd (follow_opt sla_policies (tk_applied_sla_policy (vals tk))) (\<lambda>policy.
     if (case policy of None \<Rightarrow> True | Some p \<Rightarrow> \<not> pol_pause_when_waiting_for_user (vals p)) \<or> tk_sla_paused_at (vals tk) \<noteq> None
     then ret tk
     else
       bnd (save_ticket now (\<lambda>ob v. v\<lparr>tk_sla_paused_at := tk_sla_paused_at ob\<rparr>) (set_vals (\<lambda>v. v\<lparr>tk_sla_paused_at := Some now\<rparr>) tk)) (\<lambda>tk.
       seqn (add_sla_event now \<lparr>sle_ticket = row_pk tk, sle_event_type = SE_PAUSED, sle_occurred_at = now, sle_metadata = []\<rparr>)
       (ret tk)))"

definition resume_vals :: "int \<Rightarrow> int \<Rightarrow> ticket \<Rightarrow> ticket" where
  "resume_vals now paused_at v =
     (let d = max (now - paused_at) 0
      in v\<lparr>tk_sla_total_paused_seconds := tk_sla_total_paused_seconds v + d,
           tk_first_response_due_at := map_option (\<lambda>x. x + d) (tk_first_response_due_at v),
           tk_resolution_due_at := map_option (\<lambda>x. x + d) (tk_resolution_due_at v), tk_sla_paused_at := None\<rparr>)"

definition resume_sla_if_needed :: "int \<Rightarrow> ticket row \<Rightarrow> (sup_db, ticket row) svc" where
  "resume_sla_if_needed now tk =
     (case tk_sla_paused_at (vals tk) of
        None \<Rightarrow> ret tk
      | Some paused_at \<Rightarrow>
          bnd (save_ticket now
                (\<lambda>ob v. v\<lparr>tk_sla_total_paused_seconds := tk_sla_total_paused_seconds ob,
                   tk_first_response_due_at := tk_first_response_due_at ob, tk_resolution_due_at := tk_resolution_due_at ob,
                   tk_sla_paused_at := tk_sla_paused_at ob\<rparr>)
                (set_vals (resume_vals now paused_at) tk)) (\<lambda>tk.
          seqn (add_sla_event now \<lparr>sle_ticket = row_pk tk, sle_event_type = SE_RESUMED, sle_occurred_at = now,
             sle_metadata = [(''paused_seconds'', JInt (now - paused_at))]\<rparr>)
          (ret tk)))"

section \<open>Status changes\<close>

definition status_vals :: "int \<Rightarrow> ticket_status \<Rightarrow> ticket \<Rightarrow> ticket" where
  "status_vals now to_status v =
     (let v1 = v\<lparr>tk_status := to_status, tk_last_activity_at := now\<rparr>;
          v2 = (if to_status = TS_RESOLVED then v1\<lparr>tk_resolved_at := Some now\<rparr> else v1);
          v3 = (if to_status = TS_CLOSED then v2\<lparr>tk_closed_at := Some now\<rparr> else v2)
      in if to_status = TS_REOPENED then v3\<lparr>tk_reopened_at := Some now, tk_reopen_count := tk_reopen_count v3 + 1\<rparr> else v3)"

definition copy_status :: "ticket_status \<Rightarrow> ticket \<Rightarrow> ticket \<Rightarrow> ticket" where
  "copy_status to_status ob v =
     (let v1 = v\<lparr>tk_status := tk_status ob, tk_last_activity_at := tk_last_activity_at ob\<rparr>;
          v2 = (if to_status = TS_RESOLVED then v1\<lparr>tk_resolved_at := tk_resolved_at ob\<rparr> else v1);
          v3 = (if to_status = TS_CLOSED then v2\<lparr>tk_closed_at := tk_closed_at ob\<rparr> else v2)
      in if to_status = TS_REOPENED then v3\<lparr>tk_reopened_at := tk_reopened_at ob, tk_reopen_count := tk_reopen_count ob\<rparr> else v3)"

definition change_status :: "int \<Rightarrow> ticket row \<Rightarrow> sd_user \<Rightarrow> ticket_status \<Rightarrow> string \<Rightarrow> (sup_db, ticket row) svc" where
  "change_status now tk actor to_status reason =
     (let from_status = tk_status (vals tk) in
      if from_status = to_status then ret tk
      else
        bnd (save_ticket now (copy_status to_status) (set_vals (status_vals now to_status) tk)) (\<lambda>tk.
        seqn (add_history now \<lparr>sh_ticket = row_pk tk, sh_changed_by = user_pk actor, sh_from_status = Some from_status,
           sh_to_status = to_status, sh_reason = reason\<rparr>)
        (case actor of
           None \<Rightarrow> ret tk
         | Some u \<Rightarrow>
             seqn (add_message now \<lparr>tm_ticket = row_pk tk, tm_author = row_pk u, tm_message_type = MT_STATUS_CHANGE,
                tm_body = (if reason \<noteq> [] then reason
                  else ''status changed from '' @ status_str from_status @ '' to '' @ status_str to_status), tm_is_internal = True,
                tm_is_from_staff = (u_is_staff (vals u) \<or> u_is_superuser (vals u)),
                tm_metadata = [(''from_status'', JStr (status_str from_status)), (''to_status'', JStr (status_str to_status))]\<rparr>)
             (sync_ticket_counters now tk))))"

section \<open>Creation and submission\<close>

definition public_message :: "nat \<Rightarrow> nat \<Rightarrow> ticket_message_type \<Rightarrow> string \<Rightarrow> bool \<Rightarrow> ticket_message" where
  "public_message k author kind body staff = \<lparr>tm_ticket = k, tm_author = author, tm_message_type = kind, tm_body = body,
     tm_is_internal = False, tm_is_from_staff = staff, tm_metadata = []\<rparr>"

definition new_ticket ::
  "nat \<Rightarrow> nat \<Rightarrow> nat \<Rightarrow> nat \<Rightarrow> string \<Rightarrow> string \<Rightarrow> ticket_priority \<Rightarrow> ticket_severity \<Rightarrow> nat option \<Rightarrow> int \<Rightarrow> string \<Rightarrow> ticket" where
  "new_ticket owner department category ticket_type subject description priority severity assigned_to now number =
     \<lparr>tk_ticket_number = number, tk_owner = owner, tk_department = department, tk_category = category,
      tk_ticket_type = ticket_type, tk_subject = subject, tk_description_snapshot = description, tk_status = TS_DRAFT,
      tk_priority = priority, tk_severity = severity, tk_channel = CH_WEB, tk_assigned_to = assigned_to,
      tk_submitted_at = None, tk_first_admin_response_at = None, tk_last_user_message_at = None, tk_last_admin_message_at = None,
      tk_last_activity_at = now, tk_resolved_at = None, tk_closed_at = None, tk_reopened_at = None, tk_escalated_at = None,
      tk_escalated_by = None, tk_escalation_reason = [], tk_applied_sla_policy = None, tk_first_response_due_at = None,
      tk_resolution_due_at = None, tk_sla_breached_at = None, tk_sla_paused_at = None, tk_sla_total_paused_seconds = 0,
      tk_message_count = 0, tk_attachment_count = 0, tk_internal_note_count = 0, tk_reopen_count = 0,
      tk_satisfaction_rating_snapshot = None, tk_search_document = []\<rparr>"

definition insert_ticket :: "int \<Rightarrow> ticket \<Rightarrow> (sup_db, ticket row) svc" where
  "insert_ticket now v =
     bnd (fill_document v) (\<lambda>v.
     bnd (gets tickets) (\<lambda>t.
     seqn (check (\<not> list_ex (\<lambda>r. tk_ticket_number (vals r) = tk_ticket_number v) t) IntegrityError)
     (let tk = new_row now v t in seqn (modify (\<lambda>s. s\<lparr>tickets := tickets s @ [tk]\<rparr>)) (ret tk))))"

definition create_ticket ::
  "sup_env \<Rightarrow> int \<Rightarrow> sd_user \<Rightarrow> nat \<Rightarrow> string \<Rightarrow> string \<Rightarrow> nat option \<Rightarrow> nat option \<Rightarrow> ticket_priority option \<Rightarrow>
   ticket_severity option \<Rightarrow> (sup_db, ticket row) svc" where
  "create_ticket E now owner ticket_type subject description department category priority severity =
     atomic (
     case owner of
       None \<Rightarrow> raise SupportPermissionError
     | Some u \<Rightarrow>
        bnd (follow ticket_types ticket_type) (\<lambda>y.
        let department = (case department of Some d \<Rightarrow> Some d | None \<Rightarrow> tt_default_department (vals y));
            category = (case category of Some c \<Rightarrow> Some c | None \<Rightarrow> tt_default_category (vals y))
        in case (department, category) of
          (Some d, Some c) \<Rightarrow>
            bnd (follow departments d) (\<lambda>dep.
            bnd (follow categories c) (\<lambda>cat.
            seqn (check (cat_department (vals cat) = d) SupportDeskServiceError)
            (bnd (gets (\<lambda>s. build_ticket_number E now (tickets s))) (\<lambda>number.
             bnd (insert_ticket now (new_ticket (row_pk u) d c ticket_type (strip subject) (strip description)
                    (opt_set priority (tt_default_priority (vals y))) (opt_set severity (tt_default_severity (vals y)))
                    (dep_default_assignee (vals dep)) now number)) (\<lambda>tk.
             bnd (add_message now (public_message (row_pk tk) (row_pk u) MT_USER_MESSAGE (strip description) False)) (\<lambda>m.
             bnd (sync_ticket_counters now tk) (\<lambda>tk.
             seqn (sync_category_counters now c)
             (seqn (add_history now \<lparr>sh_ticket = row_pk tk, sh_changed_by = Some (row_pk u), sh_from_status = None,
                 sh_to_status = TS_DRAFT, sh_reason = ''draft_created''\<rparr>)
             (seqn (case tk_assigned_to (vals tk) of
                      None \<Rightarrow> ret ()
                    | Some a \<Rightarrow> add_assignment now \<lparr>tas_ticket = row_pk tk, tas_assigned_by = row_pk u, tas_from_assignee = None,
                        tas_assigned_to = Some a, tas_department = Some d, tas_reason = ''department_default''\<rparr>)
             (seqn (auto_tag_ticket E now (row_pk tk) (tk_subject (vals tk) @ '' '' @ tm_body (vals m)))
             (seqn (detect_duplicate_candidates now tk 68)
             (ret tk))))))))))))
        | _ \<Rightarrow> raise SupportDeskServiceError))"

text \<open>Choices are never empty strings, so \<open>default_priority or ...\<close> is the default of the type.\<close>

definition draft_vals :: "(nat \<times> ticket_type) option \<Rightarrow> nat option \<Rightarrow> nat option \<Rightarrow> ticket \<Rightarrow> ticket" where
  "draft_vals ticket_type department category v =
     (let v1 = (case ticket_type of
                  None \<Rightarrow> v
                | Some (k, y) \<Rightarrow> v\<lparr>tk_ticket_type := k,
                    tk_department := (case department of Some d \<Rightarrow> d | None \<Rightarrow> opt_set (tt_default_department y) (tk_department v)),
                    tk_category := (case category of Some c \<Rightarrow> c | None \<Rightarrow> opt_set (tt_default_category y) (tk_category v)),
                    tk_priority := tt_default_priority y, tk_severity := tt_default_severity y\<rparr>)
      in v1\<lparr>tk_department := opt_set department (tk_department v1), tk_category := opt_set category (tk_category v1)\<rparr>)"

definition update_draft_ticket ::
  "sup_env \<Rightarrow> int \<Rightarrow> ticket row \<Rightarrow> sd_user \<Rightarrow> nat option \<Rightarrow> nat option \<Rightarrow> nat option \<Rightarrow> string option \<Rightarrow> string option \<Rightarrow>
   (sup_db, ticket row) svc" where
  "update_draft_ticket E now tk user ticket_type department category subject description =
     atomic (
     seqn (check (Some (tk_owner (vals tk)) = user_pk user) SupportPermissionError)
     (seqn (check (tk_status (vals tk) = TS_DRAFT) SupportTicketStateError)
     (bnd (follow_opt ticket_types ticket_type) (\<lambda>y.
      let v = draft_vals (map_option (\<lambda>r. (row_pk r, vals r)) y) department category (vals tk) in
      bnd (follow categories (tk_category v)) (\<lambda>cat.
      seqn (check (cat_department (vals cat) = tk_department v) SupportDeskServiceError)
      (bnd (fill_document (v\<lparr>tk_subject := opt_set (map_option strip subject) (tk_subject v),
              tk_description_snapshot := opt_set (map_option strip description) (tk_description_snapshot v),
              tk_last_activity_at := now\<rparr>)) (\<lambda>v.
       bnd (save_ticket now (\<lambda>ob _. ob) (set_vals (\<lambda>_. v) tk)) (\<lambda>tk.
       seqn (auto_tag_ticket E now (row_pk tk) (ticket_text (vals tk)))
       (seqn (detect_duplicate_candidates now tk 68)
       (seqn (sync_category_counters now (tk_category (vals tk)))
       (ret tk)))))))))))"

definition submit_ticket :: "sup_env \<Rightarrow> int \<Rightarrow> ticket row \<Rightarrow> sd_user \<Rightarrow> (sup_db, ticket row) svc" where
  "submit_ticket E now tk user =
     atomic (
     seqn (check (Some (tk_owner (vals tk)) = user_pk user) SupportPermissionError)
     (seqn (check (tk_status (vals tk) = TS_DRAFT) SupportTicketStateError)
     (bnd (change_status now tk user TS_SUBMITTED ''submitted'') (\<lambda>tk.
      bnd (save_ticket now
            (\<lambda>ob v. v\<lparr>tk_submitted_at := tk_submitted_at ob, tk_last_user_message_at := tk_last_user_message_at ob,
                      tk_last_activity_at := tk_last_activity_at ob\<rparr>)
            (set_vals (\<lambda>v. v\<lparr>tk_submitted_at := Some now,
               tk_last_user_message_at := (case tk_last_user_message_at v of None \<Rightarrow> Some now | Some x \<Rightarrow> Some x),
               tk_last_activity_at := now\<rparr>) tk)) (\<lambda>tk.
      bnd (follow ticket_types (tk_ticket_type (vals tk))) (\<lambda>y.
      bnd (gets (\<lambda>s. resolve_sla_policy (sla_policies s) (Some (tk_department (vals tk))) (Some (vals y))
                       (tk_priority (vals tk)) (tk_severity (vals tk)))) (\<lambda>policy.
      apply_sla E tk policy now)))))))"

end
