(* ===== verification/Support_Workflow.thy ===== *)
theory Support_Workflow
  imports Support_Tickets
begin

text \<open>
  Conversation, assignment, the status operations, satisfaction, breach marking and the maintenance tasks
  (\<^verbatim>\<open>src/apps/support_desk/services.py\<close>, \<^verbatim>\<open>tasks.py\<close>, \<^verbatim>\<open>src/apps/notifications/domain.py\<close>). The ticket arguments are objects
  as in \<open>Support_Tickets\<close>.
\<close>

section \<open>Notifications\<close>

definition notify_support_reply :: "sup_env \<Rightarrow> int \<Rightarrow> ticket \<Rightarrow> ticket_message \<Rightarrow> (sup_db, ntf_event row) svc" where
  "notify_support_reply E now v m =
     emit_domain_notification (se_cfg E) (se_format E) now ''support.reply'' (tk_owner v)
       [(''title'', JStr ''support_reply''), (''message'', JStr (tm_body m)), (''ticket_number'', JStr (tk_ticket_number v)),
        (''subject'', JStr (tk_subject v))]
       (Some (tm_author m)) ''support_ticket'' (tk_ticket_number v) NP_NORMAL"

definition notify_support_resolved :: "sup_env \<Rightarrow> int \<Rightarrow> ticket \<Rightarrow> sd_user \<Rightarrow> (sup_db, ntf_event row) svc" where
  "notify_support_resolved E now v actor =
     emit_domain_notification (se_cfg E) (se_format E) now ''support.resolved'' (tk_owner v)
       [(''title'', JStr ''support_resolved''), (''ticket_number'', JStr (tk_ticket_number v)), (''subject'', JStr (tk_subject v))]
       (user_pk actor) ''support_ticket'' (tk_ticket_number v) NP_NORMAL"

section \<open>Conversation\<close>

definition USER_REPLY_ALLOWED_STATUSES :: "ticket_status list" where
  "USER_REPLY_ALLOWED_STATUSES = [TS_SUBMITTED, TS_OPEN, TS_IN_PROGRESS, TS_WAITING_FOR_USER, TS_REOPENED, TS_ESCALATED]"

definition ADMIN_REPLY_ALLOWED_STATUSES :: "ticket_status list" where
  "ADMIN_REPLY_ALLOWED_STATUSES = [TS_SUBMITTED, TS_OPEN, TS_IN_PROGRESS, TS_WAITING_FOR_ADMIN, TS_REOPENED, TS_ESCALATED]"

definition TERMINAL_STATUSES :: "ticket_status list" where
  "TERMINAL_STATUSES = [TS_CLOSED, TS_ARCHIVED, TS_SPAM]"

definition add_user_reply :: "sup_env \<Rightarrow> int \<Rightarrow> ticket row \<Rightarrow> sd_user \<Rightarrow> string \<Rightarrow> (sup_db, ticket_message row) svc" where
  "add_user_reply E now tk user body =
     atomic (
     seqn (check (Some (tk_owner (vals tk)) = user_pk user) SupportPermissionError)
     (seqn (check (tk_status (vals tk) \<in> set USER_REPLY_ALLOWED_STATUSES) SupportTicketStateError)
     (bnd (resume_sla_if_needed now tk) (\<lambda>tk.
      bnd (add_message now (public_message (row_pk tk) (tk_owner (vals tk)) MT_USER_MESSAGE (strip body) False)) (\<lambda>m.
      bnd (save_ticket now
            (\<lambda>ob v. v\<lparr>tk_last_user_message_at := tk_last_user_message_at ob, tk_last_activity_at := tk_last_activity_at ob\<rparr>)
            (set_vals (\<lambda>v. v\<lparr>tk_last_user_message_at := Some now, tk_last_activity_at := now\<rparr>) tk)) (\<lambda>tk.
      bnd (change_status now tk user TS_WAITING_FOR_ADMIN ''user_reply'') (\<lambda>tk.
      bnd (sync_ticket_counters now tk) (\<lambda>tk.
      seqn (auto_tag_ticket E now (row_pk tk) body)
      (ret m)))))))))"

definition add_admin_reply :: "sup_env \<Rightarrow> int \<Rightarrow> ticket row \<Rightarrow> sd_user \<Rightarrow> string \<Rightarrow> (sup_db, ticket_message row) svc" where
  "add_admin_reply E now tk admin body =
     atomic (
     case admin of
       None \<Rightarrow> raise SupportPermissionError
     | Some u \<Rightarrow>
       seqn (check (is_admin admin) SupportPermissionError)
       (seqn (check (tk_status (vals tk) \<in> set ADMIN_REPLY_ALLOWED_STATUSES) SupportTicketStateError)
       (bnd (add_message now (public_message (row_pk tk) (row_pk u) MT_ADMIN_REPLY (strip body) True)) (\<lambda>m.
        bnd (save_ticket now
              (\<lambda>ob v. v\<lparr>tk_first_admin_response_at := tk_first_admin_response_at ob, tk_last_admin_message_at := tk_last_admin_message_at ob,
                        tk_last_activity_at := tk_last_activity_at ob\<rparr>)
              (set_vals (\<lambda>v. v\<lparr>
                 tk_first_admin_response_at := (case tk_first_admin_response_at v of None \<Rightarrow> Some now | Some x \<Rightarrow> Some x),
                 tk_last_admin_message_at := Some now, tk_last_activity_at := now\<rparr>) tk)) (\<lambda>tk.
        bnd (change_status now tk admin TS_WAITING_FOR_USER ''admin_reply'') (\<lambda>tk.
        bnd (pause_sla_if_needed now tk) (\<lambda>tk.
        bnd (sync_ticket_counters now tk) (\<lambda>tk.
        seqn (notify_support_reply E now (vals tk) (vals m))
        (ret m)))))))))"

definition add_internal_note :: "int \<Rightarrow> ticket row \<Rightarrow> sd_user \<Rightarrow> string \<Rightarrow> (sup_db, ticket_message row) svc" where
  "add_internal_note now tk admin body =
     atomic (
     case admin of
       None \<Rightarrow> raise SupportPermissionError
     | Some u \<Rightarrow>
       seqn (check (is_admin admin) SupportPermissionError)
       (bnd (add_message now \<lparr>tm_ticket = row_pk tk, tm_author = row_pk u, tm_message_type = MT_INTERNAL_NOTE, tm_body = strip body,
          tm_is_internal = True, tm_is_from_staff = True, tm_metadata = []\<rparr>) (\<lambda>m.
        seqn (sync_ticket_counters now tk) (ret m))))"

definition add_attachment ::
  "int \<Rightarrow> ticket row \<Rightarrow> sd_user \<Rightarrow> string \<Rightarrow> nat \<Rightarrow> string \<Rightarrow> string \<Rightarrow> attachment_kind \<Rightarrow> attachment_visibility \<Rightarrow> nat option \<Rightarrow>
   (sup_db, ticket_attachment row) svc" where
  "add_attachment now tk user file_name file_size original_filename content_type attachment_kind visibility message =
     atomic (
     case user of
       None \<Rightarrow> raise SupportPermissionError
     | Some u \<Rightarrow>
       seqn (check (tk_owner (vals tk) = row_pk u \<or> is_admin user) SupportPermissionError)
       (seqn (check (\<not> (visibility = VIS_INTERNAL_ONLY \<and> \<not> is_admin user)) SupportPermissionError)
       (seqn (check (\<not> (tk_status (vals tk) \<in> set TERMINAL_STATUSES \<and> \<not> is_admin user)) SupportTicketStateError)
       (bnd (gets (\<lambda>s. new_row now \<lparr>ta_ticket = row_pk tk, ta_message = message, ta_uploaded_by = row_pk u, ta_file = file_name,
           ta_original_filename = take 260 original_filename, ta_content_type = take 120 content_type, ta_file_size = file_size,
           ta_attachment_kind = attachment_kind, ta_visibility = visibility\<rparr> (attachments s))) (\<lambda>a.
        seqn (modify (\<lambda>s. s\<lparr>attachments := attachments s @ [a]\<rparr>))
        (seqn (sync_ticket_counters now tk) (ret a)))))))"

section \<open>Assignment\<close>

definition support_admin_candidates :: "auth_user table \<Rightarrow> department \<Rightarrow> auth_user table" where
  "support_admin_candidates us d =
     sort_key row_pk (filter (\<lambda>u. is_active u \<and> (is_admin (Some u) \<or> dep_default_assignee d = Some (row_pk u))) us)"

record assignment_candidate =
  ac_user :: nat
  ac_workload_score :: int
  ac_open_tickets :: nat
  ac_urgent_or_critical_tickets :: nat
  ac_breached_sla_tickets :: nat
  ac_waiting_admin_tickets :: nat
  ac_department_open_tickets :: nat
  ac_reason_codes :: "string list"

definition build_assignment_candidate :: "ticket table \<Rightarrow> nat \<Rightarrow> ticket \<Rightarrow> department row \<Rightarrow> assignment_candidate" where
  "build_assignment_candidate ts user tk d =
     (let assigned_open = filter (\<lambda>r. tk_assigned_to (vals r) = Some user) (open_queue (objects ts));
          department_open = length (filter (\<lambda>r. tk_department (vals r) = row_pk d) assigned_open);
          urgent_or_critical = length (filter (\<lambda>r. tk_priority (vals r) \<in> {TP_URGENT, TP_HIGH} \<or>
             tk_severity (vals r) \<in> {SV_CRITICAL, SV_BLOCKER}) assigned_open);
          breached = length (filter (\<lambda>r. tk_sla_breached_at (vals r) \<noteq> None) assigned_open);
          waiting_admin = length (filter (\<lambda>r. tk_status (vals r) = TS_WAITING_FOR_ADMIN) assigned_open);
          open_count = length assigned_open;
          score = int (open_count * 10 + urgent_or_critical * 8 + breached * 12 + waiting_admin * 5 + department_open * 2);
          is_default = (dep_default_assignee (vals d) = Some user);
          score1 = (if is_default then score - 4 else score);
          score2 = (if tk_sla_breached_at tk \<noteq> None then score1 + int (breached * 5) else score1)
      in \<lparr>ac_user = user, ac_workload_score = max score2 0, ac_open_tickets = open_count,
          ac_urgent_or_critical_tickets = urgent_or_critical, ac_breached_sla_tickets = breached,
          ac_waiting_admin_tickets = waiting_admin, ac_department_open_tickets = department_open,
          ac_reason_codes = (if is_default then [''department_default_assignee_bonus''] else []) @
            (if tk_sla_breached_at tk \<noteq> None then [''sla_breach_load_weight''] else []) @
            (if open_count = 0 then [''no_open_tickets''] else [])\<rparr>)"

record assignment_recommendation =
  arc_recommended_assignee :: "nat option"
  arc_candidates :: "assignment_candidate list"
  arc_reason_codes :: "string list"

definition candidate_rank :: "assignment_candidate \<Rightarrow> int \<times> nat \<times> nat" where
  "candidate_rank c = (ac_workload_score c, ac_open_tickets c, ac_user c)"

definition get_support_assignment_recommendation ::
  "auth_user table \<Rightarrow> ticket table \<Rightarrow> ticket \<Rightarrow> department row \<Rightarrow> int \<Rightarrow> assignment_recommendation" where
  "get_support_assignment_recommendation us ts tk d candidate_limit =
     (let candidates = sort_key candidate_rank
            (map (\<lambda>u. build_assignment_candidate ts (row_pk u) tk d) (support_admin_candidates us (vals d)))
      in \<lparr>arc_recommended_assignee = (case candidates of [] \<Rightarrow> None | c # _ \<Rightarrow> Some (ac_user c)),
          arc_candidates = take (nat (max 1 (min candidate_limit 20))) candidates,
          arc_reason_codes = [''least_loaded_score''] @
            (if dep_default_assignee (vals d) \<noteq> None then [''department_default_assignee_considered''] else []) @
            (if tk_sla_breached_at tk \<noteq> None then [''ticket_sla_breached_priority''] else []) @
            (if tk_priority tk \<in> {TP_HIGH, TP_URGENT} \<or> tk_severity tk \<in> {SV_CRITICAL, SV_BLOCKER}
             then [''high_priority_ticket_weighted''] else [])\<rparr>)"

definition json_opt_nat :: "nat option \<Rightarrow> json" where
  "json_opt_nat k = (case k of None \<Rightarrow> JNull | Some n \<Rightarrow> JInt (int n))"

definition assign_ticket ::
  "int \<Rightarrow> ticket row \<Rightarrow> sd_user \<Rightarrow> nat option \<Rightarrow> nat option \<Rightarrow> string \<Rightarrow> (sup_db, ticket row) svc" where
  "assign_ticket now tk admin assignee department reason =
     atomic (
     case admin of
       None \<Rightarrow> raise SupportPermissionError
     | Some u \<Rightarrow>
       seqn (check (is_admin admin) SupportPermissionError)
       (let previous = tk_assigned_to (vals tk) in
        bnd (save_ticket now
              (\<lambda>ob v. v\<lparr>tk_department := tk_department ob, tk_assigned_to := tk_assigned_to ob, tk_last_activity_at := tk_last_activity_at ob\<rparr>)
              (set_vals (\<lambda>v. v\<lparr>tk_department := opt_set department (tk_department v), tk_assigned_to := assignee,
                              tk_last_activity_at := now\<rparr>) tk)) (\<lambda>tk.
        seqn (add_assignment now \<lparr>tas_ticket = row_pk tk, tas_assigned_by = row_pk u, tas_from_assignee = previous,
           tas_assigned_to = assignee, tas_department = Some (tk_department (vals tk)), tas_reason = reason\<rparr>)
        (seqn (add_message now \<lparr>tm_ticket = row_pk tk, tm_author = row_pk u, tm_message_type = MT_ASSIGNMENT_CHANGE,
             tm_body = (if reason \<noteq> [] then reason else ''assignee_changed''), tm_is_internal = True, tm_is_from_staff = True,
             tm_metadata = [(''from_assignee_id'', json_opt_nat previous), (''assigned_to_id'', json_opt_nat assignee),
                            (''department_id'', JInt (int (tk_department (vals tk))))]\<rparr>)
        (sync_ticket_counters now tk)))))"

definition auto_assign_ticket :: "int \<Rightarrow> ticket row \<Rightarrow> sd_user \<Rightarrow> nat option \<Rightarrow> string \<Rightarrow> (sup_db, ticket row) svc" where
  "auto_assign_ticket now tk admin department reason =
     atomic (
     bnd (follow departments (opt_set department (tk_department (vals tk)))) (\<lambda>d.
     bnd (gets (\<lambda>s. get_support_assignment_recommendation (sd_users s) (tickets s) (vals tk) d 5)) (\<lambda>recommendation.
     case arc_recommended_assignee recommendation of
       None \<Rightarrow> raise SupportDeskServiceError
     | Some u \<Rightarrow> assign_ticket now tk admin (Some u) department (if reason \<noteq> [] then reason else ''least_loaded''))))"

section \<open>Status operations\<close>

text \<open>A status is one of the choices by its type, so the test for an unknown one has no counterpart.\<close>

definition change_ticket_status :: "int \<Rightarrow> ticket row \<Rightarrow> sd_user \<Rightarrow> ticket_status \<Rightarrow> string \<Rightarrow> (sup_db, ticket row) svc" where
  "change_ticket_status now tk admin status reason =
     atomic (seqn (check (is_admin admin) SupportPermissionError) (change_status now tk admin status reason))"

definition resolve_ticket :: "sup_env \<Rightarrow> int \<Rightarrow> ticket row \<Rightarrow> sd_user \<Rightarrow> string \<Rightarrow> (sup_db, ticket row) svc" where
  "resolve_ticket E now tk admin reason =
     atomic (
     seqn (check (tk_status (vals tk) \<notin> set TERMINAL_STATUSES) SupportTicketStateError)
     (bnd (change_ticket_status now tk admin TS_RESOLVED (if reason \<noteq> [] then reason else ''resolved'')) (\<lambda>tk.
      seqn (notify_support_resolved E now (vals tk) admin)
      (ret tk))))"

definition CLOSABLE_STATUSES :: "ticket_status list" where
  "CLOSABLE_STATUSES = [TS_RESOLVED, TS_WAITING_FOR_USER, TS_OPEN, TS_IN_PROGRESS, TS_REOPENED, TS_ESCALATED]"

definition close_ticket :: "int \<Rightarrow> ticket row \<Rightarrow> sd_user \<Rightarrow> string \<Rightarrow> (sup_db, ticket row) svc" where
  "close_ticket now tk actor reason =
     atomic (
     seqn (check (Some (tk_owner (vals tk)) = user_pk actor \<or> is_admin actor) SupportPermissionError)
     (seqn (check (tk_status (vals tk) \<in> set CLOSABLE_STATUSES) SupportTicketStateError)
     (change_status now tk actor TS_CLOSED (if reason \<noteq> [] then reason else ''closed''))))"

definition is_reopenable :: "int \<Rightarrow> ticket \<Rightarrow> bool" where
  "is_reopenable now v =
     (tk_status v \<in> {TS_RESOLVED, TS_CLOSED} \<and>
      (case (case tk_closed_at v of Some c \<Rightarrow> Some c | None \<Rightarrow> tk_resolved_at v) of
         None \<Rightarrow> False
       | Some reference \<Rightarrow> reference + 7 * 86400 > now))"

definition reopen_ticket :: "int \<Rightarrow> ticket row \<Rightarrow> sd_user \<Rightarrow> string \<Rightarrow> (sup_db, ticket row) svc" where
  "reopen_ticket now tk user reason =
     atomic (
     seqn (check (Some (tk_owner (vals tk)) = user_pk user) SupportPermissionError)
     (seqn (check (is_reopenable now (vals tk)) SupportTicketStateError)
     (bnd (resume_sla_if_needed now tk) (\<lambda>tk.
      change_status now tk user TS_REOPENED (if reason \<noteq> [] then reason else ''reopened'')))))"

definition escalate_ticket :: "int \<Rightarrow> ticket row \<Rightarrow> sd_user \<Rightarrow> string \<Rightarrow> (sup_db, ticket row) svc" where
  "escalate_ticket now tk admin reason =
     atomic (
     seqn (check (is_admin admin) SupportPermissionError)
     (bnd (save_ticket now
            (\<lambda>ob v. v\<lparr>tk_escalated_at := tk_escalated_at ob, tk_escalated_by := tk_escalated_by ob,
                      tk_escalation_reason := tk_escalation_reason ob\<rparr>)
            (set_vals (\<lambda>v. v\<lparr>tk_escalated_at := Some now, tk_escalated_by := user_pk admin, tk_escalation_reason := reason\<rparr>) tk)) (\<lambda>tk.
      seqn (add_sla_event now \<lparr>sle_ticket = row_pk tk, sle_event_type = SE_ESCALATED, sle_occurred_at = now,
         sle_metadata = [(''reason'', JStr reason)]\<rparr>)
      (change_status now tk admin TS_ESCALATED reason))))"

section \<open>Satisfaction and duplicate review\<close>

text \<open>The one-to-one relation admits a single rating per ticket.\<close>

definition submit_satisfaction :: "int \<Rightarrow> ticket row \<Rightarrow> sd_user \<Rightarrow> int \<Rightarrow> string \<Rightarrow> (sup_db, satisfaction row) svc" where
  "submit_satisfaction now tk user rating comment =
     atomic (
     seqn (check (Some (tk_owner (vals tk)) = user_pk user) SupportPermissionError)
     (seqn (check (tk_status (vals tk) \<in> {TS_RESOLVED, TS_CLOSED}) SupportTicketStateError)
     (seqn (check (\<not> (rating < 1 \<or> rating > 5)) SupportDeskServiceError)
     (bnd (gets satisfactions) (\<lambda>t.
      seqn (check (\<not> list_ex (\<lambda>r. sat_ticket (vals r) = row_pk tk) t) IntegrityError)
      (let r = new_row now \<lparr>sat_ticket = row_pk tk, sat_user = tk_owner (vals tk), sat_rating = rating, sat_comment = strip comment\<rparr> t
       in seqn (modify (\<lambda>s. s\<lparr>satisfactions := satisfactions s @ [r]\<rparr>))
          (seqn (save_ticket now (\<lambda>ob v. v\<lparr>tk_satisfaction_rating_snapshot := tk_satisfaction_rating_snapshot ob\<rparr>)
                  (set_vals (\<lambda>v. v\<lparr>tk_satisfaction_rating_snapshot := Some rating\<rparr>) tk))
          (ret r))))))))"

definition review_duplicate_candidate :: "int \<Rightarrow> nat \<Rightarrow> sd_user \<Rightarrow> duplicate_review_status \<Rightarrow> string \<Rightarrow> (sup_db, duplicate_candidate row) svc" where
  "review_duplicate_candidate now k admin status reason =
     atomic (
     seqn (check (is_admin admin) SupportPermissionError)
     (bnd (follow duplicates k) (\<lambda>r.
      seqn (modify (\<lambda>s. s\<lparr>duplicates := tbl_upd k now (\<lambda>v. v\<lparr>dc_status := status,
          dc_reason := (if reason \<noteq> [] then reason else dc_reason (vals r)), dc_reviewed_by := user_pk admin,
          dc_reviewed_at := Some now\<rparr>) (duplicates s)\<rparr>))
      (follow duplicates k))))"

section \<open>Breaches and maintenance\<close>

definition first_response_due :: "int \<Rightarrow> ticket \<Rightarrow> bool" where
  "first_response_due now v =
     (tk_first_admin_response_at v = None \<and> (case tk_first_response_due_at v of None \<Rightarrow> False | Some d \<Rightarrow> d \<le> now))"

definition resolution_due :: "int \<Rightarrow> ticket \<Rightarrow> bool" where
  "resolution_due now v = (case tk_resolution_due_at v of None \<Rightarrow> False | Some d \<Rightarrow> d \<le> now)"

definition breach_due :: "int \<Rightarrow> ticket row \<Rightarrow> bool" where
  "breach_due now r = (is_active r \<and> in_open_queue r \<and> tk_sla_breached_at (vals r) = None \<and>
     (first_response_due now (vals r) \<or> resolution_due now (vals r)))"

definition mark_breach :: "int \<Rightarrow> ticket row \<Rightarrow> (sup_db, unit) svc" where
  "mark_breach now tk =
     bnd (save_ticket now (\<lambda>ob v. v\<lparr>tk_sla_breached_at := tk_sla_breached_at ob\<rparr>) (set_vals (\<lambda>v. v\<lparr>tk_sla_breached_at := Some now\<rparr>) tk)) (\<lambda>tk.
     seqn (add_sla_event now \<lparr>sle_ticket = row_pk tk,
        sle_event_type = (if first_response_due now (vals tk) then SE_FIRST_RESPONSE_BREACHED else SE_RESOLUTION_BREACHED),
        sle_occurred_at = now, sle_metadata = []\<rparr>)
     (bnd (follow_opt sla_policies (tk_applied_sla_policy (vals tk))) (\<lambda>policy.
      if (case policy of None \<Rightarrow> False | Some p \<Rightarrow> pol_escalate_on_breach (vals p)) \<and> tk_status (vals tk) \<noteq> TS_ESCALATED
      then
        bnd (save_ticket now
              (\<lambda>ob v. v\<lparr>tk_status := tk_status ob, tk_escalated_at := tk_escalated_at ob, tk_escalation_reason := tk_escalation_reason ob\<rparr>)
              (set_vals (\<lambda>v. v\<lparr>tk_status := TS_ESCALATED, tk_escalated_at := Some now, tk_escalation_reason := ''sla_breach''\<rparr>) tk)) (\<lambda>tk.
        add_sla_event now \<lparr>sle_ticket = row_pk tk, sle_event_type = SE_ESCALATED, sle_occurred_at = now,
          sle_metadata = [(''reason'', JStr ''sla_breach'')]\<rparr>)
      else ret ())))"

text \<open>The rows come in the default order of the model, latest activity first.\<close>

definition mark_sla_breaches :: "int \<Rightarrow> (sup_db, nat) svc" where
  "mark_sla_breaches now =
     atomic (
     bnd (gets (\<lambda>s. sort_key (\<lambda>r. (- tk_last_activity_at (vals r), - created_at r)) (filter (breach_due now) (tickets s)))) (\<lambda>due.
     seqn (for_each due (mark_breach now)) (ret (length due))))"

definition cleanup_stale_support_drafts_task :: "int \<Rightarrow> int \<Rightarrow> (sup_db, nat) svc" where
  "cleanup_stale_support_drafts_task now older_than_days =
     (let stale = (\<lambda>r. is_active r \<and> tk_status (vals r) = TS_DRAFT \<and> created_at r < now - older_than_days * 86400) in
      bnd (gets (\<lambda>s. length (filter stale (tickets s)))) (\<lambda>n.
      seqn (modify (\<lambda>s. s\<lparr>tickets := qs_update stale now (\<lambda>v. v\<lparr>tk_status := TS_ARCHIVED\<rparr>) (tickets s)\<rparr>))
      (ret n)))"

definition daily_support_digest_task :: "sup_db \<Rightarrow> nat \<times> nat \<times> nat" where
  "daily_support_digest_task s =
     (let open_tickets = open_queue (objects (tickets s))
      in (length open_tickets, length (filter (\<lambda>r. tk_assigned_to (vals r) = None) open_tickets),
          length (filter (\<lambda>r. tk_sla_breached_at (vals r) \<noteq> None) open_tickets)))"

section \<open>What the owner sees\<close>

definition message_queryset :: "bool \<Rightarrow> ticket_message table \<Rightarrow> ticket_message table" where
  "message_queryset include_internal t = filter (\<lambda>m. include_internal \<or> \<not> tm_is_internal (vals m)) (objects t)"

definition attachment_queryset :: "bool \<Rightarrow> ticket_attachment table \<Rightarrow> ticket_attachment table" where
  "attachment_queryset include_internal t =
     filter (\<lambda>a. include_internal \<or> ta_visibility (vals a) \<noteq> VIS_INTERNAL_ONLY) (objects t)"

definition get_user_ticket_by_number :: "nat \<Rightarrow> string \<Rightarrow> ticket table \<Rightarrow> ticket row option" where
  "get_user_ticket_by_number user number t =
     find (\<lambda>r. tk_owner (vals r) = user \<and> tk_ticket_number (vals r) = number) (objects t)"

definition get_user_ticket_timeline :: "nat \<Rightarrow> ticket_message table \<Rightarrow> ticket_message table" where
  "get_user_ticket_timeline k t = filter (\<lambda>m. tm_ticket (vals m) = k) (message_queryset False t)"

end
