(* ===== verification/Support_Tree.thy ===== *)
theory Support_Tree
  imports Support_Taxonomy
begin

text \<open>
  The category tree stays a tree: every row has the depth and the path that its parent gives it, so no category is its own
  ancestor, and the comparison of paths finds every descendant. Moving a category rewrites exactly the paths of
  its descendants, with a recursion no deeper than the tree.
\<close>

section \<open>Coherent rows\<close>

definition parent_stored :: "category table \<Rightarrow> category \<Rightarrow> bool" where
  "parent_stored t v = (case cat_parent v of None \<Rightarrow> True | Some p \<Rightarrow> tbl_all p t \<noteq> None)"

definition placed :: "category table \<Rightarrow> category row \<Rightarrow> bool" where
  "placed t r = (fill_path t (vals r) = vals r)"

definition rows_ok :: "category table \<Rightarrow> bool" where
  "rows_ok t = (distinct (map row_pk t) \<and> list_all (\<lambda>r. parent_stored t (vals r) \<and> slug_ok (cat_slug (vals r))) t)"

definition category_tree :: "category table \<Rightarrow> bool" where
  "category_tree t = (rows_ok t \<and> list_all (placed t) t)"

text \<open>Rows whose keys are not in a set of exceptions are placed.\<close>

definition placed_except :: "nat set \<Rightarrow> category table \<Rightarrow> bool" where
  "placed_except X t = (\<forall>r \<in> set t. row_pk r \<in> X \<or> placed t r)"

definition kids :: "nat \<Rightarrow> category table \<Rightarrow> nat set" where
  "kids k t = row_pk ` {r \<in> set t. cat_parent (vals r) = Some k}"

text \<open>What a change of paths leaves of a row.\<close>

definition shape :: "category row \<Rightarrow> category row" where
  "shape r = r\<lparr>updated_at := 0, vals := (vals r)\<lparr>cat_path := [], cat_depth := 0\<rparr>\<rparr>"

definition parent_rel :: "category table \<Rightarrow> (nat \<times> nat) set" where
  "parent_rel t = {(row_pk r, p) | r p. r \<in> set t \<and> cat_parent (vals r) = Some p}"

section \<open>Shapes\<close>

lemma shape_simps [simp]:
  "row_pk (shape r) = row_pk r" "cat_parent (vals (shape r)) = cat_parent (vals r)"
  "cat_slug (vals (shape r)) = cat_slug (vals r)"
  by (simp_all add: shape_def)

lemma shape_cong:
  assumes "map shape t' = map shape t" "\<And>r. f (shape r) = f r"
  shows "map f t' = map f t"
proof -
  have "map f u = map f (map shape u)" for u using assms(2) by simp
  then show ?thesis using assms(1) by metis
qed

lemma map_shape:
  assumes "map shape t' = map shape t"
  shows "map row_pk t' = map row_pk t"
    "(\<lambda>r. (row_pk r, cat_parent (vals r))) ` set t' = (\<lambda>r. (row_pk r, cat_parent (vals r))) ` set t" "rows_ok t' = rows_ok t"
proof -
  show 1: "map row_pk t' = map row_pk t" by (rule shape_cong [OF assms]) simp
  have "map (\<lambda>r. (row_pk r, cat_parent (vals r))) t' = map (\<lambda>r. (row_pk r, cat_parent (vals r))) t"
    by (rule shape_cong [OF assms]) simp
  then show "(\<lambda>r. (row_pk r, cat_parent (vals r))) ` set t' = (\<lambda>r. (row_pk r, cat_parent (vals r))) ` set t"
    by (metis list.set_map)
  have "tbl_all p t' = None \<longleftrightarrow> tbl_all p t = None" for p
    using 1 by (metis list.set_map tbl_all_None_iff)
  then have ps: "parent_stored t' v = parent_stored t v" for v by (simp add: parent_stored_def split: option.split)
  let ?ok = "\<lambda>r. parent_stored t (vals r) \<and> slug_ok (cat_slug (vals r))"
  have eq: "map ?ok t' = map ?ok t" by (rule shape_cong [OF assms]) (simp add: parent_stored_def)
  have "list_all ?ok t' = list_all (\<lambda>b. b) (map ?ok t')" by (simp add: list.pred_map comp_def)
  also have "\<dots> = list_all ?ok t" unfolding eq by (simp add: list.pred_map comp_def)
  finally have "list_all ?ok t' = list_all ?ok t" .
  with 1 ps show "rows_ok t' = rows_ok t" by (simp add: rows_ok_def)
qed

lemma kids_shape: "map shape t' = map shape t \<Longrightarrow> kids k t' = kids k t"
proof -
  have "kids k u = {a. (a, Some k) \<in> (\<lambda>r. (row_pk r, cat_parent (vals r))) ` set u}" for u by (force simp: kids_def)
  then show "map shape t' = map shape t \<Longrightarrow> kids k t' = kids k t" using map_shape(2) [of t' t] by simp
qed

lemma fill_path_simps [simp]:
  "cat_parent (fill_path t v) = cat_parent v" "cat_slug (fill_path t v) = cat_slug v" "cat_department (fill_path t v) = cat_department v"
  by (simp_all add: fill_path_def split: option.split)

lemma shape_fill_path [simp]: "shape (r\<lparr>updated_at := now, vals := fill_path t (vals r)\<rparr>) = shape r"
  by (simp add: shape_def fill_path_def split: option.split)

lemma resave_shape: "map shape (resave_path now k t) = map shape t"
  by (simp add: resave_path_def tbl_upd_def)

text \<open>The path of a row depends on its parent row only.\<close>

lemma fill_path_cong:
  "(\<And>p. cat_parent v = Some p \<Longrightarrow> map_option vals (tbl_all p u) = map_option vals (tbl_all p t)) \<Longrightarrow> fill_path u v = fill_path t v"
  by (auto simp: fill_path_def split: option.splits)

lemma fill_path_fill_path: "fill_path t (fill_path t v) = fill_path t v"
  by (simp add: fill_path_def split: option.split)

section \<open>Saving one row\<close>

lemma resave_placed:
  assumes "placed_except (insert k X) t" "(k, k) \<notin> parent_rel t"
  shows "placed_except (X \<union> kids k t) (resave_path now k t)"
  unfolding placed_except_def
proof
  fix r' assume "r' \<in> set (resave_path now k t)"
  then obtain r where r: "r \<in> set t" "r' = (if row_pk r = k then r\<lparr>updated_at := now, vals := fill_path t (vals r)\<rparr> else r)"
    by (auto simp: resave_path_def set_tbl_upd)
  have other: "map_option vals (tbl_all p (resave_path now k t)) = map_option vals (tbl_all p t)" if "p \<noteq> k" for p
    using that by (simp add: resave_path_def tbl_all_upd option.map_comp comp_def)
  show "row_pk r' \<in> X \<union> kids k t \<or> placed (resave_path now k t) r'"
  proof (cases "row_pk r = k")
    case True
    then have "cat_parent (vals r) \<noteq> Some k" using assms(2) r(1) by (force simp: parent_rel_def)
    then have "fill_path (resave_path now k t) (fill_path t (vals r)) = fill_path t (fill_path t (vals r))"
      by (intro fill_path_cong other) auto
    with True r show ?thesis by (simp add: placed_def fill_path_fill_path)
  next
    case False
    show ?thesis
    proof (cases "cat_parent (vals r) = Some k")
      case True
      with False r show ?thesis by (auto simp: kids_def)
    next
      case no: False
      then have "fill_path (resave_path now k t) (vals r) = fill_path t (vals r)" by (intro fill_path_cong other) auto
      with assms(1) False r show ?thesis by (auto simp: placed_except_def placed_def)
    qed
  qed
qed

section \<open>Refreshing the descendants\<close>

definition ranked :: "(nat \<Rightarrow> nat) \<Rightarrow> nat \<Rightarrow> category table \<Rightarrow> bool" where
  "ranked rk M t = (\<forall>r \<in> set t. rk (row_pk r) \<le> M \<and> (\<forall>p. cat_parent (vals r) = Some p \<longrightarrow> rk p < rk (row_pk r)))"

lemma ranked_shape:
  assumes "map shape t' = map shape t"
  shows "ranked rk M t' = ranked rk M t"
proof -
  let ?P = "\<lambda>(a, q). rk a \<le> M \<and> (\<forall>p. q = Some p \<longrightarrow> rk p < rk a)"
  have "ranked rk M u = Ball ((\<lambda>r. (row_pk r, cat_parent (vals r))) ` set u) ?P" for u
    by (simp add: ranked_def)
  then show ?thesis by (simp only: map_shape(2) [OF assms])
qed

lemma ranked_irrefl: "ranked rk M t \<Longrightarrow> (k, k) \<notin> parent_rel t"
  by (auto simp: ranked_def parent_rel_def)

lemma set_children: "set (children k t) = {r \<in> set t. cat_parent (vals r) = Some k}"
  by (auto simp: children_def)

lemma refresh_ok:
  assumes "ranked rk M t" "k \<in> row_pk ` set t" "placed_except (X \<union> kids k t) t" "M < n + rk k"
  shows "\<exists>t'. refresh_descendant_paths n now k t = Some t' \<and> map shape t' = map shape t \<and> placed_except X t'"
  using assms
proof (induction n arbitrary: k t X)
  case 0
  then show ?case by (force simp: ranked_def)
next
  case (Suc n)
  let ?f = "\<lambda>c u. refresh_descendant_paths n now (row_pk c) (resave_path now (row_pk c) u)"
  have loop: "\<exists>t'. fold_opt ?f cs u = Some t' \<and> map shape t' = map shape t \<and> placed_except X t'"
    if "map shape u = map shape t" "placed_except (X \<union> row_pk ` set cs) u" "set cs \<subseteq> set (children k t)" for cs u
    using that
  proof (induction cs arbitrary: u)
    case Nil
    then show ?case by simp
  next
    case (Cons c cs)
    let ?v = "resave_path now (row_pk c) u"
    have sh: "map shape ?v = map shape t" using Cons.prems(1) by (simp add: resave_shape)
    have c: "c \<in> set t" "cat_parent (vals c) = Some k" using Cons.prems(3) by (auto simp: set_children)
    then have rk: "rk k < rk (row_pk c)" using Suc.prems(1) by (auto simp: ranked_def)
    have "(row_pk c, row_pk c) \<notin> parent_rel u"
      using Suc.prems(1) Cons.prems(1) ranked_irrefl ranked_shape by metis
    moreover have "placed_except (insert (row_pk c) (X \<union> row_pk ` set cs)) u" using Cons.prems(2) by simp
    ultimately have "placed_except ((X \<union> row_pk ` set cs) \<union> kids (row_pk c) u) ?v" by (intro resave_placed)
    then have pe: "placed_except ((X \<union> row_pk ` set cs) \<union> kids (row_pk c) ?v) ?v"
      using kids_shape [of ?v u] resave_shape by metis
    have pk: "row_pk c \<in> row_pk ` set ?v" using c(1) map_shape(1) [OF sh] by (metis image_eqI list.set_map)
    have "ranked rk M ?v" using Suc.prems(1) ranked_shape [OF sh] by simp
    from Suc.IH [OF this pk pe] rk Suc.prems(4) obtain w where
      w: "?f c u = Some w" "map shape w = map shape ?v" "placed_except (X \<union> row_pk ` set cs) w" by auto
    from Cons.IH [of w] w sh Cons.prems(3) show ?case by simp
  qed
  have "row_pk ` set (children k t) = kids k t" by (simp add: set_children kids_def)
  with loop [of t "children k t"] Suc.prems(3) show ?case by simp
qed

section \<open>Ancestors and paths\<close>

lemma placedD: "placed t r \<Longrightarrow> cat_path (vals r) = cat_path (fill_path t (vals r)) \<and> cat_depth (vals r) = cat_depth (fill_path t (vals r))"
  by (simp add: placed_def)

lemma category_tree_row:
  assumes "category_tree t" "r \<in> set t" "cat_parent (vals r) = Some p"
  obtains q where "q \<in> set t" "row_pk q = p" "tbl_all p t = Some q" "cat_depth (vals r) = cat_depth (vals q) + 1"
    "cat_path (vals r) = child_path (cat_path (vals q)) (cat_slug (vals r))"
proof -
  have ok: "parent_stored t (vals r)" "placed t r" using assms(1,2) by (auto simp: category_tree_def rows_ok_def list_all_iff)
  then obtain q where q: "tbl_all p t = Some q" using assms(3) by (auto simp: parent_stored_def)
  with placedD [OF ok(2)] assms(3) have "cat_depth (vals r) = cat_depth (vals q) + 1"
    "cat_path (vals r) = child_path (cat_path (vals q)) (cat_slug (vals r))"
    by (simp_all add: fill_path_def)
  with q tbl_all_Some [OF q] that show thesis by blast
qed

lemma rstrip_slash_snoc:
  assumes "CHR ''/'' \<notin> set (z @ [c])"
  shows "rstrip_slash (y @ (z @ [c]) @ ''/'') = y @ z @ [c]"
proof -
  have c: "(c = CHR ''/'') = False" using assms by (metis in_set_conv_decomp)
  have "rev (y @ (z @ [c]) @ ''/'') = CHR ''/'' # c # rev z @ rev y"
    by (simp only: rev_append rev.simps append.simps append_assoc append_Nil)
  then have "rstrip_slash (y @ (z @ [c]) @ ''/'') = rev (c # rev z @ rev y)"
    unfolding rstrip_slash_def by (simp only: dropWhile.simps c if_False if_True refl simp_thms)
  then show ?thesis by (simp only: rev.simps rev_append rev_rev_ident append_assoc)
qed

lemma rstrip_slash_slug:
  assumes "slug_ok x"
  shows "rstrip_slash (y @ x @ ''/'') = y @ x"
proof -
  obtain z c where x: "x = z @ [c]" using assms by (metis rev_exhaust slug_ok_def)
  have "CHR ''/'' \<notin> set (z @ [c])" using assms unfolding slug_ok_def x by (rule conjunct2)
  then show ?thesis unfolding x by (rule rstrip_slash_snoc)
qed

lemma category_path_form:
  assumes "category_tree t" "r \<in> set t"
  shows "\<exists>y. cat_path (vals r) = y @ cat_slug (vals r) @ ''/''"
proof (cases "cat_parent (vals r)")
  case None
  have "placed t r" using assms by (auto simp: category_tree_def list_all_iff)
  from placedD [OF this] None have "cat_path (vals r) = ''/'' @ cat_slug (vals r) @ ''/''" by (simp add: fill_path_def)
  then show ?thesis by blast
next
  case (Some p)
  obtain q where "q \<in> set t" "row_pk q = p" "tbl_all p t = Some q" "cat_depth (vals r) = cat_depth (vals q) + 1"
    "cat_path (vals r) = child_path (cat_path (vals q)) (cat_slug (vals r))"
    by (rule category_tree_row [OF assms Some])
  then have "cat_path (vals r) = (rstrip_slash (cat_path (vals q)) @ ''/'') @ cat_slug (vals r) @ ''/''"
    by (simp add: child_path_def)
  then show ?thesis by blast
qed

text \<open>The path of a child is the path of its parent followed by its slug.\<close>

lemma child_extends:
  assumes "category_tree t" "q \<in> set t"
  shows "child_path (cat_path (vals q)) s = cat_path (vals q) @ s @ ''/''"
proof -
  obtain y where y: "cat_path (vals q) = y @ cat_slug (vals q) @ ''/''" using category_path_form [OF assms] by blast
  have "slug_ok (cat_slug (vals q))" using assms by (auto simp: category_tree_def rows_ok_def list_all_iff)
  from rstrip_slash_slug [OF this, of y] y show ?thesis by (simp add: child_path_def)
qed

lemma category_tree_unique:
  "category_tree t \<Longrightarrow> r \<in> set t \<Longrightarrow> q \<in> set t \<Longrightarrow> row_pk r = row_pk q \<Longrightarrow> r = q"
  by (auto simp: category_tree_def rows_ok_def intro: distinct_pk_eq)

lemma child_below:
  assumes "category_tree t" "r \<in> set t" "cat_parent (vals r) = Some (row_pk q)" "q \<in> set t"
  shows "cat_depth (vals r) = cat_depth (vals q) + 1 \<and> (\<exists>z. cat_path (vals r) = cat_path (vals q) @ z)"
proof -
  obtain q' where q': "q' \<in> set t" "row_pk q' = row_pk q" "cat_depth (vals r) = cat_depth (vals q') + 1"
    "cat_path (vals r) = child_path (cat_path (vals q')) (cat_slug (vals r))"
    by (rule category_tree_row [OF assms(1,2,3)])
  then have "q' = q" using category_tree_unique [OF assms(1)] assms(4) by blast
  with q' show ?thesis using child_extends [OF assms(1,4)] by auto
qed

lemma parent_rel_trancl:
  assumes "category_tree t" "(x, k) \<in> (parent_rel t)\<^sup>+" "c \<in> set t" "row_pk c = k"
  shows "\<exists>r \<in> set t. row_pk r = x \<and> cat_depth (vals c) < cat_depth (vals r) \<and> (\<exists>z. cat_path (vals r) = cat_path (vals c) @ z)"
  using assms(2)
proof (induction x rule: converse_trancl_induct)
  case (base y)
  then obtain r where r: "r \<in> set t" "row_pk r = y" "cat_parent (vals r) = Some (row_pk c)"
    using assms(4) by (auto simp: parent_rel_def)
  with child_below [OF assms(1) r(1,3) assms(3)] show ?case by auto
next
  case (step y z)
  then obtain q where q: "q \<in> set t" "row_pk q = z" "cat_depth (vals c) < cat_depth (vals q)"
    "\<exists>z. cat_path (vals q) = cat_path (vals c) @ z" by blast
  obtain r where r: "r \<in> set t" "row_pk r = y" "cat_parent (vals r) = Some (row_pk q)"
    using step(1) q(2) by (auto simp: parent_rel_def)
  with child_below [OF assms(1) r(1,3) q(1)] q show ?case by (intro bexI [of _ r]) auto
qed

lemma category_tree_acyclic:
  assumes "category_tree t"
  shows "acyclic (parent_rel t)"
proof (rule acyclicI, intro allI notI)
  fix x assume x: "(x, x) \<in> (parent_rel t)\<^sup>+"
  then obtain p where "(x, p) \<in> parent_rel t" by (meson tranclD)
  then obtain c where c: "c \<in> set t" "row_pk c = x" by (auto simp: parent_rel_def)
  obtain r where "r \<in> set t" "row_pk r = x" "cat_depth (vals c) < cat_depth (vals r)"
    using parent_rel_trancl [OF assms x c] by blast
  then show False using category_tree_unique [OF assms] c by auto
qed

text \<open>The guard of a move finds every descendant.\<close>

lemma guard_excludes_descendants:
  assumes "category_tree t" "c \<in> set t" "p \<in> set t" "row_pk p \<noteq> row_pk c" "\<not> has_prefix (cat_path (vals c)) (cat_path (vals p))"
  shows "(row_pk p, row_pk c) \<notin> (parent_rel t)\<^sup>*"
proof
  assume "(row_pk p, row_pk c) \<in> (parent_rel t)\<^sup>*"
  then have "(row_pk p, row_pk c) \<in> (parent_rel t)\<^sup>+" using assms(4) by (metis rtranclD)
  then obtain r where "r \<in> set t" "row_pk r = row_pk p" "\<exists>z. cat_path (vals r) = cat_path (vals c) @ z"
    using parent_rel_trancl [OF assms(1) _ assms(2) refl] by blast
  then have "\<exists>z. cat_path (vals p) = cat_path (vals c) @ z" using category_tree_unique [OF assms(1) _ assms(3)] by metis
  then have "has_prefix (cat_path (vals c)) (cat_path (vals p))" by (auto simp: has_prefix_def)
  with assms(5) show False by blast
qed

section \<open>The operations keep the tree\<close>

lemma category_tree_alt: "category_tree t = (rows_ok t \<and> placed_except {} t)"
  by (simp add: category_tree_def placed_except_def list_all_iff)

definition depth_of :: "category table \<Rightarrow> nat \<Rightarrow> nat" where
  "depth_of t k = (case tbl_all k t of None \<Rightarrow> 0 | Some r \<Rightarrow> cat_depth (vals r))"

lemma depth_of_row: "category_tree t \<Longrightarrow> r \<in> set t \<Longrightarrow> depth_of t (row_pk r) = cat_depth (vals r)"
  by (simp add: depth_of_def category_tree_def rows_ok_def tbl_all_eq)

lemma depth_of_parent: "category_tree t \<Longrightarrow> r \<in> set t \<Longrightarrow> cat_parent (vals r) = Some p \<Longrightarrow> depth_of t (row_pk r) = depth_of t p + 1"
  by (frule (1) depth_of_row, erule (2) category_tree_row) (simp add: depth_of_def [of t p])

text \<open>A rank for the tree after a move: the moved branch lies below everything else.\<close>

lemma move_ranked:
  assumes "category_tree t" "\<forall>r \<in> set t. cat_depth (vals r) < n" "distinct (map row_pk u)"
    and "\<And>r. r \<in> set u \<Longrightarrow> row_pk r \<noteq> k \<Longrightarrow> \<exists>q \<in> set t. row_pk q = row_pk r \<and> cat_parent (vals q) = cat_parent (vals r)"
    and "\<And>r p. r \<in> set u \<Longrightarrow> row_pk r = k \<Longrightarrow> cat_parent (vals r) = Some p \<Longrightarrow> p \<in> row_pk ` set t \<and> (p, k) \<notin> (parent_rel t)\<^sup>*"
    and "k \<in> row_pk ` set t"
  shows "ranked (\<lambda>x. depth_of t x + (if (x, k) \<in> (parent_rel t)\<^sup>* then n else 0)) (n - 1 + n) u"
  unfolding ranked_def
proof (intro ballI conjI allI impI)
  have d: "depth_of t x < n" if "x \<in> row_pk ` set t" for x
    using that assms(1,2) depth_of_row by auto
  fix r assume r: "r \<in> set u"
  have "row_pk r \<in> row_pk ` set t" using assms(4) [OF r] assms(6) by (metis image_eqI)
  from d [OF this] show "depth_of t (row_pk r) + (if (row_pk r, k) \<in> (parent_rel t)\<^sup>* then n else 0) \<le> n - 1 + n"
    by (cases n) simp_all
  fix p assume p: "cat_parent (vals r) = Some p"
  show "depth_of t p + (if (p, k) \<in> (parent_rel t)\<^sup>* then n else 0)
      < depth_of t (row_pk r) + (if (row_pk r, k) \<in> (parent_rel t)\<^sup>* then n else 0)"
  proof (cases "row_pk r = k")
    case True
    with assms(5) [OF r True p] d [of p] show ?thesis by auto
  next
    case False
    then obtain q where q: "q \<in> set t" "row_pk q = row_pk r" "cat_parent (vals q) = Some p" using assms(4) [OF r] p by auto
    then have "(row_pk r, p) \<in> parent_rel t" unfolding parent_rel_def mem_Collect_eq by (metis prod.inject)
    then have "(p, k) \<in> (parent_rel t)\<^sup>* \<Longrightarrow> (row_pk r, k) \<in> (parent_rel t)\<^sup>*" by (rule converse_rtrancl_into_rtrancl)
    then show ?thesis using depth_of_parent [OF assms(1) q(1,3)] q(2) by auto
  qed
qed

lemma set_patch_table: "set (patch_table k now f act t) = (\<lambda>r. if row_pk r = k then patch_row now f act r else r) ` set t"
  by (simp add: patch_table_def)

lemma patch_row_simps [simp]: "row_pk (patch_row now f act r) = row_pk r" "vals (patch_row now f act r) = f (vals r)"
  by (auto simp: patch_row_def Let_def dest: arg_cong [where f = vals])

lemma map_row_pk_patch_table [simp]: "map row_pk (patch_table k now f act t) = map row_pk t"
  by (simp add: patch_table_def)

lemma tbl_all_patch_table:
  "tbl_all j (patch_table k now f act t) = map_option (\<lambda>r. if j = k then patch_row now f act r else r) (tbl_all j t)"
  by (induction t) (auto simp: tbl_all_def patch_table_def)

text \<open>The table after the moved category is saved: only its children are out of place.\<close>

lemma saved_move:
  assumes tree: "category_tree t" and c: "c \<in> set t" "row_pk c = k"
    and v: "cat_slug v = cat_slug (vals c)" "parent_stored t v" "cat_parent v \<noteq> Some k"
    and u_def: "u = patch_table k now (\<lambda>_. fill_path t v) act t"
  shows "rows_ok u \<and> placed_except (kids k u) u"
proof
  have pk: "tbl_all p u = None \<longleftrightarrow> tbl_all p t = None" for p by (simp add: u_def tbl_all_patch_table)
  have other: "map_option vals (tbl_all p u) = map_option vals (tbl_all p t)" if "p \<noteq> k" for p
    using that by (simp add: u_def tbl_all_patch_table option.map_comp comp_def)
  have row: "\<exists>q \<in> set t. row_pk r = row_pk q \<and> vals r = (if row_pk q = k then fill_path t v else vals q)" if "r \<in> set u" for r
    using that by (auto simp: u_def set_patch_table)
  have only: "q = c" if "q \<in> set t" "row_pk q = k" for q using category_tree_unique [OF tree] that c by auto
  have "parent_stored u (vals r) \<and> slug_ok (cat_slug (vals r))" if r: "r \<in> set u" for r
  proof -
    obtain q where q: "q \<in> set t" "row_pk r = row_pk q" "vals r = (if row_pk q = k then fill_path t v else vals q)"
      using row [OF r] by blast
    have "parent_stored t (vals q)" "slug_ok (cat_slug (vals q))" "slug_ok (cat_slug (vals c))"
      using tree q(1) c(1) by (auto simp: category_tree_def rows_ok_def list_all_iff)
    with q v show ?thesis by (auto simp: parent_stored_def pk split: option.splits)
  qed
  then show "rows_ok u" using tree by (simp add: rows_ok_def category_tree_def list_all_iff u_def)
  show "placed_except (kids k u) u" unfolding placed_except_def
  proof
    fix r assume r: "r \<in> set u"
    then obtain q where q: "q \<in> set t" "row_pk r = row_pk q" "vals r = (if row_pk q = k then fill_path t v else vals q)"
      using row by blast
    show "row_pk r \<in> kids k u \<or> placed u r"
    proof (cases "cat_parent (vals r) = Some k")
      case True
      with r show ?thesis by (auto simp: kids_def)
    next
      case False
      then have "fill_path u (vals r) = fill_path t (vals r)" by (intro fill_path_cong other) auto
      moreover have "placed t q" using tree q(1) by (auto simp: category_tree_def list_all_iff)
      ultimately show ?thesis using q by (auto simp: placed_def fill_path_fill_path)
    qed
  qed
qed

text \<open>A move that passed the guard ends, if the tree is less deep than the recursion limit, with a tree that
  differs from the saved table in paths and depths only.\<close>

lemma move_refreshes:
  assumes tree: "category_tree t" and deep: "\<forall>r \<in> set t. cat_depth (vals r) < n" and c: "c \<in> set t" "row_pk c = k"
    and v: "cat_slug v = cat_slug (vals c)" "parent_stored t v"
    and guard: "\<And>p. cat_parent v = Some p \<Longrightarrow> (p, k) \<notin> (parent_rel t)\<^sup>*"
    and u_def: "u = patch_table k now (\<lambda>_. fill_path t v) act t"
  shows "\<exists>t'. refresh_descendant_paths n now k u = Some t' \<and> map shape t' = map shape u \<and> category_tree t'"
proof -
  have "cat_parent v \<noteq> Some k" using guard by blast
  from saved_move [OF tree c v this u_def] have u: "rows_ok u" "placed_except ({} \<union> kids k u) u" by simp_all
  have k: "k \<in> row_pk ` set t" "k \<in> row_pk ` set u"
    using c map_row_pk_patch_table [of k now "\<lambda>_. fill_path t v" act t] unfolding u_def by (force, metis image_eqI list.set_map)
  let ?rk = "\<lambda>x. depth_of t x + (if (x, k) \<in> (parent_rel t)\<^sup>* then n else 0)"
  have "ranked ?rk (n - 1 + n) u"
  proof (rule move_ranked [OF tree deep])
    show "distinct (map row_pk u)" using u(1) by (simp add: rows_ok_def)
  next
    fix r p assume r: "r \<in> set u" "row_pk r = k" "cat_parent (vals r) = Some p"
    obtain q where q: "r = (if row_pk q = k then patch_row now (\<lambda>_. fill_path t v) act q else q)"
      using r(1) unfolding u_def set_patch_table by blast
    with r(2) have "row_pk q = k" by (simp split: if_splits)
    with q r(3) have "cat_parent v = Some p" by simp
    with guard v(2) show "p \<in> row_pk ` set t \<and> (p, k) \<notin> (parent_rel t)\<^sup>*"
      using tbl_all_None_iff [of p t] by (simp add: parent_stored_def)
  next
    fix r assume "r \<in> set u" "row_pk r \<noteq> k"
    then have "r \<in> set t" by (auto simp: u_def set_patch_table split: if_splits)
    then show "\<exists>q \<in> set t. row_pk q = row_pk r \<and> cat_parent (vals q) = cat_parent (vals r)" by blast
  qed (rule k(1))
  moreover have "n - 1 + n < n + ?rk k" using c deep by fastforce
  ultimately obtain t' where t': "refresh_descendant_paths n now k u = Some t'" "map shape t' = map shape u" "placed_except {} t'"
    using refresh_ok [OF _ k(2) u(2)] by blast
  have "rows_ok t'" using map_shape(3) [OF t'(2)] u(1) by (rule iffD2)
  with t' show ?thesis unfolding category_tree_alt by blast
qed

text \<open>A larger recursion limit changes nothing of a refresh that ended.\<close>

lemma fold_opt_mono:
  "(\<And>x t u. f x t = Some u \<Longrightarrow> g x t = Some u) \<Longrightarrow> fold_opt f xs t = Some u \<Longrightarrow> fold_opt g xs t = Some u"
proof (induction xs arbitrary: t)
  case (Cons x xs)
  from Cons.prems(2) obtain v where v: "f x t = Some v" "fold_opt f xs v = Some u" by (simp split: option.splits)
  from Cons.prems(1) [OF v(1)] Cons.IH [OF Cons.prems(1) v(2)] show ?case by simp
qed simp

lemma refresh_mono:
  "refresh_descendant_paths n now k t = Some u \<Longrightarrow> n \<le> m \<Longrightarrow> refresh_descendant_paths m now k t = Some u"
proof (induction n arbitrary: k t u m)
  case (Suc n)
  obtain m' where m: "m = Suc m'" "n \<le> m'" using Suc.prems(2) by (cases m) simp_all
  have deeper: "refresh_descendant_paths m' now (row_pk c) (resave_path now (row_pk c) v) = Some w"
    if "refresh_descendant_paths n now (row_pk c) (resave_path now (row_pk c) v) = Some w" for c v w
    by (rule Suc.IH [OF that m(2)])
  show ?case unfolding m(1) refresh_descendant_paths.simps
    by (rule fold_opt_mono [OF deeper Suc.prems(1) [unfolded refresh_descendant_paths.simps]])
qed simp

lemma refresh_keeps_tree:
  assumes "refresh_descendant_paths n now k (patch_table k now (\<lambda>_. fill_path t v) act t) = Some t'"
    and "category_tree t" "c \<in> set t" "row_pk c = k" "cat_slug v = cat_slug (vals c)" "parent_stored t v"
    and "\<And>p. cat_parent v = Some p \<Longrightarrow> (p, k) \<notin> (parent_rel t)\<^sup>*"
  shows "category_tree t'"
proof -
  define m where "m = n + Suc (fold max (map (cat_depth \<circ> vals) t) 0)"
  have "\<forall>r \<in> set t. cat_depth (vals r) < m"
  proof
    fix r assume "r \<in> set t"
    then have "cat_depth (vals r) \<in> set (map (cat_depth \<circ> vals) t)" by simp
    with fold_max_ge [of "cat_depth (vals r)" "map (cat_depth \<circ> vals) t" 0] show "cat_depth (vals r) < m" by (simp add: m_def)
  qed
  from move_refreshes [OF assms(2) this assms(3-7) refl] obtain t'' where
    "refresh_descendant_paths m now k (patch_table k now (\<lambda>_. fill_path t v) act t) = Some t''" "category_tree t''" by blast
  moreover have "n \<le> m" by (simp add: m_def)
  ultimately show ?thesis using refresh_mono [OF assms(1)] by fastforce
qed

lemma follow_opt_Inr [svc_inv]:
  "follow_opt tab k s = (Inr r, t) \<longleftrightarrow> t = s \<and> (case k of None \<Rightarrow> r = None | Some j \<Rightarrow> r = tbl_all j (tab s) \<and> r \<noteq> None)"
  by (auto simp: follow_opt_def svc_inv split: option.splits)

lemma assert_valid_Inr [svc_inv]:
  "assert_valid_category_parent c p d s = (Inr x, t) \<longleftrightarrow> t = s \<and>
     (case p of None \<Rightarrow> True | Some q \<Rightarrow> cat_department (vals q) = d \<and>
       (case c of None \<Rightarrow> True | Some r \<Rightarrow> row_pk q \<noteq> row_pk r \<and> \<not> has_prefix (cat_path (vals r)) (cat_path (vals q))))"
  by (auto simp: assert_valid_category_parent_def svc_inv split: option.splits)

lemma update_category_Inr:
  assumes "update_category E now k p s = (Inr y, t)"
  shows "t = s \<or> (\<exists>c t'. tbl_all k (categories s) = Some c \<and> t = s\<lparr>categories := t'\<rparr> \<and>
      (case cat_parent (apply_category_patch p (vals c)) of
         None \<Rightarrow> True
       | Some j \<Rightarrow> \<exists>q. tbl_all j (categories s) = Some q \<and> row_pk q \<noteq> row_pk c \<and> \<not> has_prefix (cat_path (vals c)) (cat_path (vals q))) \<and>
      refresh_descendant_paths (se_recursion_limit E) now k
        (patch_table k now (\<lambda>_. fill_path (categories s) (apply_category_patch p (vals c))) (ctp_is_active p) (categories s)) = Some t')"
proof -
  obtain c where c: "tbl_all k (categories s) = Some c" using assms by (auto simp: update_category_def svc_inv)
  show ?thesis
  proof (cases "cat_parent (apply_category_patch p (vals c))")
    case None
    with c assms show ?thesis by (auto simp: update_category_def svc_inv Let_def split: if_splits option.splits)
  next
    case (Some j)
    with c assms obtain q where "tbl_all j (categories s) = Some q" by (auto simp: update_category_def svc_inv Let_def)
    with Some c assms show ?thesis by (auto simp: update_category_def svc_inv Let_def split: if_splits option.splits)
  qed
qed

lemma update_category_tree: "preserves (\<lambda>s. category_tree (categories s)) (update_category E now k p)"
proof (rule preserves_transactional)
  show "transactional (update_category E now k p)" by (simp add: update_category_def transactional_atomic)
  fix s y t assume tree: "category_tree (categories s)" and run: "update_category E now k p s = (Inr y, t)"
  consider "t = s" | c t' where "tbl_all k (categories s) = Some c" "t = s\<lparr>categories := t'\<rparr>"
      "case cat_parent (apply_category_patch p (vals c)) of
         None \<Rightarrow> True
       | Some j \<Rightarrow> \<exists>q. tbl_all j (categories s) = Some q \<and> row_pk q \<noteq> row_pk c \<and> \<not> has_prefix (cat_path (vals c)) (cat_path (vals q))"
      "refresh_descendant_paths (se_recursion_limit E) now k
        (patch_table k now (\<lambda>_. fill_path (categories s) (apply_category_patch p (vals c))) (ctp_is_active p) (categories s)) = Some t'"
    using update_category_Inr [OF run] by blast
  then show "category_tree (categories t)"
  proof cases
    case 1
    with tree show ?thesis by simp
  next
    case (2 c t')
    let ?v = "apply_category_patch p (vals c)"
    have c: "c \<in> set (categories s)" "row_pk c = k" using tbl_all_Some [OF 2(1)] by auto
    have slug: "cat_slug ?v = cat_slug (vals c)" by (simp add: apply_category_patch_def)
    have stored: "parent_stored (categories s) ?v" using 2(3) by (auto simp: parent_stored_def split: option.splits)
    have "(j, k) \<notin> (parent_rel (categories s))\<^sup>*" if j: "cat_parent ?v = Some j" for j
    proof -
      obtain q where q: "tbl_all j (categories s) = Some q" "row_pk q \<noteq> row_pk c" "\<not> has_prefix (cat_path (vals c)) (cat_path (vals q))"
        using 2(3) j by auto
      with guard_excludes_descendants [OF tree c(1) _ q(2,3)] tbl_all_Some [OF q(1)] c show ?thesis by auto
    qed
    from refresh_keeps_tree [OF 2(4) tree c slug stored this] 2(2) show ?thesis by simp
  qed
qed

text \<open>A new category is placed below its parent; the others do not see it.\<close>

lemma insert_category_tree:
  assumes tree: "category_tree t" and v: "slug_ok (cat_slug v)" "parent_stored t v"
  shows "category_tree (t @ [new_row now (fill_path t v) t])"
proof -
  let ?u = "t @ [new_row now (fill_path t v) t]"
  have ins: "?u = tbl_insert now (fill_path t v) t" by (simp add: tbl_insert_def)
  have look: "tbl_all p ?u = tbl_all p t" if "tbl_all p t \<noteq> None" for p
    using that by (auto simp: tbl_all_snoc)
  have keep: "fill_path ?u w = fill_path t w \<and> parent_stored ?u w" if w: "parent_stored t w" for w
  proof
    show "fill_path ?u w = fill_path t w"
      by (rule fill_path_cong) (use w look in \<open>auto simp: parent_stored_def\<close>)
    show "parent_stored ?u w" using w look by (auto simp: parent_stored_def split: option.splits)
  qed
  have old: "parent_stored t (vals r)" "slug_ok (cat_slug (vals r))" "placed t r" if "r \<in> set t" for r
    using tree that by (auto simp: category_tree_def rows_ok_def list_all_iff)
  have "parent_stored t (fill_path t v)" using v(2) by (simp add: parent_stored_def)
  with keep [OF this] v(1) old keep have "list_all (\<lambda>r. parent_stored ?u (vals r) \<and> slug_ok (cat_slug (vals r)) \<and> placed ?u r) ?u"
    by (auto simp: list_all_iff placed_def fill_path_fill_path)
  moreover have "distinct (map row_pk ?u)" using tree unfolding ins by (simp add: category_tree_def rows_ok_def)
  ultimately show ?thesis by (auto simp: category_tree_def rows_ok_def list_all_iff)
qed

lemma create_category_tree:
  assumes "\<And>x. CHR ''/'' \<notin> set (se_slugify E x)" "slug_ok (se_uuid E)"
  shows "preserves (\<lambda>s. category_tree (categories s)) (create_category E now d title parent description icon order)"
proof (rule preserves_transactional)
  show "transactional (create_category E now d title parent description icon order)" by (simp add: create_category_def)
  fix s y t
  assume tree: "category_tree (categories s)" and run: "create_category E now d title parent description icon order s = (Inr y, t)"
  define v where "v = \<lparr>cat_parent = parent, cat_department = d, cat_title = strip title,
             cat_slug = unique_slug (se_slugify E) (se_uuid E) (map (cat_slug \<circ> vals) (categories s)) 220 (strip title),
             cat_path = [], cat_depth = 0, cat_description = strip description, cat_icon = strip icon, cat_order = order,
             cat_tickets_count = 0, cat_open_tickets_count = 0\<rparr>"
  have t: "t = s\<lparr>categories := categories s @ [new_row now (fill_path (categories s) v) (categories s)]\<rparr>"
    and "parent_stored (categories s) v"
    using run unfolding v_def by (auto simp: create_category_def svc_inv Let_def parent_stored_def split: option.splits)
  moreover have "slug_ok (cat_slug v)" unfolding v_def by (simp add: unique_slug_ok assms)
  ultimately show "category_tree (categories t)" using insert_category_tree [OF tree] by simp
qed

text \<open>Fields outside the tree: the soft-delete flag and the counters.\<close>

lemma placed_alt:
  "placed t r = (case cat_parent (vals r) of
      None \<Rightarrow> cat_depth (vals r) = 0 \<and> cat_path (vals r) = CHR ''/'' # cat_slug (vals r) @ ''/''
    | Some p \<Rightarrow> (case tbl_all p t of None \<Rightarrow> True | Some q \<Rightarrow>
        cat_depth (vals r) = cat_depth (vals q) + 1 \<and> cat_path (vals r) = child_path (cat_path (vals q)) (cat_slug (vals r))))"
proof -
  have "v\<lparr>cat_depth := d, cat_path := x\<rparr> = v \<longleftrightarrow> cat_depth v = d \<and> cat_path v = x" for v :: category and d x
    by (cases v) auto
  then show ?thesis by (auto simp: placed_def fill_path_def split: option.split)
qed

definition same_place :: "category row \<Rightarrow> category row \<Rightarrow> bool" where
  "same_place r q = (row_pk r = row_pk q \<and> cat_parent (vals r) = cat_parent (vals q) \<and> cat_slug (vals r) = cat_slug (vals q) \<and>
     cat_path (vals r) = cat_path (vals q) \<and> cat_depth (vals r) = cat_depth (vals q))"

lemma category_tree_map:
  assumes "\<And>r. same_place (g r) r" "category_tree t"
  shows "category_tree (map g t)"
proof -
  have g: "row_pk (g r) = row_pk r" "cat_parent (vals (g r)) = cat_parent (vals r)" "cat_slug (vals (g r)) = cat_slug (vals r)"
    "cat_path (vals (g r)) = cat_path (vals r)" "cat_depth (vals (g r)) = cat_depth (vals r)" for r
    using assms(1) [of r] by (simp_all add: same_place_def)
  have "placed (map g t) (g r) = placed t r" for r
    by (auto simp: placed_alt g tbl_all_map split: option.split)
  moreover have "parent_stored (map g t) (vals (g r)) = parent_stored t (vals r)" for r
    by (auto simp: parent_stored_def g tbl_all_map split: option.split)
  ultimately show ?thesis using assms(2) by (auto simp: category_tree_def rows_ok_def list_all_iff g comp_def)
qed

lemma deactivate_category_tree: "preserves (\<lambda>s. category_tree (categories s)) (deactivate_category now k)"
proof (rule preserves_transactional)
  show "transactional (deactivate_category now k)" by (simp add: deactivate_category_def)
  fix s y t assume tree: "category_tree (categories s)" and "deactivate_category now k s = (Inr y, t)"
  then have "categories t = tbl_set_active k now False (categories s)" by (auto simp: deactivate_category_def svc_inv)
  then show "category_tree (categories t)"
    unfolding tbl_set_active_def by (simp only:) (rule category_tree_map [OF _ tree], simp add: same_place_def)
qed

end
