(* ===== verification/Support_Trail.thy ===== *)
theory Support_Trail
  imports Support_Workflow Support_Tree
begin

text \<open>
  Every change of a ticket's status by a service leaves a row in the history, so the history of a ticket is a chain that
  begins at the draft and ends at its status; and the counters on a ticket equal the number of its messages,
  attachments and notes. The proofs follow the services with assertions about the state and the object at hand.
\<close>

section \<open>Assertions\<close>

definition hoare :: "('s \<Rightarrow> bool) \<Rightarrow> ('s, 'a) svc \<Rightarrow> ('a \<Rightarrow> 's \<Rightarrow> bool) \<Rightarrow> bool" where
  "hoare P m Q = (\<forall>s x t. P s \<longrightarrow> m s = (Inr x, t) \<longrightarrow> Q x t)"

named_theorems hoare_rules \<open>assertions through the service monad\<close>

lemma hoareI: "(\<And>s x t. P s \<Longrightarrow> m s = (Inr x, t) \<Longrightarrow> Q x t) \<Longrightarrow> hoare P m Q"
  by (simp add: hoare_def)

lemma hoareD: "hoare P m Q \<Longrightarrow> P s \<Longrightarrow> m s = (Inr x, t) \<Longrightarrow> Q x t"
  by (simp add: hoare_def)

lemma hoare_bnd: "hoare P m R \<Longrightarrow> (\<And>x. hoare (R x) (f x) Q) \<Longrightarrow> hoare P (bnd m f) Q"
  unfolding hoare_def bnd_Inr by blast

lemma hoare_seqn: "hoare P m (\<lambda>_. R) \<Longrightarrow> hoare R k Q \<Longrightarrow> hoare P (seqn m k) Q"
  unfolding hoare_def seqn_Inr by blast

lemma hoare_check: "(b \<Longrightarrow> hoare P k Q) \<Longrightarrow> hoare P (seqn (check b e) k) Q"
  unfolding hoare_def seqn_Inr check_Inr by blast

lemma hoare_atomic: "hoare P m Q \<Longrightarrow> hoare P (atomic m) Q"
  by (simp add: hoare_def atomic_Inr)

lemma hoare_ret: "(\<And>s. P s \<Longrightarrow> Q x s) \<Longrightarrow> hoare P (ret x) Q"
  by (simp add: hoare_def ret_Inr)

lemma hoare_raise: "hoare P (raise e) Q"
  by (simp add: hoare_def raise_Inr)

lemma hoare_gets: "hoare P (gets f) (\<lambda>x s. x = f s \<and> P s)"
  by (simp add: hoare_def gets_Inr)

lemma hoare_read: "(\<And>x. hoare P (f x) Q) \<Longrightarrow> hoare P (bnd (gets g) f) Q"
  unfolding hoare_def bnd_Inr gets_Inr by blast

lemma hoare_follow: "(\<And>x. hoare P (f x) Q) \<Longrightarrow> hoare P (bnd (follow tab k) f) Q"
  unfolding hoare_def bnd_Inr follow_Inr by blast

lemma hoare_follow_opt: "(\<And>x. hoare P (f x) Q) \<Longrightarrow> hoare P (bnd (follow_opt tab k) f) Q"
  unfolding hoare_def bnd_Inr follow_opt_Inr by blast

lemma hoare_some: "(\<And>u. x = Some u \<Longrightarrow> hoare P (f u) Q) \<Longrightarrow> hoare P (case x of None \<Rightarrow> raise e | Some u \<Rightarrow> f u) Q"
  by (cases x) (simp_all add: hoare_raise)

lemma hoare_both:
  "(\<And>d c. x = Some d \<Longrightarrow> y = Some c \<Longrightarrow> hoare P (f d c) Q) \<Longrightarrow>
   hoare P (case (x, y) of (Some d, Some c) \<Rightarrow> f d c | _ \<Rightarrow> raise e) Q"
  by (cases x; cases y) (simp_all add: hoare_raise)

lemma hoare_post: "hoare P m R \<Longrightarrow> (\<And>x s. R x s \<Longrightarrow> Q x s) \<Longrightarrow> hoare P m Q"
  unfolding hoare_def by blast

lemma hoare_keeps: "keeps g m \<Longrightarrow> (\<And>s t. g t = g s \<Longrightarrow> P s = P t) \<Longrightarrow> hoare P m (\<lambda>_. P)"
  unfolding hoare_def keeps_def by (metis snd_conv)

section \<open>The invariant\<close>

fun trail_end :: "ticket_status option \<Rightarrow> status_history list \<Rightarrow> ticket_status option option" where
  "trail_end cur [] = Some cur"
| "trail_end cur (h # hs) = (if sh_from_status h = cur then trail_end (Some (sh_to_status h)) hs else None)"

definition history_of :: "nat \<Rightarrow> sup_db \<Rightarrow> status_history list" where
  "history_of k s = map vals (filter (\<lambda>h. sh_ticket (vals h) = k) (status_histories s))"

definition trail_ok :: "sup_db \<Rightarrow> ticket row \<Rightarrow> bool" where
  "trail_ok s r = (trail_end None (history_of (row_pk r) s) = Some (Some (tk_status (vals r))))"

definition counters_ok :: "sup_db \<Rightarrow> ticket row \<Rightarrow> bool" where
  "counters_ok s r =
     (tk_message_count (vals r) = length (ticket_messages (row_pk r) (messages s)) \<and>
      tk_attachment_count (vals r) = length (ticket_attachments (row_pk r) (attachments s)) \<and>
      tk_internal_note_count (vals r) = length (filter is_internal_note (ticket_messages (row_pk r) (messages s))))"

text \<open>Keys are distinct, and messages, attachments and histories belong to stored tickets.\<close>

definition desk_refs :: "sup_db \<Rightarrow> bool" where
  "desk_refs s = (distinct (map row_pk (tickets s)) \<and>
     (\<forall>m \<in> set (messages s). tm_ticket (vals m) \<in> row_pk ` set (tickets s)) \<and>
     (\<forall>a \<in> set (attachments s). ta_ticket (vals a) \<in> row_pk ` set (tickets s)) \<and>
     (\<forall>h \<in> set (status_histories s). sh_ticket (vals h) \<in> row_pk ` set (tickets s)))"

text \<open>The counters of the tickets in \<open>X\<close> and the trails of the tickets in \<open>Y\<close> are still to be brought up to date.\<close>

definition desk :: "nat set \<Rightarrow> nat set \<Rightarrow> sup_db \<Rightarrow> bool" where
  "desk X Y s = (desk_refs s \<and> (\<forall>r \<in> set (tickets s). (row_pk r \<in> X \<or> counters_ok s r) \<and> (row_pk r \<in> Y \<or> trail_ok s r)))"

text \<open>The object is the row \<open>k\<close> as far as its status is concerned.\<close>

definition obj :: "nat \<Rightarrow> ticket row \<Rightarrow> sup_db \<Rightarrow> bool" where
  "obj k tk s = (row_pk tk = k \<and> (\<exists>r \<in> set (tickets s). row_pk r = k \<and> tk_status (vals r) = tk_status (vals tk)))"

definition at_desk :: "nat set \<Rightarrow> nat set \<Rightarrow> nat \<Rightarrow> ticket row \<Rightarrow> sup_db \<Rightarrow> bool" where
  "at_desk X Y k tk s = (desk X Y s \<and> obj k tk s)"

definition desk_view :: "sup_db \<Rightarrow> ticket table \<times> ticket_message table \<times> ticket_attachment table \<times> status_history table" where
  "desk_view s = (tickets s, messages s, attachments s, status_histories s)"

lemma desk_view_eq: "desk_view t = desk_view s \<Longrightarrow> at_desk X Y k tk t = at_desk X Y k tk s"
  by (simp add: desk_view_def at_desk_def desk_def desk_refs_def obj_def counters_ok_def trail_ok_def history_of_def)

lemma hoare_frame: "keeps desk_view m \<Longrightarrow> hoare (at_desk X Y k tk) m (\<lambda>_. at_desk X Y k tk)"
  by (rule hoare_keeps) (auto dest: desk_view_eq)

lemma hoare_frame_seqn: "keeps desk_view m \<Longrightarrow> hoare (at_desk X Y k tk) n Q \<Longrightarrow> hoare (at_desk X Y k tk) (seqn m n) Q"
  by (rule hoare_seqn [OF hoare_frame])

section \<open>Primitives\<close>

lemma desk_refs_map:
  assumes "\<And>r. row_pk (u r) = row_pk r"
  shows "desk_refs (s\<lparr>tickets := map u (tickets s)\<rparr>) = desk_refs s"
  unfolding desk_refs_def by (simp add: comp_def assms image_image)

lemma counters_trail_tickets [simp]:
  "counters_ok (s\<lparr>tickets := x\<rparr>) = counters_ok s" "trail_ok (s\<lparr>tickets := x\<rparr>) = trail_ok s"
  by (simp_all add: fun_eq_iff counters_ok_def trail_ok_def history_of_def)

lemma at_desk_map:
  assumes "desk_refs s" "\<And>r. row_pk (u r) = row_pk r"
    and "\<And>r. r \<in> set (tickets s) \<Longrightarrow> (row_pk r \<in> X \<or> counters_ok s (u r)) \<and> (row_pk r \<in> Y \<or> trail_ok s (u r))"
    and "row_pk x = k" "q \<in> set (tickets s)" "row_pk q = k" "tk_status (vals (u q)) = tk_status (vals x)"
  shows "at_desk X Y k x (s\<lparr>tickets := map u (tickets s)\<rparr>)"
proof -
  have "obj k x (s\<lparr>tickets := map u (tickets s)\<rparr>)" using assms(2,4-7) unfolding obj_def by auto
  moreover have "desk X Y (s\<lparr>tickets := map u (tickets s)\<rparr>)"
    unfolding desk_def desk_refs_map [OF assms(2)] counters_trail_tickets using assms(1-3) by simp
  ultimately show ?thesis by (simp add: at_desk_def)
qed

lemma at_deskE:
  assumes "at_desk X Y k tk s"
  obtains q where "q \<in> set (tickets s)" "row_pk q = k" "tk_status (vals q) = tk_status (vals tk)" "row_pk tk = k" "desk_refs s"
    "\<And>r. r \<in> set (tickets s) \<Longrightarrow> (row_pk r \<in> X \<or> counters_ok s r) \<and> (row_pk r \<in> Y \<or> trail_ok s r)"
  using assms unfolding at_desk_def desk_def obj_def by blast

text \<open>A save that leaves status and counters of the row alone.\<close>

lemma save_frame:
  assumes "\<And>ob v. tk_status (cp ob v) = tk_status v \<and> tk_message_count (cp ob v) = tk_message_count v \<and>
      tk_attachment_count (cp ob v) = tk_attachment_count v \<and> tk_internal_note_count (cp ob v) = tk_internal_note_count v"
    and "\<And>v. tk_status (f v) = tk_status v"
  shows "hoare (at_desk X Y k tk) (save_ticket now cp (set_vals f tk)) (at_desk X Y k)"
proof (rule hoareI)
  fix s x t
  assume pre: "at_desk X Y k tk s" and run: "save_ticket now cp (set_vals f tk) s = (Inr x, t)"
  let ?u = "\<lambda>r. if row_pk r = row_pk tk then r\<lparr>updated_at := now, vals := cp (f (vals tk)) (vals r)\<rparr> else r"
  have t: "t = s\<lparr>tickets := map ?u (tickets s)\<rparr>" and x: "x = (set_vals f tk)\<lparr>updated_at := now\<rparr>"
    using run by (auto simp: save_ticket_def svc_inv tbl_upd_def set_vals_def)
  have same: "counters_ok s (r\<lparr>updated_at := now, vals := cp a (vals r)\<rparr>) = counters_ok s r"
    "trail_ok s (r\<lparr>updated_at := now, vals := cp a (vals r)\<rparr>) = trail_ok s r" for r a
    using assms(1) by (auto simp: counters_ok_def trail_ok_def)
  obtain q where q: "q \<in> set (tickets s)" "row_pk q = k" "tk_status (vals q) = tk_status (vals tk)" "row_pk tk = k" "desk_refs s"
    and ok: "\<And>r. r \<in> set (tickets s) \<Longrightarrow> (row_pk r \<in> X \<or> counters_ok s r) \<and> (row_pk r \<in> Y \<or> trail_ok s r)"
    using at_deskE [OF pre] by blast
  show "at_desk X Y k x t" unfolding t
  proof (rule at_desk_map [where q = q])
    fix r assume "r \<in> set (tickets s)"
    from ok [OF this] show "(row_pk r \<in> X \<or> counters_ok s (?u r)) \<and> (row_pk r \<in> Y \<or> trail_ok s (?u r))" by (auto simp: same)
  qed (use q in \<open>simp_all add: x set_vals_def assms\<close>)
qed

lemma at_desk_mono: "at_desk X Y k tk s \<Longrightarrow> X \<subseteq> X' \<Longrightarrow> Y \<subseteq> Y' \<Longrightarrow> at_desk X' Y' k tk s"
  by (auto simp: at_desk_def desk_def)

lemma at_desk_pk: "at_desk X Y k tk s \<Longrightarrow> row_pk tk = k \<and> k \<in> row_pk ` set (tickets s)"
  unfolding at_desk_def obj_def by (metis image_eqI)

lemma hoare_pk: "(row_pk tk = k \<Longrightarrow> hoare (at_desk X Y k tk) m Q) \<Longrightarrow> hoare (at_desk X Y k tk) m Q"
  unfolding hoare_def using at_desk_pk by blast

lemma objects_snoc_new [simp]: "objects (t @ [new_row now v u]) = objects t @ [new_row now v u]"
  by simp

lemma add_message_desk:
  assumes "tm_ticket m = k"
  shows "hoare (at_desk X Y k tk) (add_message now m) (\<lambda>_. at_desk (insert k X) Y k tk)"
proof (rule hoareI)
  fix s x t
  assume pre: "at_desk X Y k tk s" and "add_message now m s = (Inr x, t)"
  then have t: "t = s\<lparr>messages := messages s @ [new_row now m (messages s)]\<rparr>" by (auto simp: add_message_def svc_inv)
  have "ticket_messages j (messages t) = ticket_messages j (messages s)" if "j \<noteq> k" for j
    using that assms by (simp add: t ticket_messages_def)
  then have "counters_ok t r = counters_ok s r" if "row_pk r \<noteq> k" for r using that by (simp add: counters_ok_def) (simp add: t)
  moreover have "trail_ok t r = trail_ok s r" for r by (simp add: t trail_ok_def history_of_def)
  moreover have "desk_refs t" using pre at_desk_pk [OF pre] assms by (auto simp: at_desk_def desk_def desk_refs_def t)
  ultimately show "at_desk (insert k X) Y k tk t" using pre by (auto simp: at_desk_def desk_def obj_def t)
qed

lemma add_attachment_desk:
  assumes "ta_ticket v = k"
  shows "hoare (\<lambda>s. a = new_row now v (attachments s) \<and> at_desk X Y k tk s) (modify (\<lambda>s. s\<lparr>attachments := attachments s @ [a]\<rparr>))
    (\<lambda>_. at_desk (insert k X) Y k tk)"
proof (rule hoareI)
  fix s x t
  assume run: "a = new_row now v (attachments s) \<and> at_desk X Y k tk s" "modify (\<lambda>s. s\<lparr>attachments := attachments s @ [a]\<rparr>) s = (Inr x, t)"
  then have pre: "at_desk X Y k tk s" and t: "t = s\<lparr>attachments := attachments s @ [new_row now v (attachments s)]\<rparr>"
    by (simp_all add: svc_inv)
  have "ticket_attachments j (attachments t) = ticket_attachments j (attachments s)" if "j \<noteq> k" for j
    using that assms by (simp add: t ticket_attachments_def)
  then have "counters_ok t r = counters_ok s r" if "row_pk r \<noteq> k" for r using that by (simp add: counters_ok_def) (simp add: t)
  moreover have "trail_ok t r = trail_ok s r" for r by (simp add: t trail_ok_def history_of_def)
  moreover have "desk_refs t" using pre at_desk_pk [OF pre] assms by (auto simp: at_desk_def desk_def desk_refs_def t)
  ultimately show "at_desk (insert k X) Y k tk t" using pre by (auto simp: at_desk_def desk_def obj_def t)
qed

lemma sync_desk: "hoare (at_desk X Y k tk) (sync_ticket_counters now tk) (at_desk (X - {k}) Y k)"
proof (rule hoareI)
  fix s x t
  assume pre: "at_desk X Y k tk s" and run: "sync_ticket_counters now tk s = (Inr x, t)"
  have k: "row_pk tk = k" using at_desk_pk [OF pre] by simp
  let ?ms = "ticket_messages k (messages s)" and ?as = "ticket_attachments k (attachments s)"
  let ?f = "\<lambda>v. v\<lparr>tk_message_count := length ?ms, tk_attachment_count := length ?as,
      tk_internal_note_count := length (filter is_internal_note ?ms)\<rparr>"
  let ?u = "\<lambda>r. if row_pk r = k then r\<lparr>updated_at := now, vals := ?f (vals r)\<rparr> else r"
  have t: "t = s\<lparr>tickets := map ?u (tickets s)\<rparr>" and x: "x = (set_vals ?f tk)\<lparr>updated_at := now\<rparr>"
    using run k by (auto simp: sync_ticket_counters_def save_ticket_def svc_inv tbl_upd_def set_vals_def)
  have same: "trail_ok s (?u r) = trail_ok s r" "counters_ok s (?u r) = (row_pk r = k \<or> counters_ok s r)" for r
    by (auto simp: counters_ok_def trail_ok_def)
  show "at_desk (X - {k}) Y k x t" using pre unfolding t
    by (rule at_deskE) (rule at_desk_map, simp_all only: same, auto simp: x set_vals_def k)
qed

definition trail_at :: "nat \<Rightarrow> ticket_status option \<Rightarrow> sup_db \<Rightarrow> bool" where
  "trail_at k p s = (trail_end None (history_of k s) = Some p)"

lemma trail_end_snoc:
  "trail_end c (hs @ [h]) = (case trail_end c hs of None \<Rightarrow> None
     | Some cur \<Rightarrow> if sh_from_status h = cur then Some (Some (sh_to_status h)) else None)"
  by (induction hs arbitrary: c) auto

lemma add_history_desk:
  assumes "sh_ticket h = k" "sh_from_status h = p" "sh_to_status h = tk_status (vals tk)"
  shows "hoare (\<lambda>s. at_desk X (insert k Y) k tk s \<and> trail_at k p s) (add_history now h) (\<lambda>_. at_desk X Y k tk)"
proof (rule hoareI)
  fix s x t
  assume pre: "at_desk X (insert k Y) k tk s \<and> trail_at k p s" and "add_history now h s = (Inr x, t)"
  then have t: "t = s\<lparr>status_histories := tbl_insert now h (status_histories s)\<rparr>" by (simp add: add_history_def svc_inv)
  have hist: "history_of j t = (if j = k then history_of k s @ [h] else history_of j s)" for j
    using assms(1) by (simp add: history_of_def t tbl_insert_def)
  have st: "tk_status (vals r) = tk_status (vals tk)" if "r \<in> set (tickets s)" "row_pk r = k" for r
  proof -
    obtain q where "q \<in> set (tickets s)" "row_pk q = k" "tk_status (vals q) = tk_status (vals tk)"
      using pre by (auto simp: at_desk_def obj_def)
    moreover have "q = r" using calculation that pre by (intro distinct_pk_eq) (auto simp: at_desk_def desk_def desk_refs_def)
    ultimately show ?thesis by simp
  qed
  have "trail_ok t r" if "r \<in> set (tickets s)" "row_pk r = k" for r
    using st [OF that] that pre assms by (simp add: trail_ok_def hist trail_end_snoc trail_at_def)
  moreover have "trail_ok t r = trail_ok s r" if "row_pk r \<noteq> k" for r using that by (simp add: trail_ok_def hist)
  moreover have "counters_ok t r = counters_ok s r" for r by (simp add: counters_ok_def t)
  moreover have "desk_refs t" using pre at_desk_pk [of X "insert k Y" k tk s] assms(1)
    by (auto simp: at_desk_def desk_def desk_refs_def t set_tbl_insert)
  ultimately show "at_desk X Y k tk t" using pre by (auto simp: at_desk_def desk_def obj_def t)
qed

lemma status_vals_simps [simp]: "tk_status (status_vals now to v) = to"
  by (simp add: status_vals_def Let_def)

lemma copy_status_simps [simp]:
  "tk_status (copy_status to ob v) = tk_status ob" "tk_message_count (copy_status to ob v) = tk_message_count v"
  "tk_attachment_count (copy_status to ob v) = tk_attachment_count v"
  "tk_internal_note_count (copy_status to ob v) = tk_internal_note_count v"
  by (simp_all add: copy_status_def Let_def)

lemma save_status_desk:
  assumes "k \<notin> Y"
  shows "hoare (at_desk X Y k tk) (save_ticket now (copy_status to) (set_vals (status_vals now to) tk))
     (\<lambda>x s. at_desk X (insert k Y) k x s \<and> trail_at k (Some (tk_status (vals tk))) s \<and> tk_status (vals x) = to)"
proof (rule hoareI)
  fix s x t
  assume pre: "at_desk X Y k tk s" and run: "save_ticket now (copy_status to) (set_vals (status_vals now to) tk) s = (Inr x, t)"
  let ?u = "\<lambda>r. if row_pk r = k then r\<lparr>updated_at := now, vals := copy_status to (status_vals now to (vals tk)) (vals r)\<rparr> else r"
  have k: "row_pk tk = k" using at_desk_pk [OF pre] by simp
  have t: "t = s\<lparr>tickets := map ?u (tickets s)\<rparr>" and x: "x = (set_vals (status_vals now to) tk)\<lparr>updated_at := now\<rparr>"
    using run k by (auto simp: save_ticket_def svc_inv tbl_upd_def set_vals_def)
  have same: "counters_ok s (?u r) = counters_ok s r" "row_pk r \<noteq> k \<Longrightarrow> trail_ok s (?u r) = trail_ok s r" for r
    by (auto simp: counters_ok_def trail_ok_def)
  obtain q where q: "q \<in> set (tickets s)" "row_pk q = k" "tk_status (vals q) = tk_status (vals tk)" "trail_ok s q"
    using pre assms by (elim at_deskE) blast
  then have "trail_at k (Some (tk_status (vals tk))) t" by (simp add: trail_ok_def trail_at_def history_of_def t)
  moreover have "at_desk X (insert k Y) k x t" using pre unfolding t
    by (elim at_deskE) (rule at_desk_map, use same in \<open>auto simp: x set_vals_def k\<close>)
  ultimately show "at_desk X (insert k Y) k x t \<and> trail_at k (Some (tk_status (vals tk))) t \<and> tk_status (vals x) = to"
    by (simp add: x set_vals_def)
qed

lemma change_status_desk:
  assumes "k \<notin> Y"
  shows "hoare (at_desk X Y k tk) (change_status now tk actor to reason) (at_desk X Y k)"
proof (cases "tk_status (vals tk) = to")
  case True
  then show ?thesis by (simp add: change_status_def hoare_ret)
next
  case False
  let ?h = "\<lambda>x. \<lparr>sh_ticket = row_pk x, sh_changed_by = user_pk actor, sh_from_status = Some (tk_status (vals tk)),
           sh_to_status = to, sh_reason = reason\<rparr>"
  have hist: "hoare (\<lambda>s. at_desk X (insert k Y) k x s \<and> trail_at k (Some (tk_status (vals tk))) s \<and> tk_status (vals x) = to)
      (add_history now (?h x)) (\<lambda>_. at_desk X Y k x)" for x
  proof (rule hoareI)
    fix s y t
    assume pre: "at_desk X (insert k Y) k x s \<and> trail_at k (Some (tk_status (vals tk))) s \<and> tk_status (vals x) = to"
      and run: "add_history now (?h x) s = (Inr y, t)"
    then have "row_pk x = k" using at_desk_pk by blast
    then have "hoare (\<lambda>s. at_desk X (insert k Y) k x s \<and> trail_at k (Some (tk_status (vals tk))) s) (add_history now (?h x))
        (\<lambda>_. at_desk X Y k x)" using pre by (intro add_history_desk) simp_all
    from hoareD [OF this _ run] pre show "at_desk X Y k x t" by blast
  qed
  have tail: "hoare (at_desk X Y k x) (seqn (add_message now m) (sync_ticket_counters now x)) (at_desk X Y k)" if "tm_ticket m = k" for x m
    by (rule hoare_seqn [OF add_message_desk [OF that]], rule hoare_post [OF sync_desk]) (auto elim: at_desk_mono)
  show ?thesis unfolding change_status_def Let_def if_not_P [OF False]
  proof (rule hoare_bnd [OF save_status_desk [OF assms]], rule hoare_seqn [OF hist])
    fix x
    show "hoare (at_desk X Y k x)
        (case actor of None \<Rightarrow> ret x
         | Some u \<Rightarrow>
             seqn (add_message now \<lparr>tm_ticket = row_pk x, tm_author = row_pk u, tm_message_type = MT_STATUS_CHANGE,
                tm_body = (if reason \<noteq> [] then reason
                  else ''status changed from '' @ status_str (tk_status (vals tk)) @ '' to '' @ status_str to), tm_is_internal = True,
                tm_is_from_staff = (u_is_staff (vals u) \<or> u_is_superuser (vals u)),
                tm_metadata = [(''from_status'', JStr (status_str (tk_status (vals tk)))), (''to_status'', JStr (status_str to))]\<rparr>)
             (sync_ticket_counters now x)) (at_desk X Y k)"
    proof (rule hoare_pk)
      assume "row_pk x = k"
      then show ?thesis by (cases actor) (simp_all only: option.case hoare_ret tail ticket_message.select_convs)
    qed
  qed
qed

text \<open>The remaining steps do not touch what the assertions speak about, or touch other fields of the ticket.\<close>

lemma keeps_desk_view [keeps_rules]:
  "keeps desk_view (add_sla_event now e)" "keeps desk_view (add_assignment now a)" "keeps desk_view (sync_category_counters now c)"
  "keeps desk_view (get_or_create_tag E now token)" "keeps desk_view (tag_ticket now j tag)" "keeps desk_view (store_duplicate now j c n)"
  by (auto simp: add_sla_event_def add_assignment_def sync_category_counters_def get_or_create_tag_def tag_ticket_def
      store_duplicate_def Let_def desk_view_def intro!: keeps_rules keeps_modify)

lemma keeps_desk_notify [keeps_rules]:
  "keeps desk_view (notify_support_reply E now v m)" "keeps desk_view (notify_support_resolved E now v u)"
  unfolding notify_support_reply_def notify_support_resolved_def by (rule keeps_emit; simp add: desk_view_def)+

lemma keeps_desk_tags [keeps_rules]:
  "keeps desk_view (auto_tag_ticket E now j text)" "keeps desk_view (detect_duplicate_candidates now tk n)"
  unfolding auto_tag_ticket_def detect_duplicate_candidates_def Let_def
  by (intro keeps_rules keeps_modify; simp add: desk_view_def)+

lemma event_desk: "hoare (at_desk X Y k x) (seqn (add_sla_event now e) (ret x)) (at_desk X Y k)"
  by (rule hoare_frame_seqn [OF keeps_desk_view(1)], rule hoare_ret)

lemma resume_desk: "hoare (at_desk X Y k tk) (resume_sla_if_needed now tk) (at_desk X Y k)"
proof (cases "tk_sla_paused_at (vals tk)")
  case None
  then show ?thesis by (simp add: resume_sla_if_needed_def hoare_ret)
next
  case (Some p)
  note event_desk
  then show ?thesis unfolding resume_sla_if_needed_def Some option.case
    by (intro hoare_bnd [OF save_frame]) (simp_all add: resume_vals_def Let_def)
qed

lemma pause_desk: "hoare (at_desk X Y k tk) (pause_sla_if_needed now tk) (at_desk X Y k)"
proof -
  note event_desk
  then show ?thesis unfolding pause_sla_if_needed_def
    by (intro hoare_follow_opt) (auto intro!: hoare_ret hoare_bnd [OF save_frame])
qed

lemma apply_sla_desk: "hoare (at_desk X Y k tk) (apply_sla E tk policy now) (at_desk X Y k)"
proof (cases policy)
  case (Some p)
  have due: "hoare (at_desk X Y k tk) (calculate_sla_due_at E tk q n now) (\<lambda>_. at_desk X Y k tk)" for q n
    by (rule hoareI) (simp add: calculate_sla_due_at_def)
  show ?thesis unfolding apply_sla_def Some option.case
    by (rule hoare_bnd [OF due], rule hoare_bnd [OF due], rule hoare_bnd [OF save_frame]) (simp_all add: event_desk)
qed (simp add: apply_sla_def hoare_ret)

section \<open>Services\<close>

lemma submit_desk: "hoare (at_desk {} {} k tk) (submit_ticket E now tk user) (\<lambda>x. at_desk {} {} k x)"
  unfolding submit_ticket_def
  by (intro hoare_atomic hoare_check, rule hoare_bnd [OF change_status_desk], simp, rule hoare_bnd [OF save_frame])
     (auto intro!: hoare_follow hoare_read apply_sla_desk)

lemma sync_tail:
  assumes "\<And>x. keeps desk_view (g x)"
  shows "hoare (at_desk X {} k x) (bnd (sync_ticket_counters now x) (\<lambda>tk. seqn (g tk) (ret m))) (\<lambda>_. desk (X - {k}) {})"
  by (rule hoare_bnd [OF sync_desk], rule hoare_frame_seqn [OF assms], rule hoare_ret) (simp add: at_desk_def)

lemma user_reply_desk: "hoare (at_desk {} {} k tk) (add_user_reply E now tk user body) (\<lambda>_. desk ({k} - {k}) {})"
  unfolding add_user_reply_def
  by (intro hoare_atomic hoare_check, rule hoare_bnd [OF resume_desk], rule hoare_pk, rule hoare_bnd [OF add_message_desk],
      simp add: public_message_def, rule hoare_bnd [OF save_frame], simp, simp, rule hoare_bnd [OF change_status_desk], simp,
      rule sync_tail, rule keeps_desk_tags)

lemma admin_reply_desk: "hoare (at_desk {} {} k tk) (add_admin_reply E now tk admin body) (\<lambda>_. desk ({k} - {k}) {})"
  unfolding add_admin_reply_def
  by (intro hoare_atomic hoare_some hoare_check, rule hoare_pk, rule hoare_bnd [OF add_message_desk],
      simp add: public_message_def, rule hoare_bnd [OF save_frame], simp, simp, rule hoare_bnd [OF change_status_desk], simp,
      rule hoare_bnd [OF pause_desk], rule sync_tail, rule keeps_desk_notify)

lemma sync_ret: "hoare (at_desk X {} k tk) (seqn (sync_ticket_counters now tk) (ret m)) (\<lambda>_. desk (X - {k}) {})"
  unfolding seqn_def by (rule hoare_bnd [OF sync_desk], rule hoare_ret) (simp add: at_desk_def)

lemma note_desk: "hoare (at_desk {} {} k tk) (add_internal_note now tk admin body) (\<lambda>_. desk ({k} - {k}) {})"
  unfolding add_internal_note_def
  by (intro hoare_atomic hoare_some hoare_check, rule hoare_pk, rule hoare_bnd [OF add_message_desk], simp, rule sync_ret)

lemma attachment_desk:
  "hoare (at_desk {} {} k tk) (add_attachment now tk user fn fs orig ct ak vis msg) (\<lambda>_. desk ({k} - {k}) {})"
  unfolding add_attachment_def
  by (intro hoare_atomic hoare_some hoare_check, rule hoare_pk, rule hoare_bnd [OF hoare_gets],
      rule hoare_seqn [OF add_attachment_desk], simp, rule sync_ret)

lemma assign_desk: "hoare (at_desk {} {} k tk) (assign_ticket now tk admin assignee department reason) (at_desk ({k} - {k}) {} k)"
  unfolding assign_ticket_def Let_def
  by (intro hoare_atomic hoare_some hoare_check, rule hoare_bnd [OF save_frame], simp, simp, rule hoare_frame_seqn [OF keeps_desk_view(2)],
      rule hoare_pk, rule hoare_seqn [OF add_message_desk], simp, rule sync_desk)

lemma auto_assign_desk: "hoare (at_desk {} {} k tk) (auto_assign_ticket now tk admin department reason) (at_desk ({k} - {k}) {} k)"
  unfolding auto_assign_ticket_def by (intro hoare_atomic hoare_follow hoare_read hoare_some assign_desk)

lemma change_ticket_status_desk: "hoare (at_desk {} {} k tk) (change_ticket_status now tk admin status reason) (at_desk {} {} k)"
  unfolding change_ticket_status_def by (intro hoare_atomic hoare_check change_status_desk) simp

lemma resolve_desk: "hoare (at_desk {} {} k tk) (resolve_ticket E now tk admin reason) (at_desk {} {} k)"
  unfolding resolve_ticket_def
  by (intro hoare_atomic hoare_check, rule hoare_bnd [OF change_ticket_status_desk],
      rule hoare_frame_seqn [OF keeps_desk_notify(2)], rule hoare_ret)

lemma close_desk: "hoare (at_desk {} {} k tk) (close_ticket now tk actor reason) (at_desk {} {} k)"
  unfolding close_ticket_def by (intro hoare_atomic hoare_check change_status_desk) simp

lemma reopen_desk: "hoare (at_desk {} {} k tk) (reopen_ticket now tk user reason) (at_desk {} {} k)"
  unfolding reopen_ticket_def
  by (intro hoare_atomic hoare_check, rule hoare_bnd [OF resume_desk], rule change_status_desk) simp

lemma escalate_desk: "hoare (at_desk {} {} k tk) (escalate_ticket now tk admin reason) (at_desk {} {} k)"
  unfolding escalate_ticket_def
  by (intro hoare_atomic hoare_check, rule hoare_bnd [OF save_frame], simp, simp,
      rule hoare_frame_seqn [OF keeps_desk_view(1)], rule change_status_desk) simp

lemma satisfaction_desk: "hoare (at_desk {} {} k tk) (submit_satisfaction now tk user rating comment) (\<lambda>_. desk {} {})"
proof -
  have m: "keeps desk_view (modify (\<lambda>s. s\<lparr>satisfactions := satisfactions s @ [r]\<rparr>))" for r
    by (rule keeps_modify) (simp add: desk_view_def)
  show ?thesis unfolding submit_satisfaction_def Let_def
    by (intro hoare_atomic hoare_check hoare_read, rule hoare_frame_seqn [OF m], unfold seqn_def, rule hoare_bnd [OF save_frame])
       (auto intro!: hoare_ret simp: at_desk_def)
qed

text \<open>Editing a draft saves the whole object, so it must be the stored row, not only agree with it on the status.\<close>

definition stored :: "nat \<Rightarrow> ticket row \<Rightarrow> sup_db \<Rightarrow> bool" where
  "stored k tk s = (at_desk {} {} k tk s \<and> tk \<in> set (tickets s))"

lemma fill_document_Inr: "fill_document v s = (Inr w, t) \<Longrightarrow> t = s \<and> (\<exists>d. w = v\<lparr>tk_search_document := d\<rparr>)"
  by (auto simp: fill_document_def svc_inv)

lemma draft_vals_simps [simp]:
  "tk_status (draft_vals y d c v) = tk_status v" "tk_message_count (draft_vals y d c v) = tk_message_count v"
  "tk_attachment_count (draft_vals y d c v) = tk_attachment_count v"
  "tk_internal_note_count (draft_vals y d c v) = tk_internal_note_count v"
  by (auto simp: draft_vals_def Let_def split: option.split)

lemma save_whole_desk:
  assumes "tk_status v = tk_status (vals tk)" "tk_message_count v = tk_message_count (vals tk)"
    "tk_attachment_count v = tk_attachment_count (vals tk)" "tk_internal_note_count v = tk_internal_note_count (vals tk)"
  shows "hoare (stored k tk) (save_ticket now (\<lambda>ob _. ob) (set_vals (\<lambda>_. v) tk)) (at_desk {} {} k)"
proof (rule hoareI)
  fix s x t
  assume pre: "stored k tk s" and run: "save_ticket now (\<lambda>ob _. ob) (set_vals (\<lambda>_. v) tk) s = (Inr x, t)"
  let ?u = "\<lambda>r. if row_pk r = row_pk tk then r\<lparr>updated_at := now, vals := v\<rparr> else r"
  have t: "t = s\<lparr>tickets := map ?u (tickets s)\<rparr>" and x: "x = (set_vals (\<lambda>_. v) tk)\<lparr>updated_at := now\<rparr>"
    using run by (auto simp: save_ticket_def svc_inv tbl_upd_def set_vals_def)
  have refs: "desk_refs s" and mem: "tk \<in> set (tickets s)" "row_pk tk = k"
    and ok: "\<And>r. r \<in> set (tickets s) \<Longrightarrow> counters_ok s r \<and> trail_ok s r"
    using pre by (auto simp: stored_def at_desk_def desk_def obj_def)
  have "counters_ok s (?u r) \<and> trail_ok s (?u r)" if r: "r \<in> set (tickets s)" for r
  proof (cases "row_pk r = row_pk tk")
    case True
    then have "r = tk" using refs r mem by (intro distinct_pk_eq) (auto simp: desk_refs_def)
    with ok [OF r] assms show ?thesis by (auto simp: counters_ok_def trail_ok_def)
  next
    case False
    with ok [OF r] show ?thesis by simp
  qed
  then show "at_desk {} {} k x t" unfolding t
    by (intro at_desk_map [where q = tk] refs) (use mem in \<open>simp_all add: x set_vals_def\<close>)
qed

lemma update_draft_desk:
  "hoare (stored k tk) (update_draft_ticket E now tk user ty d c subject description) (at_desk {} {} k)"
proof -
  have tail: "hoare (at_desk {} {} k x) (seqn (auto_tag_ticket E now (row_pk x) (ticket_text (vals x)))
       (seqn (detect_duplicate_candidates now x 68) (seqn (sync_category_counters now (tk_category (vals x))) (ret x)))) (at_desk {} {} k)" for x
    by (intro hoare_frame_seqn keeps_rules hoare_ret)
  have doc: "hoare (stored k tk) (fill_document v) (\<lambda>w s. (\<exists>d. w = v\<lparr>tk_search_document := d\<rparr>) \<and> stored k tk s)" for v
    by (rule hoareI) (auto dest: fill_document_Inr)
  have save: "hoare (\<lambda>s. (\<exists>d. w = v\<lparr>tk_search_document := d\<rparr>) \<and> stored k tk s)
      (save_ticket now (\<lambda>ob _. ob) (set_vals (\<lambda>_. w) tk)) (at_desk {} {} k)"
    if "tk_status v = tk_status (vals tk)" "tk_message_count v = tk_message_count (vals tk)"
      "tk_attachment_count v = tk_attachment_count (vals tk)" "tk_internal_note_count v = tk_internal_note_count (vals tk)" for v w
    using save_whole_desk [of w tk k now] that unfolding hoare_def by auto
  show ?thesis unfolding update_draft_ticket_def Let_def
    by (intro hoare_atomic hoare_check hoare_follow_opt hoare_follow, rule hoare_bnd [OF doc], rule hoare_bnd [OF save])
       (simp_all add: tail)
qed

text \<open>A new ticket: its history begins with the draft.\<close>

definition fresh :: "nat set \<Rightarrow> nat \<Rightarrow> ticket row \<Rightarrow> sup_db \<Rightarrow> bool" where
  "fresh X k tk s = (at_desk X {k} k tk s \<and> trail_at k None s \<and> tk_status (vals tk) = TS_DRAFT)"

lemma insert_ticket_desk:
  assumes "tk_status v = TS_DRAFT"
  shows "hoare (desk {} {}) (insert_ticket now v) (\<lambda>x. fresh {row_pk x} (row_pk x) x)"
proof (rule hoareI)
  fix s x t
  assume pre: "desk {} {} s" and run: "insert_ticket now v s = (Inr x, t)"
  obtain d where x: "x = new_row now (v\<lparr>tk_search_document := d\<rparr>) (tickets s)" and t: "t = s\<lparr>tickets := tickets s @ [x]\<rparr>"
    using run by (auto simp: insert_ticket_def svc_inv Let_def dest!: fill_document_Inr)
  have new: "row_pk x \<notin> row_pk ` set (tickets s)" using next_pk_fresh [of "tickets s"] by (simp add: x)
  have "history_of (row_pk x) t = []"
    using pre new unfolding history_of_def desk_def desk_refs_def by (simp add: t filter_empty_conv) metis
  then have "trail_at (row_pk x) None t" by (simp add: trail_at_def)
  moreover have "desk_refs t" using pre new by (auto simp: desk_def desk_refs_def t)
  ultimately show "fresh {row_pk x} (row_pk x) x t"
    using pre assms by (auto simp: fresh_def at_desk_def desk_def obj_def t x)
qed

lemma fresh_message: "tm_ticket m = k \<Longrightarrow> hoare (fresh X k tk) (add_message now m) (\<lambda>_. fresh (insert k X) k tk)"
  using add_message_desk [of m k X "{k}" tk now] unfolding hoare_def fresh_def
  by (auto simp: trail_at_def history_of_def add_message_def svc_inv)

lemma fresh_sync: "hoare (fresh X k tk) (sync_ticket_counters now tk) (fresh (X - {k}) k)"
proof (rule hoareI)
  fix s x t
  assume pre: "fresh X k tk s" and run: "sync_ticket_counters now tk s = (Inr x, t)"
  have "at_desk (X - {k}) {k} k x t" using hoareD [OF sync_desk _ run] pre by (simp add: fresh_def)
  moreover have "status_histories t = status_histories s" "tk_status (vals x) = tk_status (vals tk)"
    using run by (auto simp: sync_ticket_counters_def save_ticket_def svc_inv set_vals_def)
  ultimately show "fresh (X - {k}) k x t" using pre by (simp add: fresh_def trail_at_def history_of_def)
qed

lemma fresh_category: "hoare (fresh X k tk) (sync_category_counters now c) (\<lambda>_. fresh X k tk)"
proof (rule hoareI)
  fix s x t
  assume pre: "fresh X k tk s" and run: "sync_category_counters now c s = (Inr x, t)"
  have "desk_view t = desk_view s" using keepsD [OF keeps_desk_view(3) run] .
  then show "fresh X k tk t" using pre desk_view_eq [of t s X "{k}" k tk]
    by (simp add: fresh_def trail_at_def history_of_def desk_view_def)
qed

lemma fresh_history:
  "sh_ticket h = k \<Longrightarrow> sh_from_status h = None \<Longrightarrow> sh_to_status h = TS_DRAFT \<Longrightarrow>
   hoare (fresh X k tk) (add_history now h) (\<lambda>_. at_desk X {} k tk)"
  using add_history_desk [of h k None tk X "{}" now] unfolding hoare_def fresh_def by auto

lemma hoare_fresh_pk: "(row_pk tk = k \<Longrightarrow> hoare (fresh X k tk) m Q) \<Longrightarrow> hoare (fresh X k tk) m Q"
  unfolding hoare_def fresh_def using at_desk_pk by blast

lemma create_ticket_desk: "hoare (desk {} {}) (create_ticket E now owner ty subject description d c priority severity) (\<lambda>_. desk {} {})"
proof -
  have tail: "hoare (at_desk {} {} k tk) (seqn (case tk_assigned_to (vals tk) of None \<Rightarrow> ret () | Some a \<Rightarrow> add_assignment now (g a))
       (seqn (auto_tag_ticket E now j w) (seqn (detect_duplicate_candidates now tk 68) (ret tk)))) (\<lambda>_. desk {} {})" for k tk g j w
    by (intro hoare_frame_seqn keeps_rules hoare_ret) (simp add: at_desk_def)
  have new: "hoare (fresh {k} k tk)
      (bnd (add_message now (public_message (row_pk tk) u MT_USER_MESSAGE body False)) (\<lambda>m.
             bnd (sync_ticket_counters now tk) (\<lambda>tk.
             seqn (sync_category_counters now cc)
             (seqn (add_history now \<lparr>sh_ticket = row_pk tk, sh_changed_by = Some u, sh_from_status = None,
                 sh_to_status = TS_DRAFT, sh_reason = ''draft_created''\<rparr>)
             (seqn (case tk_assigned_to (vals tk) of
                      None \<Rightarrow> ret ()
                    | Some a \<Rightarrow> add_assignment now \<lparr>tas_ticket = row_pk tk, tas_assigned_by = u, tas_from_assignee = None,
                        tas_assigned_to = Some a, tas_department = Some dd, tas_reason = ''department_default''\<rparr>)
             (seqn (auto_tag_ticket E now (row_pk tk) (tk_subject (vals tk) @ '' '' @ tm_body (vals m)))
             (seqn (detect_duplicate_candidates now tk 68)
             (ret tk)))))))) (\<lambda>_. desk {} {})" for k tk u body cc dd
    by (rule hoare_fresh_pk, rule hoare_bnd [OF fresh_message], simp add: public_message_def, rule hoare_bnd [OF fresh_sync],
        rule hoare_seqn [OF fresh_category], rule hoare_fresh_pk, rule hoare_seqn [OF fresh_history], simp_all add: tail)
  show ?thesis unfolding create_ticket_def Let_def
    by (intro hoare_atomic hoare_some hoare_follow hoare_both hoare_check hoare_read hoare_bnd [OF insert_ticket_desk] new)
       (simp add: new_ticket_def)
qed

end
