(* ===== verification/Support_System.thy ===== *)
theory Support_System
  imports Support_Trail
begin

text \<open>
  The support desk as a transition system: requests and tasks run one after the other, and a request on a ticket loads
  the ticket first. Two interpretations of the invariant interface give the state invariants: the category tree
  under all calls, and the trail and counters of tickets under all requests.
\<close>

section \<open>Calls\<close>

datatype (plugins only: code) sd_call =
    CreateDepartment string string "nat option" nat
  | UpdateDepartment nat department_patch
  | DeactivateDepartment nat
  | CreateCategory nat string "nat option" string string nat
  | UpdateCategory nat category_patch
  | DeactivateCategory nat
  | CreateCalendar string "nat option" string "int option" "int option" "int list option" bool
  | UpdateCalendar nat calendar_patch
  | CreateHoliday nat int string
  | UpdateHoliday nat holiday_patch
  | CreatePolicy string "nat option" ticket_priority ticket_severity nat nat bool bool bool nat
  | UpdatePolicy nat policy_patch
  | CreateTicketType string string string "nat option" "nat option" ticket_priority ticket_severity "nat option" nat
  | UpdateTicketType nat ticket_type_patch
  | CreateTicket sd_user nat string string "nat option" "nat option" "ticket_priority option" "ticket_severity option"
  | UpdateDraft nat sd_user "nat option" "nat option" "nat option" "string option" "string option"
  | SubmitTicket nat sd_user
  | UserReply nat sd_user string
  | AdminReply nat sd_user string
  | InternalNote nat sd_user string
  | Attach nat sd_user string nat string string attachment_kind attachment_visibility "nat option"
  | Assign nat sd_user "nat option" "nat option" string
  | AutoAssign nat sd_user "nat option" string
  | ChangeStatus nat sd_user ticket_status string
  | ResolveTicket nat sd_user string
  | CloseTicket nat sd_user string
  | ReopenTicket nat sd_user string
  | EscalateTicket nat sd_user string
  | RateTicket nat sd_user int string
  | ReviewDuplicate nat sd_user duplicate_review_status string
  | MarkBreaches
  | CleanupDrafts int

definition on_ticket :: "nat \<Rightarrow> (ticket row \<Rightarrow> (sup_db, 'a) svc) \<Rightarrow> (sup_db, unit) svc" where
  "on_ticket k f = bnd (follow tickets k) (\<lambda>tk. seqn (f tk) (ret ()))"

definition unit_svc :: "('s, 'a) svc \<Rightarrow> ('s, unit) svc" where
  "unit_svc m = seqn m (ret ())"

fun run_call :: "sup_env \<Rightarrow> int \<Rightarrow> sd_call \<Rightarrow> (sup_db, unit) svc" where
  "run_call E now (CreateDepartment a b c d) = unit_svc (create_department E now a b c d)"
| "run_call E now (UpdateDepartment k p) = unit_svc (update_department now k p)"
| "run_call E now (DeactivateDepartment k) = unit_svc (deactivate_department now k)"
| "run_call E now (CreateCategory a b c d e f) = unit_svc (create_category E now a b c d e f)"
| "run_call E now (UpdateCategory k p) = unit_svc (update_category E now k p)"
| "run_call E now (DeactivateCategory k) = unit_svc (deactivate_category now k)"
| "run_call E now (CreateCalendar a b c d e f g) = unit_svc (create_business_calendar now a b c d e f g)"
| "run_call E now (UpdateCalendar k p) = unit_svc (update_business_calendar now k p)"
| "run_call E now (CreateHoliday a b c) = unit_svc (create_holiday now a b c)"
| "run_call E now (UpdateHoliday k p) = unit_svc (update_holiday now k p)"
| "run_call E now (CreatePolicy a b c d e f g h i j) = unit_svc (create_sla_policy E now a b c d e f g h i j)"
| "run_call E now (UpdatePolicy k p) = unit_svc (update_sla_policy now k p)"
| "run_call E now (CreateTicketType a b c d e f g h i) = unit_svc (create_ticket_type now a b c d e f g h i)"
| "run_call E now (UpdateTicketType k p) = unit_svc (update_ticket_type now k p)"
| "run_call E now (CreateTicket a b c d e f g h) = unit_svc (create_ticket E now a b c d e f g h)"
| "run_call E now (UpdateDraft k u a b c d e) = on_ticket k (\<lambda>tk. update_draft_ticket E now tk u a b c d e)"
| "run_call E now (SubmitTicket k u) = on_ticket k (\<lambda>tk. submit_ticket E now tk u)"
| "run_call E now (UserReply k u a) = on_ticket k (\<lambda>tk. add_user_reply E now tk u a)"
| "run_call E now (AdminReply k u a) = on_ticket k (\<lambda>tk. add_admin_reply E now tk u a)"
| "run_call E now (InternalNote k u a) = on_ticket k (\<lambda>tk. add_internal_note now tk u a)"
| "run_call E now (Attach k u a b c d e f g) = on_ticket k (\<lambda>tk. add_attachment now tk u a b c d e f g)"
| "run_call E now (Assign k u a b c) = on_ticket k (\<lambda>tk. assign_ticket now tk u a b c)"
| "run_call E now (AutoAssign k u a b) = on_ticket k (\<lambda>tk. auto_assign_ticket now tk u a b)"
| "run_call E now (ChangeStatus k u a b) = on_ticket k (\<lambda>tk. change_ticket_status now tk u a b)"
| "run_call E now (ResolveTicket k u a) = on_ticket k (\<lambda>tk. resolve_ticket E now tk u a)"
| "run_call E now (CloseTicket k u a) = on_ticket k (\<lambda>tk. close_ticket now tk u a)"
| "run_call E now (ReopenTicket k u a) = on_ticket k (\<lambda>tk. reopen_ticket now tk u a)"
| "run_call E now (EscalateTicket k u a) = on_ticket k (\<lambda>tk. escalate_ticket now tk u a)"
| "run_call E now (RateTicket k u a b) = on_ticket k (\<lambda>tk. submit_satisfaction now tk u a b)"
| "run_call E now (ReviewDuplicate k u a b) = unit_svc (review_duplicate_candidate now k u a b)"
| "run_call E now MarkBreaches = unit_svc (mark_sla_breaches now)"
| "run_call E now (CleanupDrafts n) = unit_svc (cleanup_stale_support_drafts_task now n)"

text \<open>What Django documents of \<open>slugify\<close>, and that hexadecimal digits are no slashes.\<close>

definition slug_env :: "sup_env \<Rightarrow> bool" where
  "slug_env E = ((\<forall>x. CHR ''/'' \<notin> set (se_slugify E x)) \<and> slug_ok (se_uuid E))"

definition is_request :: "sd_call \<Rightarrow> bool" where
  "is_request c = (case c of MarkBreaches \<Rightarrow> False | CleanupDrafts _ \<Rightarrow> False | _ \<Rightarrow> True)"

inductive sd_step :: "sup_db \<Rightarrow> sup_db \<Rightarrow> bool" where
  sd_stepI: "slug_env E \<Longrightarrow> sd_step s (state_after (run_call E now c) s)"

inductive request_step :: "sup_db \<Rightarrow> sup_db \<Rightarrow> bool" where
  request_stepI: "is_request c \<Longrightarrow> request_step s (state_after (run_call E now c) s)"

inductive_cases sd_stepE: "sd_step s t"
inductive_cases request_stepE: "request_step s t"

definition desk_init :: "sup_db \<Rightarrow> bool" where
  "desk_init s = (tickets s = [] \<and> messages s = [] \<and> attachments s = [] \<and> status_histories s = [] \<and> categories s = [])"

section \<open>Every service is one transaction\<close>

lemma transactional_unit_svc [simp]: "transactional m \<Longrightarrow> transactional (unit_svc m)"
  by (auto simp: transactional_def unit_svc_def seqn_def bnd_def ret_def split: prod.splits sum.splits)

lemma transactional_on_ticket [simp]: "(\<And>tk. transactional (f tk)) \<Longrightarrow> transactional (on_ticket k f)"
  unfolding on_ticket_def transactional_def seqn_def bnd_def follow_def ret_def
  by (auto split: prod.splits sum.splits option.splits)

lemma transactional_cleanup: "transactional (cleanup_stale_support_drafts_task now n)"
  by (simp add: transactional_def cleanup_stale_support_drafts_task_def svc_defs Let_def)

lemma svc_transactional [simp]:
  "transactional (create_department E now a0 b0 c0 d0)" "transactional (update_department now k1 p1)"
  "transactional (deactivate_department now k2)" "transactional (create_category E now a3 b3 c3 d3 e3 f3)"
  "transactional (update_category E now k4 p4)" "transactional (deactivate_category now k5)"
  "transactional (create_business_calendar now a6 b6 c6 d6 e6 f6 g6)" "transactional (update_business_calendar now k7 p7)"
  "transactional (create_holiday now a8 b8 c8)" "transactional (update_holiday now k9 p9)"
  "transactional (create_sla_policy E now a10 b10 c10 d10 e10 f10 g10 h10 i10 j10)" "transactional (update_sla_policy now k11 p11)"
  "transactional (create_ticket_type now a12 b12 c12 d12 e12 f12 g12 h12 i12)" "transactional (update_ticket_type now k13 p13)"
  "transactional (create_ticket E now a14 b14 c14 d14 e14 f14 g14 h14)" "transactional (update_draft_ticket E now tk15 u15 a15 b15 c15 d15 e15)"
  "transactional (submit_ticket E now tk16 u16)" "transactional (add_user_reply E now tk17 u17 a17)"
  "transactional (add_admin_reply E now tk18 u18 a18)" "transactional (add_internal_note now tk19 u19 a19)"
  "transactional (add_attachment now tk20 u20 a20 b20 c20 d20 e20 f20 g20)" "transactional (assign_ticket now tk21 u21 a21 b21 c21)"
  "transactional (auto_assign_ticket now tk22 u22 a22 b22)" "transactional (change_ticket_status now tk23 u23 a23 b23)"
  "transactional (resolve_ticket E now tk24 u24 a24)" "transactional (close_ticket now tk25 u25 a25)"
  "transactional (reopen_ticket now tk26 u26 a26)" "transactional (escalate_ticket now tk27 u27 a27)"
  "transactional (submit_satisfaction now tk28 u28 a28 b28)" "transactional (review_duplicate_candidate now k29 u29 a29 b29)"
  "transactional (mark_sla_breaches now)"
  unfolding create_department_def update_department_def deactivate_department_def create_category_def update_category_def
    deactivate_category_def create_business_calendar_def update_business_calendar_def create_holiday_def
    update_holiday_def create_sla_policy_def update_sla_policy_def create_ticket_type_def update_ticket_type_def
    create_ticket_def update_draft_ticket_def submit_ticket_def add_user_reply_def add_admin_reply_def
    add_internal_note_def add_attachment_def assign_ticket_def auto_assign_ticket_def change_ticket_status_def
    resolve_ticket_def close_ticket_def reopen_ticket_def escalate_ticket_def submit_satisfaction_def
    review_duplicate_candidate_def mark_sla_breaches_def
  by (rule transactional_atomic)+

lemma run_call_transactional: "transactional (run_call E now c)"
  by (cases c) (simp_all add: transactional_cleanup)

section \<open>Trails and counters\<close>

lemma hoare_desk_frame: "keeps desk_view m \<Longrightarrow> hoare (desk {} {}) m (\<lambda>_. desk {} {})"
proof (rule hoare_keeps [where g = desk_view])
  fix s t assume "desk_view t = desk_view s"
  then show "desk {} {} s = desk {} {} t"
    by (simp add: desk_view_def desk_def desk_refs_def counters_ok_def trail_ok_def history_of_def)
qed

lemma hoare_unit_svc: "hoare P m (\<lambda>_. Q) \<Longrightarrow> hoare P (unit_svc m) (\<lambda>_. Q)"
  unfolding unit_svc_def by (erule hoare_seqn) (rule hoare_ret)

lemma hoare_on_ticket:
  assumes "\<And>tk. hoare (stored k tk) (f tk) (\<lambda>_. desk {} {})"
  shows "hoare (desk {} {}) (on_ticket k f) (\<lambda>_. desk {} {})"
proof (rule hoareI)
  fix s x t assume pre: "desk {} {} s" and "on_ticket k f s = (Inr x, t)"
  then obtain tk y where tk: "tbl_all k (tickets s) = Some tk" and run: "f tk s = (Inr y, t)" by (auto simp: on_ticket_def svc_inv)
  have "stored k tk s" using pre tbl_all_Some [OF tk] by (auto simp: stored_def at_desk_def obj_def)
  then show "desk {} {} t" using hoareD [OF assms _ run] by blast
qed

lemma hoare_stored:
  "hoare (at_desk {} {} k tk) m (\<lambda>_. desk {} {}) \<Longrightarrow> hoare (stored k tk) m (\<lambda>_. desk {} {})"
  "hoare (at_desk {} {} k tk) n (at_desk {} {} k) \<Longrightarrow> hoare (stored k tk) n (\<lambda>_. desk {} {})"
  "hoare (stored k tk) n (at_desk {} {} k) \<Longrightarrow> hoare (stored k tk) n (\<lambda>_. desk {} {})"
  unfolding hoare_def stored_def at_desk_def by blast+

lemma keeps_unit_desk:
  "keeps desk_view (create_department E now a b c d)" "keeps desk_view (update_department now k dp)"
  "keeps desk_view (deactivate_department now k)" "keeps desk_view (create_category E now a1 b1 c1 d1 e1 f1)"
  "keeps desk_view (update_category E now k cp)" "keeps desk_view (deactivate_category now k)"
  by (simp_all only: create_department_def update_department_def deactivate_department_def create_category_def update_category_def
      deactivate_category_def Let_def assert_valid_category_parent_def follow_opt_def)
     (intro keeps_rules keeps_modify; simp add: desk_view_def)+

lemma keeps_config_desk:
  "keeps desk_view (create_business_calendar now a b c d e f g)" "keeps desk_view (update_business_calendar now k clp)"
  "keeps desk_view (create_holiday now a1 b1 c1)" "keeps desk_view (update_holiday now k hlp)"
  "keeps desk_view (create_sla_policy E now a b d2 e2 f2 g2 h2 i2 j2 k2)" "keeps desk_view (update_sla_policy now k plp)"
  "keeps desk_view (create_ticket_type now a3 b3 c3 d3 e3 f3 g3 h3 i3)" "keeps desk_view (update_ticket_type now k ttp)"
  "keeps desk_view (review_duplicate_candidate now k u st rs)"
  by (simp_all only: create_business_calendar_def update_business_calendar_def create_holiday_def update_holiday_def
      create_sla_policy_def update_sla_policy_def create_ticket_type_def update_ticket_type_def review_duplicate_candidate_def
      check_category_department_def Let_def prod.case)
     (intro keeps_rules keeps_modify; simp add: desk_view_def)+

lemmas on_ticket_desk =
  hoare_on_ticket [OF hoare_stored(3) [OF update_draft_desk]]
  hoare_on_ticket [OF hoare_stored(2) [OF submit_desk]]
  hoare_on_ticket [OF hoare_stored(1) [OF user_reply_desk [unfolded Diff_cancel]]]
  hoare_on_ticket [OF hoare_stored(1) [OF admin_reply_desk [unfolded Diff_cancel]]]
  hoare_on_ticket [OF hoare_stored(1) [OF note_desk [unfolded Diff_cancel]]]
  hoare_on_ticket [OF hoare_stored(1) [OF attachment_desk [unfolded Diff_cancel]]]
  hoare_on_ticket [OF hoare_stored(2) [OF assign_desk [unfolded Diff_cancel]]]
  hoare_on_ticket [OF hoare_stored(2) [OF auto_assign_desk [unfolded Diff_cancel]]]
  hoare_on_ticket [OF hoare_stored(2) [OF change_ticket_status_desk]]
  hoare_on_ticket [OF hoare_stored(2) [OF resolve_desk]]
  hoare_on_ticket [OF hoare_stored(2) [OF close_desk]]
  hoare_on_ticket [OF hoare_stored(2) [OF reopen_desk]]
  hoare_on_ticket [OF hoare_stored(2) [OF escalate_desk]]
  hoare_on_ticket [OF hoare_stored(1) [OF satisfaction_desk]]

lemma request_keeps_desk:
  assumes "is_request c"
  shows "hoare (desk {} {}) (run_call E now c) (\<lambda>_. desk {} {})"
  using assms
  by (cases c) (simp_all add: is_request_def hoare_unit_svc hoare_desk_frame keeps_unit_desk keeps_config_desk create_ticket_desk
      on_ticket_desk)

interpretation requests: invariant_system desk_init request_step "desk {} {}"
proof unfold_locales
  fix s assume "desk_init s"
  then show "desk {} {} s" by (simp add: desk_init_def desk_def desk_refs_def)
next
  fix s t assume inv: "desk {} {} s" and "request_step s t"
  then obtain c E now where c: "is_request c" "t = state_after (run_call E now c) s" by (auto elim: request_stepE)
  have "preserves (desk {} {}) (run_call E now c)"
    by (rule preserves_transactional [OF run_call_transactional]) (rule hoareD [OF request_keeps_desk [OF c(1)]])
  with inv c(2) show "desk {} {} t" by (simp add: preserves_def)
qed

section \<open>The category tree\<close>

abbreviation tree_state :: "sup_db \<Rightarrow> bool" where
  "tree_state s \<equiv> category_tree (categories s)"

lemma tree_frame: "keeps categories m \<Longrightarrow> preserves tree_state m"
  by (erule keeps_preserves) simp

lemma keeps_categories [keeps_rules]:
  "keeps categories (save_ticket now cp tk)" "keeps categories (add_message now m)" "keeps categories (add_history now h)"
  "keeps categories (add_sla_event now e)" "keeps categories (add_assignment now a)" "keeps categories (get_or_create_tag E now token)"
  "keeps categories (tag_ticket now j tag)" "keeps categories (store_duplicate now j c n)"
  by (auto simp: save_ticket_def add_message_def add_history_def add_sla_event_def add_assignment_def get_or_create_tag_def
      tag_ticket_def store_duplicate_def Let_def intro!: keeps_rules keeps_modify)

lemma keeps_categories_steps [keeps_rules]:
  "keeps categories (sync_ticket_counters now tk)" "keeps categories (auto_tag_ticket E now j x)"
  "keeps categories (detect_duplicate_candidates now tk n)" "keeps categories (notify_support_reply E now v m)"
  "keeps categories (notify_support_resolved E now v u)" "keeps categories (resume_sla_if_needed now tk)"
  "keeps categories (pause_sla_if_needed now tk)" "keeps categories (calculate_sla_due_at E tk p n now)"
  "keeps categories (fill_document v)" "keeps categories (insert_ticket now v)"
proof -
  show "keeps categories (calculate_sla_due_at E tk p n now)" by (simp add: keeps_def calculate_sla_due_at_def)
  show "keeps categories (sync_ticket_counters now tk)"
    unfolding sync_ticket_counters_def case_prod_beta by (intro keeps_rules)
  show "keeps categories (notify_support_reply E now v m)" "keeps categories (notify_support_resolved E now v u)"
    unfolding notify_support_reply_def notify_support_resolved_def by (rule keeps_emit; simp)+
  show doc: "keeps categories (fill_document v)" for v unfolding fill_document_def by (intro keeps_rules)
  show "keeps categories (insert_ticket now v)"
    unfolding insert_ticket_def Let_def by (intro keeps_rules keeps_modify doc) simp
  show "keeps categories (auto_tag_ticket E now j x)" "keeps categories (detect_duplicate_candidates now tk n)"
    unfolding auto_tag_ticket_def detect_duplicate_candidates_def Let_def by (intro keeps_rules keeps_modify; simp)+
  show "keeps categories (resume_sla_if_needed now tk)" "keeps categories (pause_sla_if_needed now tk)"
    unfolding resume_sla_if_needed_def pause_sla_if_needed_def follow_opt_def by (intro keeps_rules)+
qed

lemma keeps_categories_flow [keeps_rules]:
  "keeps categories (apply_sla E tk policy now)" "keeps categories (change_status now tk u st r)"
  unfolding apply_sla_def change_status_def Let_def by (intro keeps_rules)+

lemma keeps_categories_services:
  "keeps categories (submit_ticket E now tk u)" "keeps categories (add_user_reply E now tk u x)"
  "keeps categories (add_admin_reply E now tk u x)" "keeps categories (add_internal_note now tk u x)"
  "keeps categories (add_attachment now tk u fn fs og ct ak vis msg)" "keeps categories (assign_ticket now tk u a d x)"
  "keeps categories (auto_assign_ticket now tk u d x)" "keeps categories (change_ticket_status now tk u st x)"
  "keeps categories (resolve_ticket E now tk u x)" "keeps categories (close_ticket now tk u x)"
  "keeps categories (reopen_ticket now tk u x)" "keeps categories (escalate_ticket now tk u x)"
  "keeps categories (submit_satisfaction now tk u n x)" "keeps categories (review_duplicate_candidate now k u ds x)"
  "keeps categories (mark_sla_breaches now)" "keeps categories (cleanup_stale_support_drafts_task now i)"
  unfolding submit_ticket_def add_user_reply_def add_admin_reply_def add_internal_note_def add_attachment_def assign_ticket_def
    auto_assign_ticket_def change_ticket_status_def resolve_ticket_def close_ticket_def reopen_ticket_def escalate_ticket_def
    submit_satisfaction_def review_duplicate_candidate_def mark_sla_breaches_def mark_breach_def cleanup_stale_support_drafts_task_def
    follow_opt_def Let_def
  by (intro keeps_rules keeps_modify; simp)+

lemma keeps_categories_config:
  "keeps categories (create_department E now a4 b4 c4 d4)" "keeps categories (update_department now k dp)"
  "keeps categories (deactivate_department now k)"
  "keeps categories (create_business_calendar now a b c d e f g)" "keeps categories (update_business_calendar now k clp)"
  "keeps categories (create_holiday now a1 b1 c1)" "keeps categories (update_holiday now k hlp)"
  "keeps categories (create_sla_policy E now a b d2 e2 f2 g2 h2 i2 j2 k2)" "keeps categories (update_sla_policy now k plp)"
  "keeps categories (create_ticket_type now a3 b3 c3 d3 e3 f3 g3 h3 i3)" "keeps categories (update_ticket_type now k ttp)"
  by (simp_all only: create_department_def update_department_def deactivate_department_def create_business_calendar_def
      update_business_calendar_def create_holiday_def update_holiday_def create_sla_policy_def update_sla_policy_def
      create_ticket_type_def update_ticket_type_def check_category_department_def Let_def prod.case)
     (intro keeps_rules keeps_modify; simp)+

lemma preserves_follow_opt: "preserves P (follow_opt tab j)"
  by (auto simp: preserves_def state_after_def follow_opt_def svc_defs split: option.split)

lemma preserves_atomicI: "preserves P m \<Longrightarrow> preserves P (atomic m)"
  by (rule preserves_atomic) (rule preserves_Inr)

lemma sync_category_tree: "preserves tree_state (sync_category_counters now k)"
proof -
  have "category_tree (tbl_upd k now f t)" if "category_tree t" "\<And>v. cat_parent (f v) = cat_parent v \<and> cat_slug (f v) = cat_slug v \<and>
      cat_path (f v) = cat_path v \<and> cat_depth (f v) = cat_depth v" for f t
    unfolding tbl_upd_def by (rule category_tree_map [OF _ that(1)]) (use that(2) in \<open>auto simp: same_place_def\<close>)
  then show ?thesis by (simp add: preserves_def sync_category_counters_def)
qed

lemma preserves_pair:
  "(\<And>d c. preserves P (f d c)) \<Longrightarrow> preserves P (case (x, y) of (Some d, Some c) \<Rightarrow> f d c | _ \<Rightarrow> raise e)"
  by (cases x; cases y) (simp_all add: preserves_raise)

lemma draft_tree:
  "preserves tree_state (create_ticket E now a b c d e f g h)" "preserves tree_state (update_draft_ticket E now tk u a1 b1 c1 d1 e1)"
  unfolding create_ticket_def update_draft_ticket_def Let_def
  by (intro preserves_atomicI preserves_pair preserves_rules preserves_follow preserves_follow_opt sync_category_tree tree_frame [OF keeps_categories(1)]
      tree_frame [OF keeps_categories(2)] tree_frame [OF keeps_categories(3)] tree_frame [OF keeps_categories(5)]
      tree_frame [OF keeps_categories_steps(1)] tree_frame [OF keeps_categories_steps(2)] tree_frame [OF keeps_categories_steps(3)]
      tree_frame [OF keeps_categories_steps(9)] tree_frame [OF keeps_categories_steps(10)])+

lemma tree_unit_svc: "preserves tree_state m \<Longrightarrow> preserves tree_state (unit_svc m)"
  unfolding unit_svc_def by (intro preserves_rules)

lemma tree_on_ticket: "(\<And>tk. preserves tree_state (f tk)) \<Longrightarrow> preserves tree_state (on_ticket k f)"
  unfolding on_ticket_def by (intro preserves_rules preserves_follow preserves_follow_opt)

lemma run_call_tree:
  assumes "slug_env E"
  shows "preserves tree_state (run_call E now c)"
  using assms
  by (cases c) (simp_all add: slug_env_def tree_unit_svc tree_on_ticket create_category_tree update_category_tree deactivate_category_tree
      draft_tree tree_frame keeps_categories_services keeps_categories_config)

interpretation categories: invariant_system desk_init sd_step tree_state
proof unfold_locales
  fix s assume "desk_init s"
  then show "tree_state s" by (simp add: desk_init_def category_tree_def rows_ok_def)
next
  fix s t assume inv: "tree_state s" and "sd_step s t"
  then obtain c E now where c: "slug_env E" "t = state_after (run_call E now c) s" by (auto elim: sd_stepE)
  with inv run_call_tree [OF c(1)] show "tree_state t" by (simp add: preserves_def)
qed

end
