(* ===== verification/Support_Example.thy ===== *)
theory Support_Example
  imports Support_System
begin

text \<open>
  Concrete desks at which the theorems are instantiated: a department with a category, a ticket type and a policy that
  pauses, an owner and an administrator, and a ticket in the queue.
\<close>

definition desk_env :: sup_env where
  "desk_env = \<lparr>se_slugify = (\<lambda>x. filter (\<lambda>c. c \<noteq> CHR ''/'') x), se_uuid = ''u'', se_recursion_limit = 10, se_token_hex = (\<lambda>_. ''a''),
     se_zones = (\<lambda>_. None), se_local = (\<lambda>u. u), se_format = (\<lambda>x _. x),
     se_cfg = \<lparr>NOTIFICATIONS_EMAIL_ENABLED = False, NOTIFICATIONS_SMS_ENABLED = False\<rparr>\<rparr>"

definition fixed_row :: "nat \<Rightarrow> 'v \<Rightarrow> 'v row" where
  "fixed_row k v = \<lparr>row_pk = k, created_at = 0, updated_at = 0, is_active = True, vals = v\<rparr>"

definition person :: "nat \<Rightarrow> bool \<Rightarrow> auth_user row" where
  "person k staff = fixed_row k \<lparr>u_email = None, u_phone_number = None, u_primary_identifier = EMAIL, u_is_email_verified = True,
     u_is_phone_verified = False, u_first_name = [], u_last_name = [], u_role = ROLE_USER, u_is_staff = staff, u_is_superuser = False,
     u_password = [], u_last_login_ip = None\<rparr>"

definition desk_department :: department where
  "desk_department = \<lparr>dep_title = ''D'', dep_slug = ''d'', dep_description = [], dep_default_assignee = None, dep_order = 0\<rparr>"

definition desk_policy :: sla_policy where
  "desk_policy = \<lparr>pol_title = ''P'', pol_slug = ''p'', pol_department = None, pol_priority = TP_NORMAL, pol_severity = SV_MINOR,
     pol_first_response_minutes = 1, pol_resolution_minutes = 2, pol_business_hours_only = False,
     pol_pause_when_waiting_for_user = True, pol_escalate_on_breach = True, pol_order = 0\<rparr>"

definition desk_type :: ticket_type where
  "desk_type = \<lparr>tt_code = ''t'', tt_title = ''T'', tt_description = [], tt_default_department = Some 1, tt_default_category = Some 1,
     tt_default_priority = TP_NORMAL, tt_default_severity = SV_MINOR, tt_default_sla_policy = None, tt_order = 0\<rparr>"

text \<open>Before the first category and ticket.\<close>

definition desk0 :: sup_db where
  "desk0 = \<lparr>ntf_templates = [], ntf_events = [], ntf_deliveries = [], ntf_preferences = [], activities = [], on_commit_dispatch = [],
     sd_users = [person 1 False, person 2 True], departments = [fixed_row 1 desk_department], categories = [], calendars = [], holidays = [],
     sla_policies = [fixed_row 1 desk_policy], ticket_types = [fixed_row 1 desk_type], tickets = [], messages = [], attachments = [],
     support_tags = [], ticket_tags = [], canned_responses = [], articles = [], article_uses = [], assignments = [],
     status_histories = [], sla_events = [], satisfactions = [], duplicates = []\<rparr>"

definition desk1 :: sup_db where
  "desk1 = state_after (run_call desk_env 10 (CreateCategory 1 ''C'' None [] [] 0)) desk0"

definition desk2 :: sup_db where
  "desk2 = state_after (run_call desk_env 20 (CreateTicket (Some (person 1 False)) 1 ''S'' [] None None None None)) desk1"

text \<open>The states evaluated once: as code equations they spare later evaluations the calls that lead to them.\<close>

lemma desk1_value [code]:
  "desk1 =
     desk0\<lparr>categories := [\<lparr>row_pk = 1, created_at = 10, updated_at = 10, is_active = True, vals =
     \<lparr>cat_parent = None, cat_department = 1, cat_title = ''C'', cat_slug = ''C'', cat_path = ''/C/'', cat_depth = 0,
     cat_description = [], cat_icon = [], cat_order = 0, cat_tickets_count = 0, cat_open_tickets_count =
     0\<rparr>\<rparr>]\<rparr>"
  by code_simp

lemma desk0_init: "desk_init desk0"
  by (simp add: desk_init_def desk0_def)

lemma desk_env_slugs: "slug_env desk_env"
  by (simp add: slug_env_def desk_env_def slug_ok_def)

lemma desk_request:
  assumes "reach desk_init request_step s" "is_request c"
  shows "reach desk_init request_step (state_after (run_call E now c) s)"
  by (rule reach_step [OF assms(1)]) (rule request_stepI [OF assms(2)])

lemma desk_call: "reach desk_init sd_step s \<Longrightarrow> reach desk_init sd_step (state_after (run_call desk_env now c) s)"
  by (erule reach_step) (rule sd_stepI [OF desk_env_slugs])

lemma desk1_reach: "reach desk_init sd_step desk1"
  unfolding desk1_def by (rule desk_call) (rule reach_init, rule desk0_init)

lemma desk2_reach: "reach desk_init request_step desk2"
  unfolding desk2_def desk1_def
  by (intro desk_request) (simp_all add: is_request_def reach_init desk0_init)

lemma desk1_categories: "map (\<lambda>r. (row_pk r, cat_path (vals r))) (categories desk1) = [(1, ''/C/'')]"
  by code_simp

lemma desk2_tickets: "map (\<lambda>r. (row_pk r, tk_message_count (vals r))) (tickets desk2) = [(1, 1)]"
  by code_simp

text \<open>The owner, the administrator, and the ticket as stored in a state.\<close>

definition owner1 :: sd_user where
  "owner1 = Some (person 1 False)"

definition admin2 :: sd_user where
  "admin2 = Some (person 2 True)"

definition tk_of :: "sup_db \<Rightarrow> ticket row" where
  "tk_of s = hd (tickets s)"

definition returns :: "('s, 'a) svc \<Rightarrow> 's \<Rightarrow> bool" where
  "returns m s = (case fst (m s) of Inl _ \<Rightarrow> False | Inr _ \<Rightarrow> True)"

lemma returnsE: "returns m s \<Longrightarrow> \<exists>x. m s = (Inr x, state_after m s)"
  by (cases "m s") (auto simp: returns_def state_after_def split: sum.splits)

text \<open>A desk with one open ticket under the policy.\<close>

definition open_ticket :: ticket where
  "open_ticket = (new_ticket 1 1 1 1 ''S'' [] TP_NORMAL SV_MINOR None 0 ''N'')\<lparr>tk_status := TS_OPEN, tk_applied_sla_policy := Some 1,
     tk_first_response_due_at := Some 60, tk_resolution_due_at := Some 120\<rparr>"

definition queue0 :: sup_db where
  "queue0 = desk0\<lparr>tickets := [fixed_row 1 open_ticket]\<rparr>"

definition queue1 :: sup_db where
  "queue1 = state_after (add_admin_reply desk_env 40 (tk_of queue0) admin2 []) queue0"

definition queue2 :: sup_db where
  "queue2 = state_after (close_ticket 50 (tk_of queue0) owner1 []) queue0"

lemma queue1_value [code]:
  "queue1 =
     desk0\<lparr>ntf_events := [\<lparr>row_pk = 1, created_at = 40, updated_at = 40, is_active = True, vals =
     \<lparr>ne_event_type = ''support.reply'', ne_aggregate_type = ''support_ticket'', ne_aggregate_id = ''N'', ne_actor =
     Some 2, ne_payload = [(''title'', JStr ''support_reply''), (''message'', JStr []), (''ticket_number'', JStr ''N''),
     (''subject'', JStr ''S'')], ne_priority = NP_NORMAL, ne_status = NE_PENDING, ne_processed_at = None, ne_attempt_count =
     0\<rparr>\<rparr>], ntf_deliveries := [\<lparr>row_pk = 1, created_at = 40, updated_at = 40, is_active = True, vals =
     \<lparr>nd_event = 1, nd_recipient = 1, nd_channel = NC_IN_APP, nd_status = ND_PENDING, nd_subject = ''support_reply'',
     nd_body = ''support_reply'', nd_provider = [], nd_external_id = [], nd_error_message = [], nd_sent_at = None, nd_read_at
     = None\<rparr>\<rparr>], activities := [\<lparr>row_pk = 1, created_at = 40, updated_at = 40, is_active = True, vals =
     \<lparr>ua_user = 1, ua_actor = Some 2, ua_event_type = ''support.reply'', ua_app_label = ''support_desk'', ua_verb =
     AV_REPLIED, ua_title = ''support_reply'', ua_summary = ''S'', ua_aggregate_type = ''support_ticket'', ua_aggregate_id =
     ''N'', ua_metadata = [(''title'', JStr ''support_reply''), (''message'', JStr []), (''ticket_number'', JStr ''N''),
     (''subject'', JStr ''S''), (''notification_event_id'', JInt 1)]\<rparr>\<rparr>], on_commit_dispatch := [1], tickets :=
     [\<lparr>row_pk = 1, created_at = 0, updated_at = 40, is_active = True, vals = \<lparr>tk_ticket_number = ''N'', tk_owner
     = 1, tk_department = 1, tk_category = 1, tk_ticket_type = 1, tk_subject = ''S'', tk_description_snapshot = [], tk_status
     = TS_WAITING_FOR_USER, tk_priority = TP_NORMAL, tk_severity = SV_MINOR, tk_channel = CH_WEB, tk_assigned_to = None,
     tk_submitted_at = None, tk_first_admin_response_at = Some 40, tk_last_user_message_at = None, tk_last_admin_message_at =
     Some 40, tk_last_activity_at = 40, tk_resolved_at = None, tk_closed_at = None, tk_reopened_at = None, tk_escalated_at =
     None, tk_escalated_by = None, tk_escalation_reason = [], tk_applied_sla_policy = Some 1, tk_first_response_due_at = Some
     60, tk_resolution_due_at = Some 120, tk_sla_breached_at = None, tk_sla_paused_at = Some 40, tk_sla_total_paused_seconds =
     0, tk_message_count = 2, tk_attachment_count = 0, tk_internal_note_count = 0, tk_reopen_count = 0,
     tk_satisfaction_rating_snapshot = None, tk_search_document = []\<rparr>\<rparr>], messages := [\<lparr>row_pk = 1,
     created_at = 40, updated_at = 40, is_active = True, vals = \<lparr>tm_ticket = 1, tm_author = 2, tm_message_type =
     MT_ADMIN_REPLY, tm_body = [], tm_is_internal = False, tm_is_from_staff = True, tm_metadata = []\<rparr>\<rparr>,
     \<lparr>row_pk = 2, created_at = 40, updated_at = 40, is_active = True, vals = \<lparr>tm_ticket = 1, tm_author = 2,
     tm_message_type = MT_STATUS_CHANGE, tm_body = ''admin_reply'', tm_is_internal = True, tm_is_from_staff = True,
     tm_metadata = [(''from_status'', JStr ''open''), (''to_status'', JStr ''waiting_for_user'')]\<rparr>\<rparr>],
     status_histories := [\<lparr>row_pk = 1, created_at = 40, updated_at = 40, is_active = True, vals = \<lparr>sh_ticket =
     1, sh_changed_by = Some 2, sh_from_status = Some TS_OPEN, sh_to_status = TS_WAITING_FOR_USER, sh_reason =
     ''admin_reply''\<rparr>\<rparr>], sla_events := [\<lparr>row_pk = 1, created_at = 40, updated_at = 40, is_active = True,
     vals = \<lparr>sle_ticket = 1, sle_event_type = SE_PAUSED, sle_occurred_at = 40, sle_metadata =
     []\<rparr>\<rparr>]\<rparr>"
  by code_simp

lemma queue2_value [code]:
  "queue2 =
     desk0\<lparr>tickets := [\<lparr>row_pk = 1, created_at = 0, updated_at = 50, is_active = True, vals =
     \<lparr>tk_ticket_number = ''N'', tk_owner = 1, tk_department = 1, tk_category = 1, tk_ticket_type = 1, tk_subject =
     ''S'', tk_description_snapshot = [], tk_status = TS_CLOSED, tk_priority = TP_NORMAL, tk_severity = SV_MINOR, tk_channel =
     CH_WEB, tk_assigned_to = None, tk_submitted_at = None, tk_first_admin_response_at = None, tk_last_user_message_at = None,
     tk_last_admin_message_at = None, tk_last_activity_at = 50, tk_resolved_at = None, tk_closed_at = Some 50, tk_reopened_at
     = None, tk_escalated_at = None, tk_escalated_by = None, tk_escalation_reason = [], tk_applied_sla_policy = Some 1,
     tk_first_response_due_at = Some 60, tk_resolution_due_at = Some 120, tk_sla_breached_at = None, tk_sla_paused_at = None,
     tk_sla_total_paused_seconds = 0, tk_message_count = 1, tk_attachment_count = 0, tk_internal_note_count = 0,
     tk_reopen_count = 0, tk_satisfaction_rating_snapshot = None, tk_search_document = []\<rparr>\<rparr>], messages :=
     [\<lparr>row_pk = 1, created_at = 50, updated_at = 50, is_active = True, vals = \<lparr>tm_ticket = 1, tm_author = 1,
     tm_message_type = MT_STATUS_CHANGE, tm_body = ''closed'', tm_is_internal = True, tm_is_from_staff = False, tm_metadata =
     [(''from_status'', JStr ''open''), (''to_status'', JStr ''closed'')]\<rparr>\<rparr>], status_histories :=
     [\<lparr>row_pk = 1, created_at = 50, updated_at = 50, is_active = True, vals = \<lparr>sh_ticket = 1, sh_changed_by =
     Some 1, sh_from_status = Some TS_OPEN, sh_to_status = TS_CLOSED, sh_reason = ''closed''\<rparr>\<rparr>]\<rparr>"
  by code_simp

lemmas desk_eval = returns_def state_after_def close_ticket_def reopen_ticket_def add_user_reply_def add_admin_reply_def
  resume_sla_if_needed_def pause_sla_if_needed_def resume_vals_def mark_sla_breaches_def mark_breach_def breach_due_def
  first_response_due_def resolution_due_def in_open_queue_def add_sla_event_def
  change_status_def save_ticket_def set_vals_def add_history_def add_message_def status_vals_def copy_status_def
  sync_ticket_counters_def auto_tag_ticket_def public_message_def ticket_messages_def ticket_attachments_def is_internal_note_def
  owner1_def admin2_def person_def fixed_row_def open_ticket_def new_ticket_def queue0_def desk0_def tk_of_def
  user_pk_def is_admin_def USER_REPLY_ALLOWED_STATUSES_def ADMIN_REPLY_ALLOWED_STATUSES_def CLOSABLE_STATUSES_def
  notify_support_reply_def emit_domain_notification_def create_notification_event_def default_channels_def wanted_pairs_def muted_def
  bulk_create_deliveries_def build_delivery_def delivery_key_def record_activities_from_notification_event_def
  follow_opt_def tbl_all_def tbl_upd_def tbl_insert_def new_row_def next_pk_def objects_def desk_policy_def desk_env_def svc_defs Let_def

lemma tokenize_Nil: "tokenize [] = []"
  by code_simp

lemma queue_stored:
  "tbl_all 1 (tickets queue0) = Some (tk_of queue0)" "tk_applied_sla_policy (vals (tk_of queue0)) = Some 1"
  "tk_sla_paused_at (vals (tk_of queue0)) = None" "tbl_all 1 (sla_policies queue0) = Some (fixed_row 1 desk_policy)"
  "distinct (map row_pk (tickets queue0))"
  by (simp_all add: desk_eval)

lemma queue_reply: "returns (add_admin_reply desk_env 40 (tk_of queue0) admin2 []) queue0"
  by (simp add: desk_eval)

lemma queue_answered: "tbl_all 1 (tickets queue1) = Some (tk_of queue1)"
  by code_simp

text \<open>Operations that never raise.\<close>

definition total :: "('s, 'a) svc \<Rightarrow> bool" where
  "total m = (\<forall>s. \<exists>x t. m s = (Inr x, t))"

lemma total_rules:
  "total (ret x)" "total (gets g)" "total (modify h)"
  "total m \<Longrightarrow> (\<And>x. total (f x)) \<Longrightarrow> total (bnd m f)" "total m \<Longrightarrow> total n \<Longrightarrow> total (seqn m n)"
  "b \<Longrightarrow> total m \<Longrightarrow> total (seqn (check b e) m)" "total m \<Longrightarrow> total (atomic m)"
  unfolding total_def svc_defs by (auto split: prod.split sum.split) (metis Inl_Inr_False prod.inject)+

lemma total_returns: "total m \<Longrightarrow> returns m s"
  unfolding total_def returns_def by (metis fst_conv sum.case(2))

lemma total_steps:
  "total (save_ticket now cp tk)" "total (add_message now m)" "total (add_history now h)" "total (add_sla_event now e)"
  unfolding save_ticket_def add_message_def add_history_def add_sla_event_def by (intro total_rules)+

lemma total_sync: "total (sync_ticket_counters now tk)"
  unfolding sync_ticket_counters_def case_prod_beta by (intro total_rules total_steps)

lemma total_change_status: "total (change_status now tk u st r)"
  unfolding change_status_def Let_def by (cases u) (auto intro!: total_rules total_steps total_sync)

lemma total_resume: "total (resume_sla_if_needed now tk)"
  unfolding resume_sla_if_needed_def by (auto split: option.split intro!: total_rules total_steps)

lemma total_user_reply:
  assumes "Some (tk_owner (vals tk)) = user_pk user" "tk_status (vals tk) \<in> set USER_REPLY_ALLOWED_STATUSES"
  shows "total (add_user_reply E now tk user [])"
  unfolding add_user_reply_def auto_tag_ticket_def tokenize_Nil
  by (intro total_rules total_steps total_sync total_change_status total_resume assms) (simp add: total_rules)

lemma queue_user_reply: "returns (add_user_reply desk_env 100 (tk_of queue1) owner1 []) queue1"
  by (rule total_returns, rule total_user_reply) code_simp+

lemma queue_close: "returns (close_ticket 50 (tk_of queue0) owner1 []) queue0"
  by (simp add: desk_eval)

lemma queue_stale_reply: "returns (add_user_reply desk_env 60 (tk_of queue0) owner1 []) queue2"
  by (rule total_returns, rule total_user_reply) (simp_all add: desk_eval)

lemma queue_breach: "returns (mark_sla_breaches 1000) queue0"
  by (simp add: desk_eval)

end
