(* ===== verification/Support_Knowledge.thy ===== *)
theory Support_Knowledge
  imports Support_Workflow
begin

text \<open>
  The knowledge base, canned responses, reply drafts and the triage of a new ticket
  (\<^verbatim>\<open>src/apps/support_desk/services.py\<close>). Suggestions are pure functions of the database. Rows ordered by title come
  in the order of their code points. The fixed Persian phrases around an inserted text stand as English words.
\<close>

section \<open>Articles\<close>

definition clean_keywords :: "string list \<Rightarrow> string list" where
  "clean_keywords ks = filter (\<lambda>k. k \<noteq> []) (map strip ks)"

definition create_knowledge_article ::
  "sup_env \<Rightarrow> int \<Rightarrow> string \<Rightarrow> string \<Rightarrow> string \<Rightarrow> nat option \<Rightarrow> nat option \<Rightarrow> nat option \<Rightarrow> string list \<Rightarrow> article_status \<Rightarrow>
   (sup_db, knowledge_article row) svc" where
  "create_knowledge_article E now title body summary department category ticket_type keywords status =
     atomic (
     seqn (check_category_department category department)
     (bnd (gets articles) (\<lambda>t.
      seqn (check (\<not> list_ex (\<lambda>r. ka_title (vals r) = strip title) t) IntegrityError)
      (let a = new_row now \<lparr>ka_department = department, ka_category = category, ka_ticket_type = ticket_type, ka_title = strip title,
             ka_slug = unique_slug (se_slugify E) (se_uuid E) (map (ka_slug \<circ> vals) t) 260 (strip title), ka_summary = strip summary,
             ka_body = strip body, ka_keywords = clean_keywords keywords, ka_status = status,
             ka_published_at = (if status = KA_PUBLISHED then Some now else None), ka_archived_at = None, ka_usage_count = 0\<rparr> t
       in seqn (modify (\<lambda>s. s\<lparr>articles := articles s @ [a]\<rparr>)) (ret a)))))"

record article_patch =
  kap_title :: "string option"
  kap_body :: "string option"
  kap_summary :: "string option"
  kap_department :: "nat option option"
  kap_category :: "nat option option"
  kap_ticket_type :: "nat option option"
  kap_keywords :: "string list option"
  kap_is_active :: "bool option"

definition apply_article_patch :: "article_patch \<Rightarrow> knowledge_article \<Rightarrow> knowledge_article" where
  "apply_article_patch p v =
     v\<lparr>ka_title := opt_set (map_option strip (kap_title p)) (ka_title v), ka_body := opt_set (map_option strip (kap_body p)) (ka_body v),
       ka_summary := opt_set (map_option strip (kap_summary p)) (ka_summary v),
       ka_department := opt_set (kap_department p) (ka_department v), ka_category := opt_set (kap_category p) (ka_category v),
       ka_ticket_type := opt_set (kap_ticket_type p) (ka_ticket_type v),
       ka_keywords := opt_set (map_option clean_keywords (kap_keywords p)) (ka_keywords v)\<rparr>"

definition update_knowledge_article :: "int \<Rightarrow> nat \<Rightarrow> article_patch \<Rightarrow> (sup_db, knowledge_article row) svc" where
  "update_knowledge_article now k p =
     atomic (
     bnd (follow articles k) (\<lambda>r.
     let v = apply_article_patch p (vals r) in
     seqn (check_category_department (ka_category v) (ka_department v))
     (bnd (gets articles) (\<lambda>t.
      seqn (check (\<not> taken_by_other (ka_title \<circ> vals) (ka_title v) k t) IntegrityError)
      (seqn (modify (\<lambda>s. s\<lparr>articles := patch_table k now (apply_article_patch p) (kap_is_active p) (articles s)\<rparr>))
      (follow articles k))))))"

definition publish_knowledge_article :: "int \<Rightarrow> nat \<Rightarrow> (sup_db, knowledge_article row) svc" where
  "publish_knowledge_article now k =
     atomic (
     bnd (follow articles k) (\<lambda>r.
     seqn (modify (\<lambda>s. s\<lparr>articles := tbl_upd k now (\<lambda>v. v\<lparr>ka_status := KA_PUBLISHED,
        ka_published_at := (case ka_published_at (vals r) of None \<Rightarrow> Some now | Some x \<Rightarrow> Some x), ka_archived_at := None\<rparr>) (articles s)\<rparr>))
     (follow articles k)))"

definition archive_knowledge_article :: "int \<Rightarrow> nat \<Rightarrow> (sup_db, knowledge_article row) svc" where
  "archive_knowledge_article now k =
     atomic (
     bnd (follow articles k) (\<lambda>_.
     seqn (modify (\<lambda>s. s\<lparr>articles := tbl_upd k now (\<lambda>v. v\<lparr>ka_status := KA_ARCHIVED, ka_archived_at := Some now\<rparr>) (articles s)\<rparr>))
     (follow articles k)))"

text \<open>The counter is written from the object the caller loaded, here the argument \<open>article\<close>.\<close>

definition record_knowledge_article_use ::
  "int \<Rightarrow> knowledge_article row \<Rightarrow> sd_user \<Rightarrow> nat option \<Rightarrow> string \<Rightarrow> json_obj \<Rightarrow> (sup_db, unit) svc" where
  "record_knowledge_article_use now article user ticket context metadata =
     atomic (
     seqn (modify (\<lambda>s. s\<lparr>articles := tbl_upd (row_pk article) now (\<lambda>v. v\<lparr>ka_usage_count := ka_usage_count (vals article) + 1\<rparr>) (articles s)\<rparr>))
     (modify (\<lambda>s. s\<lparr>article_uses := tbl_insert now \<lparr>ku_article = row_pk article, ku_ticket = ticket, ku_used_by = user_pk user,
        ku_context = take 40 context, ku_metadata = metadata\<rparr> (article_uses s)\<rparr>)))"

section \<open>Canned responses\<close>

definition create_canned_response ::
  "int \<Rightarrow> string \<Rightarrow> string \<Rightarrow> nat option \<Rightarrow> nat option \<Rightarrow> (sup_db, canned_response row) svc" where
  "create_canned_response now title body department category =
     atomic (
     seqn (check_category_department category department)
     (bnd (gets canned_responses) (\<lambda>t.
      seqn (check (\<not> list_ex (\<lambda>r. cr_title (vals r) = strip title) t) IntegrityError)
      (let c = new_row now \<lparr>cr_department = department, cr_category = category, cr_title = strip title, cr_body = strip body,
             cr_usage_count = 0\<rparr> t
       in seqn (modify (\<lambda>s. s\<lparr>canned_responses := canned_responses s @ [c]\<rparr>)) (ret c)))))"

record canned_patch =
  crp_title :: "string option"
  crp_body :: "string option"
  crp_department :: "nat option option"
  crp_category :: "nat option option"
  crp_is_active :: "bool option"

definition apply_canned_patch :: "canned_patch \<Rightarrow> canned_response \<Rightarrow> canned_response" where
  "apply_canned_patch p v =
     v\<lparr>cr_title := opt_set (map_option strip (crp_title p)) (cr_title v), cr_body := opt_set (map_option strip (crp_body p)) (cr_body v),
       cr_department := opt_set (crp_department p) (cr_department v), cr_category := opt_set (crp_category p) (cr_category v)\<rparr>"

definition update_canned_response :: "int \<Rightarrow> nat \<Rightarrow> canned_patch \<Rightarrow> (sup_db, canned_response row) svc" where
  "update_canned_response now k p =
     atomic (
     bnd (follow canned_responses k) (\<lambda>r.
     let v = apply_canned_patch p (vals r) in
     seqn (check_category_department (cr_category v) (cr_department v))
     (bnd (gets canned_responses) (\<lambda>t.
      seqn (check (\<not> taken_by_other (cr_title \<circ> vals) (cr_title v) k t) IntegrityError)
      (seqn (modify (\<lambda>s. s\<lparr>canned_responses := patch_table k now (apply_canned_patch p) (crp_is_active p) (canned_responses s)\<rparr>))
      (follow canned_responses k))))))"

definition use_canned_response :: "int \<Rightarrow> canned_response row \<Rightarrow> (sup_db, unit) svc" where
  "use_canned_response now c =
     atomic (modify (\<lambda>s. s\<lparr>canned_responses :=
       tbl_upd (row_pk c) now (\<lambda>v. v\<lparr>cr_usage_count := cr_usage_count (vals c) + 1\<rparr>) (canned_responses s)\<rparr>))"

section \<open>Recommended articles\<close>

definition get_published_knowledge_articles :: "knowledge_article table \<Rightarrow> knowledge_article table" where
  "get_published_knowledge_articles t = sort_key (ka_title \<circ> vals) (filter (\<lambda>r. ka_status (vals r) = KA_PUBLISHED) (objects t))"

definition overlap :: "string list \<Rightarrow> string list \<Rightarrow> nat" where
  "overlap xs ys = length (filter (\<lambda>w. w \<in> set ys) xs)"

definition article_score :: "string \<Rightarrow> nat option \<Rightarrow> nat option \<Rightarrow> nat option \<Rightarrow> knowledge_article \<Rightarrow> nat" where
  "article_score text department category ticket_type a =
     overlap (tokenize text) (tokenize (ka_title a @ '' '' @ ka_summary a @ '' '' @ join_ws (ka_keywords a))) * 15 +
     (if department \<noteq> None \<and> ka_department a = department then 20 else 0) +
     (if category \<noteq> None \<and> ka_category a = category then 30 else 0) +
     (if ticket_type \<noteq> None \<and> ka_ticket_type a = ticket_type then 20 else 0)"

definition recommend_knowledge_articles ::
  "knowledge_article table \<Rightarrow> string \<Rightarrow> nat option \<Rightarrow> nat option \<Rightarrow> nat option \<Rightarrow> int \<Rightarrow> knowledge_article table" where
  "recommend_knowledge_articles t text department category ticket_type limit =
     (let score = (\<lambda>r. article_score text department category ticket_type (vals r));
          scored = filter (\<lambda>r. 0 < score r) (get_published_knowledge_articles t)
      in take (nat (max 1 (min limit 20))) (sort_key (\<lambda>r. (- int (score r), ka_title (vals r))) scored))"

section \<open>Reply drafts\<close>

record smart_reply =
  sr_title :: string
  sr_body :: string
  sr_source_type :: string
  sr_source_id :: "nat option"
  sr_confidence :: nat
  sr_reason_codes :: "string list"

definition build_public_ticket_context :: "ticket_message table \<Rightarrow> ticket row \<Rightarrow> string" where
  "build_public_ticket_context ms tk =
     (let public = take 10 (sort_key (\<lambda>m. (created_at m, row_pk m))
            (filter (\<lambda>m. tm_ticket (vals m) = row_pk tk \<and> \<not> tm_is_internal (vals m)) (objects ms)))
      in tk_subject (vals tk) @ '' '' @ tk_description_snapshot (vals tk) @ '' '' @ join_ws (map (tm_body \<circ> vals) public))"

definition smart_reply_from_article :: "knowledge_article row \<Rightarrow> ticket \<Rightarrow> smart_reply" where
  "smart_reply_from_article a v =
     (let confidence = 80 + (if ka_category (vals a) = Some (tk_category v) then 10 else 0) +
            (if ka_ticket_type (vals a) = Some (tk_ticket_type v) then 5 else 0)
      in \<lparr>sr_title = ''article: '' @ ka_title (vals a),
          sr_body = ''hello, on '' @ tk_subject v @ '' see '' @ ka_title (vals a) @ '' '' @
            (if ka_summary (vals a) \<noteq> [] then ka_summary (vals a) else take 300 (ka_body (vals a))) @ '' or send details here'',
          sr_source_type = ''knowledge_article'', sr_source_id = Some (row_pk a), sr_confidence = min confidence 98,
          sr_reason_codes = [''knowledge_article_match'', ''public_timeline_only'']\<rparr>)"

definition canned_draft :: "ticket \<Rightarrow> nat \<Rightarrow> canned_response row \<Rightarrow> smart_reply" where
  "canned_draft v n c =
     (let confidence = 55 + min (n * 5) 25 + (if cr_category (vals c) = Some (tk_category v) then 10 else 0)
      in \<lparr>sr_title = ''canned: '' @ cr_title (vals c), sr_body = cr_body (vals c), sr_source_type = ''canned_response'',
          sr_source_id = Some (row_pk c), sr_confidence = min confidence 90,
          sr_reason_codes = [''canned_response_match'', ''public_timeline_only'']\<rparr>)"

text \<open>The loop stops after the draft that reaches the limit.\<close>

fun canned_drafts :: "ticket \<Rightarrow> string list \<Rightarrow> int \<Rightarrow> smart_reply list \<Rightarrow> canned_response table \<Rightarrow> smart_reply list" where
  "canned_drafts v context_tokens limit suggestions [] = suggestions"
| "canned_drafts v context_tokens limit suggestions (c # cs) =
     (let r = vals c; n = overlap context_tokens (tokenize (cr_title r @ '' '' @ cr_body r)) in
      if (cr_department r \<noteq> None \<and> cr_department r \<noteq> Some (tk_department v)) \<or> (cr_category r \<noteq> None \<and> cr_category r \<noteq> Some (tk_category v)) \<or>
         (n = 0 \<and> cr_department r \<noteq> Some (tk_department v) \<and> cr_category r \<noteq> Some (tk_category v))
      then canned_drafts v context_tokens limit suggestions cs
      else
        (let suggestions = suggestions @ [canned_draft v n c]
         in if limit \<le> int (length suggestions) then suggestions else canned_drafts v context_tokens limit suggestions cs))"

definition smart_replies_from_canned_responses :: "canned_response table \<Rightarrow> ticket \<Rightarrow> string \<Rightarrow> int \<Rightarrow> smart_reply list" where
  "smart_replies_from_canned_responses t v context_text limit =
     canned_drafts v (tokenize context_text) limit [] (sort_key (cr_title \<circ> vals) (filter is_active t))"

definition fallback_smart_reply :: smart_reply where
  "fallback_smart_reply = \<lparr>sr_title = ''safe first reply'', sr_body = ''hello, your request is under review; please send details'',
     sr_source_type = ''fallback'', sr_source_id = None, sr_confidence = 35, sr_reason_codes = [''safe_fallback'', ''requires_admin_review'']\<rparr>"

definition normal_body :: "string \<Rightarrow> string" where
  "normal_body x = join_ws (split_ws [] (lower (strip x)))"

fun dedupe_smart_replies :: "string list \<Rightarrow> smart_reply list \<Rightarrow> smart_reply list" where
  "dedupe_smart_replies seen [] = []"
| "dedupe_smart_replies seen (x # xs) =
     (let n = normal_body (sr_body x) in
      if n \<in> set seen then dedupe_smart_replies seen xs else x # dedupe_smart_replies (n # seen) xs)"

definition generate_smart_reply_suggestions :: "sup_db \<Rightarrow> ticket row \<Rightarrow> int \<Rightarrow> smart_reply list" where
  "generate_smart_reply_suggestions s tk limit =
     (let v = vals tk; context_text = build_public_ticket_context (messages s) tk;
          suggestions = map (\<lambda>a. smart_reply_from_article a v)
              (recommend_knowledge_articles (articles s) context_text (Some (tk_department v)) (Some (tk_category v))
                (Some (tk_ticket_type v)) limit) @
            smart_replies_from_canned_responses (canned_responses s) v context_text limit @ [fallback_smart_reply];
          deduped = sort_key (\<lambda>x. (- int (sr_confidence x), sr_source_type x, sr_title x)) (dedupe_smart_replies [] suggestions)
      in take (nat (max 1 (min limit 10))) deduped)"

section \<open>Triage\<close>

record triage_suggestion =
  ts_department :: "nat option"
  ts_category :: "nat option"
  ts_ticket_type :: "nat option"
  ts_priority :: ticket_priority
  ts_severity :: ticket_severity
  ts_sla_policy :: "nat option"
  ts_duplicate_warning :: bool
  ts_similar_ticket_ids :: "nat list"
  ts_reason_codes :: "string list"
  ts_score :: nat

definition type_of_code :: "ticket_type table \<Rightarrow> string \<Rightarrow> ticket_type row option" where
  "type_of_code t code = first_by (\<lambda>r. (tt_order (vals r), tt_title (vals r))) (filter (\<lambda>r. tt_code (vals r) = code) (objects t))"

fun keyword_type :: "ticket_type table \<Rightarrow> string list \<Rightarrow> (string \<times> string list) list \<Rightarrow> ticket_type row option" where
  "keyword_type t tokens [] = type_of_code t ''question''"
| "keyword_type t tokens ((code, keywords) # m) =
     (if list_ex (\<lambda>k. k \<in> set tokens) keywords
      then (case type_of_code t code of Some y \<Rightarrow> Some y | None \<Rightarrow> keyword_type t tokens m)
      else keyword_type t tokens m)"

definition suggest_ticket_type :: "ticket_type table \<Rightarrow> string \<Rightarrow> ticket_type row option" where
  "suggest_ticket_type t text = keyword_type t (tokenize text) triage_keywords"

fun best_category :: "string \<Rightarrow> nat \<Rightarrow> nat option \<Rightarrow> category table \<Rightarrow> nat option" where
  "best_category text best_score best [] = best"
| "best_category text best_score best (c # cs) =
     (let score = similarity_score text (cat_title (vals c) @ '' '' @ cat_description (vals c)) 100
      in if score > best_score then best_category text score (Some (row_pk c)) cs else best_category text best_score best cs)"

definition suggest_category :: "category table \<Rightarrow> string \<Rightarrow> ticket_type option \<Rightarrow> nat option" where
  "suggest_category t text ticket_type =
     best_category text 0 (case ticket_type of None \<Rightarrow> None | Some y \<Rightarrow> tt_default_category y)
       (sort_key (\<lambda>r. (cat_depth (vals r), cat_order (vals r), cat_title (vals r))) (objects t))"

definition find_similar_tickets :: "ticket table \<Rightarrow> nat \<Rightarrow> string \<Rightarrow> nat option \<Rightarrow> nat option \<Rightarrow> nat \<Rightarrow> nat list" where
  "find_similar_tickets t owner text category ticket_type threshold =
     map row_pk (take 5 (filter (\<lambda>r. threshold \<le> similarity_score text (ticket_text (vals r)) 100 +
         (if category = Some (tk_category (vals r)) then 10 else 0) + (if ticket_type = Some (tk_ticket_type (vals r)) then 10 else 0))
       (newest_50 (filter (\<lambda>r. tk_owner (vals r) = owner \<and> tk_status (vals r) \<notin> {TS_ARCHIVED, TS_SPAM}) t))))"

definition suggest_ticket_triage ::
  "sup_db \<Rightarrow> nat \<Rightarrow> string \<Rightarrow> string \<Rightarrow> nat option \<Rightarrow> nat option \<Rightarrow> triage_suggestion" where
  "suggest_ticket_triage s owner subject description category0 ticket_type0 =
     (let text = subject @ '' '' @ description;
          ticket_type = (case ticket_type0 of Some k \<Rightarrow> tbl_all k (ticket_types s) | None \<Rightarrow> suggest_ticket_type (ticket_types s) text);
          codes1 = (if ticket_type0 = None \<and> ticket_type \<noteq> None then [''ticket_type_keyword_match''] else []);
          category = (case category0 of Some c \<Rightarrow> Some c | None \<Rightarrow> suggest_category (categories s) text (map_option vals ticket_type));
          codes2 = (if category0 = None \<and> category \<noteq> None then [''category_keyword_match''] else []);
          department = (case category of
              Some c \<Rightarrow> map_option (\<lambda>r. cat_department (vals r)) (tbl_all c (categories s))
            | None \<Rightarrow> (case ticket_type of None \<Rightarrow> None | Some y \<Rightarrow> tt_default_department (vals y)));
          priority = (case ticket_type of None \<Rightarrow> TP_NORMAL | Some y \<Rightarrow> tt_default_priority (vals y));
          severity = (case ticket_type of None \<Rightarrow> SV_MINOR | Some y \<Rightarrow> tt_default_severity (vals y));
          payment = list_ex (\<lambda>w. contains_text w text) payment_words;
          security = list_ex (\<lambda>w. contains_text w text) security_words;
          priority = (if security then TP_URGENT else if payment then TP_HIGH else priority);
          severity = (if security then SV_CRITICAL else if payment then SV_MAJOR else severity);
          codes = codes1 @ codes2 @ (if payment then [''payment_keyword_priority_boost''] else []) @
            (if security then [''security_keyword_priority_boost''] else []);
          policy = resolve_sla_policy (sla_policies s) department (map_option vals ticket_type) priority severity;
          similar = find_similar_tickets (tickets s) owner text category (map_option row_pk ticket_type) 60
      in \<lparr>ts_department = department, ts_category = category, ts_ticket_type = map_option row_pk ticket_type, ts_priority = priority,
          ts_severity = severity, ts_sla_policy = map_option row_pk policy, ts_duplicate_warning = (similar \<noteq> []),
          ts_similar_ticket_ids = similar, ts_reason_codes = codes,
          ts_score = min 100 (20 * length codes + (if similar \<noteq> [] then 30 else 0))\<rparr>)"

section \<open>Rankings\<close>

text \<open>What a sorted list cut at a length keeps: no element that was left out comes before one that was kept.\<close>

lemma take_sorted_best:
  assumes "x \<in> set (take n (sort_key f xs))" "y \<in> set xs" "y \<notin> set (take n (sort_key f xs))"
  shows "f x \<le> f y"
proof -
  let ?s = "sort_key f xs"
  have "sorted (map f (take n ?s @ drop n ?s))" by (simp del: append_take_drop_id add: append_take_drop_id)
  then have "\<forall>a \<in> set (take n ?s). \<forall>b \<in> set (drop n ?s). f a \<le> f b" by (simp only: map_append sorted_append) auto
  moreover have "y \<in> set (drop n ?s)" using assms(2,3) by (metis UnE append_take_drop_id set_append set_sort)
  ultimately show ?thesis using assms(1) by blast
qed

lemma dedupe_smart_replies_set: "set (dedupe_smart_replies seen xs) \<subseteq> set xs"
  by (induction seen xs rule: dedupe_smart_replies.induct) (auto simp: Let_def)

lemma dedupe_smart_replies_distinct:
  "distinct (map (normal_body \<circ> sr_body) (dedupe_smart_replies seen xs)) \<and>
   set (map (normal_body \<circ> sr_body) (dedupe_smart_replies seen xs)) \<inter> set seen = {}"
  by (induction seen xs rule: dedupe_smart_replies.induct) (auto simp: Let_def)

lemma dedupe_smart_replies_Nil: "dedupe_smart_replies [] xs = [] \<longleftrightarrow> xs = []"
  by (cases xs) (simp_all add: Let_def)

lemma canned_drafts_set:
  "set (canned_drafts v ts limit xs cs) \<subseteq> set xs \<union> {canned_draft v n c | n c. c \<in> set cs}"
proof (induction cs arbitrary: xs)
  case (Cons c cs)
  define d where "d = canned_draft v (overlap ts (tokenize (cr_title (vals c) @ '' '' @ cr_body (vals c)))) c"
  define R where "R = set xs \<union> {canned_draft v n e | n e. e \<in> set (c # cs)}"
  have mono: "{canned_draft v n e | n e. e \<in> set cs} \<subseteq> R" "set xs \<subseteq> R" unfolding R_def by auto
  have d: "d \<in> R" unfolding R_def d_def Un_iff mem_Collect_eq by (intro disjI2 exI conjI) (rule refl, rule list.set_intros(1))
  have 1: "set (canned_drafts v ts limit xs cs) \<subseteq> R" using Cons [of xs] mono by blast
  have 2: "set (canned_drafts v ts limit (xs @ [d]) cs) \<subseteq> R" using Cons [of "xs @ [d]"] mono d unfolding set_append list.set by blast
  have 3: "set (xs @ [d]) \<subseteq> R" using mono(2) d by simp
  have "set (canned_drafts v ts limit xs (c # cs)) \<subseteq> R"
    unfolding canned_drafts.simps Let_def d_def [symmetric] by (simp only: 1 2 3 simp_thms split: if_split)
  then show ?case unfolding R_def .
qed simp

lemma confidence_bounds:
  "sr_confidence (smart_reply_from_article a v) \<in> {80..98}" "sr_confidence (canned_draft v n c) \<in> {55..90}"
  "sr_confidence fallback_smart_reply = 35"
  by (auto simp: smart_reply_from_article_def canned_draft_def fallback_smart_reply_def Let_def)

text \<open>
  The reply drafts for a ticket: there is always one, at most ten, all with a confidence between 35 and 98 and in falling
  order of confidence, and no two with the same text up to case and spacing. Each is built from a published article, from
  an active canned response, or is the fixed fallback.
\<close>

theorem smart_replies_well_formed:
  "let xs = generate_smart_reply_suggestions s tk limit in
     1 \<le> length xs \<and> length xs \<le> 10 \<and> sorted (map (\<lambda>x. - int (sr_confidence x)) xs) \<and>
     distinct (map (normal_body \<circ> sr_body) xs) \<and>
     set xs \<subseteq> {smart_reply_from_article a (vals tk) | a. a \<in> set (articles s) \<and> is_active a \<and> ka_status (vals a) = KA_PUBLISHED} \<union>
       {canned_draft (vals tk) n c | n c. c \<in> set (canned_responses s) \<and> is_active c} \<union> {fallback_smart_reply} \<and>
     list_all (\<lambda>x. 35 \<le> sr_confidence x \<and> sr_confidence x \<le> 98) xs"
proof -
  let ?A = "{smart_reply_from_article a (vals tk) | a. a \<in> set (articles s) \<and> is_active a \<and> ka_status (vals a) = KA_PUBLISHED}"
  let ?B = "{canned_draft (vals tk) n c | n c. c \<in> set (canned_responses s) \<and> is_active c}"
  define ctx where "ctx = build_public_ticket_context (messages s) tk"
  define arts where "arts = recommend_knowledge_articles (articles s) ctx (Some (tk_department (vals tk))) (Some (tk_category (vals tk)))
      (Some (tk_ticket_type (vals tk))) limit"
  define ys where "ys = dedupe_smart_replies [] (map (\<lambda>a. smart_reply_from_article a (vals tk)) arts @
      smart_replies_from_canned_responses (canned_responses s) (vals tk) ctx limit @ [fallback_smart_reply])"
  define key where "key = (\<lambda>x :: smart_reply. (- int (sr_confidence x), sr_source_type x, sr_title x))"
  define n where "n = nat (max 1 (min limit 10))"
  define xs where "xs = take n (sort_key key ys)"
  have xs: "generate_smart_reply_suggestions s tk limit = xs"
    by (simp add: generate_smart_reply_suggestions_def Let_def xs_def ys_def arts_def ctx_def key_def n_def)
  have n: "1 \<le> n" "n \<le> 10" by (auto simp: n_def)
  have ne: "ys \<noteq> []" by (simp add: ys_def dedupe_smart_replies_Nil)
  have "set ys \<subseteq> (\<lambda>a. smart_reply_from_article a (vals tk)) ` set arts \<union>
      set (smart_replies_from_canned_responses (canned_responses s) (vals tk) ctx limit) \<union> {fallback_smart_reply}"
    unfolding ys_def by (rule order_trans [OF dedupe_smart_replies_set]) simp
  moreover have "set arts \<subseteq> {a \<in> set (articles s). is_active a \<and> ka_status (vals a) = KA_PUBLISHED}"
    by (auto simp: arts_def recommend_knowledge_articles_def get_published_knowledge_articles_def objects_def Let_def dest!: in_set_takeD)
  moreover have "set (smart_replies_from_canned_responses (canned_responses s) (vals tk) ctx limit) \<subseteq> ?B"
    using canned_drafts_set [of "vals tk" "tokenize ctx" limit "[]"] unfolding smart_replies_from_canned_responses_def by fastforce
  ultimately have ysub: "set ys \<subseteq> ?A \<union> ?B \<union> {fallback_smart_reply}"
    by blast
  have sub: "set xs \<subseteq> set ys" by (auto simp: xs_def dest: in_set_takeD)
  have key: "sorted (map key xs)" by (simp add: xs_def take_map [symmetric] sorted_wrt_take)
  then have "sorted (map (\<lambda>x. - int (sr_confidence x)) xs)"
    by (auto simp: sorted_wrt_map key_def elim!: sorted_wrt_mono_rel [rotated] intro: less_imp_le)
  moreover have "distinct (map (normal_body \<circ> sr_body) xs)"
  proof -
    have "distinct (map (normal_body \<circ> sr_body) ys)" unfolding ys_def using dedupe_smart_replies_distinct by blast
    then have "distinct (map (normal_body \<circ> sr_body) (sort_key key ys))" by (simp add: distinct_map)
    then show ?thesis by (simp add: xs_def take_map [symmetric])
  qed
  moreover have "\<forall>x \<in> set xs. 35 \<le> sr_confidence x \<and> sr_confidence x \<le> 98"
  proof
    fix x assume "x \<in> set xs"
    then consider a where "x = smart_reply_from_article a (vals tk)" | m c where "x = canned_draft (vals tk) m c" | "x = fallback_smart_reply"
      using sub ysub by blast
    then show "35 \<le> sr_confidence x \<and> sr_confidence x \<le> 98"
    proof cases
      case (1 a)
      with confidence_bounds(1) [of a "vals tk"] show ?thesis by simp
    next
      case (2 m c)
      with confidence_bounds(2) [of "vals tk" m c] show ?thesis by simp
    qed (simp add: confidence_bounds(3))
  qed
  moreover have "1 \<le> length xs" "length xs \<le> 10" using n ne by (auto simp: xs_def Suc_le_eq)
  ultimately show ?thesis using sub ysub unfolding xs Let_def list_all_iff by blast
qed

definition eligible_article :: "string \<Rightarrow> nat option \<Rightarrow> nat option \<Rightarrow> nat option \<Rightarrow> knowledge_article row \<Rightarrow> bool" where
  "eligible_article text d c y r = (is_active r \<and> ka_status (vals r) = KA_PUBLISHED \<and> 0 < article_score text d c y (vals r))"

text \<open>
  Recommended articles are the best ones: each is published and active and shares a word or a taxonomy entry with the
  text, there are at most twenty, and none that was left out has a higher score.
\<close>

theorem recommended_articles_best:
  "let xs = recommend_knowledge_articles t text d c y limit in
     length xs \<le> 20 \<and> set xs \<subseteq> set t \<and> list_all (eligible_article text d c y) xs \<and>
     list_all (\<lambda>r. r \<in> set xs \<or> list_all (\<lambda>q. article_score text d c y (vals r) \<le> article_score text d c y (vals q)) xs)
       (filter (eligible_article text d c y) t)"
proof -
  let ?score = "\<lambda>r. article_score text d c y (vals r)"
  let ?key = "\<lambda>r. (- int (?score r), ka_title (vals r))"
  define ys where "ys = filter (\<lambda>r. 0 < ?score r) (get_published_knowledge_articles t)"
  define n where "n = nat (max 1 (min limit 20))"
  define xs where "xs = take n (sort_key ?key ys)"
  have rec: "recommend_knowledge_articles t text d c y limit = xs"
    by (simp add: recommend_knowledge_articles_def xs_def ys_def n_def Let_def)
  have ys: "r \<in> set ys \<longleftrightarrow> r \<in> set t \<and> eligible_article text d c y r" for r
    by (auto simp: ys_def get_published_knowledge_articles_def objects_def eligible_article_def)
  have "length xs \<le> 20" by (auto simp: xs_def n_def)
  moreover have "set xs \<subseteq> set ys" by (auto simp: xs_def dest: in_set_takeD)
  moreover have "?score r \<le> ?score q" if "r \<in> set ys" "r \<notin> set xs" "q \<in> set xs" for r q
    using take_sorted_best [of q n ?key ys r] that by (auto simp: xs_def less_eq_prod_def)
  ultimately show ?thesis unfolding rec Let_def by (auto simp: list_all_iff ys)
qed

end
