(* ===== verification/Support_Triage.thy ===== *)
theory Support_Triage
  imports Support_Knowledge
begin

text \<open>
  Normalisation and the keywords of the triage: normalised text has no \<open>alef\<close> with a \<open>madda\<close>, so two of the keywords that
  the triage compares with normalised words never occur among them.
\<close>

section \<open>Letters that normalisation removes\<close>

text \<open>No two adjacent bytes are \<open>a\<close> and \<open>b\<close>.\<close>

fun free2 :: "char \<Rightarrow> char \<Rightarrow> string \<Rightarrow> bool" where
  "free2 a b (x # y # r) = (\<not> (x = a \<and> y = b) \<and> free2 a b (y # r))"
| "free2 a b _ = True"

lemma free2_Cons: "free2 a b (x # r) \<longleftrightarrow> free2 a b r \<and> (r = [] \<or> \<not> (x = a \<and> hd r = b))"
  by (cases r) auto

lemma free2_append:
  "free2 a b (xs @ ys) \<longleftrightarrow> free2 a b xs \<and> free2 a b ys \<and> (xs = [] \<or> ys = [] \<or> \<not> (last xs = a \<and> hd ys = b))"
  by (induction xs) (auto simp: free2_Cons hd_append)

lemma replace_all_hd:
  "tgt \<noteq> [] \<Longrightarrow> cs \<noteq> [] \<Longrightarrow>
     hd (replace_all src tgt 0 cs) = (if src \<noteq> [] \<and> has_prefix src cs then hd tgt else hd cs)"
  by (cases cs) auto

lemma free2_replace:
  assumes "tgt \<noteq> []" "free2 a b tgt" "hd tgt \<noteq> b" "last tgt \<noteq> a" "free2 a b xs \<or> src = [a, b]"
  shows "free2 a b (replace_all src tgt skip xs)"
  using assms(5)
proof (induction xs arbitrary: skip)
  case (Cons c cs)
  have IH: "free2 a b (replace_all src tgt k cs)" for k using Cons by (auto simp: free2_Cons)
  have "\<not> (c = a \<and> hd (replace_all src tgt 0 cs) = b)" if "\<not> (src \<noteq> [] \<and> has_prefix src (c # cs))" "cs \<noteq> []"
    using that Cons.prems assms(1,3) replace_all_hd [OF assms(1) that(2), of src]
    by (cases cs) (auto simp: has_prefix_def free2_Cons split: if_splits)
  then have "free2 a b (c # replace_all src tgt 0 cs)" if "\<not> (src \<noteq> [] \<and> has_prefix src (c # cs))"
    using that IH [of 0] by (cases "cs = []") (auto simp: free2_Cons)
  moreover have "free2 a b (tgt @ replace_all src tgt k cs)" for k using IH [of k] assms(2,4) by (simp add: free2_append)
  ultimately show ?case using IH by simp
qed simp

lemma free2_split: "free2 a b (rev acc @ cs) \<Longrightarrow> w \<in> set (split_ws acc cs) \<Longrightarrow> free2 a b w"
proof (induction acc cs rule: split_ws.induct)
  case (2 acc c cs)
  have rest: "free2 a b (rev acc)" "free2 a b cs" using 2(4) by (auto simp: free2_append free2_Cons)
  show ?case
  proof (cases "is_space c")
    case True
    with 2 rest show ?thesis by (auto split: if_splits)
  next
    case False
    with 2 show ?thesis by simp
  qed
qed (auto split: if_splits)

lemma free2_join: "a \<noteq> CHR '' '' \<Longrightarrow> b \<noteq> CHR '' '' \<Longrightarrow> \<forall>w \<in> set ws. free2 a b w \<Longrightarrow> free2 a b (join_ws ws)"
  by (induction ws rule: join_ws.induct) (auto simp: free2_append free2_Cons)

text \<open>The bytes of \<open>alef\<close> with \<open>madda\<close>; the replacement that removes them is the fifth.\<close>

lemma normalize_text_no_madda: "free2 (CHR 0xD8) (CHR 0xA2) (normalize_text v)"
  unfolding normalize_text_def
proof (intro free2_join ballI)
  fix w assume "w \<in> set (split_ws [] (fold (\<lambda>(source, target) v. replace_all source target 0 v) replacements (lower (strip v))))"
  moreover have "free2 (CHR 0xD8) (CHR 0xA2) (fold (\<lambda>(source, target) v. replace_all source target 0 v) replacements x)" for x
    unfolding replacements_def by (simp only: fold_simps case_prod_conv o_apply) (intro free2_replace disjI1 disjI2; simp)
  ultimately show "free2 (CHR 0xD8) (CHR 0xA2) w" using free2_split [of _ _ "[]"] by simp blast
qed simp_all

lemma token_no_madda: "w \<in> set (tokenize v) \<Longrightarrow> free2 (CHR 0xD8) (CHR 0xA2) w"
  using free2_split [of "CHR 0xD8" "CHR 0xA2" "[]" "normalize_text v" w] normalize_text_no_madda by (simp add: tokenize_def)

text \<open>The words for an upload and for harm, as they stand in the keywords of the triage.\<close>

definition upload_word :: string where
  "upload_word = [CHR 0xD8, CHR 0xA2, CHR 0xD9, CHR 0xBE, CHR 0xD9, CHR 0x84, CHR 0xD9, CHR 0x88, CHR 0xD8, CHR 0xAF]"

definition harm_word :: string where
  "harm_word = [CHR 0xD8, CHR 0xA2, CHR 0xD8, CHR 0xB3, CHR 0xDB, CHR 0x8C, CHR 0xD8, CHR 0xA8]"

lemma madda_words: "\<not> free2 (CHR 0xD8) (CHR 0xA2) upload_word" "\<not> free2 (CHR 0xD8) (CHR 0xA2) harm_word"
  by (simp_all add: upload_word_def harm_word_def)

lemma keyword_type_none:
  "(\<And>code ks. (code, ks) \<in> set m \<Longrightarrow> \<not> list_ex (\<lambda>k. k \<in> set tokens) ks) \<Longrightarrow> keyword_type t tokens m = type_of_code t ''question''"
  by (induction t tokens m rule: keyword_type.induct) auto

text \<open>
  Two keywords of the triage are dead. The words of the text are normalised before they are compared, which turns \<open>alef\<close> with
  \<open>madda\<close> into \<open>alef\<close>; the keywords are not. So the words for upload and harm never match, and a text that is the word upload
  is classified as a question and not as a technical issue.
\<close>

theorem triage_keywords_dead:
  "upload_word \<in> set (the (map_of triage_keywords ''technical_issue'')) \<and> harm_word \<in> set (the (map_of triage_keywords ''security'')) \<and>
   upload_word \<notin> set (tokenize text) \<and> harm_word \<notin> set (tokenize text) \<and>
   suggest_ticket_type t upload_word = type_of_code t ''question''"
proof (intro conjI)
  show "upload_word \<in> set (the (map_of triage_keywords ''technical_issue''))" "harm_word \<in> set (the (map_of triage_keywords ''security''))"
    by code_simp+
  show "upload_word \<notin> set (tokenize text)" "harm_word \<notin> set (tokenize text)" using token_no_madda madda_words by blast+
  have "list_all (\<lambda>(code, ks). \<not> list_ex (\<lambda>k. k \<in> set (tokenize upload_word)) ks) triage_keywords" by code_simp
  then show "suggest_ticket_type t upload_word = type_of_code t ''question''"
    unfolding suggest_ticket_type_def by (intro keyword_type_none) (auto simp: list_all_iff)
qed

end
