(* ===== verification/Support_Rules.thy ===== *)
theory Support_Rules
  imports Support_Example Support_Triage
begin

text \<open>
  Properties of the support desk that follow one ticket through several requests: the service-level clock stops while the
  desk waits for the user, the history and the counters, the category tree, breach marking, and what happens
  to a request whose object is older than the row; and internal notes, which nobody outside the desk sees.
\<close>

section \<open>An object that agrees with its row\<close>

text \<open>The row \<open>k\<close> holds the values of the object, they satisfy \<open>P\<close>, and the policies are \<open>ps\<close>.\<close>

definition held :: "sla_policy table \<Rightarrow> nat \<Rightarrow> (ticket \<Rightarrow> bool) \<Rightarrow> ticket row \<Rightarrow> sup_db \<Rightarrow> bool" where
  "held ps k P tk s = (sla_policies s = ps \<and> row_pk tk = k \<and> P (vals tk) \<and> map_option vals (tbl_all k (tickets s)) = Some (vals tk))"

lemma tbl_all_same: "tbl_all k (tbl_upd k now f t) = map_option (\<lambda>r. r\<lparr>vals := f (vals r), updated_at := now\<rparr>) (tbl_all k t)"
  by (induction t) (auto simp: tbl_all_def tbl_upd_def)

lemma hoare_held_vacuous: "\<not> P (vals tk) \<Longrightarrow> hoare (held ps k P tk) m Q"
  by (simp add: hoare_def held_def)

lemma hoare_save_held:
  assumes "\<And>v. P v \<Longrightarrow> cp (f v) v = f v \<and> Q (f v)"
  shows "hoare (held ps k P tk) (save_ticket now cp (set_vals f tk)) (held ps k Q)"
proof (rule hoareI)
  fix s x t assume h: "held ps k P tk s" and run: "save_ticket now cp (set_vals f tk) s = (Inr x, t)"
  from run have x: "x = (set_vals f tk)\<lparr>updated_at := now\<rparr>"
    and t: "t = s\<lparr>tickets := tbl_upd (row_pk tk) now (cp (f (vals tk))) (tickets s)\<rparr>"
    by (auto simp: save_ticket_def svc_inv set_vals_def)
  from h obtain r where r: "tbl_all k (tickets s) = Some r" "vals r = vals tk" by (auto simp: held_def)
  with h assms [of "vals tk"] show "held ps k Q x t" by (simp add: held_def x t set_vals_def tbl_all_same)
qed

definition ticket_view :: "sup_db \<Rightarrow> ticket table \<times> sla_policy table" where
  "ticket_view s = (tickets s, sla_policies s)"

lemma hoare_held_frame: "keeps ticket_view m \<Longrightarrow> hoare (held ps k P tk) m (\<lambda>_. held ps k P tk)"
  by (erule hoare_keeps) (simp add: held_def ticket_view_def)

lemma hoare_held_seqn: "keeps ticket_view m \<Longrightarrow> hoare (held ps k P tk) n R \<Longrightarrow> hoare (held ps k P tk) (seqn m n) R"
  by (rule hoare_seqn [OF hoare_held_frame])

lemma hoare_held_bnd: "keeps ticket_view m \<Longrightarrow> (\<And>x. hoare (held ps k P tk) (f x) R) \<Longrightarrow> hoare (held ps k P tk) (bnd m f) R"
  by (rule hoare_bnd [OF hoare_held_frame])

lemma held_ret: "hoare (held ps k P tk) (ret tk) (held ps k P)"
  by (rule hoare_ret)

lemma keeps_ticket_view [keeps_rules]:
  "keeps ticket_view (add_message now m)" "keeps ticket_view (add_history now h)" "keeps ticket_view (add_sla_event now e)"
  "keeps ticket_view (auto_tag_ticket E now j x)" "keeps ticket_view (notify_support_reply E now v m)"
  "keeps ticket_view (notify_support_resolved E now v u)"
proof -
  show "keeps ticket_view (add_message now m)" "keeps ticket_view (add_history now h)" "keeps ticket_view (add_sla_event now e)"
    by (auto simp: add_message_def add_history_def add_sla_event_def ticket_view_def intro!: keeps_rules keeps_modify)
  show "keeps ticket_view (auto_tag_ticket E now j x)"
    unfolding auto_tag_ticket_def get_or_create_tag_def tag_ticket_def Let_def by (intro keeps_rules keeps_modify; simp add: ticket_view_def)
  show "keeps ticket_view (notify_support_reply E now v m)" "keeps ticket_view (notify_support_resolved E now v u)"
    unfolding notify_support_reply_def notify_support_resolved_def by (rule keeps_emit; simp add: ticket_view_def)+
qed

lemma sync_held:
  assumes "\<And>v a b c. P (v\<lparr>tk_message_count := a, tk_attachment_count := b, tk_internal_note_count := c\<rparr>) = P v"
  shows "hoare (held ps k P tk) (sync_ticket_counters now tk) (held ps k P)"
  unfolding sync_ticket_counters_def case_prod_beta by (rule hoare_read) (rule hoare_save_held, simp add: assms)

text \<open>What a status change does to the values: the counters aside, it is \<open>status_vals\<close>.\<close>

lemma change_status_held:
  assumes "\<And>v a b c. Q (v\<lparr>tk_message_count := a, tk_attachment_count := b, tk_internal_note_count := c\<rparr>) = Q v"
    and "\<And>v. P v \<Longrightarrow> tk_status v \<noteq> to \<and> Q (status_vals now to v)"
  shows "hoare (held ps k P tk) (change_status now tk actor to reason) (held ps k Q)"
proof (cases "P (vals tk)")
  case False
  then show ?thesis by (rule hoare_held_vacuous)
next
  case True
  have copy: "copy_status to (status_vals now to v) v = status_vals now to v" for v
    by (simp add: copy_status_def status_vals_def Let_def)
  have "hoare (held ps k P tk)
     (bnd (save_ticket now (copy_status to) (set_vals (status_vals now to) tk)) (\<lambda>tk'.
        seqn (add_history now (h tk'))
        (case actor of None \<Rightarrow> ret tk' | Some u \<Rightarrow> seqn (add_message now (g tk' u)) (sync_ticket_counters now tk')))) (held ps k Q)" for h g
    by (rule hoare_bnd [OF hoare_save_held [where Q = Q]])
       (auto simp: assms(2) copy split: option.split intro!: hoare_held_seqn keeps_rules held_ret sync_held assms(1))
  with assms(2) [OF True] show ?thesis by (simp add: change_status_def Let_def)
qed


section \<open>The service-level clock\<close>

definition clock :: "ticket \<Rightarrow> int option \<times> int option \<times> int option \<times> int \<times> nat option" where
  "clock v = (tk_first_response_due_at v, tk_resolution_due_at v, tk_sla_paused_at v, tk_sla_total_paused_seconds v, tk_applied_sla_policy v)"

lemma clock_simps [simp]:
  "clock (v\<lparr>tk_message_count := a, tk_attachment_count := b, tk_internal_note_count := c\<rparr>) = clock v"
  "clock (v\<lparr>tk_last_user_message_at := x, tk_last_activity_at := y\<rparr>) = clock v"
  "clock (v\<lparr>tk_first_admin_response_at := z, tk_last_admin_message_at := x, tk_last_activity_at := y\<rparr>) = clock v"
  "clock (status_vals now to v) = clock v"
  by (simp_all add: clock_def status_vals_def Let_def)

lemma pause_held:
  assumes "tbl_all p ps = Some pol" "pol_pause_when_waiting_for_user (vals pol)"
  shows "hoare (held ps k (\<lambda>v. clock v = (a, b, None, c, Some p)) tk) (pause_sla_if_needed now tk)
           (held ps k (\<lambda>v. clock v = (a, b, Some now, c, Some p)))"
proof (rule hoareI)
  fix s x t
  assume h: "held ps k (\<lambda>v. clock v = (a, b, None, c, Some p)) tk s" and run: "pause_sla_if_needed now tk s = (Inr x, t)"
  have sv: "hoare (held ps k (\<lambda>v. clock v = (a, b, None, c, Some p)) tk)
     (bnd (save_ticket now (\<lambda>ob v. v\<lparr>tk_sla_paused_at := tk_sla_paused_at ob\<rparr>) (set_vals (\<lambda>v. v\<lparr>tk_sla_paused_at := Some now\<rparr>) tk)) (\<lambda>tk.
       seqn (add_sla_event now \<lparr>sle_ticket = row_pk tk, sle_event_type = SE_PAUSED, sle_occurred_at = now, sle_metadata = []\<rparr>)
       (ret tk))) (held ps k (\<lambda>v. clock v = (a, b, Some now, c, Some p)))"
    by (intro hoare_bnd [OF hoare_save_held [where Q = "\<lambda>v. clock v = (a, b, Some now, c, Some p)"]] hoare_held_seqn keeps_rules held_ret)
       (simp add: clock_def)
  from h have "tk_applied_sla_policy (vals tk) = Some p" "tk_sla_paused_at (vals tk) = None" "sla_policies s = ps"
    by (auto simp: held_def clock_def)
  with run assms have "bnd (save_ticket now (\<lambda>ob v. v\<lparr>tk_sla_paused_at := tk_sla_paused_at ob\<rparr>) (set_vals (\<lambda>v. v\<lparr>tk_sla_paused_at := Some now\<rparr>) tk)) (\<lambda>tk.
       seqn (add_sla_event now \<lparr>sle_ticket = row_pk tk, sle_event_type = SE_PAUSED, sle_occurred_at = now, sle_metadata = []\<rparr>)
       (ret tk)) s = (Inr x, t)"
    unfolding pause_sla_if_needed_def bnd_Inr follow_opt_Inr by (auto simp: follow_opt_def follow_Inr svc_inv)
  then show "held ps k (\<lambda>v. clock v = (a, b, Some now, c, Some p)) x t" by (rule hoareD [OF sv h])
qed

definition resumed :: "int \<Rightarrow> int option \<times> int option \<times> int option \<times> int \<times> nat option \<Rightarrow> int option \<times> int option \<times> int option \<times> int \<times> nat option" where
  "resumed d = (\<lambda>(a, b, _, c, p). (map_option (\<lambda>x. x + d) a, map_option (\<lambda>x. x + d) b, None, c + d, p))"

lemma resume_held:
  assumes "t1 \<le> now"
  shows "hoare (held ps k (\<lambda>v. clock v = (a, b, Some t1, c, p) \<and> tk_status v = st) tk) (resume_sla_if_needed now tk)
           (held ps k (\<lambda>v. clock v = resumed (now - t1) (a, b, Some t1, c, p) \<and> tk_status v = st))"
    (is "hoare (held ps k ?P tk) _ (held ps k ?Q)")
proof (cases "?P (vals tk)")
  case False
  then show ?thesis by (rule hoare_held_vacuous)
next
  case True
  then have "tk_sla_paused_at (vals tk) = Some t1" by (simp add: clock_def)
  moreover have "hoare (held ps k ?P tk)
     (bnd (save_ticket now
                (\<lambda>ob v. v\<lparr>tk_sla_total_paused_seconds := tk_sla_total_paused_seconds ob,
                   tk_first_response_due_at := tk_first_response_due_at ob, tk_resolution_due_at := tk_resolution_due_at ob,
                   tk_sla_paused_at := tk_sla_paused_at ob\<rparr>)
                (set_vals (resume_vals now t1) tk)) (\<lambda>tk. seqn (add_sla_event now (e tk)) (ret tk))) (held ps k ?Q)" for e
    by (intro hoare_bnd [OF hoare_save_held [where Q = ?Q]] hoare_held_seqn keeps_rules held_ret)
       (use assms in \<open>auto simp: clock_def resumed_def resume_vals_def Let_def max_def\<close>)
  ultimately show ?thesis by (simp add: resume_sla_if_needed_def)
qed

lemma hoare_held_known:
  "R (vals tk) \<Longrightarrow> hoare (held ps k (\<lambda>v. P v \<and> R v) tk) m Q \<Longrightarrow> hoare (held ps k P tk) m Q"
  by (simp add: hoare_def held_def)

text \<open>The values of the stored row, whatever object the service worked on.\<close>

definition row_is :: "nat \<Rightarrow> (ticket \<Rightarrow> bool) \<Rightarrow> sup_db \<Rightarrow> bool" where
  "row_is k P s = (\<exists>r. tbl_all k (tickets s) = Some r \<and> P (vals r))"

lemma held_row: "held ps k P tk s \<Longrightarrow> row_is k P s"
  by (auto simp: held_def row_is_def)

lemma row_held: "tbl_all k (tickets s) = Some tk \<Longrightarrow> P (vals tk) \<Longrightarrow> held (sla_policies s) k P tk s"
  by (auto simp: held_def dest: tbl_all_Some)

lemma hoare_held_end: "keeps ticket_view m \<Longrightarrow> hoare (held ps k P tk) (seqn m (ret y)) (\<lambda>_. row_is k P)"
  by (rule hoare_held_seqn) (auto intro!: hoare_ret dest: held_row)

lemma admin_reply_held:
  assumes "tbl_all p ps = Some pol" "pol_pause_when_waiting_for_user (vals pol)"
  shows "hoare (held ps k (\<lambda>v. clock v = (a, b, None, c, Some p)) tk) (add_admin_reply E now tk admin body)
           (\<lambda>_. row_is k (\<lambda>v. clock v = (a, b, Some now, c, Some p)))"
proof -
  let ?C = "\<lambda>v. clock v = (a, b, None, c, Some p)" and ?W = "\<lambda>v. tk_status v \<noteq> TS_WAITING_FOR_USER"
  show ?thesis
    unfolding add_admin_reply_def
  proof (intro hoare_atomic hoare_some hoare_check hoare_held_known [of ?W _ _ _ ?C])
    fix u assume "tk_status (vals tk) \<in> set ADMIN_REPLY_ALLOWED_STATUSES"
    then show "?W (vals tk)" by (auto simp: ADMIN_REPLY_ALLOWED_STATUSES_def)
  qed (intro hoare_held_bnd keeps_rules hoare_bnd [OF hoare_save_held [where Q = "\<lambda>v. ?C v \<and> ?W v"]]
      hoare_bnd [OF change_status_held [where Q = ?C]] hoare_bnd [OF pause_held [OF assms]] hoare_bnd [OF sync_held] hoare_held_end; simp)
qed

lemma user_reply_held:
  assumes "t1 \<le> now"
  shows "hoare (held ps k (\<lambda>v. clock v = (a, b, Some t1, c, p)) tk) (add_user_reply E now tk user body)
           (\<lambda>_. row_is k (\<lambda>v. clock v = resumed (now - t1) (a, b, Some t1, c, p)))"
proof -
  let ?C = "\<lambda>v. clock v = (a, b, Some t1, c, p)" and ?D = "\<lambda>v. clock v = resumed (now - t1) (a, b, Some t1, c, p)"
  have "hoare (held ps k ?C tk) (add_user_reply E now tk user body) (\<lambda>_. row_is k ?D)"
    if st: "tk_status (vals tk) = st" for st
    unfolding add_user_reply_def
  proof (intro hoare_atomic hoare_check)
    assume "tk_status (vals tk) \<in> set USER_REPLY_ALLOWED_STATUSES"
    with st have ne: "st \<noteq> TS_WAITING_FOR_ADMIN" by (auto simp: USER_REPLY_ALLOWED_STATUSES_def)
    let ?m = "\<lambda>tk. bnd (add_message now (public_message (row_pk tk) (tk_owner (vals tk)) MT_USER_MESSAGE (strip body) False)) (\<lambda>m.
      bnd (save_ticket now
            (\<lambda>ob v. v\<lparr>tk_last_user_message_at := tk_last_user_message_at ob, tk_last_activity_at := tk_last_activity_at ob\<rparr>)
            (set_vals (\<lambda>v. v\<lparr>tk_last_user_message_at := Some now, tk_last_activity_at := now\<rparr>) tk)) (\<lambda>tk.
      bnd (change_status now tk user TS_WAITING_FOR_ADMIN ''user_reply'') (\<lambda>tk.
      bnd (sync_ticket_counters now tk) (\<lambda>tk.
      seqn (auto_tag_ticket E now (row_pk tk) body)
      (ret m)))))"
    have tail: "hoare (held ps k (\<lambda>v. ?D v \<and> tk_status v = st) x) (?m x) (\<lambda>_. row_is k ?D)" for x
      by (intro hoare_held_bnd keeps_rules hoare_bnd [OF hoare_save_held [where Q = "\<lambda>v. ?D v \<and> tk_status v = st"]]
          hoare_bnd [OF change_status_held [where Q = ?D]] hoare_bnd [OF sync_held] hoare_held_end; simp add: ne)
    show "hoare (held ps k ?C tk) (bnd (resume_sla_if_needed now tk) ?m) (\<lambda>_. row_is k ?D)"
      by (rule hoare_held_known [where R = "\<lambda>v. tk_status v = st", OF st]) (rule hoare_bnd [OF resume_held [OF assms] tail])
  qed
  then show ?thesis by simp
qed



section \<open>Objects older than the row\<close>

text \<open>\<open>save(update_fields=...)\<close> of an object that may be stale: the row takes the listed fields and keeps the others.\<close>

lemma hoare_save_row:
  assumes "row_pk tk = k" "\<And>v. P v \<Longrightarrow> Q (cp (f (vals tk)) v)"
  shows "hoare (row_is k P) (save_ticket now cp (set_vals f tk)) (\<lambda>x s. row_pk x = k \<and> vals x = f (vals tk) \<and> row_is k Q s)"
proof (rule hoareI)
  fix s x t assume h: "row_is k P s" and run: "save_ticket now cp (set_vals f tk) s = (Inr x, t)"
  from run have x: "x = (set_vals f tk)\<lparr>updated_at := now\<rparr>"
    and t: "t = s\<lparr>tickets := tbl_upd (row_pk tk) now (cp (f (vals tk))) (tickets s)\<rparr>"
    by (auto simp: save_ticket_def svc_inv set_vals_def)
  from h obtain r where "tbl_all k (tickets s) = Some r" "P (vals r)" by (auto simp: row_is_def)
  with assms show "row_pk x = k \<and> vals x = f (vals tk) \<and> row_is k Q t" by (simp add: x t set_vals_def row_is_def tbl_all_same)
qed

lemma hoare_row_frame: "keeps ticket_view m \<Longrightarrow> hoare (row_is k P) m (\<lambda>_. row_is k P)"
  by (erule hoare_keeps) (simp add: row_is_def ticket_view_def)

lemma hoare_row_seqn: "keeps ticket_view m \<Longrightarrow> hoare (row_is k P) n R \<Longrightarrow> hoare (row_is k P) (seqn m n) R"
  by (rule hoare_seqn [OF hoare_row_frame])

lemma hoare_row_bnd: "keeps ticket_view m \<Longrightarrow> (\<And>x. hoare (row_is k P) (f x) R) \<Longrightarrow> hoare (row_is k P) (bnd m f) R"
  by (rule hoare_bnd [OF hoare_row_frame])

lemma hoare_pure: "(b \<Longrightarrow> hoare P m Q) \<Longrightarrow> hoare (\<lambda>s. b \<and> P s) m Q"
  by (auto simp: hoare_def)

lemma sync_row:
  assumes "row_pk tk = k" "\<And>v a b c. P v \<Longrightarrow> P (v\<lparr>tk_message_count := a, tk_attachment_count := b, tk_internal_note_count := c\<rparr>)"
  shows "hoare (row_is k P) (sync_ticket_counters now tk) (\<lambda>x s. row_pk x = k \<and> row_is k P s)"
  unfolding sync_ticket_counters_def case_prod_beta
  by (rule hoare_read, rule hoare_post, rule hoare_save_row [where P = P and Q = P, OF assms(1)]) (auto intro: assms(2))

lemma change_status_row:
  assumes "row_pk tk = k" "tk_status (vals tk) \<noteq> to" "\<And>v. P v \<Longrightarrow> Q (copy_status to (status_vals now to (vals tk)) v)"
    "\<And>v a b c. Q v \<Longrightarrow> Q (v\<lparr>tk_message_count := a, tk_attachment_count := b, tk_internal_note_count := c\<rparr>)"
  shows "hoare (row_is k P) (change_status now tk actor to reason) (\<lambda>x s. row_pk x = k \<and> row_is k Q s)"
proof -
  have "hoare (row_is k P)
     (bnd (save_ticket now (copy_status to) (set_vals (status_vals now to) tk)) (\<lambda>tk'.
        seqn (add_history now (h tk'))
        (case actor of None \<Rightarrow> ret tk' | Some u \<Rightarrow> seqn (add_message now (g tk' u)) (sync_ticket_counters now tk'))))
     (\<lambda>x s. row_pk x = k \<and> row_is k Q s)" for h g
    by (rule hoare_bnd [OF hoare_save_row [where P = P and Q = Q and tk = tk and cp = "copy_status to" and
          f = "status_vals now to", OF assms(1,3)]], assumption, (rule hoare_pure)+)
       (auto split: option.split intro!: hoare_row_seqn keeps_rules hoare_ret sync_row assms(4))
  with assms(2) show ?thesis by (simp add: change_status_def Let_def)
qed

lemma resume_row:
  assumes "row_pk tk = k" "\<And>v a b c d. P v \<Longrightarrow> P (v\<lparr>tk_sla_total_paused_seconds := a, tk_first_response_due_at := b,
      tk_resolution_due_at := c, tk_sla_paused_at := d\<rparr>)"
  shows "hoare (row_is k P) (resume_sla_if_needed now tk) (\<lambda>x s. row_pk x = k \<and> tk_status (vals x) = tk_status (vals tk) \<and> row_is k P s)"
  unfolding resume_sla_if_needed_def
proof (cases "tk_sla_paused_at (vals tk)", simp_all only: option.case)
  case None
  show "hoare (row_is k P) (ret tk) (\<lambda>x s. row_pk x = k \<and> tk_status (vals x) = tk_status (vals tk) \<and> row_is k P s)"
    by (rule hoare_ret) (simp add: assms(1))
next
  case (Some a)
  show "hoare (row_is k P)
     (bnd (save_ticket now
                (\<lambda>ob v. v\<lparr>tk_sla_total_paused_seconds := tk_sla_total_paused_seconds ob,
                   tk_first_response_due_at := tk_first_response_due_at ob, tk_resolution_due_at := tk_resolution_due_at ob,
                   tk_sla_paused_at := tk_sla_paused_at ob\<rparr>)
                (set_vals (resume_vals now a) tk)) (\<lambda>tk. seqn (add_sla_event now \<lparr>sle_ticket = row_pk tk, sle_event_type = SE_RESUMED,
                  sle_occurred_at = now, sle_metadata = [(''paused_seconds'', JInt (now - a))]\<rparr>) (ret tk)))
     (\<lambda>x s. row_pk x = k \<and> tk_status (vals x) = tk_status (vals tk) \<and> row_is k P s)"
    by (rule hoare_bnd, rule hoare_save_row [where P = P and Q = P, OF assms(1)], erule assms(2), (rule hoare_pure)+, rule hoare_row_seqn)
       (auto intro!: keeps_rules hoare_ret simp: resume_vals_def Let_def)
qed

lemma stale_reply_row:
  "hoare (row_is (row_pk tk) (\<lambda>v. tk_closed_at v = c)) (add_user_reply E now tk user body)
     (\<lambda>_. row_is (row_pk tk) (\<lambda>v. tk_closed_at v = c \<and> tk_status v = TS_WAITING_FOR_ADMIN))"
  unfolding add_user_reply_def
proof (intro hoare_atomic hoare_check)
  let ?k = "row_pk tk" and ?P = "\<lambda>v. tk_closed_at v = c" and ?Q = "\<lambda>v. tk_closed_at v = c \<and> tk_status v = TS_WAITING_FOR_ADMIN"
  assume ok: "tk_status (vals tk) \<in> set USER_REPLY_ALLOWED_STATUSES"
  let ?f = "\<lambda>v. v\<lparr>tk_last_user_message_at := Some now, tk_last_activity_at := now\<rparr>"
  have status: "hoare (row_is ?k ?P) (change_status now x user TS_WAITING_FOR_ADMIN ''user_reply'') (\<lambda>x s. row_pk x = ?k \<and> row_is ?k ?Q s)"
    if "row_pk x = ?k" "vals x = ?f v" "tk_status v = tk_status (vals tk)" for x v
    by (rule change_status_row [OF that(1)])
       (use that ok in \<open>auto simp: copy_status_def status_vals_def Let_def USER_REPLY_ALLOWED_STATUSES_def\<close>)
  have sync: "hoare (row_is ?k ?Q) (sync_ticket_counters now x) (\<lambda>x s. row_pk x = ?k \<and> row_is ?k ?Q s)" if "row_pk x = ?k" for x
    by (rule sync_row [OF that]) simp
  have rest: "hoare (row_is ?k ?P) (bnd (add_message now (m x)) (\<lambda>m.
      bnd (save_ticket now
            (\<lambda>ob v. v\<lparr>tk_last_user_message_at := tk_last_user_message_at ob, tk_last_activity_at := tk_last_activity_at ob\<rparr>)
            (set_vals ?f x)) (\<lambda>x.
      bnd (change_status now x user TS_WAITING_FOR_ADMIN ''user_reply'') (\<lambda>x.
      bnd (sync_ticket_counters now x) (\<lambda>x. seqn (auto_tag_ticket E now (row_pk x) body) (ret m)))))) (\<lambda>_. row_is ?k ?Q)"
    if "row_pk x = ?k" "tk_status (vals x) = tk_status (vals tk)" for x m
  proof (rule hoare_row_bnd [OF keeps_ticket_view(1)], rule hoare_bnd, rule hoare_save_row [where P = ?P and Q = ?P, OF that(1)])
    fix m y
    show "hoare (\<lambda>s. row_pk y = ?k \<and> vals y = ?f (vals x) \<and> row_is ?k ?P s)
       (bnd (change_status now y user TS_WAITING_FOR_ADMIN ''user_reply'') (\<lambda>x.
         bnd (sync_ticket_counters now x) (\<lambda>x. seqn (auto_tag_ticket E now (row_pk x) body) (ret m)))) (\<lambda>_. row_is ?k ?Q)"
      by ((rule hoare_pure)+, rule hoare_bnd [OF status], assumption, assumption, rule that(2), rule hoare_pure,
          rule hoare_bnd [OF sync], assumption, rule hoare_pure, rule hoare_row_seqn [OF keeps_ticket_view(4)], rule hoare_ret)
  qed simp
  show "hoare (row_is ?k ?P) (bnd (resume_sla_if_needed now tk) (\<lambda>x.
      bnd (add_message now (public_message (row_pk x) (tk_owner (vals x)) MT_USER_MESSAGE (strip body) False)) (\<lambda>m.
      bnd (save_ticket now
            (\<lambda>ob v. v\<lparr>tk_last_user_message_at := tk_last_user_message_at ob, tk_last_activity_at := tk_last_activity_at ob\<rparr>)
            (set_vals ?f x)) (\<lambda>x.
      bnd (change_status now x user TS_WAITING_FOR_ADMIN ''user_reply'') (\<lambda>x.
      bnd (sync_ticket_counters now x) (\<lambda>x. seqn (auto_tag_ticket E now (row_pk x) body) (ret m))))))) (\<lambda>_. row_is ?k ?Q)"
    by (rule hoare_bnd, rule resume_row [OF refl]) (simp, (rule hoare_pure)+, rule rest)
qed

lemma counts_status [simp]:
  "tk_status (v\<lparr>tk_message_count := a, tk_attachment_count := b, tk_internal_note_count := c\<rparr>) = tk_status v"
  "tk_closed_at (v\<lparr>tk_message_count := a, tk_attachment_count := b, tk_internal_note_count := c\<rparr>) = tk_closed_at v"
  "tk_owner (v\<lparr>tk_message_count := a, tk_attachment_count := b, tk_internal_note_count := c\<rparr>) = tk_owner v"
  by simp_all

lemma close_held:
  "hoare (held ps k (\<lambda>v. tk_owner v = w) tk) (close_ticket now tk actor reason)
     (held ps k (\<lambda>v. tk_owner v = w \<and> tk_status v = TS_CLOSED \<and> tk_closed_at v = Some now))"
  unfolding close_ticket_def
proof (intro hoare_atomic hoare_check, rule hoare_held_known [where R = "\<lambda>v. tk_status v \<noteq> TS_CLOSED"])
  assume "tk_status (vals tk) \<in> set CLOSABLE_STATUSES"
  then show "tk_status (vals tk) \<noteq> TS_CLOSED" by (auto simp: CLOSABLE_STATUSES_def)
qed (rule change_status_held, auto simp: status_vals_def Let_def)

lemma resume_held_any:
  assumes "\<And>v a. P v \<Longrightarrow> P (resume_vals now a v)"
  shows "hoare (held ps k P tk) (resume_sla_if_needed now tk) (held ps k P)"
proof (cases "tk_sla_paused_at (vals tk)")
  case None
  then show ?thesis by (simp add: resume_sla_if_needed_def held_ret)
next
  case (Some a)
  have "hoare (held ps k P tk)
     (bnd (save_ticket now
                (\<lambda>ob v. v\<lparr>tk_sla_total_paused_seconds := tk_sla_total_paused_seconds ob,
                   tk_first_response_due_at := tk_first_response_due_at ob, tk_resolution_due_at := tk_resolution_due_at ob,
                   tk_sla_paused_at := tk_sla_paused_at ob\<rparr>)
                (set_vals (resume_vals now a) tk)) (\<lambda>tk. seqn (add_sla_event now (e tk)) (ret tk))) (held ps k P)" for e
    by (intro hoare_bnd [OF hoare_save_held [where Q = P]] hoare_held_seqn keeps_rules held_ret)
       (simp add: resume_vals_def Let_def assms [unfolded resume_vals_def Let_def])
  with Some show ?thesis by (simp add: resume_sla_if_needed_def)
qed

lemma reopen_held:
  "hoare (held ps k (\<lambda>v. tk_owner v = w \<and> tk_status v = TS_CLOSED \<and> tk_closed_at v = c) tk) (reopen_ticket now tk user reason)
     (held ps k (\<lambda>v. tk_owner v = w \<and> tk_status v = TS_REOPENED \<and> tk_closed_at v = c))"
  unfolding reopen_ticket_def
  by (intro hoare_atomic hoare_check hoare_bnd [OF resume_held_any] change_status_held)
     (auto simp: status_vals_def resume_vals_def Let_def)

lemma resolve_held:
  "hoare (held ps k (\<lambda>v. tk_owner v = w \<and> tk_status v = TS_REOPENED \<and> tk_closed_at v = c) tk) (resolve_ticket E now tk admin reason)
     (held ps k (\<lambda>v. tk_owner v = w \<and> tk_status v = TS_RESOLVED \<and> tk_closed_at v = c \<and> tk_resolved_at v = Some now))"
    (is "hoare _ _ (held ps k ?Q)")
  unfolding resolve_ticket_def change_ticket_status_def
  by (intro hoare_atomic hoare_check hoare_bnd [where R = "held ps k ?Q"] change_status_held hoare_held_seqn keeps_rules held_ret)
     (auto simp: status_vals_def Let_def)

text \<open>
  A reply on an outdated object revives a closed ticket. The services test the status on the object that the
  caller loaded and take no lock: a ticket is closed, and a reply of its owner that had loaded the ticket before is
  accepted. The ticket then waits for an administrator while its closing time stays. The same reply on the
  object that the closing returned is refused.
\<close>

theorem stale_reply_revives_closed_ticket:
  assumes "tbl_all k (tickets s) = Some tk" and "close_ticket t1 tk actor reason s = (Inr closed, s1)"
    and "add_user_reply E t2 tk owner body s1 = (Inr m, s2)"
  shows "(\<exists>r. tbl_all k (tickets s1) = Some r \<and> tk_status (vals r) = TS_CLOSED) \<and>
    (\<exists>r. tbl_all k (tickets s2) = Some r \<and> tk_status (vals r) = TS_WAITING_FOR_ADMIN \<and> tk_closed_at (vals r) = Some t1) \<and>
    add_user_reply E t2 closed owner body s1 = (Inl SupportTicketStateError, s1)"
proof (intro conjI)
  have pk: "row_pk tk = k" using tbl_all_Some [OF assms(1)] by simp
  have c: "held (sla_policies s) k (\<lambda>v. tk_owner v = tk_owner (vals tk) \<and> tk_status v = TS_CLOSED \<and> tk_closed_at v = Some t1) closed s1"
    by (rule hoareD [OF close_held row_held [OF assms(1)] assms(2)]) simp
  then show "\<exists>r. tbl_all k (tickets s1) = Some r \<and> tk_status (vals r) = TS_CLOSED"
    by (auto simp: row_is_def dest!: held_row)
  from c have "row_is (row_pk tk) (\<lambda>v. tk_closed_at v = Some t1) s1" by (auto simp: row_is_def pk dest!: held_row)
  from hoareD [OF stale_reply_row this assms(3)] show
    "\<exists>r. tbl_all k (tickets s2) = Some r \<and> tk_status (vals r) = TS_WAITING_FOR_ADMIN \<and> tk_closed_at (vals r) = Some t1"
    by (auto simp: row_is_def pk)
  have "Some (tk_owner (vals tk)) = user_pk owner" using assms(3) by (simp add: add_user_reply_def svc_inv)
  with c show "add_user_reply E t2 closed owner body s1 = (Inl SupportTicketStateError, s1)"
    by (simp add: held_def add_user_reply_def atomic_def seqn_def bnd_def check_def ret_def raise_def USER_REPLY_ALLOWED_STATUSES_def)
qed

theorem stale_reply_revives_closed_ticket_witness:
  "map_option (\<lambda>r. (tk_status (vals r), tk_closed_at (vals r)))
     (tbl_all 1 (tickets (state_after (add_user_reply desk_env 60 (tk_of queue0) owner1 []) queue2))) = Some (TS_WAITING_FOR_ADMIN, Some 50)"
proof -
  obtain m n where "close_ticket 50 (tk_of queue0) owner1 [] queue0 = (Inr m, queue2)"
    and "add_user_reply desk_env 60 (tk_of queue0) owner1 [] queue2 = (Inr n, state_after (add_user_reply desk_env 60 (tk_of queue0) owner1 []) queue2)"
    using returnsE [OF queue_close] returnsE [OF queue_stale_reply] unfolding queue2_def by blast
  from stale_reply_revives_closed_ticket [OF queue_stored(1) this] show ?thesis by auto
qed

text \<open>
  The reopening window of a ticket that was closed once never moves with a later resolution. A ticket is closed,
  reopened in time and resolved again: seven days after the first closing its owner can not reopen it, even in
  the moment of the resolution, because the old closing time is still on the ticket and is looked at first.
\<close>

theorem reopen_window_ignores_resolution:
  assumes "tbl_all k (tickets s) = Some tk" and "close_ticket t0 tk actor r1 s = (Inr tk1, s1)"
    and "reopen_ticket t1 tk1 owner r2 s1 = (Inr tk2, s2)" and "resolve_ticket E t2 tk2 admin r3 s2 = (Inr tk3, s3)"
    and "t0 + 7 * 86400 \<le> t2"
  shows "(\<exists>r. tbl_all k (tickets s3) = Some r \<and> vals r = vals tk3 \<and> tk_status (vals r) = TS_RESOLVED \<and> tk_resolved_at (vals r) = Some t2) \<and>
    reopen_ticket t2 tk3 owner r4 s3 = (Inl SupportTicketStateError, s3)"
proof (intro conjI)
  let ?w = "tk_owner (vals tk)" and ?ps = "sla_policies s"
  have "held ?ps k (\<lambda>v. tk_owner v = ?w \<and> tk_status v = TS_CLOSED \<and> tk_closed_at v = Some t0) tk1 s1"
    by (rule hoareD [OF close_held row_held [OF assms(1)] assms(2)]) simp
  note 2 = hoareD [OF reopen_held this assms(3)]
  have 3: "held ?ps k (\<lambda>v. tk_owner v = ?w \<and> tk_status v = TS_RESOLVED \<and> tk_closed_at v = Some t0 \<and> tk_resolved_at v = Some t2) tk3 s3"
    by (rule hoareD [OF resolve_held 2 assms(4)])
  then show "\<exists>r. tbl_all k (tickets s3) = Some r \<and> vals r = vals tk3 \<and> tk_status (vals r) = TS_RESOLVED \<and> tk_resolved_at (vals r) = Some t2"
    by (auto simp: held_def)
  have "Some ?w = user_pk owner"
    using assms(3) \<open>held ?ps k (\<lambda>v. tk_owner v = ?w \<and> tk_status v = TS_CLOSED \<and> tk_closed_at v = Some t0) tk1 s1\<close>
    by (simp add: reopen_ticket_def svc_inv held_def)
  with 3 assms(5) show "reopen_ticket t2 tk3 owner r4 s3 = (Inl SupportTicketStateError, s3)"
    by (simp add: held_def reopen_ticket_def is_reopenable_def atomic_def seqn_def bnd_def check_def ret_def raise_def)
qed

section \<open>Reachable states\<close>

text \<open>
  C27. In every state that requests reach from an empty desk, the history of each ticket is complete: it begins with the
  creation of the draft, each row starts at the status where the one before ended, and the last one ends at the
  status of the ticket. The counters on each ticket are the numbers of its active messages, attachments and notes.
\<close>

theorem ticket_trail_complete:
  assumes "reach desk_init request_step s" and "r \<in> set (tickets s)"
  shows "trail_end None (history_of (row_pk r) s) = Some (Some (tk_status (vals r))) \<and>
    tk_message_count (vals r) = length (ticket_messages (row_pk r) (messages s)) \<and>
    tk_attachment_count (vals r) = length (ticket_attachments (row_pk r) (attachments s)) \<and>
    tk_internal_note_count (vals r) = length (filter is_internal_note (ticket_messages (row_pk r) (messages s)))"
  using requests.reach_inv [OF assms(1)] assms(2) by (simp add: desk_def trail_ok_def counters_ok_def)

theorem ticket_trail_complete_witness:
  "trail_end None (history_of 1 desk2) = Some (Some (tk_status (vals (hd (tickets desk2))))) \<and> length (ticket_messages 1 (messages desk2)) = 1"
proof -
  from desk2_tickets obtain r where r: "tickets desk2 = [r]" "row_pk r = 1" "tk_message_count (vals r) = 1" by auto
  then show ?thesis using ticket_trail_complete [OF desk2_reach, of r] by simp
qed

text \<open>
  C28. Categories form a forest in every reachable state, whatever calls were made before: parents are stored, no category
  is its own ancestor, and the path and depth of each are those that its parent gives it.
\<close>

theorem categories_form_forest:
  assumes "reach desk_init sd_step s"
  shows "acyclic (parent_rel (categories s)) \<and>
    (\<forall>r \<in> set (categories s). parent_stored (categories s) (vals r) \<and> fill_path (categories s) (vals r) = vals r)"
proof -
  note tree = categories.reach_inv [OF assms]
  then have "\<forall>r \<in> set (categories s). parent_stored (categories s) (vals r) \<and> fill_path (categories s) (vals r) = vals r"
    by (simp add: category_tree_def rows_ok_def placed_def list_all_iff)
  with category_tree_acyclic [OF tree] show ?thesis by blast
qed

theorem categories_form_forest_witness:
  "acyclic (parent_rel (categories desk1)) \<and> map (\<lambda>r. (row_pk r, cat_path (vals r))) (categories desk1) = [(1, ''/C/'')]"
  using categories_form_forest [OF desk1_reach] desk1_categories by blast

section \<open>Breach marking\<close>

text \<open>What the run does to one due row: the breach time, and the escalation when the policy asks for it.\<close>

definition breach_vals :: "int \<Rightarrow> sla_policy table \<Rightarrow> ticket \<Rightarrow> ticket" where
  "breach_vals now ps v =
     (let w = v\<lparr>tk_sla_breached_at := Some now\<rparr> in
      if (case tk_applied_sla_policy v of None \<Rightarrow> False
          | Some p \<Rightarrow> (case tbl_all p ps of None \<Rightarrow> False | Some pol \<Rightarrow> pol_escalate_on_breach (vals pol))) \<and> tk_status v \<noteq> TS_ESCALATED
      then w\<lparr>tk_status := TS_ESCALATED, tk_escalated_at := Some now, tk_escalation_reason := ''sla_breach''\<rparr> else w)"

lemma breach_vals_breached [simp]: "tk_sla_breached_at (breach_vals now ps v) = Some now"
  by (simp add: breach_vals_def Let_def)

lemma tbl_upd_twice: "tbl_upd k now f (tbl_upd k now g t) = tbl_upd k now (f \<circ> g) t"
  by (simp add: tbl_upd_def)

lemma tbl_upd_cong: "(\<And>r. r \<in> set t \<Longrightarrow> row_pk r = k \<Longrightarrow> f (vals r) = g (vals r)) \<Longrightarrow> tbl_upd k now f t = tbl_upd k now g t"
  by (simp add: tbl_upd_def)

lemma mark_breach_row:
  assumes "mark_breach now tk s = (Inr y, t)" "tk \<in> set (tickets s)" "distinct (map row_pk (tickets s))"
  shows "tickets t = tbl_upd (row_pk tk) now (breach_vals now (sla_policies s)) (tickets s) \<and> sla_policies t = sla_policies s"
proof -
  have only: "r = tk" if "r \<in> set (tickets s)" "row_pk r = row_pk tk" for r
    using that assms(2,3) by (blast intro: distinct_pk_eq)
  let ?b = "tbl_upd (row_pk tk) now (\<lambda>v. v\<lparr>tk_sla_breached_at := Some now\<rparr>) (tickets s)"
  let ?e = "\<lambda>v. v\<lparr>tk_status := TS_ESCALATED, tk_escalated_at := Some now, tk_escalation_reason := ''sla_breach''\<rparr>"
  let ?esc = "(case tk_applied_sla_policy (vals tk) of None \<Rightarrow> False
          | Some p \<Rightarrow> (case tbl_all p (sla_policies s) of None \<Rightarrow> False | Some pol \<Rightarrow> pol_escalate_on_breach (vals pol))) \<and>
          tk_status (vals tk) \<noteq> TS_ESCALATED"
  from assms(1) obtain policy where pol: "follow_opt sla_policies (tk_applied_sla_policy (vals tk)) s = (Inr policy, s)"
    and t: "tickets t = (if (case policy of None \<Rightarrow> False | Some p \<Rightarrow> pol_escalate_on_breach (vals p)) \<and> tk_status (vals tk) \<noteq> TS_ESCALATED
          then tbl_upd (row_pk tk) now ?e ?b else ?b)" "sla_policies t = sla_policies s"
    unfolding mark_breach_def save_ticket_def add_sla_event_def set_vals_def bnd_Inr seqn_Inr follow_opt_Inr modify_Inr ret_Inr
    by (cases "tk_applied_sla_policy (vals tk)") (auto simp: follow_opt_def svc_inv split: if_split_asm)
  have "tickets t = (if ?esc then tbl_upd (row_pk tk) now ?e ?b else ?b) \<and> sla_policies t = sla_policies s"
    using pol t by (cases "tk_applied_sla_policy (vals tk)") (auto simp: follow_opt_def svc_inv)
  moreover have "(if ?esc then tbl_upd (row_pk tk) now ?e ?b else ?b) = tbl_upd (row_pk tk) now (breach_vals now (sla_policies s)) (tickets s)"
    unfolding tbl_upd_twice by (auto simp: breach_vals_def Let_def intro!: tbl_upd_cong dest!: only)
  ultimately show ?thesis by simp
qed

lemma mark_loop:
  assumes "for_each due (mark_breach now) s = (Inr ys, t)" "set due \<subseteq> set (tickets s)" "distinct (map row_pk due)"
    "distinct (map row_pk (tickets s))"
  shows "tickets t = map (\<lambda>r. if row_pk r \<in> row_pk ` set due
      then r\<lparr>vals := breach_vals now (sla_policies s) (vals r), updated_at := now\<rparr> else r) (tickets s)"
  using assms
proof (induction due arbitrary: s ys)
  case Nil
  then show ?case by (simp add: svc_inv)
next
  case (Cons tk due)
  from Cons.prems(1) obtain y u zs where u: "mark_breach now tk s = (Inr y, u)" and rest: "for_each due (mark_breach now) u = (Inr zs, t)"
    by (auto simp: svc_inv)
  have row: "tickets u = tbl_upd (row_pk tk) now (breach_vals now (sla_policies s)) (tickets s)" "sla_policies u = sla_policies s"
    using mark_breach_row [OF u] Cons.prems(2,4) by simp_all
  have sub: "set due \<subseteq> set (tickets u)"
  proof
    fix r assume "r \<in> set due"
    with Cons.prems(2,3) have "r \<in> set (tickets s)" "row_pk r \<noteq> row_pk tk" by (auto simp: image_iff)
    then show "r \<in> set (tickets u)" unfolding row(1) tbl_upd_def by (auto simp: image_iff intro!: bexI [of _ r])
  qed
  have "distinct (map row_pk due)" "distinct (map row_pk (tickets u))" using Cons.prems(3,4) row(1) by simp_all
  from Cons.IH [OF rest sub this] show ?case using Cons.prems(3) by (auto simp: row tbl_upd_def)
qed

lemma breach_marked_once: "\<not> breach_due now (r\<lparr>vals := breach_vals now' ps (vals r), updated_at := w\<rparr>)"
  by (simp add: breach_due_def)

text \<open>
  C31. A run of the breach task marks exactly the tickets that are due: active, in the open queue, not marked before, and past
  the deadline of the first answer (with none given) or of the resolution. Each of these gets the breach time and, when
  its policy says so, the escalation; all other rows stay as they are, the result is the number of marked
  tickets, and a second run at the same time marks none.
\<close>

theorem mark_sla_breaches_exact:
  assumes "distinct (map row_pk (tickets s))" and "mark_sla_breaches now s = (Inr n, t)"
  shows "tickets t = map (\<lambda>r. if breach_due now r then r\<lparr>vals := breach_vals now (sla_policies s) (vals r), updated_at := now\<rparr> else r) (tickets s) \<and>
    n = length (filter (breach_due now) (tickets s)) \<and> mark_sla_breaches now t = (Inr 0, t)"
proof -
  define due where "due = sort_key (\<lambda>r. (- tk_last_activity_at (vals r), - created_at r)) (filter (breach_due now) (tickets s))"
  from assms(2) obtain ys where loop: "for_each due (mark_breach now) s = (Inr ys, t)" and n: "n = length due"
    by (auto simp: mark_sla_breaches_def due_def svc_inv)
  have due: "set due = {r \<in> set (tickets s). breach_due now r}" by (simp add: due_def)
  have "distinct due" using assms(1) by (simp add: due_def distinct_map)
  then have "distinct (map row_pk due)" using assms(1) due by (auto simp: distinct_map inj_on_def)
  from mark_loop [OF loop _ this assms(1)] due
  have "tickets t = map (\<lambda>r. if row_pk r \<in> row_pk ` set due
      then r\<lparr>vals := breach_vals now (sla_policies s) (vals r), updated_at := now\<rparr> else r) (tickets s)" by blast
  moreover have "row_pk r \<in> row_pk ` set due \<longleftrightarrow> breach_due now r" if "r \<in> set (tickets s)" for r
    using that assms(1) due by (auto dest: distinct_pk_eq)
  ultimately have tickets: "tickets t =
      map (\<lambda>r. if breach_due now r then r\<lparr>vals := breach_vals now (sla_policies s) (vals r), updated_at := now\<rparr> else r) (tickets s)"
    by (simp cong: map_cong)
  have "filter (breach_due now) (tickets t) = []"
    by (auto simp: tickets filter_empty_conv breach_marked_once)
  then have "mark_sla_breaches now t = (Inr 0, t)" by (simp add: mark_sla_breaches_def atomic_def svc_defs)
  with tickets n show ?thesis by (simp add: due_def)
qed

theorem mark_sla_breaches_exact_witness:
  "\<exists>t. mark_sla_breaches 1000 queue0 = (Inr 1, t) \<and> mark_sla_breaches 1000 t = (Inr 0, t)"
proof -
  obtain n t where run: "mark_sla_breaches 1000 queue0 = (Inr n, t)" using returnsE [OF queue_breach] by blast
  from mark_sla_breaches_exact [OF queue_stored(5) run] have "n = length (filter (breach_due 1000) (tickets queue0))"
    and again: "mark_sla_breaches 1000 t = (Inr 0, t)" by blast+
  moreover have "length (filter (breach_due 1000) (tickets queue0)) = 1" by (simp add: desk_eval)
  ultimately show ?thesis using run by metis
qed

section \<open>Internal notes stay internal\<close>

lemma internal_note_messages:
  assumes "add_internal_note now tk admin body s = (Inr m, t)"
  shows "\<exists>r. messages t = messages s @ [r] \<and> tm_is_internal (vals r) \<and> articles t = articles s \<and> canned_responses t = canned_responses s"
  using assms
  by (auto simp: add_internal_note_def add_message_def sync_ticket_counters_def save_ticket_def svc_inv split: option.splits prod.splits)

text \<open>
  An internal note is invisible outside the desk: neither the timeline that any ticket's owner sees nor the reply drafts of any
  ticket change when an administrator adds one.
\<close>

theorem internal_note_invisible:
  assumes "add_internal_note now tk admin body s = (Inr m, t)"
  shows "get_user_ticket_timeline k (messages t) = get_user_ticket_timeline k (messages s) \<and>
    generate_smart_reply_suggestions t tk' limit = generate_smart_reply_suggestions s tk' limit"
proof -
  from internal_note_messages [OF assms] obtain r where r: "messages t = messages s @ [r]" "tm_is_internal (vals r)"
    and rest: "articles t = articles s" "canned_responses t = canned_responses s" by blast
  have "build_public_ticket_context (messages t) tk' = build_public_ticket_context (messages s) tk'"
    using r by (simp add: build_public_ticket_context_def objects_def)
  with r rest show ?thesis
    by (simp add: get_user_ticket_timeline_def message_queryset_def objects_def generate_smart_reply_suggestions_def)
qed

theorem internal_note_invisible_witness:
  "get_user_ticket_timeline 1 (messages (state_after (add_internal_note 5 (tk_of queue0) admin2 ''x'') queue0)) = [] \<and>
   length (messages (state_after (add_internal_note 5 (tk_of queue0) admin2 ''x'') queue0)) = 1"
proof -
  have "is_admin admin2" by (simp add: is_admin_def admin2_def person_def fixed_row_def)
  then have "total (add_internal_note 5 (tk_of queue0) admin2 ''x'')"
    unfolding add_internal_note_def admin2_def option.case by (intro total_rules total_steps total_sync)
  then have "returns (add_internal_note 5 (tk_of queue0) admin2 ''x'') queue0" by (rule total_returns)
  from returnsE [OF this] obtain m where run: "add_internal_note 5 (tk_of queue0) admin2 ''x'' queue0 = (Inr m, state_after (add_internal_note 5 (tk_of queue0) admin2 ''x'') queue0)" by blast
  have "messages queue0 = []" by (simp add: queue0_def desk0_def)
  then have "get_user_ticket_timeline 1 (messages queue0) = []"
    by (simp add: get_user_ticket_timeline_def message_queryset_def objects_def)
  with internal_note_invisible [OF run] have "get_user_ticket_timeline 1 (messages (state_after (add_internal_note 5 (tk_of queue0) admin2 ''x'') queue0)) = []"
    by metis
  moreover have "length (messages (state_after (add_internal_note 5 (tk_of queue0) admin2 ''x'') queue0)) = 1"
    using internal_note_messages [OF run] \<open>messages queue0 = []\<close> by (metis append_Nil length_Cons list.size(3) One_nat_def)
  ultimately show ?thesis by blast
qed

end
