(* ===== verification/Lms_Types.thy ===== *)
theory Lms_Types
  imports Notifications Auth_Types Unique_Slug "HOL-Library.Product_Lexorder" "HOL-Library.List_Lexorder" "HOL-Library.Char_ord"
begin

text \<open>
  Data of the learning platform (\<^verbatim>\<open>src/apps/lms/models.py\<close>, \<^verbatim>\<open>choices.py\<close>): the catalogue, enrolments with progress, lesson discussions,
  quizzes, certificates and the activity statements. A decimal column with two places is a number of hundredths: progress is between
  0 and 10000, a score of 20 is 2000. An uploaded file is its name, with the empty name for none. The random
  statement identifiers are left out. Categories, courses and lessons have managers that see inactive rows as well.
\<close>

section \<open>Exceptions\<close>

abbreviation LMSProfileIncompleteError :: exn where
  "LMSProfileIncompleteError \<equiv> LMSServiceError LMSProfileIncomplete"

abbreviation CourseNotEnrollabeError :: exn where
  "CourseNotEnrollabeError \<equiv> LMSServiceError CourseNotEnrollabe"

abbreviation CourseInvalidStateError :: exn where
  "CourseInvalidStateError \<equiv> LMSServiceError CourseInvalidState"

abbreviation EnrollmentNotActiveError :: exn where
  "EnrollmentNotActiveError \<equiv> LMSServiceError EnrollmentNotActive"

abbreviation LessonNotInEnrollmentCourseError :: exn where
  "LessonNotInEnrollmentCourseError \<equiv> LMSServiceError LessonNotInEnrollmentCourse"

abbreviation LessonMediaAccessError :: exn where
  "LessonMediaAccessError \<equiv> LMSServiceError LessonMediaAccess"

abbreviation LessonMediaUnavailableError :: exn where
  "LessonMediaUnavailableError \<equiv> LMSServiceError LessonMediaUnavailable"

abbreviation LessonCompletionModeError :: exn where
  "LessonCompletionModeError \<equiv> LMSServiceError LessonCompletionMode"

abbreviation LessonMediaEngagementRequiredError :: exn where
  "LessonMediaEngagementRequiredError \<equiv> LMSServiceError LessonMediaEngagementRequired"

abbreviation VideoProcessingJobError :: exn where
  "VideoProcessingJobError \<equiv> LMSServiceError VideoProcessingJob"

abbreviation LMSDiscussionAccessError :: exn where
  "LMSDiscussionAccessError \<equiv> LMSServiceError LMSDiscussionAccess"

abbreviation LMSDiscussionModerationError :: exn where
  "LMSDiscussionModerationError \<equiv> LMSServiceError LMSDiscussionModeration"

abbreviation LMSDiscussionReplyError :: exn where
  "LMSDiscussionReplyError \<equiv> LMSServiceError LMSDiscussionReply"

abbreviation LessonSequenceLockedError :: exn where
  "LessonSequenceLockedError \<equiv> LMSServiceError LessonSequenceLocked"

abbreviation QuizNotAvailableError :: exn where
  "QuizNotAvailableError \<equiv> LMSServiceError QuizNotAvailable"

abbreviation QuizValidationError :: exn where
  "QuizValidationError \<equiv> LMSServiceError QuizValidation"

abbreviation QuizAttemptLockedError :: exn where
  "QuizAttemptLockedError \<equiv> LMSServiceError QuizAttemptLocked"

abbreviation QuizNotReadyError :: exn where
  "QuizNotReadyError \<equiv> LMSServiceError QuizNotReady"

abbreviation QuizAttemptSubmissionError :: exn where
  "QuizAttemptSubmissionError \<equiv> LMSServiceError QuizAttemptSubmission"

abbreviation CertificateIssueError :: exn where
  "CertificateIssueError \<equiv> LMSServiceError CertificateIssue"

section \<open>Choices\<close>

datatype course_level = LV_BEGINNER | LV_INTERMEDIATE | LV_ADVANCED | LV_PROFESSIONAL

datatype course_status = CS_DRAFT | CS_PUBLISHED | CS_ARCHIVED

datatype enrollment_status = EN_ACTIVE | EN_COMPLETED | EN_CANCELED | EN_LOCKED

datatype discussion_status = DS_VISIBLE | DS_HIDDEN | DS_DELETED | DS_FLAGGED

datatype discussion_report_status = DR_PENDING | DR_REVIEWED | DR_REJECTED

datatype quiz_status = QS_DRAFT | QS_PUBLISHED | QS_ARCHIVED

datatype quiz_attempt_status = QA_IN_PROGRESS | QA_SUBMITTED | QA_PASSED | QA_FAILED | QA_EXPIRED | QA_LOCKED

datatype certificate_status = CT_ISSUED | CT_REVOKED

datatype badge_level = BRONZE | SILVER | GOLD | DISTINCTION

datatype video_provider = VP_DIRECT_URL | VP_EMBED | VP_UPLOADED_FILE | VP_HYBRID

datatype lesson_content_type = LC_VIDEO | LC_AUDIO | LC_DOCUMENT | LC_ARTICLE

datatype video_processing_status = VJ_QUEUED | VJ_PROCESSING | VJ_COMPLETED | VJ_FAILED | VJ_CANCELED

datatype statement_verb = SV_INITIALIZED | SV_PROGRESSED | SV_COMPLETED | SV_PASSED | SV_FAILED | SV_CERTIFICATE_ISSUED

definition content_type_str :: "lesson_content_type \<Rightarrow> string" where
  "content_type_str c = (case c of LC_VIDEO \<Rightarrow> ''video'' | LC_AUDIO \<Rightarrow> ''audio'' | LC_DOCUMENT \<Rightarrow> ''document'' | LC_ARTICLE \<Rightarrow> ''article'')"

definition MANUAL_COMPLETION_TYPES :: "lesson_content_type list" where
  "MANUAL_COMPLETION_TYPES = [LC_DOCUMENT, LC_ARTICLE]"

section \<open>Tables\<close>

record lms_category =
  lc_title :: string
  lc_slug :: string
  lc_description :: string
  lc_icon :: string
  lc_cover_image :: string
  lc_order :: nat

record course =
  co_category :: nat
  co_title :: string
  co_slug :: string
  co_subtitle :: string
  co_short_description :: string
  co_description :: string
  co_cover_image :: string
  co_instructor_name :: string
  co_instructor_bio :: string
  co_instructor_avatar :: string
  co_level :: course_level
  co_status :: course_status
  co_language :: string
  co_is_featured :: bool
  co_intro_video_url :: string
  co_estimated_duration_seconds :: nat
  co_lessons_count :: nat
  co_enrollments_count :: nat
  co_graduates_count :: nat
  co_average_rating :: int
  co_published_at :: "int option"
  co_archived_at :: "int option"

record lesson =
  le_course :: nat
  le_title :: string
  le_slug :: string
  le_description :: string
  le_order :: nat
  le_content_type :: lesson_content_type
  le_document_file :: string
  le_document_title :: string
  le_article_body :: string
  le_video_provider :: video_provider
  le_video_url :: string
  le_embed_url :: string
  le_video_file :: string
  le_duration_seconds :: nat
  le_transcript :: string
  le_summary :: string
  le_homework :: string
  le_attachment_file :: string
  le_attachment_title :: string
  le_is_preview :: bool
  le_published_at :: "int option"

record activity_statement =
  as_idempotency_key :: "string option"
  as_actor :: nat
  as_course :: nat
  as_lesson :: "nat option"
  as_enrollment :: "nat option"
  as_quiz_attempt :: "nat option"
  as_certificate :: "nat option"
  as_verb :: statement_verb
  as_object_type :: string
  as_object_id :: string
  as_actor_snapshot :: json_obj
  as_object_snapshot :: json_obj
  as_result :: json_obj
  as_context :: json_obj
  as_occurred_at :: int

record video_job =
  vj_lesson :: nat
  vj_requested_by :: "nat option"
  vj_status :: video_processing_status
  vj_provider :: string
  vj_source_file_name :: string
  vj_output_video_url :: string
  vj_thumbnail_url :: string
  vj_duration_seconds :: nat
  vj_metadata :: json_obj
  vj_error_message :: string
  vj_started_at :: "int option"
  vj_completed_at :: "int option"

record enrollment =
  er_course :: nat
  er_user :: nat
  er_status :: enrollment_status
  er_enrolled_at :: int
  er_completed_at :: "int option"
  er_last_accessed_lesson :: "nat option"
  er_progress_percent :: nat
  er_watched_seconds :: nat
  er_total_seconds_snapshot :: nat

record lesson_progress =
  lp_enrollment :: nat
  lp_lesson :: nat
  lp_watched_seconds :: nat
  lp_duration_seconds_snapshot :: nat
  lp_progress_percent :: nat
  lp_is_completed :: bool
  lp_last_position_seconds :: nat
  lp_first_watched_at :: "int option"
  lp_last_watched_at :: "int option"
  lp_completed_at :: "int option"
  lp_media_opened_at :: "int option"

record lesson_question =
  lq_lesson :: nat
  lq_user :: nat
  lq_title :: string
  lq_body :: string
  lq_status :: discussion_status
  lq_is_pinned :: bool
  lq_is_answered :: bool
  lq_answer_count :: nat
  lq_last_activity_at :: int
  lq_edited_at :: "int option"

record lesson_answer =
  la_question :: nat
  la_user :: nat
  la_parent :: "nat option"
  la_reply_to :: "nat option"
  la_body :: string
  la_edited_at :: "int option"
  la_status :: discussion_status
  la_is_instructor_answer :: bool
  la_is_accepted :: bool

record discussion_report =
  dr_question :: "nat option"
  dr_answer :: "nat option"
  dr_reported_by :: nat
  dr_reason :: string
  dr_description :: string
  dr_status :: discussion_report_status
  dr_reviewed_by :: "nat option"
  dr_reviewed_at :: "int option"

record quiz =
  qz_course :: nat
  qz_title :: string
  qz_description :: string
  qz_status :: quiz_status
  qz_time_limit_minutes :: nat
  qz_passing_score :: int
  qz_max_attempts :: nat
  qz_retake_delay_days :: nat
  qz_shuffle_questions :: bool
  qz_shuffle_options :: bool
  qz_show_result_immediately :: bool
  qz_show_correct_answers_after_pass :: bool
  qz_is_required_for_certificate :: bool
  qz_published_at :: "int option"

record quiz_question =
  qq_quiz :: nat
  qq_text :: string
  qq_explanation :: string
  qq_order :: nat
  qq_weight :: nat

record quiz_option =
  qo_question :: nat
  qo_text :: string
  qo_is_correct :: bool
  qo_order :: nat

record quiz_attempt =
  at_quiz :: nat
  at_course :: nat
  at_user :: nat
  at_enrollment :: nat
  at_attempt_number :: nat
  at_status :: quiz_attempt_status
  at_started_at :: int
  at_submitted_at :: "int option"
  at_expires_at :: "int option"
  at_score_raw :: nat
  at_score_percent :: nat
  at_score_out_of_20 :: nat
  at_is_passed :: bool
  at_question_snapshot :: "nat list"
  at_option_order_snapshot :: "(nat \<times> nat list) list"

record quiz_answer =
  an_attempt :: nat
  an_question :: nat
  an_selected_option :: nat
  an_is_correct :: bool
  an_weight :: nat
  an_score_awarded :: nat
  an_answered_at :: int

record quiz_unlock =
  qu_quiz :: nat
  qu_course :: nat
  qu_user :: nat
  qu_unlocked_by :: nat
  qu_reason :: string
  qu_extra_attempts :: nat
  qu_valid_until :: "int option"

record certificate =
  ce_user :: nat
  ce_course :: nat
  ce_enrollment :: nat
  ce_quiz_attempt :: nat
  ce_certificate_code :: string
  ce_verification_slug :: string
  ce_status :: certificate_status
  ce_full_name_snapshot :: string
  ce_gender_snapshot :: string
  ce_national_code_snapshot :: string
  ce_course_title_snapshot :: string
  ce_instructor_name_snapshot :: string
  ce_score_out_of_20 :: nat
  ce_issued_at :: int
  ce_revoked_at :: "int option"
  ce_revoked_by :: "nat option"
  ce_revocation_reason :: string
  ce_pdf_file :: string

record user_skill =
  us_user :: nat
  us_course :: nat
  us_certificate :: nat
  us_title :: string
  us_slug :: string
  us_badge_level :: badge_level
  us_issued_at :: int

section \<open>State\<close>

text \<open>\<open>on_commit_renders\<close> are the lessons whose pages are to be rendered after the commit.\<close>

record lms_db = ntf_db +
  lms_users :: "auth_user table"
  lms_profiles :: "profile table"
  lms_categories :: "lms_category table"
  courses :: "course table"
  lessons :: "lesson table"
  statements :: "activity_statement table"
  video_jobs :: "video_job table"
  enrollments :: "enrollment table"
  lesson_progresses :: "lesson_progress table"
  lesson_questions :: "lesson_question table"
  lesson_answers :: "lesson_answer table"
  discussion_reports :: "discussion_report table"
  quizzes :: "quiz table"
  quiz_questions :: "quiz_question table"
  quiz_options :: "quiz_option table"
  quiz_attempts :: "quiz_attempt table"
  quiz_answers :: "quiz_answer table"
  quiz_unlocks :: "quiz_unlock table"
  certificates :: "certificate table"
  user_skills :: "user_skill table"
  on_commit_renders :: "nat list"

text \<open>
  What the services use of their surroundings: Django's \<open>slugify\<close>, the random text of a new certificate, the shuffles of a
  quiz start (of the questions, and of the options of each), the rendering of a certificate (\<open>None\<close> when it fails), the address of a stored file, the ISO form of a time and the
  printed form of a decimal, Django's signing of media tokens (of lesson, kind and user; reading one at a time of day fails for a
  bad or outdated signature), the rendered pages of a document with their sizes, the file of one page, and the notification settings.
\<close>

record lms_env =
  le_slugify :: "string \<Rightarrow> string"
  le_certificate_hex :: string
  le_shuffle :: "nat \<Rightarrow> nat list \<Rightarrow> nat list"
  le_build_pdf :: "certificate row \<Rightarrow> string option"
  le_file_url :: "string \<Rightarrow> string"
  le_isoformat :: "int \<Rightarrow> string"
  le_float :: "nat \<Rightarrow> json"
  le_sign :: "int \<Rightarrow> nat \<times> string \<times> nat \<Rightarrow> string"
  le_unsign :: "nat \<Rightarrow> int \<Rightarrow> string \<Rightarrow> (nat \<times> string \<times> nat) option"
  le_pages :: "lesson row \<Rightarrow> (nat \<times> nat \<times> nat) list"
  le_open_page :: "lesson row \<Rightarrow> nat \<Rightarrow> string option"
  le_format :: "string \<Rightarrow> json_obj \<Rightarrow> string"
  le_cfg :: ntf_settings

section \<open>Rows\<close>

definition is_published :: "course row \<Rightarrow> bool" where
  "is_published r = (is_active r \<and> co_status (vals r) = CS_PUBLISHED)"

definition supports_manual_completion :: "lesson \<Rightarrow> bool" where
  "supports_manual_completion v = (le_content_type v \<in> set MANUAL_COMPLETION_TYPES)"

definition has_required_content :: "lesson \<Rightarrow> bool" where
  "has_required_content v =
     (case le_content_type v of
        LC_DOCUMENT \<Rightarrow> le_document_file v \<noteq> []
      | LC_ARTICLE \<Rightarrow> strip (le_article_body v) \<noteq> []
      | _ \<Rightarrow> le_video_file v \<noteq> [] \<or> le_video_url v \<noteq> [] \<or> le_embed_url v \<noteq> [])"

definition staff_user :: "auth_user row \<Rightarrow> bool" where
  "staff_user u = (u_is_staff (vals u) \<or> u_is_superuser (vals u))"

definition user_full_name :: "auth_user \<Rightarrow> string" where
  "user_full_name u = strip (u_first_name u @ '' '' @ u_last_name u)"

text \<open>The quotient of two naturals as hundredths, half to even: \<open>Decimal\<close> division keeps 28 digits, which decides every such
  rounding exactly because a quotient that is no tie is further than that from one.\<close>

definition round_ratio :: "nat \<Rightarrow> nat \<Rightarrow> nat" where
  "round_ratio a b =
     (let q = a div b; r = a mod b in if 2 * r < b then q else if 2 * r > b then q + 1 else if even q then q else q + 1)"

lemma round_ratio_le: "a \<le> b * c \<Longrightarrow> round_ratio a b \<le> c"
proof (cases "b = 0")
  case False
  assume "a \<le> b * c"
  then have q: "a div b \<le> c" using div_le_mono [of a "b * c" b] False by simp
  show ?thesis
  proof (cases "a div b = c")
    case True
    have "b * c + a mod b = a" using mult_div_mod_eq [of b a] True by simp
    with \<open>a \<le> b * c\<close> have "a mod b = 0" by linarith
    then show ?thesis using True False by (simp add: round_ratio_def Let_def)
  next
    case False
    with q show ?thesis by (simp add: round_ratio_def Let_def)
  qed
qed (simp add: round_ratio_def)

end
