(* ===== verification/Lms_Catalog.thy ===== *)
theory Lms_Catalog
  imports Lms_Types
begin

text \<open>
  Categories, courses, lessons, counters and video jobs (\<^verbatim>\<open>src/apps/lms/services.py\<close>). An object argument of a service is a key
  here, and the row is read at the start of the call.
\<close>

section \<open>Saving\<close>

definition save_course :: "int \<Rightarrow> nat \<Rightarrow> (course \<Rightarrow> course) \<Rightarrow> (lms_db, unit) svc" where
  "save_course now k f = modify (\<lambda>s. s\<lparr>courses := tbl_upd k now f (courses s)\<rparr>)"

definition save_enrollment :: "int \<Rightarrow> nat \<Rightarrow> (enrollment \<Rightarrow> enrollment) \<Rightarrow> (lms_db, unit) svc" where
  "save_enrollment now k f = modify (\<lambda>s. s\<lparr>enrollments := tbl_upd k now f (enrollments s)\<rparr>)"

text \<open>A partial update writes the given fields, and nothing when none is given.\<close>

definition update_row :: "bool \<Rightarrow> nat \<Rightarrow> int \<Rightarrow> ('v \<Rightarrow> 'v) \<Rightarrow> bool option \<Rightarrow> 'v table \<Rightarrow> 'v table" where
  "update_row given k now f act t =
     (if given
      then map (\<lambda>r. if row_pk r = k
                    then r\<lparr>vals := f (vals r), updated_at := now, is_active := (case act of None \<Rightarrow> is_active r | Some b \<Rightarrow> b)\<rparr> else r) t
      else t)"

definition set_opt :: "'a option \<Rightarrow> 'a \<Rightarrow> 'a" where
  "set_opt p old = (case p of None \<Rightarrow> old | Some v \<Rightarrow> v)"

definition other_has :: "('v row \<Rightarrow> bool) \<Rightarrow> nat \<Rightarrow> 'v table \<Rightarrow> bool" where
  "other_has P k t = list_ex (\<lambda>r. P r \<and> row_pk r \<noteq> k) t"

section \<open>Counters\<close>

definition active_lessons :: "nat \<Rightarrow> lesson table \<Rightarrow> lesson table" where
  "active_lessons c t = filter (\<lambda>r. le_course (vals r) = c \<and> is_active r) t"

definition enrollments_in :: "nat \<Rightarrow> enrollment_status \<Rightarrow> enrollment table \<Rightarrow> enrollment table" where
  "enrollments_in c st t = filter (\<lambda>r. er_course (vals r) = c \<and> er_status (vals r) = st) (objects t)"

definition course_counts :: "lms_db \<Rightarrow> nat \<Rightarrow> course \<Rightarrow> course" where
  "course_counts s c v =
     v\<lparr>co_estimated_duration_seconds := sum_list (map (\<lambda>r. le_duration_seconds (vals r)) (active_lessons c (lessons s))),
       co_lessons_count := length (active_lessons c (lessons s)),
       co_enrollments_count := length (enrollments_in c EN_ACTIVE (enrollments s)),
       co_graduates_count := length (enrollments_in c EN_COMPLETED (enrollments s))\<rparr>"

definition sync_course_counters :: "int \<Rightarrow> nat \<Rightarrow> (lms_db, unit) svc" where
  "sync_course_counters now c = atomic (bnd (gets (\<lambda>s. course_counts s c)) (\<lambda>f. save_course now c f))"

section \<open>Categories\<close>

definition generate_unique_slug :: "lms_env \<Rightarrow> string list \<Rightarrow> nat \<Rightarrow> string \<Rightarrow> string" where
  "generate_unique_slug E slugs max_length base_value = unique_slug (le_slugify E) ''item'' slugs max_length base_value"

definition create_lms_category :: "lms_env \<Rightarrow> int \<Rightarrow> string \<Rightarrow> string \<Rightarrow> string \<Rightarrow> nat \<Rightarrow> (lms_db, lms_category row) svc" where
  "create_lms_category E now title description icon order =
     atomic (
     bnd (gets lms_categories) (\<lambda>t.
     seqn (check (\<not> list_ex (\<lambda>r. lc_title (vals r) = title) t) IntegrityError)
     (let c = new_row now \<lparr>lc_title = title, lc_slug = generate_unique_slug E (map (lc_slug \<circ> vals) t) 180 title,
            lc_description = description, lc_icon = icon, lc_cover_image = [], lc_order = order\<rparr> t
      in seqn (modify (\<lambda>s. s\<lparr>lms_categories := lms_categories s @ [c]\<rparr>)) (ret c))))"

record lms_category_patch =
  lcp_title :: "string option"
  lcp_description :: "string option"
  lcp_icon :: "string option"
  lcp_cover_image :: "string option"
  lcp_order :: "nat option"
  lcp_is_active :: "bool option"

definition apply_lms_category_patch :: "lms_category_patch \<Rightarrow> lms_category \<Rightarrow> lms_category" where
  "apply_lms_category_patch p v =
     v\<lparr>lc_title := set_opt (lcp_title p) (lc_title v), lc_description := set_opt (lcp_description p) (lc_description v),
       lc_icon := set_opt (lcp_icon p) (lc_icon v), lc_cover_image := set_opt (lcp_cover_image p) (lc_cover_image v),
       lc_order := set_opt (lcp_order p) (lc_order v)\<rparr>"

definition update_lms_category :: "int \<Rightarrow> nat \<Rightarrow> lms_category_patch \<Rightarrow> (lms_db, lms_category row) svc" where
  "update_lms_category now k p =
     atomic (
     bnd (follow lms_categories k) (\<lambda>r.
     bnd (gets lms_categories) (\<lambda>t.
     seqn (check (\<not> other_has (\<lambda>q. lc_title (vals q) = lc_title (apply_lms_category_patch p (vals r))) k t) IntegrityError)
     (seqn (modify (\<lambda>s. s\<lparr>lms_categories := update_row
        (p \<noteq> \<lparr>lcp_title = None, lcp_description = None, lcp_icon = None, lcp_cover_image = None, lcp_order = None, lcp_is_active = None\<rparr>)
        k now (apply_lms_category_patch p) (lcp_is_active p) (lms_categories s)\<rparr>))
     (follow lms_categories k)))))"

definition delete_lms_category :: "int \<Rightarrow> nat \<Rightarrow> (lms_db, unit) svc" where
  "delete_lms_category now k = atomic (modify (\<lambda>s. s\<lparr>lms_categories := tbl_set_active k now False (lms_categories s)\<rparr>))"

section \<open>Courses\<close>

text \<open>The argument \<open>c\<close> holds the given fields and the defaults of the others.\<close>

definition create_course :: "lms_env \<Rightarrow> int \<Rightarrow> nat \<Rightarrow> course \<Rightarrow> (lms_db, course row) svc" where
  "create_course E now category c =
     atomic (
     bnd (gets courses) (\<lambda>t.
     let v = c\<lparr>co_category := category, co_status := CS_DRAFT,
               co_slug := (if co_slug c = [] then generate_unique_slug E (map (co_slug \<circ> vals) t) 300 (co_title c) else co_slug c)\<rparr> in
     seqn (check (\<not> list_ex (\<lambda>r. co_slug (vals r) = co_slug v) t) IntegrityError)
     (let r = new_row now v t in
      seqn (modify (\<lambda>s. s\<lparr>courses := courses s @ [r]\<rparr>))
      (seqn (sync_course_counters now (row_pk r))
      (follow courses (row_pk r))))))"

record course_patch =
  cop_category :: "nat option"
  cop_title :: "string option"
  cop_subtitle :: "string option"
  cop_short_description :: "string option"
  cop_description :: "string option"
  cop_cover_image :: "string option"
  cop_instructor_name :: "string option"
  cop_instructor_bio :: "string option"
  cop_instructor_avatar :: "string option"
  cop_level :: "course_level option"
  cop_language :: "string option"
  cop_is_featured :: "bool option"
  cop_intro_video_url :: "string option"
  cop_is_active :: "bool option"

definition no_course_patch :: course_patch where
  "no_course_patch = \<lparr>cop_category = None, cop_title = None, cop_subtitle = None, cop_short_description = None, cop_description = None,
     cop_cover_image = None, cop_instructor_name = None, cop_instructor_bio = None, cop_instructor_avatar = None, cop_level = None,
     cop_language = None, cop_is_featured = None, cop_intro_video_url = None, cop_is_active = None\<rparr>"

definition apply_course_patch :: "course_patch \<Rightarrow> course \<Rightarrow> course" where
  "apply_course_patch p v =
     v\<lparr>co_category := set_opt (cop_category p) (co_category v), co_title := set_opt (cop_title p) (co_title v),
       co_subtitle := set_opt (cop_subtitle p) (co_subtitle v),
       co_short_description := set_opt (cop_short_description p) (co_short_description v),
       co_description := set_opt (cop_description p) (co_description v), co_cover_image := set_opt (cop_cover_image p) (co_cover_image v),
       co_instructor_name := set_opt (cop_instructor_name p) (co_instructor_name v),
       co_instructor_bio := set_opt (cop_instructor_bio p) (co_instructor_bio v),
       co_instructor_avatar := set_opt (cop_instructor_avatar p) (co_instructor_avatar v), co_level := set_opt (cop_level p) (co_level v),
       co_language := set_opt (cop_language p) (co_language v), co_is_featured := set_opt (cop_is_featured p) (co_is_featured v),
       co_intro_video_url := set_opt (cop_intro_video_url p) (co_intro_video_url v)\<rparr>"

definition update_course :: "int \<Rightarrow> nat \<Rightarrow> course_patch \<Rightarrow> (lms_db, course row) svc" where
  "update_course now k p =
     atomic (
     seqn (modify (\<lambda>s. s\<lparr>courses := update_row (p \<noteq> no_course_patch) k now (apply_course_patch p) (cop_is_active p) (courses s)\<rparr>))
     (follow courses k))"

definition schedule_document_render :: "lesson row \<Rightarrow> (lms_db, unit) svc" where
  "schedule_document_render r =
     (if le_content_type (vals r) \<noteq> LC_DOCUMENT \<or> le_document_file (vals r) = [] then ret ()
      else modify (\<lambda>s. s\<lparr>on_commit_renders := on_commit_renders s @ [row_pk r]\<rparr>))"

definition validate_course_publishable :: "nat \<Rightarrow> (lms_db, unit) svc" where
  "validate_course_publishable k =
     bnd (gets (\<lambda>s. list_all (\<lambda>r. has_required_content (vals r)) (active_lessons k (lessons s)))) (\<lambda>ok.
     check ok CourseInvalidStateError)"

text \<open>Without an order in the query, the lessons come in the default order of the model.\<close>

definition publish_course :: "int \<Rightarrow> nat \<Rightarrow> (lms_db, course row) svc" where
  "publish_course now k =
     atomic (
     bnd (follow courses k) (\<lambda>r.
     seqn (validate_course_publishable k)
     (seqn
        (if co_status (vals r) \<noteq> CS_PUBLISHED
         then
           seqn (save_course now k (\<lambda>v. v\<lparr>co_status := CS_PUBLISHED, co_published_at := Some now, co_archived_at := None\<rparr>))
           (bnd (gets (\<lambda>s. sort_key (\<lambda>q. (le_order (vals q), row_pk q))
               (filter (\<lambda>q. le_content_type (vals q) = LC_DOCUMENT) (active_lessons k (lessons s))))) (\<lambda>docs.
            seqn (for_each docs schedule_document_render) (ret ())))
         else ret ())
     (follow courses k))))"

definition archive_course :: "int \<Rightarrow> nat \<Rightarrow> (lms_db, course row) svc" where
  "archive_course now k =
     atomic (
     bnd (follow courses k) (\<lambda>r.
     seqn
       (if co_status (vals r) \<noteq> CS_ARCHIVED
        then save_course now k (\<lambda>v. v\<lparr>co_status := CS_ARCHIVED, co_archived_at := Some now\<rparr>)
        else ret ())
     (follow courses k)))"

definition delete_course :: "int \<Rightarrow> nat \<Rightarrow> (lms_db, unit) svc" where
  "delete_course now k = atomic (modify (\<lambda>s. s\<lparr>courses := tbl_set_active k now False (courses s)\<rparr>))"

section \<open>Lessons\<close>

definition fill_lesson_slug :: "lms_env \<Rightarrow> lesson \<Rightarrow> lesson" where
  "fill_lesson_slug E v =
     (if le_slug v \<noteq> [] then v
      else let cut = take 300 (le_slugify E (le_title v)) in v\<lparr>le_slug := (if cut = [] then ''lesson-'' @ nat_str (le_order v) else cut)\<rparr>)"

definition same_order :: "lesson \<Rightarrow> lesson row \<Rightarrow> bool" where
  "same_order v r = (le_course (vals r) = le_course v \<and> le_order (vals r) = le_order v)"

definition same_slug :: "lesson \<Rightarrow> lesson row \<Rightarrow> bool" where
  "same_slug v r = (le_course (vals r) = le_course v \<and> le_slug (vals r) = le_slug v)"

definition create_lesson :: "lms_env \<Rightarrow> int \<Rightarrow> nat \<Rightarrow> lesson \<Rightarrow> (lms_db, lesson row) svc" where
  "create_lesson E now course l =
     atomic (
     bnd (gets lessons) (\<lambda>t.
     let v = fill_lesson_slug E (l\<lparr>le_course := course\<rparr>) in
     seqn (check (\<not> list_ex (\<lambda>r. same_order v r \<or> same_slug v r) t) IntegrityError)
     (let r = new_row now v t in
      seqn (modify (\<lambda>s. s\<lparr>lessons := lessons s @ [r]\<rparr>))
      (seqn (sync_course_counters now course)
      (ret r)))))"

record lesson_patch =
  lep_title :: "string option"
  lep_description :: "string option"
  lep_order :: "nat option"
  lep_content_type :: "lesson_content_type option"
  lep_document_file :: "string option"
  lep_document_title :: "string option"
  lep_article_body :: "string option"
  lep_video_provider :: "video_provider option"
  lep_video_url :: "string option"
  lep_embed_url :: "string option"
  lep_video_file :: "string option"
  lep_duration_seconds :: "nat option"
  lep_transcript :: "string option"
  lep_summary :: "string option"
  lep_homework :: "string option"
  lep_attachment_file :: "string option"
  lep_attachment_title :: "string option"
  lep_is_preview :: "bool option"
  lep_is_active :: "bool option"
  lep_published_at :: "int option option"

definition no_lesson_patch :: lesson_patch where
  "no_lesson_patch = \<lparr>lep_title = None, lep_description = None, lep_order = None, lep_content_type = None, lep_document_file = None,
     lep_document_title = None, lep_article_body = None, lep_video_provider = None, lep_video_url = None, lep_embed_url = None,
     lep_video_file = None, lep_duration_seconds = None, lep_transcript = None, lep_summary = None, lep_homework = None,
     lep_attachment_file = None, lep_attachment_title = None, lep_is_preview = None, lep_is_active = None, lep_published_at = None\<rparr>"

definition apply_lesson_patch :: "lesson_patch \<Rightarrow> lesson \<Rightarrow> lesson" where
  "apply_lesson_patch p v =
     v\<lparr>le_title := set_opt (lep_title p) (le_title v), le_description := set_opt (lep_description p) (le_description v),
       le_order := set_opt (lep_order p) (le_order v), le_content_type := set_opt (lep_content_type p) (le_content_type v),
       le_document_file := set_opt (lep_document_file p) (le_document_file v),
       le_document_title := set_opt (lep_document_title p) (le_document_title v),
       le_article_body := set_opt (lep_article_body p) (le_article_body v),
       le_video_provider := set_opt (lep_video_provider p) (le_video_provider v), le_video_url := set_opt (lep_video_url p) (le_video_url v),
       le_embed_url := set_opt (lep_embed_url p) (le_embed_url v), le_video_file := set_opt (lep_video_file p) (le_video_file v),
       le_duration_seconds := set_opt (lep_duration_seconds p) (le_duration_seconds v),
       le_transcript := set_opt (lep_transcript p) (le_transcript v), le_summary := set_opt (lep_summary p) (le_summary v),
       le_homework := set_opt (lep_homework p) (le_homework v),
       le_attachment_file := set_opt (lep_attachment_file p) (le_attachment_file v),
       le_attachment_title := set_opt (lep_attachment_title p) (le_attachment_title v),
       le_is_preview := set_opt (lep_is_preview p) (le_is_preview v),
       le_published_at := set_opt (lep_published_at p) (le_published_at v)\<rparr>"

definition update_lesson :: "int \<Rightarrow> nat \<Rightarrow> lesson_patch \<Rightarrow> (lms_db, lesson row) svc" where
  "update_lesson now k p =
     atomic (
     bnd (follow lessons k) (\<lambda>r.
     if p = no_lesson_patch then ret r
     else
       bnd (gets lessons) (\<lambda>t.
       seqn (check (\<not> other_has (same_order (apply_lesson_patch p (vals r))) k t) IntegrityError)
       (seqn (modify (\<lambda>s. s\<lparr>lessons := update_row True k now (apply_lesson_patch p) (lep_is_active p) (lessons s)\<rparr>))
       (seqn (if lep_duration_seconds p \<noteq> None \<or> lep_is_active p \<noteq> None then sync_course_counters now (le_course (vals r)) else ret ())
       (bnd (follow lessons k) (\<lambda>r'.
        seqn (if lep_document_file p \<noteq> None \<or> lep_content_type p \<noteq> None then schedule_document_render r' else ret ())
        (ret r'))))))))"

definition delete_lesson :: "int \<Rightarrow> nat \<Rightarrow> (lms_db, unit) svc" where
  "delete_lesson now k =
     atomic (
     bnd (follow lessons k) (\<lambda>r.
     seqn (modify (\<lambda>s. s\<lparr>lessons := tbl_set_active k now False (lessons s)\<rparr>))
     (sync_course_counters now (le_course (vals r)))))"

section \<open>Video jobs\<close>

definition request_lesson_video_processing :: "int \<Rightarrow> nat \<Rightarrow> nat option \<Rightarrow> (lms_db, video_job row) svc" where
  "request_lesson_video_processing now k requested_by =
     atomic (
     bnd (follow lessons k) (\<lambda>l.
     seqn (check (le_video_file (vals l) \<noteq> []) VideoProcessingJobError)
     (bnd (gets video_jobs) (\<lambda>t.
      case first_newest (\<lambda>j. is_active j \<and> vj_lesson (vals j) = k \<and> vj_status (vals j) \<in> {VJ_QUEUED, VJ_PROCESSING}) t of
        Some j \<Rightarrow> ret j
      | None \<Rightarrow>
          (let j = new_row now \<lparr>vj_lesson = k, vj_requested_by = requested_by, vj_status = VJ_QUEUED, vj_provider = ''noop'',
                 vj_source_file_name = le_video_file (vals l), vj_output_video_url = [], vj_thumbnail_url = [], vj_duration_seconds = 0,
                 vj_metadata = [(''provider_mode'', JStr ''noop''), (''reason'', JStr ''processing infrastructure not configured'')],
                 vj_error_message = [], vj_started_at = None, vj_completed_at = None\<rparr> t
           in seqn (modify (\<lambda>s. s\<lparr>video_jobs := video_jobs s @ [j]\<rparr>)) (ret j))))))"

definition merge_json :: "json_obj \<Rightarrow> json_obj \<Rightarrow> json_obj" where
  "merge_json old new = filter (\<lambda>(k, _). k \<notin> fst ` set new) old @ new"

definition process_lesson_video_job :: "lms_env \<Rightarrow> int \<Rightarrow> nat \<Rightarrow> (lms_db, video_job row) svc" where
  "process_lesson_video_job E now k =
     atomic (
     bnd (fetch video_jobs k) (\<lambda>j.
     if vj_status (vals j) = VJ_COMPLETED then ret j
     else
       seqn (check (vj_status (vals j) \<in> {VJ_QUEUED, VJ_FAILED}) VideoProcessingJobError)
       (seqn (modify (\<lambda>s. s\<lparr>video_jobs := tbl_upd k now (\<lambda>v. v\<lparr>vj_status := VJ_PROCESSING, vj_started_at := Some now\<rparr>) (video_jobs s)\<rparr>))
       (bnd (follow lessons (vj_lesson (vals j))) (\<lambda>l.
        seqn (modify (\<lambda>s. s\<lparr>video_jobs := tbl_upd k now (\<lambda>v. v\<lparr>
            vj_output_video_url := (if le_video_file (vals l) \<noteq> [] then le_file_url E (le_video_file (vals l)) else []),
            vj_thumbnail_url := [], vj_duration_seconds := le_duration_seconds (vals l), vj_status := VJ_COMPLETED,
            vj_completed_at := Some now,
            vj_metadata := merge_json (vj_metadata v) [(''processed_by'', JStr ''noop_local_provider''),
              (''output_video_url_source'', JStr ''lesson.video_file.url'')],
            vj_error_message := []\<rparr>) (video_jobs s)\<rparr>))
        (follow video_jobs k))))))"

definition fail_lesson_video_job :: "int \<Rightarrow> nat \<Rightarrow> string \<Rightarrow> (lms_db, video_job row) svc" where
  "fail_lesson_video_job now k error_message =
     atomic (
     bnd (fetch video_jobs k) (\<lambda>_.
     seqn (modify (\<lambda>s. s\<lparr>video_jobs := tbl_upd k now (\<lambda>v. v\<lparr>vj_status := VJ_FAILED, vj_error_message := take 500 error_message\<rparr>) (video_jobs s)\<rparr>))
     (follow video_jobs k)))"

end
