(* ===== verification/Lms_Progress.thy ===== *)
theory Lms_Progress
  imports Lms_Catalog
begin

text \<open>
  Enrolment, activity statements, the order in which lessons open, access to lesson media, and the progress of a learner
  (\<^verbatim>\<open>src/apps/lms/services.py\<close>). Percentages are hundredths of a percent.
\<close>

section \<open>Enrolment\<close>

text \<open>The profile is read through the reverse relation of the user, which ignores the activity flag.\<close>

definition profile_of :: "lms_db \<Rightarrow> nat \<Rightarrow> profile row option" where
  "profile_of s u = find (\<lambda>p. pf_user (vals p) = u) (lms_profiles s)"

definition ensure_user_can_enroll :: "auth_user row \<Rightarrow> (lms_db, unit) svc" where
  "ensure_user_can_enroll user =
     bnd (gets (\<lambda>s. profile_of s (row_pk user))) (\<lambda>p.
     check (strip (u_first_name (vals user)) \<noteq> [] \<and> strip (u_last_name (vals user)) \<noteq> [] \<and>
            (case p of None \<Rightarrow> False | Some r \<Rightarrow> strip (pf_national_code (vals r)) \<noteq> []))
       LMSProfileIncompleteError)"

definition enrollment_of :: "nat \<Rightarrow> nat \<Rightarrow> enrollment row \<Rightarrow> bool" where
  "enrollment_of user course r = (er_user (vals r) = user \<and> er_course (vals r) = course)"

definition new_enrollment :: "int \<Rightarrow> nat \<Rightarrow> nat \<Rightarrow> nat \<Rightarrow> enrollment" where
  "new_enrollment now course user secs =
     \<lparr>er_course = course, er_user = user, er_status = EN_ACTIVE, er_enrolled_at = now, er_completed_at = None,
      er_last_accessed_lesson = None, er_progress_percent = 0, er_watched_seconds = 0, er_total_seconds_snapshot = secs\<rparr>"

text \<open>\<open>get_or_create\<close> looks among the active rows and the unique constraint counts all of them.\<close>

definition enroll_user_in_course :: "int \<Rightarrow> auth_user row \<Rightarrow> nat \<Rightarrow> (lms_db, enrollment row \<times> bool) svc" where
  "enroll_user_in_course now user k =
     atomic (
     seqn (ensure_user_can_enroll user)
     (bnd (follow courses k) (\<lambda>c.
      seqn (check (is_published c) CourseNotEnrollabeError)
      (bnd (gets enrollments) (\<lambda>t.
       case find (enrollment_of (row_pk user) k) (objects t) of
         Some r \<Rightarrow> ret (r, False)
       | None \<Rightarrow>
           seqn (check (\<not> list_ex (enrollment_of (row_pk user) k) t) IntegrityError)
           (let r = new_row now (new_enrollment now k (row_pk user) (co_estimated_duration_seconds (vals c))) t in
            seqn (modify (\<lambda>s. s\<lparr>enrollments := enrollments s @ [r]\<rparr>))
            (seqn (sync_course_counters now k)
            (ret (r, True)))))))))"

section \<open>Activity statements\<close>

definition verb_str :: "statement_verb \<Rightarrow> string" where
  "verb_str v = (case v of SV_INITIALIZED \<Rightarrow> ''initialized'' | SV_PROGRESSED \<Rightarrow> ''progressed'' | SV_COMPLETED \<Rightarrow> ''completed''
     | SV_PASSED \<Rightarrow> ''passed'' | SV_FAILED \<Rightarrow> ''failed'' | SV_CERTIFICATE_ISSUED \<Rightarrow> ''certificate_issued'')"

text \<open>What a statement is about, beside its actor and course.\<close>

record statement_refs =
  rf_lesson :: "lesson row option"
  rf_enrollment :: "nat option"
  rf_quiz_attempt :: "nat option"
  rf_certificate :: "nat option"

definition record_learning_activity_statement ::
  "int \<Rightarrow> auth_user row \<Rightarrow> course row \<Rightarrow> statement_verb \<Rightarrow> string \<Rightarrow> string \<Rightarrow> statement_refs \<Rightarrow> json_obj \<Rightarrow> json_obj \<Rightarrow>
   string option \<Rightarrow> (lms_db, activity_statement row) svc" where
  "record_learning_activity_statement now actor course verb object_type object_id refs result cntx key =
     bnd (gets statements) (\<lambda>t.
     case (if key = None \<or> key = Some [] then None else find (\<lambda>r. as_idempotency_key (vals r) = key) (objects t)) of
       Some r \<Rightarrow> ret r
     | None \<Rightarrow>
         seqn (check (key = None \<or> \<not> list_ex (\<lambda>r. as_idempotency_key (vals r) = key) t) IntegrityError)
         (let r = new_row now
            \<lparr>as_idempotency_key = key, as_actor = row_pk actor, as_course = row_pk course,
             as_lesson = map_option row_pk (rf_lesson refs), as_enrollment = rf_enrollment refs, as_quiz_attempt = rf_quiz_attempt refs,
             as_certificate = rf_certificate refs, as_verb = verb, as_object_type = object_type, as_object_id = object_id,
             as_actor_snapshot = [(''user_id'', JInt (int (row_pk actor))),
               (''email'', JStr (case u_email (vals actor) of None \<Rightarrow> [] | Some e \<Rightarrow> e)),
               (''full_name'', JStr (user_full_name (vals actor)))],
             as_object_snapshot = [(''course_id'', JInt (int (row_pk course))), (''course_title'', JStr (co_title (vals course))),
               (''lesson_id'', case rf_lesson refs of None \<Rightarrow> JNull | Some l \<Rightarrow> JInt (int (row_pk l))),
               (''lesson_title'', JStr (case rf_lesson refs of None \<Rightarrow> [] | Some l \<Rightarrow> le_title (vals l)))],
             as_result = result, as_context = cntx, as_occurred_at = now\<rparr> t
          in seqn (modify (\<lambda>s. s\<lparr>statements := statements s @ [r]\<rparr>)) (ret r)))"

text \<open>Saving an existing statement and deleting one are refused by the model.\<close>

definition save_statement :: "int \<Rightarrow> nat \<Rightarrow> activity_statement \<Rightarrow> (lms_db, unit) svc" where
  "save_statement now k v = raise PermissionError"

definition delete_statement :: "nat \<Rightarrow> (lms_db, unit) svc" where
  "delete_statement k = raise PermissionError"

section \<open>The order of the lessons\<close>

definition live_enrollment :: "nat \<Rightarrow> nat \<Rightarrow> enrollment row \<Rightarrow> bool" where
  "live_enrollment user course r = (enrollment_of user course r \<and> er_status (vals r) \<in> {EN_ACTIVE, EN_COMPLETED})"

definition find_enrollment :: "lms_db \<Rightarrow> nat \<Rightarrow> nat \<Rightarrow> enrollment row option" where
  "find_enrollment s user course = find (live_enrollment user course) (objects (enrollments s))"

definition previous_lessons :: "lms_db \<Rightarrow> lesson \<Rightarrow> lesson table" where
  "previous_lessons s l = filter (\<lambda>r. le_order (vals r) < le_order l) (active_lessons (le_course l) (lessons s))"

definition completed_ids :: "lms_db \<Rightarrow> nat \<Rightarrow> nat list" where
  "completed_ids s e = map (\<lambda>p. lp_lesson (vals p)) (filter (\<lambda>p. lp_enrollment (vals p) = e \<and> lp_is_completed (vals p)) (objects (lesson_progresses s)))"

definition ensure_lesson_sequence_open :: "auth_user row \<Rightarrow> lesson row \<Rightarrow> enrollment row option \<Rightarrow> (lms_db, unit) svc" where
  "ensure_lesson_sequence_open user l enr =
     (if le_is_preview (vals l) \<or> staff_user user then ret ()
      else
        bnd (case enr of Some e \<Rightarrow> ret (Some e) | None \<Rightarrow> gets (\<lambda>s. find_enrollment s (row_pk user) (le_course (vals l)))) (\<lambda>found.
        case found of
          None \<Rightarrow> ret ()
        | Some e \<Rightarrow>
            if er_status (vals e) = EN_COMPLETED then ret ()
            else
              bnd (gets (\<lambda>s. list_all (\<lambda>r. row_pk r \<in> set (completed_ids s (row_pk e))) (previous_lessons s (vals l)))) (\<lambda>ok.
              check ok LessonSequenceLockedError)))"

section \<open>Media\<close>

definition same_progress :: "nat \<Rightarrow> nat \<Rightarrow> lesson_progress row \<Rightarrow> bool" where
  "same_progress e l r = (lp_enrollment (vals r) = e \<and> lp_lesson (vals r) = l)"

definition new_progress :: "int \<Rightarrow> nat \<Rightarrow> lesson row \<Rightarrow> lesson_progress" where
  "new_progress now e l =
     \<lparr>lp_enrollment = e, lp_lesson = row_pk l, lp_watched_seconds = 0, lp_duration_seconds_snapshot = le_duration_seconds (vals l),
      lp_progress_percent = 0, lp_is_completed = False, lp_last_position_seconds = 0, lp_first_watched_at = Some now,
      lp_last_watched_at = None, lp_completed_at = None, lp_media_opened_at = None\<rparr>"

definition get_or_create_progress :: "int \<Rightarrow> nat \<Rightarrow> lesson row \<Rightarrow> (lms_db, lesson_progress row) svc" where
  "get_or_create_progress now e l =
     bnd (gets lesson_progresses) (\<lambda>t.
     case find (same_progress e (row_pk l)) (objects t) of
       Some r \<Rightarrow> ret r
     | None \<Rightarrow>
         seqn (check (\<not> list_ex (same_progress e (row_pk l)) t) IntegrityError)
         (let r = new_row now (new_progress now e l) t in
          seqn (modify (\<lambda>s. s\<lparr>lesson_progresses := lesson_progresses s @ [r]\<rparr>)) (ret r)))"

definition save_progress :: "int \<Rightarrow> nat \<Rightarrow> (lesson_progress \<Rightarrow> lesson_progress) \<Rightarrow> (lms_db, unit) svc" where
  "save_progress now k f = modify (\<lambda>s. s\<lparr>lesson_progresses := tbl_upd k now f (lesson_progresses s)\<rparr>)"

definition stamp_media_opened :: "int \<Rightarrow> enrollment row option \<Rightarrow> lesson row \<Rightarrow> (lms_db, unit) svc" where
  "stamp_media_opened now enr l =
     (case enr of
        None \<Rightarrow> ret ()
      | Some e \<Rightarrow>
          if \<not> supports_manual_completion (vals l) then ret ()
          else
            bnd (get_or_create_progress now (row_pk e) l) (\<lambda>p.
            if lp_media_opened_at (vals p) = None
            then save_progress now (row_pk p) (\<lambda>v. v\<lparr>lp_media_opened_at := Some now\<rparr>)
            else ret ()))"

definition MEDIA_STREAM_TOKEN_MAX_AGE_SECONDS :: nat where
  "MEDIA_STREAM_TOKEN_MAX_AGE_SECONDS = 12 * 60 * 60"

definition sign_lesson_media_token :: "lms_env \<Rightarrow> int \<Rightarrow> lesson row \<Rightarrow> auth_user row \<Rightarrow> string \<Rightarrow> string" where
  "sign_lesson_media_token E now l user media_kind = le_sign E now (row_pk l, media_kind, row_pk user)"

definition lesson_media_stream_api_path :: "lms_env \<Rightarrow> int \<Rightarrow> lesson row \<Rightarrow> auth_user row \<Rightarrow> string \<Rightarrow> string" where
  "lesson_media_stream_api_path E now l user media_kind =
     ''lms/lessons/'' @ nat_str (row_pk l) @ ''/media/'' @ media_kind @ ''/stream/?t='' @ sign_lesson_media_token E now l user media_kind"

definition lesson_document_page_entries ::
  "lms_env \<Rightarrow> int \<Rightarrow> lesson row \<Rightarrow> auth_user row \<Rightarrow> (nat \<times> nat \<times> nat \<times> string) list" where
  "lesson_document_page_entries E now l user =
     map (\<lambda>(n, w, h). (n, w, h, lesson_media_stream_api_path E now l user (''docpage'' @ nat_str n))) (le_pages E l)"

record media_access =
  ma_media_kind :: string
  ma_provider :: string
  ma_url :: string
  ma_expires_in_seconds :: "nat option"
  ma_lesson_id :: nat
  ma_course_id :: nat
  ma_title :: "string option"
  ma_body :: "string option"
  ma_pages :: "(nat \<times> nat \<times> nat \<times> string) list option"

definition media_payload :: "lesson row \<Rightarrow> string \<Rightarrow> string \<Rightarrow> string \<Rightarrow> nat option \<Rightarrow> media_access" where
  "media_payload l kind provider url expires =
     \<lparr>ma_media_kind = kind, ma_provider = provider, ma_url = url, ma_expires_in_seconds = expires, ma_lesson_id = row_pk l,
      ma_course_id = le_course (vals l), ma_title = None, ma_body = None, ma_pages = None\<rparr>"

text \<open>The gate of both media services: a live enrolment, or a preview lesson, and for the enrolled the order of the lessons.\<close>

definition media_gate :: "lesson row \<Rightarrow> auth_user row \<Rightarrow> (lms_db, enrollment row option) svc" where
  "media_gate l user =
     bnd (gets (\<lambda>s. find_enrollment s (row_pk user) (le_course (vals l)))) (\<lambda>enr.
     seqn (check (enr \<noteq> None \<or> le_is_preview (vals l)) LessonMediaAccessError)
     (seqn (case enr of None \<Rightarrow> ret () | Some e \<Rightarrow> ensure_lesson_sequence_open user l (Some e))
     (ret enr)))"

definition build_lesson_media_access :: "lms_env \<Rightarrow> int \<Rightarrow> nat \<Rightarrow> auth_user row \<Rightarrow> string \<Rightarrow> (lms_db, media_access) svc" where
  "build_lesson_media_access E now k user media_kind =
     bnd (follow lessons k) (\<lambda>l.
     bnd (media_gate l user) (\<lambda>enr.
     let v = vals l; stream = lesson_media_stream_api_path E now l user; age = Some MEDIA_STREAM_TOKEN_MAX_AGE_SECONDS in
     if media_kind = ''video'' \<and> le_video_file v \<noteq> [] then
       ret (media_payload l ''video'' ''uploaded_file'' (stream ''video'') age)
     else if media_kind = ''video'' \<and> le_video_url v \<noteq> [] then
       ret (media_payload l ''video'' ''direct_url'' (le_video_url v) None)
     else if media_kind = ''video'' \<and> le_embed_url v \<noteq> [] then
       ret (media_payload l ''video'' ''embed'' (le_embed_url v) None)
     else if media_kind = ''document'' \<and> le_content_type v = LC_DOCUMENT then
       seqn (check (le_document_file v \<noteq> []) LessonMediaUnavailableError)
       (seqn (stamp_media_opened now enr l)
       (ret ((media_payload l ''document'' ''uploaded_file'' (stream ''document'') age)
          \<lparr>ma_title := Some (if le_document_title v \<noteq> [] then le_document_title v else le_title v),
           ma_pages := Some (lesson_document_page_entries E now l user)\<rparr>)))
     else if media_kind = ''article'' \<and> le_content_type v = LC_ARTICLE then
       seqn (check (strip (le_article_body v) \<noteq> []) LessonMediaUnavailableError)
       (seqn (stamp_media_opened now enr l)
       (ret ((media_payload l ''article'' ''inline'' [] None)\<lparr>ma_title := Some (le_title v), ma_body := Some (le_article_body v)\<rparr>)))
     else if media_kind = ''attachment'' \<and> le_attachment_file v \<noteq> [] then
       ret ((media_payload l ''attachment'' ''uploaded_file'' (le_file_url E (le_attachment_file v)) (Some 600))
          \<lparr>ma_title := Some (le_attachment_title v)\<rparr>)
     else raise LessonMediaUnavailableError))"

text \<open>\<open>docpage\<close> followed by one to three digits.\<close>

definition page_match :: "string \<Rightarrow> nat option" where
  "page_match kind =
     (let d = drop 7 kind in
      if take 7 kind = ''docpage'' \<and> d \<noteq> [] \<and> length d \<le> 3 \<and> list_all (\<lambda>c. c \<in> set ''0123456789'') d then Some (str_nat d) else None)"

text \<open>A stream is a stored file and the name it is served under; a rendered page comes with its own.\<close>

definition resolve_lesson_media_stream_file :: "lms_env \<Rightarrow> lesson row \<Rightarrow> string \<Rightarrow> (lms_db, string \<times> string) svc" where
  "resolve_lesson_media_stream_file E l media_kind =
     (let v = vals l; doc = le_content_type v = LC_DOCUMENT \<and> le_document_file v \<noteq> []; name = ''lesson-'' @ nat_str (row_pk l) in
      if media_kind = ''document'' then
        seqn (check doc LessonMediaUnavailableError) (ret (le_document_file v, name @ ''-document''))
      else case page_match media_kind of
        Some n \<Rightarrow>
          seqn (check doc LessonMediaUnavailableError)
          (case le_open_page E l n of
             None \<Rightarrow> raise LessonMediaUnavailableError
           | Some f \<Rightarrow> ret (f, name @ ''-page-'' @ nat_str n))
      | None \<Rightarrow>
          if media_kind = ''video'' then
            seqn (check (le_video_file v \<noteq> []) LessonMediaUnavailableError) (ret (le_video_file v, name @ ''-video''))
          else raise LessonMediaUnavailableError)"

definition build_lesson_media_stream :: "lms_env \<Rightarrow> nat \<Rightarrow> auth_user row \<Rightarrow> string \<Rightarrow> (lms_db, string \<times> string) svc" where
  "build_lesson_media_stream E k user media_kind =
     bnd (follow lessons k) (\<lambda>l.
     bnd (media_gate l user) (\<lambda>_.
     resolve_lesson_media_stream_file E l media_kind))"

definition resolve_lesson_media_stream_token :: "lms_env \<Rightarrow> int \<Rightarrow> string \<Rightarrow> string \<Rightarrow> (lms_db, lesson row \<times> nat) svc" where
  "resolve_lesson_media_stream_token E now token media_kind =
     (case le_unsign E MEDIA_STREAM_TOKEN_MAX_AGE_SECONDS now token of
        None \<Rightarrow> raise LessonMediaAccessError
      | Some (l, kind, u) \<Rightarrow>
          seqn (check (kind = media_kind) LessonMediaAccessError)
          (bnd (gets (\<lambda>s. tbl_all l (lessons s))) (\<lambda>found.
           case found of
             None \<Rightarrow> raise LessonMediaUnavailableError
           | Some r \<Rightarrow> ret (r, u))))"

definition ensure_lesson_media_stream_membership :: "lesson row \<Rightarrow> nat option \<Rightarrow> (lms_db, unit) svc" where
  "ensure_lesson_media_stream_membership l user_id =
     (if le_is_preview (vals l) then ret ()
      else
        bnd (gets (\<lambda>s. case user_id of None \<Rightarrow> False | Some u \<Rightarrow> find_enrollment s u (le_course (vals l)) \<noteq> None)) (\<lambda>ok.
        check ok LessonMediaAccessError))"

section \<open>Progress\<close>

definition LESSON_COMPLETION_THRESHOLD_PERCENT :: nat where
  "LESSON_COMPLETION_THRESHOLD_PERCENT = 9000"

definition calculate_percent :: "nat \<Rightarrow> nat \<Rightarrow> nat" where
  "calculate_percent watched_seconds duration_seconds =
     (if duration_seconds = 0 then (if watched_seconds > 0 then 10000 else 0)
      else min (round_ratio (watched_seconds * 10000) duration_seconds) 10000)"

definition progress_of :: "lms_db \<Rightarrow> nat \<Rightarrow> lesson_progress table" where
  "progress_of s e = filter (\<lambda>p. lp_enrollment (vals p) = e) (objects (lesson_progresses s))"

text \<open>The percentage of a lesson in the average: the later row wins in the dictionary by lesson.\<close>

definition lesson_share :: "lesson_progress table \<Rightarrow> nat \<Rightarrow> nat" where
  "lesson_share ps l =
     (case find (\<lambda>p. lp_lesson (vals p) = l) (rev ps) of
        None \<Rightarrow> 0
      | Some p \<Rightarrow> if lp_is_completed (vals p) then 10000 else lp_progress_percent (vals p))"

definition enrollment_percent :: "lesson_progress table \<Rightarrow> lesson table \<Rightarrow> nat" where
  "enrollment_percent ps ls =
     (if ls = [] then 0 else round_ratio (sum_list (map (\<lambda>l. lesson_share ps (row_pk l)) ls)) (length ls))"

definition should_complete :: "lesson_progress table \<Rightarrow> lesson table \<Rightarrow> bool" where
  "should_complete ps ls = (length ls > 0 \<and> length (filter (\<lambda>p. lp_is_completed (vals p)) ps) \<ge> length ls)"

definition sync_vals :: "int \<Rightarrow> lesson_progress table \<Rightarrow> lesson table \<Rightarrow> enrollment \<Rightarrow> enrollment" where
  "sync_vals now ps ls v =
     (let done = should_complete ps ls \<and> er_status v = EN_ACTIVE in
      v\<lparr>er_watched_seconds := sum_list (map (\<lambda>p. lp_watched_seconds (vals p)) ps),
        er_total_seconds_snapshot := sum_list (map (\<lambda>l. le_duration_seconds (vals l)) ls),
        er_progress_percent := enrollment_percent ps ls,
        er_status := (if done then EN_COMPLETED else er_status v),
        er_completed_at := (if done then Some now else er_completed_at v)\<rparr>)"

definition sync_enrollment_progress :: "int \<Rightarrow> enrollment row \<Rightarrow> (lms_db, unit) svc" where
  "sync_enrollment_progress now e =
     bnd (gets (\<lambda>s. (progress_of s (row_pk e), active_lessons (er_course (vals e)) (lessons s)))) (\<lambda>(ps, ls).
     save_enrollment now (row_pk e) (sync_vals now ps ls))"

text \<open>What one progress report makes of the stored record.\<close>

record progress_report =
  pr_watched_seconds :: int
  pr_last_position_seconds :: "int option"
  pr_mark_completed :: bool
  pr_media_opened :: bool

definition cap_seconds :: "nat \<Rightarrow> int \<Rightarrow> nat" where
  "cap_seconds duration x = (let n = nat (max 0 x) in if duration \<noteq> 0 then min n duration else n)"

definition watched_after :: "lesson \<Rightarrow> progress_report \<Rightarrow> lesson_progress \<Rightarrow> nat" where
  "watched_after l q v =
     (let d = le_duration_seconds l; c = cap_seconds d (pr_watched_seconds q)
      in max (lp_watched_seconds v) (if pr_mark_completed q \<and> d \<noteq> 0 then max c d else c))"

definition percent_after :: "lesson \<Rightarrow> progress_report \<Rightarrow> lesson_progress \<Rightarrow> nat" where
  "percent_after l q v =
     (if supports_manual_completion l
      then (if pr_mark_completed q \<or> lp_is_completed v then 10000 else 0)
      else calculate_percent (watched_after l q v) (le_duration_seconds l))"

definition completes :: "lesson \<Rightarrow> progress_report \<Rightarrow> lesson_progress \<Rightarrow> bool" where
  "completes l q v =
     (if supports_manual_completion l then pr_mark_completed q
      else percent_after l q v \<ge> LESSON_COMPLETION_THRESHOLD_PERCENT)"

definition first_time :: "int option \<Rightarrow> int \<Rightarrow> int option" where
  "first_time p now = (case p of None \<Rightarrow> Some now | Some x \<Rightarrow> Some x)"

definition report_vals :: "int \<Rightarrow> lesson \<Rightarrow> progress_report \<Rightarrow> lesson_progress \<Rightarrow> lesson_progress" where
  "report_vals now l q v =
     v\<lparr>lp_watched_seconds := watched_after l q v,
       lp_duration_seconds_snapshot := le_duration_seconds l,
       lp_progress_percent := percent_after l q v,
       lp_is_completed := lp_is_completed v \<or> completes l q v,
       lp_last_position_seconds := (case pr_last_position_seconds q of
          None \<Rightarrow> watched_after l q v | Some p \<Rightarrow> cap_seconds (le_duration_seconds l) p),
       lp_first_watched_at := first_time (lp_first_watched_at v) now,
       lp_last_watched_at := Some now,
       lp_completed_at := (if completes l q v then first_time (lp_completed_at v) now else lp_completed_at v),
       lp_media_opened_at := (if pr_media_opened q then first_time (lp_media_opened_at v) now else lp_media_opened_at v)\<rparr>"

definition media_opened_before :: "lms_db \<Rightarrow> nat \<Rightarrow> nat \<Rightarrow> bool" where
  "media_opened_before s e l =
     list_ex (\<lambda>p. same_progress e l p \<and> lp_media_opened_at (vals p) \<noteq> None) (objects (lesson_progresses s))"

definition progress_statement ::
  "lms_env \<Rightarrow> int \<Rightarrow> enrollment row \<Rightarrow> lesson row \<Rightarrow> progress_report \<Rightarrow> lesson_progress row \<Rightarrow> (lms_db, activity_statement row) svc" where
  "progress_statement E now e l q p =
     bnd (follow lms_users (er_user (vals e))) (\<lambda>u.
     bnd (follow courses (er_course (vals e))) (\<lambda>c.
     record_learning_activity_statement now u c (if lp_is_completed (vals p) then SV_COMPLETED else SV_PROGRESSED) ''lesson'' (nat_str (row_pk l))
       \<lparr>rf_lesson = Some l, rf_enrollment = Some (row_pk e), rf_quiz_attempt = None, rf_certificate = None\<rparr>
       [(''watched_seconds'', JInt (int (lp_watched_seconds (vals p)))), (''progress_percent'', le_float E (lp_progress_percent (vals p))),
        (''is_completed'', JBool (lp_is_completed (vals p))), (''mark_completed'', JBool (pr_mark_completed q))]
       [(''source'', JStr ''lesson_progress_update''), (''content_type'', JStr (content_type_str (le_content_type (vals l)))),
        (''completion_mode'', JStr (if supports_manual_completion (vals l) then ''manual'' else ''media''))]
       (Some (''lesson-progress:'' @ nat_str (row_pk p) @ '':'' @ le_isoformat E now))))"

definition update_lesson_progress :: "lms_env \<Rightarrow> int \<Rightarrow> nat \<Rightarrow> nat \<Rightarrow> progress_report \<Rightarrow> (lms_db, lesson_progress row) svc" where
  "update_lesson_progress E now ek lk q =
     atomic (
     bnd (fetch enrollments ek) (\<lambda>e.
     bnd (follow lms_users (er_user (vals e))) (\<lambda>u.
     seqn (check (er_status (vals e) \<in> {EN_ACTIVE, EN_COMPLETED}) EnrollmentNotActiveError)
     (bnd (follow lessons lk) (\<lambda>l.
      seqn (check (le_course (vals l) = er_course (vals e)) LessonNotInEnrollmentCourseError)
      (seqn (ensure_lesson_sequence_open u l (Some e))
      (seqn (check (\<not> (pr_mark_completed q \<and> \<not> supports_manual_completion (vals l))) LessonCompletionModeError)
      (bnd (gets (\<lambda>s. media_opened_before s ek lk)) (\<lambda>opened.
       seqn (check (\<not> (pr_mark_completed q \<and> le_content_type (vals l) = LC_DOCUMENT) \<or> pr_media_opened q \<or> opened)
               LessonMediaEngagementRequiredError)
       (bnd (get_or_create_progress now ek l) (\<lambda>p0.
        let p = p0\<lparr>updated_at := now, vals := report_vals now (vals l) q (vals p0)\<rparr> in
        seqn (save_progress now (row_pk p0) (report_vals now (vals l) q))
        (seqn (save_enrollment now ek (\<lambda>v. v\<lparr>er_last_accessed_lesson := Some lk\<rparr>))
        (seqn (sync_enrollment_progress now e)
        (seqn (progress_statement E now e l q p)
        (ret p)))))))))))))))"

end
