(* ===== verification/Lms_Discussion.thy ===== *)
theory Lms_Discussion
  imports Lms_Progress
begin

text \<open>
  Questions and answers under a lesson (\<^verbatim>\<open>src/apps/lms/services.py\<close>): asking, answering and replying, accepting, editing, deleting with
  and without a tombstone, reporting and moderating. Deleting a row for good also deletes what refers to it by a cascading foreign key.
\<close>

section \<open>Rows\<close>

definition save_question :: "int \<Rightarrow> nat \<Rightarrow> (lesson_question \<Rightarrow> lesson_question) \<Rightarrow> (lms_db, unit) svc" where
  "save_question now k f = modify (\<lambda>s. s\<lparr>lesson_questions := tbl_upd k now f (lesson_questions s)\<rparr>)"

definition save_answer :: "int \<Rightarrow> nat \<Rightarrow> (lesson_answer \<Rightarrow> lesson_answer) \<Rightarrow> (lms_db, unit) svc" where
  "save_answer now k f = modify (\<lambda>s. s\<lparr>lesson_answers := tbl_upd k now f (lesson_answers s)\<rparr>)"

definition answers_of :: "nat \<Rightarrow> lesson_answer table \<Rightarrow> lesson_answer table" where
  "answers_of q t = filter (\<lambda>a. la_question (vals a) = q) (objects t)"

definition visible_answers :: "nat \<Rightarrow> lesson_answer table \<Rightarrow> lesson_answer table" where
  "visible_answers q t = filter (\<lambda>a. la_status (vals a) = DS_VISIBLE) (answers_of q t)"

definition clear_accepted :: "nat \<Rightarrow> lesson_answer table \<Rightarrow> lesson_answer table" where
  "clear_accepted q t =
     map (\<lambda>a. if is_active a \<and> la_question (vals a) = q then a\<lparr>vals := (vals a)\<lparr>la_is_accepted := False\<rparr>\<rparr> else a) t"

text \<open>The answers that go with a set of answers: replies, replies of replies, and so on.\<close>

fun reply_closure :: "nat \<Rightarrow> lesson_answer table \<Rightarrow> nat list \<Rightarrow> nat list" where
  "reply_closure 0 t ks = ks"
| "reply_closure (Suc n) t ks =
     reply_closure n t (ks @ map row_pk (filter (\<lambda>a. row_pk a \<notin> set ks \<and> (case la_parent (vals a) of None \<Rightarrow> False | Some p \<Rightarrow> p \<in> set ks)) t))"

definition remove_answers :: "nat list \<Rightarrow> lesson_answer table \<Rightarrow> lesson_answer table" where
  "remove_answers ks t =
     map (\<lambda>a. case la_reply_to (vals a) of
                None \<Rightarrow> a
              | Some r \<Rightarrow> if r \<in> set ks then a\<lparr>vals := (vals a)\<lparr>la_reply_to := None\<rparr>\<rparr> else a)
       (filter (\<lambda>a. row_pk a \<notin> set ks) t)"

definition cascade_answers :: "nat list \<Rightarrow> (lms_db, unit) svc" where
  "cascade_answers ks =
     modify (\<lambda>s. let all = reply_closure (length (lesson_answers s)) (lesson_answers s) ks in
       s\<lparr>lesson_answers := remove_answers all (lesson_answers s),
         discussion_reports := filter (\<lambda>r. case dr_answer (vals r) of None \<Rightarrow> True | Some a \<Rightarrow> a \<notin> set all) (discussion_reports s)\<rparr>)"

section \<open>Asking and answering\<close>

definition ensure_user_enrolled_for_lesson :: "auth_user row \<Rightarrow> lesson row \<Rightarrow> (lms_db, enrollment row) svc" where
  "ensure_user_enrolled_for_lesson user l =
     bnd (gets (\<lambda>s. find_enrollment s (row_pk user) (le_course (vals l)))) (\<lambda>enr.
     case enr of None \<Rightarrow> raise LMSDiscussionAccessError | Some e \<Rightarrow> ret e)"

definition create_lesson_question :: "int \<Rightarrow> nat \<Rightarrow> auth_user row \<Rightarrow> string \<Rightarrow> string \<Rightarrow> (lms_db, lesson_question row) svc" where
  "create_lesson_question now lk user title body =
     atomic (
     bnd (follow lessons lk) (\<lambda>l.
     bnd (ensure_user_enrolled_for_lesson user l) (\<lambda>e.
     seqn (ensure_lesson_sequence_open user l (Some e))
     (bnd (gets lesson_questions) (\<lambda>t.
      let q = new_row now \<lparr>lq_lesson = lk, lq_user = row_pk user, lq_title = strip title, lq_body = strip body, lq_status = DS_VISIBLE,
            lq_is_pinned = False, lq_is_answered = False, lq_answer_count = 0, lq_last_activity_at = now, lq_edited_at = None\<rparr> t
      in seqn (modify (\<lambda>s. s\<lparr>lesson_questions := lesson_questions s @ [q]\<rparr>)) (ret q))))))"

text \<open>The answer a reply goes to, which has to be visible and under the same question.\<close>

definition reply_target :: "nat \<Rightarrow> nat option \<Rightarrow> (lms_db, lesson_answer row option) svc" where
  "reply_target qk parent_id =
     (case parent_id of
        None \<Rightarrow> ret None
      | Some p \<Rightarrow>
          bnd (gets (\<lambda>s. find (\<lambda>a. row_pk a = p) (visible_answers qk (lesson_answers s)))) (\<lambda>found.
          case found of None \<Rightarrow> raise LMSDiscussionReplyError | Some a \<Rightarrow> ret (Some a)))"

definition thread_anchor :: "lesson_answer row option \<Rightarrow> nat option" where
  "thread_anchor target =
     (case target of
        None \<Rightarrow> None
      | Some a \<Rightarrow> (case la_parent (vals a) of None \<Rightarrow> Some (row_pk a) | Some p \<Rightarrow> Some p))"

definition create_lesson_answer ::
  "int \<Rightarrow> nat \<Rightarrow> auth_user row \<Rightarrow> string \<Rightarrow> bool \<Rightarrow> nat option \<Rightarrow> (lms_db, lesson_answer row) svc" where
  "create_lesson_answer now qk user body is_instructor parent_id =
     atomic (
     bnd (follow lesson_questions qk) (\<lambda>q.
     bnd (follow lessons (lq_lesson (vals q))) (\<lambda>l.
     bnd (ensure_user_enrolled_for_lesson user l) (\<lambda>e.
     seqn (ensure_lesson_sequence_open user l (Some e))
     (bnd (reply_target qk parent_id) (\<lambda>target.
      bnd (gets lesson_answers) (\<lambda>t.
      let a = new_row now \<lparr>la_question = qk, la_user = row_pk user, la_parent = thread_anchor target,
            la_reply_to = map_option row_pk target, la_body = strip body, la_edited_at = None, la_status = DS_VISIBLE,
            la_is_instructor_answer = is_instructor, la_is_accepted = False\<rparr> t
      in
      seqn (modify (\<lambda>s. s\<lparr>lesson_answers := lesson_answers s @ [a]\<rparr>))
      (bnd (gets (\<lambda>s. length (visible_answers qk (lesson_answers s)))) (\<lambda>n.
       seqn (save_question now qk (\<lambda>v. v\<lparr>lq_answer_count := n, lq_last_activity_at := now\<rparr>))
       (ret a))))))))))"

section \<open>Accepting\<close>

definition is_discussion_admin :: "auth_user row \<Rightarrow> bool" where
  "is_discussion_admin user = (staff_user user \<or> u_role (vals user) = ROLE_ADMIN)"

definition accept_lesson_answer :: "int \<Rightarrow> nat \<Rightarrow> nat \<Rightarrow> auth_user row \<Rightarrow> (lms_db, lesson_answer row) svc" where
  "accept_lesson_answer now qk ak user =
     atomic (
     bnd (follow lesson_questions qk) (\<lambda>q.
     bnd (follow lesson_answers ak) (\<lambda>a.
     seqn (check (la_question (vals a) = qk) LMSDiscussionModerationError)
     (seqn (check (lq_user (vals q) = row_pk user \<or> is_discussion_admin user) LMSDiscussionAccessError)
     (seqn (modify (\<lambda>s. s\<lparr>lesson_answers := clear_accepted qk (lesson_answers s)\<rparr>))
     (seqn (save_answer now ak (\<lambda>v. v\<lparr>la_is_accepted := True\<rparr>))
     (seqn (save_question now qk (\<lambda>v. v\<lparr>lq_is_answered := True\<rparr>))
     (follow lesson_answers ak))))))))"

section \<open>Editing and deleting\<close>

definition ensure_discussion_owner :: "nat \<Rightarrow> auth_user row \<Rightarrow> (lms_db, unit) svc" where
  "ensure_discussion_owner author user = check (author = row_pk user \<or> is_discussion_admin user) LMSDiscussionAccessError"

definition update_lesson_question :: "int \<Rightarrow> nat \<Rightarrow> auth_user row \<Rightarrow> string \<Rightarrow> string \<Rightarrow> (lms_db, lesson_question row) svc" where
  "update_lesson_question now qk user title body =
     atomic (
     bnd (follow lesson_questions qk) (\<lambda>q.
     seqn (ensure_discussion_owner (lq_user (vals q)) user)
     (seqn (check (lq_status (vals q) = DS_VISIBLE) LMSDiscussionModerationError)
     (seqn (save_question now qk (\<lambda>v. v\<lparr>lq_title := strip title, lq_body := strip body, lq_edited_at := Some now\<rparr>))
     (follow lesson_questions qk)))))"

datatype deletion = Hard | Tombstone

definition delete_lesson_question :: "int \<Rightarrow> nat \<Rightarrow> auth_user row \<Rightarrow> (lms_db, deletion) svc" where
  "delete_lesson_question now qk user =
     atomic (
     bnd (follow lesson_questions qk) (\<lambda>q.
     seqn (ensure_discussion_owner (lq_user (vals q)) user)
     (seqn (check (lq_status (vals q) \<noteq> DS_DELETED) LMSDiscussionModerationError)
     (bnd (gets (\<lambda>s. visible_answers qk (lesson_answers s) \<noteq> [])) (\<lambda>has_visible.
      if has_visible
      then seqn (save_question now qk (\<lambda>v. v\<lparr>lq_status := DS_DELETED\<rparr>)) (ret Tombstone)
      else
        bnd (gets (\<lambda>s. map row_pk (filter (\<lambda>a. la_question (vals a) = qk) (lesson_answers s)))) (\<lambda>ks.
        seqn (cascade_answers ks)
        (seqn (modify (\<lambda>s. s\<lparr>lesson_questions := filter (\<lambda>r. row_pk r \<noteq> qk) (lesson_questions s),
            discussion_reports := filter (\<lambda>r. dr_question (vals r) \<noteq> Some qk) (discussion_reports s)\<rparr>))
        (ret Hard))))))))"

definition update_lesson_answer :: "int \<Rightarrow> nat \<Rightarrow> auth_user row \<Rightarrow> string \<Rightarrow> (lms_db, lesson_answer row) svc" where
  "update_lesson_answer now ak user body =
     atomic (
     bnd (follow lesson_answers ak) (\<lambda>a.
     seqn (ensure_discussion_owner (la_user (vals a)) user)
     (seqn (check (la_status (vals a) = DS_VISIBLE) LMSDiscussionModerationError)
     (seqn (save_answer now ak (\<lambda>v. v\<lparr>la_body := strip body, la_edited_at := Some now\<rparr>))
     (follow lesson_answers ak)))))"

definition has_visible_children :: "nat \<Rightarrow> lesson_answer table \<Rightarrow> bool" where
  "has_visible_children ak t =
     list_ex (\<lambda>a. la_status (vals a) = DS_VISIBLE \<and> (la_parent (vals a) = Some ak \<or> la_reply_to (vals a) = Some ak)) (objects t)"

definition delete_lesson_answer :: "int \<Rightarrow> nat \<Rightarrow> auth_user row \<Rightarrow> (lms_db, deletion) svc" where
  "delete_lesson_answer now ak user =
     atomic (
     bnd (follow lesson_answers ak) (\<lambda>a.
     seqn (ensure_discussion_owner (la_user (vals a)) user)
     (seqn (check (la_status (vals a) \<noteq> DS_DELETED) LMSDiscussionModerationError)
     (bnd (gets (\<lambda>s. has_visible_children ak (lesson_answers s))) (\<lambda>has_visible.
      if has_visible
      then seqn (save_answer now ak (\<lambda>v. v\<lparr>la_status := DS_DELETED\<rparr>)) (ret Tombstone)
      else
        seqn (cascade_answers [ak])
        (bnd (gets (\<lambda>s. length (visible_answers (la_question (vals a)) (lesson_answers s)))) (\<lambda>n.
         seqn (save_question now (la_question (vals a)) (\<lambda>v. v\<lparr>lq_answer_count := n\<rparr>))
         (ret Hard))))))))"

section \<open>Reports and moderation\<close>

definition add_report :: "int \<Rightarrow> nat option \<Rightarrow> nat option \<Rightarrow> auth_user row \<Rightarrow> string \<Rightarrow> string \<Rightarrow> (lms_db, discussion_report row) svc" where
  "add_report now q a reporter reason description =
     bnd (gets discussion_reports) (\<lambda>t.
     let r = new_row now \<lparr>dr_question = q, dr_answer = a, dr_reported_by = row_pk reporter, dr_reason = strip reason,
           dr_description = strip description, dr_status = DR_PENDING, dr_reviewed_by = None, dr_reviewed_at = None\<rparr> t
     in seqn (modify (\<lambda>s. s\<lparr>discussion_reports := discussion_reports s @ [r]\<rparr>)) (ret r))"

definition report_lesson_question ::
  "int \<Rightarrow> nat \<Rightarrow> auth_user row \<Rightarrow> string \<Rightarrow> string \<Rightarrow> (lms_db, discussion_report row) svc" where
  "report_lesson_question now qk reporter reason description =
     atomic (
     bnd (follow lesson_questions qk) (\<lambda>q.
     seqn (check (lq_user (vals q) \<noteq> row_pk reporter) LMSDiscussionModerationError)
     (bnd (follow lessons (lq_lesson (vals q))) (\<lambda>l.
      seqn (ensure_user_enrolled_for_lesson reporter l)
      (add_report now (Some qk) None reporter reason description)))))"

definition report_lesson_answer ::
  "int \<Rightarrow> nat \<Rightarrow> auth_user row \<Rightarrow> string \<Rightarrow> string \<Rightarrow> (lms_db, discussion_report row) svc" where
  "report_lesson_answer now ak reporter reason description =
     atomic (
     bnd (follow lesson_answers ak) (\<lambda>a.
     seqn (check (la_user (vals a) \<noteq> row_pk reporter) LMSDiscussionModerationError)
     (bnd (follow lesson_questions (la_question (vals a))) (\<lambda>q.
      bnd (follow lessons (lq_lesson (vals q))) (\<lambda>l.
      seqn (ensure_user_enrolled_for_lesson reporter l)
      (add_report now None (Some ak) reporter reason description))))))"

text \<open>A status outside the choices is refused; the choices are the constructors, so it is an absent value here.\<close>

definition moderate_lesson_question ::
  "int \<Rightarrow> nat \<Rightarrow> discussion_status option \<Rightarrow> bool option \<Rightarrow> (lms_db, lesson_question row) svc" where
  "moderate_lesson_question now qk status is_pinned =
     atomic (
     bnd (follow lesson_questions qk) (\<lambda>q.
     case status of
       None \<Rightarrow> raise LMSDiscussionModerationError
     | Some st \<Rightarrow>
         seqn (save_question now qk (\<lambda>v. v\<lparr>lq_status := st, lq_is_pinned := set_opt is_pinned (lq_is_pinned v)\<rparr>))
         (follow lesson_questions qk)))"

definition moderate_lesson_answer ::
  "int \<Rightarrow> nat \<Rightarrow> discussion_status option \<Rightarrow> bool option \<Rightarrow> (lms_db, lesson_answer row) svc" where
  "moderate_lesson_answer now ak status accepted =
     atomic (
     bnd (follow lesson_answers ak) (\<lambda>a.
     case status of
       None \<Rightarrow> raise LMSDiscussionModerationError
     | Some st \<Rightarrow>
         seqn
           (if accepted = Some True
            then
              seqn (modify (\<lambda>s. s\<lparr>lesson_answers := clear_accepted (la_question (vals a)) (lesson_answers s)\<rparr>))
              (save_question now (la_question (vals a)) (\<lambda>v. v\<lparr>lq_is_answered := True\<rparr>))
            else ret ())
         (seqn (save_answer now ak (\<lambda>v. v\<lparr>la_status := st, la_is_accepted := set_opt accepted (la_is_accepted (vals a))\<rparr>))
         (follow lesson_answers ak))))"

definition review_discussion_report ::
  "int \<Rightarrow> nat \<Rightarrow> nat \<Rightarrow> discussion_report_status option \<Rightarrow> (lms_db, discussion_report row) svc" where
  "review_discussion_report now rk reviewer status =
     atomic (
     bnd (follow discussion_reports rk) (\<lambda>_.
     case status of
       None \<Rightarrow> raise LMSDiscussionModerationError
     | Some st \<Rightarrow>
         seqn (modify (\<lambda>s. s\<lparr>discussion_reports := tbl_upd rk now
             (\<lambda>v. v\<lparr>dr_status := st, dr_reviewed_by := Some reviewer, dr_reviewed_at := Some now\<rparr>) (discussion_reports s)\<rparr>))
         (follow discussion_reports rk)))"

end
