(* ===== verification/Lms_Quiz.thy ===== *)
theory Lms_Quiz
  imports Lms_Progress
begin

text \<open>
  The quiz of a course, its attempts, their scoring, and certificates with the skills they grant
  (\<^verbatim>\<open>src/apps/lms/services.py\<close>). Weights and scores are hundredths: a full score of twenty is 2000.
\<close>

section \<open>Setting up a quiz\<close>

record quiz_patch =
  qzp_title :: "string option"
  qzp_description :: "string option"
  qzp_time_limit_minutes :: "nat option"
  qzp_passing_score :: "int option"
  qzp_max_attempts :: "nat option"
  qzp_retake_delay_days :: "nat option"
  qzp_shuffle_questions :: "bool option"
  qzp_shuffle_options :: "bool option"
  qzp_show_result_immediately :: "bool option"
  qzp_show_correct_answers_after_pass :: "bool option"
  qzp_is_required_for_certificate :: "bool option"

definition no_quiz_patch :: quiz_patch where
  "no_quiz_patch = \<lparr>qzp_title = None, qzp_description = None, qzp_time_limit_minutes = None, qzp_passing_score = None,
     qzp_max_attempts = None, qzp_retake_delay_days = None, qzp_shuffle_questions = None, qzp_shuffle_options = None,
     qzp_show_result_immediately = None, qzp_show_correct_answers_after_pass = None, qzp_is_required_for_certificate = None\<rparr>"

definition apply_quiz_patch :: "quiz_patch \<Rightarrow> quiz \<Rightarrow> quiz" where
  "apply_quiz_patch p v =
     v\<lparr>qz_title := set_opt (qzp_title p) (qz_title v), qz_description := set_opt (qzp_description p) (qz_description v),
       qz_time_limit_minutes := set_opt (qzp_time_limit_minutes p) (qz_time_limit_minutes v),
       qz_passing_score := set_opt (qzp_passing_score p) (qz_passing_score v),
       qz_max_attempts := set_opt (qzp_max_attempts p) (qz_max_attempts v),
       qz_retake_delay_days := set_opt (qzp_retake_delay_days p) (qz_retake_delay_days v),
       qz_shuffle_questions := set_opt (qzp_shuffle_questions p) (qz_shuffle_questions v),
       qz_shuffle_options := set_opt (qzp_shuffle_options p) (qz_shuffle_options v),
       qz_show_result_immediately := set_opt (qzp_show_result_immediately p) (qz_show_result_immediately v),
       qz_show_correct_answers_after_pass := set_opt (qzp_show_correct_answers_after_pass p) (qz_show_correct_answers_after_pass v),
       qz_is_required_for_certificate := set_opt (qzp_is_required_for_certificate p) (qz_is_required_for_certificate v)\<rparr>"

definition new_quiz :: "nat \<Rightarrow> string \<Rightarrow> quiz" where
  "new_quiz course title =
     \<lparr>qz_course = course, qz_title = title, qz_description = [], qz_status = QS_DRAFT, qz_time_limit_minutes = 30, qz_passing_score = 1200,
      qz_max_attempts = 2, qz_retake_delay_days = 14, qz_shuffle_questions = True, qz_shuffle_options = True,
      qz_show_result_immediately = True, qz_show_correct_answers_after_pass = True, qz_is_required_for_certificate = True,
      qz_published_at = None\<rparr>"

text \<open>
  The arguments of \<open>get_or_create\<close> take the title out of the given fields, so the update of an existing quiz does not see it.
\<close>

definition create_or_update_quiz :: "int \<Rightarrow> nat \<Rightarrow> quiz_patch \<Rightarrow> (lms_db, quiz row \<times> bool) svc" where
  "create_or_update_quiz now ck p =
     atomic (
     bnd (follow courses ck) (\<lambda>c.
     bnd (gets quizzes) (\<lambda>t.
     case find (\<lambda>r. qz_course (vals r) = ck) (objects t) of
       Some r \<Rightarrow>
         (let rest = p\<lparr>qzp_title := None\<rparr> in
          seqn (modify (\<lambda>s. s\<lparr>quizzes := update_row (rest \<noteq> no_quiz_patch) (row_pk r) now (apply_quiz_patch rest) None (quizzes s)\<rparr>))
          (bnd (follow quizzes (row_pk r)) (\<lambda>r'. ret (r', False))))
     | None \<Rightarrow>
         seqn (check (\<not> list_ex (\<lambda>r. qz_course (vals r) = ck) t) IntegrityError)
         (let r = new_row now (apply_quiz_patch p (new_quiz ck (''quiz_of '' @ co_title (vals c)))) t in
          seqn (modify (\<lambda>s. s\<lparr>quizzes := quizzes s @ [r]\<rparr>)) (ret (r, True))))))"

definition create_quiz_question :: "int \<Rightarrow> nat \<Rightarrow> string \<Rightarrow> string \<Rightarrow> nat \<Rightarrow> nat \<Rightarrow> (lms_db, quiz_question row) svc" where
  "create_quiz_question now qk body explanation order weight =
     atomic (
     bnd (gets quiz_questions) (\<lambda>t.
     seqn (check (\<not> list_ex (\<lambda>r. qq_quiz (vals r) = qk \<and> qq_order (vals r) = order) t) IntegrityError)
     (let r = new_row now \<lparr>qq_quiz = qk, qq_text = body, qq_explanation = explanation, qq_order = order, qq_weight = weight\<rparr> t
      in seqn (modify (\<lambda>s. s\<lparr>quiz_questions := quiz_questions s @ [r]\<rparr>)) (ret r))))"

definition create_quiz_option :: "int \<Rightarrow> nat \<Rightarrow> string \<Rightarrow> bool \<Rightarrow> nat \<Rightarrow> (lms_db, quiz_option row) svc" where
  "create_quiz_option now qk body correct order =
     atomic (
     bnd (gets quiz_options) (\<lambda>t.
     seqn (check (\<not> list_ex (\<lambda>r. qo_question (vals r) = qk \<and> qo_order (vals r) = order) t) IntegrityError)
     (let r = new_row now \<lparr>qo_question = qk, qo_text = body, qo_is_correct = correct, qo_order = order\<rparr> t
      in seqn (modify (\<lambda>s. s\<lparr>quiz_options := quiz_options s @ [r]\<rparr>)) (ret r))))"

definition questions_of :: "lms_db \<Rightarrow> nat \<Rightarrow> quiz_question table" where
  "questions_of s qk = filter (\<lambda>r. qq_quiz (vals r) = qk) (objects (quiz_questions s))"

definition options_of :: "lms_db \<Rightarrow> nat \<Rightarrow> quiz_option table" where
  "options_of s k = filter (\<lambda>r. qo_question (vals r) = k) (objects (quiz_options s))"

definition publishable :: "lms_db \<Rightarrow> nat \<Rightarrow> bool" where
  "publishable s qk =
     (questions_of s qk \<noteq> [] \<and>
      list_all (\<lambda>q. 2 \<le> length (options_of s (row_pk q)) \<and> length (filter (\<lambda>r. qo_is_correct (vals r)) (options_of s (row_pk q))) = 1)
        (questions_of s qk))"

definition validate_quiz_publishable :: "nat \<Rightarrow> (lms_db, unit) svc" where
  "validate_quiz_publishable qk = bnd (gets (\<lambda>s. publishable s qk)) (\<lambda>ok. check ok QuizValidationError)"

definition publish_quiz :: "int \<Rightarrow> nat \<Rightarrow> (lms_db, quiz row) svc" where
  "publish_quiz now qk =
     atomic (
     bnd (follow quizzes qk) (\<lambda>_.
     seqn (validate_quiz_publishable qk)
     (seqn (modify (\<lambda>s. s\<lparr>quizzes := tbl_upd qk now (\<lambda>v. v\<lparr>qz_status := QS_PUBLISHED, qz_published_at := Some now\<rparr>) (quizzes s)\<rparr>))
     (follow quizzes qk))))"

definition unlock_quiz_for_user :: "int \<Rightarrow> nat \<Rightarrow> nat \<Rightarrow> nat \<Rightarrow> string \<Rightarrow> nat \<Rightarrow> int option \<Rightarrow> (lms_db, quiz_unlock row) svc" where
  "unlock_quiz_for_user now qk user unlocked_by reason extra_attempts valid_until =
     atomic (
     bnd (follow quizzes qk) (\<lambda>q.
     bnd (gets quiz_unlocks) (\<lambda>t.
     let r = new_row now \<lparr>qu_quiz = qk, qu_course = qz_course (vals q), qu_user = user, qu_unlocked_by = unlocked_by, qu_reason = reason,
           qu_extra_attempts = extra_attempts, qu_valid_until = valid_until\<rparr> t
     in seqn (modify (\<lambda>s. s\<lparr>quiz_unlocks := quiz_unlocks s @ [r]\<rparr>)) (ret r))))"

section \<open>Starting an attempt\<close>

definition valid_unlocks_count :: "lms_db \<Rightarrow> int \<Rightarrow> nat \<Rightarrow> nat \<Rightarrow> nat" where
  "valid_unlocks_count s now qk user =
     sum_list (map (\<lambda>r. qu_extra_attempts (vals r))
       (filter (\<lambda>r. qu_quiz (vals r) = qk \<and> qu_user (vals r) = user \<and> (case qu_valid_until (vals r) of None \<Rightarrow> True | Some t \<Rightarrow> now \<le> t))
         (objects (quiz_unlocks s))))"

definition attempts_of :: "lms_db \<Rightarrow> nat \<Rightarrow> nat \<Rightarrow> quiz_attempt table" where
  "attempts_of s qk user = filter (\<lambda>r. at_quiz (vals r) = qk \<and> at_user (vals r) = user) (objects (quiz_attempts s))"

text \<open>\<open>first()\<close> of a descending order; on a tie the later row.\<close>

fun greatest :: "('a \<Rightarrow> 'k :: linorder) \<Rightarrow> 'a list \<Rightarrow> 'a option" where
  "greatest f [] = None"
| "greatest f (x # xs) = (case greatest f xs of None \<Rightarrow> Some x | Some y \<Rightarrow> if f y < f x then Some x else Some y)"

definition next_attempt_number :: "lms_db \<Rightarrow> nat \<Rightarrow> nat \<Rightarrow> nat" where
  "next_attempt_number s qk user =
     (case greatest (\<lambda>r. at_attempt_number (vals r)) (attempts_of s qk user) of None \<Rightarrow> 1 | Some r \<Rightarrow> at_attempt_number (vals r) + 1)"

definition build_attempt_snapshots :: "lms_env \<Rightarrow> lms_db \<Rightarrow> quiz row \<Rightarrow> nat list \<times> (nat \<times> nat list) list" where
  "build_attempt_snapshots E s q =
     (let ids = map row_pk (sort_key (\<lambda>r. (qq_order (vals r), row_pk r)) (questions_of s (row_pk q)));
          shown = (if qz_shuffle_questions (vals q) then le_shuffle E 0 ids else ids);
          opts = (\<lambda>k. let os = map row_pk (sort_key (\<lambda>r. (qo_order (vals r), row_pk r)) (options_of s k))
                      in if qz_shuffle_options (vals q) then le_shuffle E k os else os)
      in (shown, map (\<lambda>k. (k, opts k)) shown))"

definition quiz_lessons_remaining :: "lms_db \<Rightarrow> nat \<Rightarrow> enrollment row option \<Rightarrow> nat" where
  "quiz_lessons_remaining s course enr =
     (case enr of
        None \<Rightarrow> 0
      | Some e \<Rightarrow>
          if er_status (vals e) = EN_COMPLETED then 0
          else length (filter (\<lambda>l. row_pk l \<notin> set (completed_ids s (row_pk e))) (active_lessons course (lessons s))))"

definition in_progress :: "quiz_attempt row \<Rightarrow> bool" where
  "in_progress r = (at_status (vals r) = QA_IN_PROGRESS)"

definition expired :: "int \<Rightarrow> quiz_attempt row \<Rightarrow> bool" where
  "expired now r = (case at_expires_at (vals r) of None \<Rightarrow> False | Some t \<Rightarrow> t \<le> now)"

text \<open>Descending by submission time: rows without one come first.\<close>

definition submitted_key :: "quiz_attempt row \<Rightarrow> nat \<times> int" where
  "submitted_key r = (case at_submitted_at (vals r) of None \<Rightarrow> (1, 0) | Some t \<Rightarrow> (0, t))"

definition last_failed :: "lms_db \<Rightarrow> nat \<Rightarrow> nat \<Rightarrow> quiz_attempt row option" where
  "last_failed s qk user = greatest submitted_key (filter (\<lambda>r. at_status (vals r) = QA_FAILED) (attempts_of s qk user))"

definition retry_time :: "quiz \<Rightarrow> int \<Rightarrow> int" where
  "retry_time q t = t + 86400 * int (qz_retake_delay_days q)"

datatype lock_reason = LR_passed | LR_lessons_remaining | LR_out_of_attempts | LR_cooldown

record attempt_state =
  st_enrolled :: bool
  st_has_in_progress :: bool
  st_attempts_used :: nat
  st_attempts_left :: nat
  st_allowed_attempts :: nat
  st_passed_before :: bool
  st_retry_at :: "int option"
  st_locked_reason :: "lock_reason option"
  st_lessons_remaining :: nat
  st_can_attempt :: bool

definition live_attempt :: "lms_db \<Rightarrow> int \<Rightarrow> nat \<Rightarrow> nat \<Rightarrow> quiz_attempt row option" where
  "live_attempt s now qk user =
     greatest (\<lambda>r. at_started_at (vals r)) (filter (\<lambda>r. in_progress r \<and> \<not> expired now r) (attempts_of s qk user))"

definition cooldown_until :: "lms_db \<Rightarrow> int \<Rightarrow> quiz row \<Rightarrow> nat \<Rightarrow> int option" where
  "cooldown_until s now q user =
     (case last_failed s (row_pk q) user of
        None \<Rightarrow> None
      | Some f \<Rightarrow>
          (case at_submitted_at (vals f) of
             None \<Rightarrow> None
           | Some t \<Rightarrow>
               if next_attempt_number s (row_pk q) user \<le> qz_max_attempts (vals q) \<and> valid_unlocks_count s now (row_pk q) user = 0 \<and>
                  now < retry_time (vals q) t
               then Some (retry_time (vals q) t) else None))"

definition attempt_state_of :: "lms_db \<Rightarrow> int \<Rightarrow> quiz row \<Rightarrow> nat \<Rightarrow> attempt_state" where
  "attempt_state_of s now q user =
     (let qk = row_pk q;
          enr = find_enrollment s user (qz_course (vals q));
          n = next_attempt_number s qk user;
          allowed = qz_max_attempts (vals q) + valid_unlocks_count s now qk user;
          used = n - 1;
          left = allowed - used;
          passed = list_ex (\<lambda>r. at_is_passed (vals r)) (attempts_of s qk user);
          live = live_attempt s now qk user;
          remaining = quiz_lessons_remaining s (qz_course (vals q)) enr;
          retry = (if passed \<or> (live = None \<and> remaining \<noteq> 0) \<or> allowed < n then None else cooldown_until s now q user);
          locked = (if passed then Some LR_passed
                    else if live = None \<and> remaining \<noteq> 0 then Some LR_lessons_remaining
                    else if allowed < n then Some LR_out_of_attempts
                    else if retry \<noteq> None then Some LR_cooldown
                    else None)
      in \<lparr>st_enrolled = (enr \<noteq> None), st_has_in_progress = (live \<noteq> None), st_attempts_used = used, st_attempts_left = left,
          st_allowed_attempts = allowed, st_passed_before = passed, st_retry_at = retry, st_locked_reason = locked,
          st_lessons_remaining = remaining,
          st_can_attempt = (enr \<noteq> None \<and> locked = None \<and> (live \<noteq> None \<or> 1 \<le> left))\<rparr>)"

definition get_quiz_attempt_state :: "int \<Rightarrow> nat \<Rightarrow> auth_user row \<Rightarrow> (lms_db, attempt_state) svc" where
  "get_quiz_attempt_state now qk user =
     atomic (bnd (follow quizzes qk) (\<lambda>q. gets (\<lambda>s. attempt_state_of s now q (row_pk user))))"

definition save_attempt :: "int \<Rightarrow> nat \<Rightarrow> (quiz_attempt \<Rightarrow> quiz_attempt) \<Rightarrow> (lms_db, unit) svc" where
  "save_attempt now k f = modify (\<lambda>s. s\<lparr>quiz_attempts := tbl_upd k now f (quiz_attempts s)\<rparr>)"

text \<open>The cooldown of \<open>start_quiz_attempt\<close>: the time of submission is read before the unlocks are looked at.\<close>

definition check_cooldown :: "int \<Rightarrow> quiz row \<Rightarrow> nat \<Rightarrow> (lms_db, unit) svc" where
  "check_cooldown now q user =
     bnd (gets (\<lambda>s. (last_failed s (row_pk q) user, next_attempt_number s (row_pk q) user, valid_unlocks_count s now (row_pk q) user)))
     (\<lambda>(failed, n, unlocks).
      case failed of
        None \<Rightarrow> ret ()
      | Some f \<Rightarrow>
          if n \<le> qz_max_attempts (vals q)
          then (case at_submitted_at (vals f) of
                  None \<Rightarrow> raise TypeError
                | Some t \<Rightarrow> check (\<not> (unlocks = 0 \<and> now < retry_time (vals q) t)) QuizAttemptLockedError)
          else ret ())"

definition insert_attempt :: "lms_env \<Rightarrow> int \<Rightarrow> quiz row \<Rightarrow> enrollment row \<Rightarrow> auth_user row \<Rightarrow> nat \<Rightarrow> (lms_db, quiz_attempt row) svc" where
  "insert_attempt E now q e user n =
     bnd (gets (\<lambda>s. (build_attempt_snapshots E s q, quiz_attempts s))) (\<lambda>((shown, opts), t).
     seqn (check (\<not> list_ex (\<lambda>r. at_quiz (vals r) = row_pk q \<and> at_user (vals r) = row_pk user \<and> at_attempt_number (vals r) = n) t) IntegrityError)
     (let r = new_row now \<lparr>at_quiz = row_pk q, at_course = qz_course (vals q), at_user = row_pk user, at_enrollment = row_pk e,
            at_attempt_number = n, at_status = QA_IN_PROGRESS, at_started_at = now, at_submitted_at = None,
            at_expires_at = Some (now + 60 * int (qz_time_limit_minutes (vals q))), at_score_raw = 0, at_score_percent = 0,
            at_score_out_of_20 = 0, at_is_passed = False, at_question_snapshot = shown, at_option_order_snapshot = opts\<rparr> t
      in seqn (modify (\<lambda>s. s\<lparr>quiz_attempts := quiz_attempts s @ [r]\<rparr>)) (ret r)))"

definition start_fresh_attempt :: "lms_env \<Rightarrow> int \<Rightarrow> quiz row \<Rightarrow> enrollment row \<Rightarrow> auth_user row \<Rightarrow> (lms_db, quiz_attempt row \<times> bool) svc" where
  "start_fresh_attempt E now q e user =
     bnd (gets (\<lambda>s. list_ex (\<lambda>r. at_is_passed (vals r) \<and> \<not> in_progress r) (attempts_of s (row_pk q) (row_pk user)))) (\<lambda>passed.
     seqn (check (\<not> passed) QuizAttemptLockedError)
     (bnd (gets (\<lambda>s. quiz_lessons_remaining s (qz_course (vals q)) (Some e))) (\<lambda>remaining.
      seqn (check (remaining = 0) QuizNotReadyError)
      (bnd (gets (\<lambda>s. (next_attempt_number s (row_pk q) (row_pk user), valid_unlocks_count s now (row_pk q) (row_pk user)))) (\<lambda>(n, unlocks).
       seqn (check (n \<le> qz_max_attempts (vals q) + unlocks) QuizAttemptLockedError)
       (seqn (check_cooldown now q (row_pk user))
       (seqn (validate_quiz_publishable (row_pk q))
       (bnd (follow courses (qz_course (vals q))) (\<lambda>c.
        bnd (insert_attempt E now q e user n) (\<lambda>a.
        seqn (record_learning_activity_statement now user c SV_INITIALIZED ''quiz_attempt'' (nat_str (row_pk a))
               \<lparr>rf_lesson = None, rf_enrollment = Some (row_pk e), rf_quiz_attempt = Some (row_pk a), rf_certificate = None\<rparr>
               [(''attempt_number'', JInt (int n))] [(''quiz_id'', JInt (int (row_pk q))), (''source'', JStr ''quiz_start'')]
               (Some (''quiz-start:'' @ nat_str (row_pk a))))
        (ret (a, True))))))))))))"

text \<open>Starting is no single transaction: an attempt found to have expired stays marked when a later check fails.\<close>

definition start_quiz_attempt :: "lms_env \<Rightarrow> int \<Rightarrow> nat \<Rightarrow> auth_user row \<Rightarrow> (lms_db, quiz_attempt row \<times> bool) svc" where
  "start_quiz_attempt E now qk user =
     bnd (follow quizzes qk) (\<lambda>q.
     seqn (check (qz_status (vals q) = QS_PUBLISHED \<and> is_active q) QuizNotAvailableError)
     (bnd (gets (\<lambda>s. find_enrollment s (row_pk user) (qz_course (vals q)))) (\<lambda>enr.
      case enr of
        None \<Rightarrow> raise QuizNotAvailableError
      | Some e \<Rightarrow>
          bnd (gets (\<lambda>s. greatest (\<lambda>r. at_started_at (vals r)) (filter in_progress (attempts_of s qk (row_pk user))))) (\<lambda>existing.
          case existing of
            None \<Rightarrow> start_fresh_attempt E now q e user
          | Some a \<Rightarrow>
              if expired now a
              then seqn (save_attempt now (row_pk a) (\<lambda>v. v\<lparr>at_status := QA_EXPIRED\<rparr>)) (start_fresh_attempt E now q e user)
              else ret (a, False)))))"

section \<open>Certificates\<close>

definition badge_level_for_score :: "nat \<Rightarrow> badge_level" where
  "badge_level_for_score score =
     (if 1950 \<le> score then DISTINCTION else if 1800 \<le> score then GOLD else if 1600 \<le> score then SILVER else BRONZE)"

definition notify_lms_certificate_issued :: "lms_env \<Rightarrow> int \<Rightarrow> certificate row \<Rightarrow> (lms_db, ntf_event row) svc" where
  "notify_lms_certificate_issued E now c =
     emit_domain_notification (le_cfg E) (le_format E) now ''lms.certificate_issued'' (ce_user (vals c))
       [(''title'', JStr ''lms_certificate_issued''), (''course_title'', JStr (ce_course_title_snapshot (vals c))),
        (''certificate_code'', JStr (ce_certificate_code (vals c)))]
       (Some (ce_user (vals c))) ''lms_certificate'' (nat_str (row_pk c)) NP_NORMAL"

definition skill_slug :: "lms_env \<Rightarrow> string \<Rightarrow> nat \<Rightarrow> string" where
  "skill_slug E title course =
     (let cut = take 300 (le_slugify E title) in if cut = [] then ''skill-'' @ nat_str course else cut)"

definition create_skill_for_certificate :: "lms_env \<Rightarrow> int \<Rightarrow> certificate row \<Rightarrow> (lms_db, user_skill row) svc" where
  "create_skill_for_certificate E now c =
     atomic (
     bnd (gets user_skills) (\<lambda>t.
     case find (\<lambda>r. us_user (vals r) = ce_user (vals c) \<and> us_course (vals r) = ce_course (vals c)) (objects t) of
       Some r \<Rightarrow> ret r
     | None \<Rightarrow>
         seqn (check (\<not> list_ex (\<lambda>r. us_user (vals r) = ce_user (vals c) \<and> us_course (vals r) = ce_course (vals c) \<or>
                 us_certificate (vals r) = row_pk c) t) IntegrityError)
         (let r = new_row now \<lparr>us_user = ce_user (vals c), us_course = ce_course (vals c), us_certificate = row_pk c,
                us_title = ce_course_title_snapshot (vals c), us_slug = skill_slug E (ce_course_title_snapshot (vals c)) (ce_course (vals c)),
                us_badge_level = badge_level_for_score (ce_score_out_of_20 (vals c)), us_issued_at = now\<rparr> t
          in seqn (modify (\<lambda>s. s\<lparr>user_skills := user_skills s @ [r]\<rparr>))
             (seqn (notify_lms_certificate_issued E now c) (ret r)))))"

definition complete_enrollment_after_pass :: "int \<Rightarrow> quiz_attempt row \<Rightarrow> (lms_db, bool) svc" where
  "complete_enrollment_after_pass now a =
     atomic (
     bnd (follow enrollments (at_enrollment (vals a))) (\<lambda>e.
     if er_status (vals e) = EN_COMPLETED then ret False
     else
       seqn (save_enrollment now (row_pk e) (\<lambda>v. v\<lparr>er_status := EN_COMPLETED, er_completed_at := Some now\<rparr>))
       (seqn (sync_course_counters now (at_course (vals a)))
       (ret True))))"

definition save_certificate :: "int \<Rightarrow> nat \<Rightarrow> (certificate \<Rightarrow> certificate) \<Rightarrow> (lms_db, unit) svc" where
  "save_certificate now k f = modify (\<lambda>s. s\<lparr>certificates := tbl_upd k now f (certificates s)\<rparr>)"

definition ensure_certificate_pdf_ready :: "lms_env \<Rightarrow> int \<Rightarrow> certificate row \<Rightarrow> (lms_db, bool) svc" where
  "ensure_certificate_pdf_ready E now c =
     (if ce_pdf_file (vals c) \<noteq> [] then ret True
      else case le_build_pdf E c of
        None \<Rightarrow> ret False
      | Some f \<Rightarrow> seqn (save_certificate now (row_pk c) (\<lambda>v. v\<lparr>ce_pdf_file := f\<rparr>)) (ret True))"

definition certificate_clash :: "certificate \<Rightarrow> certificate row \<Rightarrow> bool" where
  "certificate_clash v r =
     (ce_user (vals r) = ce_user v \<and> ce_course (vals r) = ce_course v \<or> ce_enrollment (vals r) = ce_enrollment v \<or>
      ce_quiz_attempt (vals r) = ce_quiz_attempt v \<or> ce_certificate_code (vals r) = ce_certificate_code v \<or>
      ce_verification_slug (vals r) = ce_verification_slug v)"

definition new_certificate :: "lms_env \<Rightarrow> int \<Rightarrow> auth_user row \<Rightarrow> profile row option \<Rightarrow> course row \<Rightarrow> quiz_attempt row \<Rightarrow> certificate" where
  "new_certificate E now user prof c a =
     \<lparr>ce_user = row_pk user, ce_course = row_pk c, ce_enrollment = at_enrollment (vals a), ce_quiz_attempt = row_pk a,
      ce_certificate_code = le_certificate_hex E, ce_verification_slug = lower (le_certificate_hex E), ce_status = CT_ISSUED,
      ce_full_name_snapshot = user_full_name (vals user),
      ce_gender_snapshot = (case prof of None \<Rightarrow> [] | Some p \<Rightarrow> pf_gender (vals p)),
      ce_national_code_snapshot = (case prof of None \<Rightarrow> [] | Some p \<Rightarrow> pf_national_code (vals p)),
      ce_course_title_snapshot = co_title (vals c), ce_instructor_name_snapshot = co_instructor_name (vals c),
      ce_score_out_of_20 = at_score_out_of_20 (vals a), ce_issued_at = now, ce_revoked_at = None, ce_revoked_by = None,
      ce_revocation_reason = [], ce_pdf_file = []\<rparr>"

definition get_or_create_certificate :: "lms_env \<Rightarrow> int \<Rightarrow> certificate \<Rightarrow> (lms_db, certificate row) svc" where
  "get_or_create_certificate E now v =
     bnd (gets certificates) (\<lambda>t.
     case find (\<lambda>r. ce_user (vals r) = ce_user v \<and> ce_course (vals r) = ce_course v) (objects t) of
       Some r \<Rightarrow> ret r
     | None \<Rightarrow>
         seqn (check (\<not> list_ex (certificate_clash v) t) IntegrityError)
         (let r = new_row now v t in
          seqn (modify (\<lambda>s. s\<lparr>certificates := certificates s @ [r]\<rparr>))
          (seqn (ensure_certificate_pdf_ready E now r)
          (follow certificates (row_pk r)))))"

definition issue_certificate_for_attempt :: "lms_env \<Rightarrow> int \<Rightarrow> quiz_attempt row \<Rightarrow> (lms_db, certificate row) svc" where
  "issue_certificate_for_attempt E now a =
     atomic (
     seqn (check (at_is_passed (vals a)) CertificateIssueError)
     (bnd (follow lms_users (at_user (vals a))) (\<lambda>user.
      bnd (follow courses (at_course (vals a))) (\<lambda>c.
      bnd (gets (\<lambda>s. profile_of s (row_pk user))) (\<lambda>prof.
      bnd (get_or_create_certificate E now (new_certificate E now user prof c a)) (\<lambda>cert.
      seqn (record_learning_activity_statement now user c SV_CERTIFICATE_ISSUED ''certificate'' (nat_str (row_pk cert))
             \<lparr>rf_lesson = None, rf_enrollment = Some (at_enrollment (vals a)), rf_quiz_attempt = Some (row_pk a),
              rf_certificate = Some (row_pk cert)\<rparr>
             [(''certificate_code'', JStr (ce_certificate_code (vals cert))), (''score_out_of_20'', le_float E (ce_score_out_of_20 (vals cert)))]
             [(''source'', JStr ''certificate_issue'')] (Some (''certificate-issued:'' @ nat_str (row_pk cert))))
      (seqn (create_skill_for_certificate E now cert)
      (seqn (complete_enrollment_after_pass now a)
      (ret cert)))))))))"

definition revoke_certificate :: "int \<Rightarrow> nat \<Rightarrow> nat \<Rightarrow> string \<Rightarrow> (lms_db, certificate row) svc" where
  "revoke_certificate now k revoked_by reason =
     atomic (
     seqn (save_certificate now k (\<lambda>v. v\<lparr>ce_status := CT_REVOKED, ce_revoked_by := Some revoked_by, ce_revoked_at := Some now,
             ce_revocation_reason := reason\<rparr>))
     (bnd (gets (\<lambda>s. find (\<lambda>r. us_certificate (vals r) = k) (user_skills s))) (\<lambda>skill.
      seqn (case skill of
              None \<Rightarrow> ret ()
            | Some r \<Rightarrow> modify (\<lambda>s. s\<lparr>user_skills := tbl_set_active (row_pk r) now False (user_skills s)\<rparr>))
      (follow certificates k))))"

section \<open>Submitting an attempt\<close>

definition answer_map :: "(nat \<times> nat) list \<Rightarrow> nat \<Rightarrow> nat option" where
  "answer_map answers = map_of (rev answers)"

definition answered :: "(nat \<times> nat) list \<Rightarrow> nat list \<Rightarrow> bool" where
  "answered answers ids = (set (map fst answers) = set ids)"

text \<open>One answer: the option has to be in the snapshot, and both rows have to be active still.\<close>

definition grade :: "lms_db \<Rightarrow> (nat \<times> nat list) list \<Rightarrow> nat \<Rightarrow> nat \<Rightarrow> exn + (quiz_question row \<times> quiz_option row \<times> bool)" where
  "grade s opts qid selected =
     (if selected \<notin> set (case map_of opts qid of None \<Rightarrow> [] | Some os \<Rightarrow> os) then Inl QuizAttemptSubmissionError
      else case (tbl_get selected (quiz_options s), tbl_get qid (quiz_questions s)) of
        (Some r, Some q) \<Rightarrow> Inr (q, r, qo_question (vals r) = qid \<and> qo_is_correct (vals r))
      | _ \<Rightarrow> Inl KeyError)"

definition add_answer :: "int \<Rightarrow> nat \<Rightarrow> quiz_question row \<Rightarrow> quiz_option row \<Rightarrow> bool \<Rightarrow> (lms_db, nat) svc" where
  "add_answer now ak q r correct =
     bnd (gets quiz_answers) (\<lambda>t.
     let w = qq_weight (vals q); score = (if correct then w else 0) in
     seqn (check (\<not> list_ex (\<lambda>x. an_attempt (vals x) = ak \<and> an_question (vals x) = row_pk q) t) IntegrityError)
     (seqn (modify (\<lambda>s. s\<lparr>quiz_answers := tbl_insert now
        \<lparr>an_attempt = ak, an_question = row_pk q, an_selected_option = row_pk r, an_is_correct = correct, an_weight = w,
         an_score_awarded = score, an_answered_at = now\<rparr> (quiz_answers s)\<rparr>))
     (ret score)))"

definition answer_question :: "int \<Rightarrow> quiz_attempt row \<Rightarrow> (nat \<times> nat) list \<Rightarrow> nat \<Rightarrow> (lms_db, nat) svc" where
  "answer_question now a answers qid =
     (case answer_map answers qid of
        None \<Rightarrow> raise KeyError
      | Some selected \<Rightarrow>
          bnd (gets (\<lambda>s. grade s (at_option_order_snapshot (vals a)) qid selected)) (\<lambda>g.
          case g of
            Inl e \<Rightarrow> raise e
          | Inr (q, r, correct) \<Rightarrow> add_answer now (row_pk a) q r correct))"

definition total_weight :: "lms_db \<Rightarrow> nat list \<Rightarrow> nat option" where
  "total_weight s ids =
     (if list_all (\<lambda>k. tbl_get k (quiz_questions s) \<noteq> None) ids
      then Some (sum_list (map (\<lambda>k. case tbl_get k (quiz_questions s) of None \<Rightarrow> 0 | Some q \<Rightarrow> qq_weight (vals q)) ids)) else None)"

definition score_share :: "nat \<Rightarrow> nat \<Rightarrow> nat \<Rightarrow> nat" where
  "score_share full_score awarded whole = (if whole = 0 then 0 else round_ratio (awarded * full_score) whole)"

definition grade_vals :: "int \<Rightarrow> int \<Rightarrow> nat \<Rightarrow> nat \<Rightarrow> quiz_attempt \<Rightarrow> quiz_attempt" where
  "grade_vals now passing awarded whole v =
     (let score = score_share 2000 awarded whole; passed = int score \<ge> passing in
      v\<lparr>at_score_raw := awarded, at_score_percent := score_share 10000 awarded whole, at_score_out_of_20 := score,
        at_is_passed := passed, at_status := (if passed then QA_PASSED else QA_FAILED), at_submitted_at := Some now\<rparr>)"

definition submit_statement :: "lms_env \<Rightarrow> int \<Rightarrow> quiz_attempt row \<Rightarrow> (lms_db, activity_statement row) svc" where
  "submit_statement E now a =
     bnd (follow lms_users (at_user (vals a))) (\<lambda>u.
     bnd (follow courses (at_course (vals a))) (\<lambda>c.
     record_learning_activity_statement now u c (if at_is_passed (vals a) then SV_PASSED else SV_FAILED) ''quiz_attempt'' (nat_str (row_pk a))
       \<lparr>rf_lesson = None, rf_enrollment = Some (at_enrollment (vals a)), rf_quiz_attempt = Some (row_pk a), rf_certificate = None\<rparr>
       [(''score_percent'', le_float E (at_score_percent (vals a))), (''score_out_of_20'', le_float E (at_score_out_of_20 (vals a))),
        (''is_passed'', JBool (at_is_passed (vals a)))]
       [(''quiz_id'', JInt (int (at_quiz (vals a)))), (''source'', JStr ''quiz_submit'')]
       (Some (''quiz-submit:'' @ nat_str (row_pk a)))))"

definition grade_attempt :: "lms_env \<Rightarrow> int \<Rightarrow> quiz_attempt row \<Rightarrow> quiz row \<Rightarrow> (nat \<times> nat) list \<Rightarrow> (lms_db, quiz_attempt row) svc" where
  "grade_attempt E now a q answers =
     bnd (gets (\<lambda>s. total_weight s (at_question_snapshot (vals a)))) (\<lambda>whole.
     case whole of
       None \<Rightarrow> raise KeyError
     | Some w \<Rightarrow>
         seqn (modify (\<lambda>s. s\<lparr>quiz_answers := filter (\<lambda>x. \<not> (is_active x \<and> an_attempt (vals x) = row_pk a)) (quiz_answers s)\<rparr>))
         (bnd (for_each (at_question_snapshot (vals a)) (answer_question now a answers)) (\<lambda>scores.
          let f = grade_vals now (qz_passing_score (vals q)) (sum_list scores) w; a' = a\<lparr>updated_at := now, vals := f (vals a)\<rparr> in
          seqn (save_attempt now (row_pk a) f)
          (seqn (submit_statement E now a')
          (seqn (if \<not> at_is_passed (vals a') then ret ()
                 else if qz_is_required_for_certificate (vals q) then seqn (issue_certificate_for_attempt E now a') (ret ())
                 else seqn (complete_enrollment_after_pass now a') (ret ()))
          (ret a'))))))"

definition submit_quiz_attempt :: "lms_env \<Rightarrow> int \<Rightarrow> nat \<Rightarrow> (nat \<times> nat) list \<Rightarrow> (lms_db, quiz_attempt row) svc" where
  "submit_quiz_attempt E now ak answers =
     atomic (
     bnd (fetch quiz_attempts ak) (\<lambda>a.
     bnd (follow quizzes (at_quiz (vals a))) (\<lambda>q.
     seqn (check (at_status (vals a) = QA_IN_PROGRESS) QuizAttemptSubmissionError)
     (if expired now a
      then seqn (save_attempt now ak (\<lambda>v. v\<lparr>at_status := QA_EXPIRED, at_submitted_at := Some now\<rparr>)) (raise QuizAttemptSubmissionError)
      else
        seqn (check (answered answers (at_question_snapshot (vals a))) QuizAttemptSubmissionError)
        (grade_attempt E now a q answers)))))"

end
