(* ===== verification/Lms_System.thy ===== *)
theory Lms_System
  imports Lms_Discussion Lms_Quiz
begin

text \<open>
  The learning platform as a transition system: calls of the services run one after the other. Here are the calls and what each of
  them leaves alone; the invariants follow in the theories that import this one.
\<close>

section \<open>Calls\<close>

datatype (plugins only: code) lms_call =
    CreateCategory string string string nat
  | UpdateCategory nat lms_category_patch
  | DeleteCategory nat
  | CreateCourse nat course
  | UpdateCourse nat course_patch
  | PublishCourse nat
  | ArchiveCourse nat
  | DeleteCourse nat
  | CreateLesson nat lesson
  | UpdateLesson nat lesson_patch
  | DeleteLesson nat
  | RequestVideo nat "nat option"
  | ProcessVideo nat
  | FailVideo nat string
  | Enroll nat nat
  | MediaAccess nat nat string
  | MediaStream nat nat string
  | ReportProgress nat nat progress_report
  | AskQuestion nat nat string string
  | Answer nat nat string bool "nat option"
  | AcceptAnswer nat nat nat
  | EditQuestion nat nat string string
  | DeleteQuestion nat nat
  | EditAnswer nat nat string
  | DeleteAnswer nat nat
  | ReportQuestion nat nat string string
  | ReportAnswer nat nat string string
  | ModerateQuestion nat "discussion_status option" "bool option"
  | ModerateAnswer nat "discussion_status option" "bool option"
  | ReviewReport nat nat "discussion_report_status option"
  | SetUpQuiz nat quiz_patch
  | AddQuizQuestion nat string string nat nat
  | AddQuizOption nat string bool nat
  | PublishQuiz nat
  | UnlockQuiz nat nat nat string nat "int option"
  | QuizState nat nat
  | StartQuiz nat nat
  | SubmitQuiz nat "(nat \<times> nat) list"
  | RenderCertificate nat
  | RevokeCertificate nat nat string

definition done_svc :: "('s, 'a) svc \<Rightarrow> ('s, unit) svc" where
  "done_svc m = seqn m (ret ())"

definition by_user :: "nat \<Rightarrow> (auth_user row \<Rightarrow> (lms_db, 'a) svc) \<Rightarrow> (lms_db, unit) svc" where
  "by_user u f = bnd (follow lms_users u) (\<lambda>r. done_svc (f r))"

fun run_lms :: "lms_env \<Rightarrow> int \<Rightarrow> lms_call \<Rightarrow> (lms_db, unit) svc" where
  "run_lms E now (CreateCategory a b c d) = done_svc (create_lms_category E now a b c d)"
| "run_lms E now (UpdateCategory k p) = done_svc (update_lms_category now k p)"
| "run_lms E now (DeleteCategory k) = done_svc (delete_lms_category now k)"
| "run_lms E now (CreateCourse k c) = done_svc (create_course E now k c)"
| "run_lms E now (UpdateCourse k p) = done_svc (update_course now k p)"
| "run_lms E now (PublishCourse k) = done_svc (publish_course now k)"
| "run_lms E now (ArchiveCourse k) = done_svc (archive_course now k)"
| "run_lms E now (DeleteCourse k) = done_svc (delete_course now k)"
| "run_lms E now (CreateLesson k l) = done_svc (create_lesson E now k l)"
| "run_lms E now (UpdateLesson k p) = done_svc (update_lesson now k p)"
| "run_lms E now (DeleteLesson k) = done_svc (delete_lesson now k)"
| "run_lms E now (RequestVideo k u) = done_svc (request_lesson_video_processing now k u)"
| "run_lms E now (ProcessVideo k) = done_svc (process_lesson_video_job E now k)"
| "run_lms E now (FailVideo k m) = done_svc (fail_lesson_video_job now k m)"
| "run_lms E now (Enroll u k) = by_user u (\<lambda>r. enroll_user_in_course now r k)"
| "run_lms E now (MediaAccess k u m) = by_user u (\<lambda>r. build_lesson_media_access E now k r m)"
| "run_lms E now (MediaStream k u m) = by_user u (\<lambda>r. build_lesson_media_stream E k r m)"
| "run_lms E now (ReportProgress e l q) = done_svc (update_lesson_progress E now e l q)"
| "run_lms E now (AskQuestion k u a b) = by_user u (\<lambda>r. create_lesson_question now k r a b)"
| "run_lms E now (Answer k u a i p) = by_user u (\<lambda>r. create_lesson_answer now k r a i p)"
| "run_lms E now (AcceptAnswer q a u) = by_user u (\<lambda>r. accept_lesson_answer now q a r)"
| "run_lms E now (EditQuestion k u a b) = by_user u (\<lambda>r. update_lesson_question now k r a b)"
| "run_lms E now (DeleteQuestion k u) = by_user u (\<lambda>r. delete_lesson_question now k r)"
| "run_lms E now (EditAnswer k u a) = by_user u (\<lambda>r. update_lesson_answer now k r a)"
| "run_lms E now (DeleteAnswer k u) = by_user u (\<lambda>r. delete_lesson_answer now k r)"
| "run_lms E now (ReportQuestion k u a b) = by_user u (\<lambda>r. report_lesson_question now k r a b)"
| "run_lms E now (ReportAnswer k u a b) = by_user u (\<lambda>r. report_lesson_answer now k r a b)"
| "run_lms E now (ModerateQuestion k st p) = done_svc (moderate_lesson_question now k st p)"
| "run_lms E now (ModerateAnswer k st p) = done_svc (moderate_lesson_answer now k st p)"
| "run_lms E now (ReviewReport k u st) = done_svc (review_discussion_report now k u st)"
| "run_lms E now (SetUpQuiz k p) = done_svc (create_or_update_quiz now k p)"
| "run_lms E now (AddQuizQuestion k a b c d) = done_svc (create_quiz_question now k a b c d)"
| "run_lms E now (AddQuizOption k a b c) = done_svc (create_quiz_option now k a b c)"
| "run_lms E now (PublishQuiz k) = done_svc (publish_quiz now k)"
| "run_lms E now (UnlockQuiz k u v a b c) = done_svc (unlock_quiz_for_user now k u v a b c)"
| "run_lms E now (QuizState k u) = by_user u (\<lambda>r. get_quiz_attempt_state now k r)"
| "run_lms E now (StartQuiz k u) = by_user u (\<lambda>r. start_quiz_attempt E now k r)"
| "run_lms E now (SubmitQuiz k a) = done_svc (submit_quiz_attempt E now k a)"
| "run_lms E now (RenderCertificate k) = bnd (follow certificates k) (\<lambda>c. done_svc (ensure_certificate_pdf_ready E now c))"
| "run_lms E now (RevokeCertificate k u a) = done_svc (revoke_certificate now k u a)"

inductive lms_step :: "lms_db \<Rightarrow> lms_db \<Rightarrow> bool" where
  lms_stepI: "lms_step s (state_after (run_lms E now c) s)"

inductive_cases lms_stepE: "lms_step s t"

definition lms_init :: "lms_db \<Rightarrow> bool" where
  "lms_init s = (courses s = [] \<and> lessons s = [] \<and> enrollments s = [] \<and> lesson_progresses s = [] \<and> lesson_questions s = [] \<and>
     lesson_answers s = [] \<and> quiz_attempts s = [] \<and> certificates s = [] \<and> user_skills s = [])"

section \<open>Frames of the building blocks\<close>

lemma all_tbl_upd:
  "\<forall>r \<in> set t. P (vals r) \<Longrightarrow> (\<And>v. P v \<Longrightarrow> P (f v)) \<Longrightarrow> \<forall>r \<in> set (tbl_upd k now f t). P (vals r)"
  by (auto simp: set_tbl_upd)

lemma find_SomeD: "find P xs = Some x \<Longrightarrow> x \<in> set xs \<and> P x"
  by (induction xs) (auto split: if_splits)

lemma keeps_case_pair [keeps_rules]: "(\<And>a b. keeps g (f a b)) \<Longrightarrow> keeps g (case v of (a, b) \<Rightarrow> f a b)"
  by (simp split: prod.split)

lemma keeps_case_either [keeps_rules]: "(\<And>e. keeps g (f e)) \<Longrightarrow> (\<And>x. keeps g (h x)) \<Longrightarrow> keeps g (case v of Inl e \<Rightarrow> f e | Inr x \<Rightarrow> h x)"
  by (simp split: sum.split)

lemma keeps_done_svc [keeps_rules]: "keeps g m \<Longrightarrow> keeps g (done_svc m)"
  unfolding done_svc_def by (intro keeps_rules)

lemma keeps_by_user [keeps_rules]: "(\<And>r. keeps g (f r)) \<Longrightarrow> keeps g (by_user u f)"
  unfolding by_user_def by (intro keeps_rules)

lemma keeps_save_course: "(\<And>s x. g (s\<lparr>courses := x\<rparr>) = g s) \<Longrightarrow> keeps g (save_course now k f)"
  unfolding save_course_def by (rule keeps_modify) simp

lemma keeps_counters: "(\<And>s x. g (s\<lparr>courses := x\<rparr>) = g s) \<Longrightarrow> keeps g (sync_course_counters now k)"
  unfolding sync_course_counters_def by (intro keeps_rules keeps_save_course) simp

lemma keeps_record:
  "(\<And>s x. g (s\<lparr>statements := x\<rparr>) = g s) \<Longrightarrow> keeps g (record_learning_activity_statement now u c v ot oi refs r cx key)"
  unfolding record_learning_activity_statement_def Let_def by (intro keeps_rules keeps_modify) simp

lemma keeps_sequence: "keeps g (ensure_lesson_sequence_open u l e)"
  unfolding ensure_lesson_sequence_open_def by (intro keeps_rules)

lemma keeps_gate: "keeps g (media_gate l u)" "keeps g (ensure_user_enrolled_for_lesson u l)" "keeps g (reply_target k p)"
    "keeps g (ensure_discussion_owner a u)" "keeps g (validate_quiz_publishable k)" "keeps g (check_cooldown now q v)"
    "keeps g (resolve_lesson_media_stream_file E l m)" "keeps g (ensure_user_can_enroll u)"
  unfolding media_gate_def ensure_user_enrolled_for_lesson_def reply_target_def ensure_discussion_owner_def validate_quiz_publishable_def
    check_cooldown_def resolve_lesson_media_stream_file_def ensure_user_can_enroll_def Let_def
  by (intro keeps_rules keeps_sequence)+

lemma preserves_done: "preserves P m \<Longrightarrow> preserves P (done_svc m)"
  unfolding done_svc_def by (intro preserves_rules)

lemma preserves_by_user: "(\<And>r. preserves P (f r)) \<Longrightarrow> preserves P (by_user u f)"
  unfolding by_user_def by (intro preserves_rules preserves_done)

lemmas frame_rules = keeps_rules keeps_modify keeps_save_course keeps_counters keeps_record keeps_sequence keeps_gate

text \<open>The records of learners: what the catalogue, the questions and the setting up of quizzes leave alone.\<close>

definition learn_view :: "lms_db \<Rightarrow> enrollment table \<times> lesson_progress table \<times> quiz_attempt table \<times> certificate table \<times> user_skill table" where
  "learn_view s = (enrollments s, lesson_progresses s, quiz_attempts s, certificates s, user_skills s)"

lemma catalog_keeps:
  "keeps learn_view (create_lms_category E now a b c d)" "keeps learn_view (update_lms_category now k p0)"
  "keeps learn_view (delete_lms_category now k)" "keeps learn_view (create_course E now k co)" "keeps learn_view (update_course now k p1)"
  "keeps learn_view (publish_course now k)" "keeps learn_view (archive_course now k)" "keeps learn_view (delete_course now k)"
  "keeps learn_view (create_lesson E now k l)" "keeps learn_view (update_lesson now k p2)" "keeps learn_view (delete_lesson now k)"
  "keeps learn_view (request_lesson_video_processing now k ru)" "keeps learn_view (process_lesson_video_job E now k)"
  "keeps learn_view (fail_lesson_video_job now k a)"
  unfolding create_lms_category_def update_lms_category_def delete_lms_category_def create_course_def update_course_def publish_course_def
    archive_course_def delete_course_def create_lesson_def update_lesson_def delete_lesson_def request_lesson_video_processing_def
    process_lesson_video_job_def fail_lesson_video_job_def validate_course_publishable_def schedule_document_render_def Let_def
  by (intro frame_rules; simp add: learn_view_def)+

lemma discussion_keeps:
  "keeps learn_view (create_lesson_question now k u a b)" "keeps learn_view (create_lesson_answer now k u a i p)"
  "keeps learn_view (accept_lesson_answer now k k1 u)" "keeps learn_view (update_lesson_question now k u a b)"
  "keeps learn_view (delete_lesson_question now k u)" "keeps learn_view (update_lesson_answer now k u a)"
  "keeps learn_view (delete_lesson_answer now k u)" "keeps learn_view (report_lesson_question now k u a b)"
  "keeps learn_view (report_lesson_answer now k u a b)" "keeps learn_view (moderate_lesson_question now k st pin)"
  "keeps learn_view (moderate_lesson_answer now k st pin)" "keeps learn_view (review_discussion_report now k rv dst)"
  unfolding create_lesson_question_def create_lesson_answer_def accept_lesson_answer_def update_lesson_question_def
    delete_lesson_question_def update_lesson_answer_def delete_lesson_answer_def report_lesson_question_def report_lesson_answer_def
    moderate_lesson_question_def moderate_lesson_answer_def review_discussion_report_def add_report_def save_question_def save_answer_def
    cascade_answers_def Let_def
  by (intro frame_rules; simp add: learn_view_def)+

lemma quiz_setup_keeps:
  "keeps learn_view (create_or_update_quiz now k p)" "keeps learn_view (create_quiz_question now k a b i j)"
  "keeps learn_view (create_quiz_option now k a c i)" "keeps learn_view (publish_quiz now k)"
  "keeps learn_view (unlock_quiz_for_user now k i j a m v)" "keeps learn_view (get_quiz_attempt_state now k u)"
  "keeps learn_view (build_lesson_media_stream E k u a)"
  unfolding create_or_update_quiz_def create_quiz_question_def create_quiz_option_def publish_quiz_def unlock_quiz_for_user_def
    get_quiz_attempt_state_def build_lesson_media_stream_def Let_def
  by (intro frame_rules; simp add: learn_view_def)+

section \<open>Frames of the calls\<close>

definition board_view :: "lms_db \<Rightarrow> lesson_question table \<times> lesson_answer table" where
  "board_view s = (lesson_questions s, lesson_answers s)"

definition exam_view :: "lms_db \<Rightarrow> quiz_attempt table \<times> certificate table \<times> user_skill table" where
  "exam_view s = (quiz_attempts s, certificates s, user_skills s)"

text \<open>Services of the catalogue, with the lessons for those that do not write them.\<close>

lemma catalog_keeps_board:
  "keeps board_view (create_lms_category E now a b c d)" "keeps board_view (update_lms_category now k p0)"
  "keeps board_view (delete_lms_category now k)" "keeps board_view (create_course E now k co)" "keeps board_view (update_course now k p1)"
  "keeps board_view (publish_course now k)" "keeps board_view (archive_course now k)" "keeps board_view (delete_course now k)"
  "keeps board_view (create_lesson E now k l)" "keeps board_view (update_lesson now k p2)" "keeps board_view (delete_lesson now k)"
  "keeps board_view (request_lesson_video_processing now k ru)" "keeps board_view (process_lesson_video_job E now k)"
  "keeps board_view (fail_lesson_video_job now k a)"
  unfolding create_lms_category_def update_lms_category_def delete_lms_category_def create_course_def update_course_def publish_course_def
    archive_course_def delete_course_def create_lesson_def update_lesson_def delete_lesson_def request_lesson_video_processing_def
    process_lesson_video_job_def fail_lesson_video_job_def validate_course_publishable_def schedule_document_render_def Let_def
  by (intro frame_rules; simp add: board_view_def)+

lemma catalog_keeps_lessons:
  "keeps lessons (create_lms_category E now a b c d)" "keeps lessons (update_lms_category now k p0)" "keeps lessons (delete_lms_category now k)"
  "keeps lessons (create_course E now k co)" "keeps lessons (update_course now k p1)" "keeps lessons (publish_course now k)"
  "keeps lessons (archive_course now k)" "keeps lessons (delete_course now k)" "keeps lessons (request_lesson_video_processing now k ru)"
  "keeps lessons (process_lesson_video_job E now k)" "keeps lessons (fail_lesson_video_job now k a)"
  unfolding create_lms_category_def update_lms_category_def delete_lms_category_def create_course_def update_course_def publish_course_def
    archive_course_def delete_course_def request_lesson_video_processing_def
    process_lesson_video_job_def fail_lesson_video_job_def validate_course_publishable_def schedule_document_render_def Let_def
  by (intro frame_rules; simp)+

definition side_view :: "lms_db \<Rightarrow> lesson table \<times> (lesson_question table \<times> lesson_answer table)" where
  "side_view s = (lessons s, board_view s)"

lemma quiz_setup_keeps_side:
  "keeps side_view (create_or_update_quiz now k p)" "keeps side_view (create_quiz_question now k a b i j)"
  "keeps side_view (create_quiz_option now k a c i)" "keeps side_view (publish_quiz now k)"
  "keeps side_view (unlock_quiz_for_user now k i j a m v)" "keeps side_view (get_quiz_attempt_state now k u)"
  "keeps side_view (build_lesson_media_stream E k u a)"
  unfolding create_or_update_quiz_def create_quiz_question_def create_quiz_option_def publish_quiz_def unlock_quiz_for_user_def
    get_quiz_attempt_state_def build_lesson_media_stream_def Let_def
  by (intro frame_rules; simp add: side_view_def board_view_def)+

lemma discussion_keeps_lessons:
  "keeps lessons (create_lesson_question now k u a b)" "keeps lessons (create_lesson_answer now k u a i p)"
  "keeps lessons (accept_lesson_answer now k k1 u)" "keeps lessons (update_lesson_question now k u a b)"
  "keeps lessons (delete_lesson_question now k u)" "keeps lessons (update_lesson_answer now k u a)"
  "keeps lessons (delete_lesson_answer now k u)" "keeps lessons (report_lesson_question now k u a b)"
  "keeps lessons (report_lesson_answer now k u a b)" "keeps lessons (moderate_lesson_question now k st pin)"
  "keeps lessons (moderate_lesson_answer now k st pin)" "keeps lessons (review_discussion_report now k rv dst)"
  unfolding create_lesson_question_def create_lesson_answer_def accept_lesson_answer_def update_lesson_question_def
    delete_lesson_question_def update_lesson_answer_def delete_lesson_answer_def report_lesson_question_def report_lesson_answer_def
    moderate_lesson_question_def moderate_lesson_answer_def review_discussion_report_def add_report_def save_question_def save_answer_def
    cascade_answers_def Let_def
  by (intro frame_rules; simp)+

lemma keeps_progress_blocks:
  "(\<And>s x. g (s\<lparr>lesson_progresses := x\<rparr>) = g s) \<Longrightarrow> keeps g (get_or_create_progress now e l)"
  "(\<And>s x. g (s\<lparr>lesson_progresses := x\<rparr>) = g s) \<Longrightarrow> keeps g (save_progress now k f)"
  "(\<And>s x. g (s\<lparr>lesson_progresses := x\<rparr>) = g s) \<Longrightarrow> keeps g (stamp_media_opened now enr l)"
  "(\<And>s x. g (s\<lparr>enrollments := x\<rparr>) = g s) \<Longrightarrow> keeps g (save_enrollment now k h)"
  "(\<And>s x. g (s\<lparr>enrollments := x\<rparr>) = g s) \<Longrightarrow> keeps g (sync_enrollment_progress now er)"
  "(\<And>s x. g (s\<lparr>statements := x\<rparr>) = g s) \<Longrightarrow> keeps g (progress_statement E now er l q p)"
  unfolding stamp_media_opened_def sync_enrollment_progress_def progress_statement_def get_or_create_progress_def save_progress_def
    save_enrollment_def Let_def
  by (intro frame_rules; simp)+

lemma learner_keeps:
  "keeps exam_view (enroll_user_in_course now u k)" "keeps exam_view (build_lesson_media_access E now k u a)"
  "keeps exam_view (update_lesson_progress E now k j q)"
  "keeps side_view (enroll_user_in_course now u k)" "keeps side_view (build_lesson_media_access E now k u a)"
  "keeps side_view (update_lesson_progress E now k j q)"
  unfolding enroll_user_in_course_def build_lesson_media_access_def update_lesson_progress_def Let_def
  by (intro frame_rules keeps_progress_blocks; simp add: exam_view_def side_view_def board_view_def)+

lemma keeps_exam_blocks:
  "(\<And>s x. g (s\<lparr>quiz_attempts := x\<rparr>) = g s) \<Longrightarrow> keeps g (save_attempt now k f)"
  "(\<And>s x. g (s\<lparr>quiz_attempts := x\<rparr>) = g s) \<Longrightarrow> keeps g (insert_attempt E now q e u n)"
  "(\<And>s x. g (s\<lparr>certificates := x\<rparr>) = g s) \<Longrightarrow> keeps g (save_certificate now k h)"
  "(\<And>s x. g (s\<lparr>certificates := x\<rparr>) = g s) \<Longrightarrow> keeps g (ensure_certificate_pdf_ready E now c)"
  "(\<And>s x. g (s\<lparr>certificates := x\<rparr>) = g s) \<Longrightarrow> keeps g (get_or_create_certificate E now v)"
  "(\<And>s x. g (s\<lparr>quiz_answers := x\<rparr>) = g s) \<Longrightarrow> keeps g (answer_question now a ans k)"
  "(\<And>s x. g (s\<lparr>statements := x\<rparr>) = g s) \<Longrightarrow> keeps g (submit_statement E now a)"
  unfolding save_attempt_def insert_attempt_def save_certificate_def ensure_certificate_pdf_ready_def get_or_create_certificate_def
    answer_question_def add_answer_def submit_statement_def Let_def case_prod_beta
  by (intro frame_rules; simp)+

lemma keeps_issue_blocks:
  assumes "\<And>s x. g (s\<lparr>ntf_events := x\<rparr>) = g s" "\<And>s x. g (s\<lparr>ntf_deliveries := x\<rparr>) = g s" "\<And>s x. g (s\<lparr>activities := x\<rparr>) = g s"
    "\<And>s x. g (s\<lparr>on_commit_dispatch := x\<rparr>) = g s"
  shows "(\<And>s x. g (s\<lparr>user_skills := x\<rparr>) = g s) \<Longrightarrow> keeps g (create_skill_for_certificate E now c)"
    "(\<And>s x. g (s\<lparr>enrollments := x\<rparr>) = g s) \<Longrightarrow> (\<And>s x. g (s\<lparr>courses := x\<rparr>) = g s) \<Longrightarrow> keeps g (complete_enrollment_after_pass now a)"
  unfolding create_skill_for_certificate_def complete_enrollment_after_pass_def notify_lms_certificate_issued_def Let_def
  by (intro frame_rules keeps_progress_blocks keeps_emit; simp add: assms)+

lemma exam_keeps_side:
  "keeps side_view (start_quiz_attempt E now k u)" "keeps side_view (submit_quiz_attempt E now k ans)"
  "keeps side_view (ensure_certificate_pdf_ready E now c)" "keeps side_view (revoke_certificate now k rv a)"
  unfolding start_quiz_attempt_def start_fresh_attempt_def submit_quiz_attempt_def grade_attempt_def issue_certificate_for_attempt_def
    revoke_certificate_def Let_def
  by (intro frame_rules keeps_exam_blocks keeps_issue_blocks; simp add: side_view_def board_view_def)+

lemma exam_keeps_progress:
  "keeps lesson_progresses (start_quiz_attempt E now k u)" "keeps lesson_progresses (submit_quiz_attempt E now k ans)"
  "keeps lesson_progresses (ensure_certificate_pdf_ready E now c)" "keeps lesson_progresses (revoke_certificate now k rv a)"
  "keeps lesson_progresses (enroll_user_in_course now u1 k)"
  unfolding start_quiz_attempt_def start_fresh_attempt_def submit_quiz_attempt_def grade_attempt_def issue_certificate_for_attempt_def
    revoke_certificate_def enroll_user_in_course_def Let_def
  by (intro frame_rules keeps_exam_blocks keeps_issue_blocks; simp)+


lemma keeps_comp: "keeps g m \<Longrightarrow> (\<And>s t. g s = g t \<Longrightarrow> h s = h t) \<Longrightarrow> keeps h m"
  unfolding keeps_def by metis

lemma views:
  "learn_view s = learn_view t \<Longrightarrow> enrollments s = enrollments t" "learn_view s = learn_view t \<Longrightarrow> lesson_progresses s = lesson_progresses t"
  "learn_view s = learn_view t \<Longrightarrow> exam_view s = exam_view t"
  "side_view s = side_view t \<Longrightarrow> lessons s = lessons t" "side_view s = side_view t \<Longrightarrow> board_view s = board_view t"
  by (simp_all add: learn_view_def exam_view_def side_view_def)

lemma quiz_setup_keeps_lessons:
  "keeps lessons (create_or_update_quiz now k p)" "keeps lessons (create_quiz_question now k a b i j)"
  "keeps lessons (create_quiz_option now k a c i)" "keeps lessons (publish_quiz now k)"
  "keeps lessons (unlock_quiz_for_user now k i j a m v)" "keeps lessons (get_quiz_attempt_state now k u)"
  "keeps lessons (build_lesson_media_stream E k u a)"
  by (rule quiz_setup_keeps_side [THEN keeps_comp], rule views(4), assumption)+

end
