(* ===== verification/Lms_Example.thy ===== *)
theory Lms_Example
  imports Lms_System "HOL-Library.Code_Target_Nat"
begin

text \<open>
  A concrete class at which the theorems are instantiated: a published course of two articles and a video, an enrolled learner and a teacher,
  a question with answers, and a quiz of two questions that may be taken twice.
\<close>

definition class_env :: lms_env where
  "class_env = \<lparr>le_slugify = (\<lambda>x. x), le_certificate_hex = ''AB12'', le_shuffle = (\<lambda>_ ks. rev ks), le_build_pdf = (\<lambda>_. Some ''c.pdf''),
     le_file_url = (\<lambda>x. x), le_isoformat = int_str, le_float = (\<lambda>n. JInt (int n)), le_sign = (\<lambda>_ _. ''t''), le_unsign = (\<lambda>_ _ _. None),
     le_pages = (\<lambda>_. []), le_open_page = (\<lambda>_ _. None), le_format = (\<lambda>x _. x),
     le_cfg = \<lparr>NOTIFICATIONS_EMAIL_ENABLED = False, NOTIFICATIONS_SMS_ENABLED = False\<rparr>\<rparr>"

definition plain_row :: "nat \<Rightarrow> 'v \<Rightarrow> 'v row" where
  "plain_row k v = \<lparr>row_pk = k, created_at = 0, updated_at = 0, is_active = True, vals = v\<rparr>"

definition class_user :: "nat \<Rightarrow> bool \<Rightarrow> auth_user row" where
  "class_user k staff = plain_row k \<lparr>u_email = None, u_phone_number = None, u_primary_identifier = EMAIL, u_is_email_verified = True,
     u_is_phone_verified = False, u_first_name = ''F'', u_last_name = ''L'', u_role = ROLE_USER, u_is_staff = staff, u_is_superuser = False,
     u_password = [], u_last_login_ip = None\<rparr>"

definition class_course :: course where
  "class_course = \<lparr>co_category = 1, co_title = ''T'', co_slug = ''t'', co_subtitle = [], co_short_description = [], co_description = [],
     co_cover_image = [], co_instructor_name = ''I'', co_instructor_bio = [], co_instructor_avatar = [], co_level = LV_BEGINNER,
     co_status = CS_PUBLISHED, co_language = ''fa'', co_is_featured = False, co_intro_video_url = [], co_estimated_duration_seconds = 0,
     co_lessons_count = 3, co_enrollments_count = 1, co_graduates_count = 0, co_average_rating = 0, co_published_at = Some 0,
     co_archived_at = None\<rparr>"

definition class_lesson :: "nat \<Rightarrow> lesson_content_type \<Rightarrow> nat \<Rightarrow> lesson" where
  "class_lesson n kind secs = \<lparr>le_course = 1, le_title = [], le_slug = nat_str n, le_description = [], le_order = n, le_content_type = kind,
     le_document_file = [], le_document_title = [], le_article_body = ''x'', le_video_provider = VP_DIRECT_URL, le_video_url = ''v'',
     le_embed_url = [], le_video_file = [], le_duration_seconds = secs, le_transcript = [], le_summary = [], le_homework = [],
     le_attachment_file = [], le_attachment_title = [], le_is_preview = False, le_published_at = None\<rparr>"

definition class_quiz :: quiz where
  "class_quiz = (new_quiz 1 ''Q'')\<lparr>qz_status := QS_PUBLISHED\<rparr>"

definition class_option :: "nat \<Rightarrow> bool \<Rightarrow> nat \<Rightarrow> quiz_option" where
  "class_option q ok n = \<lparr>qo_question = q, qo_text = [], qo_is_correct = ok, qo_order = n\<rparr>"

definition class_question :: "nat \<Rightarrow> nat \<Rightarrow> quiz_question" where
  "class_question n w = \<lparr>qq_quiz = 1, qq_text = [], qq_explanation = [], qq_order = n, qq_weight = w\<rparr>"

definition empty_class :: lms_db where
  "empty_class = \<lparr>ntf_templates = [], ntf_events = [], ntf_deliveries = [], ntf_preferences = [], activities = [], on_commit_dispatch = [],
     lms_users = [class_user 1 False, class_user 2 True],
     lms_profiles = [plain_row 1 \<lparr>pf_user = 1, pf_national_code = ''1'', pf_birth_date = None, pf_gender = [], pf_avatar = None, pf_bio = [],
       pf_province = [], pf_city = [], pf_address = []\<rparr>],
     lms_categories = [], courses = [], lessons = [], statements = [], video_jobs = [], enrollments = [], lesson_progresses = [],
     lesson_questions = [], lesson_answers = [], discussion_reports = [], quizzes = [], quiz_questions = [], quiz_options = [],
     quiz_attempts = [], quiz_answers = [], quiz_unlocks = [], certificates = [], user_skills = [], on_commit_renders = []\<rparr>"

text \<open>A class in which the learner has not begun, and the same class with a quiz.\<close>

definition class0 :: lms_db where
  "class0 = empty_class\<lparr>courses := [plain_row 1 class_course],
     lessons := [plain_row 1 (class_lesson 1 LC_ARTICLE 0), plain_row 2 (class_lesson 2 LC_ARTICLE 0), plain_row 3 (class_lesson 3 LC_VIDEO 100)],
     enrollments := [plain_row 1 (new_enrollment 0 1 1 0)]\<rparr>"

text \<open>The first article was read and then taken out of the course.\<close>

definition withdrawn_class :: lms_db where
  "withdrawn_class = class0\<lparr>lessons := [(plain_row 1 (class_lesson 1 LC_ARTICLE 0))\<lparr>is_active := False\<rparr>,
       plain_row 2 (class_lesson 2 LC_ARTICLE 0), plain_row 3 (class_lesson 3 LC_VIDEO 100)],
     lesson_progresses := [plain_row 1 (report_vals 5 (class_lesson 1 LC_ARTICLE 0)
       \<lparr>pr_watched_seconds = 5, pr_last_position_seconds = None, pr_mark_completed = True, pr_media_opened = False\<rparr>
       (new_progress 5 1 (plain_row 1 (class_lesson 1 LC_ARTICLE 0))))]\<rparr>"

definition read_it :: progress_report where
  "read_it = \<lparr>pr_watched_seconds = 5, pr_last_position_seconds = None, pr_mark_completed = True, pr_media_opened = False\<rparr>"

definition quiz_class :: lms_db where
  "quiz_class = class0\<lparr>lessons := [], quizzes := [plain_row 1 class_quiz],
     quiz_questions := [plain_row 1 (class_question 1 100), plain_row 2 (class_question 2 300)],
     quiz_options := [plain_row 1 (class_option 1 True 1), plain_row 2 (class_option 1 False 2), plain_row 3 (class_option 2 True 1),
       plain_row 4 (class_option 2 False 2)]\<rparr>"

lemma empty_class_init: "lms_init empty_class"
  by (simp add: lms_init_def empty_class_def)

lemma lms_reach: "reach lms_init lms_step s \<Longrightarrow> reach lms_init lms_step (state_after (run_lms E now c) s)"
  by (erule reach_step) (rule lms_stepI)

text \<open>A class reached by calls of the services.\<close>

definition class_calls :: "lms_call list" where
  "class_calls = [CreateCourse 1 class_course, PublishCourse 1, CreateLesson 1 (class_lesson 1 LC_ARTICLE 0),
     CreateLesson 1 (class_lesson 2 LC_VIDEO 100), Enroll 1 1,
     ReportProgress 1 1 \<lparr>pr_watched_seconds = 5, pr_last_position_seconds = None, pr_mark_completed = True, pr_media_opened = False\<rparr>,
     ReportProgress 1 2 \<lparr>pr_watched_seconds = 40, pr_last_position_seconds = Some 3, pr_mark_completed = False, pr_media_opened = False\<rparr>]"

definition run_calls :: "lms_env \<Rightarrow> int \<Rightarrow> lms_call list \<Rightarrow> lms_db \<Rightarrow> lms_db" where
  "run_calls E now cs s = fold (\<lambda>c s. state_after (run_lms E now c) s) cs s"

lemma reach_run_calls: "reach lms_init lms_step s \<Longrightarrow> reach lms_init lms_step (run_calls E now cs s)"
  unfolding run_calls_def by (induction cs arbitrary: s) (auto intro: lms_reach)

definition class1 :: lms_db where
  "class1 = run_calls class_env 10 class_calls empty_class"

lemma class1_reach: "reach lms_init lms_step class1"
  unfolding class1_def by (rule reach_run_calls) (rule reach_init, rule empty_class_init)

lemma class1_progress:
  "map (\<lambda>p. (row_pk p, lp_lesson (vals p), lp_progress_percent (vals p), lp_is_completed (vals p))) (lesson_progresses class1) =
     [(1, 1, 10000, True), (2, 2, 4000, False)]"
  by code_simp

end
