(* ===== verification/Lms_Progress_Rules.thy ===== *)
theory Lms_Progress_Rules
  imports Lms_Example
begin

text \<open>
  Progress of learners: the records are well typed in every reachable state, they only grow, and what it takes to complete a lesson.
\<close>

section \<open>Percentages\<close>

lemma calculate_percent_le: "calculate_percent w d \<le> 10000"
  by (simp add: calculate_percent_def)

lemma percent_after_le: "percent_after l q v \<le> 10000"
  by (simp add: percent_after_def calculate_percent_le)

lemma lesson_share_le:
  assumes "\<forall>p \<in> set ps. lp_progress_percent (vals p) \<le> 10000"
  shows "lesson_share ps l \<le> 10000"
proof (cases "find (\<lambda>p. lp_lesson (vals p) = l) (rev ps)")
  case (Some p)
  then have "p \<in> set ps" by (auto dest: find_SomeD)
  with Some assms show ?thesis by (simp add: lesson_share_def)
qed (simp add: lesson_share_def)

lemma enrollment_percent_le:
  assumes "\<forall>p \<in> set ps. lp_progress_percent (vals p) \<le> 10000"
  shows "enrollment_percent ps ls \<le> 10000"
proof (cases "ls = []")
  case False
  have "sum_list (map (\<lambda>l. lesson_share ps (row_pk l)) ls) \<le> length ls * 10000"
    using lesson_share_le [OF assms] by (induction ls) (auto simp: add_mono)
  with False show ?thesis by (simp add: enrollment_percent_def round_ratio_le)
qed (simp add: enrollment_percent_def)

section \<open>Typed records\<close>

definition course_keys :: "('v \<Rightarrow> nat) \<Rightarrow> 'v table \<Rightarrow> (nat \<times> nat) set" where
  "course_keys f t = (\<lambda>r. (row_pk r, f (vals r))) ` set t"

definition progress_typed :: "(nat \<times> nat) set \<Rightarrow> (nat \<times> nat) set \<Rightarrow> lesson_progress row \<Rightarrow> bool" where
  "progress_typed es ls p =
     ((\<exists>c. (lp_enrollment (vals p), c) \<in> es \<and> (lp_lesson (vals p), c) \<in> ls) \<and> lp_progress_percent (vals p) \<le> 10000 \<and>
      (lp_is_completed (vals p) \<longrightarrow> lp_completed_at (vals p) \<noteq> None))"

definition typed_table :: "(nat \<times> nat) set \<Rightarrow> (nat \<times> nat) set \<Rightarrow> lesson_progress table \<Rightarrow> bool" where
  "typed_table es ls t =
     ((\<forall>p \<in> set t. progress_typed es ls p) \<and> distinct (map (\<lambda>p. (lp_enrollment (vals p), lp_lesson (vals p))) t))"

definition records_typed :: "lms_db \<Rightarrow> bool" where
  "records_typed s =
     (typed_table (course_keys er_course (enrollments s)) (course_keys le_course (lessons s)) (lesson_progresses s) \<and>
      (\<forall>e \<in> set (enrollments s). er_progress_percent (vals e) \<le> 10000))"

lemma typed_table_mono:
  "typed_table es ls t \<Longrightarrow> es \<subseteq> es' \<Longrightarrow> ls \<subseteq> ls' \<Longrightarrow> typed_table es' ls' t"
  unfolding typed_table_def progress_typed_def by blast

lemma typed_table_upd:
  assumes "typed_table es ls t"
    and f: "\<And>v. lp_enrollment (f v) = lp_enrollment v" "\<And>v. lp_lesson (f v) = lp_lesson v"
      "\<And>v. lp_progress_percent v \<le> 10000 \<Longrightarrow> lp_progress_percent (f v) \<le> 10000"
      "\<And>v. (lp_is_completed v \<longrightarrow> lp_completed_at v \<noteq> None) \<Longrightarrow> lp_is_completed (f v) \<longrightarrow> lp_completed_at (f v) \<noteq> None"
  shows "typed_table es ls (tbl_upd k now f t)"
proof -
  have "map (\<lambda>p. (lp_enrollment (vals p), lp_lesson (vals p))) (tbl_upd k now f t) = map (\<lambda>p. (lp_enrollment (vals p), lp_lesson (vals p))) t"
    by (auto simp: tbl_upd_def f)
  moreover have "\<forall>p \<in> set (tbl_upd k now f t). progress_typed es ls p"
    using assms(1) f by (auto simp: set_tbl_upd typed_table_def progress_typed_def)
  ultimately show ?thesis using assms(1) by (simp add: typed_table_def)
qed

text \<open>The table after \<open>get_or_create\<close>: as it was, or with one new row where there was none.\<close>

definition progress_table :: "int \<Rightarrow> nat \<Rightarrow> lesson row \<Rightarrow> lesson_progress table \<Rightarrow> lesson_progress table \<Rightarrow> bool" where
  "progress_table now e l t T =
     (T = t \<or> (\<not> list_ex (same_progress e (row_pk l)) t \<and> T = t @ [new_row now (new_progress now e l) t]))"

lemma get_or_create_progress_Inr:
  assumes "get_or_create_progress now e l s = (Inr p, u)"
  obtains T where "u = s\<lparr>lesson_progresses := T\<rparr>" "progress_table now e l (lesson_progresses s) T" "p \<in> set T" "same_progress e (row_pk l) p"
    "is_active p" "p \<in> set (lesson_progresses s) \<or> p = new_row now (new_progress now e l) (lesson_progresses s)"
proof (cases "find (same_progress e (row_pk l)) (objects (lesson_progresses s))")
  case (Some r)
  then have "r \<in> set (objects (lesson_progresses s))" "same_progress e (row_pk l) r"
    by (auto dest: find_SomeD)
  with Some assms show ?thesis
    by (intro that [of "lesson_progresses s"])
      (auto simp: get_or_create_progress_def svc_inv progress_table_def objects_def bnd_def gets_def ret_def)
next
  case None
  with assms show ?thesis
    by (intro that [of "lesson_progresses s @ [new_row now (new_progress now e l) (lesson_progresses s)]"])
      (auto simp: get_or_create_progress_def svc_inv progress_table_def Let_def same_progress_def new_progress_def)
qed

lemma get_or_create_progress_Inl: "get_or_create_progress now e l s = (Inl x, u) \<Longrightarrow> u = s"
  by (auto simp: get_or_create_progress_def svc_defs Let_def split: option.splits if_splits)

lemma typed_progress_table:
  assumes "typed_table es ls t" "progress_table now e l t T" "(e, c) \<in> es" "(row_pk l, c) \<in> ls"
  shows "typed_table es ls T"
proof -
  have "progress_typed es ls (new_row now (new_progress now e l) t)"
    using assms(3,4) by (auto simp: progress_typed_def new_progress_def)
  moreover have "\<not> list_ex (same_progress e (row_pk l)) t \<Longrightarrow> (e, row_pk l) \<notin> (\<lambda>p. (lp_enrollment (vals p), lp_lesson (vals p))) ` set t"
    by (auto simp: list_ex_iff same_progress_def)
  ultimately show ?thesis
    using assms(1,2) by (auto simp: typed_table_def progress_table_def new_progress_def)
qed

lemma typed_report: "typed_table es ls t \<Longrightarrow> typed_table es ls (tbl_upd k now (report_vals now' l q) t)"
  by (erule typed_table_upd) (auto simp: report_vals_def percent_after_le first_time_def split: option.splits)

lemma typed_stamp: "typed_table es ls t \<Longrightarrow> typed_table es ls (tbl_upd k now (\<lambda>v. v\<lparr>lp_media_opened_at := x\<rparr>) t)"
  by (erule typed_table_upd) simp_all

section \<open>A progress report\<close>

lemma ensure_lesson_sequence_open_Inr:
  assumes "ensure_lesson_sequence_open u l (Some e) s = (Inr y, t)"
  shows "t = s \<and> (le_is_preview (vals l) \<or> staff_user u \<or> er_status (vals e) = EN_COMPLETED \<or>
    list_all (\<lambda>r. row_pk r \<in> set (completed_ids s (row_pk e))) (previous_lessons s (vals l)))"
  using assms by (auto simp: ensure_lesson_sequence_open_def svc_inv split: if_splits)

lemma sync_enrollment_progress_eq:
  "sync_enrollment_progress now e s =
     (Inr (), s\<lparr>enrollments := tbl_upd (row_pk e) now (sync_vals now (progress_of s (row_pk e)) (active_lessons (er_course (vals e)) (lessons s)))
        (enrollments s)\<rparr>)"
  by (simp add: sync_enrollment_progress_def save_enrollment_def svc_defs)

lemma keeps_progress_statement:
  "(\<And>s x. g (s\<lparr>statements := x\<rparr>) = g s) \<Longrightarrow> keeps g (progress_statement E now e l q p)"
  unfolding progress_statement_def by (intro frame_rules) simp

text \<open>What a report that returns has checked, and the tables it leaves.\<close>

lemma update_lesson_progress_Inr:
  assumes "update_lesson_progress E now ek lk q s = (Inr p, t)"
  obtains e u l p0 T where
    "tbl_get ek (enrollments s) = Some e" "er_status (vals e) \<in> {EN_ACTIVE, EN_COMPLETED}" "tbl_all (er_user (vals e)) (lms_users s) = Some u"
    "tbl_all lk (lessons s) = Some l" "le_course (vals l) = er_course (vals e)"
    "le_is_preview (vals l) \<or> staff_user u \<or> er_status (vals e) = EN_COMPLETED \<or>
       list_all (\<lambda>r. row_pk r \<in> set (completed_ids s ek)) (previous_lessons s (vals l))"
    "pr_mark_completed q \<longrightarrow> supports_manual_completion (vals l)"
    "pr_mark_completed q \<and> le_content_type (vals l) = LC_DOCUMENT \<longrightarrow> pr_media_opened q \<or> media_opened_before s ek lk"
    "progress_table now ek l (lesson_progresses s) T" "p0 \<in> set T" "is_active p0" "same_progress ek lk p0"
    "p0 \<in> set (lesson_progresses s) \<or> p0 = new_row now (new_progress now ek l) (lesson_progresses s)"
    "p = p0\<lparr>updated_at := now, vals := report_vals now (vals l) q (vals p0)\<rparr>"
    "lesson_progresses t = tbl_upd (row_pk p0) now (report_vals now (vals l) q) T"
    "enrollments t = tbl_upd ek now (sync_vals now (filter (\<lambda>p. lp_enrollment (vals p) = ek) (objects (lesson_progresses t)))
       (active_lessons (er_course (vals e)) (lessons s))) (tbl_upd ek now (\<lambda>v. v\<lparr>er_last_accessed_lesson := Some lk\<rparr>) (enrollments s))"
    "lessons t = lessons s" "courses t = courses s" "lms_users t = lms_users s"
proof -
  from assms obtain e u l p0 s1 s2 where
    e: "tbl_get ek (enrollments s) = Some e" and u: "tbl_all (er_user (vals e)) (lms_users s) = Some u"
    and st: "er_status (vals e) \<in> {EN_ACTIVE, EN_COMPLETED}" and l: "tbl_all lk (lessons s) = Some l"
    and c: "le_course (vals l) = er_course (vals e)"
    and gate: "ensure_lesson_sequence_open u l (Some e) s = (Inr (), s1)"
    and mode: "\<not> (pr_mark_completed q \<and> \<not> supports_manual_completion (vals l))"
    and eng: "\<not> (pr_mark_completed q \<and> le_content_type (vals l) = LC_DOCUMENT) \<or> pr_media_opened q \<or> media_opened_before s1 ek lk"
    and goc: "get_or_create_progress now ek l s1 = (Inr p0, s2)"
    and rest: "(let p = p0\<lparr>updated_at := now, vals := report_vals now (vals l) q (vals p0)\<rparr> in
        seqn (save_progress now (row_pk p0) (report_vals now (vals l) q))
        (seqn (save_enrollment now ek (\<lambda>v. v\<lparr>er_last_accessed_lesson := Some lk\<rparr>))
        (seqn (sync_enrollment_progress now e)
        (seqn (progress_statement E now e l q p) (ret p))))) s2 = (Inr p, t)"
    unfolding update_lesson_progress_def by (auto simp: svc_inv)
  from ensure_lesson_sequence_open_Inr [OF gate] have s1: "s1 = s" and open_: "le_is_preview (vals l) \<or> staff_user u \<or>
      er_status (vals e) = EN_COMPLETED \<or> list_all (\<lambda>r. row_pk r \<in> set (completed_ids s (row_pk e))) (previous_lessons s (vals l))" by auto
  have ek: "row_pk e = ek" and lk: "row_pk l = lk" using tbl_get_Some [OF e] tbl_all_Some [OF l] by auto
  from goc [unfolded s1] obtain T where T: "s2 = s\<lparr>lesson_progresses := T\<rparr>" "progress_table now ek l (lesson_progresses s) T" "p0 \<in> set T"
      "same_progress ek lk p0" "is_active p0" "p0 \<in> set (lesson_progresses s) \<or> p0 = new_row now (new_progress now ek l) (lesson_progresses s)"
    using lk by (auto elim: get_or_create_progress_Inr)
  let ?p = "p0\<lparr>updated_at := now, vals := report_vals now (vals l) q (vals p0)\<rparr>"
  let ?P = "tbl_upd (row_pk p0) now (report_vals now (vals l) q) T"
  let ?s3 = "s\<lparr>lesson_progresses := ?P, enrollments := tbl_upd ek now (\<lambda>v. v\<lparr>er_last_accessed_lesson := Some lk\<rparr>) (enrollments s)\<rparr>"
  from rest obtain x s4 where s4: "sync_enrollment_progress now e ?s3 = (Inr (), s4)"
      and stm: "progress_statement E now e l q ?p s4 = (Inr x, t)" and p: "p = ?p"
    by (auto simp: svc_inv T(1) save_progress_def save_enrollment_def Let_def)
  have fr: "lesson_progresses t = lesson_progresses s4" "enrollments t = enrollments s4" "lessons t = lessons s4" "courses t = courses s4"
      "lms_users t = lms_users s4"
    by (rule keepsD [OF keeps_progress_statement stm]; simp)+
  show ?thesis
  proof (rule that [OF e st u l c _ _ _ T(2,3,5,4,6) p])
    show "lesson_progresses t = ?P" using s4 fr(1) by (auto simp: sync_enrollment_progress_eq)
    then show "enrollments t = tbl_upd ek now (sync_vals now (filter (\<lambda>p. lp_enrollment (vals p) = ek) (objects (lesson_progresses t)))
       (active_lessons (er_course (vals e)) (lessons s))) (tbl_upd ek now (\<lambda>v. v\<lparr>er_last_accessed_lesson := Some lk\<rparr>) (enrollments s))"
      using s4 fr(2) by (auto simp: sync_enrollment_progress_eq ek progress_of_def)
  qed (use s4 fr open_ mode eng s1 ek in \<open>auto simp: sync_enrollment_progress_eq\<close>)
qed

section \<open>Every call keeps the records typed\<close>

text \<open>Lessons stay in their course, and enrolments too.\<close>

interpretation lesson_growth: evolution "\<lambda>s t. course_keys le_course (lessons s) \<subseteq> course_keys le_course (lessons t)"
  by unfold_locales auto

lemma course_keys_map:
  "(\<And>r. row_pk (f r) = row_pk r \<and> g (vals (f r)) = g (vals r)) \<Longrightarrow> course_keys g (map f t) = course_keys g t"
  by (simp add: course_keys_def image_image)

lemma course_keys_upd: "(\<And>v. g (f v) = g v) \<Longrightarrow> course_keys g (tbl_upd k now f t) = course_keys g t"
  unfolding tbl_upd_def by (rule course_keys_map) simp

lemma lesson_calls_grow:
  "evolves (\<lambda>s t. course_keys le_course (lessons s) \<subseteq> course_keys le_course (lessons t)) (create_lesson E now k l)"
  "evolves (\<lambda>s t. course_keys le_course (lessons s) \<subseteq> course_keys le_course (lessons t)) (update_lesson now k p)"
  "evolves (\<lambda>s t. course_keys le_course (lessons s) \<subseteq> course_keys le_course (lessons t)) (delete_lesson now k)"
proof -
  have counters: "evolves (\<lambda>s t. course_keys le_course (lessons s) \<subseteq> course_keys le_course (lessons t)) (sync_course_counters now c)" for c
    by (rule lesson_growth.e_keeps [OF keeps_counters [of lessons]]) simp_all
  have render: "evolves (\<lambda>s t. course_keys le_course (lessons s) \<subseteq> course_keys le_course (lessons t)) (schedule_document_render r)" for r
    by (simp add: evolves_def schedule_document_render_def svc_defs)
  have patch: "course_keys le_course (update_row True k now (apply_lesson_patch p) act t) = course_keys le_course t" for act t
    unfolding update_row_def by (simp add: course_keys_map apply_lesson_patch_def)
  have deact: "course_keys le_course (tbl_set_active k now False t) = course_keys le_course t" for t
    unfolding tbl_set_active_def by (rule course_keys_map) simp
  show "evolves (\<lambda>s t. course_keys le_course (lessons s) \<subseteq> course_keys le_course (lessons t)) (create_lesson E now k l)"
    unfolding create_lesson_def Let_def
    by (intro lesson_growth.e_rules counters) (auto simp: evolves_def modify_def course_keys_def)
  show "evolves (\<lambda>s t. course_keys le_course (lessons s) \<subseteq> course_keys le_course (lessons t)) (update_lesson now k p)"
    unfolding update_lesson_def
    by (intro lesson_growth.e_rules counters render) (simp add: evolves_def modify_def patch)
  show "evolves (\<lambda>s t. course_keys le_course (lessons s) \<subseteq> course_keys le_course (lessons t)) (delete_lesson now k)"
    unfolding delete_lesson_def
    by (intro lesson_growth.e_rules counters) (simp add: evolves_def modify_def deact)
qed

text \<open>A call that leaves the records of learners alone and lets the lessons grow.\<close>

lemma preserves_outside:
  assumes "keeps learn_view m" and "evolves (\<lambda>s t. course_keys le_course (lessons s) \<subseteq> course_keys le_course (lessons t)) m"
  shows "preserves records_typed m"
  unfolding preserves_def
proof (intro allI impI)
  fix s
  assume inv: "records_typed s"
  have "learn_view (state_after m s) = learn_view s" using assms(1) by (simp add: keeps_def state_after_def)
  then have "enrollments (state_after m s) = enrollments s" "lesson_progresses (state_after m s) = lesson_progresses s"
    by (simp_all add: learn_view_def)
  moreover have "course_keys le_course (lessons s) \<subseteq> course_keys le_course (lessons (state_after m s))"
    using assms(2) by (simp add: evolves_def state_after_def)
  ultimately show "records_typed (state_after m s)"
    using inv typed_table_mono unfolding records_typed_def by fastforce
qed

lemma preserves_quiet: "keeps learn_view m \<Longrightarrow> keeps lessons m \<Longrightarrow> preserves records_typed m"
  by (erule preserves_outside) (erule lesson_growth.e_keeps, simp)

lemma enrollments_typed:
  assumes "records_typed s" and "lesson_progresses t = lesson_progresses s" "lessons t = lessons s"
    and "course_keys er_course (enrollments s) \<subseteq> course_keys er_course (enrollments t)"
    and "\<forall>e \<in> set (enrollments t). er_progress_percent (vals e) \<le> 10000"
  shows "records_typed t"
  using assms typed_table_mono unfolding records_typed_def by fastforce

definition percents_ok :: "enrollment table \<Rightarrow> bool" where
  "percents_ok t = (\<forall>e \<in> set t. er_progress_percent (vals e) \<le> 10000)"

definition same_place :: "lms_db \<Rightarrow> lms_db \<Rightarrow> bool" where
  "same_place s t = (lesson_progresses t = lesson_progresses s \<and> lessons t = lessons s \<and>
     course_keys er_course (enrollments s) \<subseteq> course_keys er_course (enrollments t) \<and>
     (percents_ok (enrollments s) \<longrightarrow> percents_ok (enrollments t)))"

interpretation place: evolution same_place
  by unfold_locales (simp add: same_place_def, simp add: same_place_def, blast)

lemma preserves_place:
  assumes "evolves same_place m"
  shows "preserves records_typed m"
  unfolding preserves_def
proof (intro allI impI)
  fix s
  assume inv: "records_typed s"
  have "same_place s (state_after m s)" using assms by (simp add: evolves_def state_after_def)
  then show "records_typed (state_after m s)"
    using enrollments_typed [OF inv] inv by (simp add: same_place_def records_typed_def percents_ok_def)
qed

definition place_view :: "lms_db \<Rightarrow> lesson_progress table \<times> lesson table \<times> enrollment table" where
  "place_view s = (lesson_progresses s, lessons s, enrollments s)"

lemma place_keeps: "keeps place_view m \<Longrightarrow> evolves same_place m"
  by (erule place.e_keeps) (simp add: place_view_def same_place_def)

lemma place_append:
  "er_progress_percent (vals r) \<le> 10000 \<Longrightarrow> evolves same_place (modify (\<lambda>s. s\<lparr>enrollments := enrollments s @ [r]\<rparr>))"
  by (auto simp: evolves_def modify_def same_place_def course_keys_def percents_ok_def)

lemma place_save:
  assumes "\<And>v. er_course (f v) = er_course v" "\<And>v. er_progress_percent v \<le> 10000 \<Longrightarrow> er_progress_percent (f v) \<le> 10000"
  shows "evolves same_place (save_enrollment now k f)"
  using assms by (auto simp: evolves_def save_enrollment_def modify_def same_place_def course_keys_upd percents_ok_def set_tbl_upd)

lemma place_calls:
  "evolves same_place (enroll_user_in_course now u k)" "evolves same_place (complete_enrollment_after_pass now a)"
proof -
  have counters: "evolves same_place (sync_course_counters now c)" for c
    by (rule place_keeps [OF keeps_counters]) (simp add: place_view_def)
  have ens: "evolves same_place (ensure_user_can_enroll u)" by (rule place_keeps) (rule keeps_gate)
  show "evolves same_place (enroll_user_in_course now u k)"
    unfolding enroll_user_in_course_def Let_def
    by (intro place.e_rules counters ens place_append) (simp add: new_enrollment_def)
  show "evolves same_place (complete_enrollment_after_pass now a)"
    unfolding complete_enrollment_after_pass_def by (intro place.e_rules counters place_save) simp_all
qed

lemma place_exam:
  "evolves same_place (start_quiz_attempt E now k u)" "evolves same_place (submit_quiz_attempt E now k ans)"
  "evolves same_place (ensure_certificate_pdf_ready E now c)" "evolves same_place (revoke_certificate now k rv a)"
proof -
  have blocks: "evolves same_place (save_attempt now j f)" "evolves same_place (answer_question now at ans i)"
    "evolves same_place (submit_statement E now at)" "evolves same_place (get_or_create_certificate E now v)"
    "evolves same_place (create_skill_for_certificate E now ce)"
    "evolves same_place (record_learning_activity_statement now ur cr vb ot oi refs rs cx key)" for j f at i v ce ur cr vb ot oi refs rs cx key
    by (rule place_keeps; intro keeps_exam_blocks keeps_issue_blocks keeps_record; simp add: place_view_def)+
  have drop: "evolves same_place (modify (\<lambda>s. s\<lparr>quiz_answers := F s\<rparr>))" for F
    by (simp add: evolves_def modify_def same_place_def)
  have "keeps place_view (start_quiz_attempt E now k u)" "keeps place_view (revoke_certificate now k rv a)"
    unfolding start_quiz_attempt_def start_fresh_attempt_def revoke_certificate_def Let_def
    by (intro frame_rules keeps_exam_blocks; simp add: place_view_def)+
  then show "evolves same_place (start_quiz_attempt E now k u)" "evolves same_place (revoke_certificate now k rv a)"
    by (auto intro: place_keeps)
  show "evolves same_place (ensure_certificate_pdf_ready E now c)"
    by (rule place_keeps, rule keeps_exam_blocks) (simp add: place_view_def)
  show "evolves same_place (submit_quiz_attempt E now k ans)"
    unfolding submit_quiz_attempt_def grade_attempt_def issue_certificate_for_attempt_def Let_def
    by (intro place.e_rules blocks drop place_calls)
qed

lemma stamp_typed:
  assumes inv: "records_typed s" and "e \<in> set (enrollments s)" "l \<in> set (lessons s)" "er_course (vals e) = le_course (vals l)"
  shows "records_typed (state_after (stamp_media_opened now (Some e) l) s)"
proof (cases "get_or_create_progress now (row_pk e) l s")
  case (Pair r u)
  have keys: "(row_pk e, le_course (vals l)) \<in> course_keys er_course (enrollments s)"
    "(row_pk l, le_course (vals l)) \<in> course_keys le_course (lessons s)"
    using assms(2-4) by (auto simp: course_keys_def image_iff intro: bexI [of _ e])
  show ?thesis
  proof (cases r)
    case (Inl x)
    then show ?thesis
      using Pair get_or_create_progress_Inl [of now "row_pk e" l s x u] inv
      by (simp add: stamp_media_opened_def state_after_bnd)
  next
    case (Inr p)
    with Pair obtain T where T: "u = s\<lparr>lesson_progresses := T\<rparr>" "progress_table now (row_pk e) l (lesson_progresses s) T"
      by (auto elim: get_or_create_progress_Inr)
    have "typed_table (course_keys er_course (enrollments s)) (course_keys le_course (lessons s)) T"
      using inv keys typed_progress_table [OF _ T(2)] unfolding records_typed_def by blast
    then show ?thesis
      using Pair Inr T(1) inv by (simp add: stamp_media_opened_def state_after_bnd save_progress_def records_typed_def typed_stamp)
  qed
qed

lemma state_after_check: "state_after (seqn (check b e) m) s = (if b then state_after m s else s)"
  by (simp add: state_after_def svc_defs)

lemma state_after_then_ret: "state_after (seqn m (ret x)) s = state_after m s"
  by (auto simp: state_after_def svc_defs split: prod.split sum.split)

lemma media_gate_cases:
  obtains x where "media_gate l u s = (Inl x, s)"
  | enr where "media_gate l u s = (Inr enr, s)" "enr = find_enrollment s (row_pk u) (le_course (vals l))"
proof (cases "media_gate l u s")
  case (Pair r t)
  then have "t = s" using keepsD [OF keeps_gate(1) [of id] Pair] by simp
  then show ?thesis
    using that Pair by (cases r) (auto simp: media_gate_def svc_inv)
qed

lemma media_access_state:
  assumes "tbl_all k (lessons s) = Some l" "media_gate l u s = (Inr enr, s)"
  shows "state_after (build_lesson_media_access E now k u m) s \<in> {s, state_after (stamp_media_opened now enr l) s}"
proof -
  have "follow lessons k s = (Inr l, s)" by (simp add: follow_def assms(1))
  then show ?thesis
    unfolding build_lesson_media_access_def state_after_bnd assms(2) Let_def
    by (simp only: prod.case sum.case state_after_bnd assms(2) state_after_check state_after_then_ret state_after_simps if_distrib [of "\<lambda>m. state_after m s"] split: if_split) blast
qed

lemma find_enrollment_Some:
  "find_enrollment s u c = Some e \<Longrightarrow> e \<in> set (enrollments s) \<and> er_course (vals e) = c \<and> er_user (vals e) = u \<and> is_active e \<and>
     er_status (vals e) \<in> {EN_ACTIVE, EN_COMPLETED}"
  unfolding find_enrollment_def by (drule find_SomeD) (auto simp: objects_def live_enrollment_def enrollment_of_def)

lemma media_access_typed: "preserves records_typed (build_lesson_media_access E now k u m)"
  unfolding preserves_def
proof (intro allI impI)
  fix s
  assume inv: "records_typed s"
  show "records_typed (state_after (build_lesson_media_access E now k u m) s)"
  proof (cases "tbl_all k (lessons s)")
    case None
    then show ?thesis using inv by (simp add: build_lesson_media_access_def state_after_bnd follow_def)
  next
    case (Some l)
    show ?thesis
    proof (cases rule: media_gate_cases [of l u s])
      case (1 x)
      then show ?thesis using inv Some by (simp add: build_lesson_media_access_def state_after_bnd follow_def)
    next
      case (2 enr)
      have "records_typed (state_after (stamp_media_opened now enr l) s)"
      proof (cases enr)
        case None
        then show ?thesis using inv by (simp add: stamp_media_opened_def)
      next
        case (Some e)
        then show ?thesis
          using 2 find_enrollment_Some [of s "row_pk u" "le_course (vals l)" e] tbl_all_Some [OF \<open>tbl_all k (lessons s) = Some l\<close>] stamp_typed [OF inv]
          by auto
      qed
      then show ?thesis using media_access_state [OF Some 2(1), of E now m] inv by auto
    qed
  qed
qed

lemma report_typed: "preserves records_typed (update_lesson_progress E now ek lk q)"
proof (rule preserves_transactional)
  show "transactional (update_lesson_progress E now ek lk q)" by (simp add: update_lesson_progress_def)
next
  fix s p t
  assume inv: "records_typed s" and run: "update_lesson_progress E now ek lk q s = (Inr p, t)"
  from run obtain e u l T and p0 :: "lesson_progress row" where e: "tbl_get ek (enrollments s) = Some e" and l: "tbl_all lk (lessons s) = Some l"
    and c: "le_course (vals l) = er_course (vals e)" and T: "progress_table now ek l (lesson_progresses s) T"
    and P: "lesson_progresses t = tbl_upd (row_pk p0) now (report_vals now (vals l) q) T"
    and en: "enrollments t = tbl_upd ek now (sync_vals now (filter (\<lambda>p. lp_enrollment (vals p) = ek) (objects (lesson_progresses t)))
       (active_lessons (er_course (vals e)) (lessons s))) (tbl_upd ek now (\<lambda>v. v\<lparr>er_last_accessed_lesson := Some lk\<rparr>) (enrollments s))"
    and ls: "lessons t = lessons s"
    by (rule update_lesson_progress_Inr)
  have keys: "(ek, er_course (vals e)) \<in> course_keys er_course (enrollments s)" "(row_pk l, er_course (vals e)) \<in> course_keys le_course (lessons s)"
    using tbl_get_Some [OF e] tbl_all_Some [OF l] c by (auto simp: course_keys_def image_iff)
  have typed: "typed_table (course_keys er_course (enrollments s)) (course_keys le_course (lessons s)) (lesson_progresses t)"
    unfolding P using inv typed_report typed_progress_table [OF _ T keys] unfolding records_typed_def by blast
  then have "\<forall>p \<in> set (lesson_progresses t). lp_progress_percent (vals p) \<le> 10000"
    by (auto simp: typed_table_def progress_typed_def)
  then have sv: "er_progress_percent (sync_vals now (filter (\<lambda>p. lp_enrollment (vals p) = ek) (objects (lesson_progresses t))) ls v) \<le> 10000" for ls v
    by (simp add: sync_vals_def Let_def enrollment_percent_le objects_def)
  have "\<forall>e \<in> set (enrollments s). er_progress_percent (vals e) \<le> 10000" using inv by (simp add: records_typed_def)
  then have "\<forall>e \<in> set (enrollments t). er_progress_percent (vals e) \<le> 10000"
    unfolding en by (intro all_tbl_upd) (simp_all add: sv)
  moreover have "course_keys er_course (enrollments t) = course_keys er_course (enrollments s)"
    unfolding en by (simp add: course_keys_upd sync_vals_def Let_def)
  ultimately show "records_typed t" using typed ls by (simp add: records_typed_def)
qed

lemma call_typed: "preserves records_typed (run_lms E now c)"
proof (cases c)
  case (CreateLesson k l)
  show ?thesis unfolding CreateLesson run_lms.simps by (intro preserves_done preserves_outside catalog_keeps lesson_calls_grow)
next
  case (UpdateLesson k p)
  show ?thesis unfolding UpdateLesson run_lms.simps by (intro preserves_done preserves_outside catalog_keeps lesson_calls_grow)
next
  case (DeleteLesson k)
  show ?thesis unfolding DeleteLesson run_lms.simps by (intro preserves_done preserves_outside catalog_keeps lesson_calls_grow)
next
  case (Enroll u k)
  show ?thesis unfolding Enroll run_lms.simps by (intro preserves_by_user preserves_place place_calls)
next
  case (MediaAccess k u m)
  show ?thesis unfolding MediaAccess run_lms.simps by (intro preserves_by_user media_access_typed)
next
  case (ReportProgress e l q)
  show ?thesis unfolding ReportProgress run_lms.simps by (intro preserves_done report_typed)
next
  case (StartQuiz k u)
  show ?thesis unfolding StartQuiz run_lms.simps by (intro preserves_by_user preserves_place place_exam)
next
  case (SubmitQuiz k a)
  show ?thesis unfolding SubmitQuiz run_lms.simps by (intro preserves_done preserves_place place_exam)
next
  case (RenderCertificate k)
  show ?thesis unfolding RenderCertificate run_lms.simps by (intro preserves_bnd preserves_follow preserves_done preserves_place place_exam)
next
  case (RevokeCertificate k u a)
  show ?thesis unfolding RevokeCertificate run_lms.simps by (intro preserves_done preserves_place place_exam)
qed (simp_all only: run_lms.simps,
  (rule preserves_done preserves_by_user, rule preserves_quiet, rule catalog_keeps discussion_keeps quiz_setup_keeps,
   rule catalog_keeps_lessons discussion_keeps_lessons quiz_setup_keeps_lessons)+)

lemma init_typed: "lms_init s \<Longrightarrow> records_typed s"
  by (simp add: lms_init_def records_typed_def typed_table_def)

interpretation records: invariant_system lms_init lms_step records_typed
  by unfold_locales (auto simp: init_typed elim!: lms_stepE intro: call_typed [unfolded preserves_def, rule_format])

section \<open>Properties\<close>

text \<open>C32. In every reachable state the records of learners are well typed: a progress record belongs to an enrolment and a lesson
  that exist and are of one course, there is one record for the two, its percentage is at most a hundred, and a completed
  record carries the time of completion.\<close>

theorem learning_records_well_typed:
  assumes "reach lms_init lms_step s" and "p \<in> set (lesson_progresses s)"
  shows "\<exists>e l. e \<in> set (enrollments s) \<and> row_pk e = lp_enrollment (vals p) \<and> l \<in> set (lessons s) \<and> row_pk l = lp_lesson (vals p) \<and>
      le_course (vals l) = er_course (vals e) \<and> lp_progress_percent (vals p) \<le> 10000 \<and> er_progress_percent (vals e) \<le> 10000 \<and>
      (lp_is_completed (vals p) \<longrightarrow> lp_completed_at (vals p) \<noteq> None) \<and>
      length (filter (same_progress (row_pk e) (row_pk l)) (lesson_progresses s)) = 1"
proof -
  have inv: "records_typed s" by (rule records.reach_inv [OF assms(1)])
  then have typed: "progress_typed (course_keys er_course (enrollments s)) (course_keys le_course (lessons s)) p"
    and dist: "distinct (map (\<lambda>p. (lp_enrollment (vals p), lp_lesson (vals p))) (lesson_progresses s))"
    using assms(2) by (auto simp: records_typed_def typed_table_def)
  from dist assms(2) have "filter (same_progress (lp_enrollment (vals p)) (lp_lesson (vals p))) (lesson_progresses s) = [p]"
  proof (induction "lesson_progresses s" arbitrary: s)
    case (Cons a t)
    have "filter (same_progress (lp_enrollment (vals p)) (lp_lesson (vals p))) t = (if a = p then [] else [p])"
    proof (cases "a = p")
      case True
      with Cons.prems(1) Cons.hyps(2) [symmetric] show ?thesis
        by (auto simp: filter_empty_conv same_progress_def image_iff)
    next
      case False
      with Cons.prems Cons.hyps(1) [of "s\<lparr>lesson_progresses := t\<rparr>"] Cons.hyps(2) [symmetric] show ?thesis by simp
    qed
    with Cons.prems Cons.hyps(2) [symmetric] show ?case
      by (auto simp: same_progress_def image_iff split: if_splits)
  qed simp
  moreover obtain e l where "e \<in> set (enrollments s)" "row_pk e = lp_enrollment (vals p)" "l \<in> set (lessons s)" "row_pk l = lp_lesson (vals p)"
      "le_course (vals l) = er_course (vals e)"
    using typed by (auto simp: progress_typed_def course_keys_def)
  moreover have "er_progress_percent (vals e) \<le> 10000" if "e \<in> set (enrollments s)" for e
    using inv that by (simp add: records_typed_def)
  ultimately show ?thesis using typed unfolding progress_typed_def by force
qed

theorem learning_records_well_typed_witness:
  "list_all (\<lambda>p. lp_progress_percent (vals p) \<le> 10000) (lesson_progresses class1) \<and>
   map (\<lambda>p. (lp_lesson (vals p), lp_progress_percent (vals p))) (lesson_progresses class1) = [(1, 10000), (2, 4000)]"
proof
  show "list_all (\<lambda>p. lp_progress_percent (vals p) \<le> 10000) (lesson_progresses class1)"
    using learning_records_well_typed [OF class1_reach] unfolding list_all_iff by blast
  show "map (\<lambda>p. (lp_lesson (vals p), lp_progress_percent (vals p))) (lesson_progresses class1) = [(1, 10000), (2, 4000)]"
    using class1_progress by auto
qed

text \<open>Records only grow.\<close>

definition keeps_time :: "int option \<Rightarrow> int option \<Rightarrow> bool" where
  "keeps_time a b = (a = None \<or> b = a)"

definition progress_le :: "lesson_progress \<Rightarrow> lesson_progress \<Rightarrow> bool" where
  "progress_le v w =
     (lp_enrollment w = lp_enrollment v \<and> lp_lesson w = lp_lesson v \<and> lp_watched_seconds v \<le> lp_watched_seconds w \<and>
      (lp_is_completed v \<longrightarrow> lp_is_completed w) \<and> keeps_time (lp_completed_at v) (lp_completed_at w) \<and>
      keeps_time (lp_first_watched_at v) (lp_first_watched_at w) \<and> keeps_time (lp_media_opened_at v) (lp_media_opened_at w))"

definition rows_grow :: "lesson_progress table \<Rightarrow> lesson_progress table \<Rightarrow> bool" where
  "rows_grow t u = (\<forall>p \<in> set t. \<exists>q \<in> set u. row_pk q = row_pk p \<and> progress_le (vals p) (vals q))"

definition progress_grows :: "lms_db \<Rightarrow> lms_db \<Rightarrow> bool" where
  "progress_grows s t =
     (distinct (map row_pk (lesson_progresses s)) \<longrightarrow>
      distinct (map row_pk (lesson_progresses t)) \<and> rows_grow (lesson_progresses s) (lesson_progresses t))"

lemma progress_le_refl: "progress_le v v"
  by (simp add: progress_le_def keeps_time_def)

lemma progress_le_trans: "progress_le u v \<Longrightarrow> progress_le v w \<Longrightarrow> progress_le u w"
  by (auto simp: progress_le_def keeps_time_def)

lemma rows_grow_refl: "rows_grow t t"
  using progress_le_refl by (auto simp: rows_grow_def)

lemma rows_grow_trans: "rows_grow t u \<Longrightarrow> rows_grow u w \<Longrightarrow> rows_grow t w"
  unfolding rows_grow_def
proof
  fix p
  assume tu: "\<forall>p \<in> set t. \<exists>q \<in> set u. row_pk q = row_pk p \<and> progress_le (vals p) (vals q)"
    and uw: "\<forall>p \<in> set u. \<exists>q \<in> set w. row_pk q = row_pk p \<and> progress_le (vals p) (vals q)" and p: "p \<in> set t"
  from tu p obtain q where q: "q \<in> set u" "row_pk q = row_pk p" "progress_le (vals p) (vals q)" by blast
  with uw obtain r where "r \<in> set w" "row_pk r = row_pk q" "progress_le (vals q) (vals r)" by blast
  with q show "\<exists>q \<in> set w. row_pk q = row_pk p \<and> progress_le (vals p) (vals q)" by (metis progress_le_trans)
qed

interpretation growth: evolution progress_grows
proof
  show "progress_grows s s" for s by (simp add: progress_grows_def rows_grow_refl)
  show "progress_grows s u" if "progress_grows s t" "progress_grows t u" for s t u
    using that rows_grow_trans unfolding progress_grows_def by blast
qed

lemma rows_grow_upd:
  assumes "\<And>p. p \<in> set t \<Longrightarrow> row_pk p = k \<Longrightarrow> progress_le (vals p) (f (vals p))"
  shows "rows_grow t (tbl_upd k now f t)"
  unfolding rows_grow_def
proof
  fix p
  assume p: "p \<in> set t"
  then have "(if row_pk p = k then p\<lparr>updated_at := now, vals := f (vals p)\<rparr> else p) \<in> set (tbl_upd k now f t)" by (simp add: tbl_upd_def)
  moreover have "progress_le (vals p) (vals (if row_pk p = k then p\<lparr>updated_at := now, vals := f (vals p)\<rparr> else p))"
    using assms [OF p] progress_le_refl by simp
  ultimately show "\<exists>q \<in> set (tbl_upd k now f t). row_pk q = row_pk p \<and> progress_le (vals p) (vals q)"
    by (intro bexI [of _ "if row_pk p = k then p\<lparr>updated_at := now, vals := f (vals p)\<rparr> else p"]) auto
qed

lemma rows_grow_table: "progress_table now e l t T \<Longrightarrow> rows_grow t T"
  using progress_le_refl by (auto simp: progress_table_def rows_grow_def)

lemma distinct_table: "progress_table now e l t T \<Longrightarrow> distinct (map row_pk t) \<Longrightarrow> distinct (map row_pk T)"
  using next_pk_fresh [of t] by (auto simp: progress_table_def)

lemma grows_keeps: "keeps lesson_progresses m \<Longrightarrow> evolves progress_grows m"
  by (erule growth.e_keeps) (simp add: progress_grows_def rows_grow_refl)

lemma grows_view: "keeps learn_view m \<Longrightarrow> evolves progress_grows m"
  by (rule grows_keeps, erule keeps_comp) (rule views(2))

lemma report_vals_grow: "progress_le v (report_vals now l q v)"
  by (auto simp: progress_le_def report_vals_def keeps_time_def first_time_def watched_after_def Let_def split: option.splits)

lemma grows_report: "evolves progress_grows (update_lesson_progress E now ek lk q)"
  unfolding evolves_def
proof
  fix s
  show "progress_grows s (snd (update_lesson_progress E now ek lk q s))"
  proof (cases "update_lesson_progress E now ek lk q s")
    case (Pair r t)
    show ?thesis
    proof (cases r)
      case (Inl x)
      with Pair have "t = s" unfolding update_lesson_progress_def by (auto dest: atomic_Inl)
      with Pair show ?thesis by (simp add: growth.refl)
    next
      case (Inr p)
      with Pair have "update_lesson_progress E now ek lk q s = (Inr p, t)" by simp
      then obtain l T and p0 :: "lesson_progress row" where T: "progress_table now ek l (lesson_progresses s) T"
        and P: "lesson_progresses t = tbl_upd (row_pk p0) now (report_vals now (vals l) q) T"
        by (rule update_lesson_progress_Inr)
      have "rows_grow T (lesson_progresses t)" unfolding P by (rule rows_grow_upd) (rule report_vals_grow)
      with rows_grow_table [OF T] distinct_table [OF T] P Pair show ?thesis
        by (auto simp: progress_grows_def intro: rows_grow_trans)
    qed
  qed
qed

lemma grows_stamp: "progress_grows s (state_after (stamp_media_opened now enr l) s)"
proof (cases enr)
  case (Some e)
  show ?thesis
  proof (cases "get_or_create_progress now (row_pk e) l s")
    case (Pair r u)
    show ?thesis
    proof (cases r)
      case (Inl x)
      with Pair get_or_create_progress_Inl [of now "row_pk e" l s x u] Some show ?thesis
        by (simp add: stamp_media_opened_def state_after_bnd growth.refl)
    next
      case (Inr p)
      with Pair obtain T where T: "u = s\<lparr>lesson_progresses := T\<rparr>" "progress_table now (row_pk e) l (lesson_progresses s) T" "p \<in> set T"
        by (auto elim: get_or_create_progress_Inr)
      have "rows_grow T (tbl_upd (row_pk p) now (\<lambda>v. v\<lparr>lp_media_opened_at := Some now\<rparr>) T)"
        if "distinct (map row_pk T)" "lp_media_opened_at (vals p) = None"
        by (rule rows_grow_upd) (use that T(3) in \<open>auto simp: progress_le_def keeps_time_def dest: distinct_pk_eq\<close>)
      with T distinct_table [OF T(2)] rows_grow_table [OF T(2)] Pair Inr Some show ?thesis
        by (auto simp: stamp_media_opened_def state_after_bnd save_progress_def progress_grows_def growth.refl intro: rows_grow_refl rows_grow_trans)
    qed
  qed
qed (simp add: stamp_media_opened_def growth.refl)

lemma grows_media_access: "evolves progress_grows (build_lesson_media_access E now k u m)"
  unfolding evolves_def
proof
  fix s
  have "progress_grows s (state_after (build_lesson_media_access E now k u m) s)"
  proof (cases "tbl_all k (lessons s)")
    case None
    then show ?thesis by (simp add: build_lesson_media_access_def state_after_bnd follow_def growth.refl)
  next
    case (Some l)
    show ?thesis
    proof (cases rule: media_gate_cases [of l u s])
      case (1 x)
      then show ?thesis using Some by (simp add: build_lesson_media_access_def state_after_bnd follow_def growth.refl)
    next
      case (2 enr)
      then show ?thesis using media_access_state [OF Some 2(1), of E now m] grows_stamp [of s now enr l] by (auto simp: growth.refl)
    qed
  qed
  then show "progress_grows s (snd (build_lesson_media_access E now k u m s))" by (simp add: state_after_def)
qed

lemma grows_done: "evolves progress_grows m \<Longrightarrow> evolves progress_grows (done_svc m)"
  unfolding done_svc_def by (intro growth.e_rules)

lemma grows_by_user: "(\<And>r. evolves progress_grows (f r)) \<Longrightarrow> evolves progress_grows (by_user u f)"
  unfolding by_user_def by (intro growth.e_rules grows_done)

lemma call_grows: "evolves progress_grows (run_lms E now c)"
proof (cases c)
  case (MediaAccess k u m)
  show ?thesis unfolding MediaAccess run_lms.simps by (intro grows_by_user grows_media_access)
next
  case (ReportProgress e l q)
  show ?thesis unfolding ReportProgress run_lms.simps by (intro grows_done grows_report)
next
  case (RenderCertificate k)
  show ?thesis unfolding RenderCertificate run_lms.simps by (intro grows_keeps keeps_bnd keeps_follow keeps_done_svc exam_keeps_progress)
qed (simp_all only: run_lms.simps,
  (rule grows_done grows_by_user, (rule grows_keeps, rule exam_keeps_progress) | rule grows_done grows_by_user, rule grows_view,
   rule catalog_keeps discussion_keeps quiz_setup_keeps)+)

lemma step_grows: "lms_step s t \<Longrightarrow> progress_grows s t"
  using call_grows by (auto elim!: lms_stepE simp: evolves_def state_after_def)

lemma progress_keys: "reach lms_init lms_step s \<Longrightarrow> distinct (map row_pk (lesson_progresses s))"
  by (induction rule: reach.induct) (auto simp: lms_init_def progress_grows_def dest: step_grows)

text \<open>C33. Progress is never lost: from any reachable state on, whatever calls follow, every progress record stays, the watched seconds do
  not decrease, a completed lesson stays completed with its first time of completion, and the first opening of the
  document stays on record.\<close>

theorem progress_never_lost:
  assumes "reach lms_init lms_step s" and "lms_step\<^sup>*\<^sup>* s t" and "p \<in> set (lesson_progresses s)"
  shows "\<exists>q \<in> set (lesson_progresses t). row_pk q = row_pk p \<and> progress_le (vals p) (vals q)"
proof -
  from assms(2) have "progress_grows s t"
    by (induction rule: rtranclp_induct) (auto intro: growth.refl growth.trans step_grows)
  with progress_keys [OF assms(1)] assms(3) show ?thesis by (simp add: progress_grows_def rows_grow_def)
qed

theorem progress_never_lost_witness:
  "\<exists>q \<in> set (lesson_progresses (state_after (run_lms class_env 20 (DeleteLesson 1)) class1)). lp_lesson (vals q) = 1 \<and> lp_is_completed (vals q)"
proof -
  have "(1, 1, 10000, True) \<in> set (map (\<lambda>p. (row_pk p, lp_lesson (vals p), lp_progress_percent (vals p), lp_is_completed (vals p)))
      (lesson_progresses class1))"
    unfolding class1_progress by simp
  then obtain p where p: "p \<in> set (lesson_progresses class1)" "lp_lesson (vals p) = 1" "lp_is_completed (vals p)"
    by (auto simp only: set_map image_iff prod.inject)
  have "lms_step\<^sup>*\<^sup>* class1 (state_after (run_lms class_env 20 (DeleteLesson 1)) class1)" by (rule r_into_rtranclp) (rule lms_stepI)
  from progress_never_lost [OF class1_reach this p(1)] p show ?thesis by (auto simp: progress_le_def)
qed

text \<open>The reference: what earns the completion of a lesson.\<close>

definition earns_completion :: "lms_db \<Rightarrow> nat \<Rightarrow> lesson row \<Rightarrow> progress_report \<Rightarrow> nat \<Rightarrow> bool" where
  "earns_completion s ek l q percent =
     (if supports_manual_completion (vals l)
      then pr_mark_completed q \<and> (le_content_type (vals l) = LC_DOCUMENT \<longrightarrow> pr_media_opened q \<or> media_opened_before s ek (row_pk l))
      else \<not> pr_mark_completed q \<and> 9000 \<le> percent)"


lemma read_first: "(case fst (update_lesson_progress class_env 9 1 1 read_it class0) of Inl _ \<Rightarrow> False | Inr p \<Rightarrow> lp_is_completed (vals p))"
  by code_simp


text \<open>C35. Records of lessons that were taken out of the course count towards finishing it: an active enrolment is completed, and the quiz
  opened, as soon as there are as many completed records as active lessons, whichever lessons the records are for.\<close>

theorem withdrawn_lessons_complete_course:
  assumes "update_lesson_progress E now ek lk q s = (Inr p, t)" and "tbl_get ek (enrollments s) = Some e" and "er_status (vals e) = EN_ACTIVE"
    and "active_lessons (er_course (vals e)) (lessons s) \<noteq> []"
    and "length (active_lessons (er_course (vals e)) (lessons s)) \<le> length (completed_ids t ek)"
  shows "\<exists>e'. tbl_get ek (enrollments t) = Some e' \<and> er_status (vals e') = EN_COMPLETED \<and> quiz_lessons_remaining t c (Some e') = 0"
proof (rule update_lesson_progress_Inr [OF assms(1)])
  fix e1
  assume e1: "tbl_get ek (enrollments s) = Some e1"
    and en: "enrollments t = tbl_upd ek now (sync_vals now (filter (\<lambda>p. lp_enrollment (vals p) = ek) (objects (lesson_progresses t)))
       (active_lessons (er_course (vals e1)) (lessons s))) (tbl_upd ek now (\<lambda>v. v\<lparr>er_last_accessed_lesson := Some lk\<rparr>) (enrollments s))"
  have "should_complete (filter (\<lambda>p. lp_enrollment (vals p) = ek) (objects (lesson_progresses t))) (active_lessons (er_course (vals e)) (lessons s))"
    using assms(4,5) by (simp add: should_complete_def completed_ids_def filter_filter conj_commute)
  with e1 assms(2,3) show ?thesis
    by (simp add: en tbl_get_upd sync_vals_def Let_def quiz_lessons_remaining_def)
qed

definition finished_class :: lms_db where
  "finished_class = state_after (update_lesson_progress class_env 9 1 2 read_it) withdrawn_class"

lemma finished_facts:
  "(case fst (update_lesson_progress class_env 9 1 2 read_it withdrawn_class) of Inl _ \<Rightarrow> False | Inr p \<Rightarrow> True)"
  "completed_ids finished_class 1 = [1, 2]" "map row_pk (active_lessons 1 (lessons withdrawn_class)) = [2, 3]"
  by code_simp+

theorem withdrawn_lessons_complete_course_witness:
  "map row_pk (active_lessons 1 (lessons withdrawn_class)) = [2, 3] \<and> completed_ids finished_class 1 = [1, 2] \<and>
   (\<exists>e. tbl_get 1 (enrollments finished_class) = Some e \<and> er_status (vals e) = EN_COMPLETED \<and> quiz_lessons_remaining finished_class 1 (Some e) = 0)"
proof -
  obtain p where run: "update_lesson_progress class_env 9 1 2 read_it withdrawn_class = (Inr p, finished_class)"
    using finished_facts(1) by (cases "update_lesson_progress class_env 9 1 2 read_it withdrawn_class") (auto simp: finished_class_def state_after_def split: sum.splits)
  let ?e = "plain_row 1 (new_enrollment 0 1 1 0)"
  have e: "tbl_get 1 (enrollments withdrawn_class) = Some ?e" "er_status (vals ?e) = EN_ACTIVE" "er_course (vals ?e) = 1"
    by (simp_all add: withdrawn_class_def class0_def plain_row_def new_enrollment_def tbl_get_def tbl_all_def objects_def)
  have "length (active_lessons 1 (lessons withdrawn_class)) = 2" using finished_facts(3) by (metis length_map length_Cons list.size(3) numeral_2_eq_2)
  then have "active_lessons (er_course (vals ?e)) (lessons withdrawn_class) \<noteq> []"
      "length (active_lessons (er_course (vals ?e)) (lessons withdrawn_class)) \<le> length (completed_ids finished_class 1)"
    using finished_facts(2) unfolding e(3) by auto
  from withdrawn_lessons_complete_course [OF run e(1,2) this] finished_facts show ?thesis by simp
qed

end
