(* ===== verification/Lms_Board_Rules.thy ===== *)
theory Lms_Board_Rules
  imports Lms_Example
begin

text \<open>
  Discussions under a lesson: in every reachable state threads have one level, no reply points at a deleted answer, and a question has
  at most one accepted answer. The counter of visible answers is exact after an answer and stale after moderation.
\<close>

section \<open>Threads\<close>

definition anchored :: "lesson_answer table \<Rightarrow> lesson_answer row \<Rightarrow> bool" where
  "anchored t a =
     ((\<forall>p. la_parent (vals a) = Some p \<longrightarrow>
        (\<exists>r \<in> set t. row_pk r = p \<and> la_parent (vals r) = None \<and> la_question (vals r) = la_question (vals a))) \<and>
      (\<forall>p. la_reply_to (vals a) = Some p \<longrightarrow> (\<exists>r \<in> set t. row_pk r = p \<and> la_question (vals r) = la_question (vals a))))"

definition accepted :: "lesson_answer row \<Rightarrow> bool" where
  "accepted a = (is_active a \<and> la_is_accepted (vals a))"

definition one_accepted :: "lesson_answer table \<Rightarrow> bool" where
  "one_accepted t =
     (\<forall>a \<in> set t. \<forall>b \<in> set t. accepted a \<and> accepted b \<and> la_question (vals a) = la_question (vals b) \<longrightarrow> row_pk a = row_pk b)"

lemma one_acceptedI:
  "(\<And>a b. a \<in> set t \<Longrightarrow> b \<in> set t \<Longrightarrow> accepted a \<Longrightarrow> accepted b \<Longrightarrow> la_question (vals a) = la_question (vals b) \<Longrightarrow> row_pk a = row_pk b) \<Longrightarrow>
   one_accepted t"
  unfolding one_accepted_def by blast

lemma one_acceptedD:
  "one_accepted t \<Longrightarrow> a \<in> set t \<Longrightarrow> b \<in> set t \<Longrightarrow> accepted a \<Longrightarrow> accepted b \<Longrightarrow> la_question (vals a) = la_question (vals b) \<Longrightarrow>
   row_pk a = row_pk b"
  unfolding one_accepted_def by blast

definition threads_ok :: "lesson_answer table \<Rightarrow> bool" where
  "threads_ok t = (distinct (map row_pk t) \<and> (\<forall>a \<in> set t. anchored t a) \<and> one_accepted t)"

text \<open>Changes of rows that keep keys and threads.\<close>

definition same_thread :: "lesson_answer row \<Rightarrow> lesson_answer row \<Rightarrow> bool" where
  "same_thread a b =
     (row_pk b = row_pk a \<and> is_active b = is_active a \<and> la_parent (vals b) = la_parent (vals a) \<and>
      la_reply_to (vals b) = la_reply_to (vals a) \<and> la_question (vals b) = la_question (vals a))"

lemma anchored_map:
  assumes f: "\<And>a. same_thread a (f a)" and "anchored t a"
  shows "anchored (map f t) (f a)"
proof -
  have g: "row_pk (f r) = row_pk r" "la_parent (vals (f r)) = la_parent (vals r)" "la_reply_to (vals (f r)) = la_reply_to (vals r)"
      "la_question (vals (f r)) = la_question (vals r)" for r
    using f [of r] by (simp_all add: same_thread_def)
  show ?thesis using assms(2) unfolding anchored_def set_map by (simp add: g)
qed

lemma threads_map:
  assumes "threads_ok t" and f: "\<And>a. same_thread a (f a)" and "one_accepted (map f t)"
  shows "threads_ok (map f t)"
proof -
  have "map row_pk (map f t) = map row_pk t" using f by (simp add: same_thread_def)
  then show ?thesis
    using assms anchored_map [OF f] unfolding threads_ok_def by (auto simp del: map_map)
qed

lemma one_accepted_map:
  assumes "one_accepted t" and f: "\<And>a. same_thread a (f a)" and "\<And>a. a \<in> set t \<Longrightarrow> accepted (f a) \<Longrightarrow> accepted a"
  shows "one_accepted (map f t)"
proof -
  have g: "row_pk (f r) = row_pk r" "la_question (vals (f r)) = la_question (vals r)" for r
    using f [of r] by (simp_all add: same_thread_def)
  show ?thesis
  proof (rule one_acceptedI)
    fix x y
    assume "x \<in> set (map f t)" "y \<in> set (map f t)" and xy: "accepted x" "accepted y" "la_question (vals x) = la_question (vals y)"
    then obtain a b where ab: "x = f a" "y = f b" "a \<in> set t" "b \<in> set t" by (auto simp only: set_map)
    with xy assms(3) have "accepted a" "accepted b" by blast+
    then have "row_pk a = row_pk b" using one_acceptedD [OF assms(1) ab(3,4)] xy(3) unfolding ab(1,2) g by blast
    then show "row_pk x = row_pk y" unfolding ab(1,2) g .
  qed
qed

lemma threads_upd:
  assumes "threads_ok t"
    and f: "\<And>v. la_parent (f v) = la_parent v" "\<And>v. la_reply_to (f v) = la_reply_to v" "\<And>v. la_question (f v) = la_question v"
    and acc: "\<And>r. r \<in> set t \<Longrightarrow> row_pk r = k \<Longrightarrow> la_is_accepted (f (vals r)) \<Longrightarrow> la_is_accepted (vals r)"
  shows "threads_ok (tbl_upd k now f t)"
  unfolding tbl_upd_def
proof (rule threads_map [OF assms(1)])
  show same: "same_thread a (if row_pk a = k then a\<lparr>updated_at := now, vals := f (vals a)\<rparr> else a)" for a
    by (simp add: same_thread_def f)
  show "one_accepted (map (\<lambda>r. if row_pk r = k then r\<lparr>updated_at := now, vals := f (vals r)\<rparr> else r) t)"
  proof (rule one_accepted_map [OF _ same])
    show "one_accepted t" using assms(1) by (simp only: threads_ok_def)
  qed (use acc in \<open>auto simp: accepted_def split: if_splits\<close>)
qed

definition clear_row :: "nat \<Rightarrow> lesson_answer row \<Rightarrow> lesson_answer row" where
  "clear_row q a = (if is_active a \<and> la_question (vals a) = q then a\<lparr>vals := (vals a)\<lparr>la_is_accepted := False\<rparr>\<rparr> else a)"

lemma clear_accepted_map: "clear_accepted q t = map (clear_row q) t"
  by (simp add: clear_accepted_def clear_row_def)

lemma clear_row_simps [simp]:
  "row_pk (clear_row q a) = row_pk a" "la_question (vals (clear_row q a)) = la_question (vals a)"
  "accepted (clear_row q a) \<longleftrightarrow> accepted a \<and> la_question (vals a) \<noteq> q"
  by (auto simp: clear_row_def accepted_def)

lemma clear_same: "same_thread a (clear_row q a)"
  by (simp add: same_thread_def clear_row_def)

lemma threads_clear: "threads_ok t \<Longrightarrow> threads_ok (clear_accepted q t)"
  unfolding clear_accepted_map
proof (rule threads_map [OF _ clear_same])
  assume "threads_ok t"
  then have "one_accepted t" by (simp only: threads_ok_def)
  then show "one_accepted (map (clear_row q) t)" by (rule one_accepted_map [OF _ clear_same]) simp
qed

lemma cleared:
  assumes "a \<in> set (clear_accepted q t)" "la_question (vals a) = q"
  shows "\<not> accepted a"
proof -
  from assms(1) obtain r where "a = clear_row q r" unfolding clear_accepted_map by auto
  with assms(2) show ?thesis by simp
qed

text \<open>Accepting an answer of a question whose answers were cleared.\<close>

lemma threads_accept:
  assumes "threads_ok t" and a: "\<And>r. r \<in> set t \<Longrightarrow> row_pk r = k \<Longrightarrow> la_question (vals r) = q"
    and f: "\<And>v. la_parent (f v) = la_parent v" "\<And>v. la_reply_to (f v) = la_reply_to v" "\<And>v. la_question (f v) = la_question v"
  shows "threads_ok (tbl_upd k now f (clear_accepted q t))"
proof -
  let ?g = "\<lambda>r. if row_pk r = k then r\<lparr>updated_at := now, vals := f (vals r)\<rparr> else r"
  have same: "same_thread r (?g r)" for r by (simp add: same_thread_def f)
  have ok: "threads_ok (clear_accepted q t)" by (rule threads_clear [OF assms(1)])
  have k: "la_question (vals r) = q" if "r \<in> set (clear_accepted q t)" "row_pk r = k" for r
  proof -
    from that(1) obtain r0 where "r0 \<in> set t" "r = clear_row q r0" unfolding clear_accepted_map by auto
    with that(2) a [of r0] show ?thesis by simp
  qed
  have "one_accepted (map ?g (clear_accepted q t))"
  proof (rule one_acceptedI)
    fix x y
    assume "x \<in> set (map ?g (clear_accepted q t))" "y \<in> set (map ?g (clear_accepted q t))"
      and acc_xy: "accepted x" "accepted y" "la_question (vals x) = la_question (vals y)"
    then obtain a b where xy: "accepted x" "accepted y" "la_question (vals x) = la_question (vals y)" "x = ?g a" "y = ?g b"
      and ab: "a \<in> set (clear_accepted q t)" "b \<in> set (clear_accepted q t)" by (auto simp only: set_map)
    have qs: "la_question (vals a) = la_question (vals b)" using xy f by (auto split: if_splits)
    have acc: "row_pk r = k \<or> accepted r" if "accepted (?g r)" for r using that by (auto split: if_splits)
    consider "row_pk a = k" "row_pk b = k" | "row_pk a = k" "accepted b" | "accepted a" "row_pk b = k" | "accepted a" "accepted b"
      using acc xy by blast
    then show "row_pk x = row_pk y"
    proof cases
      case 2
      then show ?thesis using cleared [OF ab(2)] k [OF ab(1)] qs by simp
    next
      case 3
      then show ?thesis using cleared [OF ab(1)] k [OF ab(2)] qs by simp
    next
      case 4
      then have "row_pk a = row_pk b" using ok ab qs one_acceptedD unfolding threads_ok_def by blast
      then show ?thesis using xy(4,5) by simp
    qed (use xy in simp)
  qed
  then show ?thesis unfolding tbl_upd_def by (intro threads_map [OF ok same])
qed

lemma anchored_mono: "anchored t a \<Longrightarrow> set t \<subseteq> set u \<Longrightarrow> anchored u a"
  unfolding anchored_def by blast

lemma threads_append:
  assumes "threads_ok t" and "\<not> la_is_accepted v"
    and "anchored t (new_row now v t)"
  shows "threads_ok (t @ [new_row now v t])"
proof -
  have "distinct (map row_pk (t @ [new_row now v t]))" using assms(1) next_pk_fresh [of t] by (auto simp: threads_ok_def)
  moreover have "\<forall>a \<in> set (t @ [new_row now v t]). anchored (t @ [new_row now v t]) a"
    using assms(1,3) anchored_mono [of t _ "t @ [new_row now v t]"] by (auto simp: threads_ok_def)
  moreover have "one_accepted (t @ [new_row now v t])"
  proof (rule one_acceptedI)
    fix a b
    assume ab: "a \<in> set (t @ [new_row now v t])" "b \<in> set (t @ [new_row now v t])" "accepted a" "accepted b"
      "la_question (vals a) = la_question (vals b)"
    have "\<not> accepted (new_row now v t)" using assms(2) by (simp add: accepted_def)
    with ab(1-4) have "a \<in> set t" "b \<in> set t" by auto
    with ab(3-5) assms(1) show "row_pk a = row_pk b" using one_acceptedD unfolding threads_ok_def by blast
  qed
  ultimately show ?thesis unfolding threads_ok_def by blast
qed

section \<open>Deleting\<close>

definition closed_under_replies :: "lesson_answer table \<Rightarrow> nat list \<Rightarrow> bool" where
  "closed_under_replies t ks = (\<forall>a \<in> set t. \<forall>p. la_parent (vals a) = Some p \<longrightarrow> p \<in> set ks \<longrightarrow> row_pk a \<in> set ks)"

lemma closure_fix: "closed_under_replies t ks \<Longrightarrow> reply_closure n t ks = ks"
proof (induction n)
  case (Suc n)
  have "filter (\<lambda>a. row_pk a \<notin> set ks \<and> (case la_parent (vals a) of None \<Rightarrow> False | Some p \<Rightarrow> p \<in> set ks)) t = []"
    using Suc.prems by (auto simp: filter_empty_conv closed_under_replies_def split: option.splits)
  then show ?case using Suc by simp
qed simp

text \<open>With threads of one level the closure is reached after one round.\<close>

lemma closure_closed:
  assumes "threads_ok t"
  shows "closed_under_replies t (reply_closure (length t) t ks)"
proof (cases t)
  case Nil
  then show ?thesis by (simp add: closed_under_replies_def)
next
  case (Cons a0 t0)
  define ks1 where "ks1 = ks @ map row_pk (filter (\<lambda>a. row_pk a \<notin> set ks \<and> (case la_parent (vals a) of None \<Rightarrow> False | Some p \<Rightarrow> p \<in> set ks)) t)"
  have "closed_under_replies t ks1"
    unfolding closed_under_replies_def
  proof (intro ballI allI impI)
    fix a p
    assume a: "a \<in> set t" "la_parent (vals a) = Some p" "p \<in> set ks1"
    have "p \<in> set ks"
    proof (rule ccontr)
      assume "p \<notin> set ks"
      with a(3) obtain x where x: "x \<in> set t" "row_pk x = p" "la_parent (vals x) \<noteq> None" by (auto simp: ks1_def split: option.splits)
      from assms a(1,2) obtain r where r: "r \<in> set t" "row_pk r = p" "la_parent (vals r) = None"
        unfolding threads_ok_def anchored_def by blast
      from assms x r have "x = r" unfolding threads_ok_def by (metis distinct_pk_eq)
      with x r show False by simp
    qed
    with a(1,2) show "row_pk a \<in> set ks1" by (auto simp: ks1_def)
  qed
  moreover have "reply_closure (length t) t ks = reply_closure (length t0) t ks1" by (simp add: Cons ks1_def)
  ultimately show ?thesis by (simp add: closure_fix)
qed

definition forget_reply :: "nat list \<Rightarrow> lesson_answer row \<Rightarrow> lesson_answer row" where
  "forget_reply ks a =
     (case la_reply_to (vals a) of None \<Rightarrow> a | Some r \<Rightarrow> if r \<in> set ks then a\<lparr>vals := (vals a)\<lparr>la_reply_to := None\<rparr>\<rparr> else a)"

lemma forget_reply_simps [simp]:
  "row_pk (forget_reply ks a) = row_pk a" "is_active (forget_reply ks a) = is_active a" "la_parent (vals (forget_reply ks a)) = la_parent (vals a)"
  "la_question (vals (forget_reply ks a)) = la_question (vals a)" "la_is_accepted (vals (forget_reply ks a)) = la_is_accepted (vals a)"
  by (simp_all add: forget_reply_def split: option.split)

lemma threads_remove:
  assumes "threads_ok t" and "closed_under_replies t ks"
  shows "threads_ok (remove_answers ks t)"
proof -
  have rem: "remove_answers ks t = map (forget_reply ks) (filter (\<lambda>a. row_pk a \<notin> set ks) t)"
    by (simp add: remove_answers_def forget_reply_def)
  have "distinct (map row_pk (filter (\<lambda>a. row_pk a \<notin> set ks) t))" using assms(1) by (simp add: threads_ok_def distinct_map_filter)
  moreover have "map row_pk (remove_answers ks t) = map row_pk (filter (\<lambda>a. row_pk a \<notin> set ks) t)" by (simp add: rem)
  moreover have "anchored (remove_answers ks t) (forget_reply ks a)" if a: "a \<in> set t" "row_pk a \<notin> set ks" for a
    unfolding anchored_def
  proof (intro conjI allI impI)
    fix p
    assume "la_parent (vals (forget_reply ks a)) = Some p"
    then have p: "la_parent (vals a) = Some p" by simp
    with assms(1) a(1) obtain r where r: "r \<in> set t" "row_pk r = p" "la_parent (vals r) = None" "la_question (vals r) = la_question (vals a)"
      unfolding threads_ok_def anchored_def by blast
    moreover have "p \<notin> set ks" using assms(2) a p unfolding closed_under_replies_def by blast
    ultimately show "\<exists>r \<in> set (remove_answers ks t). row_pk r = p \<and> la_parent (vals r) = None \<and> la_question (vals r) = la_question (vals (forget_reply ks a))"
      unfolding rem by (intro bexI [of _ "forget_reply ks r"]) auto
  next
    fix p
    assume "la_reply_to (vals (forget_reply ks a)) = Some p"
    then have p: "la_reply_to (vals a) = Some p" "p \<notin> set ks" by (auto simp: forget_reply_def split: option.splits if_splits)
    with assms(1) a(1) obtain r where "r \<in> set t" "row_pk r = p" "la_question (vals r) = la_question (vals a)"
      unfolding threads_ok_def anchored_def by blast
    with p(2) show "\<exists>r \<in> set (remove_answers ks t). row_pk r = p \<and> la_question (vals r) = la_question (vals (forget_reply ks a))"
      unfolding rem by (intro bexI [of _ "forget_reply ks r"]) auto
  qed
  moreover have "one_accepted (remove_answers ks t)"
  proof (rule one_acceptedI)
    fix x y
    assume "x \<in> set (remove_answers ks t)" "y \<in> set (remove_answers ks t)"
      and xy: "accepted x" "accepted y" "la_question (vals x) = la_question (vals y)"
    then obtain a b where ab: "x = forget_reply ks a" "y = forget_reply ks b" "a \<in> set t" "b \<in> set t" by (auto simp: rem)
    with xy have "accepted a" "accepted b" "la_question (vals a) = la_question (vals b)" by (simp_all add: accepted_def)
    with ab assms(1) have "row_pk a = row_pk b" using one_acceptedD unfolding threads_ok_def by blast
    then show "row_pk x = row_pk y" by (simp add: ab)
  qed
  moreover have "\<forall>x \<in> set (remove_answers ks t). \<exists>a \<in> set t. x = forget_reply ks a \<and> row_pk a \<notin> set ks" by (auto simp: rem)
  ultimately show ?thesis unfolding threads_ok_def by auto
qed

section \<open>Every call keeps the threads\<close>

definition board_ok :: "lms_db \<Rightarrow> bool" where
  "board_ok s = threads_ok (lesson_answers s)"

lemma board_keeps: "keeps board_view m \<Longrightarrow> preserves board_ok m"
  by (erule keeps_preserves) (simp add: board_ok_def board_view_def)

lemma board_transactional:
  "transactional (create_lesson_answer now k u x i p)" "transactional (accept_lesson_answer now k j u)" "transactional (update_lesson_answer now k u x)"
  "transactional (delete_lesson_answer now k u)" "transactional (delete_lesson_question now k u)" "transactional (moderate_lesson_answer now k st acc)"
  unfolding create_lesson_answer_def accept_lesson_answer_def update_lesson_answer_def delete_lesson_answer_def delete_lesson_question_def
    moderate_lesson_answer_def by (rule transactional_atomic)+

lemma reply_target_Inr:
  assumes "reply_target qk p s = (Inr target, t)"
  shows "t = s \<and> (target = None \<or> (\<exists>a. target = Some a \<and> a \<in> set (lesson_answers s) \<and> la_question (vals a) = qk))"
  using assms by (auto simp: reply_target_def svc_inv visible_answers_def answers_of_def objects_def dest!: find_SomeD split: option.splits)

lemma thread_anchor_ok:
  assumes ok: "threads_ok t" and tgt: "target = None \<or> (\<exists>a. target = Some a \<and> a \<in> set t \<and> la_question (vals a) = qk)"
    and v: "la_parent v = thread_anchor target" "la_reply_to v = map_option row_pk target" "la_question v = qk"
  shows "anchored t (new_row now v t)"
proof (cases target)
  case (Some a)
  with tgt have a: "a \<in> set t" "la_question (vals a) = qk" by auto
  from ok a(1) have anc: "anchored t a" by (simp add: threads_ok_def)
  have "\<exists>r \<in> set t. row_pk r = p \<and> la_parent (vals r) = None \<and> la_question (vals r) = qk" if "thread_anchor target = Some p" for p
  proof (cases "la_parent (vals a)")
    case None
    then show ?thesis using that a Some by (auto simp: thread_anchor_def)
  next
    case (Some x)
    then have "x = p" using that \<open>target = Some a\<close> by (simp add: thread_anchor_def)
    with Some anc a(2) show ?thesis by (simp add: anchored_def)
  qed
  then show ?thesis using v a Some by (auto simp: anchored_def)
qed (use v in \<open>simp add: anchored_def thread_anchor_def\<close>)

lemma answer_keeps_threads: "preserves board_ok (create_lesson_answer now qk u body i pid)"
proof (rule preserves_transactional [OF board_transactional(1)])
  fix s y t
  assume ok: "board_ok s" and run: "create_lesson_answer now qk u body i pid s = (Inr y, t)"
  from run obtain l e s1 s2 target where gate: "ensure_lesson_sequence_open u l (Some e) s = (Inr (), s1)"
    and tgt: "reply_target qk pid s1 = (Inr target, s2)"
    and ans: "lesson_answers t = lesson_answers s2 @ [new_row now \<lparr>la_question = qk, la_user = row_pk u, la_parent = thread_anchor target,
            la_reply_to = map_option row_pk target, la_body = strip body, la_edited_at = None, la_status = DS_VISIBLE,
            la_is_instructor_answer = i, la_is_accepted = False\<rparr> (lesson_answers s2)]"
    unfolding create_lesson_answer_def Let_def
    by (auto simp: svc_inv ensure_user_enrolled_for_lesson_def save_question_def split: option.splits)
  have "s1 = s" using keepsD [OF keeps_sequence [of id] gate] by simp
  with ok reply_target_Inr [OF tgt] show "board_ok t"
    unfolding board_ok_def ans by (intro threads_append thread_anchor_ok) auto
qed

lemma unique_row:
  "threads_ok t \<Longrightarrow> tbl_all k t = Some a \<Longrightarrow> r \<in> set t \<Longrightarrow> row_pk r = k \<Longrightarrow> r = a"
  unfolding threads_ok_def by (metis distinct_pk_eq tbl_all_Some)

lemma accept_keeps_threads: "preserves board_ok (accept_lesson_answer now qk ak u)"
proof (rule preserves_transactional [OF board_transactional(2)])
  fix s y t
  assume ok: "board_ok s" and run: "accept_lesson_answer now qk ak u s = (Inr y, t)"
  from run obtain a where a: "tbl_all ak (lesson_answers s) = Some a" "la_question (vals a) = qk"
    and t: "lesson_answers t = tbl_upd ak now (\<lambda>v. v\<lparr>la_is_accepted := True\<rparr>) (clear_accepted qk (lesson_answers s))"
    unfolding accept_lesson_answer_def by (auto simp: svc_inv save_answer_def save_question_def)
  show "board_ok t"
    unfolding board_ok_def t
    by (rule threads_accept) (use ok a unique_row [of "lesson_answers s" ak a] in \<open>auto simp: board_ok_def\<close>)
qed

lemma edit_keeps_threads: "preserves board_ok (update_lesson_answer now ak u body)"
proof (rule preserves_transactional [OF board_transactional(3)])
  fix s y t
  assume ok: "board_ok s" and run: "update_lesson_answer now ak u body s = (Inr y, t)"
  from run have t: "lesson_answers t = tbl_upd ak now (\<lambda>v. v\<lparr>la_body := strip body, la_edited_at := Some now\<rparr>) (lesson_answers s)"
    unfolding update_lesson_answer_def ensure_discussion_owner_def by (auto simp: svc_inv save_answer_def)
  show "board_ok t" unfolding board_ok_def t by (rule threads_upd) (use ok in \<open>simp_all add: board_ok_def\<close>)
qed

lemma cascade_threads: "threads_ok (lesson_answers s) \<Longrightarrow> threads_ok (lesson_answers (state_after (cascade_answers ks) s))"
  by (simp add: cascade_answers_def Let_def threads_remove closure_closed)

lemma delete_answer_keeps_threads: "preserves board_ok (delete_lesson_answer now ak u)"
proof (rule preserves_transactional [OF board_transactional(4)])
  fix s y t
  assume ok: "board_ok s" and run: "delete_lesson_answer now ak u s = (Inr y, t)"
  then consider "lesson_answers t = tbl_upd ak now (\<lambda>v. v\<lparr>la_status := DS_DELETED\<rparr>) (lesson_answers s)"
    | "lesson_answers t = lesson_answers (state_after (cascade_answers [ak]) s)"
    unfolding delete_lesson_answer_def ensure_discussion_owner_def
    by (auto simp: svc_inv save_answer_def save_question_def cascade_answers_def split: if_splits)
  then show "board_ok t"
  proof cases
    case 1
    show ?thesis unfolding board_ok_def 1 by (rule threads_upd) (use ok in \<open>simp_all add: board_ok_def\<close>)
  next
    case 2
    then show ?thesis using ok cascade_threads by (simp add: board_ok_def)
  qed
qed

lemma delete_question_keeps_threads: "preserves board_ok (delete_lesson_question now qk u)"
proof (rule preserves_transactional [OF board_transactional(5)])
  fix s y t
  assume ok: "board_ok s" and run: "delete_lesson_question now qk u s = (Inr y, t)"
  then consider "lesson_answers t = lesson_answers s" | ks where "lesson_answers t = lesson_answers (state_after (cascade_answers ks) s)"
    unfolding delete_lesson_question_def ensure_discussion_owner_def
    by (auto simp: svc_inv save_question_def cascade_answers_def Let_def split: if_splits)
  then show "board_ok t" using ok cascade_threads by cases (auto simp: board_ok_def)
qed

lemma moderate_keeps_threads: "preserves board_ok (moderate_lesson_answer now ak st acc)"
proof (rule preserves_transactional [OF board_transactional(6)])
  fix s y t
  assume ok: "board_ok s" and run: "moderate_lesson_answer now ak st acc s = (Inr y, t)"
  then obtain a x where a: "tbl_all ak (lesson_answers s) = Some a" and x: "st = Some x"
    and t: "lesson_answers t = tbl_upd ak now (\<lambda>v. v\<lparr>la_status := x, la_is_accepted := set_opt acc (la_is_accepted (vals a))\<rparr>)
       (if acc = Some True then clear_accepted (la_question (vals a)) (lesson_answers s) else lesson_answers s)"
    unfolding moderate_lesson_answer_def by (auto simp: svc_inv save_answer_def save_question_def split: option.splits if_splits)
  have u: "r = a" if "r \<in> set (lesson_answers s)" "row_pk r = ak" for r using unique_row [OF _ a that] ok by (simp add: board_ok_def)
  show "board_ok t"
  proof (cases "acc = Some True")
    case True
    then show ?thesis unfolding board_ok_def t by (auto intro!: threads_accept simp: ok [unfolded board_ok_def] dest: u)
  next
    case False
    then have "threads_ok (tbl_upd ak now (\<lambda>v. v\<lparr>la_status := x, la_is_accepted := set_opt acc (la_is_accepted (vals a))\<rparr>) (lesson_answers s))"
      using ok [unfolded board_ok_def] u by (intro threads_upd) (auto simp: set_opt_def split: option.splits)
    with False show ?thesis by (simp add: board_ok_def t)
  qed
qed

lemma question_keeps_board:
  "keeps lesson_answers (create_lesson_question now k u a b)" "keeps lesson_answers (update_lesson_question now k u a b)"
  "keeps lesson_answers (report_lesson_question now k u a b)" "keeps lesson_answers (report_lesson_answer now k u a b)"
  "keeps lesson_answers (moderate_lesson_question now k st pin)" "keeps lesson_answers (review_discussion_report now k rv dst)"
  unfolding create_lesson_question_def update_lesson_question_def report_lesson_question_def report_lesson_answer_def
    moderate_lesson_question_def review_discussion_report_def add_report_def save_question_def Let_def
  by (intro frame_rules; simp)+

lemma answers_keep: "keeps lesson_answers m \<Longrightarrow> preserves board_ok m"
  by (erule keeps_preserves) (simp add: board_ok_def)

lemmas board_rules = answer_keeps_threads accept_keeps_threads edit_keeps_threads delete_answer_keeps_threads delete_question_keeps_threads
  moderate_keeps_threads question_keeps_board [THEN answers_keep]

lemma side_keeps: "keeps side_view m \<Longrightarrow> preserves board_ok m"
  by (rule board_keeps, erule keeps_comp) (rule views(5))

lemma call_keeps_board: "preserves board_ok (run_lms E now c)"
proof (cases c)
  case (RenderCertificate k)
  show ?thesis
    unfolding RenderCertificate run_lms.simps by (intro side_keeps keeps_bnd keeps_follow keeps_done_svc exam_keeps_side)
qed (simp_all only: run_lms.simps,
  (rule preserves_done preserves_by_user,
    rule board_rules | rule preserves_done preserves_by_user, rule board_keeps, rule catalog_keeps_board
   | rule preserves_done preserves_by_user, rule side_keeps, rule quiz_setup_keeps_side learner_keeps exam_keeps_side)+)

interpretation board: invariant_system lms_init lms_step board_ok
proof
  show "lms_init s \<Longrightarrow> board_ok s" for s by (simp add: lms_init_def board_ok_def threads_ok_def one_accepted_def)
  show "board_ok s \<Longrightarrow> lms_step s t \<Longrightarrow> board_ok t" for s t
    using call_keeps_board by (auto elim!: lms_stepE simp: preserves_def)
qed

section \<open>Properties\<close>

text \<open>C36. In every reachable state the discussions are sound: an answer that is a reply hangs on an answer of the same question that
  is no reply itself, the answer it replies to exists and belongs to that question, and no two active answers of a question
  are accepted. Deleting answers and questions for good, with all that goes with them, does not break this.\<close>

theorem discussion_threads_sound:
  assumes "reach lms_init lms_step s" and "a \<in> set (lesson_answers s)"
  shows "anchored (lesson_answers s) a \<and>
    length (filter (\<lambda>b. accepted b \<and> la_question (vals b) = la_question (vals a)) (lesson_answers s)) \<le> 1"
proof -
  have ok: "threads_ok (lesson_answers s)" using board.reach_inv [OF assms(1)] by (simp add: board_ok_def)
  let ?f = "filter (\<lambda>b. accepted b \<and> la_question (vals b) = la_question (vals a)) (lesson_answers s)"
  have same: "row_pk b = row_pk c" if "b \<in> set ?f" "c \<in> set ?f" for b c
    by (rule one_acceptedD [of "lesson_answers s"]) (use ok that in \<open>auto simp: threads_ok_def\<close>)
  have "distinct (map row_pk ?f)" using ok by (simp add: threads_ok_def distinct_map_filter)
  moreover have "set (map row_pk ?f) \<subseteq> {row_pk (hd ?f)}"
  proof
    fix x
    assume "x \<in> set (map row_pk ?f)"
    then obtain b where "b \<in> set ?f" "x = row_pk b" by auto
    moreover from this(1) have "?f \<noteq> []" by force
    then have "hd ?f \<in> set ?f" by (rule hd_in_set)
    ultimately show "x \<in> {row_pk (hd ?f)}" using same [of b "hd ?f"] by simp
  qed
  ultimately have "length (map row_pk ?f) \<le> card {row_pk (hd ?f)}" 
    using card_mono [of "{row_pk (hd ?f)}" "set (map row_pk ?f)"] distinct_card [of "map row_pk ?f"] by simp
  with ok assms(2) show ?thesis by (simp add: threads_ok_def)
qed

definition talk_calls :: "lms_call list" where
  "talk_calls = [CreateCourse 1 class_course, PublishCourse 1, CreateLesson 1 (class_lesson 1 LC_ARTICLE 0), Enroll 1 1,
     AskQuestion 1 1 ''q'' ''b'', Answer 1 1 ''a'' False None, Answer 1 1 ''r'' False (Some 1), Answer 1 1 ''s'' False (Some 2),
     AcceptAnswer 1 1 1, AcceptAnswer 1 3 1]"

definition talk :: lms_db where
  "talk = run_calls class_env 10 talk_calls empty_class"

lemma talk_reach: "reach lms_init lms_step talk"
  unfolding talk_def by (rule reach_run_calls) (rule reach_init, rule empty_class_init)

lemma talk_answers:
  "map (\<lambda>a. (row_pk a, la_parent (vals a), la_reply_to (vals a), la_is_accepted (vals a), la_question (vals a))) (lesson_answers talk) =
     [(1, None, None, False, 1), (2, Some 1, Some 1, False, 1), (3, Some 1, Some 2, True, 1)]"
  by code_simp

theorem discussion_threads_sound_witness:
  "list_all (\<lambda>a. anchored (lesson_answers talk) a) (lesson_answers talk) \<and>
   map (\<lambda>a. (row_pk a, la_parent (vals a))) (lesson_answers talk) = [(1, None), (2, Some 1), (3, Some 1)]"
proof
  show "list_all (\<lambda>a. anchored (lesson_answers talk) a) (lesson_answers talk)"
    using discussion_threads_sound [OF talk_reach] unfolding list_all_iff by blast
  show "map (\<lambda>a. (row_pk a, la_parent (vals a))) (lesson_answers talk) = [(1, None), (2, Some 1), (3, Some 1)]"
    using talk_answers by auto
qed

text \<open>The counter of visible answers is set when an answer is added or deleted for good, and only then: hiding an answer by moderation
  leaves the counter one too high.\<close>

lemma visible_upd:
  assumes "distinct (map row_pk t)" and "a \<in> set (visible_answers q t)" and "\<And>v. la_question (f v) = la_question v"
    and "la_status (f (vals a)) \<noteq> DS_VISIBLE"
  shows "length (visible_answers q t) = Suc (length (visible_answers q (tbl_upd (row_pk a) now f t)))"
proof -
  have a: "a \<in> set t" "is_active a" "la_question (vals a) = q" "la_status (vals a) = DS_VISIBLE"
    using assms(2) by (auto simp: visible_answers_def answers_of_def objects_def)
  from split_list [OF a(1)] obtain xs ys where t: "t = xs @ a # ys" by blast
  have "row_pk a \<notin> row_pk ` (set xs \<union> set ys)" using assms(1) unfolding t by auto
  then have "r \<in> set xs \<union> set ys \<Longrightarrow> row_pk r \<noteq> row_pk a" for r by (metis imageI)
  then have "tbl_upd (row_pk a) now f xs = xs" "tbl_upd (row_pk a) now f ys = ys" by (auto simp: tbl_upd_def intro!: map_idI)
  then have "tbl_upd (row_pk a) now f t = xs @ a\<lparr>updated_at := now, vals := f (vals a)\<rparr> # ys" unfolding t by (simp add: tbl_upd_def)
  then show ?thesis using a assms(3,4) by (simp add: t visible_answers_def answers_of_def objects_def)
qed

theorem hidden_answer_still_counted:
  assumes "distinct (map row_pk (lesson_answers s))" and "a \<in> set (visible_answers qk (lesson_answers s))"
    and "tbl_all qk (lesson_questions s) = Some q" and "lq_answer_count (vals q) = length (visible_answers qk (lesson_answers s))"
  shows "\<exists>y t q'. moderate_lesson_answer now (row_pk a) (Some DS_HIDDEN) None s = (Inr y, t) \<and> tbl_all qk (lesson_questions t) = Some q' \<and>
    lq_answer_count (vals q') = Suc (length (visible_answers qk (lesson_answers t)))"
proof -
  have "a \<in> set (lesson_answers s)" using assms(2) by (auto simp: visible_answers_def answers_of_def objects_def)
  from tbl_all_eq [OF assms(1) this] have a: "tbl_all (row_pk a) (lesson_answers s) = Some a" .
  let ?f = "\<lambda>v. v\<lparr>la_status := DS_HIDDEN, la_is_accepted := la_is_accepted (vals a)\<rparr>"
  have "moderate_lesson_answer now (row_pk a) (Some DS_HIDDEN) None s =
      (Inr (a\<lparr>updated_at := now, vals := ?f (vals a)\<rparr>), s\<lparr>lesson_answers := tbl_upd (row_pk a) now ?f (lesson_answers s)\<rparr>)"
    by (simp add: moderate_lesson_answer_def svc_defs a save_answer_def set_opt_def tbl_all_upd)
  moreover have "length (visible_answers qk (lesson_answers s)) = Suc (length (visible_answers qk (tbl_upd (row_pk a) now ?f (lesson_answers s))))"
    by (rule visible_upd [OF assms(1,2)]) simp_all
  ultimately show ?thesis using assms(3,4) by auto
qed

end
