(* ===== verification/Lms_Quiz_Rules.thy ===== *)
theory Lms_Quiz_Rules
  imports Lms_Example
begin

text \<open>
  Quizzes: how an attempt is scored, when one may be started and what the learner is told about it, and in every reachable state the
  certificates and skills rest on passed attempts.
\<close>

section \<open>Scoring\<close>

text \<open>The reference: the weights of the questions answered by a correct option.\<close>

definition correct_weight :: "lms_db \<Rightarrow> (nat \<times> nat) list \<Rightarrow> nat list \<Rightarrow> nat" where
  "correct_weight s answers ids =
     sum_list (map (\<lambda>k. case (answer_map answers k, tbl_get k (quiz_questions s)) of
         (Some o1, Some q) \<Rightarrow>
           (case tbl_get o1 (quiz_options s) of
              None \<Rightarrow> 0
            | Some r \<Rightarrow> if qo_question (vals r) = k \<and> qo_is_correct (vals r) then qq_weight (vals q) else 0)
       | _ \<Rightarrow> 0) ids)"

definition whole_weight :: "lms_db \<Rightarrow> nat list \<Rightarrow> nat" where
  "whole_weight s ids = sum_list (map (\<lambda>k. case tbl_get k (quiz_questions s) of None \<Rightarrow> 0 | Some q \<Rightarrow> qq_weight (vals q)) ids)"

lemma correct_le_whole: "correct_weight s answers ids \<le> whole_weight s ids"
  unfolding correct_weight_def whole_weight_def by (rule sum_list_mono) (auto split: option.splits)

lemma score_share_le: "a \<le> w \<Longrightarrow> score_share n a w \<le> n"
  by (simp add: score_share_def round_ratio_le)

definition paper_view :: "lms_db \<Rightarrow> quiz_question table \<times> quiz_option table" where
  "paper_view s = (quiz_questions s, quiz_options s)"

lemma answer_question_Inr:
  assumes "answer_question now a answers k s = (Inr w, t)"
  shows "paper_view t = paper_view s \<and> w = correct_weight s answers [k] \<and>
    (\<exists>o1. answer_map answers k = Some o1 \<and> o1 \<in> set (case map_of (at_option_order_snapshot (vals a)) k of None \<Rightarrow> [] | Some os \<Rightarrow> os))"
proof -
  from assms obtain o1 where o1: "answer_map answers k = Some o1"
    by (auto simp: answer_question_def svc_inv split: option.splits)
  with assms obtain q r c where g: "grade s (at_option_order_snapshot (vals a)) k o1 = Inr (q, r, c)"
    and add: "add_answer now (row_pk a) q r c s = (Inr w, t)"
    by (auto simp: answer_question_def svc_inv split: sum.splits prod.splits)
  from g have opt: "o1 \<in> set (case map_of (at_option_order_snapshot (vals a)) k of None \<Rightarrow> [] | Some os \<Rightarrow> os)"
      "tbl_get o1 (quiz_options s) = Some r" "tbl_get k (quiz_questions s) = Some q" "c = (qo_question (vals r) = k \<and> qo_is_correct (vals r))"
    unfolding grade_def by (auto split: if_splits option.splits)
  from add have "paper_view t = paper_view s" "w = (if c then qq_weight (vals q) else 0)"
    by (auto simp: add_answer_def svc_inv Let_def paper_view_def)
  with opt o1 show ?thesis by (simp add: correct_weight_def)
qed

lemma correct_weight_view:
  assumes "paper_view t = paper_view s"
  shows "correct_weight t = correct_weight s"
proof -
  from assms have tables: "quiz_questions t = quiz_questions s" "quiz_options t = quiz_options s" by (simp_all add: paper_view_def)
  show ?thesis by (intro ext) (simp only: correct_weight_def tables)
qed

lemma answers_Inr:
  assumes "for_each ids (answer_question now a answers) s = (Inr ws, t)"
  shows "paper_view t = paper_view s \<and> sum_list ws = correct_weight s answers ids"
  using assms
proof (induction ids arbitrary: s ws)
  case Nil
  then show ?case by (simp add: svc_inv correct_weight_def)
next
  case (Cons k ids)
  then obtain w ws' u where w: "answer_question now a answers k s = (Inr w, u)"
      and ws: "for_each ids (answer_question now a answers) u = (Inr ws', t)" "ws = w # ws'"
    by (auto simp: svc_inv)
  from answer_question_Inr [OF w] Cons.IH [OF ws(1)] ws(2) correct_weight_view [of u s] show ?case
    by (simp add: correct_weight_def)
qed

lemma keeps_answers: "(\<And>s x. g (s\<lparr>quiz_answers := x\<rparr>) = g s) \<Longrightarrow> keeps g (for_each ids (answer_question now a answers))"
  by (intro keeps_for_each keeps_exam_blocks) simp

text \<open>A submission that returns: what was checked, the state when the attempt is stored, and what follows.\<close>

definition after_grading :: "lms_env \<Rightarrow> int \<Rightarrow> quiz row \<Rightarrow> quiz_attempt row \<Rightarrow> (lms_db, unit) svc" where
  "after_grading E now q a =
     seqn (submit_statement E now a)
     (if \<not> at_is_passed (vals a) then ret ()
      else if qz_is_required_for_certificate (vals q) then seqn (issue_certificate_for_attempt E now a) (ret ())
      else seqn (complete_enrollment_after_pass now a) (ret ()))"

lemma submit_quiz_attempt_Inr:
  assumes "submit_quiz_attempt E now ak answers s = (Inr y, t)"
  obtains a q f u where "tbl_get ak (quiz_attempts s) = Some a" "tbl_all (at_quiz (vals a)) (quizzes s) = Some q"
    "at_status (vals a) = QA_IN_PROGRESS" "\<not> expired now a" "answered answers (at_question_snapshot (vals a))"
    "f = grade_vals now (qz_passing_score (vals q)) (correct_weight s answers (at_question_snapshot (vals a)))
       (whole_weight s (at_question_snapshot (vals a)))"
    "y = a\<lparr>updated_at := now, vals := f (vals a)\<rparr>"
    "exam_view u = (tbl_upd ak now f (quiz_attempts s), certificates s, user_skills s)" "after_grading E now q y u = (Inr (), t)"
proof -
  from assms obtain a q where a: "tbl_get ak (quiz_attempts s) = Some a" and q: "tbl_all (at_quiz (vals a)) (quizzes s) = Some q"
    and st: "at_status (vals a) = QA_IN_PROGRESS" and ex: "\<not> expired now a" and an: "answered answers (at_question_snapshot (vals a))"
    and gr: "grade_attempt E now a q answers s = (Inr y, t)"
    unfolding submit_quiz_attempt_def by (auto simp: svc_inv split: if_splits)
  have ak: "row_pk a = ak" using tbl_get_Some [OF a] by simp
  let ?ids = "at_question_snapshot (vals a)"
  let ?s1 = "s\<lparr>quiz_answers := filter (\<lambda>x. \<not> (is_active x \<and> an_attempt (vals x) = row_pk a)) (quiz_answers s)\<rparr>"
  from gr obtain w ws s2 where w: "total_weight s ?ids = Some w" and ans: "for_each ?ids (answer_question now a answers) ?s1 = (Inr ws, s2)"
    and rest: "after_grading E now q (a\<lparr>updated_at := now, vals := grade_vals now (qz_passing_score (vals q)) (sum_list ws) w (vals a)\<rparr>)
        (s2\<lparr>quiz_attempts := tbl_upd ak now (grade_vals now (qz_passing_score (vals q)) (sum_list ws) w) (quiz_attempts s2)\<rparr>) = (Inr (), t)"
    and y: "y = a\<lparr>updated_at := now, vals := grade_vals now (qz_passing_score (vals q)) (sum_list ws) w (vals a)\<rparr>"
    unfolding grade_attempt_def Let_def after_grading_def
    by (auto simp: svc_inv save_attempt_def ak split: option.splits)
  have w': "w = whole_weight s ?ids" using w by (auto simp: total_weight_def whole_weight_def split: if_splits)
  have ws: "sum_list ws = correct_weight s answers ?ids"
    using answers_Inr [OF ans] correct_weight_view [of ?s1 s] by (simp add: paper_view_def)
  have "exam_view s2 = exam_view ?s1" by (rule keepsD [OF keeps_answers ans]) (simp add: exam_view_def)
  then have "exam_view (s2\<lparr>quiz_attempts := tbl_upd ak now (grade_vals now (qz_passing_score (vals q)) (sum_list ws) w) (quiz_attempts s2)\<rparr>) =
      (tbl_upd ak now (grade_vals now (qz_passing_score (vals q)) (sum_list ws) w) (quiz_attempts s), certificates s, user_skills s)"
    by (simp add: exam_view_def)
  from that [OF a q st ex an refl _ _ rest [folded y]] this y show ?thesis unfolding w' ws by blast
qed

text \<open>C37. The score of a submission is the reference score: the learner answered every question shown, the score out of twenty is the
  weight of the correct answers in proportion to the weight of all, rounded half to even to two places and never above twenty,
  and the attempt is passed exactly when the rounded score reaches the passing score of the quiz.\<close>

theorem quiz_score_correct:
  assumes "submit_quiz_attempt E now ak answers s = (Inr y, t)"
  shows "\<exists>a q. tbl_get ak (quiz_attempts s) = Some a \<and> tbl_all (at_quiz (vals a)) (quizzes s) = Some q \<and>
     set (map fst answers) = set (at_question_snapshot (vals a)) \<and>
     at_score_out_of_20 (vals y) = (let whole = whole_weight s (at_question_snapshot (vals a)) in
        if whole = 0 then 0 else round_ratio (correct_weight s answers (at_question_snapshot (vals a)) * 2000) whole) \<and>
     at_score_out_of_20 (vals y) \<le> 2000 \<and> at_score_percent (vals y) \<le> 10000 \<and>
     at_is_passed (vals y) = (qz_passing_score (vals q) \<le> int (at_score_out_of_20 (vals y))) \<and>
     at_status (vals y) = (if at_is_passed (vals y) then QA_PASSED else QA_FAILED)"
proof (rule submit_quiz_attempt_Inr [OF assms])
  fix a q f u
  assume a: "tbl_get ak (quiz_attempts s) = Some a" "tbl_all (at_quiz (vals a)) (quizzes s) = Some q"
    "answered answers (at_question_snapshot (vals a))"
    and f: "f = grade_vals now (qz_passing_score (vals q)) (correct_weight s answers (at_question_snapshot (vals a)))
       (whole_weight s (at_question_snapshot (vals a)))"
    and y: "y = a\<lparr>updated_at := now, vals := f (vals a)\<rparr>"
  have le: "score_share n (correct_weight s answers (at_question_snapshot (vals a))) (whole_weight s (at_question_snapshot (vals a))) \<le> n" for n
    by (rule score_share_le) (rule correct_le_whole)
  show ?thesis
    by (intro exI [of _ a] exI [of _ q])
      (use a le [of 10000] le [of 2000] in \<open>simp add: y f grade_vals_def Let_def answered_def score_share_def [of 2000]\<close>)
qed

text \<open>A submission after the time is refused, and what the code writes before it refuses is undone with the transaction: the attempt
  is not marked as expired, it stays in progress.\<close>

theorem late_submission_leaves_attempt_open:
  assumes "tbl_get ak (quiz_attempts s) = Some a" and "tbl_all (at_quiz (vals a)) (quizzes s) = Some q"
    and "at_status (vals a) = QA_IN_PROGRESS" and "at_expires_at (vals a) = Some x" and "x \<le> now"
  shows "submit_quiz_attempt E now ak answers s = (Inl QuizAttemptSubmissionError, s)"
  using assms by (simp add: submit_quiz_attempt_def svc_defs expired_def save_attempt_def)

definition late_class :: lms_db where
  "late_class = state_after (start_quiz_attempt class_env 10 1 (class_user 1 False)) quiz_class"

lemma late_facts:
  "(case tbl_get 1 (quiz_attempts late_class) of None \<Rightarrow> False
    | Some a \<Rightarrow> at_status (vals a) = QA_IN_PROGRESS \<and> at_expires_at (vals a) = Some 1810 \<and> at_quiz (vals a) = 1 \<and>
        at_question_snapshot (vals a) = [2, 1])"
  "tbl_all 1 (quizzes late_class) = Some (plain_row 1 class_quiz)"
  by code_simp+

theorem late_submission_leaves_attempt_open_witness:
  "submit_quiz_attempt class_env 2000 1 [(1, 1), (2, 3)] late_class = (Inl QuizAttemptSubmissionError, late_class)"
proof -
  from late_facts(1) obtain a where "tbl_get 1 (quiz_attempts late_class) = Some a" "at_status (vals a) = QA_IN_PROGRESS"
      "at_expires_at (vals a) = Some 1810" "at_quiz (vals a) = 1" by (auto split: option.splits)
  then show ?thesis using late_facts(2) by (intro late_submission_leaves_attempt_open [of 1 late_class a "plain_row 1 class_quiz" 1810]) simp_all
qed

lemma submit_facts:
  "(case fst (submit_quiz_attempt class_env 20 1 [(1, 2), (2, 3)] late_class) of Inl _ \<Rightarrow> False
    | Inr y \<Rightarrow> at_score_out_of_20 (vals y) = 1500 \<and> at_is_passed (vals y))"
  by code_simp

theorem quiz_score_correct_witness:
  "\<exists>y t. submit_quiz_attempt class_env 20 1 [(1, 2), (2, 3)] late_class = (Inr y, t) \<and> at_score_out_of_20 (vals y) = 1500 \<and>
     at_score_out_of_20 (vals y) \<le> 2000 \<and> at_status (vals y) = QA_PASSED"
proof -
  obtain y t where run: "submit_quiz_attempt class_env 20 1 [(1, 2), (2, 3)] late_class = (Inr y, t)"
      and y: "at_score_out_of_20 (vals y) = 1500" "at_is_passed (vals y)"
    using submit_facts by (cases "submit_quiz_attempt class_env 20 1 [(1, 2), (2, 3)] late_class") (auto split: sum.splits)
  from quiz_score_correct [OF run] y(2) have "at_score_out_of_20 (vals y) \<le> 2000" "at_status (vals y) = QA_PASSED" by auto
  with run y show ?thesis by blast
qed

section \<open>Starting\<close>

text \<open>C38. A learner in the last allowed attempt is told that no attempt is left, although starting would resume it: the attempt in
  progress counts as used. The description of \<open>get_quiz_attempt_state\<close> promises the exact behaviour of starting.\<close>

theorem last_attempt_reported_locked:
  assumes "tbl_all qk (quizzes s) = Some q" and "qz_status (vals q) = QS_PUBLISHED" and "is_active q"
    and "find_enrollment s (row_pk u) (qz_course (vals q)) = Some e"
    and "greatest (\<lambda>r. at_started_at (vals r)) (filter in_progress (attempts_of s qk (row_pk u))) = Some a" and "\<not> expired now a"
    and "next_attempt_number s qk (row_pk u) = Suc (qz_max_attempts (vals q) + valid_unlocks_count s now qk (row_pk u))"
    and "\<not> list_ex (\<lambda>r. at_is_passed (vals r)) (attempts_of s qk (row_pk u))"
  shows "start_quiz_attempt E now qk u s = (Inr (a, False), s) \<and>
    (\<exists>st. get_quiz_attempt_state now qk u s = (Inr st, s) \<and> st_has_in_progress st \<and> st_locked_reason st = Some LR_out_of_attempts \<and>
       \<not> st_can_attempt st)"
proof
  show "start_quiz_attempt E now qk u s = (Inr (a, False), s)"
    using assms(1-6) by (simp add: start_quiz_attempt_def svc_defs)
  have qk: "row_pk q = qk" using tbl_all_Some [OF assms(1)] by simp
  have "live_attempt s now qk (row_pk u) \<noteq> None"
  proof -
    have mem: "a \<in> set xs" if "greatest f xs = Some a" for f :: "quiz_attempt row \<Rightarrow> int" and xs
      using that by (induction xs) (auto split: option.splits if_splits)
    have some: "greatest f xs \<noteq> None" if "x \<in> set xs" for f :: "quiz_attempt row \<Rightarrow> int" and xs x
      using that by (cases xs) (auto split: option.splits)
    from mem [OF assms(5)] have "a \<in> set (filter (\<lambda>r. in_progress r \<and> \<not> expired now r) (attempts_of s qk (row_pk u)))" using assms(6) by simp
    then show ?thesis unfolding live_attempt_def by (rule some)
  qed
  then show "\<exists>st. get_quiz_attempt_state now qk u s = (Inr st, s) \<and> st_has_in_progress st \<and> st_locked_reason st = Some LR_out_of_attempts \<and>
       \<not> st_can_attempt st"
    using assms(1,7,8) by (simp add: get_quiz_attempt_state_def svc_defs attempt_state_of_def Let_def qk)
qed

text \<open>The same class when one attempt is allowed.\<close>

definition single_class :: lms_db where
  "single_class = late_class\<lparr>quizzes := [plain_row 1 (class_quiz\<lparr>qz_max_attempts := 1\<rparr>)]\<rparr>"

lemma single_facts:
  "tbl_all 1 (quizzes single_class) = Some (plain_row 1 (class_quiz\<lparr>qz_max_attempts := 1\<rparr>))"
  "find_enrollment single_class 1 1 = Some (plain_row 1 (new_enrollment 0 1 1 0))"
  "(case greatest (\<lambda>r. at_started_at (vals r)) (filter in_progress (attempts_of single_class 1 1)) of None \<Rightarrow> False | Some a \<Rightarrow> \<not> expired 20 a)"
  "next_attempt_number single_class 1 1 = 2" "valid_unlocks_count single_class 20 1 1 = 0"
  "\<not> list_ex (\<lambda>r. at_is_passed (vals r)) (attempts_of single_class 1 1)"
  by code_simp+

theorem last_attempt_reported_locked_witness:
  "\<exists>a st. start_quiz_attempt class_env 20 1 (class_user 1 False) single_class = (Inr (a, False), single_class) \<and>
     get_quiz_attempt_state 20 1 (class_user 1 False) single_class = (Inr st, single_class) \<and> \<not> st_can_attempt st"
proof -
  let ?q = "plain_row 1 (class_quiz\<lparr>qz_max_attempts := 1\<rparr>)"
  have q: "qz_status (vals ?q) = QS_PUBLISHED" "is_active ?q" "qz_course (vals ?q) = 1" "qz_max_attempts (vals ?q) = 1" "row_pk (class_user 1 False) = 1"
    by (simp_all add: plain_row_def class_quiz_def new_quiz_def class_user_def)
  obtain a where a: "greatest (\<lambda>r. at_started_at (vals r)) (filter in_progress (attempts_of single_class 1 1)) = Some a" "\<not> expired 20 a"
    using single_facts(3) by (auto split: option.splits)
  have num: "next_attempt_number single_class 1 1 = Suc (qz_max_attempts (vals ?q) + valid_unlocks_count single_class 20 1 1)"
    by (simp only: single_facts(4,5) q(4))
  from last_attempt_reported_locked [OF single_facts(1) q(1,2), of "class_user 1 False", unfolded q(3,5), OF single_facts(2) a num single_facts(6)]
  show ?thesis by blast
qed

end
