(* ===== verification/Lms_Exam_Rules.thy ===== *)
theory Lms_Exam_Rules
  imports Lms_Quiz_Rules
begin

text \<open>
  The invariant of attempts, certificates and skills, and what it gives: certificates rest on passed attempts, a revoked certificate shows
  no skill, and what a learner is told about starting a quiz is what starting does.
\<close>

section \<open>The invariant\<close>

definition attempt_ok :: "quiz_attempt row \<Rightarrow> bool" where
  "attempt_ok a =
     (is_active a \<and> (at_is_passed (vals a) \<longleftrightarrow> at_status (vals a) = QA_PASSED) \<and>
      (at_status (vals a) = QA_FAILED \<longrightarrow> at_submitted_at (vals a) \<noteq> None) \<and> at_score_out_of_20 (vals a) \<le> 2000)"

definition backed :: "quiz_attempt table \<Rightarrow> certificate row \<Rightarrow> bool" where
  "backed as c =
     (\<exists>a \<in> set as. row_pk a = ce_quiz_attempt (vals c) \<and> at_is_passed (vals a) \<and> at_user (vals a) = ce_user (vals c) \<and>
        at_course (vals a) = ce_course (vals c) \<and> at_enrollment (vals a) = ce_enrollment (vals c) \<and>
        at_score_out_of_20 (vals a) = ce_score_out_of_20 (vals c))"

definition holder :: "certificate row \<Rightarrow> nat \<times> nat" where
  "holder c = (ce_user (vals c), ce_course (vals c))"

definition skill_of :: "certificate row \<Rightarrow> user_skill row \<Rightarrow> bool" where
  "skill_of c k =
     (us_certificate (vals k) = row_pk c \<and> (us_user (vals k), us_course (vals k)) = holder c \<and> is_active k = (ce_status (vals c) = CT_ISSUED))"

definition attempts_ok :: "quiz_attempt table \<Rightarrow> bool" where
  "attempts_ok as = (distinct (map row_pk as) \<and> (\<forall>a \<in> set as. attempt_ok a))"

definition certificates_ok :: "quiz_attempt table \<Rightarrow> certificate table \<Rightarrow> bool" where
  "certificates_ok as cs = (distinct (map row_pk cs) \<and> distinct (map holder cs) \<and> (\<forall>c \<in> set cs. is_active c \<and> backed as c))"

definition skills_ok :: "certificate table \<Rightarrow> user_skill table \<Rightarrow> bool" where
  "skills_ok cs ks =
     (distinct (map row_pk ks) \<and> distinct (map (us_certificate \<circ> vals) ks) \<and> (\<forall>k \<in> set ks. \<exists>c \<in> set cs. skill_of c k) \<and>
      (\<forall>c \<in> set cs. \<exists>k \<in> set ks. skill_of c k))"

definition exam_ok :: "lms_db \<Rightarrow> bool" where
  "exam_ok s = (attempts_ok (quiz_attempts s) \<and> certificates_ok (quiz_attempts s) (certificates s) \<and> skills_ok (certificates s) (user_skills s))"

lemma exam_ok_view: "exam_view t = exam_view s \<Longrightarrow> exam_ok t = exam_ok s"
  by (simp add: exam_ok_def exam_view_def)

lemma exam_keeps: "keeps exam_view m \<Longrightarrow> preserves exam_ok m"
  by (erule keeps_preserves) (rule exam_ok_view)

section \<open>Attempts\<close>

text \<open>A row that is in progress may change: the passed ones, on which certificates rest, stay.\<close>

lemma attempts_upd:
  assumes "attempts_ok as" and "\<And>a. a \<in> set as \<Longrightarrow> row_pk a = k \<Longrightarrow> attempt_ok (a\<lparr>updated_at := now, vals := f (vals a)\<rparr>)"
  shows "attempts_ok (tbl_upd k now f as)"
  using assms by (auto simp: attempts_ok_def set_tbl_upd)

lemma backed_upd:
  assumes "backed as c" and "\<And>a. a \<in> set as \<Longrightarrow> row_pk a = k \<Longrightarrow> \<not> at_is_passed (vals a)"
  shows "backed (tbl_upd k now f as) c"
proof -
  from assms(1) obtain a where a: "a \<in> set as" "row_pk a = ce_quiz_attempt (vals c)" "at_is_passed (vals a)" "at_user (vals a) = ce_user (vals c)"
      "at_course (vals a) = ce_course (vals c)" "at_enrollment (vals a) = ce_enrollment (vals c)" "at_score_out_of_20 (vals a) = ce_score_out_of_20 (vals c)"
    unfolding backed_def by blast
  with assms(2) have "row_pk a \<noteq> k" by blast
  with a(1) have "a \<in> set (tbl_upd k now f as)" by (force simp: set_tbl_upd)
  with a show ?thesis unfolding backed_def by blast
qed

lemma certificates_upd:
  assumes "certificates_ok as cs" and "\<And>a. a \<in> set as \<Longrightarrow> row_pk a = k \<Longrightarrow> \<not> at_is_passed (vals a)"
  shows "certificates_ok (tbl_upd k now f as) cs"
  using assms(1) backed_upd [OF _ assms(2)] by (auto simp: certificates_ok_def)

lemma backed_append: "backed as c \<Longrightarrow> backed (as @ bs) c"
  by (auto simp: backed_def)

lemma attempt_row:
  "attempts_ok as \<Longrightarrow> tbl_all k as = Some a \<or> tbl_get k as = Some a \<Longrightarrow> r \<in> set as \<Longrightarrow> row_pk r = k \<Longrightarrow> r = a"
  unfolding attempts_ok_def by (metis distinct_pk_eq tbl_all_Some tbl_get_Some)

lemma in_progress_not_passed: "attempt_ok a \<Longrightarrow> at_status (vals a) = QA_IN_PROGRESS \<Longrightarrow> \<not> at_is_passed (vals a)"
  by (simp add: attempt_ok_def)

text \<open>Storing the expiry of an attempt in progress.\<close>

lemma expire_attempt_ok:
  assumes "exam_ok s" and "a \<in> set (quiz_attempts s)" and "at_status (vals a) = QA_IN_PROGRESS"
  shows "exam_ok (s\<lparr>quiz_attempts := tbl_upd (row_pk a) now (\<lambda>v. v\<lparr>at_status := QA_EXPIRED\<rparr>) (quiz_attempts s)\<rparr>)"
proof -
  have as: "attempts_ok (quiz_attempts s)" using assms(1) by (simp add: exam_ok_def)
  have uniq: "r = a" if "r \<in> set (quiz_attempts s)" "row_pk r = row_pk a" for r
    using as assms(2) that unfolding attempts_ok_def by (metis distinct_pk_eq)
  have a: "attempt_ok a" using as assms(2) by (simp add: attempts_ok_def)
  have "attempts_ok (tbl_upd (row_pk a) now (\<lambda>v. v\<lparr>at_status := QA_EXPIRED\<rparr>) (quiz_attempts s))"
    by (rule attempts_upd [OF as], drule (1) uniq) (use a assms(3) in \<open>simp add: attempt_ok_def\<close>)
  moreover have "certificates_ok (tbl_upd (row_pk a) now (\<lambda>v. v\<lparr>at_status := QA_EXPIRED\<rparr>) (quiz_attempts s)) (certificates s)"
    by (rule certificates_upd, use assms(1) in \<open>simp add: exam_ok_def\<close>, drule (1) uniq) (use in_progress_not_passed [OF a assms(3)] in simp)
  ultimately show ?thesis using assms(1) by (simp add: exam_ok_def)
qed

lemma insert_attempt_ok: "preserves exam_ok (insert_attempt E now q e u n)"
proof (rule preserves_transactional)
  show "transactional (insert_attempt E now q e u n)"
    by (auto simp: transactional_def insert_attempt_def svc_defs Let_def split: if_splits prod.splits)
next
  fix s y t
  assume ok: "exam_ok s" and run: "insert_attempt E now q e u n s = (Inr y, t)"
  then have t: "quiz_attempts t = quiz_attempts s @ [y]" "certificates t = certificates s" "user_skills t = user_skills s"
    and y: "row_pk y = next_pk (quiz_attempts s)" "attempt_ok y"
    by (auto simp: insert_attempt_def svc_inv Let_def attempt_ok_def split: prod.splits)
  have "attempts_ok (quiz_attempts t)"
    using ok y next_pk_fresh [of "quiz_attempts s"] by (auto simp: exam_ok_def attempts_ok_def t)
  moreover have "certificates_ok (quiz_attempts t) (certificates t)"
    using ok by (auto simp: exam_ok_def certificates_ok_def t backed_append)
  ultimately show "exam_ok t" using ok by (simp add: exam_ok_def t)
qed

lemma preserves_case_pair [preserves_rules]: "(\<And>a b. preserves P (f a b)) \<Longrightarrow> preserves P (case v of (a, b) \<Rightarrow> f a b)"
  by (simp split: prod.split)

lemma fresh_ok: "preserves exam_ok (start_fresh_attempt E now q e u)"
proof -
  have rec: "preserves exam_ok (record_learning_activity_statement now' ur cr vb ot oi refs rs cx key)" for now' ur cr vb ot oi refs rs cx key
    by (rule exam_keeps, rule keeps_record) (simp add: exam_view_def)
  have "preserves exam_ok (check_cooldown now q v)" "preserves exam_ok (validate_quiz_publishable k)" for v k
    by (rule exam_keeps, rule keeps_gate)+
  then show ?thesis
    unfolding start_fresh_attempt_def by (intro preserves_rules insert_attempt_ok rec) auto
qed

lemma greatest_Some: "greatest f xs = Some x \<Longrightarrow> x \<in> set xs"
  by (induction xs) (auto split: option.splits if_splits)

lemma greatest_None [simp]: "greatest f xs = None \<longleftrightarrow> xs = []"
  by (cases xs) (auto split: option.splits)

text \<open>Starting resumes an attempt, or fails, or starts afresh, with an outdated attempt marked first.\<close>

definition expire_attempt :: "int \<Rightarrow> quiz_attempt row \<Rightarrow> lms_db \<Rightarrow> lms_db" where
  "expire_attempt now a s = s\<lparr>quiz_attempts := tbl_upd (row_pk a) now (\<lambda>v. v\<lparr>at_status := QA_EXPIRED\<rparr>) (quiz_attempts s)\<rparr>"

lemma start_quiz_attempt_eq:
  assumes "tbl_all qk (quizzes s) = Some q" "qz_status (vals q) = QS_PUBLISHED" "is_active q" "find_enrollment s (row_pk u) (qz_course (vals q)) = Some e"
  shows "start_quiz_attempt E now qk u s =
    (case greatest (\<lambda>r. at_started_at (vals r)) (filter in_progress (attempts_of s qk (row_pk u))) of
       None \<Rightarrow> start_fresh_attempt E now q e u s
     | Some a \<Rightarrow> if expired now a then start_fresh_attempt E now q e u (expire_attempt now a s) else (Inr (a, False), s))"
  using assms by (simp add: start_quiz_attempt_def svc_defs save_attempt_def expire_attempt_def split: option.split)

lemma start_quiz_attempt_refused:
  assumes "\<not> (\<exists>q e. tbl_all qk (quizzes s) = Some q \<and> qz_status (vals q) = QS_PUBLISHED \<and> is_active q \<and>
      find_enrollment s (row_pk u) (qz_course (vals q)) = Some e)"
  shows "snd (start_quiz_attempt E now qk u s) = s"
proof (cases "tbl_all qk (quizzes s)")
  case None
  then show ?thesis by (simp add: start_quiz_attempt_def svc_defs)
next
  case (Some q)
  with assms show ?thesis
    by (cases "find_enrollment s (row_pk u) (qz_course (vals q))") (auto simp: start_quiz_attempt_def svc_defs)
qed

lemma start_ok: "preserves exam_ok (start_quiz_attempt E now qk u)"
  unfolding preserves_def
proof (intro allI impI)
  fix s
  assume ok: "exam_ok s"
  have fresh: "exam_ok (snd (start_fresh_attempt E now q e u s'))" if "exam_ok s'" for q e s'
    using fresh_ok that by (simp add: preserves_def state_after_def)
  show "exam_ok (state_after (start_quiz_attempt E now qk u) s)"
  proof (cases "\<exists>q e. tbl_all qk (quizzes s) = Some q \<and> qz_status (vals q) = QS_PUBLISHED \<and> is_active q \<and>
      find_enrollment s (row_pk u) (qz_course (vals q)) = Some e")
    case True
    then obtain q e where qe: "tbl_all qk (quizzes s) = Some q" "qz_status (vals q) = QS_PUBLISHED" "is_active q"
      "find_enrollment s (row_pk u) (qz_course (vals q)) = Some e" by blast
    show ?thesis
    proof (cases "greatest (\<lambda>r. at_started_at (vals r)) (filter in_progress (attempts_of s qk (row_pk u)))")
      case None
      then show ?thesis using fresh [OF ok] by (simp add: state_after_def start_quiz_attempt_eq [OF qe])
    next
      case (Some a)
      then have "exam_ok (expire_attempt now a s)"
        unfolding expire_attempt_def using greatest_Some [OF Some]
        by (intro expire_attempt_ok [OF ok]) (auto simp: attempts_of_def objects_def in_progress_def)
      with Some fresh ok show ?thesis by (simp add: state_after_def start_quiz_attempt_eq [OF qe])
    qed
  next
    case False
    then show ?thesis using ok start_quiz_attempt_refused by (simp add: state_after_def)
  qed
qed

end
