(* ===== verification/Lms_Certificate_Rules.thy ===== *)
theory Lms_Certificate_Rules
  imports Lms_Exam_Rules
begin

text \<open>
  Certificates and skills: the tables of attempts, certificates and skills stay consistent under every call, so that in every reachable
  state a certificate rests on a passed attempt and a skill is shown exactly while its certificate is valid.
\<close>

section \<open>Issuing\<close>

lemma set_tbl_set_active:
  "set (tbl_set_active k now b t) = (\<lambda>r. if row_pk r = k then r\<lparr>updated_at := now, is_active := b\<rparr> else r) ` set t"
  by (simp add: tbl_set_active_def)

text \<open>The file of a certificate is not looked at by the invariant.\<close>

lemma holder_pdf: "map holder (tbl_upd k now (\<lambda>v. v\<lparr>ce_pdf_file := f\<rparr>) cs) = map holder cs"
  by (simp add: tbl_upd_def holder_def)

lemma certificates_pdf: "certificates_ok as cs \<Longrightarrow> certificates_ok as (tbl_upd k now (\<lambda>v. v\<lparr>ce_pdf_file := f\<rparr>) cs)"
  by (auto simp: certificates_ok_def holder_pdf set_tbl_upd backed_def)

lemma skill_of_pdf: "skill_of (c\<lparr>updated_at := now, vals := (vals c)\<lparr>ce_pdf_file := f\<rparr>\<rparr>) r = skill_of c r"
  by (simp add: skill_of_def holder_def)

lemma skills_pdf:
  assumes "skills_ok cs ks"
  shows "skills_ok (tbl_upd k now (\<lambda>v. v\<lparr>ce_pdf_file := f\<rparr>) cs) ks"
proof -
  have "(\<exists>c \<in> set (tbl_upd k now (\<lambda>v. v\<lparr>ce_pdf_file := f\<rparr>) cs). skill_of c r) \<longleftrightarrow> (\<exists>c \<in> set cs. skill_of c r)" for r
    unfolding set_tbl_upd bex_simps by (rule bex_cong [OF refl]) (simp add: skill_of_pdf)
  with assms show ?thesis by (simp add: skills_ok_def) (auto simp: set_tbl_upd skill_of_pdf)
qed

lemma certificates_append:
  assumes "certificates_ok as cs" and "row_pk c = next_pk cs" "is_active c" "backed as c" "holder c \<notin> holder ` set cs"
  shows "certificates_ok as (cs @ [c])"
  using assms next_pk_fresh [of cs] by (auto simp: certificates_ok_def)

lemma skills_append:
  assumes "skills_ok cs ks" and "row_pk c = next_pk cs" "row_pk k = next_pk ks" "skill_of c k"
  shows "skills_ok (cs @ [c]) (ks @ [k])"
proof -
  have "us_certificate (vals k) \<notin> (us_certificate \<circ> vals) ` set ks"
  proof
    assume "us_certificate (vals k) \<in> (us_certificate \<circ> vals) ` set ks"
    then obtain r where "r \<in> set ks" "us_certificate (vals r) = next_pk cs" using assms(2,4) by (auto simp: skill_of_def)
    with assms(1) obtain c' where "c' \<in> set cs" "row_pk c' = next_pk cs" by (auto simp: skills_ok_def skill_of_def)
    then show False using next_pk_fresh [of cs] by force
  qed
  with assms next_pk_fresh [of ks] show ?thesis by (auto simp: skills_ok_def)
qed

lemma ensure_pdf_Inr:
  assumes "ensure_certificate_pdf_ready E now c s = (Inr b, t)"
  shows "t = s \<or> (\<exists>f. t = s\<lparr>certificates := tbl_upd (row_pk c) now (\<lambda>v. v\<lparr>ce_pdf_file := f\<rparr>) (certificates s)\<rparr>)"
  using assms by (auto simp: ensure_certificate_pdf_ready_def save_certificate_def svc_inv split: if_splits option.splits)

lemma ensure_pdf_transactional: "transactional (ensure_certificate_pdf_ready E now c)"
  by (auto simp: transactional_def ensure_certificate_pdf_ready_def save_certificate_def svc_defs split: if_splits option.splits)

lemma render_ok: "preserves exam_ok (ensure_certificate_pdf_ready E now c)"
  using ensure_pdf_transactional
proof (rule preserves_transactional)
  fix s y t
  assume "exam_ok s" and run: "ensure_certificate_pdf_ready E now c s = (Inr y, t)"
  then show "exam_ok t" using ensure_pdf_Inr [OF run] by (auto simp: exam_ok_def certificates_pdf skills_pdf)
qed

text \<open>What the certificate of an attempt is: the one the learner has for the course, or a new one.\<close>

lemma get_or_create_certificate_Inr:
  assumes "get_or_create_certificate E now v s = (Inr c, t)"
  shows "t = s \<and> c \<in> set (objects (certificates s)) \<and> holder c = (ce_user v, ce_course v) \<or>
    (\<exists>g. find (\<lambda>r. ce_user (vals r) = ce_user v \<and> ce_course (vals r) = ce_course v) (objects (certificates s)) = None \<and>
       t = s\<lparr>certificates := g (certificates s @ [new_row now v (certificates s)])\<rparr> \<and> c \<in> set (certificates t) \<and>
       row_pk c = next_pk (certificates s) \<and>
       (g = (\<lambda>x. x) \<or> (\<exists>f. g = tbl_upd (next_pk (certificates s)) now (\<lambda>v. v\<lparr>ce_pdf_file := f\<rparr>))))"
proof (cases "find (\<lambda>r. ce_user (vals r) = ce_user v \<and> ce_course (vals r) = ce_course v) (objects (certificates s))")
  case None
  let ?r = "new_row now v (certificates s)"
  from assms None obtain b u where pdf: "ensure_certificate_pdf_ready E now ?r (s\<lparr>certificates := certificates s @ [?r]\<rparr>) = (Inr b, u)"
      and c: "tbl_all (next_pk (certificates s)) (certificates u) = Some c" and t: "t = u"
    by (auto simp: get_or_create_certificate_def svc_inv Let_def)
  from ensure_pdf_Inr [OF pdf] tbl_all_Some [OF c] t None show ?thesis
    by (intro disjI2) (elim disjE exE, rule exI [of _ "\<lambda>x. x"], simp, rule exI, auto)
next
  case (Some r)
  with assms have "c = r" "t = s" by (auto simp: get_or_create_certificate_def svc_inv)
  with find_SomeD [OF Some] show ?thesis by (simp add: holder_def)
qed

lemma create_skill_Inr:
  assumes "create_skill_for_certificate E now c s = (Inr k, t)"
  shows "t = s \<and> (\<exists>r \<in> set (user_skills s). (us_user (vals r), us_course (vals r)) = holder c) \<or>
    exam_view t = (quiz_attempts s, certificates s, user_skills s @ [k]) \<and> row_pk k = next_pk (user_skills s) \<and> is_active k \<and>
    us_certificate (vals k) = row_pk c \<and> (us_user (vals k), us_course (vals k)) = holder c \<and>
    (\<forall>r \<in> set (user_skills s). (us_user (vals r), us_course (vals r)) \<noteq> holder c \<and> us_certificate (vals r) \<noteq> row_pk c)"
proof (cases "find (\<lambda>r. us_user (vals r) = ce_user (vals c) \<and> us_course (vals r) = ce_course (vals c)) (objects (user_skills s))")
  case None
  let ?k = "new_row now \<lparr>us_user = ce_user (vals c), us_course = ce_course (vals c), us_certificate = row_pk c,
                us_title = ce_course_title_snapshot (vals c), us_slug = skill_slug E (ce_course_title_snapshot (vals c)) (ce_course (vals c)),
                us_badge_level = badge_level_for_score (ce_score_out_of_20 (vals c)), us_issued_at = now\<rparr> (user_skills s)"
  have kn: "keeps exam_view (notify_lms_certificate_issued E now c)"
    unfolding notify_lms_certificate_issued_def by (rule keeps_emit; simp add: exam_view_def)
  from assms None obtain n where free: "\<not> list_ex (\<lambda>r. us_user (vals r) = ce_user (vals c) \<and> us_course (vals r) = ce_course (vals c) \<or>
                 us_certificate (vals r) = row_pk c) (user_skills s)"
      and k: "k = ?k" and sent: "notify_lms_certificate_issued E now c (s\<lparr>user_skills := user_skills s @ [?k]\<rparr>) = (Inr n, t)"
    by (auto simp: create_skill_for_certificate_def svc_inv Let_def)
  from keepsD [OF kn sent] free k show ?thesis by (simp add: exam_view_def holder_def list_ex_iff)
next
  case (Some r)
  with assms find_SomeD [OF Some] show ?thesis by (auto simp: create_skill_for_certificate_def svc_inv holder_def objects_def)
qed

lemma issue_certificate_Inr:
  assumes "issue_certificate_for_attempt E now a s = (Inr c, t)"
  obtains us co prof s1 s2 s3 where "at_is_passed (vals a)" "row_pk us = at_user (vals a)" "row_pk co = at_course (vals a)"
    "get_or_create_certificate E now (new_certificate E now us prof co a) s = (Inr c, s1)" "exam_view s2 = exam_view s1"
    "\<exists>k. create_skill_for_certificate E now c s2 = (Inr k, s3)" "exam_view t = exam_view s3"
proof -
  from assms obtain us co prof s1 s2 s3 x k y where p: "at_is_passed (vals a)" and us: "tbl_all (at_user (vals a)) (lms_users s) = Some us"
      and co: "tbl_all (at_course (vals a)) (courses s) = Some co"
      and get: "get_or_create_certificate E now (new_certificate E now us prof co a) s = (Inr c, s1)"
      and rec: "record_learning_activity_statement now us co SV_CERTIFICATE_ISSUED ''certificate'' (nat_str (row_pk c))
             \<lparr>rf_lesson = None, rf_enrollment = Some (at_enrollment (vals a)), rf_quiz_attempt = Some (row_pk a),
              rf_certificate = Some (row_pk c)\<rparr>
             [(''certificate_code'', JStr (ce_certificate_code (vals c))), (''score_out_of_20'', le_float E (ce_score_out_of_20 (vals c)))]
             [(''source'', JStr ''certificate_issue'')] (Some (''certificate-issued:'' @ nat_str (row_pk c))) s1 = (Inr x, s2)"
      and k: "create_skill_for_certificate E now c s2 = (Inr k, s3)" and cmp: "complete_enrollment_after_pass now a s3 = (Inr y, t)"
    unfolding issue_certificate_for_attempt_def by (auto simp: svc_inv)
  have "keeps exam_view (complete_enrollment_after_pass now a)"
    by (rule keeps_issue_blocks(2); simp add: exam_view_def)
  then have t: "exam_view t = exam_view s3" using cmp by (rule keepsD)
  have s2: "exam_view s2 = exam_view s1" by (rule keepsD [OF keeps_record rec]) (simp add: exam_view_def)
  from us co have "row_pk us = at_user (vals a)" "row_pk co = at_course (vals a)" by (auto dest: tbl_all_Some)
  with that p get s2 k t show ?thesis by blast
qed

lemma issue_ok:
  assumes ok: "exam_ok s" and a: "a \<in> set (quiz_attempts s)" and run: "issue_certificate_for_attempt E now a s = (Inr c, t)"
  shows "exam_ok t"
proof -
  from run obtain us co prof s1 s2 s3 where passed: "at_is_passed (vals a)" and us: "row_pk us = at_user (vals a)"
      and co: "row_pk co = at_course (vals a)"
      and get: "get_or_create_certificate E now (new_certificate E now us prof co a) s = (Inr c, s1)"
      and s2: "exam_view s2 = exam_view s1" and skill: "\<exists>k. create_skill_for_certificate E now c s2 = (Inr k, s3)"
      and t: "exam_view t = exam_view s3"
    by (rule issue_certificate_Inr)
  let ?v = "new_certificate E now us prof co a"
  let ?cs = "certificates s"
  have v: "ce_user ?v = at_user (vals a)" "ce_course ?v = at_course (vals a)" "ce_quiz_attempt ?v = row_pk a" "ce_status ?v = CT_ISSUED"
      "ce_enrollment ?v = at_enrollment (vals a)" "ce_score_out_of_20 ?v = at_score_out_of_20 (vals a)"
    using us co by (simp_all add: new_certificate_def)
  from skill obtain k where k: "create_skill_for_certificate E now c s2 = (Inr k, s3)" by blast
  from get_or_create_certificate_Inr [OF get] show ?thesis
  proof (rule disjE)
    assume "s1 = s \<and> c \<in> set (objects ?cs) \<and> holder c = (ce_user ?v, ce_course ?v)"
    then have s1: "s1 = s" and c: "c \<in> set (objects ?cs)" by simp_all
    from ok c have "\<exists>r \<in> set (user_skills s). skill_of c r" by (auto simp: exam_ok_def skills_ok_def objects_def)
    moreover have "user_skills s2 = user_skills s" using s2 s1 by (simp add: exam_view_def)
    ultimately have "exam_view s3 = exam_view s" using create_skill_Inr [OF k] s1 s2 by (auto simp: skill_of_def)
    then show ?thesis using ok exam_ok_view t by metis
  next
    assume "\<exists>g. find (\<lambda>r. ce_user (vals r) = ce_user ?v \<and> ce_course (vals r) = ce_course ?v) (objects ?cs) = None \<and>
       s1 = s\<lparr>certificates := g (?cs @ [new_row now ?v ?cs])\<rparr> \<and> c \<in> set (certificates s1) \<and> row_pk c = next_pk ?cs \<and>
       (g = (\<lambda>x. x) \<or> (\<exists>f. g = tbl_upd (next_pk ?cs) now (\<lambda>v. v\<lparr>ce_pdf_file := f\<rparr>)))"
    then obtain g where none: "find (\<lambda>r. ce_user (vals r) = ce_user ?v \<and> ce_course (vals r) = ce_course ?v) (objects ?cs) = None"
      and s1: "s1 = s\<lparr>certificates := g (?cs @ [new_row now ?v ?cs])\<rparr>" and c: "c \<in> set (certificates s1)" "row_pk c = next_pk ?cs"
      and g: "g = (\<lambda>x. x) \<or> (\<exists>f. g = tbl_upd (next_pk ?cs) now (\<lambda>v. v\<lparr>ce_pdf_file := f\<rparr>))"
      by (elim exE conjE)
    let ?r = "new_row now ?v ?cs"
    have hc: "holder c = holder ?r" using c g next_pk_fresh [of ?cs] by (force simp: s1 set_tbl_upd holder_def)
    have free: "holder ?r \<notin> holder ` set ?cs"
      using none ok by (auto simp: find_None_iff objects_def holder_def exam_ok_def certificates_ok_def)
    have v2: "user_skills s2 = user_skills s" "quiz_attempts s2 = quiz_attempts s" "certificates s2 = g (?cs @ [?r])"
      using s2 s1 by (simp_all add: exam_view_def)
    have "\<not> (\<exists>r \<in> set (user_skills s). (us_user (vals r), us_course (vals r)) = holder ?r)"
      using ok free unfolding exam_ok_def skills_ok_def skill_of_def by (metis imageI)
    with create_skill_Inr [OF k] have new: "exam_view s3 = (quiz_attempts s, g (?cs @ [?r]), user_skills s @ [k])"
        "row_pk k = next_pk (user_skills s)" "is_active k" "us_certificate (vals k) = row_pk c" "(us_user (vals k), us_course (vals k)) = holder ?r"
      by (simp_all add: v2 hc)
    have "skill_of ?r k" using new(3-5) c(2) v(4) by (simp add: skill_of_def)
    moreover have "backed (quiz_attempts s) ?r" unfolding backed_def using a passed v by (intro bexI [of _ a]) simp_all
    ultimately have "certificates_ok (quiz_attempts s) (?cs @ [?r])" "skills_ok (?cs @ [?r]) (user_skills s @ [k])"
      using ok free new(2) certificates_append [of "quiz_attempts s" ?cs ?r] skills_append [of ?cs "user_skills s" ?r k]
      by (simp_all add: exam_ok_def)
    then have "certificates_ok (quiz_attempts s) (g (?cs @ [?r]))" "skills_ok (g (?cs @ [?r])) (user_skills s @ [k])"
      using g certificates_pdf skills_pdf by auto
    then show ?thesis using ok new(1) t by (simp add: exam_ok_def exam_view_def)
  qed
qed

section \<open>Submitting and revoking\<close>

lemma graded_ok:
  assumes "attempt_ok a" and "at_status (vals a) = QA_IN_PROGRESS" and "w \<le> n"
  shows "attempt_ok (a\<lparr>updated_at := now, vals := grade_vals now' p w n (vals a)\<rparr>)"
  using assms score_share_le [of w n 2000] by (simp add: attempt_ok_def grade_vals_def Let_def)

lemma after_grading_ok:
  assumes "exam_ok s" and "a \<in> set (quiz_attempts s)" and "after_grading E now q a s = (Inr (), t)"
  shows "exam_ok t"
proof -
  have kc: "keeps exam_view (complete_enrollment_after_pass now a)" by (rule keeps_issue_blocks(2); simp add: exam_view_def)
  from assms(3) obtain x u where st: "submit_statement E now a s = (Inr x, u)"
      and rest: "t = u \<or> (\<exists>c. issue_certificate_for_attempt E now a u = (Inr c, t)) \<or> (\<exists>b. complete_enrollment_after_pass now a u = (Inr b, t))"
    unfolding after_grading_def by (auto simp: svc_inv split: if_splits)
  then have rest: "exam_view t = exam_view u \<or> (\<exists>c. issue_certificate_for_attempt E now a u = (Inr c, t))" using keepsD [OF kc] by blast
  have u: "exam_view u = exam_view s" by (rule keepsD [OF keeps_exam_blocks(7) st]) (simp add: exam_view_def)
  with assms have "exam_ok u" "a \<in> set (quiz_attempts u)" by (simp_all add: exam_ok_def exam_view_def)
  with rest issue_ok exam_ok_view show ?thesis by blast
qed

lemma submit_ok: "preserves exam_ok (submit_quiz_attempt E now ak answers)"
proof (rule preserves_transactional)
  show "transactional (submit_quiz_attempt E now ak answers)" by (simp add: submit_quiz_attempt_def)
next
  fix s y t
  assume ok: "exam_ok s" and run: "submit_quiz_attempt E now ak answers s = (Inr y, t)"
  from run show "exam_ok t"
  proof (rule submit_quiz_attempt_Inr)
    fix a q f u
    assume a: "tbl_get ak (quiz_attempts s) = Some a" and st: "at_status (vals a) = QA_IN_PROGRESS"
      and f: "f = grade_vals now (qz_passing_score (vals q)) (correct_weight s answers (at_question_snapshot (vals a)))
         (whole_weight s (at_question_snapshot (vals a)))"
      and y: "y = a\<lparr>updated_at := now, vals := f (vals a)\<rparr>"
      and u: "exam_view u = (tbl_upd ak now f (quiz_attempts s), certificates s, user_skills s)" and rest: "after_grading E now q y u = (Inr (), t)"
    have as: "attempts_ok (quiz_attempts s)" using ok by (simp add: exam_ok_def)
    have uniq: "r = a" if "r \<in> set (quiz_attempts s)" "row_pk r = ak" for r using attempt_row [OF as] a that by blast
    have aok: "attempt_ok a" using as tbl_get_Some [OF a] by (simp add: attempts_ok_def)
    have "attempts_ok (tbl_upd ak now f (quiz_attempts s))"
      by (rule attempts_upd [OF as], drule (1) uniq) (simp add: f graded_ok [OF aok st correct_le_whole])
    moreover have "certificates_ok (tbl_upd ak now f (quiz_attempts s)) (certificates s)"
      by (rule certificates_upd, use ok in \<open>simp add: exam_ok_def\<close>, drule (1) uniq) (use in_progress_not_passed [OF aok st] in simp)
    ultimately have uok: "exam_ok u" using ok u by (simp add: exam_ok_def exam_view_def)
    have yu: "y \<in> set (quiz_attempts u)" using u tbl_get_Some [OF a] by (force simp: exam_view_def set_tbl_upd y)
    show "exam_ok t" by (rule after_grading_ok [OF uok yu rest])
  qed
qed

text \<open>Revoking changes one certificate and the skill that rests on it.\<close>

definition revoked_vals :: "int \<Rightarrow> nat \<Rightarrow> string \<Rightarrow> certificate \<Rightarrow> certificate" where
  "revoked_vals now u reason v = v\<lparr>ce_status := CT_REVOKED, ce_revoked_by := Some u, ce_revoked_at := Some now, ce_revocation_reason := reason\<rparr>"

lemma certificates_revoke: "certificates_ok as cs \<Longrightarrow> certificates_ok as (tbl_upd k now (revoked_vals now u reason) cs)"
proof -
  have "map holder (tbl_upd k now (revoked_vals now u reason) cs) = map holder cs"
    by (simp add: tbl_upd_def holder_def revoked_vals_def)
  then show "certificates_ok as cs \<Longrightarrow> certificates_ok as (tbl_upd k now (revoked_vals now u reason) cs)"
    by (auto simp: certificates_ok_def set_tbl_upd backed_def revoked_vals_def)
qed

definition revoke_row :: "nat \<Rightarrow> int \<Rightarrow> nat \<Rightarrow> string \<Rightarrow> certificate row \<Rightarrow> certificate row" where
  "revoke_row k now u reason c = (if row_pk c = k then c\<lparr>updated_at := now, vals := revoked_vals now u reason (vals c)\<rparr> else c)"

definition hide_row :: "nat \<Rightarrow> int \<Rightarrow> user_skill row \<Rightarrow> user_skill row" where
  "hide_row k now r = (if us_certificate (vals r) = k then r\<lparr>updated_at := now, is_active := False\<rparr> else r)"

lemma skill_of_revoke: "skill_of c r \<Longrightarrow> skill_of (revoke_row k now u reason c) (hide_row k now r)"
  by (auto simp: skill_of_def revoke_row_def hide_row_def holder_def revoked_vals_def)

lemma hide_found:
  assumes "distinct (map row_pk ks)" "distinct (map (us_certificate \<circ> vals) ks)" "find (\<lambda>r. us_certificate (vals r) = k) ks = Some r"
  shows "tbl_set_active (row_pk r) now False ks = map (hide_row k now) ks"
proof -
  from find_SomeD [OF assms(3)] have r: "r \<in> set ks" "us_certificate (vals r) = k" by auto
  have "row_pk x = row_pk r \<longleftrightarrow> us_certificate (vals x) = k" if "x \<in> set ks" for x
    using that r assms(1,2) distinct_pk_eq [OF assms(1) that r(1)] by (metis comp_apply distinct_map inj_onD)
  then show ?thesis by (simp add: tbl_set_active_def hide_row_def)
qed

lemma skills_revoke:
  assumes "skills_ok cs ks"
  shows "skills_ok (tbl_upd k now (revoked_vals now u reason) cs)
    (case find (\<lambda>r. us_certificate (vals r) = k) ks of None \<Rightarrow> ks | Some r \<Rightarrow> tbl_set_active (row_pk r) now False ks)"
proof -
  have cs: "tbl_upd k now (revoked_vals now u reason) cs = map (revoke_row k now u reason) cs"
    by (simp add: tbl_upd_def revoke_row_def)
  have "(case find (\<lambda>r. us_certificate (vals r) = k) ks of None \<Rightarrow> ks | Some r \<Rightarrow> tbl_set_active (row_pk r) now False ks) = map (hide_row k now) ks"
    using assms hide_found [of ks] by (auto simp: skills_ok_def find_None_iff hide_row_def split: option.split intro!: map_idI [symmetric])
  moreover have "map row_pk (map (hide_row k now) ks) = map row_pk ks" "map (us_certificate \<circ> vals) (map (hide_row k now) ks) = map (us_certificate \<circ> vals) ks"
    by (simp_all add: hide_row_def)
  ultimately show ?thesis using assms skill_of_revoke unfolding skills_ok_def cs by (simp only: set_map ball_simps bex_simps) blast
qed

lemma revoke_ok: "preserves exam_ok (revoke_certificate now k u reason)"
proof (rule preserves_transactional)
  show "transactional (revoke_certificate now k u reason)" by (simp add: revoke_certificate_def)
next
  fix s y t
  assume ok: "exam_ok s" and run: "revoke_certificate now k u reason s = (Inr y, t)"
  from run obtain r where r: "t = s\<lparr>certificates := tbl_upd k now (revoked_vals now u reason) (certificates s),
         user_skills := (case find (\<lambda>r. us_certificate (vals r) = k) (user_skills s) of None \<Rightarrow> user_skills s
           | Some r \<Rightarrow> tbl_set_active (row_pk r) now False (user_skills s))\<rparr>"
    by (auto simp: revoke_certificate_def save_certificate_def revoked_vals_def [abs_def] svc_inv split: option.splits)
  have "certificates_ok (quiz_attempts s) (certificates t)" using ok by (simp add: exam_ok_def r certificates_revoke)
  moreover have "skills_ok (certificates t) (user_skills t)" using ok by (auto simp: exam_ok_def r intro!: skills_revoke)
  ultimately show "exam_ok t" using ok by (simp add: exam_ok_def r)
qed

section \<open>The invariant holds in every reachable state\<close>

lemma setting_keeps: "keeps learn_view m \<Longrightarrow> preserves exam_ok m"
  by (rule exam_keeps, erule keeps_comp) (rule views(3))

lemma call_keeps_exam: "preserves exam_ok (run_lms E now c)"
proof (cases c)
  case (RenderCertificate k)
  show ?thesis
    unfolding RenderCertificate run_lms.simps by (intro preserves_rules preserves_done render_ok)
qed (simp_all only: run_lms.simps,
  (rule preserves_done preserves_by_user,
    rule start_ok submit_ok revoke_ok | rule preserves_done preserves_by_user, rule exam_keeps, rule learner_keeps
   | rule preserves_done preserves_by_user, rule setting_keeps, rule catalog_keeps discussion_keeps quiz_setup_keeps)+)

interpretation exams: invariant_system lms_init lms_step exam_ok
proof
  show "lms_init s \<Longrightarrow> exam_ok s" for s by (simp add: lms_init_def exam_ok_def attempts_ok_def certificates_ok_def skills_ok_def)
  show "exam_ok s \<Longrightarrow> lms_step s t \<Longrightarrow> exam_ok t" for s t
    using call_keeps_exam by (auto elim!: lms_stepE simp: preserves_def)
qed

section \<open>Properties\<close>

text \<open>C39. In every state the services can reach, a certificate rests on a passed attempt of the same learner, course and enrolment and
  shows its score, a learner has at most one certificate for a course, and a skill is shown exactly while its certificate is valid:
  every certificate has its skill, active when the certificate is issued and withdrawn once it is revoked.\<close>

theorem certificates_rest_on_passes:
  assumes "reach lms_init lms_step s"
  shows "(\<forall>c \<in> set (certificates s). \<exists>a \<in> set (quiz_attempts s). row_pk a = ce_quiz_attempt (vals c) \<and> at_status (vals a) = QA_PASSED \<and>
        at_user (vals a) = ce_user (vals c) \<and> at_course (vals a) = ce_course (vals c) \<and>
        at_enrollment (vals a) = ce_enrollment (vals c) \<and> at_score_out_of_20 (vals a) = ce_score_out_of_20 (vals c)) \<and>
     distinct (map (\<lambda>c. (ce_user (vals c), ce_course (vals c))) (certificates s)) \<and>
     (\<forall>c \<in> set (certificates s). \<exists>k \<in> set (user_skills s). us_certificate (vals k) = row_pk c \<and> us_user (vals k) = ce_user (vals c) \<and>
        is_active k = (ce_status (vals c) = CT_ISSUED)) \<and>
     (\<forall>k \<in> set (user_skills s). \<exists>c \<in> set (certificates s). us_certificate (vals k) = row_pk c)"
proof (intro conjI)
  from assms have ok: "attempts_ok (quiz_attempts s)" "certificates_ok (quiz_attempts s) (certificates s)"
      "skills_ok (certificates s) (user_skills s)"
    using exams.reach_inv by (auto simp: exam_ok_def)
  show "\<forall>c \<in> set (certificates s). \<exists>a \<in> set (quiz_attempts s). row_pk a = ce_quiz_attempt (vals c) \<and> at_status (vals a) = QA_PASSED \<and>
        at_user (vals a) = ce_user (vals c) \<and> at_course (vals a) = ce_course (vals c) \<and>
        at_enrollment (vals a) = ce_enrollment (vals c) \<and> at_score_out_of_20 (vals a) = ce_score_out_of_20 (vals c)"
    using ok(1,2) unfolding attempts_ok_def certificates_ok_def backed_def attempt_ok_def by blast
  show "distinct (map (\<lambda>c. (ce_user (vals c), ce_course (vals c))) (certificates s))"
    using ok(2) by (simp add: certificates_ok_def holder_def [abs_def])
  show "\<forall>c \<in> set (certificates s). \<exists>k \<in> set (user_skills s). us_certificate (vals k) = row_pk c \<and> us_user (vals k) = ce_user (vals c) \<and>
        is_active k = (ce_status (vals c) = CT_ISSUED)"
    using ok(3) unfolding skills_ok_def skill_of_def holder_def by blast
  show "\<forall>k \<in> set (user_skills s). \<exists>c \<in> set (certificates s). us_certificate (vals k) = row_pk c"
    using ok(3) unfolding skills_ok_def skill_of_def by blast
qed

text \<open>A learner who takes the quiz of a course and passes; the certificate is then revoked.\<close>

definition exam_calls :: "lms_call list" where
  "exam_calls = [CreateCourse 1 class_course, CreateLesson 1 (class_lesson 1 LC_ARTICLE 0), PublishCourse 1, Enroll 1 1, ReportProgress 1 1 read_it,
     SetUpQuiz 1 no_quiz_patch, AddQuizQuestion 1 ''q'' [] 1 100,
     AddQuizOption 1 ''a'' True 1, AddQuizOption 1 ''b'' False 2, PublishQuiz 1, StartQuiz 1 1, SubmitQuiz 1 [(1, 1)]]"

definition passed_class :: lms_db where
  "passed_class = run_calls class_env 10 exam_calls empty_class"

lemma passed_class_facts:
  "map (\<lambda>c. (row_pk c, ce_quiz_attempt (vals c), ce_score_out_of_20 (vals c))) (certificates passed_class) = [(1, 1, 2000)]"
  by code_simp

theorem certificates_rest_on_passes_witness:
  "\<exists>c \<in> set (certificates passed_class). ce_score_out_of_20 (vals c) = 2000 \<and>
     (\<exists>a \<in> set (quiz_attempts passed_class). row_pk a = ce_quiz_attempt (vals c) \<and> at_status (vals a) = QA_PASSED \<and>
        at_score_out_of_20 (vals a) = 2000) \<and>
     (\<exists>k \<in> set (user_skills passed_class). us_certificate (vals k) = row_pk c \<and> is_active k = (ce_status (vals c) = CT_ISSUED))"
proof -
  have "reach lms_init lms_step passed_class"
    unfolding passed_class_def by (intro reach_run_calls reach_init empty_class_init)
  note rests = certificates_rest_on_passes [OF this]
  from passed_class_facts obtain c where c: "c \<in> set (certificates passed_class)" "ce_score_out_of_20 (vals c) = 2000" by auto
  from bspec [OF conjunct1 [OF rests] c(1)] c(2)
  have "\<exists>a \<in> set (quiz_attempts passed_class). row_pk a = ce_quiz_attempt (vals c) \<and> at_status (vals a) = QA_PASSED \<and>
      at_score_out_of_20 (vals a) = 2000" by auto
  moreover from bspec [OF conjunct1 [OF conjunct2 [OF conjunct2 [OF rests]]] c(1)]
  have "\<exists>k \<in> set (user_skills passed_class). us_certificate (vals k) = row_pk c \<and> is_active k = (ce_status (vals c) = CT_ISSUED)" by blast
  ultimately show ?thesis using c by blast
qed

end
