(* ===== verification/Lms_Quiz_State.thy ===== *)
theory Lms_Quiz_State
  imports Lms_Certificate_Rules
begin

text \<open>
  What \<open>get_quiz_attempt_state\<close> tells a learner about starting the quiz is what \<open>start_quiz_attempt\<close> does: the two compute the same
  gates in different ways, one by reading and one by checking and raising.
\<close>

section \<open>The gates of starting\<close>

definition passed_before :: "lms_db \<Rightarrow> nat \<Rightarrow> nat \<Rightarrow> bool" where
  "passed_before s qk user = list_ex (\<lambda>r. at_is_passed (vals r)) (attempts_of s qk user)"

text \<open>The checks of a fresh start in their order, as one function of the state.\<close>

definition start_gate :: "lms_db \<Rightarrow> int \<Rightarrow> quiz row \<Rightarrow> nat \<Rightarrow> enrollment row \<Rightarrow> lock_reason option" where
  "start_gate s now q user e =
     (if passed_before s (row_pk q) user then Some LR_passed
      else if quiz_lessons_remaining s (qz_course (vals q)) (Some e) \<noteq> 0 then Some LR_lessons_remaining
      else if qz_max_attempts (vals q) + valid_unlocks_count s now (row_pk q) user < next_attempt_number s (row_pk q) user
      then Some LR_out_of_attempts
      else if cooldown_until s now q user \<noteq> None then Some LR_cooldown
      else None)"

fun gate_error :: "lock_reason \<Rightarrow> exn" where
  "gate_error LR_lessons_remaining = QuizNotReadyError"
| "gate_error LR_passed = QuizAttemptLockedError"
| "gate_error LR_out_of_attempts = QuizAttemptLockedError"
| "gate_error LR_cooldown = QuizAttemptLockedError"

lemma next_attempt_number_pos: "0 < next_attempt_number s qk user"
  by (simp add: next_attempt_number_def split: option.split)

lemma attempt_state_gate:
  assumes "find_enrollment s user (qz_course (vals q)) = Some e" and "live_attempt s now (row_pk q) user = None"
  shows "st_locked_reason (attempt_state_of s now q user) = start_gate s now q user e"
    "st_can_attempt (attempt_state_of s now q user) \<longleftrightarrow> start_gate s now q user e = None"
  using assms next_attempt_number_pos [of s "row_pk q" user] by (auto simp: attempt_state_of_def start_gate_def passed_before_def Let_def)

lemma passed_alt:
  assumes "attempts_ok (quiz_attempts s)"
  shows "list_ex (\<lambda>r. at_is_passed (vals r) \<and> \<not> in_progress r) (attempts_of s qk user) = passed_before s qk user"
  using assms by (auto simp: passed_before_def list_ex_iff attempts_of_def objects_def in_progress_def attempts_ok_def attempt_ok_def)

lemma last_failed_submitted: "attempts_ok (quiz_attempts s) \<Longrightarrow> last_failed s qk user = Some f \<Longrightarrow> at_submitted_at (vals f) \<noteq> None"
  unfolding last_failed_def by (drule greatest_Some) (auto simp: attempts_of_def objects_def attempts_ok_def attempt_ok_def)

lemma check_cooldown_gate:
  assumes "attempts_ok (quiz_attempts s)"
  shows "check_cooldown now q user s = (if cooldown_until s now q user = None then (Inr (), s) else (Inl QuizAttemptLockedError, s))"
proof (cases "last_failed s (row_pk q) user")
  case (Some f)
  then obtain t where "at_submitted_at (vals f) = Some t" using last_failed_submitted [OF assms] by blast
  with Some show ?thesis by (simp add: check_cooldown_def cooldown_until_def svc_defs)
qed (simp add: check_cooldown_def cooldown_until_def svc_defs)

lemma greatest_ge: "greatest f xs = Some x \<Longrightarrow> y \<in> set xs \<Longrightarrow> f y \<le> f x"
  by (induction xs arbitrary: x) (auto split: option.splits if_splits)

lemma next_number_free:
  assumes "attempts_ok (quiz_attempts s)"
  shows "\<not> list_ex (\<lambda>r. at_quiz (vals r) = qk \<and> at_user (vals r) = user \<and> at_attempt_number (vals r) = next_attempt_number s qk user) (quiz_attempts s)"
proof
  assume "list_ex (\<lambda>r. at_quiz (vals r) = qk \<and> at_user (vals r) = user \<and> at_attempt_number (vals r) = next_attempt_number s qk user) (quiz_attempts s)"
  then obtain r where r: "r \<in> set (quiz_attempts s)" "at_quiz (vals r) = qk" "at_user (vals r) = user"
      "at_attempt_number (vals r) = next_attempt_number s qk user" by (auto simp: list_ex_iff)
  with assms have mem: "r \<in> set (attempts_of s qk user)" by (simp add: attempts_of_def objects_def attempts_ok_def attempt_ok_def)
  then obtain x where "greatest (\<lambda>r. at_attempt_number (vals r)) (attempts_of s qk user) = Some x"
    by (cases "greatest (\<lambda>r. at_attempt_number (vals r)) (attempts_of s qk user)") auto
  with greatest_ge [OF this mem] r(4) show False by (simp add: next_attempt_number_def)
qed

lemma record_returns:
  assumes "list_all is_active (statements s)" and "key \<noteq> []"
  shows "\<exists>y t. record_learning_activity_statement now u c v ot oi refs rs cx (Some key) s = (Inr y, t)"
proof (cases "find (\<lambda>r. as_idempotency_key (vals r) = Some key) (objects (statements s))")
  case None
  then have "\<not> list_ex (\<lambda>r. as_idempotency_key (vals r) = Some key) (statements s)"
    using assms by (auto simp: find_None_iff objects_def list_all_iff list_ex_iff)
  with None assms(2) show ?thesis by (simp add: record_learning_activity_statement_def svc_defs Let_def)
next
  case (Some r)
  with assms(2) show ?thesis by (simp add: record_learning_activity_statement_def svc_defs)
qed

text \<open>A fresh start is the gate, and returns a new attempt when it is open.\<close>

lemma start_fresh_gate:
  assumes ok: "attempts_ok (quiz_attempts s)" and "publishable s (row_pk q)" "tbl_all (qz_course (vals q)) (courses s) = Some c"
    "list_all is_active (statements s)"
  shows "case start_gate s now q (row_pk u) e of
      Some r \<Rightarrow> fst (start_fresh_attempt E now q e u s) = Inl (gate_error r)
    | None \<Rightarrow> \<exists>a. fst (start_fresh_attempt E now q e u s) = Inr (a, True)"
proof (cases "start_gate s now q (row_pk u) e")
  case (Some r)
  then show ?thesis
    by (auto simp: start_gate_def start_fresh_attempt_def svc_defs passed_alt [OF ok] check_cooldown_gate [OF ok] split: if_splits)
next
  case None
  let ?n = "next_attempt_number s (row_pk q) (row_pk u)"
  obtain a t where a: "insert_attempt E now q e u ?n s = (Inr a, t)" "statements t = statements s"
    using next_number_free [OF ok, of "row_pk q" "row_pk u"]
    by (cases "build_attempt_snapshots E s q") (simp add: insert_attempt_def svc_defs Let_def)
  obtain y t' where rec: "record_learning_activity_statement now u c SV_INITIALIZED ''quiz_attempt'' (nat_str (row_pk a))
               \<lparr>rf_lesson = None, rf_enrollment = Some (row_pk e), rf_quiz_attempt = Some (row_pk a), rf_certificate = None\<rparr>
               [(''attempt_number'', JInt (int ?n))] [(''quiz_id'', JInt (int (row_pk q))), (''source'', JStr ''quiz_start'')]
               (Some (''quiz-start:'' @ nat_str (row_pk a))) t = (Inr y, t')"
    using record_returns [of t "''quiz-start:'' @ nat_str (row_pk a)"] assms(4) a(2) by fastforce
  from None a(1) rec assms(2,3) show ?thesis
    by (auto simp: start_gate_def start_fresh_attempt_def svc_defs passed_alt [OF ok] check_cooldown_gate [OF ok] validate_quiz_publishable_def
        split: if_splits)
qed

section \<open>Marking an expired attempt changes no gate\<close>

lemma attempts_of_expire:
  "attempts_of (expire_attempt now a s) qk user = tbl_upd (row_pk a) now (\<lambda>v. v\<lparr>at_status := QA_EXPIRED\<rparr>) (attempts_of s qk user)"
  by (simp add: attempts_of_def expire_attempt_def objects_tbl_upd) (simp add: tbl_upd_def filter_map comp_def if_distrib cong: if_cong)

lemma greatest_map: "(\<And>x. f (h x) = f x) \<Longrightarrow> greatest f (map h xs) = map_option h (greatest f xs)"
  by (induction xs) (auto split: option.splits)

lemma list_ex_tbl_upd: "(\<And>v. p (f v) = p v) \<Longrightarrow> list_ex (\<lambda>r. p (vals r)) (tbl_upd k now f t) = list_ex (\<lambda>r. p (vals r)) t"
  by (induction t) (auto simp: tbl_upd_def)

lemma gate_expire:
  assumes ok: "attempts_ok (quiz_attempts s)" and a: "a \<in> set (quiz_attempts s)" "in_progress a"
  shows "start_gate (expire_attempt now' a s) now q user e = start_gate s now q user e"
proof -
  let ?t = "expire_attempt now' a s"
  have uniq: "r = a" if "r \<in> set (attempts_of s qk user)" "row_pk r = row_pk a" for r qk
    using ok a(1) that by (auto simp: attempts_of_def objects_def attempts_ok_def intro: distinct_pk_eq)
  have nums: "next_attempt_number ?t qk user = next_attempt_number s qk user" for qk
    unfolding next_attempt_number_def attempts_of_expire unfolding tbl_upd_def by (subst greatest_map) (auto split: option.split)
  have passed: "passed_before ?t qk user = passed_before s qk user" for qk
    unfolding passed_before_def attempts_of_expire by (rule list_ex_tbl_upd) simp
  have failed: "last_failed ?t qk user = last_failed s qk user" for qk
  proof -
    have "filter (\<lambda>r. at_status (vals r) = QA_FAILED) (attempts_of ?t qk user) = filter (\<lambda>r. at_status (vals r) = QA_FAILED) (attempts_of s qk user)"
      unfolding attempts_of_expire by (rule filter_tbl_upd_same, drule (1) uniq) (use a(2) in \<open>simp add: in_progress_def\<close>)
    then show ?thesis by (simp add: last_failed_def)
  qed
  have unlocks: "valid_unlocks_count ?t now qk user = valid_unlocks_count s now qk user" for qk
    by (simp add: valid_unlocks_count_def expire_attempt_def)
  have rest: "quiz_lessons_remaining ?t k x = quiz_lessons_remaining s k x" for k x
    by (simp add: quiz_lessons_remaining_def expire_attempt_def completed_ids_def split: option.split)
  have "cooldown_until ?t now q user = cooldown_until s now q user" unfolding cooldown_until_def nums failed unlocks ..
  then show ?thesis by (simp add: start_gate_def nums passed unlocks rest)
qed

text \<open>With no attempt to resume, starting is a fresh start, after marking an expired attempt.\<close>

lemma start_without_live:
  assumes "tbl_all qk (quizzes s) = Some q" "qz_status (vals q) = QS_PUBLISHED" "is_active q"
    "find_enrollment s (row_pk u) (qz_course (vals q)) = Some e" and "live_attempt s now qk (row_pk u) = None"
  obtains "start_quiz_attempt E now qk u s = start_fresh_attempt E now q e u s"
  | a where "a \<in> set (quiz_attempts s)" "in_progress a" "start_quiz_attempt E now qk u s = start_fresh_attempt E now q e u (expire_attempt now a s)"
proof (cases "greatest (\<lambda>r. at_started_at (vals r)) (filter in_progress (attempts_of s qk (row_pk u)))")
  case None
  then show ?thesis by (intro that(1)) (simp add: start_quiz_attempt_eq [OF assms(1-4)])
next
  case (Some a)
  then have a: "a \<in> set (attempts_of s qk (row_pk u))" "in_progress a" using greatest_Some by fastforce+
  with assms(5) have "expired now a" by (auto simp: live_attempt_def filter_empty_conv)
  with a Some show ?thesis by (intro that(2)) (auto simp: start_quiz_attempt_eq [OF assms(1-4)] attempts_of_def objects_def)
qed

section \<open>Property\<close>


definition open_class :: lms_db where
  "open_class = run_calls class_env 10 (butlast (butlast exam_calls)) empty_class"

lemma open_class_facts:
  "(case (tbl_all 1 (quizzes open_class), find_enrollment open_class 1 1, tbl_all 1 (courses open_class)) of
      (Some q, Some e, Some c) \<Rightarrow> qz_status (vals q) = QS_PUBLISHED \<and> is_active q \<and> qz_course (vals q) = 1
    | _ \<Rightarrow> False)"
  "live_attempt open_class 20 1 1 = None" "publishable open_class 1" "list_all is_active (statements open_class)"
  "(case fst (get_quiz_attempt_state 20 1 (class_user 1 False) open_class) of Inl _ \<Rightarrow> False | Inr st \<Rightarrow> st_can_attempt st)"
  by code_simp+


text \<open>Updating the quiz of a course never changes its title, whatever title is given: it was taken out of the fields before.\<close>

theorem quiz_title_not_updated:
  assumes "distinct (map row_pk (quizzes s))" and "find (\<lambda>r. qz_course (vals r) = ck) (objects (quizzes s)) = Some r"
    and "create_or_update_quiz now ck (p\<lparr>qzp_title := Some x\<rparr>) s = (Inr (y, created), t)"
  shows "\<not> created \<and> row_pk y = row_pk r \<and> qz_title (vals y) = qz_title (vals r)"
proof -
  from find_SomeD [OF assms(2)] have "r \<in> set (quizzes s)" by (simp add: objects_def)
  then have "tbl_all (row_pk r) (quizzes s) = Some r" by (rule tbl_all_eq [OF assms(1)])
  then show ?thesis using assms(2,3)
    by (auto simp: create_or_update_quiz_def svc_inv Let_def update_row_def tbl_all_map apply_quiz_patch_def set_opt_def split: if_splits)
qed

end
