(* ===== verification/Spec2Isabelle.thy ===== *)
theory Spec2Isabelle
  imports Mdk_Correctness Mdk_Branches Mdk_Workflows Mdk_Campaign_Rules Mdk_Recon Mdk_Providers Audit_Chain Auth_Rules Support_Rules Lms_Progress_Rules
    Lms_Board_Rules Lms_Quiz_State
begin

text \<open>
  A verification development for the Setad-Jang platform, a Django service under \<^verbatim>\<open>src/apps\<close>.

  \<^bold>\<open>The program.\<close> The platform is a set of Django applications over one PostgreSQL database. Each has models
  (tables), services (functions that change state, most in \<^verbatim>\<open>transaction.atomic\<close> blocks with row locks),
  selectors (queries), Celery tasks and a REST layer. These parts carry the logic modelled here:

  \<^item> \<^verbatim>\<open>madadkar\<close>: donation campaigns sold in shares. A participation reserves shares, a payment goes through a
    gateway, verification settles it, and refunds, financial adjustments, disbursements, receipts, risk
    signals and reconciliation follow. Counters on the campaign row are recomputed from their source rows.
    A settled payment notifies its donor through \<^verbatim>\<open>notifications\<close>, which also writes the \<^verbatim>\<open>activity\<close> timeline.
  \<^item> \<^verbatim>\<open>audit_logs\<close>: an append-only log whose entries are linked by hashes.
  \<^item> \<^verbatim>\<open>authentication\<close>: identifiers, one-time codes, accounts, login flows, sessions with a cached check on every
    request, and risk signals that count failed logins in the audit log.
  \<^item> \<^verbatim>\<open>support_desk\<close>: tickets with a conversation, a status history and service-level deadlines in business time; a tree
    of categories; assignment by load; a knowledge base with suggested replies and triage.
  \<^item> \<^verbatim>\<open>lms\<close>: courses of lessons that open one after the other, progress of the enrolled learners, questions and answers
    below a lesson, a quiz with limited attempts, and certificates with the skills they show on a profile.

  \<^bold>\<open>The model.\<close> A service is a function from the database to an exception or a value, and a new database
  (\<open>svc\<close> in \<open>Setad_Prelude\<close>); \<open>atomic\<close> restores the database when an exception leaves the block, so what was
  committed before stays. A table is the list of its rows with key, timestamps and soft-delete flag. One record
  stands for each Django model, one datatype for each \<^verbatim>\<open>TextChoices\<close>, one definition for each service. In
  \<^verbatim>\<open>authentication\<close> the cache is a second part of the state that a rollback does not restore (\<open>atomic_db\<close>).

  \<^bold>\<open>Theories.\<close>
  \<^item> \<open>Setad_Prelude\<close>: exceptions, monad, tables (\<^verbatim>\<open>core/models.py\<close>, \<^verbatim>\<open>core/managers.py\<close>), Python strings and JSON;
    the frame rules \<open>keeps\<close> and \<open>preserves\<close>; the interfaces \<open>invariant_system\<close> (an invariant of every reachable
    state) and \<open>evolution\<close> (a preorder that every step of a call follows).
  \<^item> \<open>Notifications\<close>: \<^verbatim>\<open>notifications/services.py\<close>, \<^verbatim>\<open>domain.py\<close>, \<^verbatim>\<open>providers.py\<close> and the bulk path of
    \<^verbatim>\<open>activity/services.py\<close>. Exactly one delivery per unmuted recipient and channel; dispatch attempts each once.
  \<^item> \<open>Mdk_Types\<close>, \<open>Mdk_Counters\<close>, \<open>Mdk_Ledger\<close>, \<open>Mdk_Campaigns\<close>, \<open>Mdk_Providers\<close>, \<open>Mdk_Receipts\<close>, \<open>Mdk_Risk\<close>,
    \<open>Mdk_Payments\<close>, \<open>Mdk_Refunds\<close>, \<open>Mdk_Disbursements\<close>, \<open>Mdk_Recon\<close>: the sections of \<^verbatim>\<open>madadkar/services.py\<close> with
    \<^verbatim>\<open>models.py\<close>, \<^verbatim>\<open>validators.py\<close>, \<^verbatim>\<open>tasks.py\<close>, \<^verbatim>\<open>reconciliation.py\<close> and \<^verbatim>\<open>providers/\<close>, in this order, each with the
    lemmas on its own operations. \<open>Review_Workflow\<close> is the abstract review process that refunds, adjustments
    and disbursements refine.
  \<^item> \<open>Mdk_System\<close> collects the services as calls and defines two transition systems: \<open>txn_step\<close>, in which the
    transactions of concurrent calls interleave freely, and \<open>call_step\<close>, in which calls run one after the
    other. \<open>Mdk_Coherence\<close> has the invariant of the second. \<open>Mdk_Correctness\<close>, \<open>Mdk_Branches\<close>, \<open>Mdk_Workflows\<close>
    and \<open>Mdk_Campaign_Rules\<close> state the properties; \<open>Mdk_Example\<close> has the concrete states of their witnesses.
  \<^item> \<open>Audit_Log\<close> (definitions) and \<open>Audit_Chain\<close> (properties): \<^verbatim>\<open>audit_logs/models.py\<close>, \<^verbatim>\<open>services.py\<close>, \<^verbatim>\<open>chain.py\<close>,
    \<^verbatim>\<open>tasks.py\<close>, \<^verbatim>\<open>exporters.py\<close>, \<^verbatim>\<open>retention.py\<close>.
  \<^item> \<open>Auth_Identifiers\<close> (\<^verbatim>\<open>authentication/normalizers.py\<close>), \<open>Auth_Types\<close> (\<^verbatim>\<open>models.py\<close>, \<^verbatim>\<open>choices.py\<close>), \<open>Auth_Otp\<close>
    (\<^verbatim>\<open>otp.py\<close>), \<open>Auth_Sessions\<close> and \<open>Auth_Accounts\<close> (\<^verbatim>\<open>services.py\<close>, \<^verbatim>\<open>managers.py\<close>, \<^verbatim>\<open>selectors.py\<close>, \<^verbatim>\<open>backends.py\<close>);
    \<open>Auth_Otp_Rules\<close>, \<open>Auth_Session_Rules\<close> and \<open>Auth_Rules\<close> have the properties.
  \<^item> \<open>Unique_Slug\<close>: the slug scheme of several models. \<open>Support_Types\<close> (\<^verbatim>\<open>support_desk/models.py\<close>, \<^verbatim>\<open>choices.py\<close>),
    \<open>Support_Calendar\<close> (business time), \<open>Support_Text\<close> (normalisation, tokens, similarity), \<open>Support_Taxonomy\<close> and
    \<open>Support_Config\<close> (departments, category tree, calendars, policies, ticket types), \<open>Support_Tickets\<close> and
    \<open>Support_Workflow\<close> (tickets), \<open>Support_Knowledge\<close> (articles, drafts, triage): the sections of
    \<^verbatim>\<open>support_desk/services.py\<close>. A ticket service gets the ticket as an object that may be older than the row.
    \<open>Support_Tree\<close> and \<open>Support_Trail\<close> have the invariants of the tree and of histories and counters,
    \<open>Support_System\<close> the transition systems that keep them, \<open>Support_Rules\<close> and \<open>Support_Triage\<close> the properties,
    \<open>Support_Example\<close> the states of their witnesses.
  \<^item> \<open>Lms_Types\<close> (\<^verbatim>\<open>lms/models.py\<close>, \<^verbatim>\<open>choices.py\<close>), \<open>Lms_Catalog\<close> (categories, courses, lessons, video jobs),
    \<open>Lms_Progress\<close> (enrolment, statements, media, progress), \<open>Lms_Discussion\<close>, \<open>Lms_Quiz\<close> (quizzes, attempts,
    certificates): the sections of \<^verbatim>\<open>lms/services.py\<close>. \<open>Lms_System\<close> has the calls as a transition system and what each leaves
    alone; \<open>Lms_Progress_Rules\<close>, \<open>Lms_Board_Rules\<close>, \<open>Lms_Exam_Rules\<close> and \<open>Lms_Certificate_Rules\<close> interpret the
    interfaces of the prelude on it; \<open>Lms_Quiz_Rules\<close> and \<open>Lms_Quiz_State\<close> are on scoring and starting; \<open>Lms_Example\<close>
    has the states of the witnesses. A decimal column is a number of hundredths.

  \<^bold>\<open>What is shown.\<close> C1--C7: counters always equal their sources, shares are never oversold, payment and
  participation agree, refunds never exceed the payment, settlement is idempotent and complete. C8--C10: a failed
  gateway request, the append-only ledger, the expiry task. C11, C12: the review workflows as a refinement, and
  disbursements within what was collected. C13--C15: slugs, the frozen fields of a campaign, undoing an offline
  funding. C16: receipts. C17: notifications. C18--C20: the audit chain never forks and shows tampering,
  and how it breaks. C21--C26: canonical identifiers, single use and guess bound of codes, the round trip from
  generation to verification, the rollback that makes reset codes guessable, and the end of all sessions after
  a reset. C27--C31: the support desk: complete histories and exact counters, the category forest, business time, the
  pausing clock and breach marking. C32--C40: the learning platform: well-typed records, progress that is never lost,
  completion of lessons and courses, threads of discussion, the score of a quiz, certificates that rest on
  passed attempts, and what a learner is told about starting. Further theorems of the theories show the defects
  that modelling found and the branches beside these.

  \<^bold>\<open>Interleaving.\<close> In \<open>txn_step\<close> a step is one whole transaction; it is serialisable because the code locks the
  rows it reads before writing. Writers of the audit log and verifications of a code are split into their single
  database statements (\<open>chain_step\<close>, \<open>otp_step\<close>), because there the code relies on unique constraints and
  conditional updates instead of locks.

  \<^bold>\<open>Parameters.\<close> HTTP and the gateways behind it, SHA-256, HMAC and salted digests, password hashing, the token
  library, random draws and shuffles, the mail and SMS transports, the PDF renderer, the signing of media tokens, \<^verbatim>\<open>slugify\<close>, the time zone database, Python's recursion limit
  and the template renderer are arguments of the definitions that use them. A hypothesis on one of them (the absence of a hash collision, for instance) is
  stated in the theorem that needs it.

  \<^bold>\<open>Bounds.\<close> Loops of the source are bounded recursions with the bound of the source: eight attempts to insert an
  audit entry, 9998 slug candidates; C13 shows that the latter are enough. Integers of the database are
  unbounded here, and the lengths of text columns are enforced only where a service checks them. Times are
  seconds, read once per call. Text is a list of UTF-8 bytes, with the case and the white space of ASCII: user-visible
  Persian messages are left out or stand as English words, and Unicode digits and letters that Python would also
  accept in identifiers are not considered.

  \<^bold>\<open>Not modelled.\<close> Views, serializers, permissions, URL tables, admin pages and migrations; settings; byte-level CSV,
  XLSX and ZIP rendering; Celery's scheduling and retries beyond what is said at each task; read-only dashboard
  queries. The drawing of certificates and of document pages is a parameter. A row that \<^verbatim>\<open>lms\<close> deletes for good frees its
  key here. Password policy and the abuse guards of \<^verbatim>\<open>authentication\<close>, and the applications
  \<^verbatim>\<open>r4j\<close>, \<^verbatim>\<open>kindness_wall\<close>, \<^verbatim>\<open>tabyin\<close> and \<^verbatim>\<open>public_reports\<close> are not part of the development.
\<close>

end
